(* ===== verification/Prelude.thy ===== *)
theory Prelude
  imports Main
begin

text \<open>
  Shared infrastructure of the development: JavaScript exceptions as values, the two monads the
  translated handlers are written in (results that may throw, and stateful operations that may
  throw and keep the state they had mutated so far), Hoare-style rules for the stateful ones, and
  the generic list lemmas the components share.
\<close>

named_theorems hoare_rules \<open>introduction rules for triples over stateful operations\<close>
named_theorems keeps_rules \<open>introduction rules for invariants of stateful operations\<close>
named_theorems sm_simps \<open>evaluation rules of the stateful operations\<close>

section \<open>Exceptions and results\<close>

text \<open>
  A thrown JavaScript error: the class it is an instance of, its \<open>code\<close> property when it has one,
  and its message. The HTTP status some of the classes carry is read by the HTTP layer only and is
  not modelled.
\<close>

datatype jerr = Err (err_class: string) (err_code: "string option") (err_msg: string)

type_synonym 'a res = "jerr + 'a"

definition type_error :: jerr where
  "type_error = Err ''TypeError'' None ''''"

definition io_error :: jerr where
  "io_error = Err ''Error'' (Some ''EIO'') ''''"

fun bnd :: "'a res \<Rightarrow> ('a \<Rightarrow> 'b res) \<Rightarrow> 'b res" where
  "bnd (Inl e) f = Inl e"
| "bnd (Inr x) f = f x"

lemma bnd_Inr_iff: "bnd m f = Inr y \<longleftrightarrow> (\<exists>x. m = Inr x \<and> f x = Inr y)"
  by (cases m) auto

lemma bnd_Inl_iff: "bnd m f = Inl e \<longleftrightarrow> m = Inl e \<or> (\<exists>x. m = Inr x \<and> f x = Inl e)"
  by (cases m) auto

lemma bnd_InrE [elim!]:
  assumes "bnd m f = Inr y"
  obtains x where "m = Inr x" "f x = Inr y"
  using assms by (cases m) auto

lemma bnd_cong [fundef_cong]:
  "m = m' \<Longrightarrow> (\<And>x. m' = Inr x \<Longrightarrow> f x = g x) \<Longrightarrow> bnd m f = bnd m' g"
  by (cases m') auto

lemma if_throw_Inr [simp]: "(if c then Inl e else m) = Inr x \<longleftrightarrow> \<not> c \<and> m = Inr x"
  by auto

text \<open>A run that returned, taken apart along its checks, binds and branches: \<open>(elim unravel)\<close>.\<close>

lemma throw_ifE: "(if c then Inl e else m) = Inr x \<Longrightarrow> (\<not> c \<Longrightarrow> m = Inr x \<Longrightarrow> P) \<Longrightarrow> P"
  by simp

lemma choose_ifE:
  "(if c then m else n) = Inr x \<Longrightarrow> (c \<Longrightarrow> m = Inr x \<Longrightarrow> P) \<Longrightarrow> (\<not> c \<Longrightarrow> n = Inr x \<Longrightarrow> P) \<Longrightarrow> P"
  by (cases c) simp_all

lemma Inr_InrE: "Inr x = Inr y \<Longrightarrow> (x = y \<Longrightarrow> P) \<Longrightarrow> P"
  by simp

lemma Inl_InrE: "Inl x = Inr y \<Longrightarrow> P"
  by simp

lemmas unravel = throw_ifE bnd_InrE choose_ifE Inr_InrE Inl_InrE

fun is_ok :: "'a res \<Rightarrow> bool" where
  "is_ok (Inl _) = False"
| "is_ok (Inr _) = True"

lemma is_ok_iff: "is_ok m \<longleftrightarrow> (\<exists>x. m = Inr x)"
  by (cases m) auto

text \<open>\<open>array.map(f)\<close> with an \<open>f\<close> that may throw: the first exception ends it.\<close>

fun map_res :: "('a \<Rightarrow> 'b res) \<Rightarrow> 'a list \<Rightarrow> 'b list res" where
  "map_res f [] = Inr []"
| "map_res f (x # xs) = bnd (f x) (\<lambda>y. bnd (map_res f xs) (\<lambda>ys. Inr (y # ys)))"

lemma map_res_cong [fundef_cong]:
  "xs = ys \<Longrightarrow> (\<And>x. x \<in> set ys \<Longrightarrow> f x = g x) \<Longrightarrow> map_res f xs = map_res g ys"
  by (induction ys arbitrary: xs) auto

text \<open>The callback that also takes the index.\<close>

fun map_res_from :: "nat \<Rightarrow> ('a \<Rightarrow> nat \<Rightarrow> 'b res) \<Rightarrow> 'a list \<Rightarrow> 'b list res" where
  "map_res_from i f [] = Inr []"
| "map_res_from i f (x # xs) =
     bnd (f x i) (\<lambda>y. bnd (map_res_from (Suc i) f xs) (\<lambda>ys. Inr (y # ys)))"

lemma map_res_Inr_length: "map_res f xs = Inr ys \<Longrightarrow> length ys = length xs"
  by (induction xs arbitrary: ys) auto

lemma map_res_Inr_nth: "map_res f xs = Inr ys \<Longrightarrow> list_all2 (\<lambda>x y. f x = Inr y) xs ys"
  by (induction xs arbitrary: ys) auto

lemma map_res_Inr_set: "map_res f xs = Inr ys \<Longrightarrow> y \<in> set ys \<Longrightarrow> \<exists>x \<in> set xs. f x = Inr y"
  by (induction xs arbitrary: ys) auto

lemma map_res_map: "(\<And>x. x \<in> set xs \<Longrightarrow> f (g x) = Inr (h x)) \<Longrightarrow> map_res f (map g xs) = Inr (map h xs)"
  by (induction xs) auto

lemma map_res_from_Inr_length: "map_res_from i f xs = Inr ys \<Longrightarrow> length ys = length xs"
  by (induction xs arbitrary: i ys) auto

lemma map_res_from_Inr_set:
  "map_res_from i f xs = Inr ys \<Longrightarrow> y \<in> set ys \<Longrightarrow> \<exists>x \<in> set xs. \<exists>j. f x j = Inr y"
  by (induction xs arbitrary: i ys) fastforce+

lemma map_res_from_map:
  "(\<And>x j. x \<in> set xs \<Longrightarrow> f (g x) j = Inr (h x)) \<Longrightarrow> map_res_from i f (map g xs) = Inr (map h xs)"
  by (induction xs arbitrary: i) auto

section \<open>Stateful operations\<close>

text \<open>
  A method of a registry: it reads and writes the state and returns or throws. A throw keeps every
  assignment made before it, as JavaScript does.
\<close>

type_synonym ('s, 'a) sm = "'s \<Rightarrow> 'a res \<times> 's"

definition sret :: "'a \<Rightarrow> ('s, 'a) sm" where
  "sret x = (\<lambda>s. (Inr x, s))"

definition sthrow :: "jerr \<Rightarrow> ('s, 'a) sm" where
  "sthrow e = (\<lambda>s. (Inl e, s))"

definition slift :: "'a res \<Rightarrow> ('s, 'a) sm" where
  "slift r = (\<lambda>s. (r, s))"

definition sbind :: "('s, 'a) sm \<Rightarrow> ('a \<Rightarrow> ('s, 'b) sm) \<Rightarrow> ('s, 'b) sm" where
  "sbind m f = (\<lambda>s. case m s of (Inl e, s') \<Rightarrow> (Inl e, s') | (Inr x, s') \<Rightarrow> f x s')"

definition sget :: "('s \<Rightarrow> 'a) \<Rightarrow> ('s, 'a) sm" where
  "sget f = (\<lambda>s. (Inr (f s), s))"

definition smod :: "('s \<Rightarrow> 's) \<Rightarrow> ('s, unit) sm" where
  "smod f = (\<lambda>s. (Inr (), f s))"

text \<open>\<open>try { m } catch (error) { h(error) }\<close>\<close>

definition scatch :: "('s, 'a) sm \<Rightarrow> (jerr \<Rightarrow> ('s, 'a) sm) \<Rightarrow> ('s, 'a) sm" where
  "scatch m h = (\<lambda>s. case m s of (Inl e, s') \<Rightarrow> h e s' | (Inr x, s') \<Rightarrow> (Inr x, s'))"

lemma sret_apply [simp, sm_simps]: "sret x s = (Inr x, s)"
  by (simp add: sret_def)

lemma sthrow_apply [simp, sm_simps]: "sthrow e s = (Inl e, s)"
  by (simp add: sthrow_def)

lemma slift_apply [simp, sm_simps]: "slift r s = (r, s)"
  by (simp add: slift_def)

lemma sget_apply [simp, sm_simps]: "sget f s = (Inr (f s), s)"
  by (simp add: sget_def)

lemma smod_apply [simp, sm_simps]: "smod f s = (Inr (), f s)"
  by (simp add: smod_def)

lemma sbind_apply [sm_simps]:
  "sbind m f s = (case m s of (Inl e, s') \<Rightarrow> (Inl e, s') | (Inr x, s') \<Rightarrow> f x s')"
  by (simp add: sbind_def)

lemma scatch_apply [sm_simps]:
  "scatch m h s = (case m s of (Inl e, s') \<Rightarrow> h e s' | (Inr x, s') \<Rightarrow> (Inr x, s'))"
  by (simp add: scatch_def)

lemma sbind_Inr: "m s = (Inr x, s') \<Longrightarrow> sbind m f s = f x s'"
  by (simp add: sbind_apply)

lemma sbind_Inl: "m s = (Inl e, s') \<Longrightarrow> sbind m f s = (Inl e, s')"
  by (simp add: sbind_apply)

lemma sbind_sret [simp]: "sbind (sret x) f = f x"
  by (rule ext) (simp add: sbind_apply)

lemma sbind_sthrow [simp]: "sbind (sthrow e) f = sthrow e"
  by (rule ext) (simp add: sbind_apply)

lemma sbind_assoc: "sbind (sbind m f) g = sbind m (\<lambda>x. sbind (f x) g)"
  by (rule ext) (simp add: sbind_apply split: prod.splits sum.splits)

lemma sbind_returnsE:
  assumes "sbind m f s = (Inr y, s'')"
  obtains x s' where "m s = (Inr x, s')" "f x s' = (Inr y, s'')"
  using assms by (auto simp: sbind_apply split: prod.splits sum.splits)

subsection \<open>Hoare triples\<close>

text \<open>
  \<open>hoare P m Q E\<close>: from a state with \<open>P\<close>, a normal return satisfies \<open>Q\<close> and a throw satisfies
  \<open>E\<close>. Operations are total functions, so a triple is total correctness.
\<close>

definition hoare ::
  "('s \<Rightarrow> bool) \<Rightarrow> ('s, 'a) sm \<Rightarrow> ('a \<Rightarrow> 's \<Rightarrow> bool) \<Rightarrow> (jerr \<Rightarrow> 's \<Rightarrow> bool) \<Rightarrow> bool" where
  "hoare P m Q E \<longleftrightarrow>
     (\<forall>s. P s \<longrightarrow> (case m s of (Inr x, s') \<Rightarrow> Q x s' | (Inl e, s') \<Rightarrow> E e s'))"

lemma hoareI:
  "(\<And>s x s'. P s \<Longrightarrow> m s = (Inr x, s') \<Longrightarrow> Q x s') \<Longrightarrow>
   (\<And>s e s'. P s \<Longrightarrow> m s = (Inl e, s') \<Longrightarrow> E e s') \<Longrightarrow> hoare P m Q E"
  by (auto simp: hoare_def split: prod.splits sum.splits)

lemma hoareD_ret: "hoare P m Q E \<Longrightarrow> P s \<Longrightarrow> m s = (Inr x, s') \<Longrightarrow> Q x s'"
  by (auto simp: hoare_def split: prod.splits sum.splits)

lemma hoareD_throw: "hoare P m Q E \<Longrightarrow> P s \<Longrightarrow> m s = (Inl e, s') \<Longrightarrow> E e s'"
  by (auto simp: hoare_def split: prod.splits sum.splits)

lemma hoare_weaken:
  "hoare P' m Q' E' \<Longrightarrow> (\<And>s. P s \<Longrightarrow> P' s) \<Longrightarrow> (\<And>x s. Q' x s \<Longrightarrow> Q x s) \<Longrightarrow>
   (\<And>e s. E' e s \<Longrightarrow> E e s) \<Longrightarrow> hoare P m Q E"
  by (fastforce simp: hoare_def split: prod.splits sum.splits)

lemma hoare_sret [hoare_rules]: "(\<And>s. P s \<Longrightarrow> Q x s) \<Longrightarrow> hoare P (sret x) Q E"
  by (simp add: hoare_def)

lemma hoare_sthrow [hoare_rules]: "(\<And>s. P s \<Longrightarrow> E e s) \<Longrightarrow> hoare P (sthrow e) Q E"
  by (simp add: hoare_def)

lemma hoare_sget [hoare_rules]: "(\<And>s. P s \<Longrightarrow> Q (f s) s) \<Longrightarrow> hoare P (sget f) Q E"
  by (simp add: hoare_def)

lemma hoare_smod [hoare_rules]: "(\<And>s. P s \<Longrightarrow> Q () (f s)) \<Longrightarrow> hoare P (smod f) Q E"
  by (simp add: hoare_def)

lemma hoare_slift [hoare_rules]:
  "(\<And>s x. P s \<Longrightarrow> r = Inr x \<Longrightarrow> Q x s) \<Longrightarrow> (\<And>s e. P s \<Longrightarrow> r = Inl e \<Longrightarrow> E e s) \<Longrightarrow>
   hoare P (slift r) Q E"
  by (cases r) (simp_all add: hoare_def)

lemma hoare_sbind [hoare_rules]:
  "hoare P m R E \<Longrightarrow> (\<And>x. hoare (R x) (f x) Q E) \<Longrightarrow> hoare P (sbind m f) Q E"
  by (fastforce simp: hoare_def sbind_apply split: prod.splits sum.splits)

lemma hoare_scatch [hoare_rules]:
  "hoare P m Q R \<Longrightarrow> (\<And>e. hoare (R e) (h e) Q E) \<Longrightarrow> hoare P (scatch m h) Q E"
  by (fastforce simp: hoare_def scatch_apply split: prod.splits sum.splits)

lemma hoare_if [hoare_rules]:
  "(c \<Longrightarrow> hoare P m Q E) \<Longrightarrow> (\<not> c \<Longrightarrow> hoare P n Q E) \<Longrightarrow> hoare P (if c then m else n) Q E"
  by simp

lemma hoare_case_option [hoare_rules]:
  "hoare P m Q E \<Longrightarrow> (\<And>y. hoare P (f y) Q E) \<Longrightarrow>
   hoare P (case x of None \<Rightarrow> m | Some y \<Rightarrow> f y) Q E"
  by (cases x) simp_all

lemma hoare_case_prod [hoare_rules]:
  "(\<And>x y. hoare P (f x y) Q E) \<Longrightarrow> hoare P (case p of (x, y) \<Rightarrow> f x y) Q E"
  by (cases p) simp

lemma hoare_pre: "hoare P' m Q E \<Longrightarrow> (\<And>s. P s \<Longrightarrow> P' s) \<Longrightarrow> hoare P m Q E"
  by (simp add: hoare_def)

lemma hoare_any_throw: "hoare P m Q E \<Longrightarrow> hoare P m Q (\<lambda>_ _. True)"
  by (erule hoare_weaken) simp_all

text \<open>A triple for each state the operation may start from.\<close>

lemma hoare_ghost: "(\<And>s. P s \<Longrightarrow> hoare (\<lambda>t. t = s) m Q E) \<Longrightarrow> hoare P m Q E"
  by (auto simp: hoare_def)

subsection \<open>Invariants of stateful operations\<close>

text \<open>\<open>keeps I m\<close>: the operation keeps \<open>I\<close>, whether it returns or throws.\<close>

definition keeps :: "('s \<Rightarrow> bool) \<Rightarrow> ('s, 'a) sm \<Rightarrow> bool" where
  "keeps I m \<longleftrightarrow> (\<forall>s. I s \<longrightarrow> I (snd (m s)))"

lemma keepsI: "(\<And>s. I s \<Longrightarrow> I (snd (m s))) \<Longrightarrow> keeps I m"
  by (simp add: keeps_def)

lemma keepsD: "keeps I m \<Longrightarrow> I s \<Longrightarrow> I (snd (m s))"
  by (simp add: keeps_def)

lemma keeps_result: "keeps I m \<Longrightarrow> I s \<Longrightarrow> m s = (r, s') \<Longrightarrow> I s'"
  using keepsD by fastforce

lemma keeps_iff_hoare: "keeps I m \<longleftrightarrow> hoare I m (\<lambda>_. I) (\<lambda>_. I)"
proof -
  have "(case m s of (Inr x, s') \<Rightarrow> I s' | (Inl e, s') \<Rightarrow> I s') = I (snd (m s))" for s
    by (simp split: prod.splits sum.splits)
  then show ?thesis by (simp add: keeps_def hoare_def)
qed

lemma keeps_sret [keeps_rules]: "keeps I (sret x)"
  by (simp add: keeps_def)

lemma keeps_sthrow [keeps_rules]: "keeps I (sthrow e)"
  by (simp add: keeps_def)

lemma keeps_slift [keeps_rules]: "keeps I (slift r)"
  by (simp add: keeps_def)

lemma keeps_sget [keeps_rules]: "keeps I (sget f)"
  by (simp add: keeps_def)

lemma keeps_smod: "(\<And>s. I s \<Longrightarrow> I (f s)) \<Longrightarrow> keeps I (smod f)"
  by (simp add: keeps_def)

lemma keeps_sbind [keeps_rules]: "keeps I m \<Longrightarrow> (\<And>x. keeps I (f x)) \<Longrightarrow> keeps I (sbind m f)"
  by (fastforce simp: keeps_def sbind_apply split: prod.splits sum.splits)

lemma keeps_scatch [keeps_rules]: "keeps I m \<Longrightarrow> (\<And>e. keeps I (h e)) \<Longrightarrow> keeps I (scatch m h)"
  by (fastforce simp: keeps_def scatch_apply split: prod.splits sum.splits)

lemma keeps_if [keeps_rules]:
  "(c \<Longrightarrow> keeps I m) \<Longrightarrow> (\<not> c \<Longrightarrow> keeps I n) \<Longrightarrow> keeps I (if c then m else n)"
  by simp

lemma keeps_case_option [keeps_rules]:
  "(x = None \<Longrightarrow> keeps I m) \<Longrightarrow> (\<And>y. x = Some y \<Longrightarrow> keeps I (f y)) \<Longrightarrow>
   keeps I (case x of None \<Rightarrow> m | Some y \<Rightarrow> f y)"
  by (cases x) simp_all

text \<open>A fact about the state an operation never writes is kept by reading it off.\<close>

lemma keeps_conj: "keeps I m \<Longrightarrow> keeps J m \<Longrightarrow> keeps (\<lambda>s. I s \<and> J s) m"
  by (simp add: keeps_def)

subsection \<open>Operations that start with an initialisation\<close>

definition begins_with :: "('s, 'i) sm \<Rightarrow> ('s, 'a) sm \<Rightarrow> bool" where
  "begins_with i m \<longleftrightarrow> (\<forall>s. m s = sbind i (\<lambda>_. m) s)"

text \<open>Once it has returned, initialising again changes nothing.\<close>

definition settles :: "('s, 'i) sm \<Rightarrow> bool" where
  "settles i \<longleftrightarrow> (\<forall>s u s'. i s = (Inr u, s') \<longrightarrow> (\<exists>v. i s' = (Inr v, s')))"

lemma begins_with_bind:
  assumes "settles i"
  shows "begins_with i (sbind i (\<lambda>_. k))"
  unfolding begins_with_def
proof
  fix s
  show "sbind i (\<lambda>_. k) s = sbind i (\<lambda>_. sbind i (\<lambda>_. k)) s"
  proof (cases "i s")
    case (Pair r s')
    show ?thesis
    proof (cases r)
      case (Inr u)
      with Pair assms obtain v where "i s' = (Inr v, s')" unfolding settles_def by blast
      with Pair Inr show ?thesis by (simp add: sbind_apply)
    qed (simp add: sbind_apply Pair)
  qed
qed

lemma begins_with_then: "begins_with i m \<Longrightarrow> begins_with i (sbind m k)"
  by (auto simp: begins_with_def fun_eq_iff sbind_apply split: prod.splits sum.splits)

lemma keeps_begins_with:
  assumes "begins_with i m" "keeps I i" "\<And>s u s'. i s = (Inr u, s') \<Longrightarrow> I s' \<Longrightarrow> I (snd (m s'))"
  shows "keeps I m"
proof (rule keepsI)
  fix s
  assume I: "I s"
  have eq: "m s = sbind i (\<lambda>_. m) s" using assms(1) by (simp add: begins_with_def)
  show "I (snd (m s))"
  proof (cases "i s")
    case (Pair r s')
    have "I s'" using keeps_result [OF assms(2) I Pair] .
    moreover have "m s = (case r of Inl e \<Rightarrow> (Inl e, s') | Inr _ \<Rightarrow> m s')"
      by (subst eq) (simp add: sbind_apply Pair)
    ultimately show ?thesis using Pair assms(3) by (cases r) auto
  qed
qed

section \<open>Lists\<close>

text \<open>\<open>xs.find(p)\<close> is \<open>List.find\<close>; \<open>findIndex\<close> and the element update of an array of objects.\<close>

fun update_first :: "('a \<Rightarrow> bool) \<Rightarrow> ('a \<Rightarrow> 'a) \<Rightarrow> 'a list \<Rightarrow> 'a list" where
  "update_first p f [] = []"
| "update_first p f (x # xs) = (if p x then f x # xs else x # update_first p f xs)"

lemma update_first_length [simp]: "length (update_first p f xs) = length xs"
  by (induction xs) auto

lemma update_first_map_key:
  "(\<And>x. k (f x) = k x) \<Longrightarrow> map k (update_first p f xs) = map k xs"
  by (induction xs) auto

lemma update_first_set: "y \<in> set (update_first p f xs) \<Longrightarrow> y \<in> set xs \<or> (\<exists>x \<in> set xs. p x \<and> y = f x)"
  by (induction xs) (auto split: if_splits)

lemma update_first_none: "find p xs = None \<Longrightarrow> update_first p f xs = xs"
  by (induction xs) (auto split: if_splits)

lemma find_update_first_same:
  "find p xs = Some x \<Longrightarrow> p (f x) \<Longrightarrow> find p (update_first p f xs) = Some (f x)"
  by (induction xs) (auto split: if_splits)

lemma find_update_first_other:
  "(\<And>x. p x \<Longrightarrow> \<not> q x) \<Longrightarrow> (\<And>x. p x \<Longrightarrow> \<not> q (f x)) \<Longrightarrow>
   find q (update_first p f xs) = find q xs"
  by (induction xs) auto

lemma find_SomeD: "find p xs = Some x \<Longrightarrow> x \<in> set xs \<and> p x"
  by (induction xs) (auto split: if_splits)

lemma find_NoneD: "find p xs = None \<Longrightarrow> x \<in> set xs \<Longrightarrow> \<not> p x"
  by (simp add: find_None_iff)

lemma find_append_Some: "find p xs = Some x \<Longrightarrow> find p (xs @ ys) = Some x"
  by (induction xs) auto

lemma find_append_None: "find p xs = None \<Longrightarrow> find p (xs @ ys) = find p ys"
  by (induction xs) (auto split: if_splits)

lemma find_unique:
  "distinct (map k xs) \<Longrightarrow> x \<in> set xs \<Longrightarrow> find (\<lambda>y. k y = k x) xs = Some x"
  by (induction xs) (auto split: if_splits)

lemma update_first_in:
  "distinct (map k xs) \<Longrightarrow> y \<in> set (update_first (\<lambda>z. k z = i) f xs) \<Longrightarrow> k y \<noteq> i \<Longrightarrow>
   (\<And>x. k (f x) = k x) \<Longrightarrow> y \<in> set xs"
  by (induction xs) (auto split: if_splits)

lemma update_first_split:
  "find p xs = Some x \<Longrightarrow>
   \<exists>us vs. xs = us @ x # vs \<and> update_first p f xs = us @ f x # vs \<and> (\<forall>u \<in> set us. \<not> p u) \<and> p x"
proof (induction xs)
  case Nil
  then show ?case by simp
next
  case (Cons y ys)
  show ?case
  proof (cases "p y")
    case True
    with Cons.prems show ?thesis by (intro exI [of _ "[]"] exI [of _ ys]) simp
  next
    case False
    with Cons obtain us vs where "ys = us @ x # vs" "update_first p f ys = us @ f x # vs"
      "\<forall>u \<in> set us. \<not> p u" "p x" by auto
    with False show ?thesis by (intro exI [of _ "y # us"] exI [of _ vs]) simp
  qed
qed

end
