(* ===== verification/JsValue.thy ===== *)
theory JsValue
  imports Prelude
begin

text \<open>
  JavaScript values as the validators see them, the operators the source applies to them, and the
  string operations and regular-expression classes it uses.

  A string is the list of its UTF-16 code units; the type \<open>char\<close> holds code units below 256, so
  the model's strings are the Latin-1 ones. Object members are kept in insertion order, as
  \<open>Object.keys\<close> lists them (no key of the source is an array index). A number is either integral
  (exact for the magnitudes a double holds exactly, which is what \<open>Number.isSafeInteger\<close> tests) or
  one of the others, which the code only ever recognises and rejects: they carry a tag that tells
  them apart, tag 0 being NaN, 1 and 2 the infinities.
\<close>

section \<open>Values\<close>

datatype js =
    JUndef
  | JNull
  | JBool bool
  | JInt int
  | JNonInt nat
  | JStr string
  | JArr "js list"
  | JObj "(string \<times> js) list"

type_synonym jobj = "(string \<times> js) list"

fun is_nullish :: "js \<Rightarrow> bool" where
  "is_nullish JUndef = True"
| "is_nullish JNull = True"
| "is_nullish _ = False"

text \<open>\<open>v ?? d\<close>\<close>

definition nullish :: "js \<Rightarrow> js \<Rightarrow> js" where
  "nullish v d = (if is_nullish v then d else v)"

fun truthy :: "js \<Rightarrow> bool" where
  "truthy JUndef = False"
| "truthy JNull = False"
| "truthy (JBool b) = b"
| "truthy (JInt n) = (n \<noteq> 0)"
| "truthy (JNonInt t) = (t \<noteq> 0)"
| "truthy (JStr s) = (s \<noteq> [])"
| "truthy (JArr _) = True"
| "truthy (JObj _) = True"

text \<open>\<open>v && typeof v === 'object' && !Array.isArray(v)\<close>\<close>

fun is_object :: "js \<Rightarrow> bool" where
  "is_object (JObj _) = True"
| "is_object _ = False"

fun is_array :: "js \<Rightarrow> bool" where
  "is_array (JArr _) = True"
| "is_array _ = False"

fun is_string :: "js \<Rightarrow> bool" where
  "is_string (JStr _) = True"
| "is_string _ = False"

fun is_bool :: "js \<Rightarrow> bool" where
  "is_bool (JBool _) = True"
| "is_bool _ = False"

fun is_integer :: "js \<Rightarrow> bool" where
  "is_integer (JInt _) = True"
| "is_integer _ = False"

definition max_safe :: int where
  "max_safe = 9007199254740991"

fun is_safe_integer :: "js \<Rightarrow> bool" where
  "is_safe_integer (JInt n) = (- max_safe \<le> n \<and> n \<le> max_safe)"
| "is_safe_integer _ = False"

text \<open>An integer in a closed range: \<open>Number.isInteger(v) && v >= lo && v <= hi\<close>.\<close>

fun int_between :: "int \<Rightarrow> int \<Rightarrow> js \<Rightarrow> bool" where
  "int_between lo hi (JInt n) = (lo \<le> n \<and> n \<le> hi)"
| "int_between lo hi _ = False"

text \<open>\<open>Number.isSafeInteger(v) && v >= lo\<close>\<close>

fun safe_at_least :: "int \<Rightarrow> js \<Rightarrow> bool" where
  "safe_at_least lo (JInt n) = (- max_safe \<le> n \<and> n \<le> max_safe \<and> lo \<le> n)"
| "safe_at_least lo _ = False"

fun str_of :: "js \<Rightarrow> string" where
  "str_of (JStr s) = s"
| "str_of _ = []"

fun int_of :: "js \<Rightarrow> int" where
  "int_of (JInt n) = n"
| "int_of _ = 0"

fun bool_of :: "js \<Rightarrow> bool" where
  "bool_of (JBool b) = b"
| "bool_of _ = False"

fun arr_of :: "js \<Rightarrow> js list" where
  "arr_of (JArr xs) = xs"
| "arr_of _ = []"

fun obj_of :: "js \<Rightarrow> jobj" where
  "obj_of (JObj o') = o'"
| "obj_of _ = []"

text \<open>
  \<open>===\<close>. NaN differs from itself; two arrays or objects compare by identity, and the code compares
  values built separately, so they differ.
\<close>

fun strict_eq :: "js \<Rightarrow> js \<Rightarrow> bool" where
  "strict_eq JUndef JUndef = True"
| "strict_eq JNull JNull = True"
| "strict_eq (JBool a) (JBool b) = (a = b)"
| "strict_eq (JInt a) (JInt b) = (a = b)"
| "strict_eq (JNonInt a) (JNonInt b) = (a = b \<and> a \<noteq> 0)"
| "strict_eq (JStr a) (JStr b) = (a = b)"
| "strict_eq _ _ = False"

lemma strict_eq_JStr [simp]: "strict_eq v (JStr s) \<longleftrightarrow> v = JStr s"
  by (cases v) auto

lemma strict_eq_JBool [simp]: "strict_eq v (JBool b) \<longleftrightarrow> v = JBool b"
  by (cases v) auto

lemma strict_eq_JInt [simp]: "strict_eq v (JInt n) \<longleftrightarrow> v = JInt n"
  by (cases v) auto

lemma strict_eq_JNull [simp]: "strict_eq v JNull \<longleftrightarrow> v = JNull"
  by (cases v) auto

lemma strict_eq_JUndef [simp]: "strict_eq v JUndef \<longleftrightarrow> v = JUndef"
  by (cases v) auto

lemma strict_eq_imp_eq: "strict_eq v w \<Longrightarrow> v = w"
  by (cases "(v, w)" rule: strict_eq.cases) auto

lemma is_string_iff: "is_string v \<longleftrightarrow> (\<exists>s. v = JStr s)"
  by (cases v) auto

lemma is_object_iff: "is_object v \<longleftrightarrow> (\<exists>m. v = JObj m)"
  by (cases v) auto

lemma is_array_iff: "is_array v \<longleftrightarrow> (\<exists>xs. v = JArr xs)"
  by (cases v) auto

lemma is_bool_iff: "is_bool v \<longleftrightarrow> (\<exists>b. v = JBool b)"
  by (cases v) auto

lemma int_between_iff: "int_between lo hi v \<longleftrightarrow> (\<exists>n. v = JInt n \<and> lo \<le> n \<and> n \<le> hi)"
  by (cases v) auto

lemma safe_at_least_iff:
  "safe_at_least lo v \<longleftrightarrow> (\<exists>n. v = JInt n \<and> - max_safe \<le> n \<and> n \<le> max_safe \<and> lo \<le> n)"
  by (cases v) auto

section \<open>Objects\<close>

fun obj_get :: "jobj \<Rightarrow> string \<Rightarrow> js" where
  "obj_get [] k = JUndef"
| "obj_get ((k', v) # o') k = (if k' = k then v else obj_get o' k)"

definition obj_has :: "jobj \<Rightarrow> string \<Rightarrow> bool" where
  "obj_has o' k = (k \<in> set (map fst o'))"

fun obj_set :: "jobj \<Rightarrow> string \<Rightarrow> js \<Rightarrow> jobj" where
  "obj_set [] k v = [(k, v)]"
| "obj_set ((k', w) # o') k v = (if k' = k then (k', v) # o' else (k', w) # obj_set o' k v)"

text \<open>\<open>{ ...o, ...p }\<close>\<close>

definition obj_spread :: "jobj \<Rightarrow> jobj \<Rightarrow> jobj" where
  "obj_spread o' p = fold (\<lambda>(k, v) acc. obj_set acc k v) p o'"

text \<open>Property access on a value that is known not to be null or undefined, and \<open>v?.k\<close>.\<close>

definition jget :: "js \<Rightarrow> string \<Rightarrow> js" where
  "jget v k = obj_get (obj_of v) k"

text \<open>\<open>v.k\<close> where \<open>v\<close> may be null or undefined, which throws a TypeError.\<close>

definition jget_m :: "js \<Rightarrow> string \<Rightarrow> js res" where
  "jget_m v k = (if is_nullish v then Inl type_error else Inr (jget v k))"

definition keys_of :: "js \<Rightarrow> string list" where
  "keys_of v = map fst (obj_of v)"

text \<open>\<open>Object.keys(v).some((key) => !allowed.has(key))\<close>\<close>

definition extra_keys :: "js \<Rightarrow> string list \<Rightarrow> bool" where
  "extra_keys v allowed = (\<not> list_all (\<lambda>k. k \<in> set allowed) (keys_of v))"

definition str_in :: "js \<Rightarrow> string list \<Rightarrow> bool" where
  "str_in v ss = (is_string v \<and> str_of v \<in> set ss)"

lemma str_in_iff: "str_in v ss \<longleftrightarrow> (\<exists>s. v = JStr s \<and> s \<in> set ss)"
  by (cases v) (auto simp: str_in_def)

lemma jget_JObj [simp]: "jget (JObj m) k = obj_get m k"
  by (simp add: jget_def)

lemma keys_of_JObj [simp]: "keys_of (JObj m) = map fst m"
  by (simp add: keys_of_def)

lemma obj_get_set_same [simp]: "obj_get (obj_set m k v) k = v"
  by (induction m) auto

lemma obj_get_set_other [simp]: "k \<noteq> k' \<Longrightarrow> obj_get (obj_set m k v) k' = obj_get m k'"
  by (induction m) auto

lemma obj_set_map_fst:
  "map fst (obj_set m k v) = (if k \<in> set (map fst m) then map fst m else map fst m @ [k])"
  by (induction m k v rule: obj_set.induct) force+

lemma obj_set_keys: "set (map fst (obj_set m k v)) = insert k (set (map fst m))"
  by (simp add: obj_set_map_fst insert_absorb)

lemma obj_set_distinct: "distinct (map fst m) \<Longrightarrow> distinct (map fst (obj_set m k v))"
  by (simp add: obj_set_map_fst)

lemma obj_set_length: "length (obj_set m k v) = (if obj_has m k then length m else Suc (length m))"
  using arg_cong [OF obj_set_map_fst [of m k v], of length]
  by (simp add: obj_has_def split: if_splits)

lemma obj_get_mem: "(k, v) \<in> set m \<Longrightarrow> distinct (map fst m) \<Longrightarrow> obj_get m k = v"
  by (induction m) force+

lemma obj_get_absent: "k \<notin> set (map fst m) \<Longrightarrow> obj_get m k = JUndef"
  by (induction m) auto

lemma obj_get_in: "obj_get m k = v \<Longrightarrow> v \<noteq> JUndef \<Longrightarrow> (k, v) \<in> set m"
  by (induction m) (auto split: if_splits)

lemma obj_set_fresh: "\<not> obj_has m k \<Longrightarrow> obj_set m k v = m @ [(k, v)]"
  by (induction m) (auto simp: obj_has_def)

text \<open>\<open>JSON.stringify\<close> drops undefined members and writes the non-finite numbers as null.\<close>

fun json_norm :: "js \<Rightarrow> js" where
  "json_norm (JNonInt t) = (if t \<le> 2 then JNull else JNonInt t)"
| "json_norm (JArr xs) =
     JArr (map (\<lambda>x. if x = JUndef then JNull else json_norm x) xs)"
| "json_norm (JObj m) =
     JObj (map (\<lambda>(k, v). (k, json_norm v)) (filter (\<lambda>(k, v). v \<noteq> JUndef) m))"
| "json_norm v = v"

lemma json_norm_JUndef [simp]: "json_norm v = JUndef \<longleftrightarrow> v = JUndef"
  by (cases v) auto

lemma json_norm_idem [simp]: "json_norm (json_norm v) = json_norm v"
  by (induction v rule: json_norm.induct) (auto simp: filter_map comp_def case_prod_beta' intro!: map_cong)

lemma json_norm_get: "jget (json_norm (JObj m)) k = json_norm (jget (JObj m) k)"
  if "distinct (map fst m)"
  using that
proof (induction m)
  case (Cons kv m)
  have "obj_get m k = JUndef" if "fst kv = k" using that Cons.prems by (intro obj_get_absent) auto
  then show ?case using Cons by (cases kv) (auto simp: image_iff)
qed simp

text \<open>\<open>JSON.stringify(a) === JSON.stringify(b)\<close>\<close>

definition json_eq :: "js \<Rightarrow> js \<Rightarrow> bool" where
  "json_eq a b = (json_norm a = json_norm b)"

lemma json_eq_refl [simp]: "json_eq a a"
  by (simp add: json_eq_def)

lemma json_eq_sym: "json_eq a b \<Longrightarrow> json_eq b a"
  by (simp add: json_eq_def)

lemma json_eq_trans: "json_eq a b \<Longrightarrow> json_eq b c \<Longrightarrow> json_eq a c"
  by (simp add: json_eq_def)

section \<open>Strings\<close>

definition code :: "char \<Rightarrow> nat" where
  "code c = of_char c"

definition is_digit :: "char \<Rightarrow> bool" where
  "is_digit c = (48 \<le> code c \<and> code c \<le> 57)"

definition is_lower :: "char \<Rightarrow> bool" where
  "is_lower c = (97 \<le> code c \<and> code c \<le> 122)"

definition is_upper :: "char \<Rightarrow> bool" where
  "is_upper c = (65 \<le> code c \<and> code c \<le> 90)"

definition is_alnum :: "char \<Rightarrow> bool" where
  "is_alnum c = (is_digit c \<or> is_lower c \<or> is_upper c)"

definition is_lower_alnum :: "char \<Rightarrow> bool" where
  "is_lower_alnum c = (is_digit c \<or> is_lower c)"

text \<open>\<open>[0-9a-f]\<close>, and the same under the flag \<open>i\<close>\<close>

definition is_lower_hex :: "char \<Rightarrow> bool" where
  "is_lower_hex c = (is_digit c \<or> 97 \<le> code c \<and> code c \<le> 102)"

definition is_hex :: "char \<Rightarrow> bool" where
  "is_hex c = (is_lower_hex c \<or> 65 \<le> code c \<and> code c \<le> 70)"

text \<open>\<open>[\u0000-\u001f\u007f]\<close>\<close>

definition is_control :: "char \<Rightarrow> bool" where
  "is_control c = (code c \<le> 31 \<or> code c = 127)"

text \<open>White space: what \<open>trim\<close> strips and \<open>\s\<close> matches.\<close>

definition is_space :: "char \<Rightarrow> bool" where
  "is_space c = (9 \<le> code c \<and> code c \<le> 13 \<or> code c = 32 \<or> code c = 160)"

lemmas char_class_defs = is_digit_def is_lower_def is_upper_def is_alnum_def is_lower_alnum_def
  is_lower_hex_def is_hex_def is_control_def is_space_def code_def

definition trim_start :: "string \<Rightarrow> string" where
  "trim_start s = dropWhile is_space s"

definition trim_end :: "string \<Rightarrow> string" where
  "trim_end s = rev (dropWhile is_space (rev s))"

definition trim :: "string \<Rightarrow> string" where
  "trim s = trim_end (trim_start s)"

definition lower_char :: "char \<Rightarrow> char" where
  "lower_char c =
     (if 65 \<le> code c \<and> code c \<le> 90 \<or> 192 \<le> code c \<and> code c \<le> 222 \<and> code c \<noteq> 215
      then char_of (code c + 32) else c)"

definition to_lower :: "string \<Rightarrow> string" where
  "to_lower s = map lower_char s"

definition starts_with :: "string \<Rightarrow> string \<Rightarrow> bool" where
  "starts_with s p = (take (length p) s = p)"

definition ends_with :: "string \<Rightarrow> string \<Rightarrow> bool" where
  "ends_with s p = (length p \<le> length s \<and> drop (length s - length p) s = p)"

fun str_includes :: "string \<Rightarrow> string \<Rightarrow> bool" where
  "str_includes [] p = (p = [])"
| "str_includes (c # s) p = (starts_with (c # s) p \<or> str_includes s p)"

text \<open>\<open>s.split(c)\<close> for a one-character separator\<close>

fun split_on :: "char \<Rightarrow> string \<Rightarrow> string list" where
  "split_on d [] = [[]]"
| "split_on d (c # s) =
     (if c = d then [] # split_on d s
      else (case split_on d s of [] \<Rightarrow> [[c]] | w # ws \<Rightarrow> (c # w) # ws))"

fun join_with :: "string \<Rightarrow> string list \<Rightarrow> string" where
  "join_with d [] = []"
| "join_with d [w] = w"
| "join_with d (w # ws) = w @ d @ join_with d ws"

lemma split_on_nonempty [simp]: "split_on d s \<noteq> []"
  by (cases s) (simp_all split: list.split)

lemma split_on_append: "split_on d (s @ d # t) = split_on d s @ split_on d t"
proof (induction s)
  case (Cons c s)
  then show ?case by (cases "split_on d s") simp_all
qed simp

lemma split_on_one: "d \<notin> set s \<Longrightarrow> split_on d s = [s]"
  by (induction s) auto

lemma split_on_join:
  "ws \<noteq> [] \<Longrightarrow> \<forall>w \<in> set ws. d \<notin> set w \<Longrightarrow> split_on d (join_with [d] ws) = ws"
proof (induction "[d]" ws rule: join_with.induct)
  case (3 w v ws)
  then show ?case by (simp add: split_on_append split_on_one)
qed (simp_all add: split_on_one)

lemma split_on_ends: "ends_with s [d] \<Longrightarrow> last (split_on d s) = []"
proof -
  assume e: "ends_with s [d]"
  then have "s = take (length s - 1) s @ d # []"
    by (metis One_nat_def append_take_drop_id ends_with_def list.size(3,4) add_0 plus_1_eq_Suc)
  then have "split_on d s = split_on d (take (length s - 1) s) @ [[]]"
    using split_on_append [of d "take (length s - 1) s" "[]"] by simp
  then show ?thesis by simp
qed

text \<open>A regular expression that is a fixed sequence of character classes.\<close>

definition matches_seq :: "(char \<Rightarrow> bool) list \<Rightarrow> string \<Rightarrow> bool" where
  "matches_seq ps s = list_all2 (\<lambda>p c. p c) ps s"

text \<open>\<open>^[class]{lo,hi}$\<close>\<close>

definition class_len :: "(char \<Rightarrow> bool) \<Rightarrow> nat \<Rightarrow> nat \<Rightarrow> string \<Rightarrow> bool" where
  "class_len p lo hi s = (lo \<le> length s \<and> length s \<le> hi \<and> list_all p s)"

text \<open>\<open>^[first][rest]{0,n}$\<close>\<close>

definition head_class :: "(char \<Rightarrow> bool) \<Rightarrow> (char \<Rightarrow> bool) \<Rightarrow> nat \<Rightarrow> string \<Rightarrow> bool" where
  "head_class p q n s = (case s of [] \<Rightarrow> False | c # cs \<Rightarrow> p c \<and> length cs \<le> n \<and> list_all q cs)"

text \<open>Membership of a character in a literal set of punctuation.\<close>

definition one_of :: "string \<Rightarrow> char \<Rightarrow> bool" where
  "one_of cs c = (c \<in> set cs)"

text \<open>
  \<open>^[0-9a-f]{8}-[0-9a-f]{4}-[1-5][0-9a-f]{3}-[89ab][0-9a-f]{3}-[0-9a-f]{12}$\<close> with flag \<open>i\<close>
\<close>

definition uuid_classes :: "(char \<Rightarrow> bool) list" where
  "uuid_classes =
     replicate 8 is_hex @ [one_of ''-''] @ replicate 4 is_hex @ [one_of ''-''] @
     [one_of ''12345''] @ replicate 3 is_hex @ [one_of ''-''] @
     [one_of ''89abAB''] @ replicate 3 is_hex @ [one_of ''-''] @ replicate 12 is_hex"

definition is_uuid :: "string \<Rightarrow> bool" where
  "is_uuid s = matches_seq uuid_classes s"

text \<open>\<open>^[a-f0-9]{64}$\<close>\<close>

definition is_sha256 :: "string \<Rightarrow> bool" where
  "is_sha256 s = class_len is_lower_hex 64 64 s"

text \<open>\<open>^[a-f0-9]{40}$\<close> with flag \<open>i\<close>\<close>

definition is_commit :: "string \<Rightarrow> bool" where
  "is_commit s = class_len is_hex 40 40 s"

definition str_sha256 :: "js \<Rightarrow> bool" where
  "str_sha256 v = (is_string v \<and> is_sha256 (str_of v))"

lemma str_sha256_iff: "str_sha256 v \<longleftrightarrow> (\<exists>s. v = JStr s \<and> is_sha256 s)"
  by (cases v) (auto simp: str_sha256_def)

section \<open>Sorting\<close>

text \<open>
  \<open>xs.sort(cmp)\<close>, which is stable: for a comparison that is a total preorder there is one stable
  order, the one insertion finds.
\<close>

fun js_insert :: "('a \<Rightarrow> 'a \<Rightarrow> int) \<Rightarrow> 'a \<Rightarrow> 'a list \<Rightarrow> 'a list" where
  "js_insert cmp x [] = [x]"
| "js_insert cmp x (y # ys) = (if cmp x y \<le> 0 then x # y # ys else y # js_insert cmp x ys)"

definition js_sort :: "('a \<Rightarrow> 'a \<Rightarrow> int) \<Rightarrow> 'a list \<Rightarrow> 'a list" where
  "js_sort cmp xs = foldr (js_insert cmp) xs []"

lemma js_insert_set [simp]: "set (js_insert cmp x ys) = insert x (set ys)"
  by (induction ys) auto

lemma js_sort_set [simp]: "set (js_sort cmp xs) = set xs"
  by (induction xs) (simp_all add: js_sort_def)

lemma js_insert_length [simp]: "length (js_insert cmp x ys) = Suc (length ys)"
  by (induction ys) auto

lemma js_sort_length [simp]: "length (js_sort cmp xs) = length xs"
  by (induction xs) (simp_all add: js_sort_def)

lemma js_insert_sorted:
  assumes tot: "\<And>x y. cmp x y \<le> 0 \<or> cmp y x \<le> 0"
    and trans: "\<And>x y z. cmp x y \<le> 0 \<Longrightarrow> cmp y z \<le> 0 \<Longrightarrow> cmp x z \<le> 0"
  shows "sorted_wrt (\<lambda>x y. cmp x y \<le> 0) ys \<Longrightarrow> sorted_wrt (\<lambda>x y. cmp x y \<le> 0) (js_insert cmp x ys)"
proof (induction ys)
  case Nil
  then show ?case by simp
next
  case (Cons y ys)
  show ?case
  proof (cases "cmp x y \<le> 0")
    case True
    with Cons.prems show ?thesis by (auto intro: trans)
  next
    case False
    then have "cmp y x \<le> 0" using tot by blast
    with Cons False show ?thesis by auto
  qed
qed

lemma js_sort_sorted:
  assumes "\<And>x y. cmp x y \<le> 0 \<or> cmp y x \<le> 0"
    and "\<And>x y z. cmp x y \<le> 0 \<Longrightarrow> cmp y z \<le> 0 \<Longrightarrow> cmp x z \<le> 0"
  shows "sorted_wrt (\<lambda>x y. cmp x y \<le> 0) (js_sort cmp xs)"
  by (induction xs) (simp_all add: js_sort_def js_insert_sorted [OF assms])

section \<open>Trimming\<close>

definition trimmed :: "string \<Rightarrow> bool" where
  "trimmed s = (s = [] \<or> \<not> is_space (hd s) \<and> \<not> is_space (last s))"

lemma trim_trimmed_id: "trimmed s \<Longrightarrow> trim s = s"
proof -
  assume t: "trimmed s"
  show ?thesis
  proof (cases "s = []")
    case True
    then show ?thesis by (simp add: trim_def trim_end_def trim_start_def)
  next
    case False
    with t have h: "\<not> is_space (hd s)" "\<not> is_space (last s)" by (simp_all add: trimmed_def)
    have "dropWhile is_space s = s"
      using h(1) False by (cases s) simp_all
    moreover have "dropWhile is_space (rev s) = rev s"
      using h(2) False by (cases s rule: rev_cases) simp_all
    ultimately show ?thesis by (simp add: trim_def trim_end_def trim_start_def)
  qed
qed

lemma trimmed_trim [simp]: "trimmed (trim s)"
proof -
  define u where "u = trim_start s"
  have hd_u: "u \<noteq> [] \<Longrightarrow> \<not> is_space (hd u)"
    by (simp add: u_def trim_start_def hd_dropWhile)
  obtain w where w: "rev u = w @ dropWhile is_space (rev u)"
    by (metis takeWhile_dropWhile_id)
  define t where "t = trim_end u"
  have t: "t = rev (dropWhile is_space (rev u))" by (simp add: t_def trim_end_def)
  have split: "u = t @ rev w"
    using w t by (metis rev_append rev_rev_ident)
  have "trimmed t"
  proof (cases "t = []")
    case True
    then show ?thesis by (simp add: trimmed_def)
  next
    case False
    with split have "u \<noteq> []" "hd u = hd t" by auto
    moreover from False t have "\<not> is_space (last t)"
      by (simp add: last_rev hd_dropWhile)
    ultimately show ?thesis using hd_u by (simp add: trimmed_def)
  qed
  then show ?thesis by (simp add: t_def u_def trim_def)
qed

lemma trim_trim [simp]: "trim (trim s) = trim s"
  by (rule trim_trimmed_id) simp

text \<open>A string a validator accepts after trimming: nothing to strip, and not empty.\<close>

definition clean :: "string \<Rightarrow> bool" where
  "clean s = (s \<noteq> [] \<and> trim s = s)"

lemma clean_trim: "trim s \<noteq> [] \<Longrightarrow> clean (trim s)"
  by (simp add: clean_def)

section \<open>Numbers as text\<close>

definition digit_char :: "nat \<Rightarrow> char" where
  "digit_char d = char_of (48 + d)"

fun nat_text :: "nat \<Rightarrow> string" where
  "nat_text n = (if n < 10 then [digit_char n] else nat_text (n div 10) @ [digit_char (n mod 10)])"

declare nat_text.simps [simp del]

definition int_text :: "int \<Rightarrow> string" where
  "int_text i = (if i < 0 then ''-'' @ nat_text (nat (- i)) else nat_text (nat i))"

end
