(* ===== verification/ProvisioningPlan.thy ===== *)
theory ProvisioningPlan
  imports JsValue
begin

text \<open>
  The Website provisioning plan (\<open>apps/api/src/website-provisioning-plan.js\<close>): the normaliser that
  turns an untyped plan into one with typed steps, and the status and progress it derives, plus
  the order in which steps may be compensated
  (\<open>apps/api/src/website-provisioning-compensation-order.js\<close>).
\<close>

section \<open>Data\<close>

datatype step_state =
  Pending | Applying | Succeeded | Failed | Blocked | Compensating | Compensated

datatype comp_state =
  NotRequired | CompPending | CompApplying | CompSucceeded | CompFailed

record compensation =
  comp_state :: comp_state
  comp_evidence :: "jobj option"
  comp_error :: "string option"

record step =
  step_id :: string
  step_kind :: string
  step_required :: bool
  step_state :: step_state
  step_intent :: jobj
  step_evidence :: "jobj option"
  step_error :: "string option"
  step_comp :: compensation

datatype plan_status =
  PlanReady | PlanFailed | PlanCompensating | PlanApplying | PlanBlocked | PlanPartial | PlanPending

record progress =
  progress_required :: nat
  progress_completed :: nat
  progress_remaining :: nat

record plan =
  plan_operationId :: string
  plan_websiteId :: string
  plan_status :: plan_status
  plan_ready :: bool
  plan_progress :: progress
  plan_resources :: jobj
  plan_steps :: "step list"

fun step_state_text :: "step_state \<Rightarrow> string" where
  "step_state_text Pending = ''pending''"
| "step_state_text Applying = ''applying''"
| "step_state_text Succeeded = ''succeeded''"
| "step_state_text Failed = ''failed''"
| "step_state_text Blocked = ''blocked''"
| "step_state_text Compensating = ''compensating''"
| "step_state_text Compensated = ''compensated''"

fun comp_state_text :: "comp_state \<Rightarrow> string" where
  "comp_state_text NotRequired = ''not_required''"
| "comp_state_text CompPending = ''pending''"
| "comp_state_text CompApplying = ''applying''"
| "comp_state_text CompSucceeded = ''succeeded''"
| "comp_state_text CompFailed = ''failed''"

definition STEP_STATES :: "step_state list" where
  "STEP_STATES = [Pending, Applying, Succeeded, Failed, Blocked, Compensating, Compensated]"

definition COMPENSATION_STATES :: "comp_state list" where
  "COMPENSATION_STATES = [NotRequired, CompPending, CompApplying, CompSucceeded, CompFailed]"

text \<open>\<open>SET.has(v)\<close>, returning the member it is.\<close>

definition step_state_of :: "js \<Rightarrow> step_state option" where
  "step_state_of v = find (\<lambda>s. v = JStr (step_state_text s)) STEP_STATES"

definition comp_state_of :: "js \<Rightarrow> comp_state option" where
  "comp_state_of v = find (\<lambda>s. v = JStr (comp_state_text s)) COMPENSATION_STATES"

lemma step_state_of_text [simp]: "step_state_of (JStr (step_state_text s)) = Some s"
  by (cases s) (simp_all add: step_state_of_def STEP_STATES_def)

lemma comp_state_of_text [simp]: "comp_state_of (JStr (comp_state_text s)) = Some s"
  by (cases s) (simp_all add: comp_state_of_def COMPENSATION_STATES_def)

section \<open>Normalisation\<close>

definition plan_error :: "string \<Rightarrow> jerr" where
  "plan_error msg =
     Err ''WebsiteProvisioningPlanError'' (Some ''website_provisioning_plan_invalid'') msg"

definition nonEmptyString :: "js \<Rightarrow> string \<Rightarrow> string res" where
  "nonEmptyString v field =
     (if \<not> is_string v \<or> length (trim (str_of v)) < 1
      then Inl (plan_error (field @ '' must be a non-empty string''))
      else Inr (trim (str_of v)))"

definition nullableEvidence :: "js \<Rightarrow> string \<Rightarrow> jobj option res" where
  "nullableEvidence v field =
     (if v = JNull \<or> v = JUndef then Inr None
      else if \<not> is_object v then Inl (plan_error (field @ '' must be an object or null''))
      else Inr (Some (obj_of v)))"

definition nullableError :: "js \<Rightarrow> string \<Rightarrow> string option res" where
  "nullableError v field =
     (if is_nullish v then Inr None else bnd (nonEmptyString v field) (\<lambda>s. Inr (Some s)))"

definition normalizedCompensation :: "js \<Rightarrow> string \<Rightarrow> compensation res" where
  "normalizedCompensation v stepId =
     (let c = nullish v (JObj [(''state'', JStr ''not_required'')]) in
      if \<not> is_object c then Inl (plan_error (''Step '' @ stepId @ '' compensation must be an object''))
      else case comp_state_of (nullish (jget c ''state'') (JStr ''not_required'')) of
        None \<Rightarrow> Inl (plan_error (''Step '' @ stepId @ '' compensation state is invalid''))
      | Some st \<Rightarrow>
          bnd (nullableEvidence (jget c ''evidence'') (''Step '' @ stepId @ '' compensation evidence'')) (\<lambda>ev.
          bnd (nullableError (jget c ''error'') (''Step '' @ stepId @ '' compensation error'')) (\<lambda>er.
          Inr \<lparr>comp_state = st, comp_evidence = ev, comp_error = er\<rparr>)))"

definition normalizedStep :: "js \<Rightarrow> nat \<Rightarrow> step res" where
  "normalizedStep v index =
     (if \<not> is_object v
      then Inl (plan_error (''Step '' @ nat_text (index + 1) @ '' must be an object''))
      else
        bnd (nonEmptyString (jget v ''id'') (''Step '' @ nat_text (index + 1) @ '' id'')) (\<lambda>i.
        case step_state_of (nullish (jget v ''state'') (JStr ''pending'')) of
          None \<Rightarrow> Inl (plan_error (''Step '' @ i @ '' state is invalid''))
        | Some st \<Rightarrow>
          if jget v ''required'' \<noteq> JUndef \<and> \<not> is_bool (jget v ''required'')
          then Inl (plan_error (''Step '' @ i @ '' required must be boolean''))
          else if jget v ''intent'' \<noteq> JUndef \<and> \<not> is_object (jget v ''intent'')
          then Inl (plan_error (''Step '' @ i @ '' intent must be an object''))
          else
            bnd (nonEmptyString (nullish (jget v ''kind'') (JStr i)) (''Step '' @ i @ '' kind'')) (\<lambda>kd.
            bnd (nullableEvidence (jget v ''evidence'') (''Step '' @ i @ '' evidence'')) (\<lambda>ev.
            bnd (nullableError (jget v ''error'') (''Step '' @ i @ '' error'')) (\<lambda>er.
            bnd (normalizedCompensation (jget v ''compensation'') i) (\<lambda>comp.
            Inr \<lparr>step_id = i, step_kind = kd, step_required = (jget v ''required'' \<noteq> JBool False),
                 step_state = st, step_intent = obj_of (nullish (jget v ''intent'') (JObj [])),
                 step_evidence = ev, step_error = er, step_comp = comp\<rparr>))))))"

definition statusFromSteps :: "step list \<Rightarrow> plan_status" where
  "statusFromSteps steps =
     (let required = filter step_required steps;
          ready = (required \<noteq> [] \<and> list_all (\<lambda>s. step_state s = Succeeded) required)
      in if ready then PlanReady
         else if list_ex (\<lambda>s. step_state s = Failed) required then PlanFailed
         else if list_ex (\<lambda>s. step_state s = Compensating) required then PlanCompensating
         else if list_ex (\<lambda>s. step_state s = Applying) required then PlanApplying
         else if list_ex (\<lambda>s. step_state s = Blocked) required then PlanBlocked
         else if list_ex (\<lambda>s. step_state s = Succeeded \<or> step_state s = Compensated) steps
         then PlanPartial
         else PlanPending)"

text \<open>The plan derived from normalised parts: its status and progress are computed, never stored.\<close>

definition derived_plan :: "string \<Rightarrow> string \<Rightarrow> jobj \<Rightarrow> step list \<Rightarrow> plan" where
  "derived_plan operationId websiteId resources steps =
     (let status = statusFromSteps steps;
          requiredSteps = filter step_required steps;
          completedSteps = filter (\<lambda>s. step_state s = Succeeded) requiredSteps
      in \<lparr>plan_operationId = operationId, plan_websiteId = websiteId,
          plan_status = status, plan_ready = (status = PlanReady),
          plan_progress = \<lparr>progress_required = length requiredSteps,
             progress_completed = length completedSteps,
             progress_remaining = length requiredSteps - length completedSteps\<rparr>,
          plan_resources = resources, plan_steps = steps\<rparr>)"

definition createWebsiteProvisioningPlan :: "js \<Rightarrow> plan res" where
  "createWebsiteProvisioningPlan input =
     (if input = JNull then Inl type_error
      else
        bnd (nonEmptyString (jget input ''operationId'') ''operationId'') (\<lambda>operationId.
        bnd (nonEmptyString (jget input ''websiteId'') ''websiteId'') (\<lambda>websiteId.
        let resources = (if jget input ''resources'' = JUndef then JObj [] else jget input ''resources'');
            steps = (if jget input ''steps'' = JUndef then JArr [] else jget input ''steps'') in
        if \<not> is_object resources then Inl (plan_error ''resources must be an object'')
        else if \<not> is_array steps \<or> length (arr_of steps) < 1
        then Inl (plan_error ''steps must contain at least one provisioning step'')
        else
          bnd (map_res_from 0 normalizedStep (arr_of steps)) (\<lambda>normalizedSteps.
          if \<not> distinct (map step_id normalizedSteps)
          then Inl (plan_error ''Provisioning step ids must be unique'')
          else Inr (derived_plan operationId websiteId (obj_of resources) normalizedSteps)))))"

section \<open>Compensation order\<close>

definition blocksEarlierCompensation :: "step \<Rightarrow> bool" where
  "blocksEarlierCompensation s =
     (if step_state s \<notin> {Applying, Succeeded, Failed, Compensating} then False
      else if step_state s = Applying \<or> step_state s = Compensating then True
      else comp_state (step_comp s) \<noteq> NotRequired)"

text \<open>The steps after the first one with the given id; \<open>[]\<close> also when there is none.\<close>

fun steps_after :: "string \<Rightarrow> step list \<Rightarrow> step list" where
  "steps_after i [] = []"
| "steps_after i (s # ss) = (if step_id s = i then ss else steps_after i ss)"

definition findBlockingLaterCompensationStep :: "step list \<Rightarrow> string \<Rightarrow> step option" where
  "findBlockingLaterCompensationStep steps stepId =
     find blocksEarlierCompensation (steps_after stepId steps)"

definition canBeginCompensationInOrder :: "step list \<Rightarrow> string \<Rightarrow> bool" where
  "canBeginCompensationInOrder steps stepId =
     (if \<not> list_ex (\<lambda>s. step_id s = stepId) steps then False
      else findBlockingLaterCompensationStep steps stepId = None)"

section \<open>Well-formed steps and the round trip through an untyped plan\<close>

definition wf_comp :: "compensation \<Rightarrow> bool" where
  "wf_comp c = (\<forall>e. comp_error c = Some e \<longrightarrow> clean e)"

definition wf_step :: "step \<Rightarrow> bool" where
  "wf_step s = (clean (step_id s) \<and> clean (step_kind s) \<and>
     (\<forall>e. step_error s = Some e \<longrightarrow> clean e) \<and> wf_comp (step_comp s))"

definition wf_steps :: "step list \<Rightarrow> bool" where
  "wf_steps ss = (ss \<noteq> [] \<and> list_all wf_step ss \<and> distinct (map step_id ss))"

text \<open>The object a typed step is in the program.\<close>

definition opt_obj :: "jobj option \<Rightarrow> js" where
  "opt_obj o' = (case o' of None \<Rightarrow> JNull | Some m \<Rightarrow> JObj m)"

definition opt_str :: "string option \<Rightarrow> js" where
  "opt_str o' = (case o' of None \<Rightarrow> JNull | Some s \<Rightarrow> JStr s)"

definition comp_js :: "compensation \<Rightarrow> js" where
  "comp_js c = JObj [(''state'', JStr (comp_state_text (comp_state c))),
     (''evidence'', opt_obj (comp_evidence c)), (''error'', opt_str (comp_error c))]"

definition step_js :: "step \<Rightarrow> js" where
  "step_js s = JObj [(''id'', JStr (step_id s)), (''kind'', JStr (step_kind s)),
     (''required'', JBool (step_required s)), (''state'', JStr (step_state_text (step_state s))),
     (''intent'', JObj (step_intent s)), (''evidence'', opt_obj (step_evidence s)),
     (''error'', opt_str (step_error s)), (''compensation'', comp_js (step_comp s))]"

definition plan_input :: "string \<Rightarrow> string \<Rightarrow> jobj \<Rightarrow> step list \<Rightarrow> js" where
  "plan_input operationId websiteId resources steps =
     JObj [(''operationId'', JStr operationId), (''websiteId'', JStr websiteId),
       (''resources'', JObj resources), (''steps'', JArr (map step_js steps))]"

lemma nonEmptyString_clean [simp]: "clean s \<Longrightarrow> nonEmptyString (JStr s) f = Inr s"
  by (cases s) (simp_all add: nonEmptyString_def clean_def)

lemma nonEmptyString_Inr: "nonEmptyString v f = Inr s \<Longrightarrow> clean s"
  by (auto simp: nonEmptyString_def intro!: clean_trim split: if_splits)

lemma nullableEvidence_opt_obj [simp]: "nullableEvidence (opt_obj e) f = Inr e"
  by (cases e) (simp_all add: nullableEvidence_def opt_obj_def)

lemma nullableError_opt_str [simp]:
  "(\<And>s. e = Some s \<Longrightarrow> clean s) \<Longrightarrow> nullableError (opt_str e) f = Inr e"
  by (cases e) (simp_all add: nullableError_def opt_str_def)

lemma nullableError_Inr: "nullableError v f = Inr er \<Longrightarrow> \<forall>s. er = Some s \<longrightarrow> clean s"
  by (auto simp: nullableError_def dest: nonEmptyString_Inr split: if_splits)

lemma normalizedCompensation_wf: "normalizedCompensation v i = Inr c \<Longrightarrow> wf_comp c"
  by (auto simp: normalizedCompensation_def wf_comp_def Let_def dest!: nullableError_Inr
      split: if_splits option.splits)

lemma normalizedCompensation_js [simp]:
  "wf_comp c \<Longrightarrow> normalizedCompensation (comp_js c) i = Inr c"
  by (simp add: normalizedCompensation_def comp_js_def nullish_def wf_comp_def)

lemma normalizedStep_js: "wf_step s \<Longrightarrow> normalizedStep (step_js s) i = Inr s"
  by (simp add: normalizedStep_def step_js_def nullish_def wf_step_def comp_js_def
        flip: comp_js_def)

lemma normalizedStep_wf: "normalizedStep v i = Inr s \<Longrightarrow> wf_step s"
  by (auto simp: normalizedStep_def wf_step_def simp del: not_None_eq
      dest!: nonEmptyString_Inr nullableError_Inr normalizedCompensation_wf
      split: if_splits option.splits)

lemma createPlan_of_typed:
  assumes "clean operationId" "clean websiteId" "wf_steps ss"
  shows "createWebsiteProvisioningPlan (plan_input operationId websiteId resources ss)
    = Inr (derived_plan operationId websiteId resources ss)"
proof -
  have "map_res_from 0 normalizedStep (map step_js ss) = Inr (map (\<lambda>s. s) ss)"
    by (rule map_res_from_map) (use assms(3) in \<open>auto simp: wf_steps_def list_all_iff normalizedStep_js\<close>)
  with assms show ?thesis
    by (cases ss) (simp_all add: createWebsiteProvisioningPlan_def plan_input_def wf_steps_def
        del: map_res_from.simps)
qed

lemma createPlan_Inr:
  assumes "createWebsiteProvisioningPlan input = Inr p"
  shows "clean (plan_operationId p) \<and> clean (plan_websiteId p) \<and> wf_steps (plan_steps p) \<and>
    p = derived_plan (plan_operationId p) (plan_websiteId p) (plan_resources p) (plan_steps p)"
proof -
  from assms obtain oid wid res ss xs where p: "p = derived_plan oid wid res ss"
    and c: "clean oid" "clean wid" and m: "map_res_from 0 normalizedStep xs = Inr ss"
    and ne: "xs \<noteq> []" and d: "distinct (map step_id ss)"
    by (auto simp: createWebsiteProvisioningPlan_def Let_def dest!: nonEmptyString_Inr split: if_splits)
  have "wf_steps ss"
    using m d ne map_res_from_Inr_length [OF m]
    by (auto simp: wf_steps_def list_all_iff dest: map_res_from_Inr_set normalizedStep_wf)
  with p c show ?thesis by (simp add: derived_plan_def Let_def)
qed

end
