(* ===== verification/JsClock.thy ===== *)
theory JsClock
  imports JsValue
begin

text \<open>
  The timestamps the registries write: \<open>new Date(ms).toISOString()\<close> and its inverse on that
  format. Days are split into 400-year eras of years that begin on March 1, as the proleptic
  Gregorian calendar repeats every era.
\<close>

section \<open>Calendar\<close>

text \<open>Days from the start of an era to the start of its year \<open>y\<close>.\<close>

definition era_day :: "int \<Rightarrow> int" where
  "era_day y = 365 * y + y div 4 - y div 100"

function era_year :: "int \<Rightarrow> int \<Rightarrow> int" where
  "era_year y doe = (if y < 399 \<and> era_day (y + 1) \<le> doe then era_year (y + 1) doe else y)"
  by pat_completeness auto
termination
  by (relation "measure (\<lambda>(y, doe). nat (399 - y))") auto

declare era_year.simps [simp del]

definition civil_from_days :: "int \<Rightarrow> int \<times> int \<times> int" where
  "civil_from_days days =
     (let z = days + 719468;
          era = z div 146097;
          doe = z mod 146097;
          yoe = era_year (doe div 366) doe;
          doy = doe - era_day yoe;
          mp = (5 * doy + 2) div 153;
          d = doy - (153 * mp + 2) div 5 + 1;
          m = (if mp < 10 then mp + 3 else mp - 9)
      in (yoe + era * 400 + (if m \<le> 2 then 1 else 0), m, d))"

definition days_from_civil :: "int \<Rightarrow> int \<Rightarrow> int \<Rightarrow> int" where
  "days_from_civil year m d =
     (let y = (if m \<le> 2 then year - 1 else year);
          era = y div 400;
          yoe = y mod 400;
          doy = (153 * (if m > 2 then m - 3 else m + 9) + 2) div 5 + d - 1
      in era * 146097 + era_day yoe + doy - 719468)"

lemma era_day_le:
  assumes "0 \<le> y"
  shows "era_day y \<le> 366 * y"
proof -
  have "y div 4 \<le> y" "0 \<le> y div 100" using assms by linarith+
  then show ?thesis by (simp add: era_day_def)
qed

lemma era_day_step: "era_day (y + 1) \<le> era_day y + 366"
proof -
  have "(y + 1) div 4 \<le> y div 4 + 1" "y div 100 \<le> (y + 1) div 100" by linarith+
  then show ?thesis by (simp add: era_day_def)
qed

lemma era_year_spec:
  "0 \<le> y \<Longrightarrow> y \<le> 399 \<Longrightarrow> era_day y \<le> doe \<Longrightarrow>
   (let r = era_year y doe in 0 \<le> r \<and> r \<le> 399 \<and> era_day r \<le> doe \<and>
     (r < 399 \<longrightarrow> doe < era_day (r + 1)))"
proof (induction y doe rule: era_year.induct)
  case (1 y doe)
  show ?case
  proof (cases "y < 399 \<and> era_day (y + 1) \<le> doe")
    case True
    with 1 show ?thesis by (simp add: era_year.simps [of y doe])
  next
    case False
    with "1.prems" show ?thesis by (simp add: era_year.simps [of y doe] Let_def not_le) auto
  qed
qed

lemma era_year_doy:
  assumes "0 \<le> doe" "doe < 146097"
  defines "r \<equiv> era_year (doe div 366) doe"
  shows "0 \<le> r" "r \<le> 399" "0 \<le> doe - era_day r" "doe - era_day r \<le> 365"
proof -
  have "0 \<le> doe div 366" "doe div 366 \<le> 399" using assms by auto
  moreover have "era_day (doe div 366) \<le> doe"
    using era_day_le [of "doe div 366"] assms(1) by linarith
  ultimately have *: "0 \<le> r \<and> r \<le> 399 \<and> era_day r \<le> doe \<and> (r < 399 \<longrightarrow> doe < era_day (r + 1))"
    using era_year_spec unfolding r_def Let_def by blast
  have "doe - era_day r \<le> 365"
  proof (cases "r < 399")
    case True
    with * era_day_step [of r] show ?thesis by auto
  next
    case False
    with * have "r = 399" by auto
    then have "era_day r = 145731" by (simp add: era_day_def)
    with assms show ?thesis by auto
  qed
  with * show "0 \<le> r" "r \<le> 399" "0 \<le> doe - era_day r" "doe - era_day r \<le> 365" by auto
qed

lemma month_bounds:
  fixes doy :: int
  assumes "0 \<le> doy" "doy \<le> 365"
  defines "mp \<equiv> (5 * doy + 2) div 153"
  shows "0 \<le> mp" "mp \<le> 11" "1 \<le> doy - (153 * mp + 2) div 5 + 1" "doy - (153 * mp + 2) div 5 + 1 \<le> 31"
  using assms by (simp_all add: mp_def)

text \<open>The quantities of \<open>civil_from_days\<close>, named for the proofs.\<close>

definition day_of_era :: "int \<Rightarrow> int" where
  "day_of_era days = (days + 719468) mod 146097"

definition year_of_era :: "int \<Rightarrow> int" where
  "year_of_era days = era_year (day_of_era days div 366) (day_of_era days)"

definition day_of_year :: "int \<Rightarrow> int" where
  "day_of_year days = day_of_era days - era_day (year_of_era days)"

definition month_index :: "int \<Rightarrow> int" where
  "month_index days = (5 * day_of_year days + 2) div 153"

lemma civil_from_days_fields:
  assumes "civil_from_days days = (y, m, d)"
  shows "m = (if month_index days < 10 then month_index days + 3 else month_index days - 9)"
    and "d = day_of_year days - (153 * month_index days + 2) div 5 + 1"
    and "y = year_of_era days + (days + 719468) div 146097 * 400 + (if m \<le> 2 then 1 else 0)"
  using assms
  unfolding civil_from_days_def Let_def day_of_era_def [symmetric] year_of_era_def [symmetric]
    day_of_year_def [symmetric] month_index_def [symmetric] prod.inject
  by (elim conjE, simp only:)+

lemma day_of_year_bounds: "0 \<le> day_of_year days" "day_of_year days \<le> 365"
  and year_of_era_bounds: "0 \<le> year_of_era days" "year_of_era days \<le> 399"
proof -
  have "0 \<le> day_of_era days" "day_of_era days < 146097" by (simp_all add: day_of_era_def)
  note b = era_year_doy [OF this]
  show "0 \<le> day_of_year days" "day_of_year days \<le> 365"
    "0 \<le> year_of_era days" "year_of_era days \<le> 399"
    using b by (simp_all only: day_of_year_def year_of_era_def)
qed

lemma month_index_bounds: "0 \<le> month_index days" "month_index days \<le> 11"
  using month_bounds(1,2) [OF day_of_year_bounds] by (simp_all only: month_index_def)

lemma civil_bounds:
  assumes "civil_from_days days = (y, m, d)"
  shows "1 \<le> m" "m \<le> 12" "1 \<le> d" "d \<le> 31"
proof -
  note f = civil_from_days_fields [OF assms]
  show "1 \<le> m" "m \<le> 12" using f(1) month_index_bounds [of days] by (simp_all split: if_splits)
  show "1 \<le> d" "d \<le> 31"
    using month_bounds(3,4) [OF day_of_year_bounds, of days] f(2) by (simp_all only: month_index_def)
qed

lemma days_civil_roundtrip:
  assumes "civil_from_days days = (y, m, d)"
  shows "days_from_civil y m d = days"
proof -
  note f = civil_from_days_fields [OF assms]
  define q where "q = (days + 719468) div 146097"
  have month: "(if m > 2 then m - 3 else m + 9) = month_index days"
    using f(1) month_index_bounds [of days] by (simp split: if_splits)
  have yy: "(if m \<le> 2 then y - 1 else y) = year_of_era days + q * 400"
    using f(3) by (simp add: q_def)
  have parts: "(year_of_era days + q * 400) div 400 = q"
    "(year_of_era days + q * 400) mod 400 = year_of_era days"
    using year_of_era_bounds [of days] by auto
  have "(153 * month_index days + 2) div 5 + d - 1 = day_of_year days"
    using f(2) by simp
  then have "days_from_civil y m d
      = q * 146097 + era_day (year_of_era days) + day_of_year days - 719468"
    unfolding days_from_civil_def Let_def yy parts month by (simp only:)
  also have "\<dots> = q * 146097 + day_of_era days - 719468"
    by (simp add: day_of_year_def)
  also have "\<dots> = days"
    using div_mult_mod_eq [of "days + 719468" 146097] unfolding q_def day_of_era_def by linarith
  finally show ?thesis .
qed

section \<open>ISO text\<close>

definition digit_text :: "int \<Rightarrow> char" where
  "digit_text i = char_of (48 + nat (i mod 10))"

definition pad2 :: "int \<Rightarrow> string" where
  "pad2 i = [digit_text (i div 10), digit_text i]"

definition pad3 :: "int \<Rightarrow> string" where
  "pad3 i = digit_text (i div 100) # pad2 i"

definition pad4 :: "int \<Rightarrow> string" where
  "pad4 i = pad2 (i div 100) @ pad2 i"

definition pad6 :: "int \<Rightarrow> string" where
  "pad6 i = pad2 (i div 10000) @ pad4 i"

definition year_text :: "int \<Rightarrow> string" where
  "year_text y = (if 0 \<le> y \<and> y \<le> 9999 then pad4 y
     else if y < 0 then ''-'' @ pad6 (- y) else ''+'' @ pad6 y)"

definition max_time :: int where
  "max_time = 8640000000000000"

definition range_error :: jerr where
  "range_error = Err ''RangeError'' None ''Invalid time value''"

definition toISOString :: "int \<Rightarrow> string res" where
  "toISOString t =
     (if t < - max_time \<or> max_time < t then Inl range_error
      else
        let (y, m, d) = civil_from_days (t div 86400000); r = t mod 86400000 in
        Inr (year_text y @ ''-'' @ pad2 m @ ''-'' @ pad2 d @ ''T'' @ pad2 (r div 3600000) @ '':'' @
             pad2 (r div 60000 mod 60) @ '':'' @ pad2 (r div 1000 mod 60) @ ''.'' @
             pad3 (r mod 1000) @ ''Z''))"

fun digits_value :: "int \<Rightarrow> string \<Rightarrow> int" where
  "digits_value acc [] = acc"
| "digits_value acc (c # cs) = digits_value (10 * acc + (int (code c) - 48)) cs"

text \<open>
  The time a text in the format of \<open>toISOString\<close> denotes, field by field; texts in other formats
  give an arbitrary value, and \<open>is_iso\<close> compares with the printed form.
\<close>

definition iso_value :: "string \<Rightarrow> int" where
  "iso_value s =
     (let n = (if length s = 27 then 7 else 4);
          y = (if n = 4 then digits_value 0 (take 4 s)
               else if take 1 s = ''-'' then - digits_value 0 (take 6 (drop 1 s))
               else digits_value 0 (take 6 (drop 1 s)));
          r = drop n s
      in days_from_civil y (digits_value 0 (take 2 (drop 1 r))) (digits_value 0 (take 2 (drop 4 r)))
           * 86400000 + digits_value 0 (take 2 (drop 7 r)) * 3600000
         + digits_value 0 (take 2 (drop 10 r)) * 60000 + digits_value 0 (take 2 (drop 13 r)) * 1000
         + digits_value 0 (take 3 (drop 16 r)))"

text \<open>\<open>typeof v === 'string' && new Date(v).toISOString() === v\<close>\<close>

definition is_iso :: "string \<Rightarrow> bool" where
  "is_iso s = (toISOString (iso_value s) = Inr s)"

lemma code_digit_text: "int (code (digit_text i)) - 48 = i mod 10"
proof -
  have "48 + nat (i mod 10) < 256" by simp
  then show ?thesis by (simp add: code_def digit_text_def)
qed

lemma digits_value_append: "digits_value acc (xs @ ys) = digits_value (digits_value acc xs) ys"
  by (induction acc xs rule: digits_value.induct) simp_all

lemma digits_value_pad2: "digits_value acc (pad2 i) = 100 * acc + i mod 100"
  using zmod_zmult2_eq [of 10 i 10] by (simp add: pad2_def code_digit_text)

lemma digits_value_pad3: "digits_value acc (pad3 i) = 1000 * acc + i mod 1000"
  using zmod_zmult2_eq [of 10 i 100] by (simp add: pad3_def digits_value_pad2 code_digit_text)

lemma digits_value_pad4: "digits_value acc (pad4 i) = 10000 * acc + i mod 10000"
  using zmod_zmult2_eq [of 100 i 100]
  by (simp add: pad4_def digits_value_append digits_value_pad2)

lemma digits_value_pad6: "digits_value acc (pad6 i) = 1000000 * acc + i mod 1000000"
  using zmod_zmult2_eq [of 100 i 10000]
  by (simp add: pad6_def digits_value_append digits_value_pad2 digits_value_pad4)

lemmas digits_value_pads = digits_value_pad2 digits_value_pad3 digits_value_pad4 digits_value_pad6

lemma pad_lengths [simp]:
  "length (pad2 i) = 2" "length (pad3 i) = 3" "length (pad4 i) = 4" "length (pad6 i) = 6"
  by (simp_all add: pad2_def pad3_def pad4_def pad6_def)

definition day_text :: "int \<Rightarrow> int \<Rightarrow> string" where
  "day_text m d = ''-'' @ pad2 m @ ''-'' @ pad2 d"

definition clock_text :: "int \<Rightarrow> string" where
  "clock_text r = ''T'' @ pad2 (r div 3600000) @ '':'' @ pad2 (r div 60000 mod 60) @ '':'' @
     pad2 (r div 1000 mod 60) @ ''.'' @ pad3 (r mod 1000) @ ''Z''"

lemma toISOString_parts:
  assumes "toISOString t = Inr s" "civil_from_days (t div 86400000) = (y, m, d)"
  shows "s = year_text y @ day_text m d @ clock_text (t mod 86400000)"
  using assms by (simp add: toISOString_def day_text_def clock_text_def Let_def split: if_splits)

text \<open>Fields of a text that begins with the date part, and of the clock part.\<close>

lemma day_text_fields:
  "take 2 (drop 1 (day_text m d @ r)) = pad2 m" "take 2 (drop 4 (day_text m d @ r)) = pad2 d"
  "drop 6 (day_text m d @ r) = r" "length (day_text m d) = 6"
  by (simp_all add: day_text_def pad2_def)

lemma clock_text_fields:
  "take 2 (drop 1 (clock_text r)) = pad2 (r div 3600000)"
  "take 2 (drop 4 (clock_text r)) = pad2 (r div 60000 mod 60)"
  "take 2 (drop 7 (clock_text r)) = pad2 (r div 1000 mod 60)"
  "take 3 (drop 10 (clock_text r)) = pad3 (r mod 1000)" "length (clock_text r) = 14"
  by (simp_all add: clock_text_def pad2_def pad3_def)

lemma clock_fields_sum:
  fixes r :: int
  shows "r div 3600000 * 3600000 + r div 60000 mod 60 * 60000 + r div 1000 mod 60 * 1000 + r mod 1000 = r"
proof -
  have "r div 60000 = r div 3600000 * 60 + r div 60000 mod 60"
    using div_mult_mod_eq [of "r div 60000" 60] zdiv_zmult2_eq [of 60 r 60000] by simp
  moreover have "r div 1000 = r div 60000 * 60 + r div 1000 mod 60"
    using div_mult_mod_eq [of "r div 1000" 60] zdiv_zmult2_eq [of 60 r 1000] by simp
  moreover have "r = r div 1000 * 1000 + r mod 1000" by simp
  ultimately show ?thesis by linarith
qed

lemma year_text_value:
  assumes "-1000000 < y" "y < 1000000" "length r = 20"
    and n: "n = (if length (year_text y @ r) = 27 then 7 else 4)"
  shows "length (year_text y) = n"
    and "(if n = 4 then digits_value 0 (take 4 (year_text y @ r))
      else if take 1 (year_text y @ r) = ''-'' then - digits_value 0 (take 6 (drop 1 (year_text y @ r)))
      else digits_value 0 (take 6 (drop 1 (year_text y @ r)))) = y"
  using assms by (auto simp: year_text_def digits_value_pads)

lemma civil_year_bounds:
  assumes "civil_from_days days = (y, m, d)" "-200000000 \<le> days" "days \<le> 200000000"
  shows "-1000000 < y" "y < 1000000"
proof -
  have "-2000 \<le> (days + 719468) div 146097" "(days + 719468) div 146097 \<le> 2000"
    using assms(2,3) by linarith+
  then show "-1000000 < y" "y < 1000000"
    using civil_from_days_fields(3) [OF assms(1)] year_of_era_bounds [of days]
    by (simp_all split: if_splits)
qed

lemma iso_value_toISOString:
  assumes "toISOString t = Inr s"
  shows "iso_value s = t"
proof -
  obtain y m d where c: "civil_from_days (t div 86400000) = (y, m, d)" by (cases "civil_from_days (t div 86400000)")
  define r where "r = t mod 86400000"
  have s: "s = year_text y @ day_text m d @ clock_text r"
    using toISOString_parts [OF assms c] by (simp add: r_def)
  have t: "- max_time \<le> t" "t \<le> max_time"
    using assms by (auto simp: toISOString_def split: if_splits)
  then have "-200000000 \<le> t div 86400000" "t div 86400000 \<le> 200000000"
    by (simp_all add: max_time_def)
  note yb = civil_year_bounds [OF c this]
  note b = civil_bounds [OF c]
  define rest where "rest = day_text m d @ clock_text r"
  define n where "n = (if length s = 27 then 7 else 4 :: nat)"
  have len: "length rest = 20" by (simp add: rest_def day_text_fields clock_text_fields)
  have s': "s = year_text y @ rest" by (simp add: s rest_def)
  note yv = year_text_value [OF yb len n_def [unfolded s'], folded s']
  have rest: "drop n s = rest" using yv(1) by (simp add: s')
  have dr: "drop k rest = drop (k - 6) (clock_text r)" if "6 \<le> k" for k
    using that by (simp add: rest_def day_text_fields(4))
  have r: "0 \<le> r" "r < 86400000" by (simp_all add: r_def)
  have hm: "0 \<le> r div 3600000" "r div 3600000 < 100" using r by linarith+
  have "iso_value s = days_from_civil y m d * 86400000 + r div 3600000 * 3600000
      + r div 60000 mod 60 * 60000 + r div 1000 mod 60 * 1000 + r mod 1000"
    unfolding iso_value_def Let_def n_def [symmetric] yv(2) rest
    using b hm by (simp add: dr day_text_fields(1,2) [of m d "clock_text r", folded rest_def]
      clock_text_fields clock_text_fields(1) [unfolded One_nat_def] digits_value_pads
      del: One_nat_def)
  also have "\<dots> = t"
    using clock_fields_sum [of r] days_civil_roundtrip [OF c] div_mult_mod_eq [of t 86400000]
    unfolding r_def by linarith
  finally show ?thesis .
qed

lemma toISOString_is_iso: "toISOString t = Inr s \<Longrightarrow> is_iso s"
  by (simp add: is_iso_def iso_value_toISOString)

lemma toISOString_ok: "- max_time \<le> t \<Longrightarrow> t \<le> max_time \<Longrightarrow> \<exists>s. toISOString t = Inr s"
  by (simp add: toISOString_def Let_def split: prod.splits)

lemma toISOString_inj: "toISOString t = Inr s \<Longrightarrow> toISOString u = Inr s \<Longrightarrow> t = u"
  using iso_value_toISOString by metis

end
