(* ===== verification/FileStore.thy ===== *)
theory FileStore
  imports JsValue
begin

text \<open>
  The file behind a registry: the state in memory, the content last written to disk (a JSON value, or
  the typed state a JSON text denotes), and the promise chain its writes are queued on.

  A write goes to a temporary file that is renamed over the old one, so a failing write leaves the
  file as it was. The outcomes of the writes still to come are a list the environment chooses, in
  order; past its end writes succeed. The registries chain a write with
  \<open>writeChain = writeChain.then(write)\<close>: once one has failed the chain is a rejected promise, and
  every later \<open>persist()\<close> rejects without calling \<open>write\<close>.
\<close>

datatype 'd disk_file = NoFile | CorruptFile | JsonFile 'd

record ('m, 'd) file_store =
  memory :: 'm
  disk :: "'d disk_file"
  has_path :: bool
  loaded :: bool
  chain_ok :: bool
  writes :: "bool list"

definition write_ok :: "('m, 'd) file_store \<Rightarrow> bool" where
  "write_ok s = (case writes s of [] \<Rightarrow> True | b # _ \<Rightarrow> b)"

text \<open>The file holds the value as JSON.\<close>

definition json_file :: "js \<Rightarrow> js disk_file" where
  "json_file v = JsonFile (json_norm v)"

text \<open>One write of \<open>v\<close>: mkdir, write the temporary file, rename.\<close>

definition write_file :: "'d \<Rightarrow> (('m, 'd) file_store, unit) sm" where
  "write_file v s =
     (if write_ok s then (Inr (), s\<lparr>disk := JsonFile v, writes := tl (writes s)\<rparr>)
      else (Inl io_error, s\<lparr>writes := tl (writes s)\<rparr>))"

text \<open>\<open>persist()\<close> of the registries: queue a write of the serialised memory on the chain.\<close>

definition persist_chained :: "('m \<Rightarrow> 'd) \<Rightarrow> (('m, 'd) file_store, unit) sm" where
  "persist_chained ser s =
     (if \<not> has_path s then (Inr (), s)
      else if \<not> chain_ok s then (Inl io_error, s)
      else case write_file (ser (memory s)) s of
        (Inr _, s') \<Rightarrow> (Inr (), s')
      | (Inl e, s') \<Rightarrow> (Inl e, s'\<lparr>chain_ok := False\<rparr>))"

text \<open>The operations of a registry work on the memory; lifting them to the store.\<close>

definition get_mem :: "('m \<Rightarrow> 'a) \<Rightarrow> (('m, 'd) file_store, 'a) sm" where
  "get_mem f = sget (\<lambda>s. f (memory s))"

definition mod_mem :: "('m \<Rightarrow> 'm) \<Rightarrow> (('m, 'd) file_store, unit) sm" where
  "mod_mem f = smod (\<lambda>s. s\<lparr>memory := f (memory s)\<rparr>)"

text \<open>A poisoned store: it has a file and a rejected write chain.\<close>

definition poisoned :: "('m, 'd) file_store \<Rightarrow> bool" where
  "poisoned s = (has_path s \<and> \<not> chain_ok s)"

lemma persist_chained_throw_poisons:
  "persist_chained ser s = (Inl e, s') \<Longrightarrow> poisoned s' \<and> disk s' = disk s \<and> memory s' = memory s"
  by (auto simp: persist_chained_def poisoned_def write_file_def split: if_splits)

lemma persist_chained_ok:
  "persist_chained ser s = (Inr u, s') \<Longrightarrow>
   memory s' = memory s \<and> has_path s' = has_path s \<and> chain_ok s' = chain_ok s \<and>
   loaded s' = loaded s \<and>
   (if has_path s then disk s' = JsonFile (ser (memory s)) \<and> chain_ok s else disk s' = disk s)"
  by (auto simp: persist_chained_def write_file_def split: if_splits)

lemma persist_chained_memory [simp]: "memory (snd (persist_chained ser s)) = memory s"
  by (simp add: persist_chained_def write_file_def)

lemma persist_chained_poisoned: "poisoned s \<Longrightarrow> persist_chained ser s = (Inl io_error, s)"
  by (simp add: persist_chained_def poisoned_def)

lemma get_mem_apply [simp, sm_simps]: "get_mem f s = (Inr (f (memory s)), s)"
  by (simp add: get_mem_def)

lemma mod_mem_apply [simp, sm_simps]: "mod_mem f s = (Inr (), s\<lparr>memory := f (memory s)\<rparr>)"
  by (simp add: mod_mem_def)

lemma keeps_get_mem [keeps_rules]: "keeps I (get_mem f)"
  by (simp add: keeps_def)

lemma keeps_mod_mem: "(\<And>m. I m \<Longrightarrow> I (f m)) \<Longrightarrow> keeps (\<lambda>s. I (memory s)) (mod_mem f)"
  by (simp add: keeps_def)

lemma keeps_persist [keeps_rules]: "keeps (\<lambda>s. I (memory s)) (persist_chained ser)"
  by (simp add: keeps_def)

text \<open>Nothing but a successful write changes the file, and a poisoned store writes nothing.\<close>

definition frozen_file :: "'d disk_file \<Rightarrow> ('m, 'd) file_store \<Rightarrow> bool" where
  "frozen_file f s = (poisoned s \<and> disk s = f)"

lemma keeps_frozen_persist [keeps_rules]: "keeps (frozen_file f) (persist_chained ser)"
  by (simp add: keeps_def frozen_file_def persist_chained_poisoned)

lemma keeps_frozen_mod [keeps_rules]: "keeps (frozen_file f) (mod_mem g)"
  by (simp add: keeps_def frozen_file_def poisoned_def)

text \<open>
  \<open>fails_when_poisoned m\<close>: from a poisoned store the operation cannot return.
\<close>

definition fails_when_poisoned :: "(('m, 'd) file_store, 'a) sm \<Rightarrow> bool" where
  "fails_when_poisoned m \<longleftrightarrow> hoare poisoned m (\<lambda>_ _. False) (\<lambda>_ _. True)"

end
