(* ===== verification/ProvisioningRegistry.thy ===== *)
theory ProvisioningRegistry
  imports ProvisioningPlan JsClock FileStore
begin

text \<open>
  The durable registry of Website provisioning operations
  (\<open>apps/api/src/website-provisioning-registry.js\<close>): every operation with its steps, kept in memory
  and rewritten to a file at each change. A handler assigns the fields in the order of the source,
  so a throw halfway leaves the assignments made before it.

  Two things come from outside. The clock: \<open>now\<close> is the value the injected \<open>now()\<close> returns to the
  call. \<open>Date.parse\<close>, which accepts more formats than the registry writes: \<open>date_ok s\<close> says whether
  it gives a finite time for \<open>s\<close>.
\<close>

section \<open>State\<close>

record operation =
  op_operationId :: string
  op_websiteId :: string
  op_resources :: jobj
  op_steps :: "step list"
  op_createdAt :: string
  op_updatedAt :: string

type_synonym registry = "(operation list, js) file_store"

record public_operation =
  public_plan :: plan
  public_createdAt :: string
  public_updatedAt :: string

definition registry_error :: "string \<Rightarrow> string \<Rightarrow> jerr" where
  "registry_error c msg = Err ''WebsiteProvisioningRegistryError'' (Some c) msg"

definition state_error :: jerr where
  "state_error = Err ''Error'' None ''invalid Website provisioning registry state''"

definition transition_error :: "string \<Rightarrow> jerr" where
  "transition_error msg = registry_error ''website_provisioning_transition_invalid'' msg"

text \<open>The object of an operation, and the text of the file.\<close>

definition operation_js :: "operation \<Rightarrow> js" where
  "operation_js p = JObj [(''operationId'', JStr (op_operationId p)), (''websiteId'', JStr (op_websiteId p)),
     (''resources'', JObj (op_resources p)), (''steps'', JArr (map step_js (op_steps p))),
     (''createdAt'', JStr (op_createdAt p)), (''updatedAt'', JStr (op_updatedAt p))]"

definition registry_js :: "operation list \<Rightarrow> js" where
  "registry_js ops = JObj [(''version'', JInt 1), (''operations'', JArr (map operation_js ops))]"

definition publicOperation :: "operation \<Rightarrow> public_operation res" where
  "publicOperation p =
     bnd (createWebsiteProvisioningPlan
            (plan_input (op_operationId p) (op_websiteId p) (op_resources p) (op_steps p))) (\<lambda>plan.
     Inr \<lparr>public_plan = plan, public_createdAt = op_createdAt p, public_updatedAt = op_updatedAt p\<rparr>)"

definition timestamp :: "(string \<Rightarrow> bool) \<Rightarrow> js \<Rightarrow> string res" where
  "timestamp date_ok v =
     (if \<not> is_string v \<or> \<not> date_ok (str_of v) then Inl state_error else Inr (str_of v))"

definition normalizeStoredOperation :: "(string \<Rightarrow> bool) \<Rightarrow> js \<Rightarrow> operation res" where
  "normalizeStoredOperation date_ok v =
     (if \<not> is_object v then Inl state_error
      else if extra_keys v [''operationId'', ''websiteId'', ''resources'', ''steps'', ''createdAt'', ''updatedAt'']
      then Inl state_error
      else
        let planInput = JObj [(''operationId'', jget v ''operationId''), (''websiteId'', jget v ''websiteId''),
               (''resources'', jget v ''resources''), (''steps'', jget v ''steps'')] in
        case createWebsiteProvisioningPlan planInput of
          Inl e \<Rightarrow> (if err_class e = ''WebsiteProvisioningPlanError'' then Inl state_error else Inl e)
        | Inr plan \<Rightarrow>
            bnd (timestamp date_ok (jget v ''createdAt'')) (\<lambda>created.
            bnd (timestamp date_ok (jget v ''updatedAt'')) (\<lambda>updated.
            Inr \<lparr>op_operationId = plan_operationId plan, op_websiteId = plan_websiteId plan,
                 op_resources = plan_resources plan, op_steps = plan_steps plan,
                 op_createdAt = created, op_updatedAt = updated\<rparr>)))"

definition immutableStepDefinition :: "step \<Rightarrow> js" where
  "immutableStepDefinition s = JObj [(''id'', JStr (step_id s)), (''kind'', JStr (step_kind s)),
     (''required'', JBool (step_required s)), (''intent'', JObj (step_intent s))]"

definition plan_identity :: "operation \<Rightarrow> js" where
  "plan_identity p = JObj [(''operationId'', JStr (op_operationId p)), (''websiteId'', JStr (op_websiteId p)),
     (''resources'', JObj (op_resources p)), (''steps'', JArr (map immutableStepDefinition (op_steps p)))]"

definition samePlan :: "operation \<Rightarrow> operation \<Rightarrow> bool" where
  "samePlan left right = json_eq (plan_identity left) (plan_identity right)"

definition requiredEvidence :: "js \<Rightarrow> jobj res" where
  "requiredEvidence v =
     (if \<not> is_object v \<or> length (keys_of v) < 1
      then Inl (registry_error ''website_provisioning_evidence_required''
                  ''Successful provisioning steps require explicit evidence'')
      else Inr (obj_of v))"

definition failureCode :: "js \<Rightarrow> string \<Rightarrow> string res" where
  "failureCode v field =
     (if \<not> is_string v \<or> length (trim (str_of v)) < 1 \<or> length (str_of v) > 160
      then Inl (transition_error (field @ '' must be a bounded non-empty string''))
      else Inr (trim (str_of v)))"

definition optionalEvidence :: "js \<Rightarrow> jobj option res" where
  "optionalEvidence v = (if is_nullish v then Inr None else bnd (requiredEvidence v) (\<lambda>e. Inr (Some e)))"

definition nowIso :: "js \<Rightarrow> string res" where
  "nowIso v =
     (if \<not> is_safe_integer v \<or> int_of v < 0
      then Inl (registry_error ''website_provisioning_clock_invalid''
                  ''Website provisioning registry clock is invalid'')
      else toISOString (int_of v))"

section \<open>Loading and looking up\<close>

definition registry_text :: "operation list \<Rightarrow> js" where
  "registry_text ops = json_norm (registry_js ops)"

abbreviation persist :: "(registry, unit) sm" where
  "persist \<equiv> persist_chained registry_text"

text \<open>The state a file denotes, when it is one the registry accepts.\<close>

definition parse_registry :: "(string \<Rightarrow> bool) \<Rightarrow> js disk_file \<Rightarrow> operation list res" where
  "parse_registry date_ok f = (case f of
     JsonFile v \<Rightarrow>
       if jget v ''version'' \<noteq> JInt 1 \<or> \<not> is_array (jget v ''operations'') then Inl state_error
       else bnd (map_res (normalizeStoredOperation date_ok) (arr_of (jget v ''operations''))) (\<lambda>ops.
         if \<not> distinct (map op_operationId ops)
         then Inl (Err ''Error'' None ''duplicate Website provisioning operation'') else Inr ops)
   | _ \<Rightarrow> Inl (Err ''SyntaxError'' None ''''))"

definition ensureInitialized :: "(string \<Rightarrow> bool) \<Rightarrow> (registry, unit) sm" where
  "ensureInitialized date_ok s =
     (if loaded s then (Inr (), s)
      else case disk s of
        NoFile \<Rightarrow> sbind persist (\<lambda>_. smod (\<lambda>t. t\<lparr>loaded := True\<rparr>)) s
      | f \<Rightarrow> (case parse_registry date_ok f of
          Inl e \<Rightarrow> (Inl e, s)
        | Inr ops \<Rightarrow> (Inr (), s\<lparr>memory := ops, loaded := True\<rparr>)))"

definition find_operation :: "string \<Rightarrow> operation list \<Rightarrow> operation option" where
  "find_operation i ops = find (\<lambda>p. op_operationId p = i) ops"

definition find_step :: "string \<Rightarrow> step list \<Rightarrow> step option" where
  "find_step i ss = find (\<lambda>s. step_id s = i) ss"

definition requireOperation :: "string \<Rightarrow> (registry, operation) sm" where
  "requireOperation i = sbind (get_mem (find_operation i)) (\<lambda>found. case found of
     None \<Rightarrow> sthrow (registry_error ''website_provisioning_not_found''
               ''Website provisioning operation was not found'')
   | Some p \<Rightarrow> sret p)"

definition requireStep :: "operation \<Rightarrow> string \<Rightarrow> step res" where
  "requireStep p i = (case find_step i (op_steps p) of
     None \<Rightarrow> Inl (registry_error ''website_provisioning_step_not_found''
               ''Website provisioning step was not found'')
   | Some s \<Rightarrow> Inr s)"

text \<open>Assignments through the references the handlers hold.\<close>

definition change_operation :: "string \<Rightarrow> (operation \<Rightarrow> operation) \<Rightarrow> operation list \<Rightarrow> operation list" where
  "change_operation i f ops = update_first (\<lambda>p. op_operationId p = i) f ops"

definition change_step :: "string \<Rightarrow> (step \<Rightarrow> step) \<Rightarrow> operation \<Rightarrow> operation" where
  "change_step i f p = p\<lparr>op_steps := update_first (\<lambda>s. step_id s = i) f (op_steps p)\<rparr>"

definition assign_step :: "string \<Rightarrow> string \<Rightarrow> (step \<Rightarrow> step) \<Rightarrow> (registry, unit) sm" where
  "assign_step oid sid f = mod_mem (change_operation oid (change_step sid f))"

definition on_comp :: "(compensation \<Rightarrow> compensation) \<Rightarrow> step \<Rightarrow> step" where
  "on_comp f s = s\<lparr>step_comp := f (step_comp s)\<rparr>"

definition view :: "string \<Rightarrow> (registry, public_operation) sm" where
  "view oid = sbind (requireOperation oid) (\<lambda>p. slift (publicOperation p))"

text \<open>\<open>operation.updatedAt = nowIso(); await persist(); return publicOperation(operation);\<close>\<close>

definition commit :: "js \<Rightarrow> string \<Rightarrow> (registry, public_operation) sm" where
  "commit now oid =
     sbind (slift (nowIso now)) (\<lambda>t.
     sbind (mod_mem (change_operation oid (\<lambda>p. p\<lparr>op_updatedAt := t\<rparr>))) (\<lambda>_.
     sbind persist (\<lambda>_. view oid)))"

definition with_step ::
  "(string \<Rightarrow> bool) \<Rightarrow> string \<Rightarrow> string \<Rightarrow> (operation \<Rightarrow> step \<Rightarrow> (registry, 'a) sm) \<Rightarrow> (registry, 'a) sm" where
  "with_step date_ok oid sid k =
     sbind (ensureInitialized date_ok) (\<lambda>_.
     sbind (requireOperation oid) (\<lambda>p.
     sbind (slift (requireStep p sid)) (\<lambda>s. k p s)))"

section \<open>Handlers\<close>

definition create :: "(string \<Rightarrow> bool) \<Rightarrow> js \<Rightarrow> js \<Rightarrow> (registry, public_operation) sm" where
  "create date_ok now planInput =
     sbind (ensureInitialized date_ok) (\<lambda>_.
     case createWebsiteProvisioningPlan planInput of
       Inl e \<Rightarrow>
         (if err_class e = ''WebsiteProvisioningPlanError''
          then sthrow (Err ''WebsiteProvisioningRegistryError'' (err_code e) (err_msg e)) else sthrow e)
     | Inr plan \<Rightarrow>
         let candidate = \<lparr>op_operationId = plan_operationId plan, op_websiteId = plan_websiteId plan,
               op_resources = plan_resources plan, op_steps = plan_steps plan,
               op_createdAt = [], op_updatedAt = []\<rparr> in
         sbind (get_mem (find_operation (plan_operationId plan))) (\<lambda>existing.
         case existing of
           Some p \<Rightarrow>
             if \<not> samePlan p candidate
             then sthrow (registry_error ''website_provisioning_conflict''
                    ''Provisioning operation identity conflicts with persisted state'')
             else slift (publicOperation p)
         | None \<Rightarrow>
             sbind (slift (nowIso now)) (\<lambda>time.
             let p = candidate\<lparr>op_createdAt := time, op_updatedAt := time\<rparr> in
             sbind (mod_mem (\<lambda>ops. ops @ [p])) (\<lambda>_.
             sbind persist (\<lambda>_. slift (publicOperation p))))))"

definition get :: "(string \<Rightarrow> bool) \<Rightarrow> string \<Rightarrow> (registry, public_operation option) sm" where
  "get date_ok oid =
     sbind (ensureInitialized date_ok) (\<lambda>_.
     sbind (get_mem (find_operation oid)) (\<lambda>found.
     case found of None \<Rightarrow> sret None | Some p \<Rightarrow> sbind (slift (publicOperation p)) (\<lambda>v. sret (Some v))))"

definition beginStep :: "(string \<Rightarrow> bool) \<Rightarrow> js \<Rightarrow> string \<Rightarrow> string \<Rightarrow> (registry, public_operation) sm" where
  "beginStep date_ok now oid sid = with_step date_ok oid sid (\<lambda>p s.
     if step_state s = Applying then slift (publicOperation p)
     else if step_state s \<noteq> Pending \<and> step_state s \<noteq> Blocked
     then sthrow (transition_error ''Provisioning step cannot begin from current state'')
     else
       sbind (assign_step oid sid (\<lambda>s. s\<lparr>step_state := Applying, step_error := None\<rparr>)) (\<lambda>_.
       commit now oid))"

definition completeStep :: "(string \<Rightarrow> bool) \<Rightarrow> js \<Rightarrow> string \<Rightarrow> string \<Rightarrow> js \<Rightarrow> (registry, public_operation) sm" where
  "completeStep date_ok now oid sid evidence = with_step date_ok oid sid (\<lambda>p s.
     if step_state s = Succeeded then slift (publicOperation p)
     else if step_state s \<noteq> Applying
     then sthrow (transition_error ''Only an applying provisioning step can complete'')
     else
       sbind (slift (requiredEvidence evidence)) (\<lambda>ev.
       sbind (assign_step oid sid (\<lambda>s. s\<lparr>step_evidence := Some ev, step_state := Succeeded,
                                         step_error := None\<rparr>)) (\<lambda>_.
       commit now oid)))"

text \<open>\<open>blockStep\<close> and \<open>failStep\<close> differ in the state they end in and in one message.\<close>

definition stopStep ::
  "step_state \<Rightarrow> string \<Rightarrow> (string \<Rightarrow> bool) \<Rightarrow> js \<Rightarrow> string \<Rightarrow> string \<Rightarrow> js \<Rightarrow> js \<Rightarrow> (registry, public_operation) sm" where
  "stopStep target msg date_ok now oid sid error evidence = with_step date_ok oid sid (\<lambda>p s.
     if step_state s \<noteq> Applying then sthrow (transition_error msg)
     else
       sbind (assign_step oid sid (\<lambda>s. s\<lparr>step_state := target\<rparr>)) (\<lambda>_.
       sbind (slift (failureCode error ''error'')) (\<lambda>er.
       sbind (assign_step oid sid (\<lambda>s. s\<lparr>step_error := Some er\<rparr>)) (\<lambda>_.
       sbind (slift (optionalEvidence evidence)) (\<lambda>ev.
       sbind (assign_step oid sid (\<lambda>s. s\<lparr>step_evidence := ev\<rparr>)) (\<lambda>_.
       commit now oid))))))"

definition blockStep :: "(string \<Rightarrow> bool) \<Rightarrow> js \<Rightarrow> string \<Rightarrow> string \<Rightarrow> js \<Rightarrow> js \<Rightarrow> (registry, public_operation) sm" where
  "blockStep = stopStep Blocked ''Only an applying provisioning step can block''"

definition failStep :: "(string \<Rightarrow> bool) \<Rightarrow> js \<Rightarrow> string \<Rightarrow> string \<Rightarrow> js \<Rightarrow> js \<Rightarrow> (registry, public_operation) sm" where
  "failStep = stopStep Failed ''Only an applying provisioning step can fail''"

definition retryStep :: "(string \<Rightarrow> bool) \<Rightarrow> js \<Rightarrow> string \<Rightarrow> string \<Rightarrow> (registry, public_operation) sm" where
  "retryStep date_ok now oid sid = with_step date_ok oid sid (\<lambda>p s.
     if step_state s \<noteq> Failed \<or> comp_state (step_comp s) \<notin> {CompPending, NotRequired}
     then sthrow (registry_error ''website_provisioning_retry_invalid''
            ''Only a failed provisioning step without active compensation can be retried'')
     else
       sbind (assign_step oid sid (\<lambda>s. s\<lparr>step_state := Pending, step_error := None,
                                         step_evidence := None\<rparr>)) (\<lambda>_.
       commit now oid))"

definition beginCompensation :: "(string \<Rightarrow> bool) \<Rightarrow> js \<Rightarrow> string \<Rightarrow> string \<Rightarrow> (registry, public_operation) sm" where
  "beginCompensation date_ok now oid sid = with_step date_ok oid sid (\<lambda>p s.
     if comp_state (step_comp s) = CompApplying then slift (publicOperation p)
     else if step_state s \<notin> {Succeeded, Failed} \<or> comp_state (step_comp s) \<notin> {CompPending, CompFailed}
     then sthrow (transition_error ''Provisioning compensation cannot begin from current state'')
     else if findBlockingLaterCompensationStep (op_steps p) sid \<noteq> None
     then sthrow (registry_error ''website_provisioning_compensation_order_invalid''
            ''Later provisioning steps must be compensated before this step'')
     else
       sbind (assign_step oid sid (\<lambda>s. on_comp (\<lambda>c. c\<lparr>comp_state := CompApplying, comp_error := None\<rparr>)
                                         (s\<lparr>step_state := Compensating\<rparr>))) (\<lambda>_.
       commit now oid))"

definition completeCompensation :: "(string \<Rightarrow> bool) \<Rightarrow> js \<Rightarrow> string \<Rightarrow> string \<Rightarrow> js \<Rightarrow> (registry, public_operation) sm" where
  "completeCompensation date_ok now oid sid evidence = with_step date_ok oid sid (\<lambda>p s.
     if step_state s = Compensated \<and> comp_state (step_comp s) = CompSucceeded then slift (publicOperation p)
     else if step_state s \<noteq> Compensating \<or> comp_state (step_comp s) \<noteq> CompApplying
     then sthrow (transition_error ''Only an applying compensation can complete'')
     else
       sbind (slift (requiredEvidence evidence)) (\<lambda>ev.
       sbind (assign_step oid sid (\<lambda>s. on_comp (\<lambda>c. c\<lparr>comp_evidence := Some ev, comp_state := CompSucceeded,
                                                     comp_error := None\<rparr>)
                                         (s\<lparr>step_state := Compensated\<rparr>))) (\<lambda>_.
       commit now oid)))"

definition failCompensation :: "(string \<Rightarrow> bool) \<Rightarrow> js \<Rightarrow> string \<Rightarrow> string \<Rightarrow> js \<Rightarrow> (registry, public_operation) sm" where
  "failCompensation date_ok now oid sid error = with_step date_ok oid sid (\<lambda>p s.
     if step_state s \<noteq> Compensating \<or> comp_state (step_comp s) \<noteq> CompApplying
     then sthrow (transition_error ''Only an applying compensation can fail'')
     else
       sbind (assign_step oid sid (on_comp (\<lambda>c. c\<lparr>comp_state := CompFailed\<rparr>))) (\<lambda>_.
       sbind (slift (failureCode error ''compensation error'')) (\<lambda>er.
       sbind (assign_step oid sid (\<lambda>s. on_comp (\<lambda>c. c\<lparr>comp_error := Some er\<rparr>)
               (s\<lparr>step_state := (if step_error s = None then Succeeded else Failed)\<rparr>))) (\<lambda>_.
       commit now oid))))"

text \<open>The listings. \<open>lc\<close> is \<open>localeCompare\<close>, whose collation comes from the ICU data of the runtime.\<close>

definition newest_first :: "(string \<Rightarrow> string \<Rightarrow> int) \<Rightarrow> operation \<Rightarrow> operation \<Rightarrow> int" where
  "newest_first lc left right =
     (let byUpdatedAt = lc (op_updatedAt right) (op_updatedAt left);
          byCreatedAt = lc (op_createdAt right) (op_createdAt left) in
      if byUpdatedAt \<noteq> 0 then byUpdatedAt
      else if byCreatedAt \<noteq> 0 then byCreatedAt
      else lc (op_operationId right) (op_operationId left))"

definition getLatestForWebsite ::
  "(string \<Rightarrow> string \<Rightarrow> int) \<Rightarrow> (string \<Rightarrow> bool) \<Rightarrow> string \<Rightarrow> (registry, public_operation option) sm" where
  "getLatestForWebsite lc date_ok websiteId =
     sbind (ensureInitialized date_ok) (\<lambda>_.
     sbind (get_mem (\<lambda>ops. js_sort (newest_first lc) (filter (\<lambda>p. op_websiteId p = websiteId) ops))) (\<lambda>xs.
     case xs of [] \<Rightarrow> sret None | p # _ \<Rightarrow> sbind (slift (publicOperation p)) (\<lambda>v. sret (Some v))))"

definition listForWebsite ::
  "(string \<Rightarrow> string \<Rightarrow> int) \<Rightarrow> (string \<Rightarrow> bool) \<Rightarrow> js \<Rightarrow> (registry, public_operation list) sm" where
  "listForWebsite lc date_ok websiteId =
     sbind (ensureInitialized date_ok) (\<lambda>_.
     if \<not> is_string websiteId \<or> str_of websiteId = []
     then sthrow (registry_error ''website_provisioning_website_id_invalid'' ''Website id is required'')
     else
       sbind (get_mem (\<lambda>ops. js_sort (newest_first lc) (filter (\<lambda>p. op_websiteId p = str_of websiteId) ops)))
         (\<lambda>xs. slift (map_res publicOperation xs)))"

definition zone_field_ok :: "js \<Rightarrow> bool" where
  "zone_field_ok v = (is_string v \<and> 1 \<le> length (str_of v) \<and> length (str_of v) \<le> 253 \<and>
     \<not> list_ex is_control (str_of v))"

definition zone_step :: "js \<Rightarrow> js \<Rightarrow> js \<Rightarrow> step \<Rightarrow> bool" where
  "zone_step serverId webDomainId zoneName s =
     (step_kind s = ''dns_zone'' \<and> strict_eq (obj_get (step_intent s) ''serverId'') serverId \<and>
      strict_eq (obj_get (step_intent s) ''webDomainId'') webDomainId \<and>
      strict_eq (obj_get (step_intent s) ''zoneName'') zoneName)"

definition listForDnsZone ::
  "(string \<Rightarrow> string \<Rightarrow> int) \<Rightarrow> (string \<Rightarrow> bool) \<Rightarrow> js \<Rightarrow> js \<Rightarrow> js \<Rightarrow> (registry, public_operation list) sm" where
  "listForDnsZone lc date_ok serverId webDomainId zoneName =
     sbind (ensureInitialized date_ok) (\<lambda>_.
     case find (\<lambda>(f, v). \<not> zone_field_ok v)
            [(''serverId'', serverId), (''webDomainId'', webDomainId), (''zoneName'', zoneName)] of
       Some (f, _) \<Rightarrow> sthrow (registry_error ''website_provisioning_dns_zone_scope_invalid'' (f @ '' is invalid''))
     | None \<Rightarrow>
       sbind (get_mem (\<lambda>ops. js_sort (newest_first lc)
                (filter (\<lambda>p. list_ex (zone_step serverId webDomainId zoneName) (op_steps p)) ops)))
         (\<lambda>xs. slift (map_res publicOperation xs)))"

definition listInterrupted :: "(string \<Rightarrow> bool) \<Rightarrow> (registry, public_operation list) sm" where
  "listInterrupted date_ok =
     sbind (ensureInitialized date_ok) (\<lambda>_.
     sbind (get_mem (filter (\<lambda>p. list_ex (\<lambda>s. step_state s = Applying \<or> step_state s = Compensating)
                                   (op_steps p))))
       (\<lambda>xs. slift (map_res publicOperation xs)))"

end
