(* ===== verification/ProvisioningProofs.thy ===== *)
theory ProvisioningProofs
  imports ProvisioningRegistry
begin

text \<open>
  What the provisioning registry guarantees: every handler changes at most one step of one
  operation, along the edges of the step lifecycle; the registry stays well formed whatever the
  arguments are; compensation runs in reverse order; and what the write chain and the order of
  assignments do when a write or an argument check fails.
\<close>

section \<open>Well-formed registries\<close>

definition wf_operation :: "operation \<Rightarrow> bool" where
  "wf_operation p = (clean (op_operationId p) \<and> clean (op_websiteId p) \<and> wf_steps (op_steps p))"

definition wf_registry :: "operation list \<Rightarrow> bool" where
  "wf_registry ops = (distinct (map op_operationId ops) \<and> list_all wf_operation ops)"

definition view_of :: "operation \<Rightarrow> public_operation" where
  "view_of p = \<lparr>public_plan = derived_plan (op_operationId p) (op_websiteId p) (op_resources p) (op_steps p),
     public_createdAt = op_createdAt p, public_updatedAt = op_updatedAt p\<rparr>"

lemma publicOperation_wf: "wf_operation p \<Longrightarrow> publicOperation p = Inr (view_of p)"
  by (simp add: publicOperation_def wf_operation_def createPlan_of_typed view_of_def)

lemma find_operationD:
  "find_operation i ops = Some p \<Longrightarrow> p \<in> set ops \<and> op_operationId p = i"
  by (auto simp: find_operation_def dest: find_SomeD)

lemma find_stepD: "find_step i ss = Some s \<Longrightarrow> s \<in> set ss \<and> step_id s = i"
  by (auto simp: find_step_def dest: find_SomeD)

lemma wf_registry_find: "wf_registry ops \<Longrightarrow> find_operation i ops = Some p \<Longrightarrow> wf_operation p"
  by (auto simp: wf_registry_def list_all_iff dest: find_operationD)

section \<open>Effects of assignments\<close>

definition touch :: "string option \<Rightarrow> operation \<Rightarrow> operation" where
  "touch u p = (case u of None \<Rightarrow> p | Some t \<Rightarrow> p\<lparr>op_updatedAt := t\<rparr>)"

lemma touch_simps [simp]:
  "op_operationId (touch u p) = op_operationId p" "op_websiteId (touch u p) = op_websiteId p"
  "op_resources (touch u p) = op_resources p" "op_steps (touch u p) = op_steps p"
  "op_createdAt (touch u p) = op_createdAt p"
  by (simp_all add: touch_def split: option.splits)

lemma change_step_simps [simp]:
  "op_operationId (change_step i f p) = op_operationId p" "op_websiteId (change_step i f p) = op_websiteId p"
  "op_resources (change_step i f p) = op_resources p" "op_createdAt (change_step i f p) = op_createdAt p"
  "op_updatedAt (change_step i f p) = op_updatedAt p"
  "op_steps (change_step i f p) = update_first (\<lambda>s. step_id s = i) f (op_steps p)"
  by (simp_all add: change_step_def)

lemma change_operation_compose:
  "(\<And>p. op_operationId (f p) = op_operationId p) \<Longrightarrow>
   change_operation i g (change_operation i f ops) = change_operation i (\<lambda>p. g (f p)) ops"
  by (induction ops) (auto simp: change_operation_def)

lemma change_step_compose:
  "(\<And>s. step_id (f s) = step_id s) \<Longrightarrow>
   change_step i g (change_step i f p) = change_step i (\<lambda>s. g (f s)) p"
proof -
  assume k: "\<And>s. step_id (f s) = step_id s"
  have "update_first (\<lambda>s. step_id s = i) g (update_first (\<lambda>s. step_id s = i) f ss)
    = update_first (\<lambda>s. step_id s = i) (\<lambda>s. g (f s)) ss" for ss
    by (induction ss) (auto simp: k)
  then show ?thesis by (simp add: change_step_def)
qed

lemma change_operation_touch_None: "change_operation i (touch None) ops = ops"
  by (induction ops) (auto simp: change_operation_def touch_def)

lemma view_state [simp]: "snd (view oid s) = s"
  by (simp add: view_def sbind_apply requireOperation_def split: option.splits)

lemma commit_apply:
  "commit now oid s = (case nowIso now of Inl e \<Rightarrow> (Inl e, s)
     | Inr t \<Rightarrow> sbind persist (\<lambda>_. view oid)
         (s\<lparr>memory := change_operation oid (\<lambda>p. p\<lparr>op_updatedAt := t\<rparr>) (memory s)\<rparr>))"
  by (simp add: commit_def sbind_apply split: sum.splits)

lemma persist_then_view_memory: "memory (snd (sbind persist (\<lambda>_. view oid) s)) = memory s"
  by (cases "persist s" rule: prod.exhaust; cases "fst (persist s)")
    (use persist_chained_memory [of registry_text s] in \<open>auto simp: sbind_apply\<close>)

text \<open>The timestamps a handler sets come from the clock, as ISO strings.\<close>

definition clock_text :: "string option \<Rightarrow> bool" where
  "clock_text u = (\<forall>t. u = Some t \<longrightarrow> is_iso t)"

lemma clock_text_None [simp]: "clock_text None"
  by (simp add: clock_text_def)

lemma nowIso_iso: "nowIso now = Inr t \<Longrightarrow> is_iso t"
  by (auto simp: nowIso_def intro: toISOString_is_iso split: if_splits)

lemma commit_effect: "\<exists>u. clock_text u \<and> memory (snd (commit now oid s)) = change_operation oid (touch u) (memory s)"
proof (cases "nowIso now")
  case (Inl e)
  then have "memory (snd (commit now oid s)) = change_operation oid (touch None) (memory s)"
    by (simp add: commit_apply change_operation_touch_None)
  then show ?thesis using clock_text_None by blast
next
  case (Inr t)
  then have "memory (snd (commit now oid s)) = change_operation oid (touch (Some t)) (memory s)"
    by (simp add: commit_apply persist_then_view_memory touch_def [abs_def])
  moreover have "clock_text (Some t)" using nowIso_iso [OF Inr] by (simp add: clock_text_def)
  ultimately show ?thesis by blast
qed

text \<open>
  A handler's effect on the registry: none, or one step \<open>t\<close> of one operation is replaced by
  \<open>f t\<close> with \<open>E t (f t)\<close>, and the operation's timestamp may be set.
\<close>

definition step_effect ::
  "(step \<Rightarrow> step \<Rightarrow> bool) \<Rightarrow> string \<Rightarrow> string \<Rightarrow> operation list \<Rightarrow> operation list \<Rightarrow> bool" where
  "step_effect E oid sid m m' \<longleftrightarrow> m' = m \<or>
     (\<exists>p t f u. clock_text u \<and> find_operation oid m = Some p \<and> find_step sid (op_steps p) = Some t \<and> E t (f t) \<and>
        (\<forall>x. step_id (f x) = step_id x) \<and> m' = change_operation oid (\<lambda>p. touch u (change_step sid f p)) m)"

lemma step_effect_refl: "step_effect E oid sid m m"
  by (simp add: step_effect_def)

lemma step_effect_assign:
  assumes "find_operation oid m = Some p" "find_step sid (op_steps p) = Some t" "E t (f t)"
    "\<And>x. step_id (f x) = step_id x"
  shows "step_effect E oid sid m (change_operation oid (change_step sid f) m)"
proof -
  have "(\<lambda>p. touch None (change_step sid f p)) = change_step sid f" by (simp add: touch_def)
  with assms clock_text_None show ?thesis unfolding step_effect_def by metis
qed

lemma step_effect_commit:
  assumes "find_operation oid m = Some p" "find_step sid (op_steps p) = Some t" "E t (f t)"
    "\<And>x. step_id (f x) = step_id x" "memory s = change_operation oid (change_step sid f) m"
  shows "step_effect E oid sid m (memory (snd (commit now oid s)))"
proof -
  obtain u where "clock_text u"
    and "memory (snd (commit now oid s)) = change_operation oid (touch u) (memory s)"
    using commit_effect by blast
  then have "memory (snd (commit now oid s)) = change_operation oid (\<lambda>p. touch u (change_step sid f p)) m"
    by (simp add: assms(5) change_operation_compose)
  with assms(1-4) \<open>clock_text u\<close> show ?thesis unfolding step_effect_def by blast
qed

section \<open>The step lifecycle\<close>

definition phase :: "step \<Rightarrow> step_state \<times> comp_state" where
  "phase s = (step_state s, comp_state (step_comp s))"

definition same_definition :: "step \<Rightarrow> step \<Rightarrow> bool" where
  "same_definition s t = (step_id t = step_id s \<and> step_kind t = step_kind s \<and>
     step_required t = step_required s \<and> step_intent t = step_intent s)"

inductive phase_edge :: "step_state \<times> comp_state \<Rightarrow> step_state \<times> comp_state \<Rightarrow> bool" where
  begins: "phase_edge (Pending, c) (Applying, c)"
| resumes: "phase_edge (Blocked, c) (Applying, c)"
| completes: "phase_edge (Applying, c) (Succeeded, c)"
| blocks: "phase_edge (Applying, c) (Blocked, c)"
| fails: "phase_edge (Applying, c) (Failed, c)"
| retries: "c \<in> {CompPending, NotRequired} \<Longrightarrow> phase_edge (Failed, c) (Pending, c)"
| compensates: "st \<in> {Succeeded, Failed} \<Longrightarrow> c \<in> {CompPending, CompFailed} \<Longrightarrow>
    phase_edge (st, c) (Compensating, CompApplying)"
| is_compensated: "phase_edge (Compensating, CompApplying) (Compensated, CompSucceeded)"
| compensation_failed: "st \<in> {Succeeded, Failed} \<Longrightarrow>
    phase_edge (Compensating, CompApplying) (st, CompFailed)"

inductive_cases phase_edge_from: "phase_edge (a, c) q"
inductive_simps phase_edge_iff: "phase_edge (a, c) (b, d)"

code_pred phase_edge .

text \<open>What the registry stores about a step besides its lifecycle stays well formed.\<close>

definition step_edge :: "step \<Rightarrow> step \<Rightarrow> bool" where
  "step_edge s t = (same_definition s t \<and> phase_edge (phase s) (phase t) \<and> (wf_step s \<longrightarrow> wf_step t))"

text \<open>
  The step that a rejected \<open>failCompensation\<close> leaves behind: the compensation is marked failed
  before its error argument is checked.
\<close>

definition torn_edge :: "step \<Rightarrow> step \<Rightarrow> bool" where
  "torn_edge s t = (same_definition s t \<and> phase s = (Compensating, CompApplying) \<and>
     phase t = (Compensating, CompFailed) \<and> (wf_step s \<longrightarrow> wf_step t))"

definition code_edge :: "step \<Rightarrow> step \<Rightarrow> bool" where
  "code_edge s t = (step_edge s t \<or> torn_edge s t)"

lemma failureCode_clean: "failureCode v field = Inr e \<Longrightarrow> clean e"
  by (auto simp: failureCode_def intro!: clean_trim split: if_splits)

text \<open>
  A step edge whose phases are related by \<open>R\<close>: what one handler does, as against what any of them
  may do.
\<close>

definition moved :: "(step_state \<times> comp_state \<Rightarrow> step_state \<times> comp_state \<Rightarrow> bool) \<Rightarrow> step \<Rightarrow> step \<Rightarrow> bool" where
  "moved R s t = (step_edge s t \<and> R (phase s) (phase t))"

lemmas step_edge_simps = moved_def step_edge_def same_definition_def phase_def phase_edge_iff on_comp_def
  wf_step_def wf_comp_def

lemma ensureInitialized_loaded [simp]: "loaded s \<Longrightarrow> ensureInitialized d s = (Inr (), s)"
  by (simp add: ensureInitialized_def)

lemma with_step_loaded:
  assumes "loaded s"
  shows "with_step d oid sid k s = (case find_operation oid (memory s) of
      None \<Rightarrow> (Inl (registry_error ''website_provisioning_not_found''
               ''Website provisioning operation was not found''), s)
    | Some p \<Rightarrow> (case find_step sid (op_steps p) of
        None \<Rightarrow> (Inl (registry_error ''website_provisioning_step_not_found''
               ''Website provisioning step was not found''), s)
      | Some t \<Rightarrow> k p t s))"
  using assms by (simp add: with_step_def sbind_apply requireOperation_def requireStep_def split: option.splits)

lemma with_step_effect:
  assumes "loaded s"
    and "\<And>p t. find_operation oid (memory s) = Some p \<Longrightarrow> find_step sid (op_steps p) = Some t \<Longrightarrow>
      step_effect E oid sid (memory s) (memory (snd (k p t s)))"
  shows "step_effect E oid sid (memory s) (memory (snd (with_step d oid sid k s)))"
  using assms by (simp add: with_step_loaded step_effect_refl split: option.splits)

lemma assign_step_apply [simp]:
  "assign_step oid sid f s = (Inr (), s\<lparr>memory := change_operation oid (change_step sid f) (memory s)\<rparr>)"
  by (simp add: assign_step_def)

lemma sbind_assign: "sbind (assign_step oid sid f) (\<lambda>_. m) s
  = m (s\<lparr>memory := change_operation oid (change_step sid f) (memory s)\<rparr>)"
  by (simp add: sbind_apply)

section \<open>Every handler changes one step along its own edges\<close>

definition begins_step :: "step_state \<times> comp_state \<Rightarrow> step_state \<times> comp_state \<Rightarrow> bool" where
  "begins_step p q = (fst p \<in> {Pending, Blocked} \<and> q = (Applying, snd p))"

definition ends_step :: "step_state \<Rightarrow> step_state \<times> comp_state \<Rightarrow> step_state \<times> comp_state \<Rightarrow> bool" where
  "ends_step st p q = (fst p = Applying \<and> q = (st, snd p))"

definition retries_step :: "step_state \<times> comp_state \<Rightarrow> step_state \<times> comp_state \<Rightarrow> bool" where
  "retries_step p q = (fst p = Failed \<and> snd p \<in> {CompPending, NotRequired} \<and> q = (Pending, snd p))"

definition begins_compensation :: "step_state \<times> comp_state \<Rightarrow> step_state \<times> comp_state \<Rightarrow> bool" where
  "begins_compensation p q = (fst p \<in> {Succeeded, Failed} \<and> snd p \<in> {CompPending, CompFailed} \<and>
     q = (Compensating, CompApplying))"

definition completes_compensation :: "step_state \<times> comp_state \<Rightarrow> step_state \<times> comp_state \<Rightarrow> bool" where
  "completes_compensation p q = (p = (Compensating, CompApplying) \<and> q = (Compensated, CompSucceeded))"

definition fails_compensation :: "step_state \<times> comp_state \<Rightarrow> step_state \<times> comp_state \<Rightarrow> bool" where
  "fails_compensation p q = (p = (Compensating, CompApplying) \<and> fst q \<in> {Succeeded, Failed} \<and> snd q = CompFailed)"

lemmas handler_edges = begins_step_def ends_step_def retries_step_def begins_compensation_def
  completes_compensation_def fails_compensation_def

text \<open>The shape all handlers share: a guard, then the assignments, then the commit.\<close>

lemma effect_assign_commit:
  assumes "find_operation oid (memory s) = Some p" "find_step sid (op_steps p) = Some t" "E t (f t)"
    "\<And>x. step_id (f x) = step_id x"
  shows "step_effect E oid sid (memory s)
    (memory (snd (sbind (assign_step oid sid f) (\<lambda>_. commit now oid) s)))"
  unfolding sbind_assign
  by (rule step_effect_commit [where p = p and t = t and f = f]) (use assms in simp_all)

lemma effect_if:
  "(c \<Longrightarrow> step_effect E oid sid m (memory (snd (a s)))) \<Longrightarrow>
   (\<not> c \<Longrightarrow> step_effect E oid sid m (memory (snd (b s)))) \<Longrightarrow>
   step_effect E oid sid m (memory (snd ((if c then a else b) s)))"
  by simp

lemma effect_slift [simp]: "step_effect E oid sid (memory s) (memory (snd (slift r s)))"
  by (simp add: step_effect_refl)

lemma effect_sthrow [simp]: "step_effect E oid sid (memory s) (memory (snd (sthrow e s)))"
  by (simp add: step_effect_refl)

lemma effect_sbind_slift:
  "(\<And>x. r = Inr x \<Longrightarrow> step_effect E oid sid (memory s) (memory (snd (f x s)))) \<Longrightarrow>
   step_effect E oid sid (memory s) (memory (snd (sbind (slift r) f s)))"
  by (cases r) (simp_all add: sbind_apply step_effect_refl)

lemmas effect_intros = with_step_effect effect_if effect_sbind_slift effect_slift effect_sthrow
  effect_assign_commit

lemma beginStep_effect:
  "loaded s \<Longrightarrow> step_effect (moved begins_step) oid sid (memory s) (memory (snd (beginStep d now oid sid s)))"
  unfolding beginStep_def
  by (rule effect_intros | assumption)+ (auto simp: step_edge_simps handler_edges)

lemma completeStep_effect:
  "loaded s \<Longrightarrow> step_effect (moved (ends_step Succeeded)) oid sid (memory s) (memory (snd (completeStep d now oid sid ev s)))"
  unfolding completeStep_def
  by (rule effect_intros | assumption)+ (auto simp: step_edge_simps handler_edges)

lemma retryStep_effect:
  "loaded s \<Longrightarrow> step_effect (moved retries_step) oid sid (memory s) (memory (snd (retryStep d now oid sid s)))"
  unfolding retryStep_def
  by (rule effect_intros | assumption)+ (auto simp: step_edge_simps handler_edges)

lemma beginCompensation_effect:
  "loaded s \<Longrightarrow>
   step_effect (moved begins_compensation) oid sid (memory s) (memory (snd (beginCompensation d now oid sid s)))"
  unfolding beginCompensation_def
  by (rule effect_intros | assumption)+ (auto simp: step_edge_simps handler_edges)

lemma completeCompensation_effect:
  "loaded s \<Longrightarrow>
   step_effect (moved completes_compensation) oid sid (memory s) (memory (snd (completeCompensation d now oid sid ev s)))"
  unfolding completeCompensation_def
  by (rule effect_intros | assumption)+ (auto simp: step_edge_simps handler_edges)

text \<open>
  Handlers that check an argument between two assignments: \<open>f\<close> is what has been assigned so far.
\<close>

definition assigned :: "string \<Rightarrow> string \<Rightarrow> (step \<Rightarrow> step) \<Rightarrow> operation list \<Rightarrow> registry \<Rightarrow> bool" where
  "assigned oid sid f m s \<longleftrightarrow> memory s = change_operation oid (change_step sid f) m \<and>
     (\<forall>x. step_id (f x) = step_id x)"

lemma assigned_first:
  assumes "\<And>x. step_id (f x) = step_id x"
    "\<And>s'. assigned oid sid f (memory s) s' \<Longrightarrow> step_effect E oid sid (memory s) (memory (snd (k s')))"
  shows "step_effect E oid sid (memory s) (memory (snd (sbind (assign_step oid sid f) (\<lambda>_. k) s)))"
  unfolding sbind_assign by (rule assms(2)) (simp add: assigned_def assms(1))

lemma assigned_next:
  assumes "assigned oid sid f m s" "\<And>x. step_id (g x) = step_id x"
    "\<And>s'. assigned oid sid (\<lambda>x. g (f x)) m s' \<Longrightarrow> step_effect E oid sid m (memory (snd (k s')))"
  shows "step_effect E oid sid m (memory (snd (sbind (assign_step oid sid g) (\<lambda>_. k) s)))"
  unfolding sbind_assign
  by (rule assms(3)) (use assms(1,2) in \<open>simp add: assigned_def change_operation_compose change_step_compose\<close>)

lemma assigned_check:
  assumes "assigned oid sid f m s" "find_operation oid m = Some p" "find_step sid (op_steps p) = Some t"
    "E t (f t)" "\<And>x. r = Inr x \<Longrightarrow> step_effect E oid sid m (memory (snd (k x s)))"
  shows "step_effect E oid sid m (memory (snd (sbind (slift r) k s)))"
proof (cases r)
  case (Inl e)
  with assms(1-4) show ?thesis by (auto simp: sbind_apply assigned_def intro: step_effect_assign)
qed (use assms(5) in \<open>simp add: sbind_apply\<close>)

lemma assigned_commit:
  assumes "assigned oid sid f m s" "find_operation oid m = Some p" "find_step sid (op_steps p) = Some t"
    "E t (f t)"
  shows "step_effect E oid sid m (memory (snd (commit now oid s)))"
  by (rule step_effect_commit [where p = p and t = t and f = f])
    (use assms in \<open>auto simp: assigned_def\<close>)

lemma stopStep_effect:
  assumes "loaded s" and target: "target \<in> {Blocked, Failed}"
  shows "step_effect (moved (ends_step target)) oid sid (memory s)
    (memory (snd (stopStep target msg d now oid sid er ev s)))"
  unfolding stopStep_def
proof (rule with_step_effect [OF assms(1)], rule effect_if)
  fix p t
  assume f: "find_operation oid (memory s) = Some p" "find_step sid (op_steps p) = Some t"
    and a: "\<not> step_state t \<noteq> Applying"
  show "step_effect (moved (ends_step target)) oid sid (memory s) (memory (snd (sbind (assign_step oid sid (\<lambda>s. s\<lparr>step_state := target\<rparr>)) (\<lambda>_.
       sbind (slift (failureCode er ''error'')) (\<lambda>er.
       sbind (assign_step oid sid (\<lambda>s. s\<lparr>step_error := Some er\<rparr>)) (\<lambda>_.
       sbind (slift (optionalEvidence ev)) (\<lambda>ev.
       sbind (assign_step oid sid (\<lambda>s. s\<lparr>step_evidence := ev\<rparr>)) (\<lambda>_.
       commit now oid))))) s)))"
    apply (rule assigned_first, simp)
    apply (rule assigned_check [OF _ f], assumption)
    subgoal using a target by (auto simp: step_edge_simps handler_edges dest!: failureCode_clean)
    apply (rule assigned_next, assumption, simp)
    apply (rule assigned_check [OF _ f], assumption)
    subgoal using a target by (auto simp: step_edge_simps handler_edges dest!: failureCode_clean)
    apply (rule assigned_next, assumption, simp)
    apply (rule assigned_commit [OF _ f], assumption)
    using a target by (auto simp: step_edge_simps handler_edges dest!: failureCode_clean)
qed (simp add: step_effect_refl)

lemma blockStep_effect:
  "loaded s \<Longrightarrow> step_effect (moved (ends_step Blocked)) oid sid (memory s) (memory (snd (blockStep d now oid sid er ev s)))"
  unfolding blockStep_def by (rule stopStep_effect) simp_all

lemma failStep_effect:
  "loaded s \<Longrightarrow> step_effect (moved (ends_step Failed)) oid sid (memory s) (memory (snd (failStep d now oid sid er ev s)))"
  unfolding failStep_def by (rule stopStep_effect) simp_all

text \<open>The error argument is checked after the compensation has been marked failed.\<close>

lemma failCompensation_effect:
  assumes "loaded s" and ok: "is_ok (failureCode er ''compensation error'') \<Longrightarrow> E = moved fails_compensation"
    and torn: "\<not> is_ok (failureCode er ''compensation error'') \<Longrightarrow> E = code_edge"
  shows "step_effect E oid sid (memory s) (memory (snd (failCompensation d now oid sid er s)))"
  unfolding failCompensation_def
proof (rule with_step_effect [OF assms(1)], rule effect_if)
  fix p t
  assume f: "find_operation oid (memory s) = Some p" "find_step sid (op_steps p) = Some t"
    and a: "\<not> (step_state t \<noteq> Compensating \<or> comp_state (step_comp t) \<noteq> CompApplying)"
  show "step_effect E oid sid (memory s) (memory (snd (sbind (assign_step oid sid (on_comp (\<lambda>c. c\<lparr>comp_state := CompFailed\<rparr>))) (\<lambda>_.
       sbind (slift (failureCode er ''compensation error'')) (\<lambda>er.
       sbind (assign_step oid sid (\<lambda>s. on_comp (\<lambda>c. c\<lparr>comp_error := Some er\<rparr>)
               (s\<lparr>step_state := (if step_error s = None then Succeeded else Failed)\<rparr>))) (\<lambda>_.
       commit now oid))) s)))"
  proof (cases "failureCode er ''compensation error''")
    case (Inl e)
    with a torn have "E t (on_comp (\<lambda>c. c\<lparr>comp_state := CompFailed\<rparr>) t)"
      by (auto simp: code_edge_def torn_edge_def step_edge_simps)
    then show ?thesis unfolding sbind_assign
      by (simp add: Inl sbind_apply step_effect_assign [OF f] on_comp_def)
  next
    case (Inr x)
    with ok have "E = moved fails_compensation" by simp
    with Inr f a show ?thesis
      apply (simp add: sbind_assign sbind_Inr)
      apply (rule step_effect_commit [OF f, where f = "\<lambda>s. on_comp (\<lambda>c. c\<lparr>comp_error := Some x\<rparr>)
               (on_comp (\<lambda>c. c\<lparr>comp_state := CompFailed\<rparr>) s
                 \<lparr>step_state := (if step_error s = None then Succeeded else Failed)\<rparr>)"])
      by (auto simp: step_edge_simps handler_edges change_operation_compose change_step_compose dest!: failureCode_clean)
  qed
qed (simp add: step_effect_refl)

end
