(* ===== verification/ProvisioningRun.thy ===== *)
theory ProvisioningRun
  imports ProvisioningProofs
begin

text \<open>
  The registry under any sequence of requests: the requests its clients can make, the state they
  leave, and the guarantees that hold of it from the first start on.
\<close>

section \<open>Requests\<close>

text \<open>A request carries the clock value its handler reads.\<close>

datatype request =
    Create js js
  | GetOperation string
  | GetLatest string
  | ListWebsite js
  | ListDnsZone js js js
  | ListInterrupted
  | BeginStep js string string
  | CompleteStep js string string js
  | BlockStep js string string js js
  | FailStep js string string js js
  | RetryStep js string string
  | BeginCompensation js string string
  | CompleteCompensation js string string js
  | FailCompensation js string string js

definition one :: "(registry, public_operation) sm \<Rightarrow> (registry, public_operation list) sm" where
  "one m = sbind m (\<lambda>v. sret [v])"

definition maybe :: "(registry, public_operation option) sm \<Rightarrow> (registry, public_operation list) sm" where
  "maybe m = sbind m (\<lambda>v. sret (case v of None \<Rightarrow> [] | Some x \<Rightarrow> [x]))"

fun handle ::
  "(string \<Rightarrow> string \<Rightarrow> int) \<Rightarrow> (string \<Rightarrow> bool) \<Rightarrow> request \<Rightarrow> (registry, public_operation list) sm" where
  "handle lc d (Create now input) = one (create d now input)"
| "handle lc d (GetOperation oid) = maybe (get d oid)"
| "handle lc d (GetLatest wid) = maybe (getLatestForWebsite lc d wid)"
| "handle lc d (ListWebsite wid) = listForWebsite lc d wid"
| "handle lc d (ListDnsZone a b c) = listForDnsZone lc d a b c"
| "handle lc d ListInterrupted = listInterrupted d"
| "handle lc d (BeginStep now oid sid) = one (beginStep d now oid sid)"
| "handle lc d (CompleteStep now oid sid ev) = one (completeStep d now oid sid ev)"
| "handle lc d (BlockStep now oid sid er ev) = one (blockStep d now oid sid er ev)"
| "handle lc d (FailStep now oid sid er ev) = one (failStep d now oid sid er ev)"
| "handle lc d (RetryStep now oid sid) = one (retryStep d now oid sid)"
| "handle lc d (BeginCompensation now oid sid) = one (beginCompensation d now oid sid)"
| "handle lc d (CompleteCompensation now oid sid ev) = one (completeCompensation d now oid sid ev)"
| "handle lc d (FailCompensation now oid sid er) = one (failCompensation d now oid sid er)"

definition run :: "(string \<Rightarrow> string \<Rightarrow> int) \<Rightarrow> (string \<Rightarrow> bool) \<Rightarrow> request list \<Rightarrow> registry \<Rightarrow> registry" where
  "run lc d rs s = foldl (\<lambda>t r. snd (handle lc d r t)) s rs"

text \<open>\<open>createWebsiteProvisioningRegistry({ filePath })\<close> on a disk with this file.\<close>

definition createWebsiteProvisioningRegistry :: "js disk_file option \<Rightarrow> bool list \<Rightarrow> registry" where
  "createWebsiteProvisioningRegistry f ws = \<lparr>memory = [],
     disk = (case f of None \<Rightarrow> NoFile | Some d \<Rightarrow> d), has_path = (f \<noteq> None), loaded = (f = None),
     chain_ok = True, writes = ws\<rparr>"

lemma run_Nil [simp]: "run lc d [] s = s"
  by (simp add: run_def)

lemma run_Cons [simp]: "run lc d (r # rs) s = run lc d rs (snd (handle lc d r s))"
  by (simp add: run_def)

lemma run_keeps: "(\<And>r. keeps I (handle lc d r)) \<Longrightarrow> I s \<Longrightarrow> I (run lc d rs s)"
  by (induction rs arbitrary: s) (auto simp: keeps_def)

lemma snd_one [simp]: "snd (one m s) = snd (m s)"
  by (simp add: one_def sbind_apply split: prod.splits sum.splits)

lemma snd_maybe [simp]: "snd (maybe m s) = snd (m s)"
  by (simp add: maybe_def sbind_apply split: prod.splits sum.splits)

section \<open>Initialisation\<close>

lemma ensureInitialized_returns:
  assumes "ensureInitialized d s = (Inr u, s')"
  shows "loaded s'"
  using assms
  by (auto simp: ensureInitialized_def sbind_apply split: if_splits disk_file.splits sum.splits prod.splits)

lemma settles_ensureInitialized: "settles (ensureInitialized d)"
  unfolding settles_def
proof (intro allI impI)
  fix s u s'
  assume "ensureInitialized d s = (Inr u, s')"
  then have "loaded s'" by (rule ensureInitialized_returns)
  then show "\<exists>v. ensureInitialized d s' = (Inr v, s')" by simp
qed

text \<open>Every handler starts with \<open>await ensureInitialized()\<close>.\<close>

lemmas initializes_bind = begins_with_bind [OF settles_ensureInitialized]

lemma initializes_with_step: "begins_with (ensureInitialized d) (with_step d oid sid k)"
  unfolding with_step_def by (rule initializes_bind)

lemmas handler_defs = create_def get_def getLatestForWebsite_def listForWebsite_def listForDnsZone_def
  listInterrupted_def beginStep_def completeStep_def blockStep_def failStep_def stopStep_def
  retryStep_def beginCompensation_def completeCompensation_def failCompensation_def one_def maybe_def

lemma initializes_handle: "begins_with (ensureInitialized d) (handle lc d r)"
  by (cases r) (simp_all add: handler_defs begins_with_then initializes_with_step initializes_bind)

lemma keeps_by_loaded:
  "begins_with (ensureInitialized d) m \<Longrightarrow> keeps I (ensureInitialized d) \<Longrightarrow>
   (\<And>s. loaded s \<Longrightarrow> I s \<Longrightarrow> I (snd (m s))) \<Longrightarrow> keeps I m"
  by (erule keeps_begins_with) (auto dest: ensureInitialized_returns)

section \<open>Well-formedness\<close>

lemma persist_memory_eq: "persist s = (r, s') \<Longrightarrow> memory s' = memory s"
  by (metis persist_chained_memory snd_conv)

lemma normalizeStoredOperation_wf: "normalizeStoredOperation d v = Inr p \<Longrightarrow> wf_operation p"
  by (auto simp: normalizeStoredOperation_def wf_operation_def dest!: createPlan_Inr
      split: if_splits sum.splits)

lemma parse_registry_wf: "parse_registry d f = Inr ops \<Longrightarrow> wf_registry ops"
  by (auto simp: parse_registry_def wf_registry_def list_all_iff
      dest: map_res_Inr_set normalizeStoredOperation_wf split: disk_file.splits if_splits)

lemma keeps_wf_init: "keeps (\<lambda>s. wf_registry (memory s)) (ensureInitialized d)"
proof (rule keepsI)
  fix s :: registry
  assume wf: "wf_registry (memory s)"
  have "memory (snd (sbind persist (\<lambda>_. smod (\<lambda>t. t\<lparr>loaded := True\<rparr>)) s)) = memory s"
    by (auto simp: sbind_apply dest: persist_memory_eq split: prod.splits sum.splits)
  with wf show "wf_registry (memory (snd (ensureInitialized d s)))"
    by (auto simp: ensureInitialized_def dest: parse_registry_wf split: disk_file.splits sum.splits)
qed

lemma code_edge_wf: "code_edge s t \<Longrightarrow> step_id t = step_id s \<and> (wf_step s \<longrightarrow> wf_step t)"
  by (auto simp: code_edge_def step_edge_def torn_edge_def same_definition_def)

text \<open>Replacing the first element with a key, in a list of distinct keys, touches that element only.\<close>

lemma list_all_update_first:
  "list_all P xs \<Longrightarrow> (\<And>x. find p xs = Some x \<Longrightarrow> P (f x)) \<Longrightarrow> list_all P (update_first p f xs)"
  by (induction xs) auto

lemma wf_change_step:
  assumes "wf_operation p" "find_step sid (op_steps p) = Some t" "code_edge t (f t)"
    "\<And>x. step_id (f x) = step_id x"
  shows "wf_operation (touch u (change_step sid f p))"
proof -
  have "list_all wf_step (update_first (\<lambda>s. step_id s = sid) f (op_steps p))"
    by (rule list_all_update_first)
      (use assms code_edge_wf in \<open>auto simp: wf_operation_def wf_steps_def find_step_def list_all_iff
        dest: find_SomeD\<close>)
  moreover have "map step_id (update_first (\<lambda>s. step_id s = sid) f (op_steps p)) = map step_id (op_steps p)"
    by (rule update_first_map_key) (rule assms(4))
  moreover have "update_first (\<lambda>s. step_id s = sid) f (op_steps p) \<noteq> []"
    using assms(1) by (metis length_greater_0_conv update_first_length wf_operation_def wf_steps_def)
  ultimately show ?thesis using assms(1) by (simp add: wf_operation_def wf_steps_def)
qed

lemma wf_step_effect:
  assumes "step_effect code_edge oid sid m m'" "wf_registry m"
  shows "wf_registry m'"
proof (cases "m' = m")
  case False
  with assms obtain p t f u where f: "find_operation oid m = Some p" "find_step sid (op_steps p) = Some t"
    "code_edge t (f t)" "\<And>x. step_id (f x) = step_id x"
    and m': "m' = change_operation oid (\<lambda>p. touch u (change_step sid f p)) m"
    by (auto simp: step_effect_def)
  have "list_all wf_operation m'" unfolding m' change_operation_def
    by (rule list_all_update_first)
      (use assms(2) f in \<open>auto simp: wf_registry_def find_operation_def intro!: wf_change_step
        [OF wf_registry_find [OF assms(2)]]\<close>)
  moreover have "map op_operationId m' = map op_operationId m"
    unfolding m' change_operation_def by (rule update_first_map_key) simp
  ultimately show ?thesis using assms(2) by (simp add: wf_registry_def)
qed (use assms in simp)

lemma step_effect_mono:
  "step_effect E oid sid m m' \<Longrightarrow> (\<And>s t. E s t \<Longrightarrow> E' s t) \<Longrightarrow> step_effect E' oid sid m m'"
  unfolding step_effect_def by blast

text \<open>\<open>create\<close> appends one operation with a new identity, or changes nothing.\<close>

definition appended :: "operation list \<Rightarrow> operation list \<Rightarrow> bool" where
  "appended m m' \<longleftrightarrow> m' = m \<or>
     (\<exists>p. wf_operation p \<and> is_iso (op_createdAt p) \<and> is_iso (op_updatedAt p) \<and> find_operation (op_operationId p) m = None \<and> m' = m @ [p])"

lemma create_effect:
  assumes "loaded s"
  shows "appended (memory s) (memory (snd (create d now input s)))"
proof (cases "createWebsiteProvisioningPlan input")
  case (Inl e)
  with assms show ?thesis by (simp add: create_def sbind_apply appended_def)
next
  case (Inr plan)
  define c where "c = \<lparr>op_operationId = plan_operationId plan, op_websiteId = plan_websiteId plan,
    op_resources = plan_resources plan, op_steps = plan_steps plan, op_createdAt = [], op_updatedAt = []\<rparr>"
  show ?thesis
  proof (cases "find_operation (plan_operationId plan) (memory s)")
    case None
    show ?thesis
    proof (cases "nowIso now")
      case (Inl e)
      with assms Inr None show ?thesis
        by (simp add: create_def sbind_apply appended_def)
    next
      case (Inr t)
      let ?p = "c\<lparr>op_createdAt := t, op_updatedAt := t\<rparr>"
      have "memory (snd (create d now input s)) = memory s @ [?p]"
        using assms \<open>createWebsiteProvisioningPlan input = Inr plan\<close> None Inr
        by (auto simp: create_def sbind_apply c_def Let_def dest: persist_memory_eq
            split: prod.splits sum.splits)
      moreover have "wf_operation ?p"
        using createPlan_Inr [OF \<open>createWebsiteProvisioningPlan input = Inr plan\<close>]
        by (simp add: wf_operation_def c_def)
      ultimately show ?thesis using None nowIso_iso [OF Inr] by (auto simp: appended_def c_def)
    qed
  next
    case (Some p)
    with assms Inr show ?thesis by (simp add: create_def sbind_apply appended_def)
  qed
qed

lemma wf_appended: "appended m m' \<Longrightarrow> wf_registry m \<Longrightarrow> wf_registry m'"
  by (auto simp: appended_def wf_registry_def find_operation_def find_None_iff) blast

text \<open>The step a request addresses, and whether its arguments are ones the handler accepts.\<close>

fun targets :: "request \<Rightarrow> (string \<times> string) option" where
  "targets (BeginStep _ oid sid) = Some (oid, sid)"
| "targets (CompleteStep _ oid sid _) = Some (oid, sid)"
| "targets (BlockStep _ oid sid _ _) = Some (oid, sid)"
| "targets (FailStep _ oid sid _ _) = Some (oid, sid)"
| "targets (RetryStep _ oid sid) = Some (oid, sid)"
| "targets (BeginCompensation _ oid sid) = Some (oid, sid)"
| "targets (CompleteCompensation _ oid sid _) = Some (oid, sid)"
| "targets (FailCompensation _ oid sid _) = Some (oid, sid)"
| "targets _ = None"

fun names_failure :: "request \<Rightarrow> bool" where
  "names_failure (FailCompensation _ _ _ er) = is_ok (failureCode er ''compensation error'')"
| "names_failure _ = True"

text \<open>The moves of a step that each request asks for, written as pairs of phases.\<close>

fun asked :: "request \<Rightarrow> step_state \<times> comp_state \<Rightarrow> step_state \<times> comp_state \<Rightarrow> bool" where
  "asked (BeginStep _ _ _) = begins_step"
| "asked (CompleteStep _ _ _ _) = ends_step Succeeded"
| "asked (BlockStep _ _ _ _ _) = ends_step Blocked"
| "asked (FailStep _ _ _ _ _) = ends_step Failed"
| "asked (RetryStep _ _ _) = retries_step"
| "asked (BeginCompensation _ _ _) = begins_compensation"
| "asked (CompleteCompensation _ _ _ _) = completes_compensation"
| "asked (FailCompensation _ _ _ _) = fails_compensation"
| "asked _ = (\<lambda>_ _. False)"

definition request_edge :: "request \<Rightarrow> step \<Rightarrow> step \<Rightarrow> bool" where
  "request_edge r = (if names_failure r then moved (asked r) else code_edge)"

lemmas step_handler_effects = beginStep_effect completeStep_effect blockStep_effect failStep_effect
  retryStep_effect beginCompensation_effect completeCompensation_effect

lemma handle_effect:
  assumes "loaded s"
  shows "case targets r of
      Some (oid, sid) \<Rightarrow> step_effect (request_edge r) oid sid (memory s) (memory (snd (handle lc d r s)))
    | None \<Rightarrow> appended (memory s) (memory (snd (handle lc d r s)))"
proof (cases r)
  case (FailCompensation now oid sid er)
  have "step_effect (request_edge r) oid sid (memory s) (memory (snd (failCompensation d now oid sid er s)))"
    by (rule failCompensation_effect [OF assms]) (simp_all add: request_edge_def FailCompensation)
  then show ?thesis by (simp add: FailCompensation)
qed (use assms step_handler_effects [OF assms] create_effect [OF assms] in
    \<open>simp_all add: request_edge_def appended_def get_def getLatestForWebsite_def listForWebsite_def
      listForDnsZone_def listInterrupted_def sbind_apply split: option.splits list.splits sum.splits\<close>)

lemma request_edge_code:
  "step_effect (request_edge r) oid sid m m' \<Longrightarrow> step_effect code_edge oid sid m m'"
  by (erule step_effect_mono) (auto simp: request_edge_def code_edge_def moved_def split: if_splits)

lemma keeps_wf_handle: "keeps (\<lambda>s. wf_registry (memory s)) (handle lc d r)"
proof (rule keeps_by_loaded [OF initializes_handle keeps_wf_init])
  fix s :: registry
  assume "loaded s" and wf: "wf_registry (memory s)"
  then show "wf_registry (memory (snd (handle lc d r s)))"
    using handle_effect [where s = s and r = r and d = d and lc = lc]
    by (auto split: option.splits dest!: request_edge_code intro: wf_appended wf_step_effect)
qed

section \<open>What reaches the file\<close>

text \<open>A returned change is on disk: the memory was written after the last assignment.\<close>

definition saved :: "registry \<Rightarrow> bool" where
  "saved s = (has_path s \<longrightarrow> disk s = json_file (registry_js (memory s)))"

definition saves :: "(registry, 'a) sm \<Rightarrow> bool" where
  "saves m \<longleftrightarrow> (\<forall>s. case m s of (Inl _, _) \<Rightarrow> True | (Inr _, s') \<Rightarrow> saved s' \<and> (has_path s' \<longrightarrow> chain_ok s))"

definition write_through :: "(registry, 'a) sm \<Rightarrow> bool" where
  "write_through m \<longleftrightarrow> (\<forall>s. loaded s \<longrightarrow> (case m s of (Inl _, _) \<Rightarrow> True
     | (Inr _, s') \<Rightarrow> s' = s \<or> saved s' \<and> (has_path s' \<longrightarrow> chain_ok s)))"

lemma saves_persist_pure: "(\<And>s. snd (k s) = s) \<Longrightarrow> saves (sbind persist (\<lambda>_. k))"
  unfolding saves_def
proof
  fix s
  assume k: "\<And>s. snd (k s) = s"
  show "case sbind persist (\<lambda>_. k) s of (Inl _, _) \<Rightarrow> True
    | (Inr _, s') \<Rightarrow> saved s' \<and> (has_path s' \<longrightarrow> chain_ok s)"
  proof (cases "persist s")
    case (Pair r t)
    show ?thesis
    proof (cases r)
      case (Inr u)
      with Pair have "saved t \<and> (has_path t \<longrightarrow> chain_ok s)"
        using persist_chained_ok [of registry_text s u t]
        by (auto simp: saved_def json_file_def registry_text_def split: if_splits)
      with k [of t] show ?thesis
        by (auto simp: sbind_apply Pair Inr split: prod.splits sum.splits)
    qed (simp add: sbind_apply Pair)
  qed
qed

lemma saves_mod_mem: "saves k \<Longrightarrow> saves (sbind (mod_mem f) (\<lambda>_. k))"
  by (simp add: saves_def sbind_apply split: prod.splits sum.splits) (metis file_store.select_convs(5) file_store.surjective file_store.update_convs(1))

lemma saves_slift: "(\<And>x. saves (k x)) \<Longrightarrow> saves (sbind (slift r) k)"
  by (cases r) (auto simp: saves_def sbind_apply)

lemma saves_assign: "saves k \<Longrightarrow> saves (sbind (assign_step oid sid f) (\<lambda>_. k))"
  unfolding assign_step_def by (rule saves_mod_mem)

lemma saves_commit: "saves (commit now oid)"
  unfolding commit_def by (intro saves_slift saves_mod_mem saves_persist_pure view_state)

lemma wt_saves: "saves m \<Longrightarrow> write_through m"
  by (fastforce simp: saves_def write_through_def split: prod.splits sum.splits)

lemma write_throughI:
  "(\<And>s v s'. loaded s \<Longrightarrow> m s = (Inr v, s') \<Longrightarrow> s' = s \<or> saved s' \<and> (has_path s' \<longrightarrow> chain_ok s)) \<Longrightarrow>
   write_through m"
  by (auto simp: write_through_def split: prod.splits sum.splits)

lemma write_throughD:
  "write_through m \<Longrightarrow> loaded s \<Longrightarrow> m s = (Inr v, s') \<Longrightarrow> s' = s \<or> saved s' \<and> (has_path s' \<longrightarrow> chain_ok s)"
  by (fastforce simp: write_through_def)

lemma wt_bind_pure:
  assumes "\<And>s. loaded s \<Longrightarrow> snd (m s) = s" "\<And>x. write_through (k x)"
  shows "write_through (sbind m k)"
proof (rule write_throughI)
  fix s v s'
  assume s: "loaded s" and r: "sbind m k s = (Inr v, s')"
  then obtain x t where "m s = (Inr x, t)" "k x t = (Inr v, s')" by (blast elim: sbind_returnsE)
  with assms(1) [OF s] show "s' = s \<or> saved s' \<and> (has_path s' \<longrightarrow> chain_ok s)"
    using write_throughD [OF assms(2)] s by simp
qed

lemma wt_pure: "(\<And>s. snd (m s) = s) \<Longrightarrow> write_through m"
  by (rule write_throughI) (metis snd_conv)

lemma wt_if: "(c \<Longrightarrow> write_through m) \<Longrightarrow> (\<not> c \<Longrightarrow> write_through n) \<Longrightarrow> write_through (if c then m else n)"
  by simp

lemma wt_slift: "write_through (slift r)" and wt_sthrow: "write_through (sthrow e)"
  and wt_sret: "write_through (sret x)"
  by (simp_all add: wt_pure)

lemma requireOperation_state [simp]: "snd (requireOperation oid s) = s"
  by (simp add: requireOperation_def sbind_apply split: option.splits)

lemma wt_get_mem: "(\<And>x. write_through (k x)) \<Longrightarrow> write_through (sbind (get_mem f) k)"
  by (rule wt_bind_pure) simp_all

lemma wt_slift_bind: "(\<And>x. write_through (k x)) \<Longrightarrow> write_through (sbind (slift r) k)"
  by (rule wt_bind_pure) simp_all

lemma wt_require: "(\<And>x. write_through (k x)) \<Longrightarrow> write_through (sbind (requireOperation oid) k)"
  by (rule wt_bind_pure) simp_all

lemma wt_case_option:
  "write_through m \<Longrightarrow> (\<And>y. write_through (f y)) \<Longrightarrow>
   write_through (case x of None \<Rightarrow> m | Some y \<Rightarrow> f y)"
  by (cases x) simp_all

lemma wt_case_list:
  "write_through m \<Longrightarrow> (\<And>y ys. write_through (f y ys)) \<Longrightarrow>
   write_through (case xs of [] \<Rightarrow> m | y # ys \<Rightarrow> f y ys)"
  by (cases xs) simp_all

lemma wt_case_res:
  "(\<And>e. write_through (m e)) \<Longrightarrow> (\<And>y. write_through (f y)) \<Longrightarrow>
   write_through (case x of Inl e \<Rightarrow> m e | Inr y \<Rightarrow> f y)"
  by (cases x) simp_all

lemma wt_then_pure:
  assumes "write_through m" "\<And>x s. snd (k x s) = s"
  shows "write_through (sbind m k)"
proof (rule write_throughI)
  fix s v s'
  assume s: "loaded s" and r: "sbind m k s = (Inr v, s')"
  then obtain x t where "m s = (Inr x, t)" "k x t = (Inr v, s')" by (blast elim: sbind_returnsE)
  with assms(2) [of x t] show "s' = s \<or> saved s' \<and> (has_path s' \<longrightarrow> chain_ok s)"
    using write_throughD [OF assms(1) s] by simp
qed

lemma wt_init: "write_through k \<Longrightarrow> write_through (sbind (ensureInitialized d) (\<lambda>_. k))"
  by (rule wt_bind_pure) simp_all

lemma wt_with_step: "(\<And>p t. write_through (k p t)) \<Longrightarrow> write_through (with_step d oid sid k)"
  unfolding with_step_def by (intro wt_init wt_require wt_slift_bind)

lemmas wt_intros = wt_if wt_slift wt_sthrow wt_sret wt_get_mem wt_slift_bind wt_require wt_case_option
  wt_case_list wt_case_res

lemmas saves_intros = saves_slift saves_assign saves_commit saves_mod_mem saves_persist_pure

lemma write_through_handle: "write_through (handle lc d r)"
  by (cases r)
    (simp_all only: handle.simps handler_defs Let_def split_beta,
     (intro wt_then_pure wt_init wt_with_step wt_intros wt_saves saves_intros | simp)+)

text \<open>A store whose write chain is rejected never writes again.\<close>

lemma keeps_frozen_init: "keeps (frozen_file f) (ensureInitialized d)"
  by (auto simp: keeps_def frozen_file_def ensureInitialized_def sbind_apply poisoned_def persist_chained_def
      split: disk_file.splits sum.splits)

lemma keeps_case_res [keeps_rules]:
  "(\<And>e. keeps I (m e)) \<Longrightarrow> (\<And>y. keeps I (f y)) \<Longrightarrow> keeps I (case x of Inl e \<Rightarrow> m e | Inr y \<Rightarrow> f y)"
  by (cases x) simp_all

lemma keeps_case_list [keeps_rules]:
  "keeps I m \<Longrightarrow> (\<And>y ys. keeps I (f y ys)) \<Longrightarrow> keeps I (case xs of [] \<Rightarrow> m | y # ys \<Rightarrow> f y ys)"
  by (cases xs) simp_all

lemma keeps_unless_throw [keeps_rules]: "(\<And>e. keeps I (sthrow e))"
  by (simp add: keeps_def)

lemma keeps_frozen_handle: "keeps (frozen_file f) (handle lc d r)"
  by (cases r)
    (simp_all only: handle.simps handler_defs with_step_def requireOperation_def commit_def view_def
       assign_step_def Let_def split_beta,
     (intro keeps_frozen_init keeps_rules | simp)+)

section \<open>Settled steps\<close>

text \<open>A step whose phase no handler can leave.\<close>

definition stuck :: "step \<Rightarrow> bool" where
  "stuck t = (phase t \<in> {(Succeeded, NotRequired), (Succeeded, CompApplying), (Succeeded, CompSucceeded),
     (Failed, CompApplying), (Failed, CompSucceeded)} \<or>
     step_state t = Compensated \<or> step_state t = Compensating \<and> comp_state (step_comp t) \<noteq> CompApplying)"

lemma stuck_no_edge: "stuck t \<Longrightarrow> \<not> code_edge t u"
  by (auto simp: stuck_def code_edge_def step_edge_def torn_edge_def phase_def elim!: phase_edge.cases)

lemma no_edge_stuck: "\<not> stuck t \<Longrightarrow> \<exists>q. phase_edge (phase t) q"
proof -
  assume n: "\<not> stuck t"
  obtain st c where ph: "phase t = (st, c)" by (cases "phase t")
  with n have "\<exists>q. phase_edge (st, c) q"
    by (cases st; cases c) (auto simp: stuck_def phase_def intro: phase_edge.intros)
  with ph show ?thesis by simp
qed

definition step_at :: "string \<Rightarrow> string \<Rightarrow> operation list \<Rightarrow> step option" where
  "step_at oid sid m = (case find_operation oid m of None \<Rightarrow> None | Some p \<Rightarrow> find_step sid (op_steps p))"

lemma find_operation_change:
  "(\<And>p. op_operationId (f p) = op_operationId p) \<Longrightarrow>
   find_operation i (change_operation j f m) =
     (if i = j then map_option f (find_operation i m) else find_operation i m)"
  unfolding find_operation_def change_operation_def by (induction m) auto

lemma find_step_change:
  "(\<And>t. step_id (f t) = step_id t) \<Longrightarrow>
   find_step i (update_first (\<lambda>t. step_id t = j) f ss) =
     (if i = j then map_option f (find_step i ss) else find_step i ss)"
  unfolding find_step_def by (induction ss) auto

lemma step_at_change:
  assumes "\<And>x. step_id (f x) = step_id x"
  shows "step_at oid' sid' (change_operation oid (\<lambda>p. touch u (change_step sid f p)) m) =
    (if oid' = oid \<and> sid' = sid then map_option f (step_at oid' sid' m) else step_at oid' sid' m)"
  using assms
  by (auto simp: step_at_def find_operation_change find_step_change split: option.splits)

text \<open>Whatever the request, a step that changes follows an edge of the code.\<close>

lemma handle_step_at:
  assumes "loaded s" "step_at oid sid (memory s) = Some t"
  shows "\<exists>t'. step_at oid sid (memory (snd (handle lc d r s))) = Some t' \<and>
    (t' = t \<or> targets r = Some (oid, sid) \<and> request_edge r t t')"
proof (cases "targets r")
  case None
  then have "appended (memory s) (memory (snd (handle lc d r s)))"
    using handle_effect [OF assms(1), where r = r and lc = lc and d = d] by simp
  then show ?thesis using assms(2)
    by (auto simp: appended_def step_at_def find_operation_def find_append_Some split: option.splits)
next
  case (Some ab)
  obtain a b where ab: "ab = (a, b)" by force
  then have "step_effect (request_edge r) a b (memory s) (memory (snd (handle lc d r s)))"
    using handle_effect [OF assms(1), where r = r and lc = lc and d = d] Some by simp
  then show ?thesis
    unfolding step_effect_def
  proof (elim disjE exE conjE)
    fix p x f u
    assume f: "find_operation a (memory s) = Some p" "find_step b (op_steps p) = Some x"
      "request_edge r x (f x)" "\<forall>x. step_id (f x) = step_id x"
      and m': "memory (snd (handle lc d r s)) = change_operation a (\<lambda>p. touch u (change_step b f p)) (memory s)"
    show ?thesis
    proof (cases "oid = a \<and> sid = b")
      case True
      with f assms(2) have "t = x" by (simp add: step_at_def)
      with True f assms(2) Some ab show ?thesis by (simp add: m' step_at_change)
    next
      case False
      with f assms(2) show ?thesis by (auto simp: m' step_at_change)
    qed
  qed (use assms in simp)
qed

text \<open>Which operations there are, and which steps they have, changes by \<open>create\<close> only.\<close>

definition shape :: "operation list \<Rightarrow> (string \<times> string list) list" where
  "shape = map (\<lambda>p. (op_operationId p, map step_id (op_steps p)))"

lemma update_first_fixes: "(\<And>x. g (f x) = g x) \<Longrightarrow> map g (update_first q f xs) = map g xs"
  by (induction xs) auto

lemma shape_step_effect: "step_effect E oid sid m m' \<Longrightarrow> shape m' = shape m"
  unfolding step_effect_def shape_def change_operation_def
  by (auto simp: update_first_fixes)

lemma handle_shape:
  assumes "loaded s"
  shows "\<exists>new. shape (memory (snd (handle lc d r s))) = shape (memory s) @ new \<and>
    (if \<exists>now input. r = Create now input then length new \<le> 1 else new = [])"
proof (cases "targets r")
  case (Some ab)
  then obtain a b where "targets r = Some (a, b)" by (cases ab) auto
  then have "shape (memory (snd (handle lc d r s))) = shape (memory s)"
    using handle_effect [OF assms, where r = r and lc = lc and d = d] by (auto dest: shape_step_effect)
  then show ?thesis by (intro exI [of _ "[]"]) simp
next
  case None
  show ?thesis
  proof (cases "\<exists>now input. r = Create now input")
    case True
    with handle_effect [OF assms, where r = r and lc = lc and d = d]
    have "appended (memory s) (memory (snd (handle lc d r s)))" by auto
    then show ?thesis using True by (fastforce simp: appended_def shape_def)
  next
    case False
    with None have "memory (snd (handle lc d r s)) = memory s"
      by (cases r) (auto simp: assms get_def getLatestForWebsite_def listForWebsite_def
        listForDnsZone_def listInterrupted_def sbind_apply split: option.splits list.splits sum.splits)
    with False show ?thesis by simp
  qed
qed

lemma handle_loaded: "loaded s \<Longrightarrow> loaded (snd (handle lc d r s))"
proof -
  have p: "keeps loaded persist"
    by (simp add: keeps_def persist_chained_def write_file_def)
  have m: "keeps loaded (mod_mem f)" for f :: "operation list \<Rightarrow> operation list"
    by (simp add: keeps_def)
  have i: "keeps loaded (ensureInitialized d)"
    by (simp add: keeps_def)
  have "keeps loaded (handle lc d r)"
    by (cases r)
      (simp_all only: handle.simps handler_defs with_step_def requireOperation_def commit_def view_def
         assign_step_def Let_def split_beta,
       (intro i m p keeps_rules | simp)+)
  then show "loaded s \<Longrightarrow> loaded (snd (handle lc d r s))" by (rule keepsD)
qed

lemma stuck_stays:
  "loaded s \<Longrightarrow> step_at oid sid (memory s) = Some t \<Longrightarrow> stuck t \<Longrightarrow>
   step_at oid sid (memory (run lc d rs s)) = Some t"
proof (induction rs arbitrary: s)
  case (Cons r rs)
  obtain t' where t': "step_at oid sid (memory (snd (handle lc d r s))) = Some t'"
    "t' = t \<or> request_edge r t t'"
    using handle_step_at [OF Cons.prems(1,2)] by blast
  with stuck_no_edge [OF Cons.prems(3)] have "t' = t"
    by (auto simp: request_edge_def code_edge_def moved_def split: if_splits)
  with t' Cons.IH [OF handle_loaded [OF Cons.prems(1)]] Cons.prems(3) show ?case by simp
qed simp

end
