(* ===== verification/ProvisioningGuarantees.thy ===== *)
theory ProvisioningGuarantees
  imports ProvisioningRun
begin

text \<open>
  The guarantees of the provisioning registry as properties of its handlers and of runs of
  requests, each followed by a run on a concrete registry.
\<close>

section \<open>What a restart reads back\<close>

text \<open>
  Evidence, intents and resources are arbitrary objects; the file holds their JSON form, in which
  undefined members are gone.
\<close>

definition norm_obj :: "jobj \<Rightarrow> jobj" where
  "norm_obj m = obj_of (json_norm (JObj m))"

definition norm_comp :: "compensation \<Rightarrow> compensation" where
  "norm_comp c = c\<lparr>comp_evidence := map_option norm_obj (comp_evidence c)\<rparr>"

definition norm_step :: "step \<Rightarrow> step" where
  "norm_step s = s\<lparr>step_intent := norm_obj (step_intent s),
     step_evidence := map_option norm_obj (step_evidence s), step_comp := norm_comp (step_comp s)\<rparr>"

definition norm_operation :: "operation \<Rightarrow> operation" where
  "norm_operation p = p\<lparr>op_resources := norm_obj (op_resources p), op_steps := map norm_step (op_steps p)\<rparr>"

lemma json_norm_JObj: "json_norm (JObj m) = JObj (norm_obj m)"
  by (simp add: norm_obj_def)

lemma json_norm_opt_obj: "json_norm (opt_obj e) = opt_obj (map_option norm_obj e)"
  by (cases e) (simp_all add: opt_obj_def norm_obj_def)

lemma json_norm_opt_str: "json_norm (opt_str e) = opt_str e"
  by (cases e) (simp_all add: opt_str_def)

lemma opt_not_undef [simp]: "opt_obj e \<noteq> JUndef" "opt_str s \<noteq> JUndef"
  by (cases e; cases s; simp add: opt_obj_def opt_str_def)+

lemma js_not_undef [simp]: "comp_js c \<noteq> JUndef" "step_js s \<noteq> JUndef" "operation_js p \<noteq> JUndef"
  by (simp_all add: comp_js_def step_js_def operation_js_def)

lemma json_norm_comp_js: "json_norm (comp_js c) = comp_js (norm_comp c)"
  by (simp add: comp_js_def norm_comp_def json_norm_opt_obj json_norm_opt_str)

lemma json_norm_step_js: "json_norm (step_js s) = step_js (norm_step s)"
  by (simp add: step_js_def norm_step_def json_norm_opt_obj json_norm_opt_str json_norm_comp_js norm_obj_def)

lemma json_norm_operation_js: "json_norm (operation_js p) = operation_js (norm_operation p)"
  by (simp add: operation_js_def norm_operation_def norm_obj_def json_norm_step_js)

lemma json_norm_registry_js: "json_norm (registry_js ops) = registry_js (map norm_operation ops)"
  by (simp add: registry_js_def json_norm_operation_js)

lemma norm_simps [simp]:
  "step_id (norm_step s) = step_id s" "phase (norm_step s) = phase s"
  "op_operationId (norm_operation p) = op_operationId p"
  "op_createdAt (norm_operation p) = op_createdAt p" "op_updatedAt (norm_operation p) = op_updatedAt p"
  by (simp_all add: norm_step_def norm_operation_def phase_def norm_comp_def)

lemma wf_norm_step [simp]: "wf_step (norm_step s) = wf_step s"
  by (simp add: wf_step_def norm_step_def wf_comp_def norm_comp_def)

lemma wf_norm_operation [simp]: "wf_operation (norm_operation p) = wf_operation p"
  by (simp add: wf_operation_def norm_operation_def wf_steps_def list_all_iff comp_def)

text \<open>Reading the object of a well-formed operation gives the operation.\<close>

lemma normalizeStoredOperation_js:
  assumes "wf_operation p" "d (op_createdAt p)" "d (op_updatedAt p)"
  shows "normalizeStoredOperation d (operation_js p) = Inr p"
proof -
  have "createWebsiteProvisioningPlan
      (plan_input (op_operationId p) (op_websiteId p) (op_resources p) (op_steps p))
    = Inr (derived_plan (op_operationId p) (op_websiteId p) (op_resources p) (op_steps p))"
    using assms(1) by (simp add: wf_operation_def createPlan_of_typed)
  with assms(2,3) show ?thesis
    by (simp add: normalizeStoredOperation_def operation_js_def plan_input_def timestamp_def
        derived_plan_def Let_def extra_keys_def keys_of_def str_in_def)
qed

definition dates_ok :: "(string \<Rightarrow> bool) \<Rightarrow> operation list \<Rightarrow> bool" where
  "dates_ok d ops = list_all (\<lambda>p. d (op_createdAt p) \<and> d (op_updatedAt p)) ops"

lemma parse_registry_js:
  assumes "wf_registry ops" "dates_ok d ops"
  shows "parse_registry d (JsonFile (registry_js ops)) = Inr ops"
proof -
  have "map_res (normalizeStoredOperation d) (map operation_js ops) = Inr (map (\<lambda>p. p) ops)"
    by (rule map_res_map)
      (use assms in \<open>auto simp: wf_registry_def dates_ok_def list_all_iff normalizeStoredOperation_js\<close>)
  with assms show ?thesis by (simp add: parse_registry_def registry_js_def wf_registry_def)
qed

lemma parse_saved:
  assumes "wf_registry ops" "dates_ok d ops"
  shows "parse_registry d (json_file (registry_js ops)) = Inr (map norm_operation ops)"
  unfolding json_file_def json_norm_registry_js
  by (rule parse_registry_js)
    (use assms in \<open>auto simp: wf_registry_def dates_ok_def list_all_iff comp_def\<close>)

text \<open>Every timestamp the registry holds was accepted from the file or written by its clock.\<close>

lemma parse_registry_dates: "parse_registry d f = Inr ops \<Longrightarrow> dates_ok d ops"
  by (auto simp: parse_registry_def dates_ok_def list_all_iff normalizeStoredOperation_def timestamp_def
      dest!: map_res_Inr_set split: disk_file.splits if_splits sum.splits)

lemma keeps_dates_init: "keeps (\<lambda>s. dates_ok d (memory s)) (ensureInitialized d)"
proof (rule keepsI)
  fix s :: registry
  assume "dates_ok d (memory s)"
  moreover have "memory (snd (sbind persist (\<lambda>_. smod (\<lambda>t. t\<lparr>loaded := True\<rparr>)) s)) = memory s"
    by (auto simp: sbind_apply dest: persist_memory_eq split: prod.splits sum.splits)
  ultimately show "dates_ok d (memory (snd (ensureInitialized d s)))"
    by (auto simp: ensureInitialized_def dest: parse_registry_dates split: disk_file.splits sum.splits)
qed

lemma dates_ok_touch:
  assumes "\<And>t. is_iso t \<Longrightarrow> d t" "clock_text u" "dates_ok d m"
  shows "dates_ok d (change_operation oid (\<lambda>p. touch u (change_step sid f p)) m)"
  unfolding dates_ok_def change_operation_def
proof (rule list_all_update_first)
  show "list_all (\<lambda>p. d (op_createdAt p) \<and> d (op_updatedAt p)) m"
    using assms(3) by (simp add: dates_ok_def)
  fix p
  assume "find (\<lambda>p. op_operationId p = oid) m = Some p"
  then have "p \<in> set m" using find_SomeD by fastforce
  then show "d (op_createdAt (touch u (change_step sid f p))) \<and> d (op_updatedAt (touch u (change_step sid f p)))"
    using assms by (cases u) (auto simp: touch_def clock_text_def dates_ok_def list_all_iff)
qed

lemma keeps_dates_handle:
  assumes iso: "\<And>t. is_iso t \<Longrightarrow> d t"
  shows "keeps (\<lambda>s. dates_ok d (memory s)) (handle lc d r)"
proof (rule keeps_by_loaded [OF initializes_handle keeps_dates_init])
  fix s :: registry
  assume s: "loaded s" "dates_ok d (memory s)"
  show "dates_ok d (memory (snd (handle lc d r s)))"
    using handle_effect [OF s(1), where r = r and d = d and lc = lc] s(2) iso
    by (auto simp: appended_def dates_ok_def split: option.splits)
      (auto simp: step_effect_def simp flip: dates_ok_def intro: dates_ok_touch [OF iso])
qed

lemma run_wf:
  "wf_registry (memory (run lc d rs (createWebsiteProvisioningRegistry f ws)))"
proof -
  have "wf_registry (memory (createWebsiteProvisioningRegistry f ws))"
    by (simp add: createWebsiteProvisioningRegistry_def wf_registry_def)
  then show ?thesis
    using run_keeps [of "\<lambda>s. wf_registry (memory s)" lc d] keeps_wf_handle by blast
qed

lemma run_dates:
  assumes "\<And>t. is_iso t \<Longrightarrow> d t"
  shows "dates_ok d (memory (run lc d rs (createWebsiteProvisioningRegistry f ws)))"
proof -
  have "dates_ok d (memory (createWebsiteProvisioningRegistry f ws))"
    by (simp add: createWebsiteProvisioningRegistry_def dates_ok_def)
  moreover have "keeps (\<lambda>s. dates_ok d (memory s)) (handle lc d r)" for r
    by (rule keeps_dates_handle) (rule assms)
  ultimately show ?thesis using run_keeps [of "\<lambda>s. dates_ok d (memory s)" lc d] by blast
qed

lemma run_append: "run lc d (rs @ rs') s = run lc d rs' (run lc d rs s)"
  by (simp add: run_def)

section \<open>What a response shows\<close>

definition shows_stored :: "(registry, 'a) sm \<Rightarrow> ('a \<Rightarrow> public_operation list) \<Rightarrow> bool" where
  "shows_stored m vs \<longleftrightarrow> (\<forall>s v s'. m s = (Inr v, s') \<longrightarrow>
     (\<forall>x \<in> set (vs v). \<exists>p \<in> set (memory s'). publicOperation p = Inr x))"

lemma shows_storedI:
  "(\<And>s v s' x. m s = (Inr v, s') \<Longrightarrow> x \<in> set (vs v) \<Longrightarrow> \<exists>p \<in> set (memory s'). publicOperation p = Inr x) \<Longrightarrow>
   shows_stored m vs"
  by (auto simp: shows_stored_def)

lemma shows_bind: "(\<And>x. shows_stored (k x) vs) \<Longrightarrow> shows_stored (sbind m k) vs"
  unfolding shows_stored_def by (blast elim: sbind_returnsE)

lemma shows_if: "shows_stored m vs \<Longrightarrow> shows_stored n vs \<Longrightarrow> shows_stored (if c then m else n) vs"
  by simp

lemma shows_throw: "shows_stored (sthrow e) vs"
  by (simp add: shows_stored_def)

lemma shows_ret_none: "vs v = [] \<Longrightarrow> shows_stored (sret v) vs"
  by (simp add: shows_stored_def)

lemma requireOperation_Inr:
  "requireOperation oid s = (Inr p, s') \<Longrightarrow> s' = s \<and> find_operation oid (memory s) = Some p"
  by (auto simp: requireOperation_def sbind_apply split: option.splits)

lemma shows_view: "shows_stored (view oid) (\<lambda>v. [v])"
  by (rule shows_storedI)
    (auto simp: view_def elim!: sbind_returnsE dest!: requireOperation_Inr find_operationD)

lemma shows_commit: "shows_stored (commit now oid) (\<lambda>v. [v])"
  unfolding commit_def by (intro shows_bind shows_view)

text \<open>A handler that answers with the operation it found.\<close>

lemma shows_with_step:
  assumes "\<And>p t s. p \<in> set (memory s) \<Longrightarrow>
    (\<forall>v s'. k p t s = (Inr v, s') \<longrightarrow> (\<exists>q \<in> set (memory s'). publicOperation q = Inr v))"
  shows "shows_stored (with_step d oid sid k) (\<lambda>v. [v])"
  unfolding with_step_def
proof (rule shows_bind, rule shows_storedI)
  fix s v s' x
  assume r: "sbind (requireOperation oid) (\<lambda>p. sbind (slift (requireStep p sid)) (\<lambda>t. k p t)) s = (Inr v, s')"
    and x: "x \<in> set [v]"
  then obtain p t where "p \<in> set (memory s)" "k p t s = (Inr v, s')"
    by (auto elim!: sbind_returnsE dest!: requireOperation_Inr dest: find_operationD)
  with assms x show "\<exists>q \<in> set (memory s'). publicOperation q = Inr x" by auto
qed

lemma shows_stored_Inr:
  "shows_stored m (\<lambda>v. [v]) \<Longrightarrow> m s = (Inr v, s') \<Longrightarrow> \<exists>q \<in> set (memory s'). publicOperation q = Inr v"
  by (auto simp: shows_stored_def)

lemma shows_tail:
  "m s = (Inr v, s') \<Longrightarrow> shows_stored m (\<lambda>v. [v]) \<Longrightarrow> \<exists>q \<in> set (memory s'). publicOperation q = Inr v"
  by (rule shows_stored_Inr)

lemmas shows_intros = shows_bind shows_if shows_throw shows_commit

lemma shows_step_handlers:
  "shows_stored (beginStep d now oid sid) (\<lambda>v. [v])"
  "shows_stored (completeStep d now oid sid ev) (\<lambda>v. [v])"
  "shows_stored (stopStep target msg d now oid sid er ev) (\<lambda>v. [v])"
  "shows_stored (retryStep d now oid sid) (\<lambda>v. [v])"
  "shows_stored (beginCompensation d now oid sid) (\<lambda>v. [v])"
  "shows_stored (completeCompensation d now oid sid ev) (\<lambda>v. [v])"
  "shows_stored (failCompensation d now oid sid er) (\<lambda>v. [v])"
  unfolding beginStep_def completeStep_def stopStep_def retryStep_def beginCompensation_def
    completeCompensation_def failCompensation_def
  by (rule shows_with_step; auto split: if_splits elim!: shows_tail intro!: shows_intros)+

lemma map_res_views: "map_res publicOperation xs = Inr vs \<Longrightarrow> x \<in> set vs \<Longrightarrow> \<exists>p \<in> set xs. publicOperation p = Inr x"
  by (rule map_res_Inr_set)

lemma js_sort_mem: "x \<in> set (js_sort c xs) \<Longrightarrow> x \<in> set xs"
  by simp

lemma shows_lists:
  "shows_stored (listForWebsite lc d wid) (\<lambda>vs. vs)"
  "shows_stored (listForDnsZone lc d a b c) (\<lambda>vs. vs)"
  "shows_stored (listInterrupted d) (\<lambda>vs. vs)"
  unfolding listForWebsite_def listForDnsZone_def listInterrupted_def
  by (rule shows_bind, rule shows_storedI,
      fastforce simp: sbind_apply split: if_splits option.splits dest: map_res_views)+

lemma shows_lookups:
  "shows_stored (get d oid) (\<lambda>v. case v of None \<Rightarrow> [] | Some x \<Rightarrow> [x])"
  "shows_stored (getLatestForWebsite lc d wid) (\<lambda>v. case v of None \<Rightarrow> [] | Some x \<Rightarrow> [x])"
  unfolding get_def getLatestForWebsite_def
   apply (rule shows_bind, rule shows_storedI)
   apply (auto simp: sbind_apply split: option.splits list.splits sum.splits dest!: find_operationD)[1]
  apply (rule shows_bind, rule shows_storedI)
  apply (auto simp: sbind_apply split: option.splits list.splits sum.splits)[1]
  subgoal for s v p ps
    using js_sort_set [of "newest_first lc" "filter (\<lambda>p. op_websiteId p = wid) (memory s)"] by auto
  done

lemma shows_create: "shows_stored (create d now input) (\<lambda>v. [v])"
  unfolding create_def
  by (rule shows_bind, rule shows_storedI)
    (auto simp: sbind_apply Let_def dest!: find_operationD dest: persist_memory_eq
      split: if_splits option.splits sum.splits prod.splits)

lemma shows_one: "shows_stored m (\<lambda>v. [v]) \<Longrightarrow> shows_stored (one m) (\<lambda>vs. vs)"
  by (auto simp: shows_stored_def one_def elim!: sbind_returnsE)

lemma shows_maybe:
  "shows_stored m (\<lambda>v. case v of None \<Rightarrow> [] | Some x \<Rightarrow> [x]) \<Longrightarrow> shows_stored (maybe m) (\<lambda>vs. vs)"
  by (fastforce simp: shows_stored_def maybe_def elim!: sbind_returnsE)

lemma shows_handle: "shows_stored (handle lc d r) (\<lambda>vs. vs)"
  by (cases r) (auto simp: blockStep_def failStep_def intro!: shows_one shows_maybe shows_create
      shows_step_handlers shows_lists shows_lookups)

section \<open>Concrete registries\<close>

text \<open>An operation of two steps, the second one in the given phase.\<close>

definition sample_step :: "string \<Rightarrow> step_state \<Rightarrow> comp_state \<Rightarrow> step" where
  "sample_step i st c = \<lparr>step_id = i, step_kind = i, step_required = True, step_state = st,
     step_intent = [], step_evidence = None, step_error = None,
     step_comp = \<lparr>comp_state = c, comp_evidence = None, comp_error = None\<rparr>\<rparr>"

definition sample_operation :: "step_state \<Rightarrow> comp_state \<Rightarrow> operation" where
  "sample_operation st c = \<lparr>op_operationId = ''op'', op_websiteId = ''site'', op_resources = [],
     op_steps = [sample_step ''user'' Succeeded CompPending, sample_step ''zone'' st c],
     op_createdAt = ''1970-01-01T00:00:00.000Z'', op_updatedAt = ''1970-01-01T00:00:00.000Z''\<rparr>"

definition sample_registry :: "bool \<Rightarrow> bool \<Rightarrow> step_state \<Rightarrow> comp_state \<Rightarrow> registry" where
  "sample_registry path ok st c = \<lparr>memory = [sample_operation st c], disk = NoFile, has_path = path,
     loaded = True, chain_ok = ok, writes = []\<rparr>"

definition same_order :: "string \<Rightarrow> string \<Rightarrow> int" where
  "same_order a b = 0"

lemmas sample_defs = sample_registry_def sample_operation_def sample_step_def

lemma sample_loaded [simp]: "loaded (sample_registry path ok st c)"
  by (simp add: sample_registry_def)

lemma sample_step_at [simp]:
  "step_at ''op'' ''zone'' (memory (sample_registry path ok st c)) = Some (sample_step ''zone'' st c)"
  by (simp add: sample_defs step_at_def find_operation_def find_step_def)

lemma sample_clean [simp]: "clean ''op''" "clean ''site''" "clean ''user''" "clean ''zone''"
  by code_simp+

lemma sample_wf [simp]: "wf_registry (memory (sample_registry path ok st c))"
  by (simp add: sample_defs wf_registry_def wf_operation_def wf_steps_def wf_step_def wf_comp_def)

section \<open>The file after a failing write\<close>

text \<open>The file keeps its content, and no write is left that could succeed before one fails.\<close>

definition failing_file :: "js disk_file \<Rightarrow> bool list \<Rightarrow> registry \<Rightarrow> bool" where
  "failing_file f ws s = (has_path s \<and> disk s = f \<and> (chain_ok s \<longrightarrow> writes s = False # ws))"

lemma keeps_failing_persist: "keeps (failing_file f ws) persist"
  by (auto simp: keeps_def failing_file_def persist_chained_def write_file_def write_ok_def)

lemma keeps_failing_mod: "keeps (failing_file f ws) (mod_mem g)"
  by (simp add: keeps_def failing_file_def)

lemma keeps_failing_init: "keeps (failing_file f ws) (ensureInitialized d)"
  by (auto simp: keeps_def failing_file_def ensureInitialized_def sbind_apply persist_chained_def
      write_file_def write_ok_def split: disk_file.splits sum.splits)

lemma keeps_failing_handle: "keeps (failing_file f ws) (handle lc d r)"
  by (cases r)
    (simp_all only: handle.simps handler_defs with_step_def requireOperation_def commit_def view_def
       assign_step_def Let_def split_beta,
     (intro keeps_failing_init keeps_failing_persist keeps_failing_mod keeps_rules | simp)+)

section \<open>The identity of an operation\<close>

lemma immutableStepDefinition_same: "same_definition s t \<Longrightarrow> immutableStepDefinition t = immutableStepDefinition s"
  by (simp add: same_definition_def immutableStepDefinition_def)

lemma map_update_first:
  "(\<And>x. find p xs = Some x \<Longrightarrow> g (f x) = g x) \<Longrightarrow> map g (update_first p f xs) = map g xs"
  by (induction xs) auto

lemma code_edge_same: "code_edge s t \<Longrightarrow> same_definition s t"
  by (auto simp: code_edge_def step_edge_def torn_edge_def)

lemma plan_identity_change:
  assumes "find_step sid (op_steps p) = Some t" "code_edge t (f t)"
  shows "plan_identity (touch u (change_step sid f p)) = plan_identity p"
proof -
  have "map immutableStepDefinition (update_first (\<lambda>s. step_id s = sid) f (op_steps p))
    = map immutableStepDefinition (op_steps p)"
    by (rule map_update_first)
      (use assms in \<open>auto simp: find_step_def intro!: immutableStepDefinition_same code_edge_same\<close>)
  then show ?thesis by (simp add: plan_identity_def)
qed

lemma handle_keeps_identity:
  assumes "loaded s" "find_operation i (memory s) = Some p"
  shows "\<exists>q. find_operation i (memory (snd (handle lc d r s))) = Some q \<and> plan_identity q = plan_identity p"
proof (cases "targets r")
  case None
  then have "appended (memory s) (memory (snd (handle lc d r s)))"
    using handle_effect [OF assms(1), where r = r and lc = lc and d = d] by simp
  then show ?thesis using assms(2)
    by (auto simp: appended_def find_operation_def find_append_Some)
next
  case (Some ab)
  obtain a b where ab: "ab = (a, b)" by force
  then have "step_effect code_edge a b (memory s) (memory (snd (handle lc d r s)))"
    using handle_effect [OF assms(1), where r = r and lc = lc and d = d] Some
    by (simp add: request_edge_code)
  then show ?thesis
    unfolding step_effect_def
  proof (elim disjE exE conjE)
    fix x t f u
    assume f: "find_operation a (memory s) = Some x" "find_step b (op_steps x) = Some t" "code_edge t (f t)"
      "memory (snd (handle lc d r s)) = change_operation a (\<lambda>p. touch u (change_step b f p)) (memory s)"
    then show ?thesis
      using assms(2) plan_identity_change [of b x t f u] by (auto simp: find_operation_change)
  qed (use assms in simp)
qed

lemma run_keeps_identity:
  "loaded s \<Longrightarrow> find_operation i (memory s) = Some p \<Longrightarrow>
   \<exists>q. find_operation i (memory (run lc d rs s)) = Some q \<and> plan_identity q = plan_identity p"
proof (induction rs arbitrary: s p)
  case (Cons r rs)
  then obtain q where "find_operation i (memory (snd (handle lc d r s))) = Some q"
    "plan_identity q = plan_identity p" using handle_keeps_identity by blast
  with Cons.IH [OF handle_loaded [OF Cons.prems(1)]] show ?case by fastforce
qed simp

lemma run_loaded: "loaded s \<Longrightarrow> loaded (run lc d rs s)"
  by (induction rs arbitrary: s) (simp_all add: handle_loaded)

text \<open>The operation a plan asks for, without its timestamps.\<close>

definition candidate :: "plan \<Rightarrow> operation" where
  "candidate plan = \<lparr>op_operationId = plan_operationId plan, op_websiteId = plan_websiteId plan,
     op_resources = plan_resources plan, op_steps = plan_steps plan, op_createdAt = [], op_updatedAt = []\<rparr>"

lemma create_existing:
  assumes "loaded s" "createWebsiteProvisioningPlan input = Inr plan"
    "find_operation (plan_operationId plan) (memory s) = Some p"
  shows "create d now input s =
    (if samePlan p (candidate plan) then (publicOperation p, s)
     else (Inl (registry_error ''website_provisioning_conflict''
             ''Provisioning operation identity conflicts with persisted state''), s))"
  using assms by (simp add: create_def sbind_apply candidate_def)

lemma create_returns:
  assumes "create d now input s = (Inr v, s')"
  shows "\<exists>plan p. createWebsiteProvisioningPlan input = Inr plan \<and> loaded s' \<and>
    find_operation (plan_operationId plan) (memory s') = Some p \<and> samePlan p (candidate plan)"
proof -
  have "begins_with (ensureInitialized d) (create d now input)" unfolding create_def by (rule initializes_bind)
  with assms obtain u s1 where i: "ensureInitialized d s = (Inr u, s1)" "create d now input s1 = (Inr v, s')"
    unfolding begins_with_def by (metis sbind_returnsE)
  have l: "loaded s1" using ensureInitialized_returns [OF i(1)] .
  then have l': "loaded s'" using handle_loaded [of s1 undefined d "Create now input"] i(2) by simp
  from i(2) l obtain plan where plan: "createWebsiteProvisioningPlan input = Inr plan"
    by (cases "createWebsiteProvisioningPlan input") (auto simp: create_def sbind_apply split: if_splits)
  show ?thesis
  proof (cases "find_operation (plan_operationId plan) (memory s1)")
    case None
    with i(2) l plan obtain t where
      "memory s' = memory s1 @ [candidate plan\<lparr>op_createdAt := t, op_updatedAt := t\<rparr>]"
      by (auto simp: create_def sbind_apply candidate_def Let_def dest: persist_memory_eq
          split: sum.splits prod.splits)
    with None plan l' show ?thesis
      by (auto simp: find_operation_def find_append_None candidate_def samePlan_def plan_identity_def)
  next
    case (Some p)
    with create_existing [OF l plan Some] i(2) plan l' show ?thesis by (auto split: if_splits)
  qed
qed

text \<open>Any text is a date, and the outcome of one request.\<close>

definition any_date :: "string \<Rightarrow> bool" where
  "any_date s = True"

definition sample_plan :: js where
  "sample_plan = plan_input ''op'' ''site'' [] [sample_step ''user'' Pending CompPending]"

definition outcome :: "request \<Rightarrow> registry \<Rightarrow> (public_operation list \<Rightarrow> registry \<Rightarrow> bool) \<Rightarrow> bool" where
  "outcome r s P = (case handle same_order any_date r s of (Inl _, _) \<Rightarrow> False | (Inr vs, s') \<Rightarrow> P vs s')"

lemma outcomeE:
  assumes "outcome r s P"
  obtains vs s' where "handle same_order any_date r s = (Inr vs, s')" "P vs s'"
  using assms by (auto simp: outcome_def split: prod.splits sum.splits)

section \<open>Properties\<close>

text \<open>C1 Whatever file the registry starts on, whichever requests follow with whatever arguments, clock
  values and write failures: its operations have distinct ids, clean identities and at least one
  step, and the steps of each have distinct ids and clean texts.\<close>

theorem registry_always_wf:
  "wf_registry (memory (run lc d rs (createWebsiteProvisioningRegistry f ws)))"
  by (rule run_wf)

text \<open>Every operation a response shows is one the registry holds, with the status and progress
  derived from its steps: ready exactly when it has required steps and all of them succeeded, and
  the completed and remaining counts add up to the required ones.\<close>

theorem responses_show_stored_operations:
  assumes "handle lc d r (run lc d rs (createWebsiteProvisioningRegistry f ws)) = (Inr vs, s')" "v \<in> set vs"
  shows "\<exists>p \<in> set (memory s'). v = view_of p \<and>
    (plan_ready (public_plan v) \<longleftrightarrow> (\<exists>t \<in> set (op_steps p). step_required t) \<and>
       (\<forall>t \<in> set (op_steps p). step_required t \<longrightarrow> step_state t = Succeeded)) \<and>
    progress_completed (plan_progress (public_plan v)) + progress_remaining (plan_progress (public_plan v))
      = progress_required (plan_progress (public_plan v))"
proof -
  obtain p where p: "p \<in> set (memory s')" "publicOperation p = Inr v"
    using shows_handle assms unfolding shows_stored_def by blast
  have "wf_registry (memory s')"
    using keeps_result [OF keeps_wf_handle run_wf assms(1)] .
  with p have v: "v = view_of p"
    by (auto simp: wf_registry_def list_all_iff publicOperation_wf)
  have "plan_ready (public_plan v) \<longleftrightarrow> (\<exists>t \<in> set (op_steps p). step_required t) \<and>
      (\<forall>t \<in> set (op_steps p). step_required t \<longrightarrow> step_state t = Succeeded)"
    by (auto simp: v view_of_def derived_plan_def statusFromSteps_def Let_def list_all_iff filter_empty_conv)
  moreover have "progress_completed (plan_progress (public_plan v)) + progress_remaining (plan_progress (public_plan v))
      = progress_required (plan_progress (public_plan v))"
    using length_filter_le [of "\<lambda>t. step_state t = Succeeded" "filter step_required (op_steps p)"]
    by (simp add: v view_of_def derived_plan_def Let_def)
  ultimately show ?thesis using p v by blast
qed

lemma responses_show_stored_operations_witness:
  "\<exists>v (s' :: registry). \<exists>p \<in> set (memory s'). v = view_of p \<and>
    (plan_ready (public_plan v) \<longleftrightarrow> (\<exists>t \<in> set (op_steps p). step_required t) \<and>
       (\<forall>t \<in> set (op_steps p). step_required t \<longrightarrow> step_state t = Succeeded)) \<and>
    progress_completed (plan_progress (public_plan v)) + progress_remaining (plan_progress (public_plan v))
      = progress_required (plan_progress (public_plan v))"
proof -
  have "outcome (Create (JInt 0) sample_plan)
      (run same_order any_date [ListInterrupted] (createWebsiteProvisioningRegistry (Some NoFile) []))
      (\<lambda>vs s'. vs \<noteq> [])"
    by code_simp
  then obtain vs s' where r: "handle same_order any_date (Create (JInt 0) sample_plan)
      (run same_order any_date [ListInterrupted] (createWebsiteProvisioningRegistry (Some NoFile) []))
      = (Inr vs, s')" "vs \<noteq> []" by (rule outcomeE)
  then have "hd vs \<in> set vs" by simp
  then show ?thesis using responses_show_stored_operations [OF r(1)]
    by (intro exI [of _ "hd vs"] exI [of _ s'])
qed

text \<open>C2 Lifecycle. For every request on a loaded registry, except a \<open>failCompensation\<close> whose error argument
  is invalid: a step that is not the one the request addresses is exactly what it was; the addressed
  step is what it was or has made the move this request asks for (\<open>asked\<close>: \<open>beginStep\<close> from pending
  or blocked to applying, \<open>completeStep\<close> from applying to succeeded, and so on), with its id, kind,
  intent and required flag unchanged; every operation keeps its steps; and the operations are those
  there were, in their order, with at most one new one after a \<open>create\<close> and none after any other
  request.\<close>

theorem request_moves_steps_along_lifecycle:
  assumes "loaded s" "names_failure r"
  shows "(\<forall>oid sid t. step_at oid sid (memory s) = Some t \<longrightarrow>
      (\<exists>t'. step_at oid sid (memory (snd (handle lc d r s))) = Some t' \<and>
        (if targets r = Some (oid, sid)
         then t' = t \<or> same_definition t t' \<and> asked r (phase t) (phase t') else t' = t))) \<and>
    (\<exists>new. shape (memory (snd (handle lc d r s))) = shape (memory s) @ new \<and>
      (if \<exists>now input. r = Create now input then length new \<le> 1 else new = []))"
proof
  show "\<forall>oid sid t. step_at oid sid (memory s) = Some t \<longrightarrow>
      (\<exists>t'. step_at oid sid (memory (snd (handle lc d r s))) = Some t' \<and>
        (if targets r = Some (oid, sid)
         then t' = t \<or> same_definition t t' \<and> asked r (phase t) (phase t') else t' = t))"
    using handle_step_at [OF assms(1), where r = r and lc = lc and d = d] assms(2)
    by (fastforce simp: request_edge_def moved_def step_edge_def)
qed (rule handle_shape [OF assms(1)])

lemma request_moves_steps_along_lifecycle_witness:
  "\<exists>t'. step_at ''op'' ''zone'' (memory (snd (handle same_order any_date (BeginStep (JInt 5) ''op'' ''zone'')
      (sample_registry False True Pending NotRequired)))) = Some t' \<and>
    (t' = sample_step ''zone'' Pending NotRequired \<or>
     same_definition (sample_step ''zone'' Pending NotRequired) t' \<and>
     begins_step (Pending, NotRequired) (phase t'))"
proof -
  let ?s = "sample_registry False True Pending NotRequired"
  have a: "loaded ?s" and b: "names_failure (BeginStep (JInt 5) ''op'' ''zone'')"
    and c: "step_at ''op'' ''zone'' (memory ?s) = Some (sample_step ''zone'' Pending NotRequired)"
    by simp_all
  have e: "phase (sample_step ''zone'' Pending NotRequired) = (Pending, NotRequired)" by code_simp
  show ?thesis
    using conjunct1 [OF request_moves_steps_along_lifecycle [OF a b, of same_order any_date],
      rule_format, OF c] by (simp only: targets.simps asked.simps e if_True simp_thms)
qed

text \<open>C3 Write-through. When a request returns (it does not throw), either it changed nothing at all, or the
  whole memory, its change included, was written to the file by a write that succeeded.\<close>

theorem returned_changes_are_on_disk:
  assumes "loaded s" "has_path s'" "handle lc d r s = (Inr vs, s')"
  shows "s' = s \<or> chain_ok s \<and> disk s' = json_file (registry_js (memory s'))"
  using write_throughD [OF write_through_handle assms(1,3)] assms(2) by (auto simp: saved_def)

lemma returned_changes_are_on_disk_witness:
  "\<exists>s'. s' \<noteq> sample_registry True True Pending NotRequired \<and>
    (s' = sample_registry True True Pending NotRequired \<or>
     chain_ok (sample_registry True True Pending NotRequired) \<and>
     disk s' = json_file (registry_js (memory s')))"
proof -
  have "outcome (BeginStep (JInt 5) ''op'' ''zone'') (sample_registry True True Pending NotRequired)
      (\<lambda>vs s'. has_path s' \<and> disk s' \<noteq> NoFile)"
    by code_simp
  then obtain vs s' where r: "handle same_order any_date (BeginStep (JInt 5) ''op'' ''zone'')
      (sample_registry True True Pending NotRequired) = (Inr vs, s')"
    and s': "has_path s' \<and> disk s' \<noteq> NoFile" by (rule outcomeE)
  have "s' \<noteq> sample_registry True True Pending NotRequired" using s' by (auto simp: sample_registry_def)
  with returned_changes_are_on_disk [OF sample_loaded _ r] s' show ?thesis by blast
qed

text \<open>Restart. A registry started on the file left by a returned change holds the same operations (their
  objects in JSON form), when \<open>Date.parse\<close> accepts every ISO timestamp.\<close>

theorem restart_reads_back_returned_changes:
  assumes iso: "\<And>t. is_iso t \<Longrightarrow> d t"
    and s: "s = run lc d rs (createWebsiteProvisioningRegistry (Some f) ws)" "loaded s"
    and r: "handle lc d r s = (Inr vs, s')" "s' \<noteq> s" "has_path s'"
  shows "ensureInitialized d (createWebsiteProvisioningRegistry (Some (disk s')) ws')
    = (Inr (), (createWebsiteProvisioningRegistry (Some (disk s')) ws')
        \<lparr>memory := map norm_operation (memory s'), loaded := True\<rparr>)"
proof -
  have "saved s'" using write_throughD [OF write_through_handle s(2) r(1)] r(2) by blast
  then have "disk s' = json_file (registry_js (memory s'))" using r(3) by (simp add: saved_def)
  moreover have "wf_registry (memory s')"
    using keeps_result [OF keeps_wf_handle _ r(1)] run_wf s(1) by blast
  moreover have "dates_ok d (memory s')"
    using keeps_result [OF keeps_dates_handle [of d], OF iso _ r(1)] run_dates [of d, OF iso] s(1) by blast
  ultimately have "parse_registry d (disk s') = Inr (map norm_operation (memory s'))"
    by (simp add: parse_saved)
  then show ?thesis
    by (simp add: ensureInitialized_def createWebsiteProvisioningRegistry_def \<open>disk s' = _\<close> json_file_def)
qed

lemma restart_reads_back_returned_changes_witness:
  "\<exists>s' :: registry. length (memory s') = 1 \<and> ensureInitialized any_date (createWebsiteProvisioningRegistry (Some (disk s')) [])
    = (Inr (), (createWebsiteProvisioningRegistry (Some (disk s')) [])
        \<lparr>memory := map norm_operation (memory s'), loaded := True\<rparr>)"
proof -
  let ?s = "run same_order any_date [ListInterrupted] (createWebsiteProvisioningRegistry (Some NoFile) [])"
  have l: "loaded ?s" and m: "memory ?s = []"
    by (simp_all add: createWebsiteProvisioningRegistry_def listInterrupted_def ensureInitialized_def
        sbind_apply persist_chained_def write_file_def write_ok_def)
  have "outcome (Create (JInt 0) sample_plan) ?s (\<lambda>vs s'. length (memory s') = 1 \<and> has_path s')"
    by code_simp
  then obtain vs s' where r: "handle same_order any_date (Create (JInt 0) sample_plan) ?s = (Inr vs, s')"
    and s': "length (memory s') = 1 \<and> has_path s'" by (rule outcomeE)
  have "s' \<noteq> ?s" using s' m by auto
  moreover have "any_date t" for t by (simp add: any_date_def)
  ultimately have "ensureInitialized any_date (createWebsiteProvisioningRegistry (Some (disk s')) [])
    = (Inr (), (createWebsiteProvisioningRegistry (Some (disk s')) [])
        \<lparr>memory := map norm_operation (memory s'), loaded := True\<rparr>)"
    using s' by (intro restart_reads_back_returned_changes [OF _ refl l r]) simp_all
  with s' show ?thesis by blast
qed

text \<open>C6 A failing write. Once the next write to the file fails, no request ever changes the file again,
  however many later writes could succeed: the rejected promise stays in the write chain.\<close>

theorem failed_write_freezes_file:
  assumes "has_path s" "writes s = False # ws"
  shows "disk (run lc d rs s) = disk s"
proof -
  have "failing_file (disk s) ws s" using assms by (simp add: failing_file_def)
  then have "failing_file (disk s) ws (run lc d rs s)"
    by (rule run_keeps [where I = "failing_file (disk s) ws", OF keeps_failing_handle])
  then show ?thesis by (simp add: failing_file_def)
qed

lemma failed_write_freezes_file_witness:
  "let s = run same_order any_date [BeginStep (JInt 5) ''op'' ''zone'', FailStep (JInt 6) ''op'' ''zone'' (JStr ''x'') JNull]
      (sample_registry True True Pending NotRequired\<lparr>writes := [False, True]\<rparr>) in
   disk s = NoFile \<and> map_option step_state (step_at ''op'' ''zone'' (memory s)) = Some Failed"
proof -
  have "map_option step_state (step_at ''op'' ''zone'' (memory (run same_order any_date
      [BeginStep (JInt 5) ''op'' ''zone'', FailStep (JInt 6) ''op'' ''zone'' (JStr ''x'') JNull]
      (sample_registry True True Pending NotRequired\<lparr>writes := [False, True]\<rparr>)))) = Some Failed"
    by code_simp
  moreover have "disk (run same_order any_date
      [BeginStep (JInt 5) ''op'' ''zone'', FailStep (JInt 6) ''op'' ''zone'' (JStr ''x'') JNull]
      (sample_registry True True Pending NotRequired\<lparr>writes := [False, True]\<rparr>)) = NoFile"
    by (subst failed_write_freezes_file [where ws = "[True]"]) (simp_all add: sample_registry_def)
  ultimately show ?thesis unfolding Let_def by blast
qed

text \<open>From then on every request that would change the registry throws; the ones that return change
  nothing.\<close>

theorem rejected_chain_refuses_changes:
  assumes "poisoned s" "loaded s" "handle lc d r (run lc d rs s) = (Inr vs, s')"
  shows "s' = run lc d rs s"
proof -
  have "frozen_file (disk s) (run lc d rs s)"
    by (rule run_keeps [where I = "frozen_file (disk s)", OF keeps_frozen_handle])
      (simp add: frozen_file_def assms(1))
  moreover from this have "frozen_file (disk s) s'"
    using keeps_result [OF keeps_frozen_handle _ assms(3)] by blast
  ultimately show ?thesis
    using write_throughD [OF write_through_handle run_loaded [OF assms(2)] assms(3)]
    by (auto simp: frozen_file_def poisoned_def)
qed

lemma rejected_chain_refuses_changes_witness:
  "\<exists>s'. handle same_order any_date (GetOperation ''op'') (sample_registry True False Pending NotRequired)
      = (Inr [view_of (sample_operation Pending NotRequired)], s') \<and>
    s' = sample_registry True False Pending NotRequired"
proof -
  have r: "handle same_order any_date (GetOperation ''op'')
      (run same_order any_date [] (sample_registry True False Pending NotRequired))
    = (Inr [view_of (sample_operation Pending NotRequired)], sample_registry True False Pending NotRequired)"
    using publicOperation_wf [of "sample_operation Pending NotRequired"] sample_wf
    by (simp add: sample_registry_def get_def maybe_def sbind_apply find_operation_def wf_registry_def)
      (simp add: sample_operation_def)
  show ?thesis
    using rejected_chain_refuses_changes [OF _ sample_loaded r] r
    by (simp add: poisoned_def sample_registry_def)
qed

text \<open>Settled steps. A step whose phase has no outgoing edge is never changed by any sequence of requests,
  and every other step has one.\<close>

theorem settled_steps_stay:
  assumes "loaded s" "step_at oid sid (memory s) = Some t"
  shows "if stuck t then step_at oid sid (memory (run lc d rs s)) = Some t else \<exists>q. phase_edge (phase t) q"
  using stuck_stays [OF assms] no_edge_stuck [of t] by simp

lemma settled_steps_stay_witness:
  "step_at ''op'' ''zone'' (memory (run same_order any_date
      [RetryStep (JInt 5) ''op'' ''zone'', BeginCompensation (JInt 6) ''op'' ''zone'']
      (sample_registry False True Succeeded NotRequired))) = Some (sample_step ''zone'' Succeeded NotRequired)"
  using settled_steps_stay [of "sample_registry False True Succeeded NotRequired" "''op''" "''zone''"
      "sample_step ''zone'' Succeeded NotRequired" same_order any_date
      "[RetryStep (JInt 5) ''op'' ''zone'', BeginCompensation (JInt 6) ''op'' ''zone'']"]
  by (simp del: run_Cons add: stuck_def) (simp add: phase_def sample_step_def)

text \<open>C7 A \<open>failCompensation\<close> with an invalid error argument throws, but leaves the step compensating with a
  failed compensation, a phase no later request of any kind can leave.\<close>

theorem rejected_failCompensation_strands_step:
  assumes "loaded s" "step_at oid sid (memory s) = Some t" "phase t = (Compensating, CompApplying)"
    "\<not> is_ok (failureCode er ''compensation error'')"
  shows "\<exists>e s' t'. failCompensation d now oid sid er s = (Inl e, s') \<and> same_definition t t' \<and>
    phase t' = (Compensating, CompFailed) \<and> step_at oid sid (memory (run lc d rs s')) = Some t'"
proof -
  from assms(2) obtain p where p: "find_operation oid (memory s) = Some p" "find_step sid (op_steps p) = Some t"
    by (auto simp: step_at_def split: option.splits)
  from assms(4) obtain e where e: "failureCode er ''compensation error'' = Inl e"
    by (cases "failureCode er ''compensation error''") auto
  let ?f = "on_comp (\<lambda>c. c\<lparr>comp_state := CompFailed\<rparr>)"
  let ?s = "s\<lparr>memory := change_operation oid (change_step sid ?f) (memory s)\<rparr>"
  have run: "failCompensation d now oid sid er s = (Inl e, ?s)"
    using assms(1,3) p e by (simp add: failCompensation_def with_step_loaded sbind_apply phase_def)
  have "step_at oid sid (memory ?s) = Some (?f t)"
    using step_at_change [where f = ?f and u = None and m = "memory s" and oid = oid and sid = sid
        and oid' = oid and sid' = sid] assms(2) by (simp add: on_comp_def touch_def [abs_def])
  moreover have "stuck (?f t)" using assms(3) by (simp add: stuck_def phase_def on_comp_def)
  ultimately have "step_at oid sid (memory (run lc d rs ?s)) = Some (?f t)"
    using stuck_stays [of ?s] assms(1) by simp
  moreover have "same_definition t (?f t)" "phase (?f t) = (Compensating, CompFailed)"
    using assms(3) by (simp_all add: same_definition_def phase_def on_comp_def)
  ultimately show ?thesis using run by blast
qed

lemma rejected_failCompensation_strands_step_witness:
  "\<exists>e s' t'. failCompensation any_date (JInt 5) ''op'' ''zone'' JNull (sample_registry False True Compensating CompApplying)
      = (Inl e, s') \<and> same_definition (sample_step ''zone'' Compensating CompApplying) t' \<and>
    phase t' = (Compensating, CompFailed) \<and>
    step_at ''op'' ''zone'' (memory (run same_order any_date
      [RetryStep (JInt 6) ''op'' ''zone'', BeginCompensation (JInt 7) ''op'' ''zone''] s')) = Some t'"
  by (rule rejected_failCompensation_strands_step [OF sample_loaded sample_step_at])
    (simp_all add: phase_def sample_step_def failureCode_def)

text \<open>In a list of distinct step ids, the steps after the one with index \<open>i\<close> are those with a larger index.\<close>

lemma steps_after_nth:
  "distinct (map step_id ss) \<Longrightarrow> i < length ss \<Longrightarrow> steps_after (step_id (ss ! i)) ss = drop (Suc i) ss"
  by (induction ss arbitrary: i) (auto simp: nth_Cons' less_Suc_eq_0_disj)

lemma find_step_nth:
  "distinct (map step_id ss) \<Longrightarrow> i < length ss \<Longrightarrow> find_step (step_id (ss ! i)) ss = Some (ss ! i)"
  unfolding find_step_def by (induction ss arbitrary: i) (auto simp: nth_Cons' less_Suc_eq_0_disj)

lemma find_none_drop:
  "find P (drop (Suc i) ss) = None \<longleftrightarrow> \<not> (\<exists>j. i < j \<and> j < length ss \<and> P (ss ! j))"
proof -
  have "(\<exists>x \<in> set (drop (Suc i) ss). P x) \<longleftrightarrow> (\<exists>j. i < j \<and> j < length ss \<and> P (ss ! j))"
  proof (intro iffI; elim bexE exE conjE)
    fix x assume "x \<in> set (drop (Suc i) ss)" "P x"
    then obtain k where "k < length ss - Suc i" "ss ! (Suc i + k) = x" by (auto simp: in_set_conv_nth)
    with \<open>P x\<close> show "\<exists>j. i < j \<and> j < length ss \<and> P (ss ! j)" by (intro exI [of _ "Suc i + k"]) simp
  next
    fix j assume "i < j" "j < length ss" "P (ss ! j)"
    then have "drop (Suc i) ss ! (j - Suc i) = ss ! j" "j - Suc i < length (drop (Suc i) ss)" by simp_all
    with \<open>P (ss ! j)\<close> show "\<exists>x \<in> set (drop (Suc i) ss). P x" by (metis nth_mem)
  qed
  then show ?thesis unfolding find_None_iff by blast
qed

lemma blocksEarlier_iff:
  "blocksEarlierCompensation u \<longleftrightarrow> step_state u \<in> {Applying, Compensating} \<or>
     step_state u \<in> {Succeeded, Failed} \<and> comp_state (step_comp u) \<noteq> NotRequired"
  by (cases "step_state u") (simp_all add: blocksEarlierCompensation_def)

lemma findBlocking_nth:
  assumes "distinct (map step_id ss)" "i < length ss"
  shows "findBlockingLaterCompensationStep ss (step_id (ss ! i)) = None \<longleftrightarrow>
    \<not> (\<exists>j. i < j \<and> j < length ss \<and> (step_state (ss ! j) \<in> {Applying, Compensating} \<or>
        step_state (ss ! j) \<in> {Succeeded, Failed} \<and> comp_state (step_comp (ss ! j)) \<noteq> NotRequired))"
  unfolding findBlockingLaterCompensationStep_def steps_after_nth [OF assms] find_none_drop
    blocksEarlier_iff ..

text \<open>C4 Compensation order. Let the operation have distinct step ids (as every one of the registry has, C1).
  A compensation that is already applying is left as it is. A step that is not succeeded or failed, or
  whose compensation is not pending or failed, is refused. For every other step: when some step later
  in the operation is applying or compensating, or is succeeded or failed with a compensation that
  is required (pending, applying, failed or succeeded), the request is refused and nothing changes;
  otherwise the step becomes compensating with its compensation applying.\<close>

theorem compensation_begins_in_reverse_order:
  assumes "loaded s" "find_operation oid (memory s) = Some p" "distinct (map step_id (op_steps p))"
    "i < length (op_steps p)"
  shows "let t = op_steps p ! i; (answer, s') = beginCompensation d now oid (step_id t) s in
    if comp_state (step_comp t) = CompApplying then answer = publicOperation p \<and> s' = s
    else if step_state t \<notin> {Succeeded, Failed} \<or> comp_state (step_comp t) \<notin> {CompPending, CompFailed}
    then answer = Inl (transition_error ''Provisioning compensation cannot begin from current state'') \<and> s' = s
    else if \<exists>j. i < j \<and> j < length (op_steps p) \<and> (step_state (op_steps p ! j) \<in> {Applying, Compensating} \<or>
        step_state (op_steps p ! j) \<in> {Succeeded, Failed} \<and> comp_state (step_comp (op_steps p ! j)) \<noteq> NotRequired)
    then answer = Inl (registry_error ''website_provisioning_compensation_order_invalid''
              ''Later provisioning steps must be compensated before this step'') \<and> s' = s
    else \<exists>t'. step_at oid (step_id t) (memory s') = Some t' \<and>
      same_definition t t' \<and> phase t' = (Compensating, CompApplying)"
proof -
  let ?t = "op_steps p ! i"
  let ?sid = "step_id ?t"
  have t: "find_step ?sid (op_steps p) = Some ?t" by (rule find_step_nth [OF assms(3,4)])
  let ?f = "\<lambda>s. on_comp (\<lambda>c. c\<lparr>comp_state := CompApplying, comp_error := None\<rparr>) (s\<lparr>step_state := Compensating\<rparr>)"
  let ?s = "s\<lparr>memory := change_operation oid (change_step ?sid ?f) (memory s)\<rparr>"
  obtain u where "memory (snd (commit now oid ?s)) = change_operation oid (\<lambda>p. touch u (change_step ?sid ?f p)) (memory s)"
    using commit_effect [of now oid ?s] by (auto simp: change_operation_compose)
  then have "step_at oid ?sid (memory (snd (commit now oid ?s))) = Some (?f ?t)"
    using assms(2) t by (simp add: step_at_change on_comp_def) (simp add: step_at_def)
  moreover have "same_definition ?t (?f ?t)" "phase (?f ?t) = (Compensating, CompApplying)"
    by (simp_all add: same_definition_def phase_def on_comp_def)
  ultimately have begun: "\<exists>t'. step_at oid ?sid (memory (snd (commit now oid ?s))) = Some t' \<and>
      same_definition ?t t' \<and> phase t' = (Compensating, CompApplying)" by blast
  show ?thesis
    using assms(1,2) t begun findBlocking_nth [OF assms(3,4)]
    by (simp add: beginCompensation_def with_step_loaded sbind_assign Let_def split_beta del: not_ex)
qed

lemma compensation_begins_in_reverse_order_witness:
  "beginCompensation any_date (JInt 5) ''op'' ''user'' (sample_registry False True Applying CompPending) =
    (Inl (registry_error ''website_provisioning_compensation_order_invalid''
            ''Later provisioning steps must be compensated before this step''),
     sample_registry False True Applying CompPending)"
proof -
  let ?p = "sample_operation Applying CompPending"
  have "\<exists>j. 0 < j \<and> j < length (op_steps ?p) \<and> (step_state (op_steps ?p ! j) \<in> {Applying, Compensating} \<or>
        step_state (op_steps ?p ! j) \<in> {Succeeded, Failed} \<and> comp_state (step_comp (op_steps ?p ! j)) \<noteq> NotRequired)"
    by (rule exI [of _ 1]) (simp add: sample_defs)
  then show ?thesis
    using compensation_begins_in_reverse_order [of "sample_registry False True Applying CompPending" "''op''"
      ?p 0 any_date "JInt 5"]
    by (simp add: Let_def split_beta prod_eq_iff) (simp add: sample_defs find_operation_def)
qed

text \<open>C5 Idempotent creation. Once a plan has been created, creating it again after any further requests
  returns the operation as it is now and changes nothing, and a plan that reuses its operation id with
  another website, resources or steps is refused.\<close>

theorem create_is_idempotent:
  assumes "create d now input s = (Inr v, s')" "wf_registry (memory s)"
    "createWebsiteProvisioningPlan input = Inr plan"
    "createWebsiteProvisioningPlan input' = Inr plan'" "plan_operationId plan' = plan_operationId plan"
  shows "let s1 = run lc d rs s' in \<exists>p \<in> set (memory s1). op_operationId p = plan_operationId plan \<and>
    create d now' input' s1 =
      (if samePlan (candidate plan) (candidate plan') then (Inr (view_of p), s1)
       else (Inl (registry_error ''website_provisioning_conflict''
              ''Provisioning operation identity conflicts with persisted state''), s1))"
proof -
  obtain p where p: "loaded s'" "find_operation (plan_operationId plan) (memory s') = Some p"
    "samePlan p (candidate plan)"
    using create_returns [OF assms(1)] assms(3) by auto
  define s1 where "s1 = run lc d rs s'"
  obtain q where q: "find_operation (plan_operationId plan) (memory s1) = Some q"
    "plan_identity q = plan_identity p" unfolding s1_def using run_keeps_identity [OF p(1,2)] by blast
  have "wf_registry (memory s')"
    using keeps_result [OF keeps_wf_handle assms(2), of undefined d "Create now input" "Inr [v]"] assms(1)
    by (simp add: one_def sbind_apply)
  then have "wf_registry (memory s1)"
    unfolding s1_def
    by (rule run_keeps [where I = "\<lambda>s. wf_registry (memory s)", OF keeps_wf_handle])
  then have "publicOperation q = Inr (view_of q)" using q(1) by (simp add: publicOperation_wf wf_registry_find)
  moreover have "samePlan q (candidate plan') = samePlan (candidate plan) (candidate plan')"
    using q(2) p(3) unfolding samePlan_def by (metis json_eq_sym json_eq_trans)
  moreover have "loaded s1" by (simp add: s1_def run_loaded p(1))
  ultimately have "create d now' input' s1 =
      (if samePlan (candidate plan) (candidate plan') then (Inr (view_of q), s1)
       else (Inl (registry_error ''website_provisioning_conflict''
              ''Provisioning operation identity conflicts with persisted state''), s1))"
    using create_existing [of s1 input' plan' q] assms(4,5) q(1) by simp
  moreover have "q \<in> set (memory s1) \<and> op_operationId q = plan_operationId plan"
    using find_operationD [OF q(1)] .
  ultimately show ?thesis unfolding s1_def Let_def by blast
qed

lemma create_is_idempotent_witness:
  "\<exists>s1. \<exists>p \<in> set (memory s1). op_operationId p = ''op'' \<and>
    create any_date (JInt 9) sample_plan s1 = (Inr (view_of p), s1)"
proof -
  let ?s = "createWebsiteProvisioningRegistry None []"
  have wf: "wf_registry (memory ?s)"
    by (simp add: createWebsiteProvisioningRegistry_def wf_registry_def)
  have plan: "createWebsiteProvisioningPlan sample_plan
      = Inr (derived_plan ''op'' ''site'' [] [sample_step ''user'' Pending CompPending])"
    unfolding sample_plan_def
    by (rule createPlan_of_typed) (simp_all add: wf_steps_def wf_step_def wf_comp_def sample_step_def)
  have "case create any_date (JInt 5) sample_plan ?s of (Inl _, _) \<Rightarrow> False | (Inr _, _) \<Rightarrow> True"
    by code_simp
  then obtain v s' where "create any_date (JInt 5) sample_plan ?s = (Inr v, s')"
    by (auto split: prod.splits sum.splits)
  from create_is_idempotent [OF this wf plan plan refl, where lc = same_order
      and rs = "[BeginStep (JInt 6) ''op'' ''user'']" and now' = "JInt 9"]
  show ?thesis by (auto simp: samePlan_def Let_def derived_plan_def)
qed

end
