(* ===== verification/Orchestrator.thy ===== *)
theory Orchestrator
  imports ProvisioningGuarantees
begin

text \<open>
  The driver of a provisioning operation (\<open>apps/api/src/website-provisioning-orchestrator.js\<close>): it
  reads the operation from the registry, picks the next step, journals it, calls the handler of the
  step on the host and journals the result.

  The registry and the handlers are arguments of \<open>createWebsiteProvisioningOrchestrator\<close>, so they are
  parameters here: \<open>registry_ops\<close> holds the methods the code calls, over any state; a handler is a
  table of optional functions over any host state. \<open>w_calls\<close> records every handler call with the
  registry as it was at the call; the code has no such log, nothing reads it, and it makes the order
  of journal writes and host calls observable.
\<close>

section \<open>The registry and the handlers\<close>

record 'r registry_ops =
  r_get :: "string \<Rightarrow> ('r, public_operation option) sm"
  r_beginStep :: "string \<Rightarrow> string \<Rightarrow> ('r, public_operation) sm"
  r_completeStep :: "string \<Rightarrow> string \<Rightarrow> js \<Rightarrow> ('r, public_operation) sm"
  r_blockStep :: "string \<Rightarrow> string \<Rightarrow> js \<Rightarrow> js \<Rightarrow> ('r, public_operation) sm"
  r_failStep :: "string \<Rightarrow> string \<Rightarrow> js \<Rightarrow> js \<Rightarrow> ('r, public_operation) sm"
  r_retryStep :: "string \<Rightarrow> string \<Rightarrow> ('r, public_operation) sm"
  r_beginCompensation :: "string \<Rightarrow> string \<Rightarrow> ('r, public_operation) sm"
  r_completeCompensation :: "string \<Rightarrow> string \<Rightarrow> js \<Rightarrow> ('r, public_operation) sm"
  r_failCompensation :: "string \<Rightarrow> string \<Rightarrow> js \<Rightarrow> ('r, public_operation) sm"

record handler_context =
  ctx_operation :: public_operation
  ctx_operationId :: string
  ctx_websiteId :: string
  ctx_stepId :: string
  ctx_intent :: jobj
  ctx_evidence :: "jobj option"
  ctx_compensation :: compensation

type_synonym 'h host_call = "handler_context \<Rightarrow> ('h, js) sm"

record 'h handler =
  h_apply :: "'h host_call option"
  h_inspect :: "'h host_call option"
  h_compensate :: "'h host_call option"
  h_inspectCompensation :: "'h host_call option"

type_synonym 'h handlers = "string \<Rightarrow> 'h handler option"

datatype call_kind = ApplyCall | InspectCall | CompensateCall | InspectCompensationCall

record 'r host_log =
  call_kind :: call_kind
  call_operation :: string
  call_step :: string
  call_registry :: 'r

record ('r, 'h) world =
  w_reg :: 'r
  w_host :: 'h
  w_calls :: "'r host_log list"

record outcome =
  out_operation :: public_operation
  out_outcome :: string
  out_stepId :: "string option"
  out_actionRequired :: "string option"
  out_error :: "string option"

definition orchestrator_error :: "string \<Rightarrow> string \<Rightarrow> jerr" where
  "orchestrator_error c msg = Err ''WebsiteProvisioningOrchestratorError'' (Some c) msg"

text \<open>A registry method called on the world, and a handler called on the host.\<close>

definition on_reg :: "('r, 'a) sm \<Rightarrow> (('r, 'h) world, 'a) sm" where
  "on_reg m w = (case m (w_reg w) of (x, r) \<Rightarrow> (x, w\<lparr>w_reg := r\<rparr>))"

definition on_host :: "call_kind \<Rightarrow> 'h host_call \<Rightarrow> handler_context \<Rightarrow> (('r, 'h) world, js) sm" where
  "on_host k f c w = (case f c (w_host w) of
     (x, h) \<Rightarrow> (x, w\<lparr>w_host := h, w_calls := w_calls w @ [\<lparr>call_kind = k, call_operation = ctx_operationId c,
       call_step = ctx_stepId c, call_registry = w_reg w\<rparr>]\<rparr>))"

section \<open>Helpers\<close>

abbreviation op_id :: "public_operation \<Rightarrow> string" where
  "op_id v \<equiv> plan_operationId (public_plan v)"

abbreviation op_steps_of :: "public_operation \<Rightarrow> step list" where
  "op_steps_of v \<equiv> plan_steps (public_plan v)"

abbreviation op_ready :: "public_operation \<Rightarrow> bool" where
  "op_ready v \<equiv> plan_ready (public_plan v)"

definition handlerFor :: "'h handlers \<Rightarrow> step \<Rightarrow> 'h handler res" where
  "handlerFor hs s = (case hs (step_kind s) of
     None \<Rightarrow> Inl (orchestrator_error ''website_provisioning_handler_unavailable''
               (''Provisioning handler is unavailable for '' @ step_kind s))
   | Some h \<Rightarrow> if h_apply h = None
       then Inl (orchestrator_error ''website_provisioning_handler_unavailable''
               (''Provisioning handler is unavailable for '' @ step_kind s))
       else Inr h)"

definition compensationSupported :: "'h handlers \<Rightarrow> string \<Rightarrow> bool" where
  "compensationSupported hs stepKind = (case hs stepKind of None \<Rightarrow> False | Some h \<Rightarrow> h_compensate h \<noteq> None)"

definition compensationHandlerFor :: "'h handlers \<Rightarrow> step \<Rightarrow> 'h handler res" where
  "compensationHandlerFor hs s =
     (if \<not> compensationSupported hs (step_kind s)
      then Inl (orchestrator_error ''website_provisioning_compensation_unavailable''
             (''Provisioning compensation is unavailable for '' @ step_kind s))
      else Inr (the (hs (step_kind s))))"

definition is_code_char :: "char \<Rightarrow> bool" where
  "is_code_char c = (is_lower c \<or> is_digit c \<or> c = CHR ''_'')"

definition public_code :: "js \<Rightarrow> bool" where
  "public_code v = (is_string v \<and> 1 \<le> length (str_of v) \<and> length (str_of v) \<le> 80 \<and> list_all is_code_char (str_of v))"

text \<open>The argument is the \<open>code\<close> property of the error.\<close>

definition publicErrorCode :: "js \<Rightarrow> string \<Rightarrow> string" where
  "publicErrorCode c fallback = (if public_code c then str_of c else fallback)"

definition code_of :: "jerr \<Rightarrow> js" where
  "code_of e = (case err_code e of None \<Rightarrow> JUndef | Some c \<Rightarrow> JStr c)"

definition step_failed :: string where
  "step_failed = ''website_provisioning_step_failed''"

definition evidence :: "js \<Rightarrow> js" where
  "evidence v = (if is_object v then v else JNull)"

definition handlerContext :: "public_operation \<Rightarrow> step \<Rightarrow> handler_context" where
  "handlerContext v s = \<lparr>ctx_operation = v, ctx_operationId = op_id v,
     ctx_websiteId = plan_websiteId (public_plan v), ctx_stepId = step_id s, ctx_intent = step_intent s,
     ctx_evidence = step_evidence s, ctx_compensation = step_comp s\<rparr>"

definition outcome_of ::
  "public_operation \<Rightarrow> string \<Rightarrow> string option \<Rightarrow> string option \<Rightarrow> string option \<Rightarrow> outcome" where
  "outcome_of v o' i a e = \<lparr>out_operation = v, out_outcome = o', out_stepId = i, out_actionRequired = a,
     out_error = e\<rparr>"

text \<open>\<open>operation.steps.find((candidate) => candidate.id === stepId)\<close>, which a context needs.\<close>

definition context_of :: "public_operation \<Rightarrow> string \<Rightarrow> handler_context res" where
  "context_of v sid = (case find_step sid (op_steps_of v) of None \<Rightarrow> Inl type_error
     | Some s \<Rightarrow> Inr (handlerContext v s))"

section \<open>Inspection\<close>

definition inspectStep :: "'h handlers \<Rightarrow> public_operation \<Rightarrow> step \<Rightarrow> (('r, 'h) world, js) sm" where
  "inspectStep hs v s =
     sbind (slift (handlerFor hs s)) (\<lambda>h.
     case h_inspect h of None \<Rightarrow> sret JNull
     | Some f \<Rightarrow> sbind (on_host InspectCall f (handlerContext v s)) (\<lambda>x. sret (evidence x)))"

definition inspectCompensation :: "'h handlers \<Rightarrow> public_operation \<Rightarrow> step \<Rightarrow> (('r, 'h) world, js) sm" where
  "inspectCompensation hs v s =
     sbind (slift (compensationHandlerFor hs s)) (\<lambda>h.
     case h_inspectCompensation h of None \<Rightarrow> sret JNull
     | Some f \<Rightarrow> sbind (on_host InspectCompensationCall f (handlerContext v s)) (\<lambda>x. sret (evidence x)))"

text \<open>\<open>try { inspected = await inspect() } catch (error) { return h(error) }\<close>, then the rest.\<close>

definition try_inspect :: "('w, js) sm \<Rightarrow> (jerr \<Rightarrow> outcome) \<Rightarrow> (js \<Rightarrow> ('w, outcome) sm) \<Rightarrow> ('w, outcome) sm" where
  "try_inspect m h k = sbind (scatch (sbind m (\<lambda>x. sret (Inr x))) (\<lambda>e. sret (Inl (h e))))
     (\<lambda>r. case r of Inl out \<Rightarrow> sret out | Inr x \<Rightarrow> k x)"

definition satisfied :: "js \<Rightarrow> bool" where
  "satisfied v = (truthy v \<and> jget v ''satisfied'' = JBool True)"

definition reconcileInterrupted ::
  "'r registry_ops \<Rightarrow> 'h handlers \<Rightarrow> public_operation \<Rightarrow> step \<Rightarrow> (('r, 'h) world, outcome) sm" where
  "reconcileInterrupted reg hs v s = try_inspect (inspectStep hs v s)
     (\<lambda>e. outcome_of v ''interrupted'' (Some (step_id s)) (Some ''inspect_or_remediate'')
            (Some (publicErrorCode (code_of e) step_failed)))
     (\<lambda>inspected.
       if \<not> satisfied inspected then
         (if truthy inspected \<and> jget inspected ''satisfied'' = JBool False \<and>
             jget inspected ''retryable'' = JBool True
          then
            let code = publicErrorCode (jget inspected ''reason'') ''website_provisioning_retry_required'' in
            sbind (on_reg (r_failStep reg (op_id v) (step_id s) (JStr code) inspected)) (\<lambda>failed.
            sret (outcome_of failed ''failed'' (Some (step_id s)) (Some ''retry'') (Some code)))
          else sret (outcome_of v ''interrupted'' (Some (step_id s)) (Some ''inspect_or_remediate'') None))
       else
         sbind (on_reg (r_completeStep reg (op_id v) (step_id s) inspected)) (\<lambda>completed.
         sret (outcome_of completed (if op_ready completed then ''ready'' else ''reconciled'')
                 (Some (step_id s)) None None)))"

definition reconcileInterruptedCompensation ::
  "'r registry_ops \<Rightarrow> 'h handlers \<Rightarrow> public_operation \<Rightarrow> step \<Rightarrow> (('r, 'h) world, outcome) sm" where
  "reconcileInterruptedCompensation reg hs v s = try_inspect (inspectCompensation hs v s)
     (\<lambda>e. outcome_of v ''compensation_interrupted'' (Some (step_id s)) (Some ''inspect_or_remediate_compensation'')
            (Some (publicErrorCode (code_of e) ''website_provisioning_compensation_inspection_failed'')))
     (\<lambda>inspected.
       if \<not> satisfied inspected then
         sret (outcome_of v ''compensation_interrupted'' (Some (step_id s))
                 (Some ''inspect_or_remediate_compensation'') None)
       else
         sbind (on_reg (r_completeCompensation reg (op_id v) (step_id s) inspected)) (\<lambda>completed.
         sret (outcome_of completed ''compensated'' (Some (step_id s)) None None)))"

definition reconcileBlocked ::
  "'r registry_ops \<Rightarrow> 'h handlers \<Rightarrow> public_operation \<Rightarrow> step \<Rightarrow> (('r, 'h) world, outcome) sm" where
  "reconcileBlocked reg hs v s = try_inspect (inspectStep hs v s)
     (\<lambda>e. outcome_of v ''blocked'' (Some (step_id s)) (Some ''remediate_or_compensate'')
            (Some (publicErrorCode (code_of e) step_failed)))
     (\<lambda>inspected.
       if \<not> truthy inspected then
         sret (outcome_of v ''blocked'' (Some (step_id s)) (Some ''remediate_or_compensate'') None)
       else if jget inspected ''satisfied'' \<noteq> JBool True then
         let code = publicErrorCode (jget inspected ''reason'') ''website_provisioning_blocked'' in
         sbind (on_reg (r_beginStep reg (op_id v) (step_id s))) (\<lambda>_.
         sbind (on_reg (r_blockStep reg (op_id v) (step_id s) (JStr code) inspected)) (\<lambda>refreshed.
         sret (outcome_of refreshed ''blocked'' (Some (step_id s)) (Some ''remediate_or_compensate'') (Some code))))
       else
         sbind (on_reg (r_beginStep reg (op_id v) (step_id s))) (\<lambda>applying.
         if (case find_step (step_id s) (op_steps_of applying) of None \<Rightarrow> True | Some t \<Rightarrow> step_state t \<noteq> Applying)
         then sthrow (orchestrator_error ''website_provisioning_transition_invalid''
                ''Blocked provisioning step could not enter reconciliation'')
         else
           sbind (on_reg (r_completeStep reg (op_id v) (step_id s) inspected)) (\<lambda>completed.
           sret (outcome_of completed (if op_ready completed then ''ready'' else ''reconciled'')
                   (Some (step_id s)) None None))))"

section \<open>Running an operation\<close>

definition first_step :: "(step \<Rightarrow> bool) \<Rightarrow> public_operation \<Rightarrow> step option" where
  "first_step p v = find p (op_steps_of v)"

definition not_found :: jerr where
  "not_found = orchestrator_error ''website_provisioning_not_found'' ''Website provisioning operation was not found''"

text \<open>\<open>await handler.apply(handlerContext(applying, applyingStep))\<close>\<close>

definition call_on ::
  "call_kind \<Rightarrow> 'h host_call option \<Rightarrow> public_operation \<Rightarrow> string \<Rightarrow> (('r, 'h) world, js) sm" where
  "call_on k f v sid = (case f of None \<Rightarrow> sthrow type_error
     | Some g \<Rightarrow> sbind (slift (context_of v sid)) (\<lambda>c. on_host k g c))"

definition evidence_required :: "jerr \<Rightarrow> bool" where
  "evidence_required e = (err_class e = ''WebsiteProvisioningRegistryError'' \<and>
     err_code e = Some ''website_provisioning_evidence_required'')"

definition applyStep ::
  "'r registry_ops \<Rightarrow> 'h handlers \<Rightarrow> string \<Rightarrow> step \<Rightarrow> (('r, 'h) world, outcome) sm" where
  "applyStep reg hs operationId s =
     sbind (slift (handlerFor hs s)) (\<lambda>h.
     sbind (on_reg (r_beginStep reg operationId (step_id s))) (\<lambda>applying.
     scatch
       (sbind (call_on ApplyCall (h_apply h) applying (step_id s)) (\<lambda>raw.
        let result = evidence raw in
        if \<not> truthy result
        then sthrow (orchestrator_error ''website_provisioning_evidence_required''
               ''Provisioning handler did not return completion evidence'')
        else if jget result ''satisfied'' = JBool False then
          let code = publicErrorCode (nullish (jget result ''reason'') (JStr ''website_provisioning_blocked''))
                       step_failed in
          sbind (on_reg (r_blockStep reg operationId (step_id s) (JStr code) result)) (\<lambda>blocked.
          sret (outcome_of blocked ''blocked'' (Some (step_id s)) (Some ''remediate_or_compensate'') (Some code)))
        else
          sbind (on_reg (r_completeStep reg operationId (step_id s) result)) (\<lambda>completed.
          sret (outcome_of completed (if op_ready completed then ''ready'' else ''progressed'')
                  (Some (step_id s)) None None))))
       (\<lambda>e. if evidence_required e then sthrow e
        else
          sbind (on_reg (r_failStep reg operationId (step_id s)
                   (JStr (publicErrorCode (code_of e) step_failed)) JUndef)) (\<lambda>failed.
          sret (outcome_of failed ''failed'' (Some (step_id s)) None
                  (Some (publicErrorCode (code_of e) step_failed)))))))"

text \<open>What \<open>runNext\<close> does with an operation that is not ready.\<close>

definition dispatch ::
  "'r registry_ops \<Rightarrow> 'h handlers \<Rightarrow> string \<Rightarrow> public_operation \<Rightarrow> (('r, 'h) world, outcome) sm" where
  "dispatch reg hs operationId v = (case first_step (\<lambda>s. step_state s = Applying) v of
       Some s \<Rightarrow> reconcileInterrupted reg hs v s
     | None \<Rightarrow> case first_step (\<lambda>s. step_state s = Compensating) v of
       Some s \<Rightarrow> reconcileInterruptedCompensation reg hs v s
     | None \<Rightarrow> case first_step (\<lambda>s. step_required s \<and> step_state s = Blocked) v of
       Some s \<Rightarrow> reconcileBlocked reg hs v s
     | None \<Rightarrow> case first_step (\<lambda>s. step_required s \<and> step_state s \<in> {Failed, Compensated}) v of
       Some s \<Rightarrow> sret (outcome_of v ''blocked'' (Some (step_id s))
                   (Some (if step_state s = Compensated then ''continue_compensation_or_remediate''
                          else ''remediate_or_compensate'')) None)
     | None \<Rightarrow> case first_step (\<lambda>s. step_state s = Pending) v of
       None \<Rightarrow> sret (outcome_of v ''blocked'' None (Some ''remediate'') None)
     | Some s \<Rightarrow> applyStep reg hs operationId s)"

definition runNext :: "'r registry_ops \<Rightarrow> 'h handlers \<Rightarrow> string \<Rightarrow> (('r, 'h) world, outcome) sm" where
  "runNext reg hs operationId =
     sbind (on_reg (r_get reg operationId)) (\<lambda>found. case found of
       None \<Rightarrow> sthrow not_found
     | Some v \<Rightarrow> if op_ready v then sret (outcome_of v ''ready'' None None None)
                 else dispatch reg hs operationId v)"

definition orchestrator_retryStep ::
  "'r registry_ops \<Rightarrow> 'h handlers \<Rightarrow> string \<Rightarrow> string \<Rightarrow> (('r, 'h) world, outcome) sm" where
  "orchestrator_retryStep reg hs operationId stepId =
     sbind (on_reg (r_retryStep reg operationId stepId)) (\<lambda>_. runNext reg hs operationId)"

definition compensation_failed ::
  "'r registry_ops \<Rightarrow> string \<Rightarrow> string \<Rightarrow> string \<Rightarrow> (('r, 'h) world, outcome) sm" where
  "compensation_failed reg operationId stepId c =
     sbind (on_reg (r_failCompensation reg operationId stepId (JStr c))) (\<lambda>failed.
     sret (outcome_of failed ''compensation_failed'' (Some stepId)
             (Some ''retry_compensation_or_remediate'') (Some c)))"

definition runCompensation ::
  "'r registry_ops \<Rightarrow> 'h handlers \<Rightarrow> string \<Rightarrow> step \<Rightarrow> (('r, 'h) world, outcome) sm" where
  "runCompensation reg hs operationId s =
     sbind (slift (compensationHandlerFor hs s)) (\<lambda>h.
     sbind (on_reg (r_beginCompensation reg operationId (step_id s))) (\<lambda>compensating.
     scatch
       (sbind (call_on CompensateCall (h_compensate h) compensating (step_id s)) (\<lambda>raw.
        let result = evidence raw in
        if \<not> truthy result \<or> jget result ''satisfied'' = JBool False
        then compensation_failed reg operationId (step_id s)
               (publicErrorCode (if truthy result then jget result ''reason'' else JUndef)
                  ''website_provisioning_compensation_failed'')
        else
          sbind (on_reg (r_completeCompensation reg operationId (step_id s) result)) (\<lambda>completed.
          sret (outcome_of completed ''compensated'' (Some (step_id s)) None None))))
       (\<lambda>e. compensation_failed reg operationId (step_id s)
               (publicErrorCode (code_of e) ''website_provisioning_compensation_failed''))))"

definition compensateStep ::
  "'r registry_ops \<Rightarrow> 'h handlers \<Rightarrow> string \<Rightarrow> string \<Rightarrow> (('r, 'h) world, outcome) sm" where
  "compensateStep reg hs operationId stepId =
     sbind (on_reg (r_get reg operationId)) (\<lambda>found. case found of
       None \<Rightarrow> sthrow not_found
     | Some v \<Rightarrow> case find_step stepId (op_steps_of v) of
       None \<Rightarrow> sthrow (orchestrator_error ''website_provisioning_step_not_found''
                 ''Website provisioning step was not found'')
     | Some s \<Rightarrow>
       if comp_state (step_comp s) = NotRequired
       then sthrow (orchestrator_error ''website_provisioning_compensation_not_required''
              ''Provisioning step does not require compensation'')
       else if step_state s = Compensating then reconcileInterruptedCompensation reg hs v s
       else runCompensation reg hs operationId s)"

end
