(* ===== verification/OrchestratorProofs.thy ===== *)
theory OrchestratorProofs
  imports Orchestrator
begin

text \<open>
  What the driver of provisioning operations needs from its registry, stated as two locales, what it
  guarantees then, and the interpretation of both on the website provisioning registry.
\<close>

section \<open>The registry as a journal\<close>

text \<open>
  \<open>intact\<close> holds of the registry between calls. \<open>journaled r oid sid\<close>: the registry has durably
  recorded that the step is being applied.
\<close>

locale step_journal =
  fixes ops :: "'r registry_ops"
    and intact :: "'r \<Rightarrow> bool"
    and journaled :: "'r \<Rightarrow> string \<Rightarrow> string \<Rightarrow> bool"
  assumes keeps_get: "keeps intact (r_get ops oid)"
    and keeps_begin: "keeps intact (r_beginStep ops oid sid)"
    and keeps_complete: "keeps intact (r_completeStep ops oid sid ev)"
    and keeps_block: "keeps intact (r_blockStep ops oid sid er ev)"
    and keeps_fail: "keeps intact (r_failStep ops oid sid er ev)"
    and keeps_retry: "keeps intact (r_retryStep ops oid sid)"
    and keeps_begin_comp: "keeps intact (r_beginCompensation ops oid sid)"
    and keeps_complete_comp: "keeps intact (r_completeCompensation ops oid sid ev)"
    and keeps_fail_comp: "keeps intact (r_failCompensation ops oid sid er)"
    and begin_journals: "intact r \<Longrightarrow> r_get ops oid r = (Inr (Some v), r') \<Longrightarrow>
      t \<in> set (op_steps_of v) \<Longrightarrow> step_state t = Pending \<Longrightarrow>
      r_beginStep ops oid (step_id t) r' = (Inr u, r'') \<Longrightarrow> op_id u = oid \<and> journaled r'' oid (step_id t)"

locale compensation_journal = step_journal +
  fixes comp_journaled :: "'a \<Rightarrow> string \<Rightarrow> string \<Rightarrow> bool"
  assumes begin_comp_journals: "intact r \<Longrightarrow> r_get ops oid r = (Inr (Some v), r') \<Longrightarrow>
      t \<in> set (op_steps_of v) \<Longrightarrow> step_state t \<noteq> Compensating \<Longrightarrow>
      r_beginCompensation ops oid (step_id t) r' = (Inr u, r'') \<Longrightarrow>
      op_id u = oid \<and> comp_journaled r'' oid (step_id t)"

section \<open>Rules for the world\<close>

definition world_inv :: "('r \<Rightarrow> bool) \<Rightarrow> ('r host_log \<Rightarrow> bool) \<Rightarrow> ('r, 'h) world \<Rightarrow> bool" where
  "world_inv I J w = (I (w_reg w) \<and> list_all J (w_calls w))"

lemma keeps_on_reg: "keeps I m \<Longrightarrow> keeps (world_inv I J) (on_reg m)"
  by (fastforce simp: keeps_def on_reg_def world_inv_def split: prod.splits)

lemma on_host_inv:
  assumes "world_inv I J w"
    "J \<lparr>call_kind = k, call_operation = ctx_operationId c, call_step = ctx_stepId c, call_registry = w_reg w\<rparr>"
  shows "world_inv I J (snd (on_host k f c w))"
  using assms by (simp add: on_host_def world_inv_def split: prod.splits)

lemma keeps_on_host:
  fixes f :: "'h host_call" and J :: "'r host_log \<Rightarrow> bool"
  assumes "\<And>r. J \<lparr>call_kind = k, call_operation = ctx_operationId c, call_step = ctx_stepId c,
      call_registry = r\<rparr>"
  shows "keeps (world_inv I J) (on_host k f c)"
  by (rule keepsI) (erule on_host_inv, rule assms)

lemma keeps_case_sum [keeps_rules]:
  "(\<And>e. keeps I (m e)) \<Longrightarrow> (\<And>y. keeps I (f y)) \<Longrightarrow> keeps I (case x of Inl e \<Rightarrow> m e | Inr y \<Rightarrow> f y)"
  by (cases x) simp_all

lemma keeps_try_inspect:
  "keeps I m \<Longrightarrow> (\<And>x. keeps I (k x)) \<Longrightarrow> keeps I (try_inspect m h k)"
  unfolding try_inspect_def by (intro keeps_rules) simp_all

text \<open>Handler calls other than \<open>apply\<close> and \<open>compensate\<close> are never constrained.\<close>

definition lenient :: "('r host_log \<Rightarrow> bool) \<Rightarrow> bool" where
  "lenient J \<longleftrightarrow> (\<forall>c. call_kind c \<in> {InspectCall, InspectCompensationCall} \<longrightarrow> J c)"

lemma keeps_inspectStep: "lenient J \<Longrightarrow> keeps (world_inv I J) (inspectStep hs v s)"
  unfolding inspectStep_def by (intro keeps_rules keeps_on_host) (simp add: lenient_def)

lemma keeps_inspectCompensation: "lenient J \<Longrightarrow> keeps (world_inv I J) (inspectCompensation hs v s)"
  unfolding inspectCompensation_def by (intro keeps_rules keeps_on_host) (simp add: lenient_def)

context step_journal
begin

lemmas keeps_ops = keeps_get keeps_begin keeps_complete keeps_block keeps_fail keeps_retry
  keeps_begin_comp keeps_complete_comp keeps_fail_comp

lemma keeps_reconcileInterrupted:
  "lenient J \<Longrightarrow> keeps (world_inv intact J) (reconcileInterrupted ops hs v s)"
  unfolding reconcileInterrupted_def Let_def
  by (intro keeps_try_inspect keeps_inspectStep keeps_rules keeps_on_reg keeps_ops)

lemma keeps_reconcileInterruptedCompensation:
  "lenient J \<Longrightarrow> keeps (world_inv intact J) (reconcileInterruptedCompensation ops hs v s)"
  unfolding reconcileInterruptedCompensation_def Let_def
  by (intro keeps_try_inspect keeps_inspectCompensation keeps_rules keeps_on_reg keeps_ops)

lemma keeps_reconcileBlocked:
  "lenient J \<Longrightarrow> keeps (world_inv intact J) (reconcileBlocked ops hs v s)"
  unfolding reconcileBlocked_def Let_def
  by (intro keeps_try_inspect keeps_inspectStep keeps_rules keeps_on_reg keeps_ops)

end

text \<open>The log of handler calls is in order: none was applied, or compensated, before it was journaled.\<close>

definition journaled_calls ::
  "('r \<Rightarrow> string \<Rightarrow> string \<Rightarrow> bool) \<Rightarrow> ('r \<Rightarrow> string \<Rightarrow> string \<Rightarrow> bool) \<Rightarrow> 'r host_log \<Rightarrow> bool" where
  "journaled_calls A C c \<longleftrightarrow>
     (call_kind c = ApplyCall \<longrightarrow> A (call_registry c) (call_operation c) (call_step c)) \<and>
     (call_kind c = CompensateCall \<longrightarrow> C (call_registry c) (call_operation c) (call_step c))"

lemma lenient_journaled_calls [simp]: "lenient (journaled_calls A C)"
  by (simp add: lenient_def journaled_calls_def)

text \<open>One call with the log kept in order, then anything that keeps it.\<close>

lemma call_on_inv:
  assumes "world_inv I (journaled_calls A C) w" "op_id u = oid"
    "k = ApplyCall \<Longrightarrow> A (w_reg w) oid sid" "k = CompensateCall \<Longrightarrow> C (w_reg w) oid sid"
  shows "world_inv I (journaled_calls A C) (snd (call_on k f u sid w))"
  unfolding call_on_def
proof (cases f)
  case None
  with assms(1) show "world_inv I (journaled_calls A C) (snd ((case f of None \<Rightarrow> sthrow type_error
     | Some g \<Rightarrow> sbind (slift (context_of u sid)) (\<lambda>c. on_host k g c)) w))" by simp
next
  case (Some g)
  show "world_inv I (journaled_calls A C) (snd ((case f of None \<Rightarrow> sthrow type_error
     | Some g \<Rightarrow> sbind (slift (context_of u sid)) (\<lambda>c. on_host k g c)) w))"
  proof (cases "context_of u sid")
    case (Inr c)
    then have "ctx_operationId c = oid" "ctx_stepId c = sid"
      using assms(2) by (auto simp: context_of_def handlerContext_def dest: find_stepD split: option.splits)
    then have "journaled_calls A C \<lparr>call_kind = k, call_operation = ctx_operationId c,
        call_step = ctx_stepId c, call_registry = w_reg w\<rparr>"
      using assms(3,4) by (auto simp: journaled_calls_def)
    with Some Inr assms(1) show ?thesis by (simp add: sbind_apply on_host_inv)
  qed (use Some assms(1) in \<open>simp add: sbind_apply\<close>)
qed

lemma inv_scatch_bind:
  assumes "I (snd (m w))" "\<And>x. keeps I (k x)" "\<And>e. keeps I (h e)"
  shows "I (snd (scatch (sbind m k) h w))"
proof (cases "m w")
  case (Pair r w')
  have "keeps I (scatch (k x) h)" for x by (intro keeps_scatch assms)
  then have "I (snd (scatch (k x) h w'))" for x using assms(1) Pair by (simp add: keeps_def)
  moreover have "I (snd (h e w'))" for e using assms(1,3) Pair by (simp add: keeps_def)
  ultimately show ?thesis
    by (cases r) (simp_all add: scatch_apply sbind_apply Pair)
qed

lemma inv_on_reg_bind:
  assumes "I (snd (on_reg m w))" "\<And>u r. m (w_reg w) = (Inr u, r) \<Longrightarrow> I (w\<lparr>w_reg := r\<rparr>) \<Longrightarrow> I (snd (k u (w\<lparr>w_reg := r\<rparr>)))"
  shows "I (snd (sbind (on_reg m) k w))"
  using assms by (auto simp: sbind_apply on_reg_def split: prod.splits sum.splits)

context step_journal
begin

lemma applyStep_inv:
  assumes w: "world_inv intact (journaled_calls journaled C) w"
    and get: "intact r" "r_get ops oid r = (Inr (Some v), w_reg w)"
    and s: "s \<in> set (op_steps_of v)" "step_state s = Pending"
  shows "world_inv intact (journaled_calls journaled C) (snd (applyStep ops hs oid s w))"
proof (cases "handlerFor hs s")
  case (Inr h)
  have "world_inv intact (journaled_calls journaled C) (snd (on_reg (r_beginStep ops oid (step_id s)) w))"
    by (rule keepsD [OF keeps_on_reg [OF keeps_begin] w])
  then show ?thesis
    unfolding applyStep_def Inr
    apply (simp only: sbind_Inr [of "slift (Inr h)" w h w] slift_apply)
    apply (rule inv_on_reg_bind, assumption)
    apply (rule inv_scatch_bind)
      apply (rule call_on_inv [where oid = oid])
         apply assumption
        apply (drule begin_journals [OF get s], simp)
       apply (drule begin_journals [OF get s], simp)
      apply simp
     apply (simp only: Let_def, intro keeps_rules keeps_on_reg keeps_ops)
    apply (intro keeps_rules keeps_on_reg keeps_ops)
    done
qed (use w in \<open>simp add: applyStep_def sbind_apply\<close>)

lemma dispatch_inv:
  assumes w: "world_inv intact (journaled_calls journaled C) w"
    and get: "intact r" "r_get ops oid r = (Inr (Some v), w_reg w)"
  shows "world_inv intact (journaled_calls journaled C) (snd (dispatch ops hs oid v w))"
proof -
  have "world_inv intact (journaled_calls journaled C) (snd (applyStep ops hs oid s w))"
    if "first_step (\<lambda>s. step_state s = Pending) v = Some s" for s
    by (rule applyStep_inv [OF w get]) (use that in \<open>auto simp: first_step_def dest: find_SomeD\<close>)
  then show ?thesis
    using w keepsD [OF keeps_reconcileInterrupted [OF lenient_journaled_calls] w]
      keepsD [OF keeps_reconcileInterruptedCompensation [OF lenient_journaled_calls] w]
      keepsD [OF keeps_reconcileBlocked [OF lenient_journaled_calls] w]
    by (simp add: dispatch_def split: option.splits)
qed

lemma runNext_keeps:
  fixes hs :: "'h handlers"
  shows "keeps (world_inv intact (journaled_calls journaled C)) (runNext ops hs oid)"
proof (rule keepsI)
  fix w :: "('r, 'h) world"
  assume w: "world_inv intact (journaled_calls journaled C) w"
  have get: "world_inv intact (journaled_calls journaled C) (snd (on_reg (r_get ops oid) w))"
    by (rule keepsD [OF keeps_on_reg [OF keeps_get] w])
  show "world_inv intact (journaled_calls journaled C) (snd (runNext ops hs oid w))"
    unfolding runNext_def
  proof (rule inv_on_reg_bind, rule get)
    fix u r
    assume r: "r_get ops oid (w_reg w) = (Inr u, r)"
      and I: "world_inv intact (journaled_calls journaled C) (w\<lparr>w_reg := r\<rparr>)"
    have int: "intact (w_reg w)" using w by (simp add: world_inv_def)
    have "world_inv intact (journaled_calls journaled C) (snd (dispatch ops hs oid v (w\<lparr>w_reg := r\<rparr>)))"
      if "u = Some v" for v
      by (rule dispatch_inv [OF I int]) (use that r in simp)
    then show "world_inv intact (journaled_calls journaled C) (snd ((case u of None \<Rightarrow> sthrow not_found
     | Some v \<Rightarrow> if op_ready v then sret (outcome_of v ''ready'' None None None)
                 else dispatch ops hs oid v) (w\<lparr>w_reg := r\<rparr>)))"
      using I by (simp split: option.splits)
  qed
qed

lemma retry_keeps: "keeps (world_inv intact (journaled_calls journaled C)) (orchestrator_retryStep ops hs oid sid)"
  unfolding orchestrator_retryStep_def by (intro keeps_rules keeps_on_reg keeps_ops runNext_keeps)

end

context compensation_journal
begin

lemma runCompensation_inv:
  assumes w: "world_inv intact (journaled_calls A comp_journaled) w"
    and get: "intact r" "r_get ops oid r = (Inr (Some v), w_reg w)"
    and s: "s \<in> set (op_steps_of v)" "step_state s \<noteq> Compensating"
  shows "world_inv intact (journaled_calls A comp_journaled) (snd (runCompensation ops hs oid s w))"
proof (cases "compensationHandlerFor hs s")
  case (Inr h)
  have "world_inv intact (journaled_calls A comp_journaled)
      (snd (on_reg (r_beginCompensation ops oid (step_id s)) w))"
    by (rule keepsD [OF keeps_on_reg [OF keeps_begin_comp] w])
  then show ?thesis
    unfolding runCompensation_def Inr compensation_failed_def
    apply (simp only: sbind_Inr [of "slift (Inr h)" w h w] slift_apply)
    apply (rule inv_on_reg_bind, assumption)
    apply (rule inv_scatch_bind)
      apply (rule call_on_inv [where oid = oid])
         apply assumption
        apply (drule begin_comp_journals [OF get s], simp)
       apply simp
      apply (drule begin_comp_journals [OF get s], simp)
     apply (simp only: Let_def, intro keeps_rules keeps_on_reg keeps_ops)
    apply (intro keeps_rules keeps_on_reg keeps_ops)
    done
qed (use w in \<open>simp add: runCompensation_def sbind_apply\<close>)

lemma compensateStep_keeps:
  fixes hs :: "'h handlers"
  shows "keeps (world_inv intact (journaled_calls A comp_journaled)) (compensateStep ops hs oid sid)"
proof (rule keepsI)
  fix w :: "('a, 'h) world"
  assume w: "world_inv intact (journaled_calls A comp_journaled) w"
  have get: "world_inv intact (journaled_calls A comp_journaled) (snd (on_reg (r_get ops oid) w))"
    by (rule keepsD [OF keeps_on_reg [OF keeps_get] w])
  show "world_inv intact (journaled_calls A comp_journaled) (snd (compensateStep ops hs oid sid w))"
    unfolding compensateStep_def
  proof (rule inv_on_reg_bind, rule get)
    fix u r
    assume r: "r_get ops oid (w_reg w) = (Inr u, r)"
      and I: "world_inv intact (journaled_calls A comp_journaled) (w\<lparr>w_reg := r\<rparr>)"
    have int: "intact (w_reg w)" using w by (simp add: world_inv_def)
    have "world_inv intact (journaled_calls A comp_journaled) (snd (runCompensation ops hs oid s (w\<lparr>w_reg := r\<rparr>)))"
      if "u = Some v" "find_step sid (op_steps_of v) = Some s" "step_state s \<noteq> Compensating" for v s
      by (rule runCompensation_inv [OF I int]) (use that r in \<open>auto dest: find_stepD\<close>)
    then show "world_inv intact (journaled_calls A comp_journaled) (snd ((case u of None \<Rightarrow> sthrow not_found
     | Some v \<Rightarrow> case find_step sid (op_steps_of v) of
       None \<Rightarrow> sthrow (orchestrator_error ''website_provisioning_step_not_found''
                 ''Website provisioning step was not found'')
     | Some s \<Rightarrow>
       if comp_state (step_comp s) = NotRequired
       then sthrow (orchestrator_error ''website_provisioning_compensation_not_required''
              ''Provisioning step does not require compensation'')
       else if step_state s = Compensating then reconcileInterruptedCompensation ops hs v s
       else runCompensation ops hs oid s) (w\<lparr>w_reg := r\<rparr>)))"
      using I keepsD [OF keeps_reconcileInterruptedCompensation [OF lenient_journaled_calls] I]
      by (simp split: option.splits)
  qed
qed

end

end
