(* ===== verification/OrchestratorJournal.thy ===== *)
theory OrchestratorJournal
  imports OrchestratorProofs
begin

text \<open>
  The orchestrator on the website provisioning registry: the registry's methods as the operations the
  driver calls, the interpretation of the driver's two locales, and what follows for any sequence of
  driver commands.
\<close>

section \<open>The registry with its clock\<close>

text \<open>\<open>clock n\<close> is what the \<open>n\<close>-th call of \<open>now()\<close> returns; the state counts the calls.\<close>

record clocked =
  cl_registry :: registry
  cl_reads :: nat

definition tick :: "(nat \<Rightarrow> js) \<Rightarrow> (js \<Rightarrow> (registry, 'a) sm) \<Rightarrow> (clocked, 'a) sm" where
  "tick clock m c = (case m (clock (cl_reads c)) (cl_registry c) of
     (x, s) \<Rightarrow> (x, \<lparr>cl_registry = s, cl_reads = Suc (cl_reads c)\<rparr>))"

definition website_ops :: "(nat \<Rightarrow> js) \<Rightarrow> (string \<Rightarrow> bool) \<Rightarrow> clocked registry_ops" where
  "website_ops clock d = \<lparr>r_get = (\<lambda>oid. tick clock (\<lambda>_. get d oid)),
     r_beginStep = (\<lambda>oid sid. tick clock (\<lambda>now. beginStep d now oid sid)),
     r_completeStep = (\<lambda>oid sid ev. tick clock (\<lambda>now. completeStep d now oid sid ev)),
     r_blockStep = (\<lambda>oid sid er ev. tick clock (\<lambda>now. blockStep d now oid sid er ev)),
     r_failStep = (\<lambda>oid sid er ev. tick clock (\<lambda>now. failStep d now oid sid er ev)),
     r_retryStep = (\<lambda>oid sid. tick clock (\<lambda>now. retryStep d now oid sid)),
     r_beginCompensation = (\<lambda>oid sid. tick clock (\<lambda>now. beginCompensation d now oid sid)),
     r_completeCompensation = (\<lambda>oid sid ev. tick clock (\<lambda>now. completeCompensation d now oid sid ev)),
     r_failCompensation = (\<lambda>oid sid er. tick clock (\<lambda>now. failCompensation d now oid sid er))\<rparr>"

section \<open>What the driver relies on\<close>

text \<open>A compensation is under way only on a step that is compensating.\<close>

definition balanced :: "operation list \<Rightarrow> bool" where
  "balanced m \<longleftrightarrow> (\<forall>oid sid t. step_at oid sid m = Some t \<longrightarrow>
     comp_state (step_comp t) = CompApplying \<longrightarrow> step_state t = Compensating)"

definition driven :: "registry \<Rightarrow> bool" where
  "driven s = (loaded s \<and> wf_registry (memory s) \<and> balanced (memory s))"

text \<open>The step's phase is in memory and on disk.\<close>

definition durable_phase :: "(step_state \<Rightarrow> bool) \<Rightarrow> registry \<Rightarrow> string \<Rightarrow> string \<Rightarrow> bool" where
  "durable_phase P s oid sid = (saved s \<and>
     (case step_at oid sid (memory s) of None \<Rightarrow> False | Some t \<Rightarrow> P (step_state t)))"

lemma code_edge_balanced:
  "code_edge s t \<Longrightarrow> (comp_state (step_comp s) = CompApplying \<longrightarrow> step_state s = Compensating) \<Longrightarrow>
   comp_state (step_comp t) = CompApplying \<longrightarrow> step_state t = Compensating"
  by (auto simp: code_edge_def step_edge_def torn_edge_def phase_def elim: phase_edge.cases)

lemma balanced_step_effect:
  assumes "step_effect code_edge oid sid m m'" "balanced m"
  shows "balanced m'"
proof (cases "m' = m")
  case False
  with assms(1) obtain p t f u where f: "find_operation oid m = Some p" "find_step sid (op_steps p) = Some t"
    "code_edge t (f t)" "\<And>x. step_id (f x) = step_id x"
    and m': "m' = change_operation oid (\<lambda>p. touch u (change_step sid f p)) m"
    by (auto simp: step_effect_def)
  then have t: "step_at oid sid m = Some t" by (simp add: step_at_def)
  show ?thesis
    unfolding balanced_def m' step_at_change [OF f(4)]
    using assms(2) t code_edge_balanced [OF f(3)]
    by (auto simp: balanced_def split: if_splits)
qed (use assms in simp)

text \<open>The requests the driver makes keep a driven registry driven.\<close>

lemma driven_handle:
  assumes "targets r \<noteq> None"
  shows "keeps driven (handle lc d r)"
proof (rule keepsI)
  fix s
  assume s: "driven s"
  obtain oid sid where "targets r = Some (oid, sid)" using assms by auto
  then have "step_effect code_edge oid sid (memory s) (memory (snd (handle lc d r s)))"
    using handle_effect [where s = s and r = r and lc = lc and d = d] s
    by (simp add: driven_def request_edge_code)
  then show "driven (snd (handle lc d r s))"
    using s balanced_step_effect wf_step_effect handle_loaded by (auto simp: driven_def)
qed

lemma driven_steps:
  "keeps driven (beginStep d now oid sid)" "keeps driven (completeStep d now oid sid ev)"
  "keeps driven (blockStep d now oid sid ej ev)" "keeps driven (failStep d now oid sid ej ev)"
  "keeps driven (retryStep d now oid sid)" "keeps driven (beginCompensation d now oid sid)"
  "keeps driven (completeCompensation d now oid sid ev)" "keeps driven (failCompensation d now oid sid ej)"
  using driven_handle [of "BeginStep now oid sid" undefined d]
    driven_handle [of "CompleteStep now oid sid ev" undefined d]
    driven_handle [of "BlockStep now oid sid ej ev" undefined d]
    driven_handle [of "FailStep now oid sid ej ev" undefined d]
    driven_handle [of "RetryStep now oid sid" undefined d]
    driven_handle [of "BeginCompensation now oid sid" undefined d]
    driven_handle [of "CompleteCompensation now oid sid ev" undefined d]
    driven_handle [of "FailCompensation now oid sid ej" undefined d]
  by (simp_all add: keeps_def)

lemma get_loaded:
  "loaded s \<Longrightarrow> get d oid s = (case find_operation oid (memory s) of None \<Rightarrow> (Inr None, s)
    | Some p \<Rightarrow> (map_sum id Some (publicOperation p), s))"
  by (simp add: get_def sbind_apply map_sum_def split: option.splits sum.splits)

lemma driven_get: "keeps driven (get d oid)"
  by (simp add: keeps_def driven_def get_loaded split: option.splits)

lemma keeps_tick: "(\<And>now. keeps I (m now)) \<Longrightarrow> keeps (\<lambda>c. I (cl_registry c)) (tick clock m)"
  by (simp add: keeps_def tick_def split: prod.splits) (metis snd_conv)

text \<open>What \<open>get\<close> shows is the operation stored.\<close>

lemma get_shows:
  assumes "driven s" "get d oid s = (Inr (Some v), s')" "t \<in> set (op_steps_of v)"
  shows "\<exists>p. s' = s \<and> find_operation oid (memory s) = Some p \<and> find_step (step_id t) (op_steps p) = Some t"
proof -
  obtain p where p: "find_operation oid (memory s) = Some p" "s' = s" "publicOperation p = Inr v"
    using assms(1,2) by (auto simp: driven_def get_loaded map_sum_def split: option.splits sum.splits)
  have wf: "wf_operation p" using p(1) assms(1) wf_registry_find by (auto simp: driven_def)
  with p(3) have v: "v = view_of p" by (simp add: publicOperation_wf)
  have "find_step (step_id t) (op_steps p) = Some t"
    using wf assms(3) find_unique [of step_id "op_steps p" t]
    by (simp add: v view_of_def derived_plan_def Let_def find_step_def wf_operation_def wf_steps_def)
  with p show ?thesis by blast
qed

text \<open>A commit that returns has saved the assignments, and shows the operation.\<close>

lemma commit_returns:
  assumes "commit now oid s = (Inr u, s')" "driven s'"
  shows "saved s' \<and> op_id u = oid"
proof -
  have "saved s'" using saves_commit [of now oid, unfolded saves_def, THEN spec, of s] assms(1) by simp
  obtain s1 where "view oid s1 = (Inr u, s')"
    using assms(1) by (auto simp: commit_def elim!: sbind_returnsE)
  then obtain p where p: "find_operation oid (memory s') = Some p" "publicOperation p = Inr u"
    by (auto simp: view_def elim!: sbind_returnsE dest!: requireOperation_Inr)
  then have "u = view_of p"
    using assms(2) wf_registry_find [OF _ p(1)] by (simp add: driven_def publicOperation_wf)
  then show ?thesis using \<open>saved s'\<close> find_operationD [OF p(1)] by (simp add: view_of_def derived_plan_def Let_def)
qed

lemma assign_commit_durable:
  assumes "find_operation oid (memory s) = Some p" "find_step sid (op_steps p) = Some t"
    "\<And>x. step_id (f x) = step_id x"
    "commit now oid (s\<lparr>memory := change_operation oid (change_step sid f) (memory s)\<rparr>) = (Inr u, s')"
    "driven s'" "P (step_state (f t))"
  shows "op_id u = oid \<and> durable_phase P s' oid sid"
proof -
  obtain v where "memory (snd (commit now oid (s\<lparr>memory := change_operation oid (change_step sid f) (memory s)\<rparr>)))
      = change_operation oid (touch v) (change_operation oid (change_step sid f) (memory s))"
    using commit_effect [of now oid "s\<lparr>memory := change_operation oid (change_step sid f) (memory s)\<rparr>"] by auto
  then have "memory s' = change_operation oid (\<lambda>p. touch v (change_step sid f p)) (memory s)"
    using assms(4) by (simp add: change_operation_compose)
  then have "step_at oid sid (memory s') = Some (f t)"
    using assms(1-3) by (simp add: step_at_change) (simp add: step_at_def)
  with commit_returns [OF assms(4,5)] assms(6) show ?thesis by (simp add: durable_phase_def)
qed

lemma begin_durable:
  assumes "driven s" "find_operation oid (memory s) = Some p" "find_step sid (op_steps p) = Some t"
    "step_state t = Pending" "beginStep d now oid sid s = (Inr u, s')"
  shows "op_id u = oid \<and> durable_phase (\<lambda>x. x = Applying) s' oid sid"
proof -
  have "driven s'" using keeps_result [OF driven_steps(1) assms(1,5)] .
  then show ?thesis
    using assms
    by (intro assign_commit_durable [of oid s p sid t "\<lambda>s. s\<lparr>step_state := Applying, step_error := None\<rparr>" now])
      (simp_all add: driven_def beginStep_def with_step_loaded sbind_assign)
qed

lemma begin_compensation_durable:
  assumes "driven s" "find_operation oid (memory s) = Some p" "find_step sid (op_steps p) = Some t"
    "step_state t \<noteq> Compensating" "beginCompensation d now oid sid s = (Inr u, s')"
  shows "op_id u = oid \<and> durable_phase (\<lambda>x. x = Compensating) s' oid sid"
proof -
  have "driven s'" using keeps_result [OF driven_steps(6) assms(1,5)] .
  moreover have "comp_state (step_comp t) \<noteq> CompApplying"
    using assms(1-4) by (auto simp: driven_def balanced_def step_at_def split: option.splits)
  ultimately show ?thesis
    using assms
    by (intro assign_commit_durable [of oid s p sid t "\<lambda>s. on_comp (\<lambda>c. c\<lparr>comp_state := CompApplying, comp_error := None\<rparr>)
          (s\<lparr>step_state := Compensating\<rparr>)" now])
      (simp_all add: driven_def beginCompensation_def with_step_loaded sbind_assign on_comp_def split: if_splits)
qed

section \<open>Interpretation\<close>

interpretation wj: step_journal "website_ops clock d" "\<lambda>c. driven (cl_registry c)"
  "\<lambda>c. durable_phase (\<lambda>x. x = Applying) (cl_registry c)" for clock d
proof
  fix r oid v r' t u r''
  assume r: "driven (cl_registry r)" "r_get (website_ops clock d) oid r = (Inr (Some v), r')" "t \<in> set (op_steps_of v)"
    "step_state t = Pending" "r_beginStep (website_ops clock d) oid (step_id t) r' = (Inr u, r'')"
  then have g: "get d oid (cl_registry r) = (Inr (Some v), cl_registry r')"
    by (auto simp: website_ops_def tick_def split: prod.splits)
  obtain p where p: "cl_registry r' = cl_registry r" "find_operation oid (memory (cl_registry r)) = Some p"
    "find_step (step_id t) (op_steps p) = Some t" using get_shows [OF r(1) g r(3)] by auto
  obtain now where "beginStep d now oid (step_id t) (cl_registry r) = (Inr u, cl_registry r'')"
    using r(5) p(1) by (auto simp: website_ops_def tick_def split: prod.splits)
  with begin_durable [OF r(1) p(2,3) r(4)]
  show "op_id u = oid \<and> durable_phase (\<lambda>x. x = Applying) (cl_registry r'') oid (step_id t)" by blast
qed (simp_all add: website_ops_def keeps_tick driven_steps driven_get)

interpretation wcj: compensation_journal "website_ops clock d" "\<lambda>c. driven (cl_registry c)"
  "\<lambda>c. durable_phase (\<lambda>x. x = Applying) (cl_registry c)"
  "\<lambda>c. durable_phase (\<lambda>x. x = Compensating) (cl_registry c)" for clock d
proof
  fix r oid v r' t u r''
  assume r: "driven (cl_registry r)" "r_get (website_ops clock d) oid r = (Inr (Some v), r')" "t \<in> set (op_steps_of v)"
    "step_state t \<noteq> Compensating" "r_beginCompensation (website_ops clock d) oid (step_id t) r' = (Inr u, r'')"
  then have g: "get d oid (cl_registry r) = (Inr (Some v), cl_registry r')"
    by (auto simp: website_ops_def tick_def split: prod.splits)
  obtain p where p: "cl_registry r' = cl_registry r" "find_operation oid (memory (cl_registry r)) = Some p"
    "find_step (step_id t) (op_steps p) = Some t" using get_shows [OF r(1) g r(3)] by auto
  obtain now where "beginCompensation d now oid (step_id t) (cl_registry r) = (Inr u, cl_registry r'')"
    using r(5) p(1) by (auto simp: website_ops_def tick_def split: prod.splits)
  with begin_compensation_durable [OF r(1) p(2,3) r(4)]
  show "op_id u = oid \<and> durable_phase (\<lambda>x. x = Compensating) (cl_registry r'') oid (step_id t)" by blast
qed

section \<open>Commands to the driver\<close>

datatype command = RunNext string | Retry string string | Compensate string string

fun execute :: "'r registry_ops \<Rightarrow> 'h handlers \<Rightarrow> command \<Rightarrow> (('r, 'h) world, outcome) sm" where
  "execute ops hs (RunNext oid) = runNext ops hs oid"
| "execute ops hs (Retry oid sid) = orchestrator_retryStep ops hs oid sid"
| "execute ops hs (Compensate oid sid) = compensateStep ops hs oid sid"

definition drive :: "'r registry_ops \<Rightarrow> 'h handlers \<Rightarrow> command list \<Rightarrow> ('r, 'h) world \<Rightarrow> ('r, 'h) world" where
  "drive ops hs cs w = foldl (\<lambda>w c. snd (execute ops hs c w)) w cs"

lemma drive_keeps: "(\<And>c. keeps I (execute ops hs c)) \<Longrightarrow> I w \<Longrightarrow> I (drive ops hs cs w)"
  unfolding drive_def by (induction cs arbitrary: w) (auto simp: keeps_def)

abbreviation website_journal :: "clocked host_log \<Rightarrow> bool" where
  "website_journal \<equiv> journaled_calls (\<lambda>c. durable_phase (\<lambda>x. x = Applying) (cl_registry c))
     (\<lambda>c. durable_phase (\<lambda>x. x = Compensating) (cl_registry c))"

lemma execute_keeps:
  "keeps (world_inv (\<lambda>c. driven (cl_registry c)) website_journal) (execute (website_ops clock d) hs c)"
  by (cases c) (simp_all add: wj.runNext_keeps wj.retry_keeps wcj.compensateStep_keeps)

section \<open>Which handlers a run calls\<close>

lemma on_reg_calls [simp]: "w_calls (snd (on_reg m w)) = w_calls w"
  by (simp add: on_reg_def split: prod.splits)

definition adds_calls :: "('r host_log \<Rightarrow> bool) \<Rightarrow> nat \<Rightarrow> (('r, 'h) world, 'a) sm \<Rightarrow> bool" where
  "adds_calls P n m \<longleftrightarrow> (\<forall>w. \<exists>cs. w_calls (snd (m w)) = w_calls w @ cs \<and> length cs \<le> n \<and> list_all P cs)"

lemma adds_none: "(\<And>w. w_calls (snd (m w)) = w_calls w) \<Longrightarrow> adds_calls P n m"
  by (simp add: adds_calls_def)

lemma adds_bind:
  assumes "adds_calls P n m" "\<And>x. adds_calls P k (f x)"
  shows "adds_calls P (n + k) (sbind m f)"
  unfolding adds_calls_def
proof
  fix w
  obtain cs where cs: "w_calls (snd (m w)) = w_calls w @ cs" "length cs \<le> n" "list_all P cs"
    using assms(1) by (auto simp: adds_calls_def)
  show "\<exists>cs. w_calls (snd (sbind m f w)) = w_calls w @ cs \<and> length cs \<le> n + k \<and> list_all P cs"
  proof (cases "m w")
    case (Pair r w')
    show ?thesis
    proof (cases r)
      case (Inr x)
      obtain ds where "w_calls (snd (f x w')) = w_calls w' @ ds" "length ds \<le> k" "list_all P ds"
        using assms(2) [of x] by (auto simp: adds_calls_def)
      with cs Pair Inr show ?thesis by (intro exI [of _ "cs @ ds"]) (simp add: sbind_apply)
    qed (use cs Pair in \<open>auto simp: sbind_apply intro!: exI [of _ cs]\<close>)
  qed
qed

lemma adds_catch:
  assumes "adds_calls P n m" "\<And>e. adds_calls P k (h e)"
  shows "adds_calls P (n + k) (scatch m h)"
  unfolding adds_calls_def
proof
  fix w
  obtain cs where cs: "w_calls (snd (m w)) = w_calls w @ cs" "length cs \<le> n" "list_all P cs"
    using assms(1) by (auto simp: adds_calls_def)
  show "\<exists>cs. w_calls (snd (scatch m h w)) = w_calls w @ cs \<and> length cs \<le> n + k \<and> list_all P cs"
  proof (cases "m w")
    case (Pair r w')
    show ?thesis
    proof (cases r)
      case (Inl x)
      obtain ds where "w_calls (snd (h x w')) = w_calls w' @ ds" "length ds \<le> k" "list_all P ds"
        using assms(2) [of x] by (auto simp: adds_calls_def)
      with cs Pair Inl show ?thesis by (intro exI [of _ "cs @ ds"]) (simp add: scatch_apply)
    qed (use cs Pair in \<open>auto simp: scatch_apply intro!: exI [of _ cs]\<close>)
  qed
qed

lemma adds_zero: "adds_calls P 0 m \<Longrightarrow> adds_calls P n m"
  by (auto simp: adds_calls_def)

lemma adds_on_reg: "adds_calls P n (on_reg m)" and adds_sret: "adds_calls P n (sret x)"
  and adds_sthrow: "adds_calls P n (sthrow e)" and adds_slift: "adds_calls P n (slift r)"
  by (simp_all add: adds_none)

lemma adds_quiet_bind: "adds_calls P 0 m \<Longrightarrow> (\<And>x. adds_calls P n (f x)) \<Longrightarrow> adds_calls P n (sbind m f)"
  using adds_bind [of P 0 m n f] by simp

lemma adds_bind_quiet: "adds_calls P n m \<Longrightarrow> (\<And>x. adds_calls P 0 (f x)) \<Longrightarrow> adds_calls P n (sbind m f)"
  using adds_bind [of P n m 0 f] by simp

lemma adds_catch_quiet: "adds_calls P n m \<Longrightarrow> (\<And>e. adds_calls P 0 (h e)) \<Longrightarrow> adds_calls P n (scatch m h)"
  using adds_catch [of P n m 0 h] by simp

lemma adds_if: "adds_calls P n m \<Longrightarrow> adds_calls P n k \<Longrightarrow> adds_calls P n (if c then m else k)"
  by simp

lemma adds_option:
  "adds_calls P n m \<Longrightarrow> (\<And>y. x = Some y \<Longrightarrow> adds_calls P n (f y)) \<Longrightarrow>
   adds_calls P n (case x of None \<Rightarrow> m | Some y \<Rightarrow> f y)"
  by (cases x) simp_all

lemma adds_sum:
  "(\<And>e. adds_calls P n (m e)) \<Longrightarrow> (\<And>y. adds_calls P n (f y)) \<Longrightarrow>
   adds_calls P n (case x of Inl e \<Rightarrow> m e | Inr y \<Rightarrow> f y)"
  by (cases x) simp_all

lemmas adds_quiet = adds_on_reg adds_sret adds_sthrow adds_slift adds_if adds_option adds_sum adds_quiet_bind

lemma adds_on_host:
  "(\<And>r. P \<lparr>call_kind = k, call_operation = ctx_operationId c, call_step = ctx_stepId c, call_registry = r\<rparr>) \<Longrightarrow>
   adds_calls P 1 (on_host k f c)"
  by (simp add: adds_calls_def on_host_def split: prod.splits)

text \<open>The calls of one inspection, and of one application.\<close>

definition call_of :: "call_kind \<Rightarrow> string \<Rightarrow> 'r host_log \<Rightarrow> bool" where
  "call_of k sid c = (call_kind c = k \<and> call_step c = sid)"

lemma adds_inspectStep: "adds_calls (call_of InspectCall (step_id s)) 1 (inspectStep hs v s)"
  unfolding inspectStep_def
  by (intro adds_quiet_bind adds_slift adds_option adds_bind_quiet adds_sret adds_on_host)
    (simp add: call_of_def handlerContext_def)

lemma adds_try_inspect:
  "adds_calls P 1 m \<Longrightarrow> (\<And>x. adds_calls P 0 (k x)) \<Longrightarrow> adds_calls P 1 (try_inspect m h k)"
  unfolding try_inspect_def
  by (intro adds_bind_quiet adds_catch_quiet adds_sret adds_sum)

lemma adds_reconcileInterrupted:
  "adds_calls (call_of InspectCall (step_id s)) 1 (reconcileInterrupted reg hs v s)"
  unfolding reconcileInterrupted_def Let_def
  by (intro adds_try_inspect adds_inspectStep adds_quiet)

lemma adds_reconcileBlocked:
  "adds_calls (call_of InspectCall (step_id s)) 1 (reconcileBlocked reg hs v s)"
  unfolding reconcileBlocked_def Let_def
  by (intro adds_try_inspect adds_inspectStep adds_quiet)

lemma adds_inspectCompensation:
  "adds_calls (call_of InspectCompensationCall (step_id s)) 1 (inspectCompensation hs v s)"
  unfolding inspectCompensation_def
  by (intro adds_quiet_bind adds_slift adds_option adds_bind_quiet adds_sret adds_on_host)
    (simp add: call_of_def handlerContext_def)

lemma adds_reconcileInterruptedCompensation:
  "adds_calls (call_of InspectCompensationCall (step_id s)) 1 (reconcileInterruptedCompensation reg hs v s)"
  unfolding reconcileInterruptedCompensation_def Let_def
  by (intro adds_try_inspect adds_inspectCompensation adds_quiet)

lemma adds_call_on: "adds_calls (call_of k sid) 1 (call_on k f v sid)"
proof -
  have "adds_calls (call_of k sid) 1 (sbind (slift (context_of v sid)) (\<lambda>c. on_host k g c))" for g
  proof (cases "context_of v sid")
    case (Inr c)
    then have "ctx_stepId c = sid"
      by (auto simp: context_of_def handlerContext_def dest: find_stepD split: option.splits)
    then have "adds_calls (call_of k sid) 1 (on_host k g c)"
      by (intro adds_on_host) (simp add: call_of_def)
    then show ?thesis by (simp add: adds_calls_def sbind_apply Inr)
  qed (simp add: adds_none sbind_apply)
  then show ?thesis unfolding call_on_def by (intro adds_option adds_sthrow)
qed

lemma adds_applyStep: "adds_calls (call_of ApplyCall (step_id s)) 1 (applyStep reg hs oid s)"
  unfolding applyStep_def Let_def
  by (intro adds_quiet_bind [OF adds_slift] adds_quiet_bind [OF adds_on_reg] adds_catch_quiet
      adds_bind_quiet [OF adds_call_on] adds_quiet)

text \<open>What a run does with the operation it read: which handler it may call, on which step.\<close>

definition next_call :: "public_operation \<Rightarrow> (call_kind \<times> step) option" where
  "next_call v = (case first_step (\<lambda>s. step_state s = Applying) v of
       Some s \<Rightarrow> Some (InspectCall, s)
     | None \<Rightarrow> case first_step (\<lambda>s. step_state s = Compensating) v of
       Some s \<Rightarrow> Some (InspectCompensationCall, s)
     | None \<Rightarrow> case first_step (\<lambda>s. step_required s \<and> step_state s = Blocked) v of
       Some s \<Rightarrow> Some (InspectCall, s)
     | None \<Rightarrow> case first_step (\<lambda>s. step_required s \<and> step_state s \<in> {Failed, Compensated}) v of
       Some s \<Rightarrow> None
     | None \<Rightarrow> map_option (\<lambda>s. (ApplyCall, s)) (first_step (\<lambda>s. step_state s = Pending) v))"

lemma dispatch_calls:
  "case next_call v of None \<Rightarrow> adds_calls (\<lambda>_. False) 0 (dispatch reg hs oid v)
   | Some (k, s) \<Rightarrow> adds_calls (call_of k (step_id s)) 1 (dispatch reg hs oid v)"
  by (auto simp del: One_nat_def simp: next_call_def dispatch_def adds_reconcileInterrupted adds_reconcileBlocked
      adds_reconcileInterruptedCompensation adds_applyStep adds_sret split: option.splits)

section \<open>Progress\<close>

text \<open>A registry whose writes succeed, on a clock that always reads.\<close>

definition healthy :: "registry \<Rightarrow> bool" where
  "healthy s = (driven s \<and> (has_path s \<longrightarrow> chain_ok s) \<and> writes s = [])"

lemma commit_ok:
  assumes "(has_path s \<longrightarrow> chain_ok s) \<and> writes s = []" "nowIso now = Inr tm"
    "find_operation oid (memory s) = Some p" "wf_operation p"
  shows "\<exists>s'. commit now oid s = (Inr (view_of (touch (Some tm) p)), s') \<and>
    find_operation oid (memory s') = Some (touch (Some tm) p) \<and> (has_path s' \<longrightarrow> chain_ok s') \<and> writes s' = []"
proof -
  let ?m = "change_operation oid (\<lambda>p. p\<lparr>op_updatedAt := tm\<rparr>) (memory s)"
  have f: "find_operation oid ?m = Some (touch (Some tm) p)"
    using assms(3) by (simp add: find_operation_change touch_def)
  have wf: "wf_operation (touch (Some tm) p)" using assms(4) by (simp add: wf_operation_def)
  obtain s' where p: "persist (s\<lparr>memory := ?m\<rparr>) = (Inr (), s')" "memory s' = ?m"
    "has_path s' \<longrightarrow> chain_ok s'" "writes s' = []"
    using assms(1) by (cases "has_path s") (auto simp: persist_chained_def write_file_def write_ok_def)
  then have "commit now oid s = (Inr (view_of (touch (Some tm) p)), s')"
    using f wf assms(2)
    by (simp add: commit_apply sbind_apply view_def requireOperation_def publicOperation_wf)
  with p f show ?thesis by auto
qed

text \<open>Assign and commit on a healthy registry: the step is changed and the change is shown.\<close>

lemma assign_commit_ok:
  assumes "healthy s" "find_operation oid (memory s) = Some p" "find_step sid (op_steps p) = Some t"
    "\<And>x. step_id (f x) = step_id x" "code_edge t (f t)" "is_ok (nowIso now)"
  shows "\<exists>u q s'. sbind (assign_step oid sid f) (\<lambda>_. commit now oid) s = (Inr u, s') \<and>
    u = view_of q \<and> find_operation oid (memory s') = Some q \<and>
    op_steps q = update_first (\<lambda>x. step_id x = sid) f (op_steps p) \<and>
    (has_path s' \<longrightarrow> chain_ok s') \<and> writes s' = []"
proof -
  obtain tm where tm: "nowIso now = Inr tm" using assms(6) by (auto simp: is_ok_iff)
  let ?s = "s\<lparr>memory := change_operation oid (change_step sid f) (memory s)\<rparr>"
  have f: "find_operation oid (memory ?s) = Some (change_step sid f p)"
    using assms(2) by (simp add: find_operation_change)
  have "wf_operation p" using assms(1,2) wf_registry_find by (auto simp: healthy_def driven_def)
  then have "wf_operation (change_step sid f p)"
    using wf_change_step [where f = f and u = None, OF _ assms(3,5,4)] by (simp add: touch_def)
  with commit_ok [OF _ tm f] assms(1) obtain s' where
    "commit now oid ?s = (Inr (view_of (touch (Some tm) (change_step sid f p))), s')"
    "find_operation oid (memory s') = Some (touch (Some tm) (change_step sid f p))"
    "has_path s' \<longrightarrow> chain_ok s'" "writes s' = []"
    by (auto simp: healthy_def)
  then show ?thesis unfolding sbind_assign by (intro exI conjI) auto
qed

lemma beginStep_ok:
  assumes "healthy s" "find_operation oid (memory s) = Some p" "find_step sid (op_steps p) = Some t"
    "step_state t = Pending" "is_ok (nowIso now)"
  shows "\<exists>q s'. beginStep d now oid sid s = (Inr (view_of q), s') \<and> healthy s' \<and>
    find_operation oid (memory s') = Some q \<and>
    op_steps q = update_first (\<lambda>x. step_id x = sid) (\<lambda>s. s\<lparr>step_state := Applying, step_error := None\<rparr>) (op_steps p)"
proof -
  have l: "loaded s" and dr: "driven s" using assms(1) by (simp_all add: healthy_def driven_def)
  have e: "code_edge t (t\<lparr>step_state := Applying, step_error := None\<rparr>)"
    using assms(4) by (auto simp: code_edge_def step_edge_simps)
  have eq: "beginStep d now oid sid s = sbind (assign_step oid sid
      (\<lambda>s. s\<lparr>step_state := Applying, step_error := None\<rparr>)) (\<lambda>_. commit now oid) s"
    using assms(2-4) l by (simp add: beginStep_def with_step_loaded)
  obtain u q s' where u: "beginStep d now oid sid s = (Inr u, s')" "u = view_of q"
    "find_operation oid (memory s') = Some q"
    "op_steps q = update_first (\<lambda>x. step_id x = sid) (\<lambda>s. s\<lparr>step_state := Applying, step_error := None\<rparr>) (op_steps p)"
    "has_path s' \<longrightarrow> chain_ok s'" "writes s' = []"
    using assign_commit_ok [where f = "\<lambda>s. s\<lparr>step_state := Applying, step_error := None\<rparr>",
      OF assms(1-3) _ e assms(5)] unfolding eq by auto
  moreover have "driven s'" using keeps_result [OF driven_steps(1) dr u(1)] .
  ultimately show ?thesis unfolding healthy_def by blast
qed

lemma completeStep_ok:
  assumes "healthy s" "find_operation oid (memory s) = Some p" "find_step sid (op_steps p) = Some t"
    "step_state t = Applying" "is_object ev" "keys_of ev \<noteq> []" "is_ok (nowIso now)"
  shows "\<exists>q s'. completeStep d now oid sid ev s = (Inr (view_of q), s') \<and> healthy s' \<and>
    find_operation oid (memory s') = Some q \<and>
    op_steps q = update_first (\<lambda>x. step_id x = sid)
      (\<lambda>s. s\<lparr>step_evidence := Some (obj_of ev), step_state := Succeeded, step_error := None\<rparr>) (op_steps p)"
proof -
  let ?f = "\<lambda>s. s\<lparr>step_evidence := Some (obj_of ev), step_state := Succeeded, step_error := None\<rparr>"
  have l: "loaded s" and dr: "driven s" using assms(1) by (simp_all add: healthy_def driven_def)
  have e: "code_edge t (?f t)" using assms(4) by (auto simp: code_edge_def step_edge_simps)
  have ev: "requiredEvidence ev = Inr (obj_of ev)"
    using assms(5,6) by (cases "keys_of ev") (simp_all add: requiredEvidence_def)
  have eq: "completeStep d now oid sid ev s = sbind (assign_step oid sid ?f) (\<lambda>_. commit now oid) s"
    using assms(2-4) l ev by (simp add: completeStep_def with_step_loaded sbind_apply [of "slift _"])
  obtain u q s' where u: "completeStep d now oid sid ev s = (Inr u, s')" "u = view_of q"
    "find_operation oid (memory s') = Some q"
    "op_steps q = update_first (\<lambda>x. step_id x = sid) ?f (op_steps p)"
    "has_path s' \<longrightarrow> chain_ok s'" "writes s' = []"
    using assign_commit_ok [where f = ?f, OF assms(1-3) _ e assms(7)] unfolding eq by auto
  moreover have "driven s'" using keeps_result [OF driven_steps(2) dr u(1)] .
  ultimately show ?thesis unfolding healthy_def by blast
qed

end
