(* ===== verification/JobRegistry.thy ===== *)
theory JobRegistry
  imports JsClock FileStore
begin

text \<open>
  The queue of host jobs (\<open>apps/api/src/job-registry.js\<close>, \<open>createJobRegistry\<close>): jobs wait as queued,
  are claimed in order, complete or are cancelled, and the list of jobs is rewritten to a file at
  each change.

  Parameters: the SHA-256 digest of a request (\<open>crypto\<close>), the identifier \<open>randomUUID\<close> returns and the
  clock reading of the call; and, as functions the queue calls in other modules, the construction of
  the operation envelope, the sanitiser of a job's result and the public form of an error.

  The file is a JSON text. \<open>init\<close> checks its version and its array and takes the jobs as they are; the model
  reads them member by member. A job whose members are not of the types the registry writes cannot be held
  here: the model stops at it, so a file of another origin is outside the model.
\<close>

section \<open>Jobs\<close>

datatype job_status = JobQueued | JobRunning | JobSucceeded | JobFailed | JobCancelled

text \<open>A job only moves forward: queued, then running or cancelled, then one of the results.\<close>

instantiation job_status :: order
begin

definition less_eq_job_status :: "job_status \<Rightarrow> job_status \<Rightarrow> bool" where
  "less_eq_job_status a b = (a = b \<or> a = JobQueued \<or> a = JobRunning \<and> b \<in> {JobSucceeded, JobFailed})"

definition less_job_status :: "job_status \<Rightarrow> job_status \<Rightarrow> bool" where
  "less_job_status a b = (a \<le> b \<and> a \<noteq> (b :: job_status))"

instance
  by standard (auto simp: less_eq_job_status_def less_job_status_def)

end

record public_job =
  job_id :: string
  job_serverId :: string
  job_type :: string
  job_operation :: string
  job_payload :: js
  job_resourceType :: string
  job_resourceId :: string
  job_status :: job_status
  job_createdAt :: string
  job_startedAt :: "string option"
  job_finishedAt :: "string option"
  job_attempts :: nat
  job_result :: js
  job_error :: js

record job = public_job +
  job_key :: "string option"
  job_digest :: "string option"

type_synonym job_store = "(job list, js) file_store"

record job_deps =
  dep_digest :: "js \<Rightarrow> string"
  dep_envelope :: "string \<Rightarrow> string \<Rightarrow> js \<Rightarrow> js res"
  dep_sanitize :: "job \<Rightarrow> js \<Rightarrow> js res"
  dep_error :: "js \<Rightarrow> js"

definition job_error_of :: "string \<Rightarrow> string \<Rightarrow> jerr" where
  "job_error_of c msg = Err ''JobRegistryError'' (Some c) msg"

fun job_status_text :: "job_status \<Rightarrow> string" where
  "job_status_text JobQueued = ''queued''"
| "job_status_text JobRunning = ''running''"
| "job_status_text JobSucceeded = ''succeeded''"
| "job_status_text JobFailed = ''failed''"
| "job_status_text JobCancelled = ''cancelled''"

definition JOB_STATUSES :: "job_status list" where
  "JOB_STATUSES = [JobQueued, JobRunning, JobSucceeded, JobFailed, JobCancelled]"

definition job_status_of :: "string \<Rightarrow> job_status option" where
  "job_status_of t = find (\<lambda>s. job_status_text s = t) JOB_STATUSES"

lemma job_status_of_text [simp]: "job_status_of (job_status_text s) = Some s"
  by (cases s) (simp_all add: job_status_of_def JOB_STATUSES_def)

definition RESOURCE_TYPES :: "string list" where
  "RESOURCE_TYPES = [''domain'', ''server'', ''application'', ''certificate'', ''backup'', ''database'',
     ''dns_zone'', ''mail_domain'', ''system'', ''docker_project'', ''website_cron'']"

definition ASYNC_OPERATIONS :: "string list" where
  "ASYNC_OPERATIONS = [''domain.stage'', ''domain.activate'', ''ssl.issue'', ''ssl.renew'',
     ''app.static.deploy'', ''app.static.rollback'', ''app.node.deploy'', ''app.node.rollback'',
     ''app.node.restart'', ''app.node.status'', ''app.node.process'', ''app.node.passenger-migrate'',
     ''app.python.deploy'', ''app.python.rollback'', ''app.python.restart'', ''app.python.status'',
     ''system.node-runtimes.inspect'', ''system.node-runtime.install'', ''system.packages.inspect'',
     ''system.services.inspect'', ''system.service.install'', ''system.service.control'',
     ''system.upgrade'', ''database.inspect'', ''database.create'', ''database.delete'',
     ''database.backup'', ''database.restore'', ''database.credential.apply'',
     ''database.credential.delete'', ''dns.record.apply'', ''mail.config.apply'',
     ''mail.config.rollback'', ''mail.dkim.apply'', ''mail.data.backup'', ''mail.data.restore'',
     ''mail.data.delete'', ''roundcube.config.apply'', ''cron.apply'', ''cron.remove'',
     ''docker.compose.build'', ''docker.compose.pull'', ''docker.compose.start'',
     ''docker.compose.stop'', ''docker.compose.restart'']"

text \<open>\<open>/^[A-Za-z0-9._:-]{16,200}$/\<close>\<close>

definition is_key_char :: "char \<Rightarrow> bool" where
  "is_key_char c = (is_alnum c \<or> c = CHR ''.'' \<or> c = CHR ''_'' \<or> c = CHR '':'' \<or> c = CHR ''-'')"

definition is_idempotency_key :: "js \<Rightarrow> bool" where
  "is_idempotency_key v = (is_string v \<and> 16 \<le> length (str_of v) \<and> length (str_of v) \<le> 200 \<and>
     list_all is_key_char (str_of v))"

definition publicJob :: "job \<Rightarrow> public_job" where
  "publicJob j = public_job.truncate j"

section \<open>The file\<close>

definition null_or :: "string option \<Rightarrow> js" where
  "null_or t = (case t of None \<Rightarrow> JNull | Some s \<Rightarrow> JStr s)"

definition opt_of :: "js \<Rightarrow> string option" where
  "opt_of v = (if is_string v then Some (str_of v) else None)"

text \<open>The object of a job.\<close>

definition job_js :: "job \<Rightarrow> js" where
  "job_js j = JObj [(''id'', JStr (job_id j)), (''serverId'', JStr (job_serverId j)), (''type'', JStr (job_type j)),
     (''operation'', JStr (job_operation j)), (''payload'', job_payload j), (''resourceType'', JStr (job_resourceType j)),
     (''resourceId'', JStr (job_resourceId j)), (''status'', JStr (job_status_text (job_status j))),
     (''createdAt'', JStr (job_createdAt j)), (''startedAt'', null_or (job_startedAt j)),
     (''finishedAt'', null_or (job_finishedAt j)), (''attempts'', JInt (int (job_attempts j))), (''result'', job_result j),
     (''error'', job_error j), (''idempotencyKey'', null_or (job_key j)), (''idempotencyDigest'', null_or (job_digest j))]"

text \<open>\<open>JSON.stringify(state)\<close>\<close>

definition jobs_text :: "job list \<Rightarrow> js" where
  "jobs_text m = json_norm (JObj [(''version'', JInt 1), (''jobs'', JArr (map job_js m))])"

definition job_of :: "js \<Rightarrow> job" where
  "job_of v = \<lparr>job_id = str_of (jget v ''id''), job_serverId = str_of (jget v ''serverId''), job_type = str_of (jget v ''type''),
     job_operation = str_of (jget v ''operation''), job_payload = jget v ''payload'',
     job_resourceType = str_of (jget v ''resourceType''), job_resourceId = str_of (jget v ''resourceId''),
     job_status = the (job_status_of (str_of (jget v ''status''))), job_createdAt = str_of (jget v ''createdAt''),
     job_startedAt = opt_of (jget v ''startedAt''), job_finishedAt = opt_of (jget v ''finishedAt''),
     job_attempts = nat (int_of (jget v ''attempts'')), job_result = jget v ''result'', job_error = jget v ''error'',
     job_key = opt_of (jget v ''idempotencyKey''), job_digest = opt_of (jget v ''idempotencyDigest'')\<rparr>"

text \<open>The members have the types the registry writes.\<close>

definition null_or_string :: "js \<Rightarrow> bool" where
  "null_or_string v = (v = JNull \<or> is_string v)"

definition is_job :: "js \<Rightarrow> bool" where
  "is_job v = (list_all (\<lambda>k. is_string (jget v k)) [''id'', ''serverId'', ''type'', ''operation'', ''resourceType'',
       ''resourceId'', ''status'', ''createdAt''] \<and>
     job_status_of (str_of (jget v ''status'')) \<noteq> None \<and> is_integer (jget v ''attempts'') \<and> 0 \<le> int_of (jget v ''attempts'') \<and>
     list_all (\<lambda>k. null_or_string (jget v k)) [''startedAt'', ''finishedAt'', ''idempotencyKey'', ''idempotencyDigest''])"

definition read_jobs :: "js \<Rightarrow> job list res" where
  "read_jobs v =
     (if jget v ''version'' \<noteq> JInt 1 \<or> \<not> is_array (jget v ''jobs'')
      then Inl (Err ''Error'' None ''unsupported or invalid job registry state'')
      else if \<not> list_all is_job (arr_of (jget v ''jobs''))
      then Inl (Err ''Error'' None ''outside the model: a job of another origin'')
      else Inr (map job_of (arr_of (jget v ''jobs''))))"

text \<open>The jobs a file denotes: one that \<open>init\<close> refuses denotes none.\<close>

definition file_jobs :: "js disk_file \<Rightarrow> job list disk_file" where
  "file_jobs f = (case f of NoFile \<Rightarrow> NoFile | CorruptFile \<Rightarrow> CorruptFile
     | JsonFile v \<Rightarrow> (case read_jobs v of Inl _ \<Rightarrow> CorruptFile | Inr m \<Rightarrow> JsonFile m))"

text \<open>What JSON keeps of a job.\<close>

definition stored_job :: "job \<Rightarrow> job" where
  "stored_job j = j\<lparr>job_payload := json_norm (job_payload j), job_result := json_norm (job_result j),
     job_error := json_norm (job_error j)\<rparr>"

definition stored_jobs :: "job list \<Rightarrow> job list" where
  "stored_jobs js = map stored_job js"

abbreviation persist_jobs :: "(job_store, unit) sm" where
  "persist_jobs \<equiv> persist_chained jobs_text"

definition init_jobs :: "(job_store, unit) sm" where
  "init_jobs s =
     (if loaded s then (Inr (), s)
      else if \<not> has_path s then (Inr (), s\<lparr>loaded := True\<rparr>)
      else case disk s of
        NoFile \<Rightarrow> (Inr (), s\<lparr>loaded := True\<rparr>)
      | CorruptFile \<Rightarrow> (Inl (Err ''SyntaxError'' None ''''), s)
      | JsonFile v \<Rightarrow> (case read_jobs v of
          Inl e \<Rightarrow> (Inl e, s)
        | Inr jobs \<Rightarrow> (Inr (), s\<lparr>memory := jobs, loaded := True\<rparr>)))"

text \<open>
  A handler holds a reference to the job it found; the position stands for it, jobs being only
  appended.
\<close>

fun position :: "('a \<Rightarrow> bool) \<Rightarrow> 'a list \<Rightarrow> nat option" where
  "position p [] = None"
| "position p (x # xs) = (if p x then Some 0 else map_option Suc (position p xs))"

definition set_job :: "nat \<Rightarrow> (job \<Rightarrow> job) \<Rightarrow> (job_store, unit) sm" where
  "set_job i f = mod_mem (\<lambda>jobs. jobs[i := f (jobs ! i)])"

definition job_at :: "nat \<Rightarrow> (job_store, job) sm" where
  "job_at i = get_mem (\<lambda>jobs. jobs ! i)"

section \<open>Queueing\<close>

definition idempotencyDigest :: "job_deps \<Rightarrow> js \<Rightarrow> string" where
  "idempotencyDigest deps input = dep_digest deps (json_norm (JObj
     [(''serverId'', jget input ''serverId''), (''type'', jget input ''type''),
      (''operation'', jget input ''operation''), (''payload'', jget input ''payload''),
      (''resourceType'', jget input ''resourceType''), (''resourceId'', jget input ''resourceId'')]))"

definition key_of :: "js \<Rightarrow> js" where
  "key_of input = (if jget input ''idempotencyKey'' = JUndef then JNull else jget input ''idempotencyKey'')"

text \<open>The argument checks of \<open>enqueue\<close>, in their order.\<close>

definition check_enqueue :: "js \<Rightarrow> unit res" where
  "check_enqueue input =
     (if \<not> is_string (jget input ''serverId'') \<or> str_of (jget input ''serverId'') = []
      then Inl (job_error_of ''invalid_server'' ''serverId is required'')
      else if \<not> is_string (jget input ''type'') \<or> length (str_of (jget input ''type'')) < 1 \<or>
              length (str_of (jget input ''type'')) > 80
      then Inl (job_error_of ''invalid_job_type'' ''Job type is invalid'')
      else if \<not> str_in (jget input ''operation'') ASYNC_OPERATIONS
      then Inl (job_error_of ''invalid_operation'' ''Agent operation is not supported by the async queue'')
      else if \<not> is_object (jget input ''payload'')
      then Inl (job_error_of ''invalid_payload'' ''Job payload must be an object'')
      else if \<not> str_in (jget input ''resourceType'') RESOURCE_TYPES
      then Inl (job_error_of ''invalid_resource_type'' ''Job resource type is invalid'')
      else if \<not> is_string (jget input ''resourceId'') \<or> str_of (jget input ''resourceId'') = []
      then Inl (job_error_of ''invalid_resource_id'' ''Job resource id is required'')
      else if key_of input \<noteq> JNull \<and> \<not> is_idempotency_key (key_of input)
      then Inl (job_error_of ''invalid_idempotency_key'' ''Job idempotency key is invalid'')
      else Inr ())"

definition active :: "job \<Rightarrow> bool" where
  "active j = (job_status j = JobQueued \<or> job_status j = JobRunning)"

definition on_resource :: "string \<Rightarrow> string \<Rightarrow> job \<Rightarrow> bool" where
  "on_resource rt ri j = (job_resourceType j = rt \<and> job_resourceId j = ri)"

text \<open>\<open>{ ...payload, deploymentId: id }\<close> for the three deployments.\<close>

definition effective_payload :: "string \<Rightarrow> js \<Rightarrow> string \<Rightarrow> js" where
  "effective_payload operation payload jobId =
     (if operation \<in> {''app.static.deploy'', ''app.node.deploy'', ''app.python.deploy''}
      then JObj (obj_set (obj_of payload) ''deploymentId'' (JStr jobId)) else payload)"

definition new_job :: "js \<Rightarrow> string \<Rightarrow> js \<Rightarrow> string \<Rightarrow> string option \<Rightarrow> job" where
  "new_job input jobId payload timestamp digest =
     \<lparr>job_id = jobId, job_serverId = str_of (jget input ''serverId''), job_type = str_of (jget input ''type''),
      job_operation = str_of (jget input ''operation''), job_payload = payload,
      job_resourceType = str_of (jget input ''resourceType''), job_resourceId = str_of (jget input ''resourceId''),
      job_status = JobQueued, job_createdAt = timestamp, job_startedAt = None, job_finishedAt = None,
      job_attempts = 0, job_result = JNull, job_error = JNull,
      job_key = opt_of (key_of input), job_digest = digest\<rparr>"

text \<open>The result carries whether the job was created by this call.\<close>

definition enqueue :: "job_deps \<Rightarrow> int \<Rightarrow> string \<Rightarrow> js \<Rightarrow> (job_store, public_job \<times> bool) sm" where
  "enqueue deps now uuid input =
     sbind init_jobs (\<lambda>_.
     sbind (slift (check_enqueue input)) (\<lambda>_.
     let operation = str_of (jget input ''operation'');
         rt = str_of (jget input ''resourceType''); ri = str_of (jget input ''resourceId'');
         digest = (if key_of input = JNull then None else Some (idempotencyDigest deps input)) in
     sbind (get_mem (\<lambda>jobs. if key_of input = JNull then None
              else find (\<lambda>j. job_key j = Some (str_of (key_of input))) jobs)) (\<lambda>existing.
     case existing of
       Some j \<Rightarrow>
         if job_digest j \<noteq> digest
         then sthrow (job_error_of ''job_idempotency_conflict''
                ''Job idempotency key was already used for different work'')
         else sret (publicJob j, False)
     | None \<Rightarrow>
       sbind (get_mem (list_ex (\<lambda>j. on_resource rt ri j \<and> active j))) (\<lambda>busy.
       if busy
       then sthrow (job_error_of (rt @ ''_job_conflict'') (''A '' @ rt @ '' operation is already queued or running''))
       else
         let payload = effective_payload operation (jget input ''payload'') uuid in
         sbind (slift (case dep_envelope deps uuid operation payload of
                  Inl e \<Rightarrow> Inl (job_error_of ''invalid_operation_payload'' (err_msg e)) | Inr v \<Rightarrow> Inr v)) (\<lambda>_.
         sbind (slift (toISOString now)) (\<lambda>timestamp.
         let job = new_job input uuid payload timestamp digest in
         sbind (mod_mem (\<lambda>jobs. jobs @ [job])) (\<lambda>_.
         sbind persist_jobs (\<lambda>_. sret (publicJob job, True)))))))))"

definition findIdempotentJob :: "job_deps \<Rightarrow> js \<Rightarrow> (job_store, public_job option) sm" where
  "findIdempotentJob deps input =
     sbind init_jobs (\<lambda>_.
     if \<not> is_idempotency_key (jget input ''idempotencyKey'')
     then sthrow (job_error_of ''invalid_idempotency_key'' ''Job idempotency key is invalid'')
     else
       sbind (get_mem (find (\<lambda>j. job_key j = Some (str_of (jget input ''idempotencyKey''))))) (\<lambda>found.
       case found of None \<Rightarrow> sret None
       | Some j \<Rightarrow>
         if job_digest j \<noteq> Some (idempotencyDigest deps input)
         then sthrow (job_error_of ''job_idempotency_conflict''
                ''Job idempotency key was already used for different work'')
         else sret (Some (publicJob j))))"

section \<open>Running\<close>

definition claimNext :: "job_deps \<Rightarrow> int \<Rightarrow> string \<Rightarrow> (job_store, (public_job \<times> js) option) sm" where
  "claimNext deps now serverId =
     sbind init_jobs (\<lambda>_.
     sbind (get_mem (position (\<lambda>j. job_serverId j = serverId \<and> job_status j = JobQueued))) (\<lambda>found.
     case found of None \<Rightarrow> sret None
     | Some i \<Rightarrow>
       sbind (set_job i (\<lambda>j. j\<lparr>job_status := JobRunning\<rparr>)) (\<lambda>_.
       sbind (slift (toISOString now)) (\<lambda>t.
       sbind (set_job i (\<lambda>j. j\<lparr>job_startedAt := Some t, job_attempts := job_attempts j + 1\<rparr>)) (\<lambda>_.
       sbind persist_jobs (\<lambda>_.
       sbind (job_at i) (\<lambda>j.
       sbind (slift (dep_envelope deps (job_id j) (job_operation j) (job_payload j))) (\<lambda>envelope.
       sret (Some (publicJob j, envelope))))))))))"

text \<open>\<open>job.finishedAt = ...; await persist(); return publicJob(job);\<close>\<close>

definition finish_job :: "int \<Rightarrow> nat \<Rightarrow> (job_store, public_job) sm" where
  "finish_job now i =
     sbind (slift (toISOString now)) (\<lambda>t.
     sbind (set_job i (\<lambda>j. j\<lparr>job_finishedAt := Some t\<rparr>)) (\<lambda>_.
     sbind persist_jobs (\<lambda>_.
     sbind (job_at i) (\<lambda>j. sret (publicJob j)))))"

definition complete ::
  "job_deps \<Rightarrow> int \<Rightarrow> string \<Rightarrow> string \<Rightarrow> string \<Rightarrow> js \<Rightarrow> js \<Rightarrow> (job_store, public_job) sm" where
  "complete deps now serverId jobId status result error =
     sbind init_jobs (\<lambda>_.
     if status \<noteq> ''succeeded'' \<and> status \<noteq> ''failed''
     then sthrow (job_error_of ''invalid_completion_status'' ''Agent completion status must be succeeded or failed'')
     else
     sbind (get_mem (position (\<lambda>j. job_id j = jobId \<and> job_serverId j = serverId))) (\<lambda>found.
     case found of None \<Rightarrow> sthrow (job_error_of ''job_not_found'' ''Job not found'')
     | Some i \<Rightarrow>
       sbind (job_at i) (\<lambda>j.
       if job_status j = JobSucceeded \<or> job_status j = JobFailed
       then (if job_status_text (job_status j) = status then sret (publicJob j)
             else sthrow (job_error_of ''job_already_completed'' ''Job is already completed with a different status''))
       else if job_status j \<noteq> JobRunning
       then sthrow (job_error_of ''job_not_running'' ''Only running jobs may be completed'')
       else
         sbind (slift (if status = ''succeeded''
                  then dep_sanitize deps j (if result = JUndef then JNull else result) else Inr JNull)) (\<lambda>r.
         sbind (set_job i (\<lambda>j. j\<lparr>job_result := r,
                  job_error := (if status = ''failed'' then dep_error deps (if error = JUndef then JNull else error) else JNull),
                  job_status := (if status = ''succeeded'' then JobSucceeded else JobFailed)\<rparr>)) (\<lambda>_.
         finish_job now i)))))"

definition cancel :: "int \<Rightarrow> string \<Rightarrow> (job_store, public_job) sm" where
  "cancel now jobId =
     sbind init_jobs (\<lambda>_.
     sbind (get_mem (position (\<lambda>j. job_id j = jobId))) (\<lambda>found.
     case found of None \<Rightarrow> sthrow (job_error_of ''job_not_found'' ''Job not found'')
     | Some i \<Rightarrow>
       sbind (job_at i) (\<lambda>j.
       if job_status j \<noteq> JobQueued
       then sthrow (job_error_of ''job_not_cancellable'' ''Only queued jobs may be cancelled'')
       else
         sbind (set_job i (\<lambda>j. j\<lparr>job_status := JobCancelled\<rparr>)) (\<lambda>_.
         finish_job now i))))"

definition getJob :: "string \<Rightarrow> (job_store, public_job option) sm" where
  "getJob jobId =
     sbind init_jobs (\<lambda>_.
     sbind (get_mem (find (\<lambda>j. job_id j = jobId))) (\<lambda>found. sret (map_option publicJob found)))"

text \<open>A filter that is absent or empty selects everything.\<close>

definition unset :: "string option \<Rightarrow> bool" where
  "unset f = (f = None \<or> f = Some [])"

record job_filter =
  f_serverId :: "string option"
  f_resourceType :: "string option"
  f_resourceId :: "string option"
  f_status :: "string option"

definition selects :: "job_filter \<Rightarrow> job \<Rightarrow> bool" where
  "selects f j = ((unset (f_serverId f) \<or> f_serverId f = Some (job_serverId j)) \<and>
     (unset (f_resourceType f) \<or> f_resourceType f = Some (job_resourceType j)) \<and>
     (unset (f_resourceId f) \<or> f_resourceId f = Some (job_resourceId j)) \<and>
     (unset (f_status f) \<or> f_status f = Some (job_status_text (job_status j))))"

definition listJobs :: "job_filter \<Rightarrow> (job_store, public_job list) sm" where
  "listJobs f =
     sbind init_jobs (\<lambda>_.
     if \<not> unset (f_status f) \<and> job_status_of (the (f_status f)) = None
     then sthrow (job_error_of ''invalid_status'' ''Job status filter is invalid'')
     else get_mem (\<lambda>jobs. map publicJob (filter (selects f) jobs)))"

end
