(* ===== verification/JobProofs.thy ===== *)
theory JobProofs
  imports JobRegistry
begin

text \<open>
  The job queue: the effect of each handler on the list of jobs, the invariants of the list, and what
  has reached the file when a handler returns.
\<close>

section \<open>Positions\<close>

lemma position_SomeD:
  "position p xs = Some i \<Longrightarrow> i < length xs \<and> p (xs ! i) \<and> (\<forall>k < i. \<not> p (xs ! k))"
  by (induction xs arbitrary: i) (auto split: if_splits simp: nth_Cons split: nat.splits)

lemma position_NoneD: "position p xs = None \<Longrightarrow> x \<in> set xs \<Longrightarrow> \<not> p x"
  by (induction xs) (auto split: if_splits)

section \<open>Steps of the list of jobs\<close>

definition same_job :: "job \<Rightarrow> job \<Rightarrow> bool" where
  "same_job j k = (job_id k = job_id j \<and> job_serverId k = job_serverId j \<and> job_type k = job_type j \<and>
     job_operation k = job_operation j \<and> job_payload k = job_payload j \<and>
     job_resourceType k = job_resourceType j \<and> job_resourceId k = job_resourceId j \<and>
     job_createdAt k = job_createdAt j \<and> job_key k = job_key j \<and> job_digest k = job_digest j)"

text \<open>A job succeeds only with a result its sanitiser returned.\<close>

definition job_edge :: "job_deps \<Rightarrow> job \<Rightarrow> job \<Rightarrow> bool" where
  "job_edge deps j k = (same_job j k \<and>
     (job_status j = JobQueued \<and> job_status k = JobRunning \<or>
      job_status j = JobQueued \<and> job_status k = JobCancelled \<or>
      job_status j = JobRunning \<and> job_status k = JobFailed \<or>
      job_status j = JobRunning \<and> job_status k = JobSucceeded \<and> (\<exists>v. dep_sanitize deps j v = Inr (job_result k))))"

text \<open>A new job takes an idle resource and an unused key.\<close>

definition admits :: "job list \<Rightarrow> job \<Rightarrow> bool" where
  "admits m j = (job_status j = JobQueued \<and>
     list_all (\<lambda>x. \<not> (on_resource (job_resourceType j) (job_resourceId j) x \<and> active x)) m \<and>
     (job_key j \<noteq> None \<longrightarrow> list_all (\<lambda>x. job_key x \<noteq> job_key j) m))"

inductive jobs_step :: "job_deps \<Rightarrow> job list \<Rightarrow> job list \<Rightarrow> bool" for deps where
  unchanged: "jobs_step deps m m"
| appended: "admits m j \<Longrightarrow> jobs_step deps m (m @ [j])"
| moved: "i < length m \<Longrightarrow> job_edge deps (m ! i) j \<Longrightarrow> jobs_step deps m (m[i := j])"

inductive_cases jobs_stepE: "jobs_step deps m m'"

lemmas step_by_append = jobs_step.appended and step_by_move = jobs_step.moved

lemma set_job_apply [simp]: "set_job i f s = (Inr (), s\<lparr>memory := (memory s)[i := f (memory s ! i)]\<rparr>)"
  by (simp add: set_job_def)

lemma job_at_apply [simp]: "job_at i s = (Inr (memory s ! i), s)"
  by (simp add: job_at_def)

lemma init_jobs_loaded [simp]: "loaded s \<Longrightarrow> init_jobs s = (Inr (), s)"
  by (simp add: init_jobs_def)

lemma persist_jobs_memory: "persist_jobs s = (r, s') \<Longrightarrow> memory s' = memory s"
  by (metis persist_chained_memory snd_conv)

lemmas job_edge_simps = job_edge_def same_job_def

lemma enqueue_step:
  assumes "loaded s"
  shows "jobs_step deps (memory s) (memory (snd (enqueue deps now uuid input s)))"
proof -
  let ?m = "memory (snd (enqueue deps now uuid input s))"
  have "?m = memory s \<or> (\<exists>j. admits (memory s) j \<and> ?m = memory s @ [j])"
    using assms
    by (auto simp: enqueue_def sbind_apply Let_def admits_def new_job_def opt_of_def find_None_iff
        list_ex_iff list_all_iff check_enqueue_def is_idempotency_key_def active_def
        dest: persist_jobs_memory split: option.splits sum.splits prod.splits if_splits)
  then show ?thesis by (auto intro: jobs_step.intros)
qed

lemma move_at:
  "position p m = Some i \<Longrightarrow> job_edge deps (m ! i) j \<Longrightarrow> m' = m[i := j] \<Longrightarrow> jobs_step deps m m'"
  using position_SomeD by (auto intro: step_by_move)

lemma claimNext_step:
  assumes "loaded s"
  shows "jobs_step deps (memory s) (memory (snd (claimNext deps now sid s)))"
proof (cases "position (\<lambda>j. job_serverId j = sid \<and> job_status j = JobQueued) (memory s)")
  case None
  with assms show ?thesis by (simp add: claimNext_def sbind_apply jobs_step.unchanged)
next
  case (Some i)
  note p = position_SomeD [OF Some]
  show ?thesis
  proof (cases "toISOString now")
    case (Inl e)
    with assms Some have "memory (snd (claimNext deps now sid s))
        = (memory s)[i := (memory s ! i)\<lparr>job_status := JobRunning\<rparr>]"
      by (simp add: claimNext_def sbind_apply)
    with p show ?thesis by (intro move_at [OF Some]) (simp_all add: job_edge_simps)
  next
    case (Inr t)
    with assms Some p have "memory (snd (claimNext deps now sid s)) = (memory s)[i := (memory s ! i)
        \<lparr>job_status := JobRunning, job_startedAt := Some t, job_attempts := job_attempts (memory s ! i) + 1\<rparr>]"
      by (auto simp: claimNext_def sbind_apply dest: persist_jobs_memory split: prod.splits sum.splits)
    with p show ?thesis by (intro move_at [OF Some]) (simp_all add: job_edge_simps)
  qed
qed

text \<open>The end of a job, from the list with the job already moved.\<close>

lemma finish_memory:
  assumes "i < length (memory s)"
  shows "memory (snd (finish_job now i s)) = memory s \<or>
    (\<exists>t. memory (snd (finish_job now i s)) = (memory s)[i := (memory s ! i)\<lparr>job_finishedAt := t\<rparr>])"
proof (cases "toISOString now")
  case (Inl e)
  then show ?thesis by (simp add: finish_job_def sbind_apply)
next
  case (Inr t)
  then have "memory (snd (finish_job now i s)) = (memory s)[i := (memory s ! i)\<lparr>job_finishedAt := Some t\<rparr>]"
    by (auto simp: finish_job_def sbind_apply dest: persist_jobs_memory split: prod.splits sum.splits)
  then show ?thesis by blast
qed

lemma finish_step:
  assumes "i < length (memory s)" "job_edge deps (memory s ! i) j"
    "\<forall>t. job_edge deps (memory s ! i) (j\<lparr>job_finishedAt := t\<rparr>)"
  shows "jobs_step deps (memory s) (memory (snd (finish_job now i (s\<lparr>memory := (memory s)[i := j]\<rparr>))))"
  using finish_memory [of i "s\<lparr>memory := (memory s)[i := j]\<rparr>" now] assms
  by (auto simp: step_by_move)

lemma complete_step:
  assumes "loaded s"
  shows "jobs_step deps (memory s) (memory (snd (complete deps now sid jid st res er s)))"
proof (cases "position (\<lambda>j. job_id j = jid \<and> job_serverId j = sid) (memory s)")
  case None
  with assms show ?thesis by (simp add: complete_def sbind_apply jobs_step.unchanged)
next
  case (Some i)
  note p = position_SomeD [OF Some]
  show ?thesis
  proof (cases "(st = ''succeeded'' \<or> st = ''failed'') \<and> job_status (memory s ! i) = JobRunning")
    case False
    with assms Some show ?thesis by (auto simp: complete_def sbind_apply jobs_step.unchanged)
  next
    case True
    define r where "r = (if st = ''succeeded''
      then dep_sanitize deps (memory s ! i) (if res = JUndef then JNull else res) else Inr JNull)"
    show ?thesis
    proof (cases r)
      case (Inl e)
      with assms Some True show ?thesis
        by (simp add: complete_def sbind_apply jobs_step.unchanged r_def split: if_splits)
    next
      case (Inr v)
      let ?j = "(memory s ! i)\<lparr>job_result := v,
        job_error := (if st = ''failed'' then dep_error deps (if er = JUndef then JNull else er) else JNull),
        job_status := (if st = ''succeeded'' then JobSucceeded else JobFailed)\<rparr>"
      have edge: "job_edge deps (memory s ! i) ?j" "\<And>t. job_edge deps (memory s ! i) (?j\<lparr>job_finishedAt := t\<rparr>)"
        using True Inr by (auto simp: job_edge_simps r_def)
      have "complete deps now sid jid st res er s = finish_job now i (s\<lparr>memory := (memory s)[i := ?j]\<rparr>)"
        using assms Some True Inr by (auto simp: complete_def sbind_apply r_def)
      then show ?thesis using finish_step [OF _ edge(1)] p edge(2) by simp
    qed
  qed
qed

lemma cancel_step:
  assumes "loaded s"
  shows "jobs_step deps (memory s) (memory (snd (cancel now jid s)))"
proof (cases "position (\<lambda>j. job_id j = jid) (memory s)")
  case None
  with assms show ?thesis by (simp add: cancel_def sbind_apply jobs_step.unchanged)
next
  case (Some i)
  note p = position_SomeD [OF Some]
  show ?thesis
  proof (cases "job_status (memory s ! i) = JobQueued")
    case False
    with assms Some show ?thesis by (simp add: cancel_def sbind_apply jobs_step.unchanged)
  next
    case True
    have "cancel now jid s
        = finish_job now i (s\<lparr>memory := (memory s)[i := (memory s ! i)\<lparr>job_status := JobCancelled\<rparr>]\<rparr>)"
      using assms Some True by (simp add: cancel_def sbind_apply)
    then show ?thesis
      using finish_step [where i = i and s = s and j = "(memory s ! i)\<lparr>job_status := JobCancelled\<rparr>"] p True
      by (simp add: job_edge_simps)
  qed
qed

section \<open>Requests to the queue\<close>

text \<open>The reads return what they read; the answers are compared as lists of jobs.\<close>

datatype job_request =
    Enqueue int string js
  | FindIdempotent js
  | ClaimNext int string
  | CompleteJob int string string string js js
  | CancelJob int string
  | GetJob string
  | ListJobs job_filter

definition jobs_of :: "('a \<Rightarrow> public_job list) \<Rightarrow> (job_store, 'a) sm \<Rightarrow> (job_store, public_job list) sm" where
  "jobs_of f m = sbind m (\<lambda>v. sret (f v))"

fun handle_job :: "job_deps \<Rightarrow> job_request \<Rightarrow> (job_store, public_job list) sm" where
  "handle_job deps (Enqueue now uuid input) = jobs_of (\<lambda>(j, _). [j]) (enqueue deps now uuid input)"
| "handle_job deps (FindIdempotent input) =
     jobs_of (\<lambda>v. case v of None \<Rightarrow> [] | Some j \<Rightarrow> [j]) (findIdempotentJob deps input)"
| "handle_job deps (ClaimNext now sid) =
     jobs_of (\<lambda>v. case v of None \<Rightarrow> [] | Some (j, _) \<Rightarrow> [j]) (claimNext deps now sid)"
| "handle_job deps (CompleteJob now sid jid st res er) = jobs_of (\<lambda>j. [j]) (complete deps now sid jid st res er)"
| "handle_job deps (CancelJob now jid) = jobs_of (\<lambda>j. [j]) (cancel now jid)"
| "handle_job deps (GetJob jid) = jobs_of (\<lambda>v. case v of None \<Rightarrow> [] | Some j \<Rightarrow> [j]) (getJob jid)"
| "handle_job deps (ListJobs f) = listJobs f"

definition run_jobs :: "job_deps \<Rightarrow> job_request list \<Rightarrow> job_store \<Rightarrow> job_store" where
  "run_jobs deps rs s = foldl (\<lambda>t r. snd (handle_job deps r t)) s rs"

lemma run_jobs_simps [simp]:
  "run_jobs deps [] s = s" "run_jobs deps (r # rs) s = run_jobs deps rs (snd (handle_job deps r s))"
  by (simp_all add: run_jobs_def)

lemma run_jobs_keeps: "(\<And>r. keeps I (handle_job deps r)) \<Longrightarrow> I s \<Longrightarrow> I (run_jobs deps rs s)"
  by (induction rs arbitrary: s) (auto simp: keeps_def)

text \<open>\<open>createJobRegistry({ filePath })\<close> on a disk with this file.\<close>

definition createJobRegistry :: "js disk_file option \<Rightarrow> bool list \<Rightarrow> job_store" where
  "createJobRegistry f ws = \<lparr>memory = [], disk = (case f of None \<Rightarrow> NoFile | Some d \<Rightarrow> d),
     has_path = (f \<noteq> None), loaded = False, chain_ok = True, writes = ws\<rparr>"

lemma snd_jobs_of [simp]: "snd (jobs_of f m s) = snd (m s)"
  by (simp add: jobs_of_def sbind_apply split: prod.splits sum.splits)

lemma handle_job_step:
  assumes "loaded s"
  shows "jobs_step deps (memory s) (memory (snd (handle_job deps r s)))"
proof (cases r)
  case (Enqueue now uuid input)
  then show ?thesis using enqueue_step [OF assms] by simp
next
  case (ClaimNext now sid)
  then show ?thesis using claimNext_step [OF assms] by simp
next
  case (CompleteJob now sid jid st res er)
  then show ?thesis using complete_step [OF assms] by simp
next
  case (CancelJob now jid)
  then show ?thesis using cancel_step [OF assms] by simp
qed (use assms in \<open>auto simp: findIdempotentJob_def getJob_def listJobs_def sbind_apply jobs_step.unchanged
       split: option.splits\<close>)

section \<open>Invariants\<close>

text \<open>At most one queued or running job per resource, and no idempotency key twice.\<close>

definition exclusive :: "job list \<Rightarrow> bool" where
  "exclusive m \<longleftrightarrow> (\<forall>k < length m. \<forall>i < k.
     \<not> (active (m ! i) \<and> active (m ! k) \<and> job_resourceType (m ! i) = job_resourceType (m ! k) \<and>
        job_resourceId (m ! i) = job_resourceId (m ! k)) \<and>
     (job_key (m ! k) \<noteq> None \<longrightarrow> job_key (m ! i) \<noteq> job_key (m ! k)))"

lemma job_edge_active: "job_edge deps j k \<Longrightarrow> active k \<Longrightarrow> active j"
  by (auto simp: job_edge_def active_def)

lemma exclusive_step: "jobs_step deps m m' \<Longrightarrow> exclusive m \<Longrightarrow> exclusive m'"
proof (induction rule: jobs_step.induct)
  case (appended m j)
  then show ?case
    by (auto simp: exclusive_def admits_def nth_append on_resource_def list_all_length less_Suc_eq)
next
  case (moved i m j)
  have s: "job_resourceType j = job_resourceType (m ! i)" "job_resourceId j = job_resourceId (m ! i)"
    "job_key j = job_key (m ! i)" "active j \<Longrightarrow> active (m ! i)"
    using moved(2) job_edge_active by (auto simp: job_edge_def same_job_def)
  show ?case
    unfolding exclusive_def
  proof (intro allI impI)
    fix k l
    assume kl: "k < length (m[i := j])" "l < k"
    have e: "\<not> (active (m ! l) \<and> active (m ! k) \<and> job_resourceType (m ! l) = job_resourceType (m ! k) \<and>
        job_resourceId (m ! l) = job_resourceId (m ! k)) \<and>
       (job_key (m ! k) \<noteq> None \<longrightarrow> job_key (m ! l) \<noteq> job_key (m ! k))"
      using moved(3) kl by (auto simp: exclusive_def)
    show "\<not> (active (m[i := j] ! l) \<and> active (m[i := j] ! k) \<and>
        job_resourceType (m[i := j] ! l) = job_resourceType (m[i := j] ! k) \<and>
        job_resourceId (m[i := j] ! l) = job_resourceId (m[i := j] ! k)) \<and>
       (job_key (m[i := j] ! k) \<noteq> None \<longrightarrow> job_key (m[i := j] ! l) \<noteq> job_key (m[i := j] ! k))"
      using e s kl moved(1) by (cases "k = i"; cases "l = i") (auto simp: nth_list_update)
  qed
qed simp

lemma stored_job_simps [simp]:
  "job_id (stored_job j) = job_id j" "job_status (stored_job j) = job_status j"
  "job_resourceType (stored_job j) = job_resourceType j" "job_resourceId (stored_job j) = job_resourceId j"
  "job_key (stored_job j) = job_key j" "job_serverId (stored_job j) = job_serverId j"
  "active (stored_job j) = active j"
  by (simp_all add: stored_job_def active_def)

lemma exclusive_stored: "exclusive m \<Longrightarrow> exclusive (stored_jobs m)"
  by (simp add: exclusive_def stored_jobs_def)

text \<open>A job is read back as JSON keeps it.\<close>

lemma distinct_job_keys: "distinct (keys_of (job_js j))"
  by (simp add: job_js_def)

lemma job_js_member: "jget (json_norm (job_js j)) k = json_norm (jget (job_js j) k)"
  using json_norm_get [of "obj_of (job_js j)" k] distinct_job_keys [of j] by (simp add: job_js_def)

lemma opt_of_null_or [simp]: "opt_of (json_norm (null_or t)) = t" "null_or_string (json_norm (null_or t))"
  by (simp_all add: opt_of_def null_or_def null_or_string_def split: option.split)

lemma job_of_js [simp]: "job_of (json_norm (job_js j)) = stored_job j"
  by (simp add: job_of_def job_js_member) (simp add: job_js_def stored_job_def)

lemma is_job_js [simp]: "is_job (json_norm (job_js j))"
  by (simp add: is_job_def job_js_member) (simp add: job_js_def)

lemma job_js_norm_not_undef [simp]: "job_js j \<noteq> JUndef"
  by (simp add: job_js_def)

lemma read_jobs_text [simp]: "read_jobs (jobs_text m) = Inr (stored_jobs m)"
  by (simp add: read_jobs_def jobs_text_def stored_jobs_def list_all_iff)

lemma file_jobs_text [simp]: "file_jobs (JsonFile (jobs_text m)) = JsonFile (stored_jobs m)"
  by (simp add: file_jobs_def)

lemma file_jobs_empty [simp]: "file_jobs NoFile = NoFile" "file_jobs CorruptFile = CorruptFile"
  by (simp_all add: file_jobs_def)

lemma read_file_jobs: "read_jobs v = Inr m \<Longrightarrow> file_jobs (JsonFile v) = JsonFile m"
  by (simp add: file_jobs_def)

lemma file_jobs_JsonFile: "file_jobs f = JsonFile m \<longleftrightarrow> (\<exists>v. f = JsonFile v \<and> read_jobs v = Inr m)"
  by (auto simp: file_jobs_def split: disk_file.splits sum.splits)

text \<open>A fact about the jobs in memory and the jobs on disk.\<close>

definition in_store :: "(job list \<Rightarrow> bool) \<Rightarrow> job_store \<Rightarrow> bool" where
  "in_store P s = (P (memory s) \<and> (\<forall>m. file_jobs (disk s) = JsonFile m \<longrightarrow> P m))"

text \<open>Nothing but the list in memory is ever written, in its JSON form.\<close>

definition writes_memory :: "(job_store, 'a) sm \<Rightarrow> bool" where
  "writes_memory m \<longleftrightarrow> (\<forall>s. disk (snd (m s)) = disk s \<or> disk (snd (m s)) = JsonFile (jobs_text (memory (snd (m s)))))"

lemma wm_pure: "(\<And>s. snd (m s) = s) \<Longrightarrow> writes_memory m"
  by (simp add: writes_memory_def)

lemma wm_disk_same: "(\<And>s. disk (snd (m s)) = disk s) \<Longrightarrow> writes_memory m"
  by (simp add: writes_memory_def)

lemma wm_bind_quiet:
  assumes "\<And>s. disk (snd (m s)) = disk s" "\<And>x. writes_memory (k x)"
  shows "writes_memory (sbind m k)"
  unfolding writes_memory_def
proof
  fix s
  have d: "disk (snd (m s)) = disk s" by (rule assms(1))
  show "disk (snd (sbind m k s)) = disk s \<or> disk (snd (sbind m k s)) = JsonFile (jobs_text (memory (snd (sbind m k s))))"
  proof (cases "m s")
    case (Pair r s')
    show ?thesis
    proof (cases r)
      case (Inr x)
      have "disk (snd (k x s')) = disk s' \<or> disk (snd (k x s')) = JsonFile (jobs_text (memory (snd (k x s'))))"
        using assms(2) by (simp add: writes_memory_def)
      with d Pair Inr show ?thesis by (simp add: sbind_apply)
    qed (use d Pair in \<open>simp add: sbind_apply\<close>)
  qed
qed

lemma persist_jobs_disk:
  "persist_jobs s = (r, s') \<Longrightarrow> disk s' = disk s \<or> disk s' = JsonFile (jobs_text (memory s'))"
  by (auto simp: persist_chained_def write_file_def split: if_splits)

lemma wm_persist:
  assumes "\<And>x s. snd (k x s) = s"
  shows "writes_memory (sbind persist_jobs k)"
  unfolding writes_memory_def
proof
  fix s
  show "disk (snd (sbind persist_jobs k s)) = disk s \<or>
    disk (snd (sbind persist_jobs k s)) = JsonFile (jobs_text (memory (snd (sbind persist_jobs k s))))"
  proof (cases "persist_jobs s")
    case (Pair r s')
    with persist_jobs_disk [OF Pair] assms show ?thesis by (cases r) (auto simp: sbind_apply)
  qed
qed

lemma init_jobs_disk [simp]: "disk (snd (init_jobs s)) = disk s"
  by (simp add: init_jobs_def split: disk_file.splits sum.splits)

lemma wm_if: "(c \<Longrightarrow> writes_memory m) \<Longrightarrow> (\<not> c \<Longrightarrow> writes_memory n) \<Longrightarrow> writes_memory (if c then m else n)"
  by simp

lemma wm_option:
  "(x = None \<Longrightarrow> writes_memory m) \<Longrightarrow> (\<And>y. x = Some y \<Longrightarrow> writes_memory (f y)) \<Longrightarrow>
   writes_memory (case x of None \<Rightarrow> m | Some y \<Rightarrow> f y)"
  by (cases x) simp_all

lemma wm_then: "writes_memory m \<Longrightarrow> (\<And>x s. snd (k x s) = s) \<Longrightarrow> writes_memory (sbind m k)"
proof -
  assume m: "writes_memory m" and k: "\<And>x s. snd (k x s) = s"
  have "snd (sbind m k s) = snd (m s)" for s
    using k by (simp add: sbind_apply split: prod.splits sum.splits)
  with m show ?thesis by (simp add: writes_memory_def)
qed

lemma wm_sret: "writes_memory (sret x)" and wm_sthrow: "writes_memory (sthrow e)"
  and wm_get: "writes_memory (get_mem f)"
  by (simp_all add: wm_pure)

text \<open>After the persist a handler only reads.\<close>

lemma pure_reads [simp]:
  "snd (sbind (job_at i) (\<lambda>j. sret (f j)) s) = s"
  "snd (sbind (job_at i) (\<lambda>j. sbind (slift (g j)) (\<lambda>e. sret (h j e))) s) = s"
  by (simp_all add: sbind_apply split: sum.splits)

lemmas wm_rules = wm_option wm_if wm_sret wm_sthrow wm_get

lemma wm_enqueue: "writes_memory (enqueue deps now uuid input)"
  unfolding enqueue_def Let_def by (intro wm_persist wm_bind_quiet wm_rules; simp)

lemma wm_claimNext: "writes_memory (claimNext deps now sid)"
  unfolding claimNext_def by (intro wm_persist wm_bind_quiet wm_rules; simp)

lemma wm_finish: "writes_memory (finish_job now i)"
  unfolding finish_job_def by (intro wm_persist wm_bind_quiet wm_rules; simp)

lemma wm_complete: "writes_memory (complete deps now sid jid st res er)"
  unfolding complete_def by (intro wm_finish wm_bind_quiet wm_rules; simp)

lemma wm_cancel: "writes_memory (cancel now jid)"
  unfolding cancel_def by (intro wm_finish wm_bind_quiet wm_rules; simp)

lemma wm_reads: "writes_memory (findIdempotentJob deps input)" "writes_memory (getJob jid)"
  "writes_memory (listJobs f)"
  unfolding findIdempotentJob_def getJob_def listJobs_def by (intro wm_bind_quiet wm_rules; simp)+

lemma wm_handle: "writes_memory (handle_job deps r)"
  by (cases r) (auto simp: jobs_of_def intro!: wm_then wm_enqueue wm_claimNext wm_complete wm_cancel wm_reads)

text \<open>Every handler starts with \<open>await ensureInitialized()\<close>.\<close>

lemma init_jobs_returns: "init_jobs s = (Inr u, s') \<Longrightarrow> loaded s'"
  by (auto simp: init_jobs_def split: if_splits disk_file.splits sum.splits)

lemma settles_init_jobs: "settles init_jobs"
  using init_jobs_returns by (fastforce simp: settles_def)

lemma begins_with_handle_job: "begins_with init_jobs (handle_job deps r)"
  by (cases r) (simp_all add: jobs_of_def enqueue_def findIdempotentJob_def claimNext_def complete_def
      cancel_def getJob_def listJobs_def begins_with_then begins_with_bind [OF settles_init_jobs])

lemma keeps_in_store:
  assumes "\<And>m m'. jobs_step deps m m' \<Longrightarrow> P m \<Longrightarrow> P m'" "\<And>m. P m \<Longrightarrow> P (stored_jobs m)"
  shows "keeps (in_store P) (handle_job deps r)"
proof (rule keeps_begins_with [OF begins_with_handle_job])
  show "keeps (in_store P) init_jobs"
    by (auto simp: keeps_def in_store_def init_jobs_def read_file_jobs split: disk_file.splits sum.splits)
next
  fix s0 u s
  assume i: "init_jobs s0 = (Inr u, s)" and s: "in_store P s"
  have "P (memory (snd (handle_job deps r s)))"
    using assms(1) [OF handle_job_step [OF init_jobs_returns [OF i]]] s by (simp add: in_store_def)
  moreover have "disk (snd (handle_job deps r s)) = disk s \<or>
      disk (snd (handle_job deps r s)) = JsonFile (jobs_text (memory (snd (handle_job deps r s))))"
    using wm_handle by (simp add: writes_memory_def)
  ultimately show "in_store P (snd (handle_job deps r s))"
    using s assms(2) by (auto simp: in_store_def)
qed

text \<open>What loading, assignments and writes keep, every handler keeps.\<close>

lemma handle_job_keeps:
  assumes p: "keeps I persist_jobs" and i: "keeps I init_jobs" and m: "\<And>f. keeps I (mod_mem f)"
  shows "keeps I (handle_job deps r)"
proof -
  have s: "keeps I (set_job k g)" and j: "keeps I (job_at k)" for g k
    using m by (simp_all add: set_job_def keeps_def)
  show ?thesis
    by (cases r)
      (simp_all only: handle_job.simps jobs_of_def enqueue_def findIdempotentJob_def claimNext_def
         complete_def cancel_def getJob_def listJobs_def finish_job_def Let_def,
       (intro p i m s j keeps_rules)+)
qed

lemma handle_job_loaded: "keeps loaded (handle_job deps r)"
  by (rule handle_job_keeps) (simp_all add: keeps_def persist_chained_def write_file_def)

lemma handle_job_path: "keeps has_path (handle_job deps r)"
  by (rule handle_job_keeps)
    (simp_all add: keeps_def persist_chained_def write_file_def init_jobs_def split: disk_file.splits sum.splits)

section \<open>The history of a job\<close>

text \<open>Jobs are never removed, a job keeps its identity, and its status only moves forward.\<close>

definition job_history :: "job \<Rightarrow> job \<Rightarrow> bool" where
  "job_history j k = (same_job j k \<and> job_status j \<le> job_status k \<and> (active j \<or> k = j))"

lemma job_history_refl: "job_history j j"
  by (simp add: job_history_def same_job_def)

lemma job_history_trans: "job_history j k \<Longrightarrow> job_history k l \<Longrightarrow> job_history j l"
  by (auto simp: job_history_def same_job_def dest: order_trans)

lemma job_edge_history: "job_edge deps j k \<Longrightarrow> job_history j k"
  by (auto simp: job_edge_def job_history_def less_eq_job_status_def active_def)

lemma jobs_step_history:
  "jobs_step deps m m' \<Longrightarrow> i < length m \<Longrightarrow> i < length m' \<and> job_history (m ! i) (m' ! i)"
  by (induction rule: jobs_step.induct)
    (auto simp: job_history_refl nth_append nth_list_update job_edge_history)

lemma run_history:
  "loaded s \<Longrightarrow> i < length (memory s) \<Longrightarrow>
   i < length (memory (run_jobs deps rs s)) \<and> job_history (memory s ! i) (memory (run_jobs deps rs s) ! i)"
proof (induction rs arbitrary: s)
  case (Cons r rs)
  let ?t = "snd (handle_job deps r s)"
  have "loaded ?t" using keepsD [OF handle_job_loaded Cons.prems(1)] .
  moreover have h: "i < length (memory ?t)" "job_history (memory s ! i) (memory ?t ! i)"
    using jobs_step_history [OF handle_job_step [OF Cons.prems(1)] Cons.prems(2)] by auto
  ultimately have "i < length (memory (run_jobs deps rs ?t))"
    "job_history (memory ?t ! i) (memory (run_jobs deps rs ?t) ! i)" using Cons.IH by auto
  then show ?case using job_history_trans [OF h(2)] by simp
qed (simp add: job_history_refl)

section \<open>What has reached the file\<close>

definition jobs_saved :: "job_store \<Rightarrow> bool" where
  "jobs_saved s = (has_path s \<longrightarrow> chain_ok s \<and> disk s = JsonFile (jobs_text (memory s)))"

lemma persist_jobs_saved: "persist_jobs s = (Inr u, s') \<Longrightarrow> jobs_saved s'"
  by (auto simp: jobs_saved_def dest: persist_chained_ok split: if_splits)

lemma persist_jobs_ok: "persist_jobs s = (Inr u, s') \<Longrightarrow> memory s' = memory s \<and> jobs_saved s'"
  using persist_jobs_saved persist_jobs_memory by blast

lemma finish_returns:
  "finish_job now i s = (Inr v, s') \<Longrightarrow> i < length (memory s) \<Longrightarrow>
   jobs_saved s' \<and> (\<exists>t. memory s' = (memory s)[i := (memory s ! i)\<lparr>job_finishedAt := Some t\<rparr>]) \<and>
   v = publicJob (memory s' ! i)"
  by (auto simp: finish_job_def sbind_apply dest!: persist_jobs_ok split: prod.splits sum.splits)

section \<open>The queue of a server\<close>

text \<open>The abstract queue: the identifiers of a server's queued jobs, oldest first.\<close>

definition queued_for :: "string \<Rightarrow> job \<Rightarrow> bool" where
  "queued_for sid j = (job_serverId j = sid \<and> job_status j = JobQueued)"

definition pending :: "string \<Rightarrow> job list \<Rightarrow> string list" where
  "pending sid m = map job_id (filter (queued_for sid) m)"

lemma filter_list_update_drop:
  "position p m = Some i \<Longrightarrow> \<not> p j \<Longrightarrow> filter p (m[i := j]) = tl (filter p m)"
  by (induction m arbitrary: i) (auto split: if_splits)

lemma filter_position: "position p m = Some i \<Longrightarrow> filter p m = (m ! i) # tl (filter p m)"
  by (induction m arbitrary: i) (auto split: if_splits)

lemma filter_list_update_keep:
  "i < length m \<Longrightarrow> \<not> p (m ! i) \<Longrightarrow> \<not> p j \<Longrightarrow> filter p (m[i := j]) = filter p m"
  by (induction m arbitrary: i) (auto split: nat.splits if_splits)

lemma claimNext_loaded:
  assumes "loaded s" "claimNext deps now sid s = (Inr (Some (j, env)), s')"
  shows "\<exists>i t. position (queued_for sid) (memory s) = Some i \<and>
    memory s' = (memory s)[i := (memory s ! i)\<lparr>job_status := JobRunning, job_startedAt := Some t,
      job_attempts := job_attempts (memory s ! i) + 1\<rparr>] \<and>
    j = publicJob (memory s' ! i) \<and> jobs_saved s' \<and>
    dep_envelope deps (job_id j) (job_operation j) (job_payload j) = Inr env"
proof -
  have q: "(\<lambda>j. job_serverId j = sid \<and> job_status j = JobQueued) = queued_for sid"
    by (simp add: queued_for_def [abs_def])
  obtain i where i: "position (queued_for sid) (memory s) = Some i"
    using assms by (cases "position (queued_for sid) (memory s)") (simp_all add: claimNext_def sbind_apply q)
  note p = position_SomeD [OF i]
  from assms i p show ?thesis
    by (auto simp: claimNext_def sbind_apply q publicJob_def public_job.truncate_def
        dest!: persist_jobs_ok split: prod.splits sum.splits)
qed

end
