(* ===== verification/JobRecovery.thy ===== *)
theory JobRecovery
  imports JsClock FileStore
begin

text \<open>
  The record of jobs that were running when the panel stopped
  (\<open>apps/api/src/job-recovery-store.js\<close>). Unlike the registries, this store keeps in memory only what
  has been written, and a failed write does not end its chain of mutations. \<open>date_ok\<close> is
  \<open>Number.isFinite(Date.parse(...))\<close>.
\<close>

section \<open>State\<close>

record identity =
  id_job :: string
  id_server :: string

record recovery_state =
  rs_detectedAt :: "string option"
  rs_jobs :: "identity list"

type_synonym recovery_store = "(recovery_state, js) file_store"

definition recovery_error :: "string \<Rightarrow> string \<Rightarrow> jerr" where
  "recovery_error c msg = Err ''JobRecoveryStoreError'' (Some c) msg"

definition emptyState :: recovery_state where
  "emptyState = \<lparr>rs_detectedAt = None, rs_jobs = []\<rparr>"

text \<open>\<open>/^[A-Za-z0-9._:-]{8,128}$/\<close> and \<open>/^[A-Za-z0-9._:-]{1,128}$/\<close>\<close>

definition is_id_char :: "char \<Rightarrow> bool" where
  "is_id_char c = (is_alnum c \<or> c = CHR ''.'' \<or> c = CHR ''_'' \<or> c = CHR '':'' \<or> c = CHR ''-'')"

definition is_job_id :: "string \<Rightarrow> bool" where
  "is_job_id t = (8 \<le> length t \<and> length t \<le> 128 \<and> list_all is_id_char t)"

definition is_server_id :: "string \<Rightarrow> bool" where
  "is_server_id t = (1 \<le> length t \<and> length t \<le> 128 \<and> list_all is_id_char t)"

definition normalizeJob :: "js \<Rightarrow> identity res" where
  "normalizeJob v =
     (if \<not> is_object v
      then Inl (recovery_error ''invalid_job_recovery_record'' ''Job recovery record is invalid'')
      else if \<not> (is_string (jget v ''jobId'') \<and> is_job_id (str_of (jget v ''jobId''))) \<or>
              \<not> (is_string (jget v ''serverId'') \<and> is_server_id (str_of (jget v ''serverId''))) \<or>
              extra_keys v [''jobId'', ''serverId'']
      then Inl (recovery_error ''invalid_job_recovery_record'' ''Job recovery record is invalid'')
      else Inr \<lparr>id_job = str_of (jget v ''jobId''), id_server = str_of (jget v ''serverId'')\<rparr>)"

definition identityKey :: "identity \<Rightarrow> string" where
  "identityKey i = id_server i @ '':'' @ id_job i"

definition identity_js :: "identity \<Rightarrow> js" where
  "identity_js i = JObj [(''jobId'', JStr (id_job i)), (''serverId'', JStr (id_server i))]"

definition recovery_js :: "recovery_state \<Rightarrow> js" where
  "recovery_js r = JObj [(''version'', JInt 1),
     (''detectedAt'', case rs_detectedAt r of None \<Rightarrow> JNull | Some t \<Rightarrow> JStr t),
     (''jobs'', JArr (map identity_js (rs_jobs r)))]"

definition normalizeState :: "(string \<Rightarrow> bool) \<Rightarrow> js \<Rightarrow> recovery_state res" where
  "normalizeState date_ok v =
     (if \<not> is_object v \<or> jget v ''version'' \<noteq> JInt 1 \<or> \<not> is_array (jget v ''jobs'')
      then Inl (recovery_error ''invalid_job_recovery_store'' ''Job recovery store is invalid'')
      else
        bnd (map_res normalizeJob (arr_of (jget v ''jobs''))) (\<lambda>jobs.
        if \<not> distinct (map identityKey jobs)
        then Inl (recovery_error ''invalid_job_recovery_store'' ''Job recovery store contains duplicate jobs'')
        else
          let detectedAt = (if is_string (jget v ''detectedAt'') \<and> date_ok (str_of (jget v ''detectedAt''))
                            then Some (str_of (jget v ''detectedAt'')) else None) in
          if length (arr_of (jget v ''jobs'')) > 0 \<and> (detectedAt = None \<or> detectedAt = Some [])
          then Inl (recovery_error ''invalid_job_recovery_store'' ''Job recovery store timestamp is invalid'')
          else if length (arr_of (jget v ''jobs'')) = 0 \<and> jget v ''detectedAt'' \<noteq> JNull
          then Inl (recovery_error ''invalid_job_recovery_store'' ''Empty job recovery store must not retain a timestamp'')
          else if extra_keys v [''version'', ''detectedAt'', ''jobs'']
          then Inl (recovery_error ''invalid_job_recovery_store'' ''Job recovery store contains unsupported fields'')
          else Inr \<lparr>rs_detectedAt = detectedAt, rs_jobs = jobs\<rparr>))"

section \<open>Reading and writing\<close>

definition createJobRecoveryStore :: "js disk_file \<Rightarrow> bool list \<Rightarrow> recovery_store" where
  "createJobRecoveryStore f ws = \<lparr>memory = emptyState, disk = f, has_path = True, loaded = False,
     chain_ok = True, writes = ws\<rparr>"

definition init_recovery :: "(string \<Rightarrow> bool) \<Rightarrow> (recovery_store, unit) sm" where
  "init_recovery date_ok s =
     (if loaded s then (Inr (), s)
      else case disk s of
        NoFile \<Rightarrow> (Inr (), s\<lparr>loaded := True\<rparr>)
      | CorruptFile \<Rightarrow>
          (Inl (recovery_error ''job_recovery_store_read_failed'' ''Job recovery store could not be read''), s)
      | JsonFile v \<Rightarrow> (case normalizeState date_ok v of
            Inl e \<Rightarrow> (Inl e, s)
          | Inr r \<Rightarrow> (Inr (), s\<lparr>memory := r, loaded := True\<rparr>)))"

text \<open>The memory follows the file: it changes once the write has succeeded.\<close>

definition persist_recovery :: "recovery_state \<Rightarrow> (recovery_store, unit) sm" where
  "persist_recovery r =
     sbind (write_file (json_norm (recovery_js r))) (\<lambda>_. mod_mem (\<lambda>_. r))"

definition recovery_snapshot :: "(recovery_store, recovery_state) sm" where
  "recovery_snapshot = get_mem (\<lambda>r. r)"

text \<open>A transform that returns the current state itself (\<open>None\<close>) writes nothing.\<close>

definition queueMutation ::
  "(string \<Rightarrow> bool) \<Rightarrow> (recovery_state \<Rightarrow> recovery_state option res) \<Rightarrow> (recovery_store, recovery_state) sm" where
  "queueMutation date_ok transform =
     sbind (init_recovery date_ok) (\<lambda>_.
     sbind (get_mem transform) (\<lambda>next.
     sbind (slift next) (\<lambda>n. case n of
       None \<Rightarrow> recovery_snapshot
     | Some r \<Rightarrow> sbind (persist_recovery r) (\<lambda>_. recovery_snapshot))))"

section \<open>Operations\<close>

definition replace :: "(string \<Rightarrow> bool) \<Rightarrow> int \<Rightarrow> js \<Rightarrow> (recovery_store, recovery_state) sm" where
  "replace date_ok now jobs =
     (if \<not> is_array jobs
      then sthrow (recovery_error ''invalid_job_recovery_jobs'' ''Job recovery jobs must be an array'')
      else
        sbind (slift (map_res normalizeJob (arr_of jobs))) (\<lambda>normalized.
        if \<not> distinct (map identityKey normalized)
        then sthrow (recovery_error ''invalid_job_recovery_jobs'' ''Job recovery jobs contain duplicates'')
        else queueMutation date_ok (\<lambda>_.
          bnd (if normalized = [] then Inr None else bnd (toISOString now) (\<lambda>t. Inr (Some t))) (\<lambda>t.
          Inr (Some \<lparr>rs_detectedAt = t, rs_jobs = normalized\<rparr>)))))"

definition add :: "(string \<Rightarrow> bool) \<Rightarrow> int \<Rightarrow> js \<Rightarrow> (recovery_store, recovery_state) sm" where
  "add date_ok now job =
     sbind (slift (normalizeJob job)) (\<lambda>normalized.
     queueMutation date_ok (\<lambda>current.
       if list_ex (\<lambda>c. identityKey c = identityKey normalized) (rs_jobs current) then Inr None
       else
         bnd (if rs_jobs current \<noteq> [] then Inr (rs_detectedAt current)
              else bnd (toISOString now) (\<lambda>t. Inr (Some t))) (\<lambda>t.
         Inr (Some \<lparr>rs_detectedAt = t, rs_jobs = rs_jobs current @ [normalized]\<rparr>))))"

definition remove :: "(string \<Rightarrow> bool) \<Rightarrow> js \<Rightarrow> (recovery_store, recovery_state) sm" where
  "remove date_ok job =
     sbind (slift (normalizeJob job)) (\<lambda>normalized.
     queueMutation date_ok (\<lambda>current.
       let jobs = filter (\<lambda>c. identityKey c \<noteq> identityKey normalized) (rs_jobs current) in
       if length jobs = length (rs_jobs current) then Inr None
       else Inr (Some \<lparr>rs_detectedAt = (if jobs \<noteq> [] then rs_detectedAt current else None), rs_jobs = jobs\<rparr>)))"

section \<open>Well-formed records\<close>

definition wf_identity :: "identity \<Rightarrow> bool" where
  "wf_identity i = (is_job_id (id_job i) \<and> is_server_id (id_server i))"

definition wf_recovery :: "(string \<Rightarrow> bool) \<Rightarrow> recovery_state \<Rightarrow> bool" where
  "wf_recovery date_ok r = (list_all wf_identity (rs_jobs r) \<and> distinct (map identityKey (rs_jobs r)) \<and>
     (case rs_detectedAt r of None \<Rightarrow> rs_jobs r = [] | Some t \<Rightarrow> rs_jobs r \<noteq> [] \<and> date_ok t \<and> t \<noteq> []))"

lemma normalizeJob_js: "wf_identity i \<Longrightarrow> normalizeJob (identity_js i) = Inr i"
  by (simp add: normalizeJob_def identity_js_def wf_identity_def extra_keys_def)

lemma normalizeJob_wf: "normalizeJob v = Inr i \<Longrightarrow> wf_identity i"
  by (auto simp: normalizeJob_def wf_identity_def split: if_splits)

lemma json_norm_recovery_js [simp]: "json_norm (recovery_js r) = recovery_js r"
  by (auto simp: recovery_js_def identity_js_def split: option.splits)

lemma normalizeState_js:
  assumes "wf_recovery date_ok r"
  shows "normalizeState date_ok (recovery_js r) = Inr r"
proof -
  have "map_res normalizeJob (map identity_js (rs_jobs r)) = Inr (map (\<lambda>i. i) (rs_jobs r))"
    by (rule map_res_map) (use assms in \<open>auto simp: wf_recovery_def list_all_iff normalizeJob_js\<close>)
  with assms show ?thesis
    by (auto simp: normalizeState_def recovery_js_def wf_recovery_def extra_keys_def Let_def
        split: option.splits)
qed

lemma normalizeState_wf:
  assumes "normalizeState date_ok v = Inr r"
  shows "wf_recovery date_ok r"
proof -
  obtain jobs where j: "map_res normalizeJob (arr_of (jget v ''jobs'')) = Inr jobs"
    using assms by (auto simp: normalizeState_def split: if_splits)
  have "list_all wf_identity jobs"
    unfolding list_all_iff using map_res_Inr_set [OF j] normalizeJob_wf by blast
  moreover have "length jobs = length (arr_of (jget v ''jobs''))" using map_res_Inr_length [OF j] .
  ultimately show ?thesis
    using assms j by (auto simp: normalizeState_def wf_recovery_def Let_def split: if_splits)
qed

text \<open>Under the write the file denotes exactly the state; nothing is lost by \<open>JSON.stringify\<close>.\<close>

definition recovery_of_file :: "(string \<Rightarrow> bool) \<Rightarrow> js disk_file \<Rightarrow> recovery_state res" where
  "recovery_of_file date_ok f =
     (case f of
        NoFile \<Rightarrow> Inr emptyState
      | CorruptFile \<Rightarrow>
          Inl (recovery_error ''job_recovery_store_read_failed'' ''Job recovery store could not be read'')
      | JsonFile v \<Rightarrow> normalizeState date_ok v)"

text \<open>The memory is what the file denotes once the store is loaded, and empty before.\<close>

definition in_step :: "(string \<Rightarrow> bool) \<Rightarrow> recovery_store \<Rightarrow> bool" where
  "in_step date_ok s =
     (if loaded s then recovery_of_file date_ok (disk s) = Inr (memory s) \<and> wf_recovery date_ok (memory s)
      else memory s = emptyState)"

lemma wf_emptyState [simp]: "wf_recovery date_ok emptyState"
  by (simp add: wf_recovery_def emptyState_def)

lemma in_step_init: "keeps (in_step date_ok) (init_recovery date_ok)"
  by (auto simp: keeps_def in_step_def init_recovery_def recovery_of_file_def normalizeState_wf
      split: disk_file.splits sum.splits)

lemma init_recovery_loaded: "init_recovery date_ok s = (Inr u, s') \<Longrightarrow> loaded s'"
  by (auto simp: init_recovery_def split: if_splits disk_file.splits sum.splits)

text \<open>
  What a mutation does: the memory it starts from is the file's; it either changes nothing, or
  replaces file and memory together, or throws and leaves both.
\<close>

lemma queueMutation_cases:
  assumes s: "in_step date_ok s" and q: "queueMutation date_ok f s = (r, s')"
    and wf: "\<And>m n. wf_recovery date_ok m \<Longrightarrow> f m = Inr (Some n) \<Longrightarrow> wf_recovery date_ok n"
  shows "in_step date_ok s' \<and>
    (case r of
       Inl _ \<Rightarrow> disk s' = disk s
     | Inr snap \<Rightarrow> loaded s' \<and> snap = memory s' \<and>
        (\<exists>m. recovery_of_file date_ok (disk s) = Inr m \<and> wf_recovery date_ok m \<and>
          (f m = Inr None \<and> snap = m \<and> disk s' = disk s \<or> f m = Inr (Some snap))))"
proof (cases "init_recovery date_ok s")
  case (Pair r1 s1)
  have i1: "in_step date_ok s1" using keeps_result [OF in_step_init s Pair] .
  have d1: "disk s1 = disk s" using Pair
    by (auto simp: init_recovery_def split: if_splits disk_file.splits sum.splits)
  show ?thesis
  proof (cases r1)
    case (Inl e)
    with Pair q i1 d1 show ?thesis by (auto simp: queueMutation_def sbind_apply)
  next
    case (Inr u)
    then have l1: "loaded s1" using Pair init_recovery_loaded by simp
    then have m1: "recovery_of_file date_ok (disk s) = Inr (memory s1)" "wf_recovery date_ok (memory s1)"
      using i1 d1 by (auto simp: in_step_def)
    show ?thesis
    proof (cases "f (memory s1)")
      case (Inl e)
      with Inr Pair q i1 d1 show ?thesis by (auto simp: queueMutation_def sbind_apply)
    next
      case f: (Inr n)
      show ?thesis
      proof (cases n)
        case None
        with f Inr Pair q i1 d1 l1 m1 show ?thesis
          by (auto simp: queueMutation_def sbind_apply recovery_snapshot_def)
      next
        case (Some k)
        have "wf_recovery date_ok k" using wf [OF m1(2)] f Some by simp
        then have "normalizeState date_ok (recovery_js k) = Inr k" by (rule normalizeState_js)
        note k = this \<open>wf_recovery date_ok k\<close>
        have run: "(r, s') = (if write_ok s1
             then (Inr k, s1\<lparr>disk := JsonFile (recovery_js k), writes := tl (writes s1), memory := k\<rparr>)
             else (Inl io_error, s1\<lparr>writes := tl (writes s1)\<rparr>))"
          using Some f Inr Pair q
          by (simp add: queueMutation_def sbind_apply recovery_snapshot_def persist_recovery_def write_file_def
              split: if_splits)
        show ?thesis
        proof (cases "write_ok s1")
          case True
          with run have "r = Inr k" "s' = s1\<lparr>disk := JsonFile (recovery_js k), writes := tl (writes s1), memory := k\<rparr>"
            by simp_all
          with k l1 m1 f Some show ?thesis by (auto simp: in_step_def recovery_of_file_def)
        next
          case False
          with run have "r = Inl io_error" "s' = s1\<lparr>writes := tl (writes s1)\<rparr>" by simp_all
          with i1 d1 show ?thesis by (auto simp: in_step_def)
        qed
      qed
    qed
  qed
qed

section \<open>Requests\<close>

datatype recovery_request =
    InitRecovery
  | Replace int js
  | Add int js
  | Remove js

definition then_snapshot :: "(recovery_store, unit) sm \<Rightarrow> (recovery_store, recovery_state) sm" where
  "then_snapshot m = sbind m (\<lambda>_. recovery_snapshot)"

fun handle_recovery :: "(string \<Rightarrow> bool) \<Rightarrow> recovery_request \<Rightarrow> (recovery_store, recovery_state) sm" where
  "handle_recovery date_ok InitRecovery = then_snapshot (init_recovery date_ok)"
| "handle_recovery date_ok (Replace now jobs) = replace date_ok now jobs"
| "handle_recovery date_ok (Add now job) = add date_ok now job"
| "handle_recovery date_ok (Remove job) = remove date_ok job"

definition run_recovery :: "(string \<Rightarrow> bool) \<Rightarrow> recovery_request list \<Rightarrow> recovery_store \<Rightarrow> recovery_store" where
  "run_recovery date_ok rs s = foldl (\<lambda>t r. snd (handle_recovery date_ok r t)) s rs"

text \<open>\<open>Date.parse\<close> reads what \<open>toISOString\<close> writes.\<close>

definition reads_iso :: "(string \<Rightarrow> bool) \<Rightarrow> bool" where
  "reads_iso date_ok = (\<forall>t s. toISOString t = Inr s \<longrightarrow> date_ok s)"

lemma toISOString_not_Nil: "toISOString t = Inr s \<Longrightarrow> s \<noteq> []"
  by (auto simp: toISOString_def Let_def split: if_splits prod.splits)

text \<open>The three transforms keep the state well-formed.\<close>

lemma replace_wf:
  assumes "reads_iso date_ok" "map_res normalizeJob js = Inr normalized" "distinct (map identityKey normalized)"
    and "bnd (if normalized = [] then Inr None else bnd (toISOString now) (\<lambda>t. Inr (Some t))) (\<lambda>t.
      Inr (Some \<lparr>rs_detectedAt = t, rs_jobs = normalized\<rparr>)) = Inr (Some n)"
  shows "wf_recovery date_ok n"
proof -
  have "list_all wf_identity normalized"
    unfolding list_all_iff using map_res_Inr_set [OF assms(2)] normalizeJob_wf by blast
  then show ?thesis
    using assms by (auto simp: wf_recovery_def reads_iso_def bnd_Inr_iff dest: toISOString_not_Nil split: if_splits)
qed

lemma add_wf:
  assumes "reads_iso date_ok" "wf_identity k" "wf_recovery date_ok m"
    and "(if list_ex (\<lambda>c. identityKey c = identityKey k) (rs_jobs m) then Inr None
       else bnd (if rs_jobs m \<noteq> [] then Inr (rs_detectedAt m) else bnd (toISOString now) (\<lambda>t. Inr (Some t)))
         (\<lambda>t. Inr (Some \<lparr>rs_detectedAt = t, rs_jobs = rs_jobs m @ [k]\<rparr>))) = Inr (Some n)"
  shows "wf_recovery date_ok n"
proof -
  have "identityKey k \<notin> identityKey ` set (rs_jobs m)"
    using assms(4) by (auto simp: list_ex_iff split: if_splits)
  with assms show ?thesis
    by (auto simp: wf_recovery_def reads_iso_def bnd_Inr_iff
        dest: toISOString_not_Nil split: if_splits option.splits)
qed

lemma remove_wf:
  assumes "wf_recovery date_ok m"
    and "(let jobs = filter (\<lambda>c. identityKey c \<noteq> identityKey k) (rs_jobs m) in
       if length jobs = length (rs_jobs m) then Inr None
       else Inr (Some \<lparr>rs_detectedAt = (if jobs \<noteq> [] then rs_detectedAt m else None), rs_jobs = jobs\<rparr>))
      = Inr (Some n)"
  shows "wf_recovery date_ok n"
proof -
  let ?jobs = "filter (\<lambda>c. identityKey c \<noteq> identityKey k) (rs_jobs m)"
  have n: "n = \<lparr>rs_detectedAt = (if ?jobs \<noteq> [] then rs_detectedAt m else None), rs_jobs = ?jobs\<rparr>"
    using assms(2) by (auto simp: Let_def split: if_splits)
  have "distinct (map identityKey ?jobs)" "list_all wf_identity ?jobs"
    using assms(1) by (auto simp: wf_recovery_def distinct_map_filter list_all_iff)
  with assms(1) show ?thesis
    by (auto simp: n wf_recovery_def split: option.splits)
qed

text \<open>The effect of a request: as a mutation's, with the memory the file denotes as its start.\<close>

definition mutates :: "(string \<Rightarrow> bool) \<Rightarrow> (recovery_store, recovery_state) sm \<Rightarrow>
    (recovery_state \<Rightarrow> recovery_state \<Rightarrow> bool) \<Rightarrow> bool" where
  "mutates date_ok m R = (\<forall>s r s'. in_step date_ok s \<longrightarrow> m s = (r, s') \<longrightarrow>
     in_step date_ok s' \<and>
     (case r of Inl _ \<Rightarrow> disk s' = disk s
      | Inr snap \<Rightarrow> loaded s' \<and> snap = memory s' \<and>
         (\<exists>b. recovery_of_file date_ok (disk s) = Inr b \<and> wf_recovery date_ok b \<and> R b snap)))"

lemma mutates_queue:
  assumes "\<And>m n. wf_recovery date_ok m \<Longrightarrow> f m = Inr (Some n) \<Longrightarrow> wf_recovery date_ok n"
    and "\<And>m. wf_recovery date_ok m \<Longrightarrow> f m = Inr None \<Longrightarrow> R m m"
    and "\<And>m n. wf_recovery date_ok m \<Longrightarrow> f m = Inr (Some n) \<Longrightarrow> R m n"
  shows "mutates date_ok (queueMutation date_ok f) R"
  unfolding mutates_def
proof (intro allI impI)
  fix s r s'
  assume s: "in_step date_ok s" "queueMutation date_ok f s = (r, s')"
  have c: "in_step date_ok s' \<and>
    (case r of
       Inl _ \<Rightarrow> disk s' = disk s
     | Inr snap \<Rightarrow> loaded s' \<and> snap = memory s' \<and>
        (\<exists>m. recovery_of_file date_ok (disk s) = Inr m \<and> wf_recovery date_ok m \<and>
          (f m = Inr None \<and> snap = m \<and> disk s' = disk s \<or> f m = Inr (Some snap))))"
    by (rule queueMutation_cases [OF s]) (fact assms(1))
  show "in_step date_ok s' \<and>
     (case r of Inl _ \<Rightarrow> disk s' = disk s
      | Inr snap \<Rightarrow> loaded s' \<and> snap = memory s' \<and>
         (\<exists>b. recovery_of_file date_ok (disk s) = Inr b \<and> wf_recovery date_ok b \<and> R b snap))"
  proof (cases r)
    case (Inr snap)
    with c obtain m where m: "recovery_of_file date_ok (disk s) = Inr m" "wf_recovery date_ok m"
      "f m = Inr None \<and> snap = m \<or> f m = Inr (Some snap)" by auto
    then have "R m snap" using assms(2,3) by metis
    with m c Inr show ?thesis by auto
  qed (use c in simp)
qed

lemma mutates_bind_slift:
  "(\<And>x. v = Inr x \<Longrightarrow> mutates date_ok (k x) R) \<Longrightarrow> mutates date_ok (sbind (slift v) k) R"
  by (cases v) (auto simp: mutates_def sbind_apply)

lemma mutates_throw: "mutates date_ok (sthrow e) R"
  by (auto simp: mutates_def)

end
