(* ===== verification/DurableJobs.thy ===== *)
theory DurableJobs
  imports JobProofs JobRecovery
begin

text \<open>
  The queue that survives a crash (\<open>apps/api/src/durable-job-registry.js\<close>): it wraps a job registry and
  the record of interrupted jobs, both made by factories the caller passes, here the operations of two
  records. It refuses work while interrupted jobs await reconciliation, rebuilds the registry from its
  file after a failing mutation, and latches shut when it can no longer tell what the state is.

  Mutations run one after the other (\<open>mutationTail\<close>, which recovers from failures), so each handler is
  one step. A write outcome, a clock reading and the identifier of a new job are part of the operations
  passed to the call. The functions the factories are checked for are all there, except the optional
  \<open>add\<close> and \<open>remove\<close> of the record.
\<close>

section \<open>What the wrapped stores offer\<close>

text \<open>\<open>q_fresh\<close> is \<open>registryFactory({ filePath, now })\<close>: a new registry on the same file, not loaded;
  \<open>q_file\<close> is what the file of the registry holds, \<open>None\<close> being JSON that is no job store.\<close>

record 'q queue_ops =
  q_fresh :: "'q \<Rightarrow> 'q"
  q_init :: "('q, unit) sm"
  q_running :: "('q, public_job list) sm"
  q_getJob :: "string \<Rightarrow> ('q, public_job option) sm"
  q_call :: "job_request \<Rightarrow> ('q, public_job list) sm"
  q_file :: "'q \<Rightarrow> public_job list option disk_file"

record 'r log_ops =
  l_init :: "('r, unit) sm"
  l_replace :: "identity list \<Rightarrow> ('r, unit) sm"
  l_add :: "(identity \<Rightarrow> ('r, unit) sm) option"
  l_remove :: "(identity \<Rightarrow> ('r, unit) sm) option"
  l_snapshot :: "('r, identity list) sm"

text \<open>\<open>recovery\<close> is null exactly when it has no jobs (\<open>setRecovery\<close>): the empty list.\<close>

record ('q, 'r) durable =
  d_registry :: 'q
  d_record :: 'r
  d_initialized :: bool
  d_fatal :: "(string \<times> string) option"
  d_recovery :: "identity list"
  d_pending :: "string set"
  d_explicit :: "string set"

definition durable_error :: "string \<Rightarrow> string \<Rightarrow> jerr" where
  "durable_error c msg = Err ''DurableJobRegistryError'' (Some c) msg"

definition RECOVERY_CODE :: string where
  "RECOVERY_CODE = ''durable_job_reconciliation_required''"

definition RECOVERY_MESSAGE :: string where
  "RECOVERY_MESSAGE =
     ''Persisted running jobs require reconciliation before new job mutations can continue''"

definition recoverable :: "job_status \<Rightarrow> bool" where
  "recoverable st = (st = JobRunning \<or> st = JobSucceeded \<or> st = JobFailed)"

definition is_terminal :: "job_status \<Rightarrow> bool" where
  "is_terminal st = (st = JobSucceeded \<or> st = JobFailed)"

text \<open>\<open>createDurableJobRegistry\<close>\<close>

definition createDurableJobRegistry :: "'q \<Rightarrow> 'r \<Rightarrow> ('q, 'r) durable" where
  "createDurableJobRegistry q r = \<lparr>d_registry = q, d_record = r, d_initialized = False, d_fatal = None,
     d_recovery = [], d_pending = {}, d_explicit = {}\<rparr>"

section \<open>Identities\<close>

definition safeRecoveryJob :: "string \<Rightarrow> string \<Rightarrow> identity option" where
  "safeRecoveryJob jobId serverId =
     (if 8 \<le> length jobId \<and> length jobId \<le> 128 \<and> 1 \<le> length serverId \<and> length serverId \<le> 128
      then Some \<lparr>id_job = jobId, id_server = serverId\<rparr> else None)"

text \<open>The default order of \<open>sort()\<close> on strings: by code units.\<close>

fun str_compare :: "string \<Rightarrow> string \<Rightarrow> int" where
  "str_compare [] [] = 0"
| "str_compare [] (_ # _) = - 1"
| "str_compare (_ # _) [] = 1"
| "str_compare (c # cs) (d # ds) = (if code c < code d then - 1 else if code d < code c then 1 else str_compare cs ds)"

definition newline :: string where
  "newline = [char_of (10 :: nat)]"

definition recoveryIdentity :: "identity list \<Rightarrow> string" where
  "recoveryIdentity jobs = join_with newline (js_sort str_compare (map identityKey jobs))"

definition recoveryKey :: "identity \<Rightarrow> string" where
  "recoveryKey job = id_server job @ '':'' @ id_job job"

text \<open>The loop of \<open>uniqueRecoveryJobs\<close>, which keeps the first job of every key.\<close>

fun unique_from :: "string set \<Rightarrow> identity list \<Rightarrow> identity list" where
  "unique_from seen [] = []"
| "unique_from seen (job # jobs) =
     (if recoveryKey job \<in> seen then unique_from seen jobs
      else job # unique_from (insert (recoveryKey job) seen) jobs)"

definition uniqueRecoveryJobs :: "identity list \<Rightarrow> identity list" where
  "uniqueRecoveryJobs jobs = unique_from {} jobs"

section \<open>The latch\<close>

definition assertHealthy :: "(('q, 'r) durable, unit) sm" where
  "assertHealthy d = (case d_fatal d of None \<Rightarrow> (Inr (), d) | Some (c, m) \<Rightarrow> (Inl (durable_error c m), d))"

definition latch :: "string \<Rightarrow> string \<Rightarrow> (('q, 'r) durable, 'a) sm" where
  "latch c m = sbind (smod (\<lambda>d. d\<lparr>d_fatal := Some (c, m)\<rparr>)) (\<lambda>_. sthrow (durable_error c m))"

text \<open>\<open>try { m } catch { latch(c, msg) }\<close>, and the form that lets an error of the latch through.\<close>

definition or_latch :: "string \<Rightarrow> string \<Rightarrow> (('q, 'r) durable, 'a) sm \<Rightarrow> (('q, 'r) durable, 'a) sm" where
  "or_latch c msg m = scatch m (\<lambda>_. latch c msg)"

definition or_latch_unless_fatal ::
  "(jerr \<Rightarrow> bool) \<Rightarrow> string \<Rightarrow> string \<Rightarrow> (('q, 'r) durable, 'a) sm \<Rightarrow> (('q, 'r) durable, 'a) sm" where
  "or_latch_unless_fatal p c msg m = scatch m (\<lambda>e.
     sbind (sget d_fatal) (\<lambda>f. if p e \<and> f \<noteq> None then sthrow e else latch c msg))"

definition is_durable_error :: "jerr \<Rightarrow> bool" where
  "is_durable_error e = (err_class e = ''DurableJobRegistryError'')"

text \<open>A call of an operation of the wrapped registry or record.\<close>

definition on_queue :: "('q, 'a) sm \<Rightarrow> (('q, 'r) durable, 'a) sm" where
  "on_queue m d = (case m (d_registry d) of (r, q) \<Rightarrow> (r, d\<lparr>d_registry := q\<rparr>))"

definition on_log :: "('r, 'a) sm \<Rightarrow> (('q, 'r) durable, 'a) sm" where
  "on_log m d = (case m (d_record d) of (r, l) \<Rightarrow> (r, d\<lparr>d_record := l\<rparr>))"

definition setRecovery :: "identity list \<Rightarrow> (('q, 'r) durable, unit) sm" where
  "setRecovery jobs = smod (\<lambda>d. d\<lparr>d_recovery := uniqueRecoveryJobs jobs\<rparr>)"

section \<open>The record of interrupted jobs\<close>

definition recoverySnapshotJobs :: "'r log_ops \<Rightarrow> (('q, 'r) durable, identity list) sm" where
  "recoverySnapshotJobs l =
     sbind (or_latch ''durable_job_recovery_record_failed'' ''Durable job recovery record could not be inspected''
              (on_log (l_snapshot l))) (\<lambda>stored.
     let jobs = map (\<lambda>i. safeRecoveryJob (id_job i) (id_server i)) stored in
     if None \<in> set jobs
     then latch ''durable_job_recovery_state_invalid'' ''Durable job recovery record contains invalid job identity''
     else sret (map the jobs))"

definition replaceRecoveryJobs :: "'r log_ops \<Rightarrow> identity list \<Rightarrow> (('q, 'r) durable, unit) sm" where
  "replaceRecoveryJobs l jobs =
     or_latch ''durable_job_recovery_record_failed'' ''Durable job recovery record could not be synchronized''
       (on_log (l_replace l jobs))"

definition addRecoveryJob :: "'r log_ops \<Rightarrow> identity \<Rightarrow> (('q, 'r) durable, unit) sm" where
  "addRecoveryJob l job =
     or_latch_unless_fatal (\<lambda>_. True) ''durable_job_recovery_record_failed''
       ''Durable job recovery record could not be synchronized''
       (case l_add l of
          Some f \<Rightarrow> on_log (f job)
        | None \<Rightarrow>
            sbind (recoverySnapshotJobs l) (\<lambda>stored.
            if list_ex (\<lambda>c. recoveryKey c = recoveryKey job) stored
            then sbind (on_log (l_snapshot l)) (\<lambda>_. sret ())
            else on_log (l_replace l (stored @ [job]))))"

definition removeRecoveryJob :: "'r log_ops \<Rightarrow> identity \<Rightarrow> (('q, 'r) durable, unit) sm" where
  "removeRecoveryJob l job =
     or_latch_unless_fatal (\<lambda>_. True) ''durable_job_recovery_record_failed''
       ''Durable job recovery record could not be synchronized''
       (case l_remove l of
          Some f \<Rightarrow> on_log (f job)
        | None \<Rightarrow>
            sbind (recoverySnapshotJobs l) (\<lambda>stored.
            on_log (l_replace l (filter (\<lambda>c. recoveryKey c \<noteq> recoveryKey job) stored))))"

definition syncRecoveryRecord :: "'r log_ops \<Rightarrow> identity list \<Rightarrow> (('q, 'r) durable, unit) sm" where
  "syncRecoveryRecord l jobs =
     sbind (recoverySnapshotJobs l) (\<lambda>stored.
     if recoveryIdentity stored = recoveryIdentity jobs then sret () else replaceRecoveryJobs l jobs)"

section \<open>Detecting interrupted jobs\<close>

text \<open>The loop over the recorded jobs: each must be a job of the queue in a state it can be
  reconciled from; the finished ones await acknowledgement.\<close>

fun check_recorded :: "'q queue_ops \<Rightarrow> identity list \<Rightarrow> (('q, 'r) durable, unit) sm" where
  "check_recorded q [] = sret ()"
| "check_recorded q (identity # rest) =
     sbind (or_latch ''durable_job_recovery_scan_failed'' ''Durable job registry could not inspect recovery state''
              (on_queue (q_getJob q (id_job identity)))) (\<lambda>found.
     case found of
       None \<Rightarrow> latch ''durable_job_recovery_state_invalid''
                 ''Durable job recovery record does not match persisted job state''
     | Some job \<Rightarrow>
         if job_serverId job \<noteq> id_server identity \<or> \<not> recoverable (job_status job)
         then latch ''durable_job_recovery_state_invalid''
                ''Durable job recovery record does not match persisted job state''
         else
           sbind (if is_terminal (job_status job)
                  then smod (\<lambda>d. d\<lparr>d_pending := insert (recoveryKey identity) (d_pending d)\<rparr>)
                  else sret ()) (\<lambda>_. check_recorded q rest))"

definition detectRecovery :: "'q queue_ops \<Rightarrow> 'r log_ops \<Rightarrow> (('q, 'r) durable, unit) sm" where
  "detectRecovery q l =
     sbind (or_latch ''durable_job_recovery_scan_failed'' ''Durable job registry could not inspect recovery state''
              (on_queue (q_running q))) (\<lambda>running.
     let runningJobs = map (\<lambda>j. safeRecoveryJob (job_id j) (job_serverId j)) running in
     if None \<in> set runningJobs
     then latch ''durable_job_recovery_state_invalid'' ''Durable job registry contains invalid running-job identity''
     else
       sbind (recoverySnapshotJobs l) (\<lambda>storedJobs.
       let jobs = uniqueRecoveryJobs (storedJobs @ map the runningJobs) in
       sbind (smod (\<lambda>d. d\<lparr>d_pending := {}, d_explicit := {}\<rparr>)) (\<lambda>_.
       sbind (check_recorded q storedJobs) (\<lambda>_.
       sbind (setRecovery jobs) (\<lambda>_. syncRecoveryRecord l jobs)))))"

definition initializeRecoveryStore :: "'r log_ops \<Rightarrow> (('q, 'r) durable, unit) sm" where
  "initializeRecoveryStore l =
     or_latch ''durable_job_recovery_record_failed'' ''Durable job recovery record could not be initialized''
       (on_log (l_init l))"

definition init_durable :: "'q queue_ops \<Rightarrow> 'r log_ops \<Rightarrow> (('q, 'r) durable, unit) sm" where
  "init_durable q l d =
     (if d_initialized d then (Inr (), d)
      else sbind assertHealthy (\<lambda>_.
        or_latch_unless_fatal is_durable_error ''durable_job_init_failed'' ''Durable job registry could not be initialized''
          (sbind (on_queue (q_init q)) (\<lambda>_.
           sbind (initializeRecoveryStore l) (\<lambda>_.
           sbind (detectRecovery q l) (\<lambda>_. smod (\<lambda>d. d\<lparr>d_initialized := True\<rparr>)))))) d)"

text \<open>A replacement takes the place of the registry once it has loaded.\<close>

definition replace_registry :: "'q queue_ops \<Rightarrow> (('q, 'r) durable, unit) sm" where
  "replace_registry q d =
     (case q_init q (q_fresh q (d_registry d)) of
        (Inl e, _) \<Rightarrow> (Inl e, d)
      | (Inr _, q') \<Rightarrow> (Inr (), d\<lparr>d_registry := q'\<rparr>))"

definition reloadDurableState :: "'q queue_ops \<Rightarrow> 'r log_ops \<Rightarrow> bool \<Rightarrow> (('q, 'r) durable, unit) sm" where
  "reloadDurableState q l inspectRecovery =
     or_latch_unless_fatal is_durable_error ''durable_job_recovery_failed''
       ''Durable job registry could not recover committed state''
       (sbind (replace_registry q) (\<lambda>_.
        sbind (smod (\<lambda>d. d\<lparr>d_initialized := True\<rparr>)) (\<lambda>_.
        sbind (sget d_recovery) (\<lambda>recovery.
        if inspectRecovery \<or> recovery \<noteq> [] then detectRecovery q l else sret ()))))"

section \<open>Mutations\<close>

datatype job_method = MEnqueue | MClaimNext | MComplete | MCancel | MRead

fun method_of :: "job_request \<Rightarrow> job_method" where
  "method_of (Enqueue _ _ _) = MEnqueue"
| "method_of (ClaimNext _ _) = MClaimNext"
| "method_of (CompleteJob _ _ _ _ _ _) = MComplete"
| "method_of (CancelJob _ _) = MCancel"
| "method_of (FindIdempotent _) = MRead"
| "method_of (GetJob _) = MRead"
| "method_of (ListJobs _) = MRead"

text \<open>The identity \<open>args[0]\<close> of a completion names.\<close>

fun input_identity :: "job_request \<Rightarrow> identity option" where
  "input_identity (CompleteJob _ serverId jobId _ _ _) = safeRecoveryJob jobId serverId"
| "input_identity _ = None"

definition assertMutationAllowed :: "job_method \<Rightarrow> (('q, 'r) durable, unit) sm" where
  "assertMutationAllowed m =
     sbind assertHealthy (\<lambda>_.
     sbind (sget d_recovery) (\<lambda>recovery.
     if recovery \<noteq> [] \<and> m \<noteq> MComplete then sthrow (durable_error RECOVERY_CODE RECOVERY_MESSAGE)
     else sret ()))"

text \<open>The result carries whether the reconciliation was begun explicitly; \<open>None\<close> is null.\<close>

definition prepareAutomaticReconciliation ::
  "'q queue_ops \<Rightarrow> 'r log_ops \<Rightarrow> bool \<Rightarrow> job_request \<Rightarrow> (('q, 'r) durable, (identity \<times> bool) option) sm" where
  "prepareAutomaticReconciliation q l automatic input =
     (if \<not> automatic then sret None
      else case input_identity input of
        None \<Rightarrow> sret None
      | Some identity \<Rightarrow>
          let key = recoveryKey identity in
          sbind (sget (\<lambda>d. key \<in> d_explicit d)) (\<lambda>explicit.
          if explicit then sret (Some (identity, True))
          else
            sbind (or_latch ''durable_job_recovery_scan_failed'' ''Durable job registry could not inspect recovery state''
                     (on_queue (q_getJob q (id_job identity)))) (\<lambda>found.
            sbind (case found of
                None \<Rightarrow> sret ()
              | Some job \<Rightarrow>
                  if job_serverId job = id_server identity \<and> job_status job = JobRunning
                  then
                    sbind (addRecoveryJob l identity) (\<lambda>_.
                    sbind (smod (\<lambda>d. d\<lparr>d_pending := insert key (d_pending d)\<rparr>)) (\<lambda>_.
                    sbind (sget d_recovery) (\<lambda>recovery. setRecovery (recovery @ [identity]))))
                  else sret ()) (\<lambda>_.
            sret (Some (identity, False))))))"

text \<open>
  The body of \<open>mutate\<close> after its guard. The answer comes with the identity whose acknowledgement
  \<open>automaticReconciliationAcks\<close> attaches to it.
\<close>

definition mutation ::
  "'q queue_ops \<Rightarrow> 'r log_ops \<Rightarrow> bool \<Rightarrow> job_request \<Rightarrow> (('q, 'r) durable, public_job list \<times> identity option) sm" where
  "mutation q l automatic req =
     sbind (if method_of req = MComplete then prepareAutomaticReconciliation q l automatic req else sret None)
       (\<lambda>prepared.
     sbind (on_queue (q_call q req)) (\<lambda>result.
     if method_of req \<noteq> MComplete then sret (result, None)
     else
       let identity = (case prepared of Some (i, _) \<Rightarrow> Some i | None \<Rightarrow> input_identity req);
           explicit = (case prepared of Some (_, x) \<Rightarrow> x | None \<Rightarrow> False) in
       case identity of
         None \<Rightarrow> sret (result, None)
       | Some i \<Rightarrow>
           sbind (sget (\<lambda>d. (d_recovery d, recoveryKey i \<in> d_pending d))) (\<lambda>(recovery, pending).
           if automatic \<and> \<not> explicit \<and> pending then sret (result, Some i)
           else if recovery \<noteq> [] \<and> \<not> pending
           then sbind (removeRecoveryJob l i) (\<lambda>_. sbind (detectRecovery q l) (\<lambda>_. sret (result, None)))
           else sret (result, None))))"

definition mutate ::
  "'q queue_ops \<Rightarrow> 'r log_ops \<Rightarrow> bool \<Rightarrow> job_request \<Rightarrow> (('q, 'r) durable, public_job list \<times> identity option) sm" where
  "mutate q l automatic req =
     sbind (init_durable q l) (\<lambda>_.
     sbind (assertMutationAllowed (method_of req)) (\<lambda>_.
     scatch (mutation q l automatic req) (\<lambda>e.
       sbind (sget d_fatal) (\<lambda>f.
       if f \<noteq> None then sthrow e
       else sbind (reloadDurableState q l (method_of req = MClaimNext \<or> method_of req = MComplete))
              (\<lambda>_. sthrow e)))))"

section \<open>Reconciliation\<close>

text \<open>The common start of \<open>beginReconciliation\<close> and \<open>acknowledgeReconciliation\<close>.\<close>

definition reconciliation_job ::
  "'q queue_ops \<Rightarrow> string \<Rightarrow> string \<Rightarrow> (('q, 'r) durable, identity \<times> public_job) sm" where
  "reconciliation_job q serverId jobId =
     sbind assertHealthy (\<lambda>_.
     case safeRecoveryJob jobId serverId of
       None \<Rightarrow> sthrow (durable_error ''durable_job_reconciliation_identity_invalid''
                 ''Durable job reconciliation identity is invalid'')
     | Some identity \<Rightarrow>
         sbind (or_latch ''durable_job_recovery_scan_failed'' ''Durable job registry could not inspect recovery state''
                  (on_queue (q_getJob q jobId))) (\<lambda>found.
         case found of
           None \<Rightarrow> sthrow (durable_error ''durable_job_reconciliation_job_not_found''
                     ''Durable job reconciliation job was not found'')
         | Some job \<Rightarrow>
             if job_serverId job \<noteq> serverId
             then sthrow (durable_error ''durable_job_reconciliation_job_not_found''
                    ''Durable job reconciliation job was not found'')
             else sret (identity, job)))"

text \<open>The answers carry the status and whether the job is pending.\<close>

definition beginReconciliation ::
  "'q queue_ops \<Rightarrow> 'r log_ops \<Rightarrow> string \<Rightarrow> string \<Rightarrow> (('q, 'r) durable, job_status \<times> bool) sm" where
  "beginReconciliation q l serverId jobId =
     sbind (init_durable q l) (\<lambda>_.
     sbind (reconciliation_job q serverId jobId) (\<lambda>(identity, job).
     let key = recoveryKey identity in
     if is_terminal (job_status job)
     then sbind (sget (\<lambda>d. key \<in> d_pending d)) (\<lambda>pending. sret (job_status job, pending))
     else if job_status job \<noteq> JobRunning
     then sthrow (durable_error ''durable_job_reconciliation_not_running''
            ''Only running jobs can enter durable reconciliation'')
     else
       sbind (addRecoveryJob l identity) (\<lambda>_.
       sbind (smod (\<lambda>d. d\<lparr>d_pending := insert key (d_pending d), d_explicit := insert key (d_explicit d)\<rparr>)) (\<lambda>_.
       sbind (sget d_recovery) (\<lambda>recovery.
       sbind (setRecovery (recovery @ [identity])) (\<lambda>_. sret (job_status job, True)))))))"

text \<open>The answers carry the status and whether the job was acknowledged.\<close>

definition acknowledgeReconciliation ::
  "'q queue_ops \<Rightarrow> 'r log_ops \<Rightarrow> string \<Rightarrow> string \<Rightarrow> (('q, 'r) durable, job_status \<times> bool) sm" where
  "acknowledgeReconciliation q l serverId jobId =
     sbind (init_durable q l) (\<lambda>_.
     sbind (reconciliation_job q serverId jobId) (\<lambda>(identity, job).
     let key = recoveryKey identity in
     if \<not> is_terminal (job_status job)
     then sthrow (durable_error ''durable_job_reconciliation_not_ready''
            ''Durable job reconciliation can only be acknowledged after terminal completion'')
     else
       sbind (recoverySnapshotJobs l) (\<lambda>stored.
       if \<not> list_ex (\<lambda>c. recoveryKey c = key) stored
       then
         sbind (sget (\<lambda>d. key \<in> d_pending d \<or> list_ex (\<lambda>c. recoveryKey c = key) (d_recovery d))) (\<lambda>known.
         if known
         then latch ''durable_job_recovery_state_invalid''
                ''Durable job recovery memory does not match the recovery record''
         else
           sbind (smod (\<lambda>d. d\<lparr>d_explicit := d_explicit d - {key}\<rparr>)) (\<lambda>_. sret (job_status job, False)))
       else
         sbind (removeRecoveryJob l identity) (\<lambda>_.
         sbind (smod (\<lambda>d. d\<lparr>d_pending := d_pending d - {key}, d_explicit := d_explicit d - {key}\<rparr>)) (\<lambda>_.
         sbind (sget d_recovery) (\<lambda>recovery.
         sbind (setRecovery (filter (\<lambda>c. recoveryKey c \<noteq> key) recovery)) (\<lambda>_.
         sret (job_status job, True))))))))"

text \<open>
  What is attached to the answer of a completion: the acknowledgement is called, and forgotten once it
  has returned.
\<close>

definition acknowledgeAutomaticJobReconciliation ::
  "'q queue_ops \<Rightarrow> 'r log_ops \<Rightarrow> identity option \<Rightarrow> (('q, 'r) durable, bool \<times> identity option) sm" where
  "acknowledgeAutomaticJobReconciliation q l attached =
     (case attached of
        None \<Rightarrow> sret (False, None)
      | Some i \<Rightarrow> sbind (acknowledgeReconciliation q l (id_server i) (id_job i)) (\<lambda>_. sret (True, None)))"

section \<open>Reading\<close>

definition read_durable ::
  "'q queue_ops \<Rightarrow> 'r log_ops \<Rightarrow> job_request \<Rightarrow> (('q, 'r) durable, public_job list) sm" where
  "read_durable q l req =
     sbind (init_durable q l) (\<lambda>_. sbind assertHealthy (\<lambda>_. on_queue (q_call q req)))"

text \<open>
  What \<open>getReconciliationJob\<close> answers once it has the job and the file: the job, with the payload of the
  envelope the protocol builds today from the stored one.
\<close>

definition reconciliation_payload ::
  "(string \<Rightarrow> string \<Rightarrow> js \<Rightarrow> js res) \<Rightarrow> identity list \<Rightarrow> public_job list option disk_file \<Rightarrow> public_job \<Rightarrow>
   public_job option res" where
  "reconciliation_payload envelope recovery saved job =
     (let identity = safeRecoveryJob (job_id job) (job_serverId job) in
      if identity = None \<or> \<not> is_terminal (job_status job) \<or>
         \<not> list_ex (\<lambda>c. recoveryKey c = recoveryKey (the identity)) recovery
      then Inl (durable_error ''durable_job_reconciliation_not_pending''
             ''Job is not a terminal pending reconciliation'')
      else case saved of
        JsonFile None \<Rightarrow> Inl (durable_error ''durable_job_reconciliation_payload_invalid''
             ''Persisted reconciliation payload store is invalid'')
      | JsonFile (Some jobs) \<Rightarrow>
          (case find (\<lambda>c. job_id c = job_id job) jobs of
             None \<Rightarrow> Inl (durable_error ''durable_job_reconciliation_payload_invalid''
                       ''Persisted reconciliation payload identity is invalid'')
           | Some stored \<Rightarrow>
               if job_serverId stored \<noteq> job_serverId job \<or> job_operation stored \<noteq> job_operation job \<or>
                  job_resourceType stored \<noteq> job_resourceType job \<or>
                  job_resourceId stored \<noteq> job_resourceId job \<or> job_status stored \<noteq> job_status job \<or>
                  \<not> is_object (job_payload stored)
               then Inl (durable_error ''durable_job_reconciliation_payload_invalid''
                      ''Persisted reconciliation payload identity is invalid'')
               else case envelope (job_id stored) (job_operation stored) (job_payload stored) of
                 Inl _ \<Rightarrow> Inl (durable_error ''durable_job_reconciliation_payload_incompatible''
                            ''Persisted reconciliation payload does not satisfy the current protocol'')
               | Inr env \<Rightarrow> Inr (Some (job\<lparr>job_payload := jget env ''payload''\<rparr>)))
      | _ \<Rightarrow> Inl (durable_error ''durable_job_reconciliation_payload_unavailable''
               ''Persisted reconciliation payload could not be read''))"

definition getReconciliationJob ::
  "'q queue_ops \<Rightarrow> 'r log_ops \<Rightarrow> (string \<Rightarrow> string \<Rightarrow> js \<Rightarrow> js res) \<Rightarrow> string \<Rightarrow>
   (('q, 'r) durable, public_job option) sm" where
  "getReconciliationJob q l envelope jobId =
     sbind (init_durable q l) (\<lambda>_.
     sbind assertHealthy (\<lambda>_.
     sbind (scatch (on_queue (q_getJob q jobId)) (\<lambda>_. sthrow (durable_error
              ''durable_job_reconciliation_job_unavailable''
              ''Persisted reconciliation job could not be inspected''))) (\<lambda>found.
     case found of
       None \<Rightarrow> sret None
     | Some job \<Rightarrow>
         sbind (sget (\<lambda>d. (d_recovery d, q_file q (d_registry d)))) (\<lambda>(recovery, saved).
         slift (reconciliation_payload envelope recovery saved job)))))"

end
