(* ===== verification/DurableProofs.thy ===== *)
theory DurableProofs
  imports DurableJobs "HOL-Library.Multiset"
begin

text \<open>
  The record of interrupted jobs the durable queue relies on, as an interface (\<open>recovery_log\<close>), and what
  follows from its laws: the recovery list in memory is the record's at every step.
\<close>

definition rkeys :: "identity list \<Rightarrow> string set" where
  "rkeys js = recoveryKey ` set js"

lemma rkeys_simps [simp]:
  "rkeys [] = {}" "rkeys (i # is) = insert (recoveryKey i) (rkeys is)" "rkeys (is @ js) = rkeys is \<union> rkeys js"
  by (auto simp: rkeys_def)

lemma rkeys_filter [simp]: "rkeys (filter (\<lambda>c. recoveryKey c \<noteq> k) is) = rkeys is - {k}"
  by (auto simp: rkeys_def)

lemma rkeys_mem: "list_ex (\<lambda>c. recoveryKey c = k) is \<longleftrightarrow> k \<in> rkeys is"
  by (auto simp: rkeys_def list_ex_iff)

lemma finite_rkeys [simp]: "finite (rkeys is)"
  by (simp add: rkeys_def)

section \<open>Unique jobs and their identity\<close>

lemma unique_from_keys: "rkeys (unique_from seen jobs) = rkeys jobs - seen"
  by (induction seen jobs rule: unique_from.induct) auto

lemma unique_from_distinct: "distinct (map recoveryKey (unique_from seen jobs))"
proof (induction seen jobs rule: unique_from.induct)
  case (2 seen job jobs)
  have "recoveryKey job \<notin> rkeys (unique_from (insert (recoveryKey job) seen) jobs)"
    by (simp only: unique_from_keys) simp
  with 2 show ?case by (simp add: rkeys_def)
qed simp

lemma uniqueRecoveryJobs_keys [simp]: "rkeys (uniqueRecoveryJobs jobs) = rkeys jobs"
  by (simp add: uniqueRecoveryJobs_def unique_from_keys)

lemma uniqueRecoveryJobs_distinct: "distinct (map recoveryKey (uniqueRecoveryJobs jobs))"
  by (simp add: uniqueRecoveryJobs_def unique_from_distinct)

lemma join_with_length:
  "length (join_with d ws) = sum_list (map length ws) + (length ws - 1) * length d"
  by (induction d ws rule: join_with.induct) auto

lemma js_insert_mset: "mset (js_insert cmp x ys) = add_mset x (mset ys)"
  by (induction ys) auto

lemma js_sort_mset: "mset (js_sort cmp xs) = mset xs"
  by (induction xs) (simp_all add: js_sort_def js_insert_mset)

lemma recoveryIdentity_length:
  "length (recoveryIdentity jobs) = sum_list (map (\<lambda>i. length (recoveryKey i)) jobs) + (length jobs - 1)"
proof -
  let ?s = "js_sort str_compare (map identityKey jobs)"
  have "sum_list (map length ?s) = sum_mset (image_mset length (mset ?s))"
    by (metis mset_map sum_mset_sum_list)
  also have "\<dots> = sum_list (map (\<lambda>i. length (recoveryKey i)) jobs)"
    unfolding js_sort_mset
    by (simp add: recoveryKey_def identityKey_def sum_mset_sum_list [symmetric] multiset.map_comp o_def)
  finally show ?thesis
    by (simp add: recoveryIdentity_def join_with_length newline_def)
qed

text \<open>
  A list of distinct jobs that contains every recorded key and has the same identity text as the record
  has no other key: with more jobs the text would be longer.
\<close>

lemma recoveryIdentity_eq:
  assumes "rkeys stored \<subseteq> rkeys jobs" "distinct (map recoveryKey jobs)" "distinct (map recoveryKey stored)"
    and eq: "recoveryIdentity stored = recoveryIdentity jobs"
  shows "rkeys stored = rkeys jobs"
proof (rule ccontr)
  assume "rkeys stored \<noteq> rkeys jobs"
  with assms(1) obtain k where k: "k \<in> rkeys jobs" "k \<notin> rkeys stored" by blast
  have sums: "sum_list (map (\<lambda>i. length (recoveryKey i)) is) = (\<Sum>k \<in> rkeys is. length k)"
    if "distinct (map recoveryKey is)" for "is"
    unfolding rkeys_def using sum_list_distinct_conv_sum_set [OF that, of length] by (simp add: o_def)
  have "(\<Sum>k \<in> rkeys stored. length k) + length k = (\<Sum>k \<in> insert k (rkeys stored). length k)"
    using k(2) by simp
  also have "\<dots> \<le> (\<Sum>k \<in> rkeys jobs. length k)"
    by (rule sum_mono2) (use assms(1) k(1) in auto)
  finally have "(\<Sum>k \<in> rkeys stored. length k) + length k \<le> (\<Sum>k \<in> rkeys jobs. length k)" .
  moreover have "0 < length k" using k(1) by (auto simp: rkeys_def recoveryKey_def)
  moreover have "length stored \<le> length jobs"
    using card_mono [OF _ assms(1)] distinct_card [OF assms(2)] distinct_card [OF assms(3)]
    by (simp add: rkeys_def)
  ultimately have "length (recoveryIdentity stored) < length (recoveryIdentity jobs)"
    unfolding recoveryIdentity_length sums [OF assms(2)] sums [OF assms(3)] by linarith
  with eq show False by simp
qed

section \<open>The latch\<close>

lemma hoare_any: "hoare P m (\<lambda>_ _. True) (\<lambda>_ _. True)"
  by (rule hoareI) simp_all

definition latched :: "jerr \<Rightarrow> ('q, 'r) durable \<Rightarrow> bool" where
  "latched e d = (d_fatal d \<noteq> None)"

lemma latch_apply [simp]: "latch c m d = (Inl (durable_error c m), d\<lparr>d_fatal := Some (c, m)\<rparr>)"
  by (simp add: latch_def sbind_apply)

lemma assertHealthy_apply: "assertHealthy d = (case d_fatal d of None \<Rightarrow> (Inr (), d)
    | Some (c, m) \<Rightarrow> (Inl (durable_error c m), d))"
  by (simp add: assertHealthy_def)

lemma setRecovery_apply [simp]: "setRecovery js d = (Inr (), d\<lparr>d_recovery := uniqueRecoveryJobs js\<rparr>)"
  by (simp add: setRecovery_def)

lemma hoare_latch [hoare_rules]: "hoare P (latch c m) Q latched"
  by (simp add: hoare_def latched_def)

lemma hoare_or_latch:
  "hoare P m Q (\<lambda>_ _. True) \<Longrightarrow> hoare P (or_latch c msg m) Q latched"
  unfolding or_latch_def by (rule hoare_scatch, assumption) (rule hoare_latch)

lemma hoare_or_latch_unless_fatal:
  "hoare P m Q (\<lambda>_ _. True) \<Longrightarrow> hoare P (or_latch_unless_fatal p c msg m) Q latched"
  unfolding or_latch_unless_fatal_def
  by (rule hoare_scatch, assumption)
    (auto simp: hoare_def sbind_apply latched_def split: prod.splits sum.splits)

lemma hoare_on_queue:
  "(\<And>d r q'. P d \<Longrightarrow> m (d_registry d) = (r, q') \<Longrightarrow>
     (case r of Inl e \<Rightarrow> E e (d\<lparr>d_registry := q'\<rparr>) | Inr x \<Rightarrow> Q x (d\<lparr>d_registry := q'\<rparr>))) \<Longrightarrow>
   hoare P (on_queue m) Q E"
  by (auto simp: hoare_def on_queue_def split: prod.splits sum.splits)

lemma hoare_on_log:
  "(\<And>d r l'. P d \<Longrightarrow> m (d_record d) = (r, l') \<Longrightarrow>
     (case r of Inl e \<Rightarrow> E e (d\<lparr>d_record := l'\<rparr>) | Inr x \<Rightarrow> Q x (d\<lparr>d_record := l'\<rparr>))) \<Longrightarrow>
   hoare P (on_log m) Q E"
  by (auto simp: hoare_def on_log_def split: prod.splits sum.splits)

text \<open>Parts of the state the loops leave alone.\<close>

lemma hoare_check_recorded:
  assumes "\<And>d q'. P d \<Longrightarrow> P (d\<lparr>d_registry := q'\<rparr>)"
    and "\<And>d i. i \<in> set is \<Longrightarrow> P d \<Longrightarrow> P (d\<lparr>d_pending := insert (recoveryKey i) (d_pending d)\<rparr>)"
  shows "hoare P (check_recorded q is) (\<lambda>_. P) latched"
  using assms(2)
proof (induction "is")
  case Nil
  show ?case unfolding check_recorded.simps by (rule hoare_sret)
next
  case (Cons i "is")
  have getJob: "hoare P (or_latch c m (on_queue (q_getJob q j))) (\<lambda>_. P) latched" for c m j
    by (rule hoare_or_latch, rule hoare_on_queue) (auto simp: assms(1) split: sum.splits)
  have rest: "hoare P (check_recorded q is) (\<lambda>_. P) latched" using Cons by simp
  have "P d \<Longrightarrow> P (d\<lparr>d_pending := insert (recoveryKey i) (d_pending d)\<rparr>)" for d
    using Cons.prems by simp
  then show ?case
    by (simp only: check_recorded.simps, intro hoare_sbind [OF getJob])
      (auto split: option.splits intro!: hoare_if hoare_latch hoare_sbind [OF _ rest] hoare_sret hoare_smod rest)
qed

section \<open>Requests\<close>

datatype durable_request =
    Init
  | Mutate job_request
  | Begin string string
  | Acknowledge string string
  | AcknowledgeAttached "identity option"
  | ReconciliationJob string
  | Read job_request

text \<open>The answers differ in type; a run of requests needs the state only.\<close>

definition map_sm :: "('a \<Rightarrow> 'b) \<Rightarrow> ('s, 'a) sm \<Rightarrow> ('s, 'b) sm" where
  "map_sm f m = sbind m (\<lambda>x. sret (f x))"

lemma hoare_map_sm: "hoare P m (\<lambda>_. Q) E \<Longrightarrow> hoare P (map_sm f m) (\<lambda>_. Q) E"
  unfolding map_sm_def by (rule hoare_sbind, assumption) (rule hoare_sret)

lemma snd_map_sm [simp]: "snd (map_sm f m s) = snd (m s)"
  by (simp add: map_sm_def sbind_apply split: prod.splits sum.splits)

fun handle_durable :: "'q queue_ops \<Rightarrow> 'r log_ops \<Rightarrow> bool \<Rightarrow> (string \<Rightarrow> string \<Rightarrow> js \<Rightarrow> js res) \<Rightarrow> durable_request \<Rightarrow>
    (('q, 'r) durable, unit) sm" where
  "handle_durable q l automatic envelope Init = init_durable q l"
| "handle_durable q l automatic envelope (Mutate r) = map_sm (\<lambda>_. ()) (mutate q l automatic r)"
| "handle_durable q l automatic envelope (Begin s j) = map_sm (\<lambda>_. ()) (beginReconciliation q l s j)"
| "handle_durable q l automatic envelope (Acknowledge s j) = map_sm (\<lambda>_. ()) (acknowledgeReconciliation q l s j)"
| "handle_durable q l automatic envelope (AcknowledgeAttached i) =
     map_sm (\<lambda>_. ()) (acknowledgeAutomaticJobReconciliation q l i)"
| "handle_durable q l automatic envelope (ReconciliationJob j) = map_sm (\<lambda>_. ()) (getReconciliationJob q l envelope j)"
| "handle_durable q l automatic envelope (Read r) = map_sm (\<lambda>_. ()) (read_durable q l r)"

section \<open>The record of interrupted jobs as an interface\<close>

text \<open>
  What the durable queue asks of a record: it can be read once initialised, it holds valid identities with
  distinct keys, and an addition, a removal or a replacement that returns has done just that.
\<close>

locale recovery_log =
  fixes l :: "'r log_ops"
    and view :: "'r \<Rightarrow> identity list"
    and fresh :: "'r \<Rightarrow> bool"
    and ready :: "'r \<Rightarrow> bool"
  assumes log_init: "fresh s \<Longrightarrow> l_init l s = (Inr u, s') \<Longrightarrow> ready s'"
    and log_snapshot: "ready s \<Longrightarrow> l_snapshot l s = (Inr (view s), s)"
    and log_valid: "ready s \<Longrightarrow> i \<in> set (view s) \<Longrightarrow> safeRecoveryJob (id_job i) (id_server i) = Some i"
    and log_distinct: "ready s \<Longrightarrow> distinct (map recoveryKey (view s))"
    and log_replace: "ready s \<Longrightarrow> l_replace l js s = (Inr u, s') \<Longrightarrow> ready s' \<and> rkeys (view s') = rkeys js"
    and log_add: "ready s \<Longrightarrow> l_add l = Some f \<Longrightarrow> f i s = (Inr u, s') \<Longrightarrow>
      ready s' \<and> rkeys (view s') = insert (recoveryKey i) (rkeys (view s))"
    and log_remove: "ready s \<Longrightarrow> l_remove l = Some f \<Longrightarrow> f i s = (Inr u, s') \<Longrightarrow>
      ready s' \<and> rkeys (view s') = rkeys (view s) - {recoveryKey i}"
begin

text \<open>The invariant: memory and record have the same jobs, and only these are pending.\<close>

definition in_sync :: "('q, 'r) durable \<Rightarrow> bool" where
  "in_sync d \<longleftrightarrow> ready (d_record d) \<and> rkeys (d_recovery d) = rkeys (view (d_record d)) \<and>
     d_pending d \<subseteq> rkeys (d_recovery d) \<and> d_explicit d \<subseteq> d_pending d"

definition sound :: "('q, 'r) durable \<Rightarrow> bool" where
  "sound d \<longleftrightarrow> d_fatal d \<noteq> None \<or> (if d_initialized d then in_sync d else fresh (d_record d))"

lemma snapshot_jobs: "ready (d_record d) \<Longrightarrow> recoverySnapshotJobs l d = (Inr (view (d_record d)), d)"
proof -
  assume r: "ready (d_record d)"
  have m: "map (\<lambda>i. safeRecoveryJob (id_job i) (id_server i)) (view (d_record d)) = map Some (view (d_record d))"
    using log_valid [OF r] by simp
  have n: "None \<notin> set (map Some (view (d_record d)))" by auto
  show ?thesis
    by (simp only: recoverySnapshotJobs_def or_latch_def on_log_def sbind_apply scatch_apply log_snapshot [OF r]
        m n Let_def prod.case sum.case if_False sret_apply) (simp add: o_def)
qed

text \<open>An addition, a removal and a replacement change the record only, or latch.\<close>

definition recorded :: "('q, 'r) durable \<Rightarrow> string set \<Rightarrow> ('q, 'r) durable \<Rightarrow> bool" where
  "recorded d K d' \<longleftrightarrow> (\<exists>s. d' = d\<lparr>d_record := s\<rparr> \<and> ready s \<and> rkeys (view s) = K)"

lemma recordedI: "ready s \<Longrightarrow> rkeys (view s) = K \<Longrightarrow> recorded d K (d\<lparr>d_record := s\<rparr>)"
  by (auto simp: recorded_def)

lemma recorded_same: "ready (d_record d) \<Longrightarrow> rkeys (view (d_record d)) = K \<Longrightarrow> recorded d K d"
  unfolding recorded_def by (rule exI [of _ "d_record d"]) simp

lemma hoare_replace:
  "hoare (\<lambda>d. d = d0 \<and> ready (d_record d0)) (replaceRecoveryJobs l js) (\<lambda>_. recorded d0 (rkeys js)) latched"
  unfolding replaceRecoveryJobs_def
  by (intro hoare_or_latch hoare_on_log) (auto split: sum.splits dest: log_replace intro!: recordedI)

lemma hoare_add:
  "hoare (\<lambda>d. d = d0 \<and> ready (d_record d0)) (addRecoveryJob l i)
     (\<lambda>_. recorded d0 (insert (recoveryKey i) (rkeys (view (d_record d0))))) latched"
  unfolding addRecoveryJob_def
proof (rule hoare_or_latch_unless_fatal, goal_cases)
  case 1
  show ?case
  proof (cases "l_add l")
    case (Some f)
    then show ?thesis
      by (auto intro!: hoare_on_log recordedI split: sum.splits dest: log_add)
  next
    case None
    show ?thesis
    proof (cases "list_ex (\<lambda>c. recoveryKey c = recoveryKey i) (view (d_record d0))")
      case True
      then have "insert (recoveryKey i) (rkeys (view (d_record d0))) = rkeys (view (d_record d0))"
        by (simp add: rkeys_mem insert_absorb)
      with True show ?thesis
        by (auto simp: None hoare_def sbind_apply snapshot_jobs on_log_def log_snapshot intro: recorded_same)
    next
      case False
      then show ?thesis
        by (auto simp: None hoare_def sbind_apply snapshot_jobs on_log_def
            split: prod.splits sum.splits dest: log_replace intro!: recordedI)
    qed
  qed
qed

lemma hoare_remove:
  "hoare (\<lambda>d. d = d0 \<and> ready (d_record d0)) (removeRecoveryJob l i)
     (\<lambda>_. recorded d0 (rkeys (view (d_record d0)) - {recoveryKey i})) latched"
  unfolding removeRecoveryJob_def
proof (rule hoare_or_latch_unless_fatal, goal_cases)
  case 1
  show ?case
  proof (cases "l_remove l")
    case (Some f)
    then show ?thesis
      by (auto intro!: hoare_on_log recordedI split: sum.splits dest: log_remove)
  next
    case None
    show ?thesis
      by (auto simp: None hoare_def sbind_apply snapshot_jobs on_log_def
          split: prod.splits sum.splits dest: log_replace intro!: recordedI)
  qed
qed

lemma hoare_sync:
  assumes "rkeys (view (d_record d0)) \<subseteq> rkeys js" "distinct (map recoveryKey js)"
  shows "hoare (\<lambda>d. d = d0 \<and> ready (d_record d0)) (syncRecoveryRecord l js)
    (\<lambda>_. recorded d0 (rkeys js)) latched"
proof (cases "ready (d_record d0)")
  case True
  have "syncRecoveryRecord l js d0 = (if recoveryIdentity (view (d_record d0)) = recoveryIdentity js then sret ()
      else replaceRecoveryJobs l js) d0"
    by (simp add: syncRecoveryRecord_def sbind_apply snapshot_jobs [OF True])
  moreover have "recorded d0 (rkeys js) d0" if "recoveryIdentity (view (d_record d0)) = recoveryIdentity js"
    using recoveryIdentity_eq [OF assms log_distinct [OF True] that] True by (simp add: recorded_same)
  ultimately show ?thesis
    using hoare_replace [of d0 js] True by (auto simp: hoare_def split: if_splits)
qed (simp add: hoare_def)

lemma hoare_detect:
  fixes q :: "'q queue_ops"
  shows "hoare (\<lambda>d. ready (d_record d) \<and> d_initialized d = b) (detectRecovery q l)
     (\<lambda>_ d. in_sync d \<and> d_initialized d = b) latched"
  unfolding detectRecovery_def Let_def
proof (rule hoare_sbind [where R = "\<lambda>_ d. ready (d_record d) \<and> d_initialized d = b"])
  show "hoare (\<lambda>d. ready (d_record d) \<and> d_initialized d = b) (or_latch c m (on_queue (q_running q)))
     (\<lambda>_ d. ready (d_record d) \<and> d_initialized d = b) latched" for c m
    by (intro hoare_or_latch hoare_on_queue) (auto split: sum.splits)
next
  fix running :: "public_job list"
  let ?running = "map (\<lambda>j. safeRecoveryJob (job_id j) (job_serverId j)) running"
  let ?jobs = "\<lambda>stored. uniqueRecoveryJobs (stored @ map the ?running)"
  define Q where "Q stored d = (ready (d_record d) \<and> d_initialized d = b \<and> view (d_record d) = stored \<and>
     d_pending d \<subseteq> rkeys stored \<and> d_explicit d = {})" for stored and d :: "('q, 'r) durable"
  have tail: "hoare (\<lambda>d. Q stored d \<and> rkeys (d_recovery d) = rkeys (?jobs stored)) (syncRecoveryRecord l (?jobs stored))
     (\<lambda>_ d. in_sync d \<and> d_initialized d = b) latched" for stored
  proof (rule hoare_ghost)
    fix d0 :: "('q, 'r) durable"
    assume d0: "Q stored d0 \<and> rkeys (d_recovery d0) = rkeys (?jobs stored)"
    then have "rkeys (view (d_record d0)) \<subseteq> rkeys (?jobs stored)" by (auto simp: Q_def)
    from hoare_sync [OF this uniqueRecoveryJobs_distinct]
    show "hoare (\<lambda>d. d = d0) (syncRecoveryRecord l (?jobs stored)) (\<lambda>_ d. in_sync d \<and> d_initialized d = b) latched"
      by (rule hoare_weaken) (use d0 in \<open>auto simp: Q_def recorded_def in_sync_def\<close>)
  qed
  have snap: "hoare (\<lambda>d. ready (d_record d) \<and> d_initialized d = b) (recoverySnapshotJobs l)
     (\<lambda>stored d. ready (d_record d) \<and> d_initialized d = b \<and> view (d_record d) = stored) latched"
    by (auto simp: hoare_def snapshot_jobs)
  have scan: "hoare (Q stored) (check_recorded q stored) (\<lambda>_. Q stored) latched" for stored
    by (rule hoare_check_recorded) (auto simp: Q_def rkeys_def)
  have clear: "hoare (\<lambda>d. ready (d_record d) \<and> d_initialized d = b \<and> view (d_record d) = stored)
     (smod (\<lambda>d. d\<lparr>d_pending := {}, d_explicit := {}\<rparr>)) (\<lambda>_. Q stored) latched" for stored
    by (auto simp: Q_def hoare_def)
  have set: "hoare (Q stored) (setRecovery (?jobs stored)) (\<lambda>_ d. Q stored d \<and> rkeys (d_recovery d) = rkeys (?jobs stored)) latched"
    for stored
    by (auto simp: Q_def hoare_def)
  show "hoare (\<lambda>d. ready (d_record d) \<and> d_initialized d = b)
     (if None \<in> set ?running
      then latch ''durable_job_recovery_state_invalid'' ''Durable job registry contains invalid running-job identity''
      else sbind (recoverySnapshotJobs l) (\<lambda>storedJobs.
       sbind (smod (\<lambda>d. d\<lparr>d_pending := {}, d_explicit := {}\<rparr>)) (\<lambda>_.
       sbind (check_recorded q storedJobs) (\<lambda>_.
       sbind (setRecovery (?jobs storedJobs)) (\<lambda>_. syncRecoveryRecord l (?jobs storedJobs))))))
     (\<lambda>_ d. in_sync d \<and> d_initialized d = b) latched"
    by (rule hoare_if, rule hoare_latch, rule hoare_sbind, rule snap, rule hoare_sbind, rule clear,
        rule hoare_sbind, rule scan, rule hoare_sbind, rule set, rule tail)
qed

lemma hoare_init:
  fixes q :: "'q queue_ops"
  shows "hoare sound (init_durable q l) (\<lambda>_ d. sound d \<and> d_initialized d) (\<lambda>_. sound)"
proof (rule hoare_ghost)
  fix d0 :: "('q, 'r) durable"
  assume s: "sound d0"
  let ?body = "sbind (on_queue (q_init q)) (\<lambda>_. sbind (initializeRecoveryStore l) (\<lambda>_.
       sbind (detectRecovery q l) (\<lambda>_. smod (\<lambda>d. d\<lparr>d_initialized := True\<rparr>))))"
  have queue: "hoare (\<lambda>d. fresh (d_record d) \<and> \<not> d_initialized d) (on_queue (q_init q))
     (\<lambda>_ d. fresh (d_record d) \<and> \<not> d_initialized d) (\<lambda>_ _. True)"
    by (rule hoare_on_queue) (auto split: sum.splits)
  have log: "hoare (\<lambda>d. fresh (d_record d) \<and> \<not> d_initialized d) (initializeRecoveryStore l)
     (\<lambda>_ d. ready (d_record d) \<and> d_initialized d = False) (\<lambda>_ _. True)"
    unfolding initializeRecoveryStore_def
    by (rule hoare_any_throw, rule hoare_or_latch, rule hoare_on_log) (auto split: sum.splits dest: log_init)
  have det: "hoare (\<lambda>d. ready (d_record d) \<and> d_initialized d = False) (detectRecovery q l)
     (\<lambda>_. in_sync) (\<lambda>_ _. True)"
    by (rule hoare_weaken [OF hoare_detect]) auto
  have body: "hoare (\<lambda>d. fresh (d_record d) \<and> \<not> d_initialized d) ?body (\<lambda>_ d. in_sync d \<and> d_initialized d) (\<lambda>_ _. True)"
    by (rule hoare_sbind [OF queue], rule hoare_sbind [OF log], rule hoare_sbind [OF det], rule hoare_smod)
      (auto simp: in_sync_def)
  have "hoare (\<lambda>d. fresh (d_record d) \<and> \<not> d_initialized d)
      (or_latch_unless_fatal is_durable_error c msg ?body) (\<lambda>_ d. sound d \<and> d_initialized d) (\<lambda>_. sound)" for c msg
    by (rule hoare_weaken [OF hoare_or_latch_unless_fatal [OF body]]) (auto simp: sound_def latched_def)
  then have run: "hoare (\<lambda>d. d = d0) (or_latch_unless_fatal is_durable_error c msg ?body)
      (\<lambda>_ d. sound d \<and> d_initialized d) (\<lambda>_. sound)" if "fresh (d_record d0)" "\<not> d_initialized d0" for c msg
    by (rule hoare_pre) (use that in simp)
  consider "d_initialized d0" | c m where "\<not> d_initialized d0" "d_fatal d0 = Some (c, m)"
    | "\<not> d_initialized d0" "d_fatal d0 = None" by (metis option.exhaust surj_pair)
  then show "hoare (\<lambda>d. d = d0) (init_durable q l) (\<lambda>_ d. sound d \<and> d_initialized d) (\<lambda>_. sound)"
  proof cases
    case 3
    then have "fresh (d_record d0)" using s by (simp add: sound_def)
    with run 3 show ?thesis
      by (simp add: hoare_def init_durable_def sbind_apply assertHealthy_apply)
  qed (use s in \<open>simp_all add: hoare_def init_durable_def sbind_apply assertHealthy_apply\<close>)
qed

text \<open>While it is healthy an initialised queue stays in step; a throw either keeps it so or latches.\<close>

abbreviation serving :: "('q, 'r) durable \<Rightarrow> bool" where
  "serving d \<equiv> in_sync d \<and> d_initialized d"

lemma hoare_reload:
  "hoare (\<lambda>d. d_fatal d = None \<and> in_sync d) (reloadDurableState q l b) (\<lambda>_. serving) latched"
proof -
  have rep: "hoare in_sync (replace_registry q) (\<lambda>_. in_sync) (\<lambda>_ _. True)"
    by (auto simp: hoare_def replace_registry_def in_sync_def split: prod.splits sum.splits)
  have det: "hoare serving (detectRecovery q l) (\<lambda>_. serving) (\<lambda>_ _. True)"
    by (rule hoare_any_throw, rule hoare_weaken [OF hoare_detect [where b = True]]) (auto simp: in_sync_def)
  have init: "hoare in_sync (smod (\<lambda>d. d\<lparr>d_initialized := True\<rparr>)) (\<lambda>_. serving) (\<lambda>_ _. True)"
    by (auto simp: hoare_def in_sync_def)
  have body: "hoare in_sync (sbind (replace_registry q) (\<lambda>_.
        sbind (smod (\<lambda>d. d\<lparr>d_initialized := True\<rparr>)) (\<lambda>_.
        sbind (sget d_recovery) (\<lambda>recovery.
        if b \<or> recovery \<noteq> [] then detectRecovery q l else sret ())))) (\<lambda>_. serving) (\<lambda>_ _. True)"
    by (rule hoare_sbind [OF rep], rule hoare_sbind [OF init], rule hoare_sbind [where R = "\<lambda>_. serving"],
        rule hoare_sget, assumption, rule hoare_if, rule det, rule hoare_sret)
  show ?thesis
    unfolding reloadDurableState_def by (rule hoare_or_latch_unless_fatal, rule hoare_pre [OF body]) simp
qed

definition still :: "jerr \<Rightarrow> ('q, 'r) durable \<Rightarrow> bool" where
  "still e d \<longleftrightarrow> latched e d \<or> serving d"

lemma latched_still: "hoare P m Q latched \<Longrightarrow> hoare P m Q still"
  by (erule hoare_weaken) (auto simp: still_def)

lemma hoare_queue_call: "hoare serving (on_queue m) (\<lambda>_. serving) still"
  by (rule hoare_on_queue) (auto simp: in_sync_def still_def split: sum.splits)

lemma hoare_getJob: "hoare serving (or_latch c msg (on_queue m)) (\<lambda>_. serving) still"
  by (rule latched_still, rule hoare_or_latch, rule hoare_any_throw, rule hoare_queue_call)

text \<open>Recording a job, in the record, the pending keys and the list.\<close>

lemma hoare_note_job:
  fixes f :: "('q, 'r) durable \<Rightarrow> ('q, 'r) durable"
  assumes "\<And>d. d_record (f d) = d_record d \<and> d_initialized (f d) = d_initialized d \<and> d_recovery (f d) = d_recovery d \<and>
     d_pending (f d) = insert (recoveryKey i) (d_pending d) \<and> d_explicit (f d) \<subseteq> insert (recoveryKey i) (d_explicit d)"
  shows "hoare serving (sbind (addRecoveryJob l i) (\<lambda>_. sbind (smod f) (\<lambda>_.
      sbind (sget d_recovery) (\<lambda>recovery. setRecovery (recovery @ [i]))))) (\<lambda>_. serving) still"
proof (rule latched_still, rule hoare_ghost)
  fix d0 :: "('q, 'r) durable"
  assume s: "serving d0"
  show "hoare (\<lambda>d. d = d0) (sbind (addRecoveryJob l i) (\<lambda>_. sbind (smod f) (\<lambda>_.
      sbind (sget d_recovery) (\<lambda>recovery. setRecovery (recovery @ [i]))))) (\<lambda>_. serving) latched"
  proof (rule hoare_sbind, rule hoare_pre [OF hoare_add])
    show "d = d0 \<Longrightarrow> d = d0 \<and> ready (d_record d0)" for d using s by (simp add: in_sync_def)
    show "hoare (recorded d0 (insert (recoveryKey i) (rkeys (view (d_record d0)))))
       (sbind (smod f) (\<lambda>_. sbind (sget d_recovery) (\<lambda>recovery. setRecovery (recovery @ [i]))))
       (\<lambda>_. serving) latched"
    proof (rule hoareI)
      fix d r d'
      assume "recorded d0 (insert (recoveryKey i) (rkeys (view (d_record d0)))) d"
      then obtain t where t: "d = d0\<lparr>d_record := t\<rparr>" "ready t"
        "rkeys (view t) = insert (recoveryKey i) (rkeys (view (d_record d0)))" by (auto simp: recorded_def)
      assume "sbind (smod f) (\<lambda>_. sbind (sget d_recovery) (\<lambda>recovery. setRecovery (recovery @ [i]))) d = (Inr r, d')"
      then have d': "d' = (f d)\<lparr>d_recovery := uniqueRecoveryJobs (d_recovery (f d) @ [i])\<rparr>"
        by (simp add: sbind_apply)
      have "d_explicit (f d) \<subseteq> insert (recoveryKey i) (d_explicit d0)" using assms [of d] t(1) by simp
      with s show "serving d'" using assms [of d] t by (auto simp: d' in_sync_def)
    qed (simp add: sbind_apply)
  qed
qed

lemma hoare_prepare:
  "hoare serving (prepareAutomaticReconciliation q l automatic req) (\<lambda>_. serving) still"
proof -
  have note_it: "hoare serving (case found of None \<Rightarrow> sret ()
      | Some job \<Rightarrow> if job_serverId job = id_server i \<and> job_status job = JobRunning
          then sbind (addRecoveryJob l i) (\<lambda>_.
            sbind (smod (\<lambda>d. d\<lparr>d_pending := insert (recoveryKey i) (d_pending d)\<rparr>)) (\<lambda>_.
            sbind (sget d_recovery) (\<lambda>recovery. setRecovery (recovery @ [i]))))
          else sret ()) (\<lambda>_. serving) still" for i found
    by (rule hoare_case_option, rule hoare_sret, assumption, rule hoare_if, rule hoare_note_job, auto intro: hoare_sret)
  show ?thesis
    unfolding prepareAutomaticReconciliation_def Let_def
    by (rule hoare_if, rule hoare_sret, assumption, rule hoare_case_option, rule hoare_sret, assumption,
        rule hoare_sbind [where R = "\<lambda>_. serving"], rule hoare_sget, assumption, rule hoare_if, rule hoare_sret, assumption,
        rule hoare_sbind [OF hoare_getJob], rule hoare_sbind [OF note_it], rule hoare_sret)
qed

text \<open>Forgetting a job: removed from the record, then from memory by the next scan or by hand.\<close>

lemma hoare_remove_detect:
  fixes q :: "'q queue_ops"
  shows "hoare serving (sbind (removeRecoveryJob l i) (\<lambda>_. sbind (detectRecovery q l) (\<lambda>_. sret x))) (\<lambda>_. serving) latched"
proof (rule hoare_ghost)
  fix d0 :: "('q, 'r) durable"
  assume s: "serving d0"
  show "hoare (\<lambda>d. d = d0) (sbind (removeRecoveryJob l i) (\<lambda>_. sbind (detectRecovery q l) (\<lambda>_. sret x)))
     (\<lambda>_. serving) latched"
  proof (rule hoare_sbind, rule hoare_pre [OF hoare_remove])
    show "d = d0 \<Longrightarrow> d = d0 \<and> ready (d_record d0)" for d using s by (simp add: in_sync_def)
    show "hoare (recorded d0 (rkeys (view (d_record d0)) - {recoveryKey i}))
       (sbind (detectRecovery q l) (\<lambda>_. sret x)) (\<lambda>_. serving) latched"
    proof (rule hoare_sbind [where R = "\<lambda>_. serving"])
      have "recorded d0 K d \<Longrightarrow> ready (d_record d) \<and> d_initialized d = True" for K d
        using s by (auto simp: recorded_def)
      then show "hoare (recorded d0 (rkeys (view (d_record d0)) - {recoveryKey i})) (detectRecovery q l)
          (\<lambda>_. serving) latched"
        by (rule hoare_weaken [OF hoare_detect [where b = True]]) simp_all
    qed (rule hoare_sret)
  qed
qed

lemma hoare_mutation: "hoare serving (mutation q l automatic req) (\<lambda>_. serving) still"
  unfolding mutation_def Let_def
  by (rule hoare_sbind [where R = "\<lambda>_. serving"], rule hoare_if, rule hoare_prepare, rule hoare_sret, assumption,
      rule hoare_sbind [OF hoare_queue_call], rule hoare_if, rule hoare_sret, assumption,
      rule hoare_case_option, rule hoare_sret, assumption,
      rule hoare_sbind [where R = "\<lambda>_. serving"], rule hoare_sget, assumption, rule hoare_case_prod,
      rule hoare_if, rule hoare_sret, assumption,
      rule hoare_if, rule latched_still, rule hoare_remove_detect, rule hoare_sret)

lemma hoare_assertHealthy: "hoare (\<lambda>d. sound d \<and> d_initialized d) assertHealthy
    (\<lambda>_ d. serving d \<and> d_fatal d = None) (\<lambda>_. sound)"
  by (auto simp: hoare_def assertHealthy_apply sound_def split: option.splits)

lemma sound_still: "still e d \<Longrightarrow> sound d"
  by (auto simp: still_def sound_def latched_def)

lemma sound_latched: "latched e d \<Longrightarrow> sound d"
  by (auto simp: sound_def latched_def)

lemma sound_serving: "serving d \<Longrightarrow> sound d \<and> d_initialized d"
  by (auto simp: sound_def)

lemma hoare_served:
  "hoare serving m (\<lambda>_. serving) E \<Longrightarrow> hoare serving m (\<lambda>_ d. sound d \<and> d_initialized d) E"
  by (erule hoare_weaken) (simp_all add: sound_def)

lemma hoare_mutate:
  "hoare sound (mutate q l automatic req) (\<lambda>_ d. sound d \<and> d_initialized d) (\<lambda>_. sound)"
proof -
  have allowed: "hoare (\<lambda>d. sound d \<and> d_initialized d) (assertMutationAllowed m)
      (\<lambda>_ d. serving d \<and> d_fatal d = None) (\<lambda>_. sound)" for m
    unfolding assertMutationAllowed_def
    by (rule hoare_sbind [OF hoare_assertHealthy],
        rule hoare_sbind [where R = "\<lambda>_ d. serving d \<and> d_fatal d = None"], rule hoare_sget, assumption)
      (auto intro!: hoare_if hoare_sthrow hoare_sret simp: sound_def)
  have reload: "hoare (\<lambda>d. d_fatal d = None \<and> in_sync d \<and> d_initialized d)
      (sbind (reloadDurableState q l b) (\<lambda>_. sthrow e)) (\<lambda>_ d. sound d \<and> d_initialized d) (\<lambda>_. sound)" for b e
    by (rule hoare_sbind [where R = "\<lambda>_. serving"], rule hoare_weaken [OF hoare_reload])
      (auto intro!: hoare_sthrow intro: sound_latched sound_serving [THEN conjunct1])
  have handler: "hoare (still e)
      (sbind (sget d_fatal) (\<lambda>f. if f \<noteq> None then sthrow e else sbind (reloadDurableState q l b) (\<lambda>_. sthrow e)))
      (\<lambda>_ d. sound d \<and> d_initialized d) (\<lambda>_. sound)" for b e
  proof (rule hoare_sbind [where R = "\<lambda>f d. f = d_fatal d \<and> still e d"])
    show "hoare (still e) (sget d_fatal) (\<lambda>f d. f = d_fatal d \<and> still e d) (\<lambda>_. sound)"
      by (rule hoare_sget) simp
    show "hoare (\<lambda>d. f = d_fatal d \<and> still e d)
        (if f \<noteq> None then sthrow e else sbind (reloadDurableState q l b) (\<lambda>_. sthrow e))
        (\<lambda>_ d. sound d \<and> d_initialized d) (\<lambda>_. sound)" for f
      by (rule hoare_if, rule hoare_sthrow, erule conjE, erule sound_still, rule hoare_pre [OF reload])
        (auto simp: still_def latched_def simp del: not_None_eq)
  qed
  show ?thesis
    unfolding mutate_def
    by (rule hoare_sbind [OF hoare_init], rule hoare_sbind [OF allowed], rule hoare_scatch,
        rule hoare_pre [OF hoare_served [OF hoare_mutation]], erule conjunct1, rule handler)
qed

lemma hoare_sound_throw: "hoare P m Q still \<Longrightarrow> hoare P m Q (\<lambda>_. sound)"
  by (erule hoare_weaken) (auto intro: sound_still)

lemma hoare_reconciliation_job:
  "hoare (\<lambda>d. sound d \<and> d_initialized d) (reconciliation_job q sid jid) (\<lambda>_. serving) (\<lambda>_. sound)"
  unfolding reconciliation_job_def
  by (rule hoare_sbind [OF hoare_assertHealthy], rule hoare_case_option, rule hoare_sthrow, simp add: sound_def,
      rule hoare_sbind [where R = "\<lambda>_. serving"], rule hoare_sound_throw, rule hoare_pre [OF hoare_getJob], simp,
      rule hoare_case_option, rule hoare_sthrow, simp add: sound_def, rule hoare_if, rule hoare_sthrow, simp add: sound_def,
      rule hoare_sret)

lemma hoare_begin: "hoare sound (beginReconciliation q l sid jid) (\<lambda>_ d. sound d \<and> d_initialized d) (\<lambda>_. sound)"
proof -
  have note_it: "hoare serving (sbind (addRecoveryJob l i) (\<lambda>_.
      sbind (smod (\<lambda>d. d\<lparr>d_pending := insert (recoveryKey i) (d_pending d),
          d_explicit := insert (recoveryKey i) (d_explicit d)\<rparr>)) (\<lambda>_.
      sbind (sget d_recovery) (\<lambda>recovery.
      sbind (setRecovery (recovery @ [i])) (\<lambda>_. sret x))))) (\<lambda>_. serving) still" for i and x :: "job_status \<times> bool"
  proof -
    let ?f = "\<lambda>d. d\<lparr>d_pending := insert (recoveryKey i) (d_pending d), d_explicit := insert (recoveryKey i) (d_explicit d)\<rparr>"
    have "hoare serving (sbind (sbind (addRecoveryJob l i) (\<lambda>_. sbind (smod ?f) (\<lambda>_.
      sbind (sget d_recovery) (\<lambda>recovery. setRecovery (recovery @ [i]))))) (\<lambda>_. sret x)) (\<lambda>_. serving) still"
      by (rule hoare_sbind, rule hoare_note_job, simp, rule hoare_sret)
    then show ?thesis by (simp only: sbind_assoc)
  qed
  show ?thesis
    unfolding beginReconciliation_def Let_def
    by (rule hoare_sbind [OF hoare_init], rule hoare_sbind [OF hoare_reconciliation_job], rule hoare_case_prod,
        rule hoare_sound_throw, rule hoare_served, rule hoare_if, rule hoare_sbind [where R = "\<lambda>_. serving"],
        rule hoare_sget, assumption, rule hoare_sret, assumption, rule hoare_if, rule hoare_sthrow, simp add: still_def,
        rule note_it)
qed

text \<open>Dropping a job once it is acknowledged, or was never recorded.\<close>

lemma hoare_acknowledge:
  fixes q :: "'q queue_ops"
  shows "hoare sound (acknowledgeReconciliation q l sid jid) (\<lambda>_ d. sound d \<and> d_initialized d) (\<lambda>_. sound)"
proof -
  have drop_it: "hoare (serving :: ('q, 'r) durable \<Rightarrow> bool) (sbind (removeRecoveryJob l i) (\<lambda>_.
         sbind (smod (\<lambda>d. d\<lparr>d_pending := d_pending d - {recoveryKey i}, d_explicit := d_explicit d - {recoveryKey i}\<rparr>)) (\<lambda>_.
         sbind (sget d_recovery) (\<lambda>recovery.
         sbind (setRecovery (filter (\<lambda>c. recoveryKey c \<noteq> recoveryKey i) recovery)) (\<lambda>_. sret x)))))
      (\<lambda>_. serving) still" for i and x :: "job_status \<times> bool"
  proof (rule latched_still, rule hoare_ghost)
    fix d0 :: "('q, 'r) durable"
    assume s: "serving d0"
    then have "\<And>d. d = d0 \<Longrightarrow> d = d0 \<and> ready (d_record d0)" by (simp add: in_sync_def)
    note remove = hoare_pre [OF hoare_remove this]
    show "hoare (\<lambda>d. d = d0) (sbind (removeRecoveryJob l i) (\<lambda>_.
         sbind (smod (\<lambda>d. d\<lparr>d_pending := d_pending d - {recoveryKey i}, d_explicit := d_explicit d - {recoveryKey i}\<rparr>)) (\<lambda>_.
         sbind (sget d_recovery) (\<lambda>recovery.
         sbind (setRecovery (filter (\<lambda>c. recoveryKey c \<noteq> recoveryKey i) recovery)) (\<lambda>_. sret x)))))
      (\<lambda>_. serving) latched"
    proof (rule hoare_sbind)
      show "hoare (\<lambda>d. d = d0) (removeRecoveryJob l i)
          (\<lambda>_. recorded d0 (rkeys (view (d_record d0)) - {recoveryKey i})) latched"
        by (rule remove)
    qed (use s in \<open>auto simp: hoare_def recorded_def in_sync_def sbind_apply\<close>)
  qed
  have forget: "hoare serving (sbind (smod (\<lambda>d. d\<lparr>d_explicit := d_explicit d - {k}\<rparr>)) (\<lambda>_. sret x)) (\<lambda>_. serving) still"
    for k and x :: "job_status \<times> bool"
    by (auto simp: hoare_def in_sync_def sbind_apply)
  have snap: "hoare serving (recoverySnapshotJobs l) (\<lambda>_. serving) still"
    by (auto simp: hoare_def snapshot_jobs in_sync_def)
  show ?thesis
    unfolding acknowledgeReconciliation_def Let_def
    by (rule hoare_sbind [OF hoare_init], rule hoare_sbind [OF hoare_reconciliation_job], rule hoare_case_prod,
        rule hoare_sound_throw, rule hoare_served, rule hoare_if, rule hoare_sthrow, simp add: still_def,
        rule hoare_sbind [OF snap], rule hoare_if, rule hoare_sbind [where R = "\<lambda>_. serving"],
        rule hoare_sget, assumption, rule hoare_if, rule latched_still, rule hoare_latch, rule forget, rule drop_it)
qed

lemma hoare_acknowledge_automatic:
  "hoare sound (acknowledgeAutomaticJobReconciliation q l i) (\<lambda>_. sound) (\<lambda>_. sound)"
  unfolding acknowledgeAutomaticJobReconciliation_def
  by (rule hoare_case_option, rule hoare_sret, assumption, rule hoare_sbind [OF hoare_acknowledge], rule hoare_sret, simp)

lemma hoare_read: "hoare sound (read_durable q l req) (\<lambda>_. sound) (\<lambda>_. sound)"
  unfolding read_durable_def
  by (rule hoare_sbind [OF hoare_init], rule hoare_sbind [OF hoare_assertHealthy],
      rule hoare_sound_throw, rule hoare_weaken [OF hoare_queue_call]) (auto simp: sound_def)

lemma hoare_get_reconciliation:
  fixes q :: "'q queue_ops"
  shows "hoare sound (getReconciliationJob q l envelope jid) (\<lambda>_. sound) (\<lambda>_. sound)"
proof -
  have get: "hoare serving (scatch (on_queue m) (\<lambda>_. sthrow e)) (\<lambda>_. serving) still" 
    for m :: "('q, public_job option) sm" and e
    by (rule hoare_scatch [OF hoare_queue_call], rule hoare_sthrow) (simp add: still_def latched_def)
  show ?thesis
    unfolding getReconciliationJob_def Let_def
    by (rule hoare_sbind [OF hoare_init], rule hoare_sbind [OF hoare_assertHealthy],
        rule hoare_sound_throw, rule hoare_weaken [where P' = serving and Q' = "\<lambda>_. serving" and E' = still], rule hoare_sbind [OF get],
        rule hoare_case_option, rule hoare_sret, assumption, rule hoare_sbind [where R = "\<lambda>_. serving"],
        rule hoare_sget, assumption, rule hoare_case_prod, rule hoare_slift)
      (simp_all add: still_def sound_def)
qed

lemma hoare_handle: "hoare sound (handle_durable q l automatic envelope r) (\<lambda>_. sound) (\<lambda>_. sound)"
  by (cases r) (auto intro!: hoare_map_sm hoare_mutate [THEN hoare_weaken] hoare_init [THEN hoare_weaken]
      hoare_begin [THEN hoare_weaken] hoare_acknowledge [THEN hoare_weaken] hoare_acknowledge_automatic
      hoare_read hoare_get_reconciliation)

text \<open>A completion of a running job leaves its key pending, so recorded.\<close>

lemma hoare_prepare_running:
  assumes "input_identity req = Some i"
  shows "hoare (\<lambda>d. serving d \<and> (\<exists>j. q_getJob q (id_job i) (d_registry d) = (Inr (Some j), d_registry d) \<and>
        job_serverId j = id_server i \<and> job_status j = JobRunning))
     (prepareAutomaticReconciliation q l True req)
     (\<lambda>p d. serving d \<and> recoveryKey i \<in> d_pending d \<and>
        (\<exists>x. p = Some (i, x) \<and> (x \<longrightarrow> recoveryKey i \<in> d_explicit d))) (\<lambda>_ _. True)"
    (is "hoare ?P _ ?Q _")
proof (rule hoareI)
  fix d p d'
  assume P: "?P d" and r: "prepareAutomaticReconciliation q l True req d = (Inr p, d')"
  have s: "serving d'"
    by (rule hoareD_ret [OF hoare_prepare _ r]) (use P in simp)
  show "?Q p d'"
  proof (cases "recoveryKey i \<in> d_explicit d")
    case True
    then have "p = Some (i, True)" "d' = d"
      using r assms by (auto simp: prepareAutomaticReconciliation_def Let_def sbind_apply)
    with True P show ?thesis by (auto simp: in_sync_def)
  next
    case False
    obtain j where j: "q_getJob q (id_job i) (d_registry d) = (Inr (Some j), d_registry d)"
      "job_serverId j = id_server i" "job_status j = JobRunning" using P by auto
    have "p = Some (i, False) \<and> recoveryKey i \<in> d_pending d'"
      using r j False assms
      by (auto simp: prepareAutomaticReconciliation_def Let_def sbind_apply or_latch_def scatch_apply on_queue_def
          split: prod.splits sum.splits)
    with s show ?thesis by blast
  qed
qed simp

lemma mutation_keeps_pending:
  assumes c: "method_of req = MComplete" "input_identity req = Some i" "serving d"
    and j: "q_getJob q (id_job i) (d_registry d) = (Inr (Some j), d_registry d)"
      "job_serverId j = id_server i" "job_status j = JobRunning"
    and m: "mutation q l True req d = (Inr (answer, ack), d')"
  shows "serving d' \<and> recoveryKey i \<in> d_pending d' \<and> (ack = Some i \<or> recoveryKey i \<in> d_explicit d')"
proof (cases "prepareAutomaticReconciliation q l True req d")
  case p: (Pair r1 d1)
  show ?thesis
  proof (cases r1)
    case (Inl e)
    with p m c(1) show ?thesis by (simp add: mutation_def sbind_apply)
  next
    case (Inr pr)
    have "serving d1 \<and> recoveryKey i \<in> d_pending d1 \<and> (\<exists>x. pr = Some (i, x) \<and> (x \<longrightarrow> recoveryKey i \<in> d_explicit d1))"
      by (rule hoareD_ret [OF hoare_prepare_running [OF c(2)] _ p [unfolded Inr]]) (use c(3) j in blast)
    then obtain x where x: "serving d1" "recoveryKey i \<in> d_pending d1" "pr = Some (i, x)"
      "x \<longrightarrow> recoveryKey i \<in> d_explicit d1" by blast
    show ?thesis
    proof (cases "on_queue (q_call q req) d1")
      case q: (Pair r2 d2)
      then obtain t where d2: "d2 = d1\<lparr>d_registry := t\<rparr>" by (auto simp: on_queue_def split: prod.splits)
      have "d' = d2 \<and> (ack = Some i \<or> x)"
        using m c(1) x p Inr q d2 by (cases r2) (auto simp: mutation_def sbind_apply Let_def split: if_splits)
      with x d2 show ?thesis by (auto simp: in_sync_def)
    qed
  qed
qed

end

section \<open>What initialisation establishes\<close>

text \<open>A triple for facts about what is returned.\<close>

lemma hoare_returns_or_latch:
  "hoare P m Q (\<lambda>_ _. True) \<Longrightarrow> hoare P (or_latch c msg m) Q (\<lambda>_ _. True)"
  "hoare P m Q (\<lambda>_ _. True) \<Longrightarrow> hoare P (or_latch_unless_fatal p c msg m) Q (\<lambda>_ _. True)"
  by (rule hoare_any_throw, erule hoare_or_latch) (rule hoare_any_throw, erule hoare_or_latch_unless_fatal)

lemma hoare_latch_never: "hoare P (latch c m) Q (\<lambda>_ _. True)"
  by (simp add: hoare_def)

text \<open>\<open>stable P\<close>: no operation on the registry, the record or the pending keys changes \<open>P\<close>.\<close>

definition stable :: "(('q, 'r) durable \<Rightarrow> bool) \<Rightarrow> bool" where
  "stable P \<longleftrightarrow> (\<forall>d q r k. P d \<longrightarrow> P (d\<lparr>d_registry := q\<rparr>) \<and> P (d\<lparr>d_record := r\<rparr>) \<and> P (d\<lparr>d_pending := k\<rparr>) \<and>
     P (d\<lparr>d_explicit := k\<rparr>))"

lemma hoare_stable_calls:
  assumes "stable P"
  shows "hoare P (on_queue m) (\<lambda>_. P) (\<lambda>_ _. True)" "hoare P (on_log k) (\<lambda>_. P) (\<lambda>_ _. True)"
  using assms by (auto simp: hoare_def on_queue_def on_log_def stable_def split: prod.splits sum.splits)

lemma hoare_stable_sync:
  assumes "stable P"
  shows "hoare P (recoverySnapshotJobs l) (\<lambda>_. P) (\<lambda>_ _. True)"
    and "hoare P (syncRecoveryRecord l js) (\<lambda>_. P) (\<lambda>_ _. True)"
    and "hoare P (check_recorded q is) (\<lambda>_. P) (\<lambda>_ _. True)"
proof -
  show snap: "hoare P (recoverySnapshotJobs l) (\<lambda>_. P) (\<lambda>_ _. True)"
    unfolding recoverySnapshotJobs_def Let_def
    by (rule hoare_sbind, rule hoare_returns_or_latch, rule hoare_stable_calls [OF assms], rule hoare_if,
        rule hoare_latch_never, rule hoare_sret, assumption)
  show "hoare P (syncRecoveryRecord l js) (\<lambda>_. P) (\<lambda>_ _. True)"
    unfolding syncRecoveryRecord_def replaceRecoveryJobs_def
    by (rule hoare_sbind [OF snap], rule hoare_if, rule hoare_sret, assumption, rule hoare_returns_or_latch,
        rule hoare_stable_calls [OF assms])
  show "hoare P (check_recorded q is) (\<lambda>_. P) (\<lambda>_ _. True)"
    by (rule hoare_any_throw, rule hoare_check_recorded) (use assms in \<open>simp_all add: stable_def\<close>)
qed

definition running_key :: "public_job \<Rightarrow> string" where
  "running_key j = job_serverId j @ '':'' @ job_id j"

lemma safeRecoveryJob_key: "safeRecoveryJob i s = Some k \<Longrightarrow> recoveryKey k = s @ '':'' @ i"
  by (auto simp: safeRecoveryJob_def recoveryKey_def split: if_splits)

text \<open>A scan that returns leaves the queue healthy if it was, and holds back every running job.\<close>

lemma hoare_detect_running:
  fixes q :: "'q queue_ops" and l :: "'r log_ops"
  assumes running: "\<And>d :: ('q, 'r) durable. I d \<Longrightarrow> q_running q (d_registry d) = (Inr js, d_registry d)"
  shows "hoare (\<lambda>d. I d \<and> d_fatal d = None) (detectRecovery q l)
    (\<lambda>_ d. d_fatal d = None \<and> running_key ` set js \<subseteq> rkeys (d_recovery d)) (\<lambda>_ _. True)"
proof -
  let ?P = "\<lambda>d :: ('q, 'r) durable. d_fatal d = None"
  let ?Q = "\<lambda>d :: ('q, 'r) durable. d_fatal d = None \<and> running_key ` set js \<subseteq> rkeys (d_recovery d)"
  have st: "stable ?P" "stable ?Q" by (simp_all add: stable_def)
  have run: "hoare (\<lambda>d. I d \<and> d_fatal d = None) (or_latch c m (on_queue (q_running q)))
      (\<lambda>r d. r = js \<and> d_fatal d = None) (\<lambda>_ _. True)" for c m
    by (rule hoare_returns_or_latch, rule hoare_on_queue) (auto simp: running)
  have keys: "running_key ` set js \<subseteq> rkeys (uniqueRecoveryJobs (stored @ map the (map (\<lambda>j. safeRecoveryJob (job_id j) (job_serverId j)) js)))"
    if "None \<notin> set (map (\<lambda>j. safeRecoveryJob (job_id j) (job_serverId j)) js)" for stored
  proof (rule image_subsetI)
    fix j
    assume j: "j \<in> set js"
    with that obtain k where k: "safeRecoveryJob (job_id j) (job_serverId j) = Some k"
      by (cases "safeRecoveryJob (job_id j) (job_serverId j)") force+
    have "k \<in> set (map the (map (\<lambda>j. safeRecoveryJob (job_id j) (job_serverId j)) js))"
      using imageI [OF j, of "\<lambda>j. the (safeRecoveryJob (job_id j) (job_serverId j))"] k by simp
    then have "recoveryKey k \<in> recoveryKey ` set (stored @ map the (map (\<lambda>j. safeRecoveryJob (job_id j) (job_serverId j)) js))"
      by (intro imageI) (simp only: set_append Un_iff simp_thms)
    then have "running_key j \<in> rkeys (stored @ map the (map (\<lambda>j. safeRecoveryJob (job_id j) (job_serverId j)) js))"
      unfolding rkeys_def safeRecoveryJob_key [OF k] running_key_def .
    then show "running_key j \<in> rkeys (uniqueRecoveryJobs (stored @ map the (map (\<lambda>j. safeRecoveryJob (job_id j) (job_serverId j)) js)))"
      by (simp only: uniqueRecoveryJobs_keys)
  qed
  have rest: "hoare ?P
     (if None \<in> set (map (\<lambda>j. safeRecoveryJob (job_id j) (job_serverId j)) js) then latch c m
      else sbind (recoverySnapshotJobs l) (\<lambda>stored.
       sbind (smod (\<lambda>d. d\<lparr>d_pending := {}, d_explicit := {}\<rparr>)) (\<lambda>_.
       sbind (check_recorded q stored) (\<lambda>_.
       sbind (setRecovery (uniqueRecoveryJobs (stored @ map the (map (\<lambda>j. safeRecoveryJob (job_id j) (job_serverId j)) js))))
         (\<lambda>_. syncRecoveryRecord l (uniqueRecoveryJobs (stored @ map the (map (\<lambda>j. safeRecoveryJob (job_id j) (job_serverId j)) js))))))))
     (\<lambda>_. ?Q) (\<lambda>_ _. True)" for c m
  proof (cases "None \<in> set (map (\<lambda>j. safeRecoveryJob (job_id j) (job_serverId j)) js)")
    case False
    have set: "hoare ?P (setRecovery (uniqueRecoveryJobs (stored @ map the (map (\<lambda>j. safeRecoveryJob (job_id j) (job_serverId j)) js))))
        (\<lambda>_. ?Q) (\<lambda>_ _. True)" for stored
      using keys [OF False, of stored] by (simp add: hoare_def)
    have clear: "hoare ?P (smod (\<lambda>d. d\<lparr>d_pending := {}, d_explicit := {}\<rparr>)) (\<lambda>_. ?P) (\<lambda>_ _. True)"
      by (simp add: hoare_def)
    show ?thesis
      unfolding if_not_P [OF False]
      by (rule hoare_sbind [OF hoare_stable_sync(1) [OF st(1)]], rule hoare_sbind [OF clear],
          rule hoare_sbind [OF hoare_stable_sync(3) [OF st(1)]], rule hoare_sbind [OF set], rule hoare_stable_sync(2) [OF st(2)])
  qed (simp add: hoare_latch_never)
  show ?thesis
    unfolding detectRecovery_def Let_def
  proof (rule hoare_sbind [OF run], goal_cases)
    case (1 r)
    show ?case
    proof (cases "r = js")
      case True
      show ?thesis unfolding True by (rule hoare_pre [OF rest]) (rule conjunct2)
    qed (simp add: hoare_def)
  qed
qed

end
