(* ===== verification/DurableQueue.thy ===== *)
theory DurableQueue
  imports DurableProofs
begin

text \<open>
  The registry of jobs the durable queue relies on, as an interface (\<open>job_queue\<close>), and what follows
  from its laws: the registry it shows is what its file holds at every step.
\<close>

text \<open>Reads go to the reads of the registry.\<close>

fun well_addressed :: "durable_request \<Rightarrow> bool" where
  "well_addressed (Read r) = (method_of r = MRead)"
| "well_addressed _ = True"

section \<open>The queue as an interface\<close>

text \<open>
  What the durable queue asks of a registry of jobs: reads tell what it holds and change nothing, and
  once it has loaded, and after every call that returns, it holds what its file holds.
\<close>

locale job_queue =
  fixes q :: "'q queue_ops"
    and jobs :: "'q \<Rightarrow> public_job list"
    and settled :: "'q \<Rightarrow> bool"
    and virgin :: "'q \<Rightarrow> bool"
  assumes queue_init: "virgin s \<Longrightarrow> q_init q s = (Inr u, s') \<Longrightarrow> settled s'"
    and queue_fresh: "virgin (q_fresh q s)"
    and queue_running: "settled s \<Longrightarrow> q_running q s = (Inr (filter (\<lambda>j. job_status j = JobRunning) (jobs s)), s)"
    and queue_getJob: "settled s \<Longrightarrow> q_getJob q i s = (Inr (find (\<lambda>j. job_id j = i) (jobs s)), s)"
    and queue_call: "settled s \<Longrightarrow> q_call q r s = (Inr v, s') \<Longrightarrow> settled s'"
    and queue_read: "settled s \<Longrightarrow> method_of r = MRead \<Longrightarrow> q_call q r s = (x, s') \<Longrightarrow> s' = s"
begin

definition backed :: "('q, 'r) durable \<Rightarrow> bool" where
  "backed d \<longleftrightarrow> d_fatal d \<noteq> None \<or> (if d_initialized d then settled (d_registry d) else virgin (d_registry d))"

abbreviation up :: "('q, 'r) durable \<Rightarrow> bool" where
  "up d \<equiv> settled (d_registry d) \<and> d_initialized d"

definition up_or_latched :: "jerr \<Rightarrow> ('q, 'r) durable \<Rightarrow> bool" where
  "up_or_latched e d \<longleftrightarrow> latched e d \<or> up d"

lemma backed_if_up: "settled (d_registry d) \<Longrightarrow> d_initialized d \<Longrightarrow> backed d"
  by (simp add: backed_def)

lemma backed_up_or_latched: "up_or_latched e d \<Longrightarrow> backed d"
  by (auto simp: up_or_latched_def backed_def latched_def)

text \<open>Operations that leave the registry and the initialisation alone.\<close>

definition same_queue :: "(('q, 'r) durable, 'a) sm \<Rightarrow> bool" where
  "same_queue m \<longleftrightarrow> (\<forall>s b. keeps (\<lambda>d. d_registry d = s \<and> d_initialized d = b) m)"

lemma same_queue_rules:
  "same_queue (sret x)" "same_queue (sthrow e)" "same_queue (slift r)" "same_queue (sget g)" "same_queue (latch c m)"
  "same_queue (on_log k)" "same_queue assertHealthy" "same_queue (setRecovery js)"
  "(\<And>d. d_registry (h d) = d_registry d \<and> d_initialized (h d) = d_initialized d) \<Longrightarrow> same_queue (smod h)"
  by (auto simp: same_queue_def keeps_def on_log_def assertHealthy_apply setRecovery_def split: prod.splits option.splits)

lemma same_queue_bind: "same_queue m \<Longrightarrow> (\<And>x. same_queue (f x)) \<Longrightarrow> same_queue (sbind m f)"
  by (simp add: same_queue_def keeps_sbind)

lemma same_queue_catch: "same_queue m \<Longrightarrow> (\<And>e. same_queue (h e)) \<Longrightarrow> same_queue (scatch m h)"
  by (simp add: same_queue_def keeps_scatch)

lemma same_queue_latch:
  "same_queue m \<Longrightarrow> same_queue (or_latch c msg m)"
  "same_queue m \<Longrightarrow> same_queue (or_latch_unless_fatal p c msg m)"
  by (auto simp: or_latch_def or_latch_unless_fatal_def intro!: same_queue_catch same_queue_bind same_queue_rules)

lemma same_queue_log:
  "same_queue (recoverySnapshotJobs l)" "same_queue (replaceRecoveryJobs l js)" "same_queue (addRecoveryJob l i)"
  "same_queue (removeRecoveryJob l i)" "same_queue (syncRecoveryRecord l js)" "same_queue (initializeRecoveryStore l)"
proof -
  show 1: "same_queue (recoverySnapshotJobs l)"
    by (auto simp: recoverySnapshotJobs_def Let_def intro!: same_queue_latch same_queue_bind same_queue_rules)
  show 2: "same_queue (replaceRecoveryJobs l js)" for js
    by (auto simp: replaceRecoveryJobs_def intro!: same_queue_latch same_queue_rules)
  show "same_queue (addRecoveryJob l i)" "same_queue (removeRecoveryJob l i)"
    by (auto simp: addRecoveryJob_def removeRecoveryJob_def split: option.splits
        intro!: same_queue_latch same_queue_bind same_queue_rules 1)
  show "same_queue (syncRecoveryRecord l js)"
    by (auto simp: syncRecoveryRecord_def intro!: same_queue_bind 1 2 same_queue_rules)
  show "same_queue (initializeRecoveryStore l)"
    by (auto simp: initializeRecoveryStore_def intro!: same_queue_latch same_queue_rules)
qed

lemma hoare_same_queue:
  fixes m :: "(('q, 'r) durable, 'a) sm"
  assumes "same_queue m"
  shows "hoare (\<lambda>d. settled (d_registry d) \<and> d_initialized d = b) m (\<lambda>_ d. settled (d_registry d) \<and> d_initialized d = b)
    (\<lambda>_ d. settled (d_registry d) \<and> d_initialized d = b)"
proof -
  have "keeps (\<lambda>d. settled (d_registry d) \<and> d_initialized d = b) m"
  proof (rule keepsI)
    fix d :: "('q, 'r) durable"
    assume d: "settled (d_registry d) \<and> d_initialized d = b"
    from assms have "keeps (\<lambda>t. d_registry t = d_registry d \<and> d_initialized t = b) m" by (simp add: same_queue_def)
    from keepsD [OF this, of d] d show "settled (d_registry (snd (m d))) \<and> d_initialized (snd (m d)) = b" by simp
  qed
  then show ?thesis by (simp add: keeps_iff_hoare)
qed

lemma up_same: "same_queue m \<Longrightarrow> hoare up m (\<lambda>_. up) up_or_latched"
  by (rule hoare_weaken [OF hoare_same_queue [where b = True]]) (auto simp: up_or_latched_def)

text \<open>A read of the registry changes nothing of it.\<close>

lemma hoare_peek:
  assumes "\<And>s x s'. settled s \<Longrightarrow> m s = (x, s') \<Longrightarrow> s' = s"
  shows "hoare (\<lambda>d. settled (d_registry d) \<and> d_initialized d = b) (or_latch c msg (on_queue m))
    (\<lambda>_ d. settled (d_registry d) \<and> d_initialized d = b) latched"
  by (rule hoare_or_latch, rule hoare_on_queue) (auto split: sum.splits dest: assms)

lemma hoare_scan:
  "hoare (\<lambda>d. settled (d_registry d) \<and> d_initialized d = b) (check_recorded q is)
    (\<lambda>_ d. settled (d_registry d) \<and> d_initialized d = b) latched"
proof (induction "is")
  case Nil
  show ?case unfolding check_recorded.simps by (rule hoare_sret)
next
  case (Cons i "is")
  have get: "s' = s" if "settled s" "q_getJob q j s = (x, s')" for s s' j x
    using queue_getJob [OF that(1)] that(2) by simp
  show ?case
    unfolding check_recorded.simps
    by (rule hoare_sbind, rule hoare_peek, rule get, assumption, assumption, rule hoare_case_option, rule hoare_latch,
        rule hoare_if, rule hoare_latch,
        rule hoare_sbind [where R = "\<lambda>_ d. settled (d_registry d) \<and> d_initialized d = b"],
        rule hoare_if, rule hoare_smod, simp, rule hoare_sret, assumption, rule Cons.IH)
qed

lemma hoare_same_latched:
  "hoare (\<lambda>d. settled (d_registry d) \<and> d_initialized d = b) m (\<lambda>_. Q) latched \<Longrightarrow> same_queue m \<Longrightarrow>
   hoare (\<lambda>d. settled (d_registry d) \<and> d_initialized d = b) m
     (\<lambda>_ d. settled (d_registry d) \<and> d_initialized d = b) latched"
proof (rule hoareI)
  fix d x d'
  assume "same_queue m" "settled (d_registry d) \<and> d_initialized d = b" "m d = (Inr x, d')"
  then show "settled (d_registry d') \<and> d_initialized d' = b" by (rule hoareD_ret [OF hoare_same_queue])
qed (rule hoareD_throw)

text \<open>The operations on the record throw by latching only.\<close>

lemma hoare_log_latched:
  "hoare P (recoverySnapshotJobs l) (\<lambda>_ _. True) latched" "hoare P (replaceRecoveryJobs l js) (\<lambda>_ _. True) latched"
  "hoare P (addRecoveryJob l i) (\<lambda>_ _. True) latched" "hoare P (removeRecoveryJob l i) (\<lambda>_ _. True) latched"
  "hoare P (syncRecoveryRecord l js) (\<lambda>_ _. True) latched" "hoare P (initializeRecoveryStore l) (\<lambda>_ _. True) latched"
proof -
  show 1: "hoare P (recoverySnapshotJobs l) (\<lambda>_ _. True) latched" for P
    unfolding recoverySnapshotJobs_def Let_def
    by (rule hoare_sbind, rule hoare_or_latch, rule hoare_any, rule hoare_if, rule hoare_latch, rule hoare_sret, simp)
  show 2: "hoare P (replaceRecoveryJobs l js) (\<lambda>_ _. True) latched" for P js
    unfolding replaceRecoveryJobs_def by (rule hoare_or_latch, rule hoare_any)
  show "hoare P (addRecoveryJob l i) (\<lambda>_ _. True) latched" "hoare P (removeRecoveryJob l i) (\<lambda>_ _. True) latched"
    unfolding addRecoveryJob_def removeRecoveryJob_def by (rule hoare_or_latch_unless_fatal, rule hoare_any)+
  show "hoare P (syncRecoveryRecord l js) (\<lambda>_ _. True) latched"
    unfolding syncRecoveryRecord_def by (rule hoare_sbind [OF 1], rule hoare_if, rule hoare_sret, simp, rule 2)
  show "hoare P (initializeRecoveryStore l) (\<lambda>_ _. True) latched"
    unfolding initializeRecoveryStore_def by (rule hoare_or_latch, rule hoare_any)
qed

lemmas hoare_log = hoare_log_latched(1) [THEN hoare_same_latched, OF same_queue_log(1)]
  hoare_log_latched(2) [THEN hoare_same_latched, OF same_queue_log(2)]
  hoare_log_latched(3) [THEN hoare_same_latched, OF same_queue_log(3)]
  hoare_log_latched(4) [THEN hoare_same_latched, OF same_queue_log(4)]
  hoare_log_latched(5) [THEN hoare_same_latched, OF same_queue_log(5)]
  hoare_log_latched(6) [THEN hoare_same_latched, OF same_queue_log(6)]

lemma hoare_detect_queue:
  "hoare (\<lambda>d. settled (d_registry d) \<and> d_initialized d = b) (detectRecovery q l)
    (\<lambda>_ d. settled (d_registry d) \<and> d_initialized d = b) latched"
proof -
  have running: "s' = s" if "settled s" "q_running q s = (x, s')" for s s' x
    using queue_running [OF that(1)] that(2) by simp
  show ?thesis
    unfolding detectRecovery_def Let_def
    by (rule hoare_sbind, rule hoare_peek, rule running, assumption, assumption, rule hoare_if, rule hoare_latch,
        rule hoare_sbind, rule hoare_log(1),
        rule hoare_sbind [where R = "\<lambda>_ d. settled (d_registry d) \<and> d_initialized d = b"], rule hoare_smod, simp,
        rule hoare_sbind, rule hoare_scan,
        rule hoare_sbind [where R = "\<lambda>_ d. settled (d_registry d) \<and> d_initialized d = b"],
        simp add: hoare_def, rule hoare_log(5))
qed

lemma hoare_init_queue:
  fixes l :: "'r log_ops"
  shows "hoare backed (init_durable q l) (\<lambda>_ d. backed d \<and> d_initialized d) (\<lambda>_. backed)"
proof (rule hoare_ghost)
  fix d0 :: "('q, 'r) durable"
  assume s: "backed d0"
  let ?body = "sbind (on_queue (q_init q)) (\<lambda>_. sbind (initializeRecoveryStore l) (\<lambda>_.
       sbind (detectRecovery q l) (\<lambda>_. smod (\<lambda>d. d\<lparr>d_initialized := True\<rparr>))))"
  have queue: "hoare (\<lambda>d. virgin (d_registry d) \<and> \<not> d_initialized d) (on_queue (q_init q))
     (\<lambda>_ d. settled (d_registry d) \<and> d_initialized d = False) (\<lambda>_ _. True)"
    by (rule hoare_on_queue) (auto split: sum.splits dest: queue_init)
  have body: "hoare (\<lambda>d. virgin (d_registry d) \<and> \<not> d_initialized d) ?body (\<lambda>_. up) (\<lambda>_ _. True)"
    by (rule hoare_sbind [OF queue], rule hoare_sbind, rule hoare_any_throw, rule hoare_log(6), rule hoare_sbind,
        rule hoare_any_throw, rule hoare_detect_queue, rule hoare_smod, simp)
  have "hoare (\<lambda>d. virgin (d_registry d) \<and> \<not> d_initialized d)
      (or_latch_unless_fatal is_durable_error c msg ?body) (\<lambda>_ d. backed d \<and> d_initialized d) (\<lambda>_. backed)" for c msg
    by (rule hoare_weaken [OF hoare_or_latch_unless_fatal [OF body]]) (auto simp: backed_def latched_def)
  then have run: "hoare (\<lambda>d. d = d0) (or_latch_unless_fatal is_durable_error c msg ?body)
      (\<lambda>_ d. backed d \<and> d_initialized d) (\<lambda>_. backed)" if "virgin (d_registry d0)" "\<not> d_initialized d0" for c msg
    by (rule hoare_pre) (use that in simp)
  consider "d_initialized d0" | c m where "\<not> d_initialized d0" "d_fatal d0 = Some (c, m)"
    | "\<not> d_initialized d0" "d_fatal d0 = None" by (metis option.exhaust surj_pair)
  then show "hoare (\<lambda>d. d = d0) (init_durable q l) (\<lambda>_ d. backed d \<and> d_initialized d) (\<lambda>_. backed)"
  proof cases
    case 3
    then have "virgin (d_registry d0)" using s by (simp add: backed_def)
    with run 3 show ?thesis
      by (simp add: hoare_def init_durable_def sbind_apply assertHealthy_apply)
  qed (use s in \<open>simp_all add: hoare_def init_durable_def sbind_apply assertHealthy_apply\<close>)
qed

text \<open>A reload settles the registry whatever state the failed call had left.\<close>

lemma hoare_reload_queue: "hoare P (reloadDurableState q l b) (\<lambda>_. up) latched"
proof -
  have rep: "hoare P (replace_registry q) (\<lambda>_ d. settled (d_registry d)) (\<lambda>_ _. True)"
    using queue_init [OF queue_fresh]
    by (auto simp: hoare_def replace_registry_def split: prod.splits sum.splits)
  have det: "hoare up (detectRecovery q l) (\<lambda>_. up) (\<lambda>_ _. True)"
    by (rule hoare_any_throw, rule hoare_weaken [OF hoare_detect_queue [where b = True]]) simp_all
  have body: "hoare P (sbind (replace_registry q) (\<lambda>_.
        sbind (smod (\<lambda>d. d\<lparr>d_initialized := True\<rparr>)) (\<lambda>_.
        sbind (sget d_recovery) (\<lambda>recovery.
        if b \<or> recovery \<noteq> [] then detectRecovery q l else sret ())))) (\<lambda>_. up) (\<lambda>_ _. True)"
    by (rule hoare_sbind [OF rep], rule hoare_sbind [where R = "\<lambda>_. up"], rule hoare_smod, simp,
        rule hoare_sbind [where R = "\<lambda>_. up"], rule hoare_sget, assumption, rule hoare_if, rule det, rule hoare_sret)
  show ?thesis
    unfolding reloadDurableState_def by (rule hoare_or_latch_unless_fatal, rule body)
qed

lemma hoare_getJob_queue: "hoare up (or_latch c msg (on_queue (q_getJob q i))) (\<lambda>_. up) latched"
  by (rule hoare_weaken [OF hoare_peek [where b = True]]) (simp_all add: queue_getJob)

lemma hoare_up_log:
  "hoare up (addRecoveryJob l i) (\<lambda>_. up) latched" "hoare up (removeRecoveryJob l i) (\<lambda>_. up) latched"
  "hoare up (recoverySnapshotJobs l) (\<lambda>_. up) latched" "hoare up (detectRecovery q l) (\<lambda>_. up) latched"
  by (rule hoare_weaken, rule hoare_log(3) [where b = True] hoare_log(4) [where b = True]
      hoare_log(1) [where b = True] hoare_detect_queue [where b = True], simp_all)+

lemma hoare_prepare_queue:
  "hoare up (prepareAutomaticReconciliation q l automatic req) (\<lambda>_. up) latched"
  unfolding prepareAutomaticReconciliation_def Let_def
  by (rule hoare_if, rule hoare_sret, assumption, rule hoare_case_option, rule hoare_sret, assumption,
      rule hoare_sbind [where R = "\<lambda>_. up"], rule hoare_sget, assumption, rule hoare_if, rule hoare_sret, assumption,
      rule hoare_sbind [OF hoare_getJob_queue], rule hoare_sbind [where R = "\<lambda>_. up"], rule hoare_case_option,
      rule hoare_sret, assumption, rule hoare_if, rule hoare_sbind [OF hoare_up_log(1)],
      rule hoare_sbind [where R = "\<lambda>_. up"], rule hoare_smod, simp, rule hoare_sbind [where R = "\<lambda>_. up"],
      rule hoare_sget, assumption, simp add: hoare_def, rule hoare_sret, assumption, rule hoare_sret)

text \<open>A call that returns leaves the registry settled; one that throws may not.\<close>

lemma hoare_mutation_queue: "hoare up (mutation q l automatic req) (\<lambda>_. up) (\<lambda>_ _. True)"
proof -
  have call: "hoare up (on_queue (q_call q req)) (\<lambda>_. up) (\<lambda>_ _. True)"
    by (rule hoare_on_queue) (auto split: sum.splits dest: queue_call)
  show ?thesis
    unfolding mutation_def Let_def
    by (rule hoare_sbind [where R = "\<lambda>_. up"], rule hoare_if, rule hoare_any_throw, rule hoare_prepare_queue,
        rule hoare_sret, assumption, rule hoare_sbind [OF call], rule hoare_if, rule hoare_sret, assumption,
        rule hoare_case_option, rule hoare_sret, assumption, rule hoare_sbind [where R = "\<lambda>_. up"],
        rule hoare_sget, assumption, rule hoare_case_prod, rule hoare_if, rule hoare_sret, assumption,
        rule hoare_if, rule hoare_any_throw, rule hoare_sbind, rule hoare_up_log(2), rule hoare_sbind, rule hoare_up_log(4),
        rule hoare_sret, assumption, rule hoare_sret)
qed

lemma hoare_backed_throw: "hoare P m Q latched \<Longrightarrow> hoare P m Q (\<lambda>_. backed)"
  by (erule hoare_weaken) (auto simp: backed_def latched_def)

lemma hoare_backed_up: "hoare P m (\<lambda>_. up) E \<Longrightarrow> hoare P m (\<lambda>_ d. backed d \<and> d_initialized d) E"
  by (erule hoare_weaken) (simp_all add: backed_def)

lemma hoare_healthy: "hoare (\<lambda>d. backed d \<and> d_initialized d) assertHealthy (\<lambda>_. up) (\<lambda>_. backed)"
  by (auto simp: hoare_def assertHealthy_apply backed_def split: option.splits)

lemma hoare_throw_up: "hoare up (sthrow e) Q (\<lambda>_. backed)"
  by (rule hoare_sthrow) (simp add: backed_def)

lemma hoare_mutate_queue:
  "hoare backed (mutate q l automatic req) (\<lambda>_ d. backed d \<and> d_initialized d) (\<lambda>_. backed)"
proof -
  have allowed: "hoare (\<lambda>d. backed d \<and> d_initialized d) (assertMutationAllowed m) (\<lambda>_. up) (\<lambda>_. backed)" for m
    unfolding assertMutationAllowed_def
    by (rule hoare_sbind [OF hoare_healthy], rule hoare_sbind [where R = "\<lambda>_. up"], rule hoare_sget, assumption,
        rule hoare_if, rule hoare_throw_up, rule hoare_sret)
  have handler: "hoare (\<lambda>_. True)
      (sbind (sget d_fatal) (\<lambda>f. if f \<noteq> None then sthrow e else sbind (reloadDurableState q l b) (\<lambda>_. sthrow e)))
      (\<lambda>_ d. backed d \<and> d_initialized d) (\<lambda>_. backed)" for b e
    by (rule hoare_sbind [where R = "\<lambda>f d. f = d_fatal d"], rule hoare_sget, rule refl, rule hoare_if,
        rule hoare_sthrow, simp add: backed_def, rule hoare_sbind [where R = "\<lambda>_. up"], rule hoare_backed_throw,
        rule hoare_reload_queue, rule hoare_throw_up)
  show ?thesis
    unfolding mutate_def
    by (rule hoare_sbind [OF hoare_init_queue], rule hoare_sbind [OF allowed], rule hoare_scatch,
        rule hoare_backed_up, rule hoare_mutation_queue, rule handler)
qed

lemma hoare_reconciliation_job_queue:
  "hoare (\<lambda>d. backed d \<and> d_initialized d) (reconciliation_job q sid jid) (\<lambda>_. up) (\<lambda>_. backed)"
  unfolding reconciliation_job_def
  by (rule hoare_sbind [OF hoare_healthy], rule hoare_case_option, rule hoare_throw_up, rule hoare_sbind,
      rule hoare_backed_throw, rule hoare_getJob_queue, rule hoare_case_option, rule hoare_throw_up,
      rule hoare_if, rule hoare_throw_up, rule hoare_sret)

lemma hoare_begin_queue:
  "hoare backed (beginReconciliation q l sid jid) (\<lambda>_ d. backed d \<and> d_initialized d) (\<lambda>_. backed)"
  unfolding beginReconciliation_def Let_def
  by (rule hoare_sbind [OF hoare_init_queue], rule hoare_sbind [OF hoare_reconciliation_job_queue], rule hoare_case_prod,
      rule hoare_backed_up, rule hoare_if, rule hoare_sbind [where R = "\<lambda>_. up"], rule hoare_sget, assumption,
      rule hoare_sret, assumption, rule hoare_if, rule hoare_throw_up, rule hoare_sbind, rule hoare_backed_throw,
      rule hoare_up_log(1), rule hoare_sbind [where R = "\<lambda>_. up"], rule hoare_smod, simp,
      rule hoare_sbind [where R = "\<lambda>_. up"], rule hoare_sget, assumption, rule hoare_sbind [where R = "\<lambda>_. up"],
      simp add: hoare_def, rule hoare_sret)

lemma hoare_acknowledge_queue:
  "hoare backed (acknowledgeReconciliation q l sid jid) (\<lambda>_ d. backed d \<and> d_initialized d) (\<lambda>_. backed)"
  unfolding acknowledgeReconciliation_def Let_def
  by (rule hoare_sbind [OF hoare_init_queue], rule hoare_sbind [OF hoare_reconciliation_job_queue], rule hoare_case_prod,
      rule hoare_backed_up, rule hoare_if, rule hoare_throw_up, rule hoare_sbind, rule hoare_backed_throw, rule hoare_up_log(3),
      rule hoare_if, rule hoare_sbind [where R = "\<lambda>_. up"], rule hoare_sget, assumption, rule hoare_if,
      rule hoare_backed_throw, rule hoare_latch, rule hoare_sbind [where R = "\<lambda>_. up"], rule hoare_smod, simp,
      rule hoare_sret, assumption, rule hoare_sbind, rule hoare_backed_throw, rule hoare_up_log(2),
      rule hoare_sbind [where R = "\<lambda>_. up"], rule hoare_smod, simp, rule hoare_sbind [where R = "\<lambda>_. up"],
      rule hoare_sget, assumption, rule hoare_sbind [where R = "\<lambda>_. up"], simp add: hoare_def, rule hoare_sret)

lemma hoare_drop_init: "hoare P m (\<lambda>_ d. backed d \<and> d_initialized d) E \<Longrightarrow> hoare P m (\<lambda>_. backed) E"
  by (erule hoare_weaken) simp_all

lemma hoare_read_queue:
  assumes "method_of req = MRead"
  shows "hoare backed (read_durable q l req) (\<lambda>_ d. backed d \<and> d_initialized d) (\<lambda>_. backed)"
  unfolding read_durable_def
  by (rule hoare_sbind [OF hoare_init_queue], rule hoare_sbind [OF hoare_healthy], rule hoare_on_queue)
    (auto split: sum.splits dest: queue_read [OF _ assms] simp: backed_def)

lemma hoare_get_reconciliation_queue:
  "hoare backed (getReconciliationJob q l envelope jid) (\<lambda>_ d. backed d \<and> d_initialized d) (\<lambda>_. backed)"
proof -
  have get: "hoare up (scatch (on_queue (q_getJob q jid)) (\<lambda>_. sthrow e)) (\<lambda>_. up) (\<lambda>_. backed)" for e
    by (rule hoare_scatch [where R = "\<lambda>_. up"], rule hoare_on_queue)
      (auto simp: queue_getJob intro: hoare_throw_up)
  show ?thesis
    unfolding getReconciliationJob_def
    by (rule hoare_sbind [OF hoare_init_queue], rule hoare_sbind [OF hoare_healthy], rule hoare_backed_up,
        rule hoare_sbind [OF get], rule hoare_case_option, rule hoare_sret, assumption,
        rule hoare_sbind [where R = "\<lambda>_. up"], rule hoare_sget, assumption, rule hoare_case_prod, rule hoare_slift, assumption)
      (simp add: backed_def)
qed

lemma hoare_handle_queue:
  assumes "well_addressed r"
  shows "hoare backed (handle_durable q l automatic envelope r) (\<lambda>_. backed) (\<lambda>_. backed)"
proof -
  have ack: "hoare backed (acknowledgeAutomaticJobReconciliation q l i) (\<lambda>_. backed) (\<lambda>_. backed)" for i
    unfolding acknowledgeAutomaticJobReconciliation_def
    by (rule hoare_case_option, rule hoare_sret, assumption, rule hoare_sbind [OF hoare_acknowledge_queue],
        rule hoare_sret, simp)
  note rules = hoare_drop_init [OF hoare_mutate_queue] hoare_drop_init [OF hoare_init_queue]
    hoare_drop_init [OF hoare_begin_queue] hoare_drop_init [OF hoare_acknowledge_queue]
    hoare_drop_init [OF hoare_read_queue] hoare_drop_init [OF hoare_get_reconciliation_queue] ack
  show ?thesis
    using assms by (cases r) (auto intro!: hoare_map_sm rules)
qed

end

end
