(* ===== verification/JobGuarantees.thy ===== *)
theory JobGuarantees
  imports JobProofs
begin

text \<open>
  The guarantees of the job queue, each with a run on a concrete queue: exclusive use of a resource,
  the history of a job, claims in order, idempotent requests, final completions, and what survives a
  restart.
\<close>

section \<open>Positions under runs\<close>

lemma position_SomeI:
  "i < length xs \<Longrightarrow> p (xs ! i) \<Longrightarrow> (\<And>k. k < i \<Longrightarrow> \<not> p (xs ! k)) \<Longrightarrow> position p xs = Some i"
proof (induction xs arbitrary: i)
  case (Cons x xs)
  show ?case
  proof (cases i)
    case (Suc n)
    have "\<not> p x" using Cons.prems(3) [of 0] Suc by simp
    moreover have "position p xs = Some n"
      using Cons.prems Suc Cons.prems(3) [of "Suc k" for k] by (intro Cons.IH) auto
    ultimately show ?thesis using Suc by simp
  qed (use Cons.prems in simp)
qed simp

lemma find_position: "find p xs = map_option (nth xs) (position p xs)"
  by (induction xs) (simp_all add: option.map_comp comp_def)

text \<open>What identifies a job finds it at the same position for ever.\<close>

lemma run_position:
  assumes "loaded s" "position p (memory s) = Some i" "\<And>j k. same_job j k \<Longrightarrow> p k = p j"
  shows "position p (memory (run_jobs deps rs s)) = Some i"
proof -
  note p = position_SomeD [OF assms(2)]
  have h: "k < length (memory (run_jobs deps rs s)) \<and> p (memory (run_jobs deps rs s) ! k) = p (memory s ! k)"
    if "k < length (memory s)" for k
    using run_history [OF assms(1) that, of deps rs] assms(3) by (auto simp: job_history_def)
  show ?thesis
    by (rule position_SomeI) (use h p in auto)
qed

lemma run_jobs_loaded: "loaded s \<Longrightarrow> loaded (run_jobs deps rs s)"
  by (rule run_jobs_keeps [OF handle_job_loaded])

lemma has_key_same: "same_job j k \<Longrightarrow> (job_key k = x) = (job_key j = x)"
  by (simp add: same_job_def)

section \<open>Idempotent requests\<close>

lemma check_enqueue_key: "check_enqueue input = Inr u \<Longrightarrow> key_of input \<noteq> JNull \<Longrightarrow>
  opt_of (key_of input) = Some (str_of (key_of input))"
  by (auto simp: check_enqueue_def is_idempotency_key_def opt_of_def split: if_splits)

text \<open>What \<open>enqueue\<close> does with a key already in use.\<close>

lemma enqueue_existing:
  assumes "loaded s" "check_enqueue input = Inr u" "key_of input \<noteq> JNull"
    "position (\<lambda>j. job_key j = Some (str_of (key_of input))) (memory s) = Some i"
  shows "enqueue deps now uuid input s =
    (if job_digest (memory s ! i) = Some (idempotencyDigest deps input)
     then (Inr (publicJob (memory s ! i), False), s)
     else (Inl (job_error_of ''job_idempotency_conflict''
                  ''Job idempotency key was already used for different work''), s))"
  using assms by (simp add: enqueue_def sbind_apply find_position Let_def)

text \<open>After a keyed \<open>enqueue\<close> has returned, its job is the first with that key.\<close>

lemma enqueue_returns:
  assumes "loaded s" "enqueue deps now uuid input s = (Inr (j, c), s')" "key_of input \<noteq> JNull"
  shows "loaded s' \<and> check_enqueue input = Inr () \<and>
    (\<exists>i. position (\<lambda>j. job_key j = Some (str_of (key_of input))) (memory s') = Some i \<and>
      j = publicJob (memory s' ! i) \<and> job_digest (memory s' ! i) = Some (idempotencyDigest deps input))"
proof -
  let ?p = "\<lambda>j. job_key j = Some (str_of (key_of input))"
  have l: "loaded s'"
    using keepsD [OF handle_job_loaded assms(1), of deps "Enqueue now uuid input"] assms(2) by simp
  have ck: "check_enqueue input = Inr ()"
    using assms(1,2) by (cases "check_enqueue input") (simp_all add: enqueue_def sbind_apply Let_def)
  show ?thesis
  proof (cases "position ?p (memory s)")
    case (Some i)
    then show ?thesis
      using enqueue_existing [OF assms(1) ck assms(3) Some, of deps now uuid] assms(2) l ck
      by (auto split: if_splits)
  next
    case None
    have f: "find ?p (memory s) = None" using None by (simp add: find_position)
    obtain k where k: "memory s' = memory s @ [k]" "j = publicJob k"
      "job_key k = Some (str_of (key_of input))" "job_digest k = Some (idempotencyDigest deps input)"
      using assms ck f check_enqueue_key [OF ck assms(3)]
      by (auto simp: enqueue_def sbind_apply Let_def new_job_def dest!: persist_jobs_ok
          split: sum.splits prod.splits if_splits)
    have "position ?p (memory s') = Some (length (memory s))"
      using k position_NoneD [OF None] by (intro position_SomeI) (auto simp: nth_append)
    then show ?thesis using k l ck by (auto simp: nth_append)
  qed
qed

section \<open>Completions\<close>

lemma complete_found:
  assumes "loaded s" "st = ''succeeded'' \<or> st = ''failed''"
    "position (\<lambda>j. job_id j = jid \<and> job_serverId j = sid) (memory s) = Some i"
    "job_status (memory s ! i) = JobSucceeded \<or> job_status (memory s ! i) = JobFailed"
  shows "complete deps now sid jid st res er s =
    (if job_status_text (job_status (memory s ! i)) = st then (Inr (publicJob (memory s ! i)), s)
     else (Inl (job_error_of ''job_already_completed'' ''Job is already completed with a different status''), s))"
  using assms by (auto simp: complete_def sbind_apply)

lemma complete_returns:
  assumes "loaded s" "complete deps now sid jid st res er s = (Inr v, s')"
  shows "(st = ''succeeded'' \<or> st = ''failed'') \<and> loaded s' \<and>
    (\<exists>i. position (\<lambda>j. job_id j = jid \<and> job_serverId j = sid) (memory s') = Some i \<and>
      v = publicJob (memory s' ! i) \<and> job_status_text (job_status (memory s' ! i)) = st \<and>
      (job_status (memory s' ! i) = JobSucceeded \<or> job_status (memory s' ! i) = JobFailed))"
proof -
  let ?p = "\<lambda>j. job_id j = jid \<and> job_serverId j = sid"
  have l: "loaded s'"
    using keepsD [OF handle_job_loaded assms(1), of deps "CompleteJob now sid jid st res er"] assms(2) by simp
  have st: "st = ''succeeded'' \<or> st = ''failed''"
    using assms by (auto simp: complete_def sbind_apply split: if_splits)
  obtain i where i: "position ?p (memory s) = Some i"
    using assms st by (cases "position ?p (memory s)") (auto simp: complete_def sbind_apply)
  note p = position_SomeD [OF i]
  show ?thesis
  proof (cases "job_status (memory s ! i) = JobSucceeded \<or> job_status (memory s ! i) = JobFailed")
    case True
    then show ?thesis using complete_found [OF assms(1) st i True, of deps now res er] assms(2) i st l
      by (auto split: if_splits)
  next
    case False
    then have run: "job_status (memory s ! i) = JobRunning"
      using assms i st by (auto simp: complete_def sbind_apply split: if_splits)
    obtain r where "finish_job now i (s\<lparr>memory := (memory s)[i := (memory s ! i)\<lparr>job_result := r,
        job_error := (if st = ''failed'' then dep_error deps (if er = JUndef then JNull else er) else JNull),
        job_status := (if st = ''succeeded'' then JobSucceeded else JobFailed)\<rparr>]\<rparr>) = (Inr v, s')"
      using assms i st run by (auto simp: complete_def sbind_apply split: sum.splits)
    from finish_returns [OF this] p obtain t where m: "memory s' = (memory s)[i := (memory s ! i)\<lparr>job_result := r,
        job_error := (if st = ''failed'' then dep_error deps (if er = JUndef then JNull else er) else JNull),
        job_status := (if st = ''succeeded'' then JobSucceeded else JobFailed), job_finishedAt := Some t\<rparr>]"
      and v: "v = publicJob (memory s' ! i)" by auto
    have "position ?p (memory s') = Some i"
      using p by (intro position_SomeI) (simp_all add: m)
    then show ?thesis using v st p l by (auto simp: m)
  qed
qed

section \<open>Changes that were returned\<close>

lemma enqueue_saved:
  "loaded s \<Longrightarrow> enqueue deps now uuid input s = (Inr v, s') \<Longrightarrow> s' = s \<or> jobs_saved s'"
  by (auto simp: enqueue_def sbind_apply Let_def dest!: persist_jobs_ok
      split: option.splits sum.splits prod.splits if_splits)

lemma claimNext_saved:
  "loaded s \<Longrightarrow> claimNext deps now sid s = (Inr v, s') \<Longrightarrow> s' = s \<or> jobs_saved s'"
  by (cases v) (auto simp: claimNext_def sbind_apply dest!: persist_jobs_ok
      split: option.splits sum.splits prod.splits)

lemma complete_saved:
  assumes "loaded s" "complete deps now sid jid st res er s = (Inr v, s')"
  shows "s' = s \<or> jobs_saved s'"
proof (cases "position (\<lambda>j. job_id j = jid \<and> job_serverId j = sid) (memory s)")
  case (Some i)
  show ?thesis
  proof (cases "job_status (memory s ! i) = JobRunning")
    case True
    obtain m where m: "finish_job now i (s\<lparr>memory := m\<rparr>) = (Inr v, s')" "length m = length (memory s)"
      using assms Some True complete_returns [OF assms]
      by (auto simp: complete_def sbind_apply split: sum.splits)
    then show ?thesis using finish_returns [OF m(1)] position_SomeD [OF Some] by simp
  next
    case False
    then show ?thesis using assms Some complete_returns [OF assms]
      by (auto simp: complete_def sbind_apply split: if_splits)
  qed
qed (use assms complete_returns [OF assms] in \<open>auto simp: complete_def sbind_apply\<close>)

lemma cancel_saved:
  assumes "loaded s" "cancel now jid s = (Inr v, s')"
  shows "jobs_saved s'"
proof (cases "position (\<lambda>j. job_id j = jid) (memory s)")
  case (Some i)
  note p = position_SomeD [OF Some]
  have "finish_job now i (s\<lparr>memory := (memory s)[i := (memory s ! i)\<lparr>job_status := JobCancelled\<rparr>]\<rparr>) = (Inr v, s')"
    using assms Some by (auto simp: cancel_def sbind_apply split: if_splits)
  from finish_returns [OF this] p show ?thesis by simp
qed (use assms in \<open>simp add: cancel_def sbind_apply\<close>)

lemma jobs_of_Inr: "jobs_of f m s = (Inr v, s') \<Longrightarrow> \<exists>x. m s = (Inr x, s')"
  by (auto simp: jobs_of_def sbind_apply split: prod.splits sum.splits)

lemma returned_saved:
  assumes "loaded s" "handle_job deps r s = (Inr v, s')"
  shows "s' = s \<or> jobs_saved s'"
proof (cases r)
  case (Enqueue now uuid input)
  with assms(2) obtain x where "enqueue deps now uuid input s = (Inr x, s')"
    by (auto dest: jobs_of_Inr)
  then show ?thesis by (rule enqueue_saved [OF assms(1)])
next
  case (ClaimNext now sid)
  with assms(2) obtain x where "claimNext deps now sid s = (Inr x, s')" by (auto dest: jobs_of_Inr)
  then show ?thesis by (rule claimNext_saved [OF assms(1)])
next
  case (CompleteJob now sid jid st res er)
  with assms(2) obtain x where "complete deps now sid jid st res er s = (Inr x, s')"
    by (auto dest: jobs_of_Inr)
  then show ?thesis by (rule complete_saved [OF assms(1)])
next
  case (CancelJob now jid)
  with assms(2) obtain x where "cancel now jid s = (Inr x, s')" by (auto dest: jobs_of_Inr)
  then show ?thesis using cancel_saved [OF assms(1)] by blast
qed (use assms in \<open>auto simp: jobs_of_def findIdempotentJob_def getJob_def listJobs_def sbind_apply
       split: option.splits if_splits\<close>)

section \<open>A concrete queue\<close>

definition sample_deps :: job_deps where
  "sample_deps = \<lparr>dep_digest = (\<lambda>_. ''digest''), dep_envelope = (\<lambda>_ _ p. Inr p),
     dep_sanitize = (\<lambda>_ r. Inr r), dep_error = (\<lambda>e. e)\<rparr>"

definition sample_request :: "string \<Rightarrow> js" where
  "sample_request ri = JObj [(''serverId'', JStr ''local''), (''type'', JStr ''t''),
     (''operation'', JStr ''system.upgrade''), (''payload'', JObj []), (''resourceType'', JStr ''system''),
     (''resourceId'', JStr ri), (''idempotencyKey'', JStr ''0123456789abcdef'')]"

text \<open>A loaded queue with one job, in the given state.\<close>

definition sample_job :: "job_status \<Rightarrow> job" where
  "sample_job st = \<lparr>job_id = ''job-0001'', job_serverId = ''local'', job_type = ''t'',
     job_operation = ''system.upgrade'', job_payload = JObj [], job_resourceType = ''system'',
     job_resourceId = ''panel'', job_status = st, job_createdAt = [], job_startedAt = None,
     job_finishedAt = None, job_attempts = 0, job_result = JNull, job_error = JNull,
     job_key = Some ''0123456789abcdef'', job_digest = Some ''digest''\<rparr>"

definition sample_queue :: "job_status \<Rightarrow> job_store" where
  "sample_queue st = \<lparr>memory = [sample_job st], disk = NoFile, has_path = True, loaded = True,
     chain_ok = True, writes = []\<rparr>"

lemma sample_queue_loaded [simp]: "loaded (sample_queue st)"
  by (simp add: sample_queue_def)

definition returns :: "('s, 'a) sm \<Rightarrow> 's \<Rightarrow> ('a \<Rightarrow> 's \<Rightarrow> bool) \<Rightarrow> bool" where
  "returns m s P = (case m s of (Inl _, _) \<Rightarrow> False | (Inr v, s') \<Rightarrow> P v s')"

lemma returnsE:
  assumes "returns m s P"
  obtains v s' where "m s = (Inr v, s')" "P v s'"
  using assms by (auto simp: returns_def split: prod.splits sum.splits)

section \<open>Properties\<close>

text \<open>C9 Exclusive resources. From an empty disk, or a file with the same property, and under any requests,
  clock readings and write failures: no two queued or running jobs share a resource, and no
  idempotency key is used twice, in memory and on disk.\<close>

theorem one_active_job_per_resource:
  assumes "\<forall>m. map_option file_jobs f = Some (JsonFile m) \<longrightarrow> exclusive m"
  shows "in_store exclusive (run_jobs deps rs (createJobRegistry f ws))"
proof -
  have "in_store exclusive (createJobRegistry f ws)"
    using assms by (auto simp: in_store_def createJobRegistry_def exclusive_def split: option.splits)
  moreover have "keeps (in_store exclusive) (handle_job deps r)" for r
    by (rule keeps_in_store) (fact exclusive_step exclusive_stored)+
  ultimately show ?thesis using run_jobs_keeps [of "in_store exclusive" deps] by blast
qed

lemma one_active_job_per_resource_witness:
  "in_store exclusive (run_jobs sample_deps [Enqueue 0 ''job-0001'' (sample_request ''panel'')]
     (createJobRegistry (Some NoFile) []))"
  by (rule one_active_job_per_resource) simp

text \<open>C10 History. Whatever the requests, a job keeps its place, its identity, its payload and its request
  digest; its status only moves forward, and once it has succeeded, failed or been cancelled nothing of
  it changes.\<close>

theorem job_status_only_moves_forward:
  assumes "loaded s" "i < length (memory s)"
  shows "i < length (memory (run_jobs deps rs s)) \<and>
    same_job (memory s ! i) (memory (run_jobs deps rs s) ! i) \<and>
    job_status (memory s ! i) \<le> job_status (memory (run_jobs deps rs s) ! i) \<and>
    (active (memory s ! i) \<or> memory (run_jobs deps rs s) ! i = memory s ! i)"
  using run_history [OF assms] by (auto simp: job_history_def)

lemma job_status_only_moves_forward_witness:
  "memory (run_jobs sample_deps [CancelJob 5 ''job-0001'', ClaimNext 6 ''local''] (sample_queue JobFailed)) ! 0
    = sample_job JobFailed"
  using job_status_only_moves_forward [of "sample_queue JobFailed" 0 sample_deps
      "[CancelJob 5 ''job-0001'', ClaimNext 6 ''local'']"]
  by (simp add: sample_queue_def active_def sample_job_def del: run_jobs_simps)

text \<open>C11 Claims. A claim that returns a job returns the oldest queued job of the server and takes it, and
  nothing else, off the server's queue; the job is running, in memory and in the file, before it is
  handed out.\<close>

theorem claims_are_fifo_and_durable:
  assumes "loaded s" "claimNext deps now sid s = (Inr (Some (j, env)), s')"
  shows "pending sid (memory s) = job_id j # pending sid (memory s') \<and>
    (\<forall>other. other \<noteq> sid \<longrightarrow> pending other (memory s') = pending other (memory s)) \<and>
    job_status j = JobRunning \<and>
    (has_path s' \<longrightarrow> (\<exists>m. file_jobs (disk s') = JsonFile m \<and> (\<exists>k \<in> set m. job_id k = job_id j \<and> job_status k = JobRunning)))"
proof -
  obtain i t where i: "position (queued_for sid) (memory s) = Some i"
    and m: "memory s' = (memory s)[i := (memory s ! i)\<lparr>job_status := JobRunning, job_startedAt := Some t,
      job_attempts := job_attempts (memory s ! i) + 1\<rparr>]"
    and j: "j = publicJob (memory s' ! i)" "jobs_saved s'"
    using claimNext_loaded [OF assms] by blast
  note p = position_SomeD [OF i]
  have jv: "job_id j = job_id (memory s ! i)" "job_status j = JobRunning"
    using p by (simp_all add: j m publicJob_def public_job.truncate_def)
  have "pending sid (memory s) = job_id j # pending sid (memory s')"
    using filter_position [OF i] filter_list_update_drop [OF i] p
    by (simp add: pending_def m jv(1) queued_for_def) (metis list.simps(9))
  moreover have "pending other (memory s') = pending other (memory s)" if "other \<noteq> sid" for other
    using that p by (simp add: pending_def m filter_list_update_keep queued_for_def)
  moreover have "\<exists>k \<in> set (stored_jobs (memory s')). job_id k = job_id j \<and> job_status k = JobRunning"
    using p jv by (intro bexI [of _ "stored_job (memory s' ! i)"])
      (auto simp: m stored_jobs_def intro!: imageI set_update_memI)
  ultimately show ?thesis using j(2) jv(2) by (auto simp: jobs_saved_def)
qed

lemma claims_are_fifo_and_durable_witness:
  "\<exists>j s'. pending ''local'' (memory (sample_queue JobQueued)) = job_id j # pending ''local'' (memory s') \<and>
    (\<forall>other. other \<noteq> ''local'' \<longrightarrow> pending other (memory s') = pending other (memory (sample_queue JobQueued))) \<and>
    job_status j = JobRunning \<and>
    (has_path s' \<longrightarrow> (\<exists>m. file_jobs (disk (s' :: job_store)) = JsonFile m \<and>
       (\<exists>k \<in> set m. job_id k = job_id (j :: public_job) \<and> job_status k = JobRunning)))"
proof -
  have "returns (claimNext sample_deps 5 ''local'') (sample_queue JobQueued) (\<lambda>v _. v \<noteq> None)"
    by code_simp
  then obtain j env s' where "claimNext sample_deps 5 ''local'' (sample_queue JobQueued) = (Inr (Some (j, env)), s')"
    by (auto elim!: returnsE)
  from claims_are_fifo_and_durable [OF sample_queue_loaded this] show ?thesis by blast
qed

text \<open>Idempotent requests. Once a request with an idempotency key has returned a job, the same key after
  any further requests answers with that job as it is then, creating nothing and changing nothing, when
  the request has the same digest, and is refused, changing nothing, when it has another.\<close>

theorem enqueue_is_idempotent:
  assumes "loaded s" "enqueue deps now uuid input s = (Inr (j, c), s')" "key_of input \<noteq> JNull"
    "check_enqueue input' = Inr ()" "key_of input' = key_of input"
  shows "let s1 = run_jobs deps rs s' in \<exists>k \<in> set (memory s1). job_id k = job_id j \<and>
    enqueue deps now' uuid' input' s1 =
      (if idempotencyDigest deps input' = idempotencyDigest deps input then (Inr (publicJob k, False), s1)
       else (Inl (job_error_of ''job_idempotency_conflict''
                    ''Job idempotency key was already used for different work''), s1))"
proof -
  define s1 where "s1 = run_jobs deps rs s'"
  let ?p = "\<lambda>j. job_key j = Some (str_of (key_of input))"
  obtain i where e: "loaded s'" "position ?p (memory s') = Some i" "j = publicJob (memory s' ! i)"
    "job_digest (memory s' ! i) = Some (idempotencyDigest deps input)"
    using enqueue_returns [OF assms(1-3)] by blast
  have l: "loaded s1" by (simp add: s1_def run_jobs_loaded e(1))
  have p: "position ?p (memory s1) = Some i"
    unfolding s1_def by (rule run_position [OF e(1,2)]) (rule has_key_same)
  have "same_job (memory s' ! i) (memory s1 ! i)"
    using run_history [OF e(1), of i deps rs] position_SomeD [OF e(2)] by (simp add: s1_def job_history_def)
  then have d: "job_digest (memory s1 ! i) = Some (idempotencyDigest deps input)"
    "job_id (memory s1 ! i) = job_id j"
    using e(3,4) by (simp_all add: same_job_def publicJob_def public_job.truncate_def)
  have "enqueue deps now' uuid' input' s1 =
      (if idempotencyDigest deps input' = idempotencyDigest deps input then (Inr (publicJob (memory s1 ! i), False), s1)
       else (Inl (job_error_of ''job_idempotency_conflict''
                    ''Job idempotency key was already used for different work''), s1))"
    using enqueue_existing [OF l assms(4), of i deps now' uuid'] assms(3,5) p d(1) by auto
  then show ?thesis
    unfolding s1_def [symmetric] Let_def
    using d(2) position_SomeD [OF p] by (intro bexI [of _ "memory s1 ! i"]) auto
qed

lemma enqueue_is_idempotent_witness:
  "\<exists>s1 j. \<exists>k \<in> set (memory s1). job_id k = job_id (j :: public_job) \<and>
    enqueue sample_deps 9 ''job-0003'' (sample_request ''panel'') s1 = (Inr (publicJob k, False), s1)"
proof -
  have "returns (enqueue sample_deps 5 ''job-0002'' (sample_request ''panel'')) (sample_queue JobQueued) (\<lambda>_ _. True)"
    "key_of (sample_request ''panel'') \<noteq> JNull" "check_enqueue (sample_request ''panel'') = Inr ()"
    by code_simp+
  then obtain j c s' where r: "enqueue sample_deps 5 ''job-0002'' (sample_request ''panel'') (sample_queue JobQueued)
      = (Inr (j, c), s')" by (auto elim!: returnsE)
  from enqueue_is_idempotent [OF sample_queue_loaded r \<open>key_of _ \<noteq> _\<close> \<open>check_enqueue _ = _\<close> refl,
      where rs = "[ClaimNext 6 ''local'']" and now' = 9 and uuid' = "''job-0003''"]
  show ?thesis by (auto simp: Let_def)
qed

text \<open>Final completions. Once a completion has returned, repeating it with any result, after any further
  requests, returns the job as it was completed, and completing it with the other status is refused;
  neither changes anything.\<close>

theorem completion_is_final:
  assumes "loaded s" "complete deps now sid jid st res er s = (Inr v, s')"
    "st' = ''succeeded'' \<or> st' = ''failed''"
  shows "let s1 = run_jobs deps rs s' in complete deps now' sid jid st' res' er' s1 =
    (if st' = st then (Inr v, s1)
     else (Inl (job_error_of ''job_already_completed'' ''Job is already completed with a different status''), s1))"
proof -
  define s1 where "s1 = run_jobs deps rs s'"
  let ?p = "\<lambda>j. job_id j = jid \<and> job_serverId j = sid"
  obtain i where e: "loaded s'" "position ?p (memory s') = Some i" "v = publicJob (memory s' ! i)"
    "job_status_text (job_status (memory s' ! i)) = st"
    "job_status (memory s' ! i) = JobSucceeded \<or> job_status (memory s' ! i) = JobFailed"
    using complete_returns [OF assms(1,2)] by blast
  have l: "loaded s1" by (simp add: s1_def run_jobs_loaded e(1))
  have p: "position ?p (memory s1) = Some i"
    unfolding s1_def by (rule run_position [OF e(1,2)]) (simp add: same_job_def)
  have "memory s1 ! i = memory s' ! i"
    using run_history [OF e(1), of i deps rs] position_SomeD [OF e(2)] e(5)
    by (auto simp: s1_def job_history_def active_def)
  then show ?thesis
    unfolding s1_def [symmetric] Let_def
    using complete_found [OF l assms(3) p, of deps now' res' er'] e(3-5) by simp
qed

lemma completion_is_final_witness:
  "\<exists>v s1. complete sample_deps 9 ''local'' ''job-0001'' ''succeeded'' JNull JNull s1 = (Inr v, s1)"
proof -
  have "returns (complete sample_deps 5 ''local'' ''job-0001'' ''succeeded'' (JObj []) JNull) (sample_queue JobRunning)
      (\<lambda>_ _. True)" by code_simp
  then obtain v s' where "complete sample_deps 5 ''local'' ''job-0001'' ''succeeded'' (JObj []) JNull
      (sample_queue JobRunning) = (Inr v, s')" by (auto elim!: returnsE)
  from completion_is_final [OF sample_queue_loaded this, of "''succeeded''" "[CancelJob 6 ''job-0001'']" 9 JNull JNull]
  show ?thesis by (auto simp: Let_def)
qed

text \<open>C19 Restart. The JSON text a returned change left in the file is accepted by a queue that starts on it, which
  then holds the same jobs in the same order: of each job all members are what they were, the payload, the
  result and the error up to what JSON keeps of a value.\<close>

theorem returned_jobs_survive_restart:
  assumes "loaded s" "handle_job deps r s = (Inr v, s')" "s' \<noteq> s" "has_path s'"
  shows "init_jobs (createJobRegistry (Some (disk s')) ws) =
    (Inr (), (createJobRegistry (Some (disk s')) ws)
      \<lparr>memory := map (\<lambda>j. j\<lparr>job_payload := json_norm (job_payload j), job_result := json_norm (job_result j),
         job_error := json_norm (job_error j)\<rparr>) (memory s'), loaded := True\<rparr>)"
proof -
  have "disk s' = JsonFile (jobs_text (memory s'))"
    using returned_saved [OF assms(1,2)] assms(3,4) by (simp add: jobs_saved_def)
  then show ?thesis by (simp add: init_jobs_def createJobRegistry_def stored_jobs_def stored_job_def [abs_def])
qed

lemma returned_jobs_survive_restart_witness:
  "\<exists>s' :: job_store. map job_status (memory s') = [JobRunning] \<and>
    init_jobs (createJobRegistry (Some (disk s')) []) =
    (Inr (), (createJobRegistry (Some (disk s')) [])
      \<lparr>memory := map (\<lambda>j. j\<lparr>job_payload := json_norm (job_payload j), job_result := json_norm (job_result j),
         job_error := json_norm (job_error j)\<rparr>) (memory s'), loaded := True\<rparr>)"
proof -
  have "returns (handle_job sample_deps (ClaimNext 5 ''local'')) (sample_queue JobQueued)
      (\<lambda>_ s'. map job_status (memory s') = [JobRunning] \<and> has_path s')" by code_simp
  then obtain v s' where r: "handle_job sample_deps (ClaimNext 5 ''local'') (sample_queue JobQueued) = (Inr v, s')"
    and s': "map job_status (memory s') = [JobRunning]" "has_path s'" by (auto elim!: returnsE)
  have "s' \<noteq> sample_queue JobQueued" using s'(1) by (auto simp: sample_queue_def sample_job_def)
  with s'(1) returned_jobs_survive_restart [OF sample_queue_loaded r this s'(2), of "[]"] show ?thesis
    by (intro exI [of _ s'] conjI)
qed

end
