(* ===== verification/JobRecoveryGuarantees.thy ===== *)
theory JobRecoveryGuarantees
  imports JobRecovery
begin

text \<open>
  What the record of interrupted jobs promises: memory and file never part, additions and removals are
  exact on the keys of the jobs, and what a key leaves out.
\<close>

section \<open>The operations as mutations\<close>

definition keys :: "recovery_state \<Rightarrow> string list" where
  "keys r = map identityKey (rs_jobs r)"

lemma mutates_replace:
  assumes "reads_iso date_ok"
  shows "mutates date_ok (replace date_ok now jobs)
    (\<lambda>_ n. map_res normalizeJob (arr_of jobs) = Inr (rs_jobs n))"
proof -
  have "mutates date_ok (queueMutation date_ok (\<lambda>_.
      bnd (if k = [] then Inr None else bnd (toISOString now) (\<lambda>t. Inr (Some t))) (\<lambda>t.
      Inr (Some \<lparr>rs_detectedAt = t, rs_jobs = k\<rparr>)))) (\<lambda>_ n. map_res normalizeJob (arr_of jobs) = Inr (rs_jobs n))"
    if "map_res normalizeJob (arr_of jobs) = Inr k" "distinct (map identityKey k)" for k
    by (rule mutates_queue, rule replace_wf [OF assms that]) (use that(1) in \<open>auto simp: bnd_Inr_iff\<close>)
  then show ?thesis
    unfolding replace_def by (auto intro!: mutates_throw mutates_bind_slift)
qed

lemma mutates_add:
  assumes "reads_iso date_ok"
  shows "mutates date_ok (add date_ok now job)
    (\<lambda>b n. \<exists>k. normalizeJob job = Inr k \<and>
       (if identityKey k \<in> set (keys b) then n = b
        else rs_jobs n = rs_jobs b @ [k] \<and> (rs_jobs b \<noteq> [] \<longrightarrow> rs_detectedAt n = rs_detectedAt b)))"
  unfolding add_def
proof (rule mutates_bind_slift, rule mutates_queue)
  fix k m n
  assume k: "normalizeJob job = Inr k" and m: "wf_recovery date_ok m"
  show "wf_recovery date_ok n" if f: "(if list_ex (\<lambda>c. identityKey c = identityKey k) (rs_jobs m) then Inr None
      else bnd (if rs_jobs m \<noteq> [] then Inr (rs_detectedAt m) else bnd (toISOString now) (\<lambda>t. Inr (Some t)))
        (\<lambda>t. Inr (Some \<lparr>rs_detectedAt = t, rs_jobs = rs_jobs m @ [k]\<rparr>))) = Inr (Some n)"
    by (rule add_wf [OF assms normalizeJob_wf [OF k] m f])
qed (auto simp: keys_def list_ex_iff bnd_Inr_iff rev_image_eqI split: if_splits)

lemma mutates_remove:
  "mutates date_ok (remove date_ok job)
    (\<lambda>b n. \<exists>k. normalizeJob job = Inr k \<and>
       rs_jobs n = filter (\<lambda>c. identityKey c \<noteq> identityKey k) (rs_jobs b))"
  unfolding remove_def
proof (rule mutates_bind_slift, rule mutates_queue)
  fix k m n
  assume k: "normalizeJob job = Inr k" and m: "wf_recovery date_ok m"
  let ?f = "let jobs = filter (\<lambda>c. identityKey c \<noteq> identityKey k) (rs_jobs m) in
       if length jobs = length (rs_jobs m) then Inr None
       else Inr (Some \<lparr>rs_detectedAt = (if jobs \<noteq> [] then rs_detectedAt m else None), rs_jobs = jobs\<rparr>)"
  show "wf_recovery date_ok n" if "?f = Inr (Some n)"
    by (rule remove_wf [OF m that])
  show "\<exists>k. normalizeJob job = Inr k \<and> rs_jobs m = filter (\<lambda>c. identityKey c \<noteq> identityKey k) (rs_jobs m)"
    if "?f = Inr None"
  proof -
    have "length (filter (\<lambda>c. identityKey c \<noteq> identityKey k) (rs_jobs m)) = length (rs_jobs m)"
      using that by (auto simp: Let_def split: if_splits)
    then have "filter (\<lambda>c. identityKey c \<noteq> identityKey k) (rs_jobs m) = rs_jobs m"
      using length_filter_less [of _ "rs_jobs m" "\<lambda>c. identityKey c \<noteq> identityKey k"]
      by (simp add: filter_id_conv) (metis less_irrefl)
    with k show ?thesis by auto
  qed
qed (auto simp: Let_def split: if_splits)

lemma mutates_init: "mutates date_ok (then_snapshot (init_recovery date_ok)) (\<lambda>b n. n = b)"
  unfolding mutates_def
proof (intro allI impI)
  fix s r s'
  assume s: "in_step date_ok s" and m: "then_snapshot (init_recovery date_ok) s = (r, s')"
  obtain r1 where p: "init_recovery date_ok s = (r1, s')"
    using m by (auto simp: then_snapshot_def sbind_apply recovery_snapshot_def split: prod.splits sum.splits)
  have "in_step date_ok s'" using keeps_result [OF in_step_init s p] .
  moreover have "disk s' = disk s" using p
    by (auto simp: init_recovery_def split: if_splits disk_file.splits sum.splits)
  ultimately show "in_step date_ok s' \<and> (case r of Inl _ \<Rightarrow> disk s' = disk s
      | Inr snap \<Rightarrow> loaded s' \<and> snap = memory s' \<and>
         (\<exists>b. recovery_of_file date_ok (disk s) = Inr b \<and> wf_recovery date_ok b \<and> snap = b))"
    using m p init_recovery_loaded
    by (cases r1) (fastforce simp: then_snapshot_def sbind_apply recovery_snapshot_def in_step_def)+
qed

lemma keeps_mutates: "mutates date_ok m R \<Longrightarrow> keeps (in_step date_ok) m"
  unfolding keeps_def mutates_def by (metis prod.collapse)

lemma keeps_recovery: "reads_iso date_ok \<Longrightarrow> keeps (in_step date_ok) (handle_recovery date_ok q)"
  by (cases q) (auto intro: keeps_mutates mutates_init mutates_replace mutates_add mutates_remove)

lemma run_recovery_in_step:
  "reads_iso date_ok \<Longrightarrow> in_step date_ok s \<Longrightarrow> in_step date_ok (run_recovery date_ok rs s)"
  by (induction rs arbitrary: s) (auto simp: run_recovery_def keepsD [OF keeps_recovery])

section \<open>Properties\<close>

text \<open>The record is its file. Whatever file the store starts on, after any calls with any arguments and
  clock readings, and whichever writes fail: a loaded store holds exactly what a fresh one would read
  from the file, its jobs have distinct keys, and it carries a time exactly when it has jobs.\<close>

theorem recovery_record_is_its_file:
  assumes "reads_iso date_ok"
  shows "let s = run_recovery date_ok rs (createJobRecoveryStore f ws) in
    if loaded s then recovery_of_file date_ok (disk s) = Inr (memory s) \<and> wf_recovery date_ok (memory s)
    else memory s = emptyState"
proof -
  have "in_step date_ok (createJobRecoveryStore f ws)"
    by (simp add: in_step_def createJobRecoveryStore_def)
  from run_recovery_in_step [OF assms this] show ?thesis by (simp add: Let_def in_step_def)
qed

definition sample_identity :: "string \<Rightarrow> string \<Rightarrow> js" where
  "sample_identity sid jid = JObj [(''jobId'', JStr jid), (''serverId'', JStr sid)]"

lemma recovery_record_is_its_file_witness:
  "let s = run_recovery (\<lambda>_. True) [Add 0 (sample_identity ''local'' ''job-0001''), Remove JNull,
       Add 1 (sample_identity ''local'' ''job-0002'')] (createJobRecoveryStore NoFile [True, False]) in
   if loaded s then recovery_of_file (\<lambda>_. True) (disk s) = Inr (memory s) \<and> wf_recovery (\<lambda>_. True) (memory s)
   else memory s = emptyState"
  by (rule recovery_record_is_its_file) (simp add: reads_iso_def)

text \<open>Adding. When an \<open>add\<close> returns, the file has the job's key; if no job had that key the job itself was
  appended, and the time of the first detection is kept. When it throws the file is as it was.\<close>

theorem added_jobs_are_recorded:
  assumes "reads_iso date_ok" "loaded s" "recovery_of_file date_ok (disk s) = Inr (memory s)"
    "wf_recovery date_ok (memory s)" "add date_ok now job s = (r, s')"
  shows "case r of
      Inl _ \<Rightarrow> disk s' = disk s \<and> memory s' = memory s
    | Inr snap \<Rightarrow> recovery_of_file date_ok (disk s') = Inr snap \<and>
        (\<exists>k. normalizeJob job = Inr k \<and> identityKey k \<in> set (map identityKey (rs_jobs snap)) \<and>
          (identityKey k \<notin> set (map identityKey (rs_jobs (memory s))) \<longrightarrow>
             rs_jobs snap = rs_jobs (memory s) @ [k] \<and>
             (rs_jobs (memory s) \<noteq> [] \<longrightarrow> rs_detectedAt snap = rs_detectedAt (memory s))))"
proof -
  have s: "in_step date_ok s" using assms by (simp add: in_step_def)
  note m = mutates_add [OF assms(1), unfolded mutates_def, rule_format, OF s assms(5)]
  have l: "loaded s'" using assms(2,5)
    by (auto simp: add_def queueMutation_def init_recovery_def sbind_apply recovery_snapshot_def
        persist_recovery_def write_file_def split: sum.splits option.splits if_splits)
  from m have i: "in_step date_ok s'" by simp
  show ?thesis
  proof (cases r)
    case (Inl e)
    with m have "disk s' = disk s" by simp
    with i l assms(3) Inl show ?thesis by (simp add: in_step_def)
  next
    case (Inr snap)
    with m assms(3) have "\<exists>k. normalizeJob job = Inr k \<and>
       (if identityKey k \<in> set (keys (memory s)) then snap = memory s
        else rs_jobs snap = rs_jobs (memory s) @ [k] \<and>
          (rs_jobs (memory s) \<noteq> [] \<longrightarrow> rs_detectedAt snap = rs_detectedAt (memory s)))"
      and "snap = memory s'" by auto
    with i l Inr show ?thesis by (auto simp: in_step_def keys_def split: if_splits)
  qed
qed

definition sample_recovery :: recovery_store where
  "sample_recovery = \<lparr>memory = emptyState, disk = NoFile, has_path = True, loaded = True,
     chain_ok = True, writes = []\<rparr>"

lemma sample_recovery_in_step: "in_step (\<lambda>_. True) sample_recovery"
  by (simp add: in_step_def sample_recovery_def recovery_of_file_def)

lemma reads_iso_any: "reads_iso (\<lambda>_. True)"
  by (simp add: reads_iso_def)

lemma added_jobs_are_recorded_witness:
  "let m = add (\<lambda>_. True) 0 (sample_identity ''local'' ''job-0001'') sample_recovery in
   \<exists>snap. recovery_of_file (\<lambda>_. True) (disk (snd m)) = Inr snap \<and>
     ''local:job-0001'' \<in> set (map identityKey (rs_jobs snap))"
proof -
  define m where "m = add (\<lambda>_. True) 0 (sample_identity ''local'' ''job-0001'') sample_recovery"
  have e: "is_ok (fst m)"
    "normalizeJob (sample_identity ''local'' ''job-0001'') = Inr \<lparr>id_job = ''job-0001'', id_server = ''local''\<rparr>"
    unfolding m_def by code_simp+
  from e(1) obtain snap where snap: "fst m = Inr snap" by (cases "fst m") simp_all
  have l: "loaded sample_recovery" by (simp add: sample_recovery_def)
  have "add (\<lambda>_. True) 0 (sample_identity ''local'' ''job-0001'') sample_recovery = (fst m, snd m)"
    by (simp add: m_def)
  then have "add (\<lambda>_. True) 0 (sample_identity ''local'' ''job-0001'') sample_recovery = (Inr snap, snd m)"
    by (simp only: snap)
  moreover have s: "recovery_of_file (\<lambda>_. True) (disk sample_recovery) = Inr (memory sample_recovery)"
    "wf_recovery (\<lambda>_. True) (memory sample_recovery)"
    using sample_recovery_in_step l by (simp_all only: in_step_def if_True)
  ultimately have "recovery_of_file (\<lambda>_. True) (disk (snd m)) = Inr snap \<and>
    identityKey \<lparr>id_job = ''job-0001'', id_server = ''local''\<rparr> \<in> set (map identityKey (rs_jobs snap))"
    by (auto dest!: added_jobs_are_recorded [OF reads_iso_any l s] simp: e(2))
  then show ?thesis by (simp only: m_def [symmetric] Let_def identityKey_def) auto
qed

lemma identityKey_inj:
  assumes "CHR '':'' \<notin> set (id_server i)" "CHR '':'' \<notin> set (id_server k)" "identityKey i = identityKey k"
  shows "i = k"
proof -
  have tw: "takeWhile (\<lambda>c. c \<noteq> CHR '':'') (identityKey j) = id_server j"
    if "CHR '':'' \<notin> set (id_server j)" for j
    using that by (auto simp: identityKey_def takeWhile_append)
  then have "id_server i = id_server k" using assms by metis
  with assms(3) show ?thesis by (simp add: identityKey_def)
qed

text \<open>Removing. When a \<open>remove\<close> returns, the file has lost exactly the jobs with the job's key, and no
  longer carries a time once none is left; where server ids have no colon these are the jobs with the
  same ids. When it throws the file is as it was.\<close>

theorem removed_jobs_are_gone:
  assumes "reads_iso date_ok" "loaded s" "recovery_of_file date_ok (disk s) = Inr (memory s)"
    "wf_recovery date_ok (memory s)" "remove date_ok job s = (r, s')"
  shows "case r of
      Inl _ \<Rightarrow> disk s' = disk s \<and> memory s' = memory s
    | Inr snap \<Rightarrow> recovery_of_file date_ok (disk s') = Inr snap \<and> (rs_detectedAt snap = None \<longleftrightarrow> rs_jobs snap = []) \<and>
        (\<exists>k. normalizeJob job = Inr k \<and>
          rs_jobs snap = filter (\<lambda>c. identityKey c \<noteq> identityKey k) (rs_jobs (memory s)) \<and>
          ((\<forall>c \<in> insert k (set (rs_jobs (memory s))). CHR '':'' \<notin> set (id_server c)) \<longrightarrow>
             rs_jobs snap = filter (\<lambda>c. c \<noteq> k) (rs_jobs (memory s))))"
proof -
  have s: "in_step date_ok s" using assms by (simp add: in_step_def)
  note m = mutates_remove [of date_ok job, unfolded mutates_def, rule_format, OF s assms(5)]
  have l: "loaded s'" using assms(2,5)
    by (auto simp: remove_def queueMutation_def init_recovery_def sbind_apply recovery_snapshot_def
        persist_recovery_def write_file_def Let_def split: sum.splits option.splits if_splits)
  from m have i: "in_step date_ok s'" by simp
  show ?thesis
  proof (cases r)
    case (Inl e)
    with m have "disk s' = disk s" by simp
    with i l assms(3) Inl show ?thesis by (simp add: in_step_def)
  next
    case (Inr snap)
    with m assms(3) obtain k where k: "normalizeJob job = Inr k" "snap = memory s'"
      "rs_jobs snap = filter (\<lambda>c. identityKey c \<noteq> identityKey k) (rs_jobs (memory s))" by auto
    have "filter (\<lambda>c. identityKey c \<noteq> identityKey k) (rs_jobs (memory s)) = filter (\<lambda>c. c \<noteq> k) (rs_jobs (memory s))"
      if "\<forall>c \<in> insert k (set (rs_jobs (memory s))). CHR '':'' \<notin> set (id_server c)"
      by (rule filter_cong [OF refl]) (use that identityKey_inj in auto)
    with k i l Inr show ?thesis
      by (auto simp: in_step_def wf_recovery_def split: option.splits)
  qed
qed

lemma removed_jobs_are_gone_witness:
  "let s = snd (add (\<lambda>_. True) 0 (sample_identity ''local'' ''job-0001'') sample_recovery) in
   disk (snd (remove (\<lambda>_. True) (sample_identity ''local'' ''job-0001'') s)) \<noteq> disk s \<and>
   recovery_of_file (\<lambda>_. True) (disk (snd (remove (\<lambda>_. True) (sample_identity ''local'' ''job-0001'') s)))
     = Inr emptyState"
proof -
  let ?s = "snd (add (\<lambda>_. True) 0 (sample_identity ''local'' ''job-0001'') sample_recovery)"
  let ?m = "remove (\<lambda>_. True) (sample_identity ''local'' ''job-0001'') ?s"
  have i: "in_step (\<lambda>_. True) ?s"
    by (rule keepsD [OF keeps_mutates [OF mutates_add [OF reads_iso_any]] sample_recovery_in_step])
  have e: "loaded ?s" "is_ok (fst ?m)" "disk (snd ?m) \<noteq> disk ?s"
    "normalizeJob (sample_identity ''local'' ''job-0001'') = Inr \<lparr>id_job = ''job-0001'', id_server = ''local''\<rparr>"
    "rs_jobs (memory ?s) = [\<lparr>id_job = ''job-0001'', id_server = ''local''\<rparr>]"
    by code_simp+
  from e(2) obtain snap where snap: "fst ?m = Inr snap" by (cases "fst ?m") simp_all
  define s t where "s = ?s" and "t = ?m"
  note e = e [folded t_def, folded s_def] and i = i [folded s_def]
  have "remove (\<lambda>_. True) (sample_identity ''local'' ''job-0001'') s = (fst t, snd t)" by (simp add: s_def t_def)
  moreover have "recovery_of_file (\<lambda>_. True) (disk s) = Inr (memory s)" "wf_recovery (\<lambda>_. True) (memory s)"
    using i e(1) by (simp_all only: in_step_def if_True)
  ultimately have "case fst t of
      Inl _ \<Rightarrow> disk (snd t) = disk s \<and> memory (snd t) = memory s
    | Inr snap \<Rightarrow> recovery_of_file (\<lambda>_. True) (disk (snd t)) = Inr snap \<and>
        (rs_detectedAt snap = None \<longleftrightarrow> rs_jobs snap = []) \<and>
        (\<exists>k. normalizeJob (sample_identity ''local'' ''job-0001'') = Inr k \<and>
          rs_jobs snap = filter (\<lambda>c. identityKey c \<noteq> identityKey k) (rs_jobs (memory s)) \<and>
          ((\<forall>c \<in> insert k (set (rs_jobs (memory s))). CHR '':'' \<notin> set (id_server c)) \<longrightarrow>
             rs_jobs snap = filter (\<lambda>c. c \<noteq> k) (rs_jobs (memory s))))"
    using removed_jobs_are_gone [OF reads_iso_any e(1)] by blast
  then have "recovery_of_file (\<lambda>_. True) (disk (snd t)) = Inr snap \<and> rs_jobs snap = [] \<and> rs_detectedAt snap = None"
    by (simp only: snap [folded t_def] e(4,5) sum.case) fastforce
  then have "recovery_of_file (\<lambda>_. True) (disk (snd t)) = Inr emptyState"
    by (simp add: emptyState_def)
  with e(3) show ?thesis by (simp only: Let_def simp_thms s_def t_def)
qed

text \<open>C29 Keys. The key joins the two ids with a colon, which both may contain: two different valid jobs
  can have the same key, and once the one is recorded the other cannot be; its \<open>add\<close> returns and
  records nothing.\<close>

theorem colliding_job_is_not_recorded:
  "\<exists>i k. wf_identity i \<and> wf_identity k \<and> i \<noteq> k \<and>
     (\<forall>date_ok now s. loaded s \<longrightarrow> i \<in> set (rs_jobs (memory s)) \<longrightarrow>
        add date_ok now (identity_js k) s = (Inr (memory s), s))"
proof (intro exI conjI allI impI)
  let ?i = "\<lparr>id_job = ''cccccccc'', id_server = ''a:bbbbbbbb''\<rparr>"
  let ?k = "\<lparr>id_job = ''bbbbbbbb:cccccccc'', id_server = ''a''\<rparr>"
  show "wf_identity ?i" "wf_identity ?k" "?i \<noteq> ?k" by code_simp+
  fix date_ok now and s :: recovery_store
  assume "loaded s" "?i \<in> set (rs_jobs (memory s))"
  moreover have "normalizeJob (identity_js ?k) = Inr ?k"
    by (rule normalizeJob_js) code_simp
  moreover have "identityKey ?i = identityKey ?k" by (simp add: identityKey_def)
  ultimately show "add date_ok now (identity_js ?k) s = (Inr (memory s), s)"
    by (auto simp: add_def queueMutation_def init_recovery_def sbind_apply recovery_snapshot_def list_ex_iff
        split: if_splits)
qed

lemma colliding_job_is_not_recorded_witness:
  "\<exists>i k. wf_identity i \<and> wf_identity k \<and> i \<noteq> k \<and>
     fst (add (\<lambda>_. True) 0 (identity_js k) (sample_recovery\<lparr>memory := \<lparr>rs_detectedAt = Some ''t'', rs_jobs = [i]\<rparr>\<rparr>))
       = Inr \<lparr>rs_detectedAt = Some ''t'', rs_jobs = [i]\<rparr>"
proof -
  obtain i k where ik: "wf_identity i" "wf_identity k" "i \<noteq> k"
    "\<forall>date_ok now s. loaded s \<longrightarrow> i \<in> set (rs_jobs (memory s)) \<longrightarrow>
        add date_ok now (identity_js k) s = (Inr (memory s), s)"
    using colliding_job_is_not_recorded by blast
  then show ?thesis by (intro exI [of _ i] exI [of _ k]) (simp add: sample_recovery_def)
qed

end
