(* ===== verification/DurableGuarantees.thy ===== *)
theory DurableGuarantees
  imports DurableQueue JobGuarantees JobRecoveryGuarantees
begin

text \<open>
  The durable queue on the registry and the record of the panel: the two interfaces interpreted on
  \<open>JobRegistry\<close> and \<open>JobRecovery\<close>, and what the queue promises.
\<close>

section \<open>The record of the panel\<close>

definition recovery_ops :: "(string \<Rightarrow> bool) \<Rightarrow> int \<Rightarrow> recovery_store log_ops" where
  "recovery_ops date_ok now = \<lparr>l_init = init_recovery date_ok,
     l_replace = (\<lambda>jobs. map_sm (\<lambda>_. ()) (replace date_ok now (JArr (map identity_js jobs)))),
     l_add = Some (\<lambda>i. map_sm (\<lambda>_. ()) (add date_ok now (identity_js i))),
     l_remove = Some (\<lambda>i. map_sm (\<lambda>_. ()) (remove date_ok (identity_js i))),
     l_snapshot = map_sm rs_jobs recovery_snapshot\<rparr>"

definition recorded_jobs :: "recovery_store \<Rightarrow> identity list" where
  "recorded_jobs s = rs_jobs (memory s)"

definition record_fresh :: "(string \<Rightarrow> bool) \<Rightarrow> recovery_store \<Rightarrow> bool" where
  "record_fresh date_ok s \<longleftrightarrow> reads_iso date_ok \<and> in_step date_ok s"

definition record_ready :: "(string \<Rightarrow> bool) \<Rightarrow> recovery_store \<Rightarrow> bool" where
  "record_ready date_ok s \<longleftrightarrow> reads_iso date_ok \<and> in_step date_ok s \<and> loaded s"

lemma recoveryKey_eq: "recoveryKey = identityKey"
  by (simp add: fun_eq_iff recoveryKey_def identityKey_def)

lemma map_sm_Inr: "map_sm f m s = (Inr u, s') \<longleftrightarrow> (\<exists>x. m s = (Inr x, s') \<and> u = f x)"
  by (auto simp: map_sm_def sbind_apply split: prod.splits sum.splits)

lemma record_ready_base:
  assumes "record_ready date_ok s" "recovery_of_file date_ok (disk s) = Inr b"
  shows "b = memory s"
  using assms by (auto simp: record_ready_def in_step_def)

text \<open>A mutation that returns, seen from a ready store.\<close>

lemma mutates_ready:
  assumes m: "mutates date_ok m R" and s: "record_ready date_ok s" and r: "m s = (Inr x, s')"
  shows "record_ready date_ok s' \<and> R (memory s) (memory s')"
proof -
  have i: "in_step date_ok s" "loaded s" and io: "reads_iso date_ok" using s by (auto simp: record_ready_def)
  from m [unfolded mutates_def, rule_format, OF i(1) r] obtain b where
    b: "recovery_of_file date_ok (disk s) = Inr b" "R b x" "in_step date_ok s'" "loaded s'" "x = memory s'" by auto
  with record_ready_base [OF s b(1)] io show ?thesis by (simp add: record_ready_def)
qed

lemma map_res_normalizeJob:
  "map_res normalizeJob (map identity_js js) = Inr ks \<Longrightarrow> ks = js"
proof (induction js arbitrary: ks)
  case (Cons j js)
  then obtain k ks' where k: "normalizeJob (identity_js j) = Inr k" "map_res normalizeJob (map identity_js js) = Inr ks'"
    "ks = k # ks'" by auto
  have "k = j" using k(1) by (auto simp: normalizeJob_def identity_js_def split: if_splits)
  with k Cons.IH show ?case by simp
qed simp

lemma normalizeJob_identity: "normalizeJob (identity_js j) = Inr k \<Longrightarrow> k = j"
  by (auto simp: normalizeJob_def identity_js_def split: if_splits)

interpretation jr: recovery_log "recovery_ops date_ok now" recorded_jobs "record_fresh date_ok" "record_ready date_ok"
  for date_ok :: "string \<Rightarrow> bool" and now :: int
proof unfold_locales
  fix s s' u i js f
  show "record_fresh date_ok s \<Longrightarrow> l_init (recovery_ops date_ok now) s = (Inr u, s') \<Longrightarrow> record_ready date_ok s'"
    using keeps_result [OF in_step_init, of date_ok s "Inr u" s'] init_recovery_loaded [of date_ok s u s']
    by (auto simp: recovery_ops_def record_fresh_def record_ready_def)
  assume r: "record_ready date_ok s"
  then have io: "reads_iso date_ok" and wf: "wf_recovery date_ok (memory s)"
    by (auto simp: record_ready_def in_step_def)
  show "l_snapshot (recovery_ops date_ok now) s = (Inr (recorded_jobs s), s)"
    by (simp add: recovery_ops_def map_sm_def recovery_snapshot_def sbind_apply recorded_jobs_def)
  show "i \<in> set (recorded_jobs s) \<Longrightarrow> safeRecoveryJob (id_job i) (id_server i) = Some i"
    using wf by (auto simp: recorded_jobs_def wf_recovery_def list_all_iff wf_identity_def is_job_id_def is_server_id_def
        safeRecoveryJob_def)
  show "distinct (map recoveryKey (recorded_jobs s))"
    using wf by (simp add: recorded_jobs_def wf_recovery_def recoveryKey_eq)
  show "l_replace (recovery_ops date_ok now) js s = (Inr u, s') \<Longrightarrow>
      record_ready date_ok s' \<and> rkeys (recorded_jobs s') = rkeys js"
    using mutates_ready [OF mutates_replace [OF io] r, of now "JArr (map identity_js js)"]
    by (fastforce simp: recovery_ops_def map_sm_Inr recorded_jobs_def dest: map_res_normalizeJob)
  show "l_add (recovery_ops date_ok now) = Some f \<Longrightarrow> f i s = (Inr u, s') \<Longrightarrow>
      record_ready date_ok s' \<and> rkeys (recorded_jobs s') = insert (recoveryKey i) (rkeys (recorded_jobs s))"
    using mutates_ready [OF mutates_add [OF io] r]
    by (fastforce simp: recovery_ops_def map_sm_Inr recorded_jobs_def rkeys_def recoveryKey_eq keys_def
        dest: normalizeJob_identity split: if_splits)
  show "l_remove (recovery_ops date_ok now) = Some f \<Longrightarrow> f i s = (Inr u, s') \<Longrightarrow>
      record_ready date_ok s' \<and> rkeys (recorded_jobs s') = rkeys (recorded_jobs s) - {recoveryKey i}"
    using mutates_ready [OF mutates_remove r]
    by (fastforce simp: recovery_ops_def map_sm_Inr recorded_jobs_def rkeys_def recoveryKey_eq
        dest: normalizeJob_identity)
qed

section \<open>The registry of the panel\<close>

definition registry_ops :: "job_deps \<Rightarrow> job_store queue_ops" where
  "registry_ops deps = \<lparr>q_fresh = (\<lambda>s. s\<lparr>memory := [], has_path := True, loaded := False, chain_ok := True\<rparr>),
     q_init = init_jobs,
     q_running = listJobs \<lparr>f_serverId = None, f_resourceType = None, f_resourceId = None, f_status = Some ''running''\<rparr>,
     q_getJob = getJob, q_call = handle_job deps,
     q_file = (\<lambda>s. case disk s of NoFile \<Rightarrow> NoFile | CorruptFile \<Rightarrow> CorruptFile
       | JsonFile v \<Rightarrow> JsonFile (case read_jobs v of Inl _ \<Rightarrow> None | Inr jobs \<Rightarrow> Some (map publicJob jobs)))\<rparr>"

definition shown_jobs :: "job_store \<Rightarrow> public_job list" where
  "shown_jobs s = map publicJob (memory s)"

text \<open>The registry holds what its file holds, up to what JSON leaves out, and its write chain is whole.\<close>

definition settled_jobs :: "job_store \<Rightarrow> bool" where
  "settled_jobs s \<longleftrightarrow> loaded s \<and> has_path s \<and> chain_ok s \<and>
     (disk s = NoFile \<and> memory s = [] \<or> file_jobs (disk s) = JsonFile (memory s) \<or> disk s = JsonFile (jobs_text (memory s)))"

definition unloaded_jobs :: "job_store \<Rightarrow> bool" where
  "unloaded_jobs s \<longleftrightarrow> memory s = [] \<and> has_path s \<and> \<not> loaded s \<and> chain_ok s"

lemma job_status_publicJob [simp]: "job_status (publicJob j) = job_status j" "job_id (publicJob j) = job_id j"
  by (simp_all add: publicJob_def public_job.truncate_def)

lemma selects_running:
  "selects \<lparr>f_serverId = None, f_resourceType = None, f_resourceId = None, f_status = Some ''running''\<rparr> j
    \<longleftrightarrow> job_status j = JobRunning"
  by (cases "job_status j") (simp_all add: selects_def unset_def)

lemma find_publicJob: "find (\<lambda>j. job_id j = i) (map publicJob m) = map_option publicJob (find (\<lambda>j. job_id j = i) m)"
  by (induction m) simp_all

interpretation jq: job_queue "registry_ops deps" shown_jobs settled_jobs unloaded_jobs
  for deps :: job_deps
proof unfold_locales
  fix s s' :: job_store and u v i r x
  show "unloaded_jobs s \<Longrightarrow> q_init (registry_ops deps) s = (Inr u, s') \<Longrightarrow> settled_jobs s'"
    by (auto simp: registry_ops_def init_jobs_def unloaded_jobs_def settled_jobs_def read_file_jobs split: disk_file.splits if_splits sum.splits)
  show "unloaded_jobs (q_fresh (registry_ops deps) s)"
    by (simp add: registry_ops_def unloaded_jobs_def)
  assume s: "settled_jobs s"
  then have l: "loaded s" by (simp add: settled_jobs_def)
  show "q_running (registry_ops deps) s = (Inr (filter (\<lambda>j. job_status j = JobRunning) (shown_jobs s)), s)"
    using l by (auto simp: registry_ops_def listJobs_def sbind_apply unset_def job_status_of_def JOB_STATUSES_def
        shown_jobs_def filter_map o_def selects_running [abs_def])
  show "q_getJob (registry_ops deps) i s = (Inr (find (\<lambda>j. job_id j = i) (shown_jobs s)), s)"
    using l by (simp add: registry_ops_def getJob_def sbind_apply shown_jobs_def find_publicJob)
  show "q_call (registry_ops deps) r s = (Inr v, s') \<Longrightarrow> settled_jobs s'"
    using returned_saved [OF l, of deps r v s'] keeps_result [OF handle_job_loaded l, of deps r]
      keeps_result [OF handle_job_path, of s deps r] s
    by (auto simp: registry_ops_def settled_jobs_def jobs_saved_def)
  show "method_of r = MRead \<Longrightarrow> q_call (registry_ops deps) r s = (x, s') \<Longrightarrow> s' = s"
    using l by (cases r) (auto simp: registry_ops_def jobs_of_def findIdempotentJob_def getJob_def listJobs_def sbind_apply
        split: option.splits if_splits)
qed

section \<open>Runs\<close>

type_synonym durable_panel = "(job_store, recovery_store) durable"

text \<open>A request with the clock reading of the record during it.\<close>

definition run_durable :: "job_deps \<Rightarrow> (string \<Rightarrow> bool) \<Rightarrow> bool \<Rightarrow> (int \<times> durable_request) list \<Rightarrow> durable_panel \<Rightarrow>
    durable_panel" where
  "run_durable deps date_ok automatic rs d =
     foldl (\<lambda>d (now, r). snd (handle_durable (registry_ops deps) (recovery_ops date_ok now) automatic
       (dep_envelope deps) r d)) d rs"

lemma run_durable_hoare:
  assumes "\<And>now r. r \<in> snd ` set rs \<Longrightarrow> hoare I (handle_durable (registry_ops deps) (recovery_ops date_ok now) automatic
      (dep_envelope deps) r) (\<lambda>_. I) (\<lambda>_. I)" "I d"
  shows "I (run_durable deps date_ok automatic rs d)"
  using assms
proof (induction rs arbitrary: d)
  case (Cons p rs)
  obtain now r where p: "p = (now, r)" by (cases p)
  have "keeps I (handle_durable (registry_ops deps) (recovery_ops date_ok now) automatic (dep_envelope deps) r)"
    using Cons.prems(1) by (simp add: keeps_iff_hoare p)
  from keepsD [OF this Cons.prems(2)] Cons.IH Cons.prems(1) show ?case by (simp add: run_durable_def p)
qed (simp add: run_durable_def)

text \<open>\<open>createDurableJobRegistry\<close> on two files.\<close>

definition start_durable :: "js disk_file \<Rightarrow> bool list \<Rightarrow> js disk_file \<Rightarrow> bool list \<Rightarrow> durable_panel" where
  "start_durable jobs ws record vs =
     createDurableJobRegistry (createJobRegistry (Some jobs) ws) (createJobRecoveryStore record vs)"

lemma start_sound: "reads_iso date_ok \<Longrightarrow> jr.sound date_ok (start_durable jobs ws record vs)"
  by (simp add: jr.sound_def start_durable_def createDurableJobRegistry_def record_fresh_def in_step_def
      createJobRecoveryStore_def)

lemma start_backed: "jq.backed (start_durable jobs ws record vs)"
  by (simp add: jq.backed_def start_durable_def createDurableJobRegistry_def unloaded_jobs_def createJobRegistry_def)

section \<open>Properties\<close>

text \<open>C20 Recovery. Whatever files the durable queue starts on and whatever is called with whatever clock readings,
  write failures and reconciliation mode: while it is initialised and not latched, the jobs it holds
  back are exactly those the recovery file records, and every job awaiting acknowledgement is one of them.\<close>

theorem held_back_jobs_are_recorded:
  assumes "reads_iso date_ok" "d = run_durable deps date_ok automatic rs (start_durable jobs ws record vs)"
    "d_initialized d" "d_fatal d = None"
  shows "recovery_of_file date_ok (disk (d_record d)) = Inr (memory (d_record d)) \<and>
    recoveryKey ` set (d_recovery d) = recoveryKey ` set (rs_jobs (memory (d_record d))) \<and>
    d_explicit d \<subseteq> d_pending d \<and> d_pending d \<subseteq> recoveryKey ` set (d_recovery d)"
proof -
  have "jr.sound date_ok d"
    unfolding assms(2) by (rule run_durable_hoare [OF jr.hoare_handle start_sound [OF assms(1)]])
  with assms(3,4) have "jr.in_sync date_ok d" by (simp add: jr.sound_def)
  then show ?thesis
    by (auto simp: jr.in_sync_def record_ready_def in_step_def rkeys_def recorded_jobs_def)
qed

definition durable_sample :: durable_panel where
  "durable_sample = run_durable sample_deps (\<lambda>_. True) True
     [(7, Mutate (Enqueue 5 ''job-0001'' (sample_request ''panel''))), (7, Mutate (ClaimNext 6 ''local'')),
      (7, Mutate (CompleteJob 8 ''local'' ''job-0001'' ''succeeded'' JNull JNull))]
     (start_durable NoFile [] NoFile [])"

lemma held_back_jobs_are_recorded_witness:
  "recoveryKey ` set (d_recovery durable_sample) = {''local:job-0001''} \<and>
   recoveryKey ` set (rs_jobs (memory (d_record durable_sample))) = {''local:job-0001''}"
proof -
  have "d_initialized durable_sample \<and> d_fatal durable_sample = None \<and>
      map recoveryKey (d_recovery durable_sample) = [''local:job-0001'']" by code_simp
  then have e: "d_initialized durable_sample" "d_fatal durable_sample = None"
    "recoveryKey ` set (d_recovery durable_sample) = {''local:job-0001''}"
    by (simp_all flip: set_map)
  with held_back_jobs_are_recorded [OF reads_iso_any durable_sample_def e(1,2)] show ?thesis by simp
qed

text \<open>C21 No phantom jobs. Whatever happens, while the durable queue is initialised and not latched its registry
  holds what the job file holds, and its write chain is whole: the changes of a failing mutation are
  gone, and later mutations can be written again.\<close>

theorem registry_is_its_file:
  assumes "d = run_durable deps date_ok automatic rs (start_durable jobs ws record vs)"
    "list_all (\<lambda>(_, r). well_addressed r) rs" "d_initialized d" "d_fatal d = None"
  shows "loaded (d_registry d) \<and> chain_ok (d_registry d) \<and>
     (disk (d_registry d) = NoFile \<and> memory (d_registry d) = [] \<or>
      file_jobs (disk (d_registry d)) = JsonFile (memory (d_registry d)) \<or>
      disk (d_registry d) = JsonFile (jobs_text (memory (d_registry d))))"
proof -
  have "jq.backed d"
    unfolding assms(1)
    by (rule run_durable_hoare [OF jq.hoare_handle_queue start_backed])
      (use assms(2) in \<open>auto simp: list_all_iff\<close>)
  with assms(3,4) show ?thesis by (simp add: jq.backed_def settled_jobs_def)
qed

lemma registry_is_its_file_witness:
  "disk (d_registry durable_sample) = JsonFile (jobs_text (memory (d_registry durable_sample))) \<or>
   file_jobs (disk (d_registry durable_sample)) = JsonFile (memory (d_registry durable_sample))"
proof -
  have e: "d_initialized durable_sample" "d_fatal durable_sample = None"
    "memory (d_registry durable_sample) \<noteq> []" by code_simp+
  have "list_all (\<lambda>(_, r). well_addressed r)
     [(7 :: int, Mutate (Enqueue 5 ''job-0001'' (sample_request ''panel''))), (7, Mutate (ClaimNext 6 ''local'')),
      (7, Mutate (CompleteJob 8 ''local'' ''job-0001'' ''succeeded'' JNull JNull))]" by simp
  from registry_is_its_file [OF durable_sample_def this e(1,2)] e(3) show ?thesis by blast
qed

lemma init_latched:
  "d_fatal d \<noteq> None \<Longrightarrow> init_durable q l d = (Inr (), d) \<or> (\<exists>e. init_durable q l d = (Inl e, d))"
  by (auto simp: init_durable_def sbind_apply assertHealthy_apply)

text \<open>The latch. Once the durable queue has latched, nothing changes it any more: every mutation, every
  reconciliation and every read of jobs is refused, whatever the stores it wraps.\<close>

theorem latched_queue_refuses_everything:
  assumes "d_fatal d \<noteq> None"
  shows "(\<exists>e. mutate q l automatic req d = (Inl e, d)) \<and> (\<exists>e. beginReconciliation q l sid jid d = (Inl e, d)) \<and>
    (\<exists>e. acknowledgeReconciliation q l sid jid d = (Inl e, d)) \<and>
    (\<exists>e. getReconciliationJob q l envelope jid d = (Inl e, d)) \<and> (\<exists>e. read_durable q l req d = (Inl e, d)) \<and>
    snd (init_durable q l d) = d"
  using init_latched [OF assms, of q l] assms
  by (auto simp: mutate_def beginReconciliation_def acknowledgeReconciliation_def getReconciliationJob_def read_durable_def
      reconciliation_job_def assertMutationAllowed_def sbind_apply assertHealthy_apply)

text \<open>A job file that is not JSON latches the queue as it starts.\<close>

lemma latched_queue_refuses_everything_witness:
  "let d = run_durable sample_deps (\<lambda>_. True) True [(0, Init)] (start_durable CorruptFile [] NoFile []) in
   d_fatal d = Some (''durable_job_init_failed'', ''Durable job registry could not be initialized'') \<and>
   (\<exists>e. mutate (registry_ops sample_deps) (recovery_ops (\<lambda>_. True) 0) True (ClaimNext 5 ''local'') d = (Inl e, d))"
proof -
  let ?d = "run_durable sample_deps (\<lambda>_. True) True [(0, Init)] (start_durable CorruptFile [] NoFile [])"
  have "d_fatal ?d = Some (''durable_job_init_failed'', ''Durable job registry could not be initialized'')"
    by code_simp
  moreover from this have "d_fatal ?d \<noteq> None" by simp
  from latched_queue_refuses_everything [OF this] have
    "\<exists>e. mutate (registry_ops sample_deps) (recovery_ops (\<lambda>_. True) 0) True (ClaimNext 5 ''local'') ?d = (Inl e, ?d)"
    by blast
  ultimately show ?thesis by (simp only: Let_def simp_thms)
qed

text \<open>What the initialisation on a file leaves: the running jobs of the file are held back.\<close>

lemma init_holds_running:
  assumes "init_durable (registry_ops deps) (recovery_ops date_ok now) (start_durable (JsonFile t) ws record vs) = (Inr u, d)"
    "read_jobs t = Inr m"
  shows "d_fatal d = None \<and> running_key ` set (filter (\<lambda>j. job_status j = JobRunning) (map publicJob m)) \<subseteq> rkeys (d_recovery d) \<and>
    d_initialized d"
proof -
  let ?q = "registry_ops deps" and ?l = "recovery_ops date_ok now"
  define d0 where "d0 = start_durable (JsonFile t) ws record vs"
  define I where "I d \<longleftrightarrow> settled_jobs (d_registry d) \<and> shown_jobs (d_registry d) = map publicJob m" for d :: durable_panel
  let ?js = "filter (\<lambda>j. job_status j = JobRunning) (map publicJob m)"
  have queue: "hoare (\<lambda>d. d = d0) (on_queue (q_init ?q)) (\<lambda>_ d. I d \<and> d_fatal d = None) (\<lambda>_ _. True)"
    by (rule hoare_on_queue)
      (auto simp: d0_def start_durable_def createDurableJobRegistry_def createJobRegistry_def registry_ops_def
        init_jobs_def I_def settled_jobs_def shown_jobs_def assms(2) read_file_jobs [OF assms(2)])
  have log: "hoare (\<lambda>d. I d \<and> d_fatal d = None) (initializeRecoveryStore ?l) (\<lambda>_ d. I d \<and> d_fatal d = None) (\<lambda>_ _. True)"
    unfolding initializeRecoveryStore_def
    by (rule hoare_returns_or_latch, rule hoare_on_log) (auto simp: I_def split: sum.splits)
  have det: "hoare (\<lambda>d. I d \<and> d_fatal d = None) (detectRecovery ?q ?l)
      (\<lambda>_ d. d_fatal d = None \<and> running_key ` set ?js \<subseteq> rkeys (d_recovery d)) (\<lambda>_ _. True)"
    by (rule hoare_detect_running) (auto simp: I_def dest: jq.queue_running [of _ deps])
  have "hoare (\<lambda>d. d = d0) (sbind (on_queue (q_init ?q)) (\<lambda>_. sbind (initializeRecoveryStore ?l) (\<lambda>_.
       sbind (detectRecovery ?q ?l) (\<lambda>_. smod (\<lambda>d. d\<lparr>d_initialized := True\<rparr>)))))
     (\<lambda>_ d. d_fatal d = None \<and> running_key ` set ?js \<subseteq> rkeys (d_recovery d) \<and> d_initialized d) (\<lambda>_ _. True)"
    by (rule hoare_sbind [OF queue], rule hoare_sbind [OF log], rule hoare_sbind [OF det], rule hoare_smod) simp
  from hoare_returns_or_latch(2) [OF this, of is_durable_error "''durable_job_init_failed''"
      "''Durable job registry could not be initialized''"]
  show ?thesis
    by (rule hoareD_ret [where s = d0])
      (use assms(1) in \<open>simp_all add: init_durable_def d0_def start_durable_def createDurableJobRegistry_def
         sbind_apply assertHealthy_apply\<close>)
qed

text \<open>Interrupted work. When the durable queue starts on a job file and its initialisation returns, every job the
  file has running is held back; if there is one, new jobs, claims and cancellations are refused
  and change nothing.\<close>

theorem interrupted_jobs_hold_the_queue:
  assumes "init_durable (registry_ops deps) (recovery_ops date_ok now) (start_durable (JsonFile t) ws record vs) = (Inr u, d)"
    "read_jobs t = Inr m" "j \<in> set m" "job_status j = JobRunning" "method_of req \<noteq> MComplete"
  shows "(job_serverId j @ '':'' @ job_id j) \<in> recoveryKey ` set (d_recovery d) \<and>
    mutate (registry_ops deps) (recovery_ops date_ok now) automatic req d = (Inl (durable_error RECOVERY_CODE RECOVERY_MESSAGE), d)"
proof -
  let ?js = "filter (\<lambda>j. job_status j = JobRunning) (map publicJob m)"
  have d: "d_fatal d = None" "running_key ` set ?js \<subseteq> rkeys (d_recovery d)" "d_initialized d"
    using init_holds_running [OF assms(1,2)] by blast+
  have "publicJob j \<in> set ?js" using assms(3,4) by simp
  with d(2) have "running_key (publicJob j) \<in> rkeys (d_recovery d)" by blast
  then have k: "(job_serverId j @ '':'' @ job_id j) \<in> recoveryKey ` set (d_recovery d)"
    by (simp add: rkeys_def running_key_def publicJob_def public_job.truncate_def)
  then have "d_recovery d \<noteq> []" by auto
  with d k assms(5) show ?thesis
    by (auto simp: mutate_def init_durable_def sbind_apply assertMutationAllowed_def assertHealthy_apply)
qed

lemma interrupted_jobs_hold_the_queue_witness:
  "\<exists>d. recoveryKey ` set (d_recovery d) = {''local:job-0001''} \<and>
     mutate (registry_ops sample_deps) (recovery_ops (\<lambda>_. True) 0) True (ClaimNext 5 ''local'') d
       = (Inl (durable_error RECOVERY_CODE RECOVERY_MESSAGE), d :: durable_panel)"
proof -
  let ?i = "init_durable (registry_ops sample_deps) (recovery_ops (\<lambda>_. True) 0)"
  let ?s = "start_durable (JsonFile (jobs_text [sample_job JobRunning])) [] NoFile []"
  have "returns ?i ?s (\<lambda>_ d. map recoveryKey (d_recovery d) = [''local:job-0001''])" by code_simp
  then obtain u d where r: "?i ?s = (Inr u, d)" "map recoveryKey (d_recovery d) = [''local:job-0001'']"
    by (auto elim!: returnsE)
  have "read_jobs (jobs_text [sample_job JobRunning]) = Inr [sample_job JobRunning]"
    "sample_job JobRunning \<in> set [sample_job JobRunning]" "job_status (sample_job JobRunning) = JobRunning"
    by (simp_all add: stored_jobs_def stored_job_def sample_job_def)
  from interrupted_jobs_hold_the_queue [OF r(1) this, of "ClaimNext 5 ''local''" True] r(2) show ?thesis
    by (intro exI [of _ d]) (simp flip: set_map)
qed

text \<open>Completions. With automatic reconciliation, when the completion of a running job returns, the job is in the
  recovery file, whatever write failed on the way, and its acknowledgement is attached to the answer
  unless its reconciliation was begun explicitly.\<close>

theorem completions_await_acknowledgement:
  assumes "reads_iso date_ok" "d = run_durable deps date_ok True rs (start_durable jobs ws record vs)"
    "list_all (\<lambda>(_, r). well_addressed r) rs" "d_initialized d" "d_fatal d = None"
    and "find (\<lambda>j. job_id j = jid) (memory (d_registry d)) = Some j" "job_serverId j = sid" "job_status j = JobRunning"
    and "safeRecoveryJob jid sid = Some i"
    and "mutate (registry_ops deps') (recovery_ops date_ok now) True (CompleteJob t sid jid st res er) d = (Inr (answer, ack), d')"
  shows "recovery_of_file date_ok (disk (d_record d')) = Inr (memory (d_record d')) \<and>
    recoveryKey i \<in> recoveryKey ` set (rs_jobs (memory (d_record d'))) \<and> (ack = Some i \<or> recoveryKey i \<in> d_explicit d')"
proof -
  have "jr.sound date_ok d" unfolding assms(2)
    by (rule run_durable_hoare [OF jr.hoare_handle start_sound [OF assms(1)]])
  with assms(4,5) have serving: "jr.in_sync date_ok d \<and> d_initialized d" by (simp add: jr.sound_def)
  have "jq.backed d" unfolding assms(2)
    by (rule run_durable_hoare [OF jq.hoare_handle_queue start_backed]) (use assms(3) in \<open>auto simp: list_all_iff\<close>)
  with assms(4,5) have "settled_jobs (d_registry d)" by (simp add: jq.backed_def)
  note get = jq.queue_getJob [OF this, of deps' jid]
  have i: "id_job i = jid" "id_server i = sid" using assms(9) by (auto simp: safeRecoveryJob_def split: if_splits)
  have j: "q_getJob (registry_ops deps') (id_job i) (d_registry d) = (Inr (Some (publicJob j)), d_registry d)"
    "job_serverId (publicJob j) = id_server i" "job_status (publicJob j) = JobRunning"
    using get assms(6-8) i by (simp_all add: shown_jobs_def find_publicJob publicJob_def public_job.truncate_def)
  have "mutation (registry_ops deps') (recovery_ops date_ok now) True (CompleteJob t sid jid st res er) d = (Inr (answer, ack), d')"
    using assms(4,5,10)
    by (auto simp: mutate_def init_durable_def sbind_apply assertMutationAllowed_def assertHealthy_apply scatch_apply
        split: prod.splits sum.splits if_splits)
  from jr.mutation_keeps_pending [OF _ _ serving j this] assms(9)
  have "jr.in_sync date_ok d' \<and> recoveryKey i \<in> d_pending d' \<and> (ack = Some i \<or> recoveryKey i \<in> d_explicit d')" by simp
  then show ?thesis
    by (auto simp: jr.in_sync_def record_ready_def in_step_def rkeys_def recorded_jobs_def)
qed

definition claimed_sample :: durable_panel where
  "claimed_sample = run_durable sample_deps (\<lambda>_. True) True
     [(7, Mutate (Enqueue 5 ''job-0001'' (sample_request ''panel''))), (7, Mutate (ClaimNext 6 ''local''))]
     (start_durable NoFile [] NoFile [])"

lemma completions_await_acknowledgement_witness:
  "\<exists>ack d'. ack = Some \<lparr>id_job = ''job-0001'', id_server = ''local''\<rparr> \<and>
     ''local:job-0001'' \<in> recoveryKey ` set (rs_jobs (memory (d_record (d' :: durable_panel))))"
proof -
  let ?m = "mutate (registry_ops sample_deps) (recovery_ops (\<lambda>_. True) 7) True
      (CompleteJob 8 ''local'' ''job-0001'' ''succeeded'' JNull JNull)"
  let ?i = "\<lparr>id_job = ''job-0001'', id_server = ''local''\<rparr>"
  have e: "d_initialized claimed_sample" "d_fatal claimed_sample = None" by code_simp+
  have "returns ?m claimed_sample (\<lambda>(_, ack) d. ack = Some ?i)" by code_simp
  then obtain a d' where m: "?m claimed_sample = (Inr (a, Some ?i), d')"
    by (auto elim!: returnsE)
  have "map job_id (memory (d_registry claimed_sample)) = [''job-0001''] \<and>
      map job_serverId (memory (d_registry claimed_sample)) = [''local''] \<and>
      map job_status (memory (d_registry claimed_sample)) = [JobRunning]" by code_simp
  then obtain j where "memory (d_registry claimed_sample) = [j]" "job_id j = ''job-0001''"
    "job_serverId j = ''local''" "job_status j = JobRunning" by auto
  then have j: "find (\<lambda>j. job_id j = ''job-0001'') (memory (d_registry claimed_sample)) = Some j"
    "job_serverId j = ''local''" "job_status j = JobRunning" by simp_all
  have w: "list_all (\<lambda>(_, r). well_addressed r)
     [(7 :: int, Mutate (Enqueue 5 ''job-0001'' (sample_request ''panel''))), (7, Mutate (ClaimNext 6 ''local''))]" by simp
  have i: "safeRecoveryJob ''job-0001'' ''local'' = Some ?i" by (simp add: safeRecoveryJob_def)
  have "recoveryKey ?i \<in> recoveryKey ` set (rs_jobs (memory (d_record d')))"
    using completions_await_acknowledgement [OF reads_iso_any claimed_sample_def w e j i m] by blast
  then show ?thesis by (intro exI [of _ "Some ?i"] exI [of _ d']) (simp add: recoveryKey_def)
qed

end
