(* ===== verification/ApplicationSpecs.thy ===== *)
theory ApplicationSpecs
  imports JsValue
begin

text \<open>
  The validators of applications the panel, its agents and its protocol share
  (\<open>packages/shared/src/application.js\<close>): identifiers, repositories, Git targets and credentials,
  build paths and static builds. They take a value of unknown shape and return the part of it they
  vouch for, or throw.

  \<open>parse_url\<close> is \<open>new URL\<close>, \<open>None\<close> when it throws.
\<close>

section \<open>Shared notions\<close>

definition app_error :: "string \<Rightarrow> string \<Rightarrow> jerr" where
  "app_error c msg = Err ''ApplicationValidationError'' (Some c) msg"

text \<open>A parameter with the default \<open>{}\<close>.\<close>

definition or_empty :: "js \<Rightarrow> js" where
  "or_empty v = (if v = JUndef then JObj [] else v)"

record url =
  u_protocol :: string
  u_hostname :: string
  u_username :: string
  u_password :: string
  u_search :: string
  u_hash :: string
  u_pathname :: string

section \<open>Identifiers and repositories\<close>

definition assertUuid :: "js \<Rightarrow> string \<Rightarrow> string res" where
  "assertUuid v fieldName =
     (if \<not> is_string v \<or> \<not> is_uuid (str_of v)
      then Inl (app_error ''invalid_uuid'' (fieldName @ '' must be a UUID''))
      else Inr (to_lower (str_of v)))"

definition is_repo_char :: "char \<Rightarrow> bool" where
  "is_repo_char c = (is_alnum c \<or> one_of ''_.-'' c)"

definition drop_git :: "string \<Rightarrow> string" where
  "drop_git s = (if 4 < length s \<and> ends_with s ''.git'' then take (length s - 4) s else s)"

text \<open>
  The match of the path: an owner and a repository, the lazy group leaving a final \<open>.git\<close> and a final
  slash out.
\<close>

definition repo_path :: "string \<Rightarrow> (string \<times> string) option" where
  "repo_path p =
     (case split_on (CHR ''/'') p of
        lead # owner # name # rest \<Rightarrow>
          if lead = [] \<and> owner \<noteq> [] \<and> name \<noteq> [] \<and> (rest = [] \<or> rest = [[]]) \<and>
             list_all is_repo_char owner \<and> list_all is_repo_char name
          then Some (owner, drop_git name) else None
      | _ \<Rightarrow> None)"

definition normalizeGithubRepositoryUrl :: "(string \<Rightarrow> url option) \<Rightarrow> js \<Rightarrow> string res" where
  "normalizeGithubRepositoryUrl parse_url v =
     (if \<not> is_string v \<or> length (str_of v) > 300
      then Inl (app_error ''invalid_repository_url'' ''Repository URL is invalid'')
      else case parse_url (str_of v) of
        None \<Rightarrow> Inl (app_error ''invalid_repository_url'' ''Repository URL is invalid'')
      | Some u \<Rightarrow>
          if u_protocol u \<noteq> ''https:'' \<or> u_hostname u \<noteq> ''github.com'' \<or> u_username u \<noteq> [] \<or>
             u_password u \<noteq> [] \<or> u_search u \<noteq> [] \<or> u_hash u \<noteq> []
          then Inl (app_error ''invalid_repository_url''
                 ''V1 supports credential-free HTTPS github.com repositories only'')
          else case repo_path (u_pathname u) of
            None \<Rightarrow> Inl (app_error ''invalid_repository_url'' ''GitHub repository path is invalid'')
          | Some (owner, name) \<Rightarrow>
              if starts_with owner ''.'' \<or> starts_with name ''.''
              then Inl (app_error ''invalid_repository_url'' ''GitHub repository path is invalid'')
              else Inr (''https://github.com/'' @ owner @ ''/'' @ name @ ''.git''))"

section \<open>Git targets and credentials\<close>

definition is_branch_char :: "char \<Rightarrow> bool" where
  "is_branch_char c = (is_alnum c \<or> one_of ''._/-'' c)"

definition is_branch :: "string \<Rightarrow> bool" where
  "is_branch s = head_class is_alnum is_branch_char 119 s"

definition branch_sequences_ok :: "string \<Rightarrow> bool" where
  "branch_sequences_ok s = (\<not> str_includes s ''..'' \<and> \<not> str_includes s ''//'' \<and> \<not> str_includes s (CHR ''@'' # ''{'') \<and>
     \<not> ends_with s ''/'' \<and> \<not> ends_with s ''.lock'')"

definition normalizeGitBranch :: "js \<Rightarrow> string res" where
  "normalizeGitBranch v =
     (if \<not> is_string v \<or> \<not> is_branch (str_of v) then Inl (app_error ''invalid_branch'' ''Git branch is invalid'')
      else if \<not> branch_sequences_ok (str_of v)
      then Inl (app_error ''invalid_branch'' ''Git branch contains unsupported sequences'')
      else Inr (str_of v))"

definition git_target :: "string \<Rightarrow> string \<Rightarrow> js" where
  "git_target kind value = JObj [(''kind'', JStr kind), (''value'', JStr value)]"

text \<open>\<open>None\<close> is the default branch null.\<close>

definition normalizeGitDeploymentTarget :: "js \<Rightarrow> js option \<Rightarrow> js res" where
  "normalizeGitDeploymentTarget v defaultBranch =
     (let candidate = (if is_nullish v \<and> defaultBranch \<noteq> None
            then JObj [(''kind'', JStr ''branch''), (''value'', the defaultBranch)] else v);
          kind = jget candidate ''kind''; value = jget candidate ''value'' in
      if \<not> is_object candidate \<or> length (keys_of candidate) \<noteq> 2 \<or> extra_keys candidate [''kind'', ''value'']
      then Inl (app_error ''invalid_git_target'' ''Git deployment target must contain exactly kind and value'')
      else if kind = JStr ''commit''
      then (if \<not> is_string value \<or> \<not> is_commit (str_of value)
            then Inl (app_error ''invalid_git_target'' ''Git commit target must be a full 40-character SHA'')
            else Inr (git_target ''commit'' (to_lower (str_of value))))
      else if \<not> str_in kind [''branch'', ''tag'']
      then Inl (app_error ''invalid_git_target'' ''Git deployment target kind must be branch, tag or commit'')
      else case normalizeGitBranch value of
        Inl _ \<Rightarrow> Inl (app_error ''invalid_git_target'' (''Git '' @ str_of kind @ '' target is invalid''))
      | Inr b \<Rightarrow> Inr (git_target (str_of kind) b))"

definition is_token_char :: "char \<Rightarrow> bool" where
  "is_token_char c = (33 \<le> code c \<and> code c \<le> 126)"

definition cr :: char where "cr = char_of (13 :: nat)"

definition lf :: char where "lf = char_of (10 :: nat)"

definition nul :: char where "nul = char_of (0 :: nat)"

fun crlf_to_lf :: "string \<Rightarrow> string" where
  "crlf_to_lf (a # b # s) = (if a = cr \<and> b = lf then lf # crlf_to_lf s else a # crlf_to_lf (b # s))"
| "crlf_to_lf s = s"

definition is_label_char :: "char \<Rightarrow> bool" where
  "is_label_char c = (is_upper c \<or> is_digit c \<or> c = CHR '' '')"

definition dashes :: string where "dashes = ''-----''"

text \<open>The label of the first line \<open>-----BEGIN <label>-----\<close>, and of the last \<open>-----END <label>-----\<close>.\<close>

definition label_of :: "string \<Rightarrow> string \<Rightarrow> string option" where
  "label_of word line =
     (let start = dashes @ word @ '' ''; label = takeWhile is_label_char (drop (length start) line) in
      if starts_with line start \<and> label \<noteq> [] \<and> drop (length start + length label) line = dashes
      then Some label else None)"

definition begin_label :: "string \<Rightarrow> string option" where
  "begin_label s = (case split_on lf s of line # _ # _ \<Rightarrow> label_of ''BEGIN'' line | _ \<Rightarrow> None)"

definition end_label :: "string \<Rightarrow> string option" where
  "end_label s = (if length (split_on lf s) < 2 then None else label_of ''END'' (last (split_on lf s)))"

definition PRIVATE_KEY_LABELS :: "string list" where
  "PRIVATE_KEY_LABELS = [''OPENSSH PRIVATE KEY'', ''PRIVATE KEY'', ''RSA PRIVATE KEY'', ''EC PRIVATE KEY'']"

definition normalizeGitDeploymentCredential :: "js \<Rightarrow> bool \<Rightarrow> js res" where
  "normalizeGitDeploymentCredential v nullable =
     (if is_nullish v \<and> nullable then Inr JNull
      else if \<not> is_object v \<or> \<not> is_string (jget v ''type'')
      then Inl (app_error ''invalid_git_credential'' ''Git deployment credential is invalid'')
      else
        let t = str_of (jget v ''type'');
            fields = (if t = ''github_token'' then [''type'', ''token'']
                      else if t = ''ssh_deploy_key'' then [''type'', ''privateKey''] else []) in
        if fields = [] \<or> length (keys_of v) \<noteq> length fields \<or> extra_keys v fields
        then Inl (app_error ''invalid_git_credential'' ''Git deployment credential fields are invalid'')
        else if t = ''github_token''
        then (if \<not> is_string (jget v ''token'') \<or> \<not> class_len is_token_char 20 255 (str_of (jget v ''token''))
              then Inl (app_error ''invalid_git_credential'' ''GitHub token format is invalid'')
              else Inr (JObj [(''type'', JStr t), (''token'', jget v ''token'')]))
        else
          let key = jget v ''privateKey'' in
          if \<not> is_string key \<or> length (str_of key) < 100 \<or> length (str_of key) > 32 * 1024 \<or>
             nul \<in> set (str_of key)
          then Inl (app_error ''invalid_git_credential'' ''SSH deploy key format is invalid'')
          else
            let normalized = trim (crlf_to_lf (str_of key)) in
            case (begin_label normalized, end_label normalized) of
              (Some b, Some e) \<Rightarrow>
                if b \<noteq> e \<or> b \<notin> set PRIVATE_KEY_LABELS
                then Inl (app_error ''invalid_git_credential'' ''SSH deploy key must be an unencrypted private key'')
                else Inr (JObj [(''type'', JStr t), (''privateKey'', JStr (normalized @ [lf]))])
            | _ \<Rightarrow> Inl (app_error ''invalid_git_credential'' ''SSH deploy key must be an unencrypted private key''))"

section \<open>Static builds\<close>

definition is_path_char :: "char \<Rightarrow> bool" where
  "is_path_char c = (is_alnum c \<or> one_of ''._/-'' c)"

definition normalizeRelativeBuildPath :: "js \<Rightarrow> bool \<Rightarrow> string res" where
  "normalizeRelativeBuildPath v allowDot =
     (if v = JStr ''.'' \<and> allowDot then Inr ''.''
      else if \<not> is_string v \<or> \<not> class_len is_path_char 1 180 (str_of v) \<or> starts_with (str_of v) ''/''
      then Inl (app_error ''invalid_build_path'' ''Build output path is invalid'')
      else if list_ex (\<lambda>s. s = [] \<or> s = ''.'' \<or> s = ''..'') (split_on (CHR ''/'') (str_of v))
      then Inl (app_error ''invalid_build_path'' ''Build output path contains traversal or empty segments'')
      else Inr (str_of v))"

definition normalizeHealthFile :: "js \<Rightarrow> string res" where
  "normalizeHealthFile v =
     bnd (normalizeRelativeBuildPath (nullish v (JStr ''index.html'')) False) (\<lambda>normalized.
     if ends_with normalized ''/''
     then Inl (app_error ''invalid_health_file'' ''Static health file must point to a file'')
     else Inr normalized)"

definition is_script_char :: "char \<Rightarrow> bool" where
  "is_script_char c = (is_alnum c \<or> one_of '':_-'' c)"

definition is_script :: "string \<Rightarrow> bool" where
  "is_script s = head_class is_alnum is_script_char 63 s"

definition build_config :: "js \<Rightarrow> js \<Rightarrow> js \<Rightarrow> string \<Rightarrow> string \<Rightarrow> js" where
  "build_config mode installMode buildScript outputDir healthFile =
     JObj [(''mode'', mode), (''installMode'', installMode), (''buildScript'', buildScript),
       (''outputDir'', JStr outputDir), (''healthFile'', JStr healthFile)]"

definition normalizeStaticBuildConfig :: "js \<Rightarrow> js res" where
  "normalizeStaticBuildConfig value =
     (let v = or_empty value; mode = nullish (jget v ''mode'') (JStr ''npm'') in
      if \<not> is_object v then Inl (app_error ''invalid_build_config'' ''Build config must be an object'')
      else if \<not> str_in mode [''npm'', ''none'']
      then Inl (app_error ''invalid_build_mode'' ''Static build mode must be npm or none'')
      else
        bnd (normalizeHealthFile (jget v ''healthFile'')) (\<lambda>healthFile.
        if mode = JStr ''none''
        then
          bnd (normalizeRelativeBuildPath (nullish (jget v ''outputDir'') (JStr ''.'')) True) (\<lambda>outputDir.
          Inr (build_config (JStr ''none'') JNull JNull outputDir healthFile))
        else
          let installMode = nullish (jget v ''installMode'') (JStr ''ci'');
              buildScript = nullish (jget v ''buildScript'') (JStr ''build'') in
          if \<not> str_in installMode [''ci'', ''install'']
          then Inl (app_error ''invalid_install_mode'' ''npm install mode must be ci or install'')
          else if \<not> is_string buildScript \<or> \<not> is_script (str_of buildScript)
          then Inl (app_error ''invalid_build_script'' ''npm build script name is invalid'')
          else
            bnd (normalizeRelativeBuildPath (nullish (jget v ''outputDir'') (JStr ''dist'')) False) (\<lambda>outputDir.
            Inr (build_config (JStr ''npm'') installMode buildScript outputDir healthFile))))"

text \<open>The number of releases kept: the given one where it is between 2 and 20, else five.\<close>

definition retention_of :: "js \<Rightarrow> js" where
  "retention_of v = (if int_between 2 20 v then v else JInt 5)"

definition normalizeStaticApplicationSpec :: "(string \<Rightarrow> url option) \<Rightarrow> js \<Rightarrow> js res" where
  "normalizeStaticApplicationSpec parse_url v =
     (if \<not> is_object v
      then Inl (app_error ''invalid_application_spec'' ''Static application spec must be an object'')
      else
        bnd (normalizeGitBranch (nullish (jget v ''branch'') (JStr ''main''))) (\<lambda>branch.
        bnd (assertUuid (jget v ''applicationId'') ''applicationId'') (\<lambda>applicationId.
        bnd (assertUuid (jget v ''deploymentId'') ''deploymentId'') (\<lambda>deploymentId.
        bnd (normalizeGithubRepositoryUrl parse_url (jget v ''repositoryUrl'')) (\<lambda>repositoryUrl.
        bnd (normalizeGitDeploymentTarget (jget v ''gitTarget'') (Some (JStr branch))) (\<lambda>gitTarget.
        bnd (normalizeStaticBuildConfig (jget v ''build'')) (\<lambda>build.
        Inr (JObj [(''applicationId'', JStr applicationId), (''deploymentId'', JStr deploymentId),
          (''repositoryUrl'', JStr repositoryUrl), (''branch'', JStr branch), (''gitTarget'', gitTarget),
          (''build'', build), (''retention'', retention_of (jget v ''retention''))]))))))))"

end
