(* ===== verification/RuntimeSpecs.thy ===== *)
theory RuntimeSpecs
  imports ApplicationSpecs
begin

text \<open>
  The runtimes of Node and Python applications and the specifications of their deployments
  (\<open>packages/shared/src/node-application.js\<close>, \<open>python-application.js\<close>).

  \<open>number_text\<close> is the text of a number that is not an integer.
\<close>

section \<open>Node\<close>

definition MANAGED_NODE_RUNTIME_MAJORS :: "int list" where
  "MANAGED_NODE_RUNTIME_MAJORS = [22, 24]"

definition is_health_char :: "char \<Rightarrow> bool" where
  "is_health_char c = (is_alnum c \<or> one_of ''._~!$&()*+,;=:@%/-'' c \<or> code c = 39)"

text \<open>\<open>/^\/[A-Za-z0-9._~!$&'()*+,;=:@%/-]*$/\<close>\<close>

definition is_health_path :: "string \<Rightarrow> bool" where
  "is_health_path s = (case s of [] \<Rightarrow> False | c # cs \<Rightarrow> c = CHR ''/'' \<and> list_all is_health_char cs)"

definition RUNTIME_FIELDS :: "string list" where
  "RUNTIME_FIELDS = [''nodeMajor'', ''packageManager'', ''installMode'', ''buildScript'', ''mode'',
     ''documentRoot'', ''startMode'', ''entryFile'', ''startScript'', ''start'', ''port'', ''healthPath'',
     ''healthTimeoutSeconds'', ''restartPolicy'']"

definition START_FIELDS :: "string list" where
  "START_FIELDS = [''mode'', ''entryFile'', ''script'']"

definition normalizeScriptName :: "js \<Rightarrow> string \<Rightarrow> bool \<Rightarrow> js res" where
  "normalizeScriptName v fieldName nullable =
     (if is_nullish v \<and> nullable then Inr JNull
      else if \<not> is_string v \<or> \<not> is_script (str_of v)
      then Inl (app_error ''invalid_node_script'' (fieldName @ '' is invalid''))
      else Inr v)"

text \<open>\<open>value.start?.k\<close>, the start configuration being absent or an object.\<close>

definition start_field :: "js \<Rightarrow> string \<Rightarrow> js" where
  "start_field v k = jget (jget v ''start'') k"

definition normalize_start :: "js \<Rightarrow> js \<Rightarrow> js res" where
  "normalize_start v startMode =
     (if startMode = JStr ''node''
      then
        bnd (normalizeRelativeBuildPath
               (nullish (nullish (jget v ''entryFile'') (start_field v ''entryFile'')) (JStr ''server.js'')) False)
          (\<lambda>entryFile.
        Inr (JObj [(''mode'', JStr ''node''), (''entryFile'', JStr entryFile), (''script'', JNull)]))
      else
        bnd (normalizeScriptName
               (nullish (nullish (jget v ''startScript'') (start_field v ''script'')) (JStr ''start''))
               ''startScript'' False) (\<lambda>script.
        Inr (JObj [(''mode'', JStr ''npm''), (''entryFile'', JNull), (''script'', script)])))"

text \<open>The checks of \<open>normalizeNodeRuntimeConfig\<close> in their order; \<open>requirePort\<close> is given by the callers.\<close>

definition normalizeNodeRuntimeConfig :: "js \<Rightarrow> bool \<Rightarrow> js res" where
  "normalizeNodeRuntimeConfig value requirePort =
     (let v = or_empty value; start = jget v ''start'';
          nodeMajor = nullish (jget v ''nodeMajor'') (JInt 24);
          installMode = nullish (jget v ''installMode'') (JStr ''ci'');
          packageManager = nullish (jget v ''packageManager'') (JStr ''npm'');
          mode = nullish (jget v ''mode'') (JStr ''production'');
          startMode = nullish (nullish (jget v ''startMode'') (start_field v ''mode'')) (JStr ''node'');
          port = nullish (jget v ''port'') JNull;
          healthPath = nullish (jget v ''healthPath'') (JStr ''/health'');
          healthTimeoutSeconds = nullish (jget v ''healthTimeoutSeconds'') (JInt 30);
          restartPolicy = nullish (jget v ''restartPolicy'') (JStr ''on-failure'') in
      if \<not> is_object v
      then Inl (app_error ''invalid_node_runtime'' ''Node runtime config must be an object'')
      else if extra_keys v RUNTIME_FIELDS
      then Inl (app_error ''invalid_node_runtime'' ''Node runtime config contains unsupported fields'')
      else if start \<noteq> JUndef \<and> \<not> is_object start
      then Inl (app_error ''invalid_node_start'' ''Node start config must be an object'')
      else if start \<noteq> JUndef \<and> extra_keys start START_FIELDS
      then Inl (app_error ''invalid_node_start'' ''Node start config contains unsupported fields'')
      else if \<not> int_between 20 40 nodeMajor
      then Inl (app_error ''invalid_node_version'' ''Node major version must be between 20 and 40'')
      else if \<not> str_in installMode [''ci'', ''install'']
      then Inl (app_error ''invalid_install_mode'' ''npm install mode must be ci or install'')
      else
        bnd (normalizeScriptName (nullish (jget v ''buildScript'') JNull) ''buildScript'' True) (\<lambda>buildScript.
        if \<not> str_in packageManager [''npm'', ''pnpm'', ''yarn'']
        then Inl (app_error ''invalid_package_manager'' ''Node packageManager must be npm, pnpm or yarn'')
        else if \<not> str_in mode [''production'', ''development'']
        then Inl (app_error ''invalid_node_mode'' ''Node mode must be production or development'')
        else
          bnd (normalizeRelativeBuildPath (nullish (jget v ''documentRoot'') (JStr ''.'')) True) (\<lambda>documentRoot.
          if \<not> str_in startMode [''node'', ''npm'']
          then Inl (app_error ''invalid_start_mode'' ''Node startMode must be node or npm'')
          else
            bnd (normalize_start v startMode) (\<lambda>started.
            if requirePort \<and> \<not> int_between 1024 65535 port
            then Inl (app_error ''invalid_node_port'' ''Node application port must be between 1024 and 65535'')
            else if \<not> requirePort \<and> port \<noteq> JNull
            then Inl (app_error ''invalid_node_port'' ''Passenger Node runtime must omit application port'')
            else if \<not> is_string healthPath \<or> length (str_of healthPath) > 200 \<or>
                    \<not> is_health_path (str_of healthPath) \<or> str_includes (str_of healthPath) ''//''
            then Inl (app_error ''invalid_health_path'' ''Node health path is invalid'')
            else if \<not> int_between 5 120 healthTimeoutSeconds
            then Inl (app_error ''invalid_health_timeout'' ''Node health timeout must be between 5 and 120 seconds'')
            else if \<not> str_in restartPolicy [''on-failure'', ''always'']
            then Inl (app_error ''invalid_restart_policy'' ''Node restart policy must be on-failure or always'')
            else Inr (JObj [(''nodeMajor'', nodeMajor), (''packageManager'', packageManager),
              (''installMode'', installMode), (''buildScript'', buildScript), (''mode'', mode),
              (''documentRoot'', JStr documentRoot), (''start'', started), (''port'', port),
              (''healthPath'', healthPath), (''healthTimeoutSeconds'', healthTimeoutSeconds),
              (''restartPolicy'', restartPolicy)])))))"

definition normalizeManagedNodeSpec :: "js \<Rightarrow> string \<Rightarrow> string \<Rightarrow> jobj res" where
  "normalizeManagedNodeSpec v c message =
     (if \<not> is_object v then Inl (app_error c message)
      else
        bnd (assertUuid (jget v ''applicationId'') ''applicationId'') (\<lambda>applicationId.
        bnd (assertUuid (jget v ''releaseId'') ''releaseId'') (\<lambda>releaseId.
        bnd (normalizeNodeRuntimeConfig (jget v ''runtime'') True) (\<lambda>runtime.
        Inr [(''applicationId'', JStr applicationId), (''releaseId'', JStr releaseId), (''runtime'', runtime)]))))"

definition normalizeNodeApplicationSpec :: "(string \<Rightarrow> url option) \<Rightarrow> js \<Rightarrow> js res" where
  "normalizeNodeApplicationSpec parse_url v =
     (if \<not> is_object v
      then Inl (app_error ''invalid_application_spec'' ''Node application spec must be an object'')
      else
        bnd (normalizeGitBranch (nullish (jget v ''branch'') (JStr ''main''))) (\<lambda>branch.
        bnd (assertUuid (jget v ''applicationId'') ''applicationId'') (\<lambda>applicationId.
        bnd (assertUuid (jget v ''deploymentId'') ''deploymentId'') (\<lambda>deploymentId.
        bnd (normalizeGithubRepositoryUrl parse_url (jget v ''repositoryUrl'')) (\<lambda>repositoryUrl.
        bnd (normalizeGitDeploymentTarget (jget v ''gitTarget'') (Some (JStr branch))) (\<lambda>gitTarget.
        bnd (normalizeNodeRuntimeConfig (jget v ''runtime'') True) (\<lambda>runtime.
        Inr (JObj [(''applicationId'', JStr applicationId), (''deploymentId'', JStr deploymentId),
          (''repositoryUrl'', JStr repositoryUrl), (''branch'', JStr branch), (''gitTarget'', gitTarget),
          (''runtime'', runtime), (''retention'', retention_of (jget v ''retention''))]))))))))"

definition normalizeNodeRollbackSpec :: "js \<Rightarrow> js res" where
  "normalizeNodeRollbackSpec v =
     bnd (normalizeManagedNodeSpec v ''invalid_node_rollback'' ''Node rollback spec must be an object'') (\<lambda>spec.
     bnd (assertUuid (jget v ''currentReleaseId'') ''currentReleaseId'') (\<lambda>currentReleaseId.
     Inr (JObj (spec @ [(''currentReleaseId'', JStr currentReleaseId)]))))"

definition normalizeNodeRestartSpec :: "js \<Rightarrow> js res" where
  "normalizeNodeRestartSpec v = bnd (normalizeManagedNodeSpec v ''invalid_node_restart''
     ''Node restart spec must be an object'') (\<lambda>spec. Inr (JObj spec))"

definition normalizeNodeStatusSpec :: "js \<Rightarrow> js res" where
  "normalizeNodeStatusSpec v = bnd (normalizeManagedNodeSpec v ''invalid_node_status''
     ''Node status spec must be an object'') (\<lambda>spec. Inr (JObj spec))"

definition normalizeNodeProcessSpec :: "js \<Rightarrow> js res" where
  "normalizeNodeProcessSpec v =
     bnd (normalizeManagedNodeSpec v ''invalid_node_process'' ''Node process spec must be an object'') (\<lambda>spec.
     if extra_keys v [''applicationId'', ''releaseId'', ''runtime'', ''action'']
     then Inl (app_error ''invalid_node_process'' ''Node process spec contains unsupported fields'')
     else if \<not> str_in (jget v ''action'') [''enable'', ''disable'', ''start'', ''stop'']
     then Inl (app_error ''invalid_node_process_action'' ''Node process action must be enable, disable, start or stop'')
     else Inr (JObj (spec @ [(''action'', jget v ''action'')])))"

section \<open>Text of a value\<close>

text \<open>
  \<open>String(v)\<close>: an array joins the texts of its members with commas, those of null and undefined being
  empty; an object has no text of its own when a member named \<open>toString\<close> hides the inherited method.
\<close>

function js_text :: "(nat \<Rightarrow> string) \<Rightarrow> js \<Rightarrow> string res" where
  "js_text number_text JUndef = Inr ''undefined''"
| "js_text number_text JNull = Inr ''null''"
| "js_text number_text (JBool b) = Inr (if b then ''true'' else ''false'')"
| "js_text number_text (JInt i) = Inr (int_text i)"
| "js_text number_text (JNonInt t) = Inr (number_text t)"
| "js_text number_text (JStr s) = Inr s"
| "js_text number_text (JArr xs) =
     bnd (map_res (\<lambda>x. if is_nullish x then Inr [] else js_text number_text x) xs) (\<lambda>ts. Inr (join_with '','' ts))"
| "js_text number_text (JObj m) = (if obj_has m ''toString'' then Inl type_error else Inr ''[object Object]'')"
  by pat_completeness auto
termination by (relation "measure (\<lambda>(_, v). size v)") (auto simp: less_Suc_eq_le intro: size_list_estimation')

section \<open>Python\<close>

definition SUPPORTED_PYTHON_VERSIONS :: "string list" where
  "SUPPORTED_PYTHON_VERSIONS = [''3.10'', ''3.11'', ''3.12'']"

definition SUPPORTED_APP_SERVERS :: "string list" where
  "SUPPORTED_APP_SERVERS = [''gunicorn'', ''uvicorn'']"

definition is_word_char :: "char \<Rightarrow> bool" where
  "is_word_char c = (is_alnum c \<or> c = CHR ''_'')"

definition is_module_char :: "char \<Rightarrow> bool" where
  "is_module_char c = (is_word_char c \<or> c = CHR ''.'')"

text \<open>\<open>/^[a-zA-Z0-9_.]+(?::[a-zA-Z0-9_]+)?$/\<close>\<close>

definition is_entry_point :: "string \<Rightarrow> bool" where
  "is_entry_point s =
     (case split_on (CHR '':'') s of
        [m] \<Rightarrow> m \<noteq> [] \<and> list_all is_module_char m
      | [m, c] \<Rightarrow> m \<noteq> [] \<and> list_all is_module_char m \<and> c \<noteq> [] \<and> list_all is_word_char c
      | _ \<Rightarrow> False)"

definition PYTHON_RUNTIME_FIELDS :: "string list" where
  "PYTHON_RUNTIME_FIELDS = [''pythonVersion'', ''appServer'', ''entryPoint'', ''workers'', ''requirementsFile'',
     ''documentRoot'', ''healthPath'', ''healthTimeoutSeconds'', ''restartPolicy'', ''mode'', ''port'']"

definition python_versions_message :: string where
  "python_versions_message = ''Python version must be one of: '' @ join_with '', '' SUPPORTED_PYTHON_VERSIONS"

definition app_servers_message :: string where
  "app_servers_message = ''App server must be one of: '' @ join_with '', '' SUPPORTED_APP_SERVERS"

text \<open>The port of a Python runtime: absent, or in range.\<close>

definition python_port :: "js \<Rightarrow> bool \<Rightarrow> js res" where
  "python_port port requirePort =
     (if \<not> is_nullish port
      then (if \<not> int_between 1024 65535 port
            then Inl (app_error ''invalid_python_port'' ''Python port must be between 1024 and 65535'')
            else Inr port)
      else if requirePort
      then Inl (app_error ''python_port_required'' ''Python port is required when loopback port mode is selected'')
      else Inr JNull)"

definition normalizePythonRuntimeConfig :: "(nat \<Rightarrow> string) \<Rightarrow> js \<Rightarrow> bool \<Rightarrow> js res" where
  "normalizePythonRuntimeConfig number_text value requirePort =
     (let v = or_empty value;
          workers = nullish (jget v ''workers'') (JInt 2);
          healthPath = nullish (jget v ''healthPath'') (JStr ''/'');
          healthTimeoutSeconds = nullish (jget v ''healthTimeoutSeconds'') (JInt 10);
          restartPolicy = nullish (jget v ''restartPolicy'') (JStr ''always'');
          mode = nullish (jget v ''mode'') (JStr ''production'') in
      if \<not> is_object v
      then Inl (app_error ''invalid_python_runtime'' ''Python runtime config must be an object'')
      else if extra_keys v PYTHON_RUNTIME_FIELDS
      then Inl (app_error ''invalid_python_runtime'' ''Python runtime config contains unsupported fields'')
      else
        bnd (js_text number_text (nullish (jget v ''pythonVersion'') (JStr ''3.12''))) (\<lambda>pythonVersion.
        if pythonVersion \<notin> set SUPPORTED_PYTHON_VERSIONS
        then Inl (app_error ''invalid_python_version'' python_versions_message)
        else
        bnd (js_text number_text (nullish (jget v ''appServer'') (JStr ''gunicorn''))) (\<lambda>server.
        let appServer = to_lower server in
        if appServer \<notin> set SUPPORTED_APP_SERVERS
        then Inl (app_error ''invalid_app_server'' app_servers_message)
        else
        bnd (js_text number_text (nullish (jget v ''entryPoint'') (JStr ''app:app''))) (\<lambda>entry.
        let entryPoint = trim entry in
        if \<not> is_entry_point entryPoint
        then Inl (app_error ''invalid_entry_point''
               ''Python entry point must be in module:callable format (e.g. app:app)'')
        else if \<not> int_between 1 16 workers
        then Inl (app_error ''invalid_workers'' ''Workers must be an integer between 1 and 16'')
        else
        bnd (if is_nullish (jget v ''requirementsFile'') then Inr ''requirements.txt''
             else normalizeRelativeBuildPath (jget v ''requirementsFile'') False) (\<lambda>requirementsFile.
        bnd (if is_nullish (jget v ''documentRoot'') \<or> jget v ''documentRoot'' = JStr ''.'' then Inr ''.''
             else normalizeRelativeBuildPath (jget v ''documentRoot'') True) (\<lambda>documentRoot.
        if \<not> is_string healthPath \<or> \<not> is_health_path (str_of healthPath)
        then Inl (app_error ''invalid_health_path'' ''Python health path is invalid'')
        else if \<not> int_between 1 60 healthTimeoutSeconds
        then Inl (app_error ''invalid_health_timeout'' ''Health timeout must be between 1 and 60 seconds'')
        else if \<not> str_in restartPolicy [''always'', ''on-failure'']
        then Inl (app_error ''invalid_restart_policy'' ''Restart policy must be always or on-failure'')
        else if \<not> str_in mode [''production'', ''development'']
        then Inl (app_error ''invalid_runtime_mode'' ''Mode must be production or development'')
        else
        bnd (python_port (jget v ''port'') requirePort) (\<lambda>port.
        Inr (JObj [(''pythonVersion'', JStr pythonVersion), (''appServer'', JStr appServer),
          (''entryPoint'', JStr entryPoint), (''workers'', workers), (''requirementsFile'', JStr requirementsFile),
          (''documentRoot'', JStr documentRoot), (''healthPath'', healthPath),
          (''healthTimeoutSeconds'', healthTimeoutSeconds), (''restartPolicy'', restartPolicy), (''mode'', mode),
          (''port'', port)]))))))))"

definition normalizePythonApplicationSpec :: "(string \<Rightarrow> url option) \<Rightarrow> (nat \<Rightarrow> string) \<Rightarrow> js \<Rightarrow> js res" where
  "normalizePythonApplicationSpec parse_url number_text value =
     (let v = or_empty value in
      if \<not> is_object v
      then Inl (app_error ''invalid_application_spec'' ''Python application spec must be an object'')
      else if extra_keys v [''applicationId'', ''deploymentId'', ''repositoryUrl'', ''branch'', ''gitTarget'',
                ''runtime'', ''retention'']
      then Inl (app_error ''invalid_application_spec'' ''Python application spec contains unsupported fields'')
      else
        bnd (assertUuid (jget v ''applicationId'') ''applicationId'') (\<lambda>applicationId.
        bnd (if jget v ''deploymentId'' \<noteq> JUndef
             then bnd (assertUuid (jget v ''deploymentId'') ''deploymentId'') (\<lambda>d. Inr [(''deploymentId'', JStr d)])
             else Inr []) (\<lambda>deployment.
        bnd (normalizeGithubRepositoryUrl parse_url (jget v ''repositoryUrl'')) (\<lambda>repositoryUrl.
        bnd (normalizeGitBranch (jget v ''branch'')) (\<lambda>branch.
        bnd (normalizeGitDeploymentTarget (jget v ''gitTarget'') (Some (JStr branch))) (\<lambda>gitTarget.
        bnd (normalizePythonRuntimeConfig number_text (jget v ''runtime'') False) (\<lambda>runtime.
        Inr (JObj ([(''applicationId'', JStr applicationId), (''repositoryUrl'', JStr repositoryUrl),
          (''branch'', JStr branch), (''gitTarget'', gitTarget), (''runtime'', runtime),
          (''retention'', retention_of (jget v ''retention''))] @ deployment)))))))))"

definition normalizeManagedPythonSpec :: "(nat \<Rightarrow> string) \<Rightarrow> js \<Rightarrow> string \<Rightarrow> string \<Rightarrow> jobj res" where
  "normalizeManagedPythonSpec number_text v c message =
     (if \<not> is_object v then Inl (app_error c message)
      else
        bnd (assertUuid (jget v ''applicationId'') ''applicationId'') (\<lambda>applicationId.
        bnd (assertUuid (jget v ''releaseId'') ''releaseId'') (\<lambda>releaseId.
        bnd (normalizePythonRuntimeConfig number_text (jget v ''runtime'') False) (\<lambda>runtime.
        Inr [(''applicationId'', JStr applicationId), (''releaseId'', JStr releaseId), (''runtime'', runtime)]))))"

definition normalizePythonRollbackSpec :: "(nat \<Rightarrow> string) \<Rightarrow> js \<Rightarrow> js res" where
  "normalizePythonRollbackSpec number_text v =
     bnd (normalizeManagedPythonSpec number_text v ''invalid_python_rollback''
            ''Python rollback spec must be an object'') (\<lambda>spec.
     bnd (assertUuid (jget v ''currentReleaseId'') ''currentReleaseId'') (\<lambda>currentReleaseId.
     Inr (JObj (spec @ [(''currentReleaseId'', JStr currentReleaseId)]))))"

definition normalizePythonRestartSpec :: "(nat \<Rightarrow> string) \<Rightarrow> js \<Rightarrow> js res" where
  "normalizePythonRestartSpec number_text v =
     bnd (normalizeManagedPythonSpec number_text v ''invalid_python_restart''
            ''Python restart spec must be an object'') (\<lambda>spec. Inr (JObj spec))"

definition normalizePythonStatusSpec :: "(nat \<Rightarrow> string) \<Rightarrow> js \<Rightarrow> js res" where
  "normalizePythonStatusSpec number_text v =
     bnd (normalizeManagedPythonSpec number_text v ''invalid_python_status''
            ''Python status spec must be an object'') (\<lambda>spec. Inr (JObj spec))"

end
