(* ===== verification/SiteSettings.thy ===== *)
theory SiteSettings
  imports JsValue
begin

text \<open>
  What a site is configured with (\<open>packages/shared/src/nginx-settings.js\<close>, \<open>domain.js\<close>,
  \<open>proxy-target.js\<close>): Nginx settings, domain names and proxy hosts.

  \<open>to_ascii\<close> is \<open>domainToASCII\<close>, \<open>ip_version\<close> is \<open>isIP\<close> and \<open>ipv6_host\<close> the host name \<open>new URL\<close>
  gives for an IPv6 literal. A target type is taken to be a plain name, not one of the members every
  object inherits.
\<close>

section \<open>Nginx settings\<close>

definition nginx_error :: "string \<Rightarrow> string \<Rightarrow> jerr" where
  "nginx_error c msg = Err ''NginxSettingsValidationError'' (Some c) msg"

definition BLOCKED_HEADERS :: "string list" where
  "BLOCKED_HEADERS = [''cache-control'', ''connection'', ''content-length'', ''content-type'', ''date'',
     ''location'', ''server'', ''set-cookie'', ''transfer-encoding'', ''upgrade'']"

definition TARGET_FIELDS :: "string \<Rightarrow> string list option" where
  "TARGET_FIELDS t =
     (if t = ''proxy'' \<or> t = ''python''
      then Some [''clientMaxBodySizeMb'', ''headers'', ''proxyTimeoutSeconds'', ''websocket'']
      else if t = ''static''
      then Some [''clientMaxBodySizeMb'', ''headers'', ''spaFallback'', ''staticAssetCacheSeconds'']
      else if t = ''passenger'' \<or> t = ''php'' then Some [''clientMaxBodySizeMb'', ''headers''] else None)"

definition optionalInteger :: "js \<Rightarrow> string \<Rightarrow> int \<Rightarrow> int \<Rightarrow> js res" where
  "optionalInteger v field minimum maximum =
     (if v = JNull then Inr JNull
      else if \<not> int_between minimum maximum v
      then Inl (nginx_error ''invalid_nginx_setting'' (field @ '' is outside the supported range''))
      else Inr v)"

definition boolean :: "js \<Rightarrow> string \<Rightarrow> js res" where
  "boolean v field =
     (if \<not> is_bool v then Inl (nginx_error ''invalid_nginx_setting'' (field @ '' must be boolean'')) else Inr v)"

definition is_header_name_char :: "char \<Rightarrow> bool" where
  "is_header_name_char c = (is_alnum c \<or> c = CHR ''-'')"

text \<open>\<open>/^[A-Za-z][A-Za-z0-9-]{0,63}$/\<close>\<close>

definition is_header_name :: "string \<Rightarrow> bool" where
  "is_header_name s = head_class (\<lambda>c. is_lower c \<or> is_upper c) is_header_name_char 63 s"

text \<open>\<open>[\u0000-\u001f\u007f\u0085\u2028\u2029"\\$]\<close>\<close>

definition is_bad_value_char :: "char \<Rightarrow> bool" where
  "is_bad_value_char c = (is_control c \<or> code c = 133 \<or> code c = 34 \<or> code c = 92 \<or> code c = 36)"

definition header_ok :: "js \<Rightarrow> bool" where
  "header_ok entry = (is_object entry \<and> length (keys_of entry) = 3 \<and>
     \<not> extra_keys entry [''name'', ''value'', ''always''] \<and>
     is_string (jget entry ''name'') \<and> is_header_name (str_of (jget entry ''name'')) \<and>
     is_string (jget entry ''value'') \<and> 1 \<le> length (str_of (jget entry ''value'')) \<and>
     length (str_of (jget entry ''value'')) \<le> 256 \<and>
     \<not> list_ex is_bad_value_char (str_of (jget entry ''value'')) \<and> is_bool (jget entry ''always''))"

definition header_js :: "js \<Rightarrow> js" where
  "header_js entry = JObj [(''name'', jget entry ''name''), (''value'', jget entry ''value''),
     (''always'', jget entry ''always'')]"

fun headers_from :: "string list \<Rightarrow> js list \<Rightarrow> js list res" where
  "headers_from seen [] = Inr []"
| "headers_from seen (entry # rest) =
     (if \<not> header_ok entry
      then Inl (nginx_error ''invalid_nginx_header'' ''Nginx response header fields are invalid'')
      else
        let identity = to_lower (str_of (jget entry ''name'')) in
        if identity \<in> set BLOCKED_HEADERS
        then Inl (nginx_error ''blocked_nginx_header'' ''Nginx response header is managed by the panel or protocol'')
        else if identity \<in> set seen
        then Inl (nginx_error ''duplicate_nginx_header'' ''Nginx response header names must be unique'')
        else bnd (headers_from (seen @ [identity]) rest) (\<lambda>hs. Inr (header_js entry # hs)))"

definition headers :: "js \<Rightarrow> js res" where
  "headers v =
     (if \<not> is_array v \<or> length (arr_of v) > 12
      then Inl (nginx_error ''invalid_nginx_headers'' ''Nginx headers must be an array with at most 12 entries'')
      else bnd (headers_from [] (arr_of v)) (\<lambda>hs. Inr (JArr hs)))"

definition target_type_error :: jerr where
  "target_type_error = nginx_error ''invalid_nginx_target_type''
     ''Nginx settings require a static, proxy, passenger, php or python target''"

definition defaults :: "string \<Rightarrow> jobj res" where
  "defaults t =
     (if t = ''proxy'' \<or> t = ''python''
      then Inr [(''clientMaxBodySizeMb'', JNull), (''proxyTimeoutSeconds'', JNull), (''websocket'', JBool True),
                (''headers'', JArr [])]
      else if t = ''static''
      then Inr [(''clientMaxBodySizeMb'', JNull), (''spaFallback'', JBool True),
                (''staticAssetCacheSeconds'', JInt 604800), (''headers'', JArr [])]
      else if t = ''passenger'' \<or> t = ''php''
      then Inr [(''clientMaxBodySizeMb'', JNull), (''headers'', JArr [])]
      else Inl target_type_error)"

text \<open>The settings of a target once the given ones are laid over the seed.\<close>

definition merged_settings :: "string \<Rightarrow> jobj \<Rightarrow> js res" where
  "merged_settings t merged =
     bnd (optionalInteger (obj_get merged ''clientMaxBodySizeMb'') ''clientMaxBodySizeMb'' 1 1024) (\<lambda>size.
     if t = ''proxy'' \<or> t = ''python''
     then
       bnd (optionalInteger (obj_get merged ''proxyTimeoutSeconds'') ''proxyTimeoutSeconds'' 1 600) (\<lambda>timeout.
       bnd (boolean (obj_get merged ''websocket'') ''websocket'') (\<lambda>websocket.
       bnd (headers (obj_get merged ''headers'')) (\<lambda>hs.
       Inr (JObj [(''clientMaxBodySizeMb'', size), (''proxyTimeoutSeconds'', timeout), (''websocket'', websocket),
         (''headers'', hs)]))))
     else if t = ''static''
     then
       bnd (boolean (obj_get merged ''spaFallback'') ''spaFallback'') (\<lambda>spa.
       bnd (optionalInteger (obj_get merged ''staticAssetCacheSeconds'') ''staticAssetCacheSeconds'' 0 31536000) (\<lambda>cache.
       bnd (headers (obj_get merged ''headers'')) (\<lambda>hs.
       Inr (JObj [(''clientMaxBodySizeMb'', size), (''spaFallback'', spa), (''staticAssetCacheSeconds'', cache),
         (''headers'', hs)]))))
     else
       bnd (headers (obj_get merged ''headers'')) (\<lambda>hs.
       Inr (JObj [(''clientMaxBodySizeMb'', size), (''headers'', hs)])))"

text \<open>One call, with the seed it computes; the base, unless null, is normalised by a call without a base.\<close>

definition settings_over :: "string \<Rightarrow> js \<Rightarrow> jobj res \<Rightarrow> js res" where
  "settings_over t value seed =
     (let v = (if value = JUndef then JObj [] else value) in
      case TARGET_FIELDS t of
        None \<Rightarrow> Inl target_type_error
      | Some allowed \<Rightarrow>
          if \<not> is_object v \<or> extra_keys v allowed
          then Inl (nginx_error ''invalid_nginx_settings'' ''Nginx settings contain unsupported fields'')
          else bnd seed (\<lambda>s. merged_settings t (obj_spread s (obj_of v))))"

definition normalizeNginxSettings :: "string \<Rightarrow> js \<Rightarrow> js \<Rightarrow> js res" where
  "normalizeNginxSettings t value base =
     settings_over t value
       (if base = JNull \<or> base = JUndef then defaults t
        else bnd (settings_over t base (defaults t)) (\<lambda>b. Inr (obj_of b)))"

section \<open>Domain names\<close>

definition domain_error :: "string \<Rightarrow> string \<Rightarrow> jerr" where
  "domain_error c msg = Err ''DomainValidationError'' (Some c) msg"

text \<open>\<open>s.replace(/\.$/, '')\<close>\<close>

definition drop_final_dot :: "string \<Rightarrow> string" where
  "drop_final_dot s = (if ends_with s ''.'' then take (length s - 1) s else s)"

text \<open>
  The ideographic full stops the first replacement also accepts are outside the modelled strings, on
  which \<open>normalize('NFC')\<close> is the identity.
\<close>

definition normalizeDomainName :: "(string \<Rightarrow> string) \<Rightarrow> js \<Rightarrow> string" where
  "normalizeDomainName to_ascii v =
     (if \<not> is_string v then []
      else
        let input = drop_final_dot (trim (str_of v)) in
        if input = [] then []
        else if CHR ''*'' \<in> set input then to_lower input
        else if list_ex is_control input then []
        else drop_final_dot (to_lower (to_ascii input)))"

definition is_label_edge :: "char \<Rightarrow> bool" where
  "is_label_edge c = is_lower_alnum c"

definition is_label_inner :: "char \<Rightarrow> bool" where
  "is_label_inner c = (is_lower_alnum c \<or> c = CHR ''-'')"

text \<open>\<open>/^[edge](?:[inner]*[edge])?$/\<close>\<close>

definition edged :: "(char \<Rightarrow> bool) \<Rightarrow> (char \<Rightarrow> bool) \<Rightarrow> string \<Rightarrow> bool" where
  "edged edge inner s = (s \<noteq> [] \<and> edge (hd s) \<and> edge (last s) \<and> list_all inner s)"

definition is_dns_edge :: "char \<Rightarrow> bool" where
  "is_dns_edge c = (is_lower_alnum c \<or> c = CHR ''_'')"

definition is_dns_inner :: "char \<Rightarrow> bool" where
  "is_dns_inner c = (is_lower_alnum c \<or> c = CHR ''_'' \<or> c = CHR ''-'')"

definition normalizeDnsRecordName :: "(string \<Rightarrow> string) \<Rightarrow> js \<Rightarrow> string" where
  "normalizeDnsRecordName to_ascii v =
     (let name = normalizeDomainName to_ascii v; labels = split_on (CHR ''.'') name in
      if name = [] \<or> length name > 253 \<or> CHR ''*'' \<in> set name then []
      else if length labels < 2 then []
      else if list_ex (\<lambda>l. length l < 1 \<or> length l > 63 \<or> \<not> edged is_dns_edge is_dns_inner l) labels then []
      else name)"

text \<open>The loop over the labels, which reports the first invalid one.\<close>

fun check_labels :: "string list \<Rightarrow> unit res" where
  "check_labels [] = Inr ()"
| "check_labels (l # ls) =
     (if length l < 1 \<or> length l > 63
      then Inl (domain_error ''invalid_domain_label'' ''Each domain label must contain 1 to 63 characters'')
      else if \<not> edged is_label_edge is_label_inner l
      then Inl (domain_error ''invalid_domain_label''
             ''Domain labels may only contain letters, numbers and interior hyphens'')
      else check_labels ls)"

text \<open>The result with \<open>ok: false\<close> is the error \<open>assertDomainName\<close> throws.\<close>

definition validateDomainName :: "(string \<Rightarrow> string) \<Rightarrow> js \<Rightarrow> string res" where
  "validateDomainName to_ascii v =
     (let domain = normalizeDomainName to_ascii v; labels = split_on (CHR ''.'') domain in
      if domain = [] \<or> length domain > 253
      then Inl (domain_error ''invalid_domain_length'' ''Domain must contain 1 to 253 characters'')
      else if CHR ''*'' \<in> set domain
      then Inl (domain_error ''wildcard_not_supported'' ''Wildcard domains are not supported in V1'')
      else if length labels < 2
      then Inl (domain_error ''fqdn_required'' ''A fully qualified domain name is required'')
      else bnd (check_labels labels) (\<lambda>_. Inr domain))"

definition assertDomainName :: "(string \<Rightarrow> string) \<Rightarrow> js \<Rightarrow> string res" where
  "assertDomainName to_ascii v = validateDomainName to_ascii v"

fun collect_aliases :: "(string \<Rightarrow> string) \<Rightarrow> string list \<Rightarrow> js list \<Rightarrow> string list res" where
  "collect_aliases to_ascii seen [] = Inr []"
| "collect_aliases to_ascii seen (a # as) =
     bnd (assertDomainName to_ascii a) (\<lambda>n.
     if n \<in> set seen then collect_aliases to_ascii seen as
     else bnd (collect_aliases to_ascii (n # seen) as) (\<lambda>ns. Inr (n # ns)))"

definition normalizeDomainSet :: "(string \<Rightarrow> string) \<Rightarrow> js \<Rightarrow> js \<Rightarrow> (string \<times> string list) res" where
  "normalizeDomainSet to_ascii primaryDomain aliases =
     bnd (assertDomainName to_ascii primaryDomain) (\<lambda>primary.
     let as = (if aliases = JUndef then JArr [] else aliases) in
     if \<not> is_array as then Inl (domain_error ''invalid_aliases'' ''Domain aliases must be an array'')
     else
       bnd (collect_aliases to_ascii [primary] (arr_of as)) (\<lambda>normalized.
       if length normalized > 20
       then Inl (domain_error ''too_many_aliases'' ''A domain may have at most 20 aliases in V1'')
       else Inr (primary, normalized)))"

section \<open>Proxy hosts\<close>

definition proxy_host_error :: jerr where
  "proxy_host_error = Err ''ProxyTargetValidationError'' (Some ''invalid_proxy_host'')
     ''Proxy host must be an IP address or DNS hostname without a URL scheme or path''"

definition normalizeProxyHost ::
  "(string \<Rightarrow> string) \<Rightarrow> (string \<Rightarrow> nat) \<Rightarrow> (string \<Rightarrow> string) \<Rightarrow> js \<Rightarrow> string res" where
  "normalizeProxyHost to_ascii ip_version ipv6_host v =
     (let t = trim (str_of v); bracketed = (starts_with t ''['' \<and> ends_with t '']'');
          input = (if bracketed then take (length t - 2) (drop 1 t) else t) in
      if \<not> is_string v \<or> length t < 1 \<or> length t > 253 \<or>
         list_ex (\<lambda>c. code c \<le> 32 \<or> code c = 127) (str_of v) then Inl proxy_host_error
      else if (CHR ''['' \<in> set t \<or> CHR '']'' \<in> set t) \<and> \<not> bracketed then Inl proxy_host_error
      else if ip_version input = 4 then Inr input
      else if ip_version input = 6 then Inr (ipv6_host input)
      else if list_ex (one_of ''/:?#@[]'') input then Inl proxy_host_error
      else
        let ascii = drop_final_dot (to_lower (to_ascii input)) in
        if ascii = [] \<or> length ascii > 253 \<or>
           list_ex (\<lambda>l. \<not> (length l \<le> 63 \<and> edged is_label_edge is_label_inner l)) (split_on (CHR ''.'') ascii)
        then Inl proxy_host_error
        else Inr ascii)"

definition formatProxyHostForUrl ::
  "(string \<Rightarrow> string) \<Rightarrow> (string \<Rightarrow> nat) \<Rightarrow> (string \<Rightarrow> string) \<Rightarrow> js \<Rightarrow> string res" where
  "formatProxyHostForUrl to_ascii ip_version ipv6_host v =
     bnd (normalizeProxyHost to_ascii ip_version ipv6_host v) (\<lambda>host.
     Inr (if ip_version host = 6 then ''['' @ host @ '']'' else host))"

end
