(* ===== verification/SpecTypes.thy ===== *)
theory SpecTypes
  imports RuntimeSpecs SiteSettings
begin

text \<open>
  What the shared validators vouch for: for each of them a predicate on the values it returns, written
  without the validator. The locale \<open>validator\<close> states the contract between the two; its
  interpretations prove it for the Git targets, the builds, the runtimes and the Nginx settings.
\<close>

named_theorems vouched \<open>facts a validated value has\<close>

section \<open>The contract of a validator\<close>

locale validator =
  fixes norm :: "js \<Rightarrow> js res"
    and ty :: "js \<Rightarrow> bool"
  assumes sound: "norm v = Inr w \<Longrightarrow> ty w"
    and complete: "ty w \<Longrightarrow> norm w = Inr w"
begin

lemma fixed: "norm w = Inr w \<longleftrightarrow> ty w"
  using sound complete by blast

lemma range: "(\<exists>v. norm v = Inr w) \<longleftrightarrow> ty w"
  using sound complete by blast

lemma again: "bnd (norm v) norm = norm v"
  by (cases "norm v") (simp_all add: complete sound)

lemma sound_list: "map_res norm vs = Inr ws \<Longrightarrow> list_all ty ws"
  by (auto simp: list_all_iff dest: map_res_Inr_set sound)

lemma again_list: "bnd (map_res norm vs) (map_res norm) = map_res norm vs"
proof (cases "map_res norm vs")
  case (Inr ws)
  have "map_res norm ws = Inr ws"
    using map_res_map [of ws norm id id] sound_list [OF Inr] by (simp add: list_all_iff complete)
  with Inr show ?thesis by simp
qed simp

text \<open>A second validator of the same values says the same of what the first returned.\<close>

lemma agrees:
  assumes "validator norm' ty" "norm v = Inr w"
  shows "norm' w = Inr w"
  using validator.complete [OF assms(1)] sound [OF assms(2)] .

end

section \<open>Relative paths\<close>

definition path_ok :: "string \<Rightarrow> bool" where
  "path_ok s = (class_len is_path_char 1 180 s \<and>
     list_all (\<lambda>seg. seg \<noteq> [] \<and> seg \<noteq> ''.'' \<and> seg \<noteq> ''..'') (split_on (CHR ''/'') s))"

definition path_str :: "bool \<Rightarrow> string \<Rightarrow> bool" where
  "path_str allowDot s = (allowDot \<and> s = ''.'' \<or> path_ok s)"

definition path_type :: "bool \<Rightarrow> js \<Rightarrow> bool" where
  "path_type allowDot v = (is_string v \<and> path_str allowDot (str_of v))"

lemma path_type_JStr [simp]: "path_type d (JStr s) = path_str d s"
  by (simp add: path_type_def)

lemma path_type_iff: "path_type d v \<longleftrightarrow> (\<exists>s. v = JStr s \<and> path_str d s)"
  by (cases v) (auto simp: path_type_def)

lemma path_ok_rel: "path_ok s \<Longrightarrow> \<not> starts_with s ''/''"
  by (cases s) (auto simp: path_ok_def starts_with_def class_len_def)

lemma path_ok_dot: "path_ok s \<Longrightarrow> s \<noteq> ''.''"
  by (auto simp: path_ok_def)

lemma normalizeRelativeBuildPath_Inr:
  "normalizeRelativeBuildPath v allowDot = Inr s \<longleftrightarrow> v = JStr s \<and> path_type allowDot v"
proof -
  have "list_ex (\<lambda>s. s = [] \<or> s = ''.'' \<or> s = ''..'') xs =
      (\<not> list_all (\<lambda>seg. seg \<noteq> [] \<and> seg \<noteq> ''.'' \<and> seg \<noteq> ''..'') xs)" for xs
    by (auto simp: list_ex_iff list_all_iff)
  then show ?thesis
    using path_ok_rel [of s]
    by (cases v) (auto simp: normalizeRelativeBuildPath_def path_type_def path_str_def path_ok_def)
qed

section \<open>Git targets\<close>

definition branch_ok :: "string \<Rightarrow> bool" where
  "branch_ok s = (is_branch s \<and> branch_sequences_ok s)"

definition lower_commit :: "string \<Rightarrow> bool" where
  "lower_commit s = (is_commit s \<and> to_lower s = s)"

definition git_target_type :: "js \<Rightarrow> bool" where
  "git_target_type w = (keys_of w = [''kind'', ''value''] \<and> is_string (jget w ''value'') \<and>
     (jget w ''kind'' = JStr ''commit'' \<and> lower_commit (str_of (jget w ''value'')) \<or>
      str_in (jget w ''kind'') [''branch'', ''tag''] \<and> branch_ok (str_of (jget w ''value''))))"

text \<open>An object with the given keys, spelled out.\<close>

lemma keys_of_Cons:
  "keys_of w = k # ks \<longleftrightarrow> (\<exists>v m. w = JObj ((k, v) # m) \<and> map fst m = ks)"
  by (cases w) (auto simp: keys_of_def map_eq_Cons_conv)

lemma map_fst_Cons: "map fst m = k # ks \<longleftrightarrow> (\<exists>v m'. m = (k, v) # m' \<and> map fst m' = ks)"
  by (auto simp: map_eq_Cons_conv)

lemmas fields_simps = keys_of_Cons map_fst_Cons

lemma lower_char_hex: "is_hex c \<Longrightarrow> is_hex (lower_char c)"
  by (auto simp: lower_char_def is_hex_def is_lower_hex_def is_digit_def code_def)

lemma lower_char_again [simp]: "lower_char (lower_char c) = lower_char c"
  by (auto simp: lower_char_def code_def)

lemma to_lower_again [simp]: "to_lower (to_lower s) = to_lower s"
  by (simp add: to_lower_def)

lemma is_commit_lower: "is_commit s \<Longrightarrow> is_commit (to_lower s)"
  by (auto simp: is_commit_def class_len_def to_lower_def list_all_iff lower_char_hex)

lemma normalizeGitBranch_Inr: "normalizeGitBranch v = Inr s \<longleftrightarrow> v = JStr s \<and> branch_ok s"
  by (cases v) (auto simp: normalizeGitBranch_def branch_ok_def)

lemma normalizeGitBranch_JStr:
  "branch_ok s \<Longrightarrow> normalizeGitBranch (JStr s) = Inr s"
  by (simp add: normalizeGitBranch_Inr)

lemma git_target_sound: "normalizeGitDeploymentTarget v d = Inr w \<Longrightarrow> git_target_type w"
  by (auto simp: normalizeGitDeploymentTarget_def Let_def git_target_def git_target_type_def lower_commit_def
      is_commit_lower normalizeGitBranch_Inr str_in_iff split: if_splits sum.splits)

lemma git_target_complete: "git_target_type w \<Longrightarrow> normalizeGitDeploymentTarget w d = Inr w"
  by (auto simp: git_target_type_def fields_simps normalizeGitDeploymentTarget_def Let_def git_target_def
      lower_commit_def normalizeGitBranch_JStr str_in_iff is_string_iff extra_keys_def)

interpretation git: validator "\<lambda>v. normalizeGitDeploymentTarget v d" git_target_type for d
  by unfold_locales (fact git_target_sound, fact git_target_complete)

section \<open>Static builds\<close>

definition script_type :: "js \<Rightarrow> bool" where
  "script_type v = (is_string v \<and> is_script (str_of v))"

definition static_build_type :: "js \<Rightarrow> bool" where
  "static_build_type w =
     (keys_of w = [''mode'', ''installMode'', ''buildScript'', ''outputDir'', ''healthFile''] \<and>
      path_type False (jget w ''healthFile'') \<and>
      (if jget w ''mode'' = JStr ''none''
       then jget w ''installMode'' = JNull \<and> jget w ''buildScript'' = JNull \<and> path_type True (jget w ''outputDir'')
       else jget w ''mode'' = JStr ''npm'' \<and> str_in (jget w ''installMode'') [''ci'', ''install''] \<and>
         script_type (jget w ''buildScript'') \<and> path_type False (jget w ''outputDir'')))"

lemma path_type_norm: "path_str d s \<Longrightarrow> normalizeRelativeBuildPath (JStr s) d = Inr s"
  by (simp add: normalizeRelativeBuildPath_Inr)

lemma path_no_final_slash: "path_str False s \<Longrightarrow> \<not> ends_with s ''/''"
proof
  assume "path_str False s" "ends_with s ''/''"
  then have "last (split_on (CHR ''/'') s) = []" "path_ok s"
    by (simp_all add: split_on_ends path_str_def)
  then show False
    using last_in_set [OF split_on_nonempty, of "CHR ''/''" s]
    by (auto simp: path_ok_def list_all_iff)
qed

lemma nullish_not [simp]: "\<not> is_nullish v \<Longrightarrow> nullish v d = v"
  by (simp add: nullish_def)

lemma nullish_JStr [simp]: "nullish (JStr s) d = JStr s" "nullish (JInt i) d = JInt i"
  "nullish JNull d = d" "nullish JUndef d = d" "nullish (JBool b) d = JBool b" "nullish (JArr a) d = JArr a"
  "nullish (JObj m) d = JObj m"
  by (simp_all add: nullish_def)

lemma or_empty_JObj [simp]: "or_empty (JObj m) = JObj m"
  by (simp add: or_empty_def)

lemma normalizeHealthFile_Inr: "normalizeHealthFile v = Inr s \<Longrightarrow> path_str False s"
  by (auto simp: normalizeHealthFile_def normalizeRelativeBuildPath_Inr)

lemma normalizeHealthFile_again: "path_str False s \<Longrightarrow> normalizeHealthFile (JStr s) = Inr s"
  by (simp add: normalizeHealthFile_def path_type_norm path_no_final_slash)

lemma build_config_type:
  "static_build_type (build_config m i b d h) \<longleftrightarrow>
     path_type False (JStr h) \<and>
     (if m = JStr ''none'' then i = JNull \<and> b = JNull \<and> path_type True (JStr d)
      else m = JStr ''npm'' \<and> str_in i [''ci'', ''install''] \<and> script_type b \<and> path_type False (JStr d))"
  by (simp add: static_build_type_def build_config_def)

lemma normalizeRelativeBuildPath_type: "normalizeRelativeBuildPath v d = Inr s \<Longrightarrow> path_str d s"
  by (auto simp: normalizeRelativeBuildPath_Inr)

lemma static_build_sound: "normalizeStaticBuildConfig v = Inr w \<Longrightarrow> static_build_type w"
  unfolding normalizeStaticBuildConfig_def Let_def
  by (elim unravel; drule normalizeHealthFile_Inr; drule normalizeRelativeBuildPath_type)
    (auto simp: build_config_type script_type_def)

lemma static_build_complete: "static_build_type w \<Longrightarrow> normalizeStaticBuildConfig w = Inr w"
  by (auto simp: static_build_type_def fields_simps normalizeStaticBuildConfig_def Let_def build_config_def
      normalizeHealthFile_again path_type_norm str_in_iff script_type_def is_string_iff
      path_type_iff split: if_splits)

interpretation build: validator normalizeStaticBuildConfig static_build_type
  by unfold_locales (fact static_build_sound, fact static_build_complete)

section \<open>Node runtimes\<close>

definition start_type :: "js \<Rightarrow> bool" where
  "start_type s = (keys_of s = [''mode'', ''entryFile'', ''script''] \<and>
     (if jget s ''mode'' = JStr ''node'' then path_type False (jget s ''entryFile'') \<and> jget s ''script'' = JNull
      else jget s ''mode'' = JStr ''npm'' \<and> jget s ''entryFile'' = JNull \<and> script_type (jget s ''script'')))"

definition health_type :: "js \<Rightarrow> bool" where
  "health_type v = (is_string v \<and> is_health_path (str_of v))"

definition node_runtime_type :: "bool \<Rightarrow> js \<Rightarrow> bool" where
  "node_runtime_type requirePort w =
     (keys_of w = [''nodeMajor'', ''packageManager'', ''installMode'', ''buildScript'', ''mode'', ''documentRoot'',
        ''start'', ''port'', ''healthPath'', ''healthTimeoutSeconds'', ''restartPolicy''] \<and>
      int_between 20 40 (jget w ''nodeMajor'') \<and> str_in (jget w ''packageManager'') [''npm'', ''pnpm'', ''yarn''] \<and>
      str_in (jget w ''installMode'') [''ci'', ''install''] \<and>
      (jget w ''buildScript'' = JNull \<or> script_type (jget w ''buildScript'')) \<and>
      str_in (jget w ''mode'') [''production'', ''development''] \<and> path_type True (jget w ''documentRoot'') \<and>
      start_type (jget w ''start'') \<and>
      (if requirePort then int_between 1024 65535 (jget w ''port'') else jget w ''port'' = JNull) \<and>
      health_type (jget w ''healthPath'') \<and> length (str_of (jget w ''healthPath'')) \<le> 200 \<and>
      \<not> str_includes (str_of (jget w ''healthPath'')) ''//'' \<and>
      int_between 5 120 (jget w ''healthTimeoutSeconds'') \<and>
      str_in (jget w ''restartPolicy'') [''on-failure'', ''always''])"

lemma normalizeScriptName_Inr:
  "normalizeScriptName v f n = Inr w \<Longrightarrow> n \<and> w = JNull \<or> w = v \<and> script_type w"
  by (auto simp: normalizeScriptName_def script_type_def split: if_splits)

lemma normalizeScriptName_again: "script_type v \<Longrightarrow> normalizeScriptName v f n = Inr v"
  by (cases v) (auto simp: normalizeScriptName_def script_type_def)

lemma normalizeScriptName_null [simp]: "normalizeScriptName JNull f True = Inr JNull"
  by (simp add: normalizeScriptName_def)

lemma start_spec_sound: "normalize_start v m = Inr s \<Longrightarrow> start_type s"
  unfolding normalize_start_def
  by (elim unravel)
    (auto simp: start_type_def dest!: normalizeRelativeBuildPath_type normalizeScriptName_Inr)

text \<open>Fields of an object literal, and the checks a run passed.\<close>

lemmas literal_simps = keys_of_JObj jget_JObj list.map fst_conv obj_get.simps list.inject char.inject
  if_True if_False de_Morgan_disj de_Morgan_conj not_not not_less simp_thms path_type_JStr

lemma node_runtime_sound: "normalizeNodeRuntimeConfig v rp = Inr w \<Longrightarrow> node_runtime_type rp w"
  unfolding normalizeNodeRuntimeConfig_def Let_def
  by (elim unravel; drule start_spec_sound; drule normalizeRelativeBuildPath_type; drule normalizeScriptName_Inr;
      hypsubst; simp only: node_runtime_type_def health_type_def literal_simps; intro conjI;
      (simp only: simp_thms path_type_JStr split: if_split)?; blast?)

lemma int_between_not_nullish: "int_between a b v \<Longrightarrow> \<not> is_nullish v"
  by (cases v) simp_all

lemma str_in_not_nullish: "str_in v ss \<Longrightarrow> \<not> is_nullish v"
  by (cases v) (simp_all add: str_in_def)

lemma script_not_nullish: "script_type v \<Longrightarrow> \<not> is_nullish v"
  by (cases v) (simp_all add: script_type_def)

lemma path_not_nullish: "path_type d v \<Longrightarrow> \<not> is_nullish v"
  by (cases v) (simp_all add: path_type_def)

lemma health_not_nullish: "health_type v \<Longrightarrow> \<not> is_nullish v"
  by (cases v) (simp_all add: health_type_def)

lemma path_again: "path_type d v \<Longrightarrow> normalizeRelativeBuildPath v d = Inr (str_of v) \<and> JStr (str_of v) = v"
  by (auto simp: path_type_iff path_type_norm)

lemmas given_simps = nullish_not int_between_not_nullish str_in_not_nullish script_not_nullish path_not_nullish
  health_not_nullish

lemma start_fields: "start_type s \<Longrightarrow> is_object s \<and> s \<noteq> JUndef \<and> \<not> extra_keys s START_FIELDS \<and>
   str_in (jget s ''mode'') [''node'', ''npm''] \<and> \<not> is_nullish (jget s ''mode'')"
  by (auto simp: start_type_def fields_simps extra_keys_def START_FIELDS_def str_in_iff split: if_splits)

lemma start_complete:
  "start_type s \<Longrightarrow> obj_get m ''start'' = s \<Longrightarrow> obj_get m ''entryFile'' = JUndef \<Longrightarrow>
   obj_get m ''startScript'' = JUndef \<Longrightarrow> normalize_start (JObj m) (jget s ''mode'') = Inr s"
  by (auto simp: start_type_def fields_simps normalize_start_def start_field_def path_again given_simps
      normalizeScriptName_again split: if_splits)

lemma optional_script_again:
  "vc = JNull \<or> script_type vc \<Longrightarrow> normalizeScriptName (nullish vc JNull) f True = Inr vc"
  by (auto simp: normalizeScriptName_again given_simps)

lemma health_parts: "health_type v \<Longrightarrow> is_string v" "health_type v \<Longrightarrow> is_health_path (str_of v)"
  by (simp_all add: health_type_def)

lemma node_runtime_complete: "node_runtime_type rp w \<Longrightarrow> normalizeNodeRuntimeConfig w rp = Inr w"
  by (simp only: node_runtime_type_def fields_simps; elim exE conjE; hypsubst;
      simp only: literal_simps list.map_disc_iff; frule start_fields;
      frule optional_script_again [where f = "''buildScript''"]; frule health_parts(1); frule health_parts(2);
      cases rp)
    (simp_all add: normalizeNodeRuntimeConfig_def Let_def given_simps start_field_def extra_keys_def [of "JObj _"]
      RUNTIME_FIELDS_def path_again start_complete)

interpretation node_runtime: validator "\<lambda>v. normalizeNodeRuntimeConfig v rp" "node_runtime_type rp" for rp
  by unfold_locales (fact node_runtime_sound, fact node_runtime_complete)

section \<open>Python runtimes\<close>

definition python_runtime_type :: "bool \<Rightarrow> js \<Rightarrow> bool" where
  "python_runtime_type requirePort w =
     (keys_of w = [''pythonVersion'', ''appServer'', ''entryPoint'', ''workers'', ''requirementsFile'',
        ''documentRoot'', ''healthPath'', ''healthTimeoutSeconds'', ''restartPolicy'', ''mode'', ''port''] \<and>
      str_in (jget w ''pythonVersion'') [''3.10'', ''3.11'', ''3.12''] \<and>
      str_in (jget w ''appServer'') [''gunicorn'', ''uvicorn''] \<and>
      is_string (jget w ''entryPoint'') \<and> is_entry_point (str_of (jget w ''entryPoint'')) \<and>
      int_between 1 16 (jget w ''workers'') \<and> path_type False (jget w ''requirementsFile'') \<and>
      path_type True (jget w ''documentRoot'') \<and> health_type (jget w ''healthPath'') \<and>
      int_between 1 60 (jget w ''healthTimeoutSeconds'') \<and>
      str_in (jget w ''restartPolicy'') [''always'', ''on-failure''] \<and>
      str_in (jget w ''mode'') [''production'', ''development''] \<and>
      (int_between 1024 65535 (jget w ''port'') \<or> \<not> requirePort \<and> jget w ''port'' = JNull))"

lemma module_char_not_space: "is_module_char c \<Longrightarrow> \<not> is_space c"
  by (auto simp: is_module_char_def is_word_char_def is_alnum_def is_digit_def is_lower_def is_upper_def is_space_def
      code_def)

lemma split_on_set: "set s \<subseteq> insert d (\<Union> (set ` set (split_on d s)))"
proof (induction s)
  case (Cons c s)
  then show ?case by (cases "split_on d s") auto
qed simp

lemma entry_point_chars:
  assumes "is_entry_point s" "c \<in> set s"
  shows "\<not> is_space c"
proof -
  have "c = CHR '':'' \<or> (\<exists>m \<in> set (split_on (CHR '':'') s). c \<in> set m)"
    using split_on_set [of s "CHR '':''"] assms(2) by blast
  moreover have "\<forall>m \<in> set (split_on (CHR '':'') s). list_all is_module_char m"
    using assms(1) by (auto simp: is_entry_point_def is_module_char_def list_all_iff split: list.splits)
  ultimately have "c = CHR '':'' \<or> is_module_char c" by (auto simp: list_all_iff)
  then show ?thesis
    using module_char_not_space by (auto simp: is_space_def code_def)
qed

lemma entry_point_trimmed: "is_entry_point s \<Longrightarrow> trim s = s"
  by (rule trim_trimmed_id) (cases "s = []"; simp add: trimmed_def entry_point_chars)

lemma python_port_sound:
  "python_port v rp = Inr p \<Longrightarrow> int_between 1024 65535 p \<or> \<not> rp \<and> p = JNull"
  unfolding python_port_def by (elim unravel) simp_all

lemma default_path:
  "(if c then Inr a else normalizeRelativeBuildPath v d) = Inr s \<Longrightarrow> path_str d a \<Longrightarrow> path_str d s"
  by (cases c) (auto dest: normalizeRelativeBuildPath_type)

lemma requirements_default: "path_str False ''requirements.txt''"
  by code_simp

lemma root_default: "path_str True ''.''"
  by (simp add: path_str_def)

lemma python_runtime_sound: "normalizePythonRuntimeConfig nt v rp = Inr w \<Longrightarrow> python_runtime_type rp w"
  unfolding normalizePythonRuntimeConfig_def Let_def
  by (elim throw_ifE bnd_InrE; drule python_port_sound; erule Inr_InrE;
      drule default_path [OF _ requirements_default]; drule default_path [OF _ root_default];
      hypsubst; simp only: python_runtime_type_def health_type_def literal_simps SUPPORTED_PYTHON_VERSIONS_def
        SUPPORTED_APP_SERVERS_def str_in_def is_string.simps str_of.simps)

lemma text_again: "is_string v \<Longrightarrow> js_text nt v = Inr (str_of v)" "is_string v \<Longrightarrow> JStr (str_of v) = v"
  "is_string v \<Longrightarrow> \<not> is_nullish v"
  by (cases v; simp)+

lemma str_inD: "str_in v ss \<Longrightarrow> is_string v" "str_in v ss \<Longrightarrow> str_of v \<in> set ss"
  by (auto simp: str_in_def)

lemma server_lower: "str_in v [''gunicorn'', ''uvicorn''] \<Longrightarrow> to_lower (str_of v) = str_of v"
  by (auto simp: str_in_iff to_lower_def lower_char_def code_def)

lemma root_again:
  "path_type True v \<Longrightarrow> (if is_nullish v \<or> v = JStr ''.'' then Inr ''.'' else normalizeRelativeBuildPath v True) =
     Inr (str_of v)"
  by (auto simp: path_again given_simps)

lemma port_again:
  "int_between 1024 65535 p \<or> \<not> rp \<and> p = JNull \<Longrightarrow> python_port p rp = Inr p"
  by (auto simp: python_port_def given_simps)

lemma python_runtime_complete: "python_runtime_type rp w \<Longrightarrow> normalizePythonRuntimeConfig nt w rp = Inr w"
  by (simp only: python_runtime_type_def fields_simps; elim exE conjE; hypsubst;
      simp only: literal_simps list.map_disc_iff; frule health_parts(1); frule health_parts(2); frule server_lower;
      frule port_again; frule root_again;
      simp add: normalizePythonRuntimeConfig_def Let_def given_simps extra_keys_def PYTHON_RUNTIME_FIELDS_def
        path_again text_again str_inD SUPPORTED_APP_SERVERS_def SUPPORTED_PYTHON_VERSIONS_def entry_point_trimmed
        del: list.set)
    simp

interpretation python_runtime: validator "\<lambda>v. normalizePythonRuntimeConfig nt v rp" "python_runtime_type rp" for nt rp
  by unfold_locales (fact python_runtime_sound, fact python_runtime_complete)

section \<open>Nginx settings\<close>

definition header_type :: "js \<Rightarrow> bool" where
  "header_type h = (keys_of h = [''name'', ''value'', ''always''] \<and> header_ok h \<and>
     to_lower (str_of (jget h ''name'')) \<notin> set BLOCKED_HEADERS)"

definition header_id :: "js \<Rightarrow> string" where
  "header_id h = to_lower (str_of (jget h ''name''))"

definition headers_type :: "js \<Rightarrow> bool" where
  "headers_type v = (is_array v \<and> length (arr_of v) \<le> 12 \<and> list_all header_type (arr_of v) \<and>
     distinct (map header_id (arr_of v)))"

definition limit_type :: "int \<Rightarrow> int \<Rightarrow> js \<Rightarrow> bool" where
  "limit_type lo hi v = (v = JNull \<or> int_between lo hi v)"

definition nginx_type :: "string \<Rightarrow> js \<Rightarrow> bool" where
  "nginx_type t w =
     (limit_type 1 1024 (jget w ''clientMaxBodySizeMb'') \<and> headers_type (jget w ''headers'') \<and>
      (if t = ''proxy'' \<or> t = ''python''
       then keys_of w = [''clientMaxBodySizeMb'', ''proxyTimeoutSeconds'', ''websocket'', ''headers''] \<and>
         limit_type 1 600 (jget w ''proxyTimeoutSeconds'') \<and> is_bool (jget w ''websocket'')
       else if t = ''static''
       then keys_of w = [''clientMaxBodySizeMb'', ''spaFallback'', ''staticAssetCacheSeconds'', ''headers''] \<and>
         is_bool (jget w ''spaFallback'') \<and> limit_type 0 31536000 (jget w ''staticAssetCacheSeconds'')
       else (t = ''passenger'' \<or> t = ''php'') \<and> keys_of w = [''clientMaxBodySizeMb'', ''headers'']))"

lemma header_js_type: "header_ok e \<Longrightarrow> header_id e \<notin> set BLOCKED_HEADERS \<Longrightarrow> header_type (header_js e)"
  by (simp add: header_type_def header_js_def header_ok_def header_id_def extra_keys_def)

lemma header_id_js [simp]: "header_id (header_js e) = header_id e"
  by (simp add: header_id_def header_js_def)

lemma header_js_again: "header_type h \<Longrightarrow> header_js h = h"
  by (auto simp: header_type_def header_js_def fields_simps)

lemma headers_from_sound:
  "headers_from seen es = Inr hs \<Longrightarrow>
   list_all header_type hs \<and> distinct (map header_id hs) \<and> set (map header_id hs) \<inter> set seen = {} \<and>
   length hs = length es"
proof (induction seen es arbitrary: hs rule: headers_from.induct)
  case (2 seen e rest)
  from 2(2) obtain ks where e: "header_ok e" "header_id e \<notin> set BLOCKED_HEADERS" "header_id e \<notin> set seen"
    "headers_from (seen @ [header_id e]) rest = Inr ks" "hs = header_js e # ks"
    by (auto simp: header_id_def Let_def split: if_splits)
  from 2(1) [folded header_id_def, OF _ _ _ _ e(4)] e show ?case by (auto simp: header_js_type)
qed simp

lemma headers_from_complete:
  "list_all header_type hs \<Longrightarrow> distinct (map header_id hs) \<Longrightarrow> set (map header_id hs) \<inter> set seen = {} \<Longrightarrow>
   headers_from seen hs = Inr hs"
  by (induction hs arbitrary: seen) (auto simp: header_type_def header_id_def [symmetric] header_js_again [unfolded header_type_def] Let_def)

lemma headers_sound: "headers v = Inr w \<Longrightarrow> headers_type w"
  unfolding headers_def by (elim unravel; hypsubst) (auto simp: headers_type_def dest: headers_from_sound)

lemma headers_complete: "headers_type w \<Longrightarrow> headers w = Inr w"
  using headers_from_complete [of "arr_of w" "[]"] by (auto simp: headers_type_def headers_def is_array_iff)

lemma obj_get_spread:
  "distinct (map fst p) \<Longrightarrow>
   obj_get (obj_spread m p) k = (if k \<in> set (map fst p) then obj_get p k else obj_get m k)"
proof (induction p arbitrary: m)
  case (Cons e p)
  obtain k' v where "e = (k', v)" by (cases e)
  with Cons show ?case
    by (cases "k = k'") (auto simp: obj_spread_def obj_get_absent)
qed (simp add: obj_spread_def)

lemma optionalInteger_Inr: "optionalInteger v f lo hi = Inr w \<longleftrightarrow> w = v \<and> limit_type lo hi v"
  by (auto simp: optionalInteger_def limit_type_def)

lemma boolean_Inr: "boolean v f = Inr w \<longleftrightarrow> w = v \<and> is_bool v"
  by (auto simp: boolean_def)

lemma merged_settings_sound:
  "merged_settings t m = Inr w \<Longrightarrow> t \<in> {''proxy'', ''python'', ''static'', ''passenger'', ''php''} \<Longrightarrow> nginx_type t w"
  unfolding merged_settings_def
  by (elim unravel; drule headers_sound; simp only: optionalInteger_Inr boolean_Inr; hypsubst;
      simp only: nginx_type_def literal_simps)
    simp

lemma limit_again: "limit_type lo hi v \<Longrightarrow> optionalInteger v f lo hi = Inr v"
  by (simp add: optionalInteger_Inr)

lemma boolean_again: "is_bool v \<Longrightarrow> boolean v f = Inr v"
  by (simp add: boolean_Inr)

lemmas settings_again = limit_again boolean_again headers_complete

lemma merged_settings_complete:
  "nginx_type t w \<Longrightarrow> list_all (\<lambda>k. obj_get m k = jget w k) (keys_of w) \<Longrightarrow> merged_settings t m = Inr w"
  by (simp only: nginx_type_def fields_simps split: if_splits; elim conjE exE; hypsubst;
      simp only: literal_simps list.map_disc_iff list.pred_inject)
    (auto simp: merged_settings_def settings_again)

lemma target_fields: "TARGET_FIELDS t = Some fs \<Longrightarrow> t \<in> {''proxy'', ''python'', ''static'', ''passenger'', ''php''}"
  by (auto simp: TARGET_FIELDS_def split: if_splits)

lemma keys_object: "keys_of w = k # ks \<Longrightarrow> is_object w"
  by (auto simp: keys_of_Cons)

lemma nginx_type_fields:
  "nginx_type t w \<Longrightarrow> \<exists>fs. TARGET_FIELDS t = Some fs \<and> \<not> extra_keys w fs \<and> distinct (keys_of w) \<and> is_object w"
  by (simp only: nginx_type_def split: if_splits; elim conjE; frule keys_object;
      simp add: TARGET_FIELDS_def extra_keys_def)

lemma settings_over_sound: "settings_over t v seed = Inr w \<Longrightarrow> nginx_type t w"
  unfolding settings_over_def Let_def
  by (cases "TARGET_FIELDS t"; simp only: option.case; elim unravel) (rule merged_settings_sound [OF _ target_fields])

lemma settings_over_complete:
  assumes "nginx_type t w"
  shows "settings_over t w (Inr s) = Inr w"
proof -
  obtain fs where fs: "TARGET_FIELDS t = Some fs" "\<not> extra_keys w fs" "distinct (keys_of w)" "is_object w"
    using nginx_type_fields [OF assms] by blast
  moreover have "merged_settings t (obj_spread s (obj_of w)) = Inr w"
    using fs by (intro merged_settings_complete [OF assms]) (simp add: list_all_iff obj_get_spread keys_of_def jget_def)
  moreover have "w \<noteq> JUndef" using fs by auto
  ultimately show ?thesis by (simp add: settings_over_def)
qed

lemma nginx_sound: "normalizeNginxSettings t v base = Inr w \<Longrightarrow> nginx_type t w"
  by (simp add: normalizeNginxSettings_def settings_over_sound)

lemma nginx_complete: "nginx_type t w \<Longrightarrow> normalizeNginxSettings t w JNull = Inr w"
proof -
  assume w: "nginx_type t w"
  obtain fs where "TARGET_FIELDS t = Some fs" using nginx_type_fields [OF w] by blast
  then obtain d where "defaults t = Inr d" by (auto simp: TARGET_FIELDS_def defaults_def split: if_splits)
  then show ?thesis using settings_over_complete [OF w] by (simp add: normalizeNginxSettings_def)
qed

interpretation nginx: validator "\<lambda>v. normalizeNginxSettings t v JNull" "nginx_type t" for t
  by unfold_locales (fact nginx_sound, fact nginx_complete)

end
