(* ===== verification/EnvironmentSpecs.thy ===== *)
theory EnvironmentSpecs
  imports ApplicationSpecs
begin

text \<open>
  The environment variables of an application (\<open>packages/shared/src/application-environment.js\<close>): the
  checks of a bundle, and the import of a text of \<open>KEY=value\<close> lines.
\<close>

section \<open>Bundles\<close>

definition RESERVED_KEYS :: "string list" where
  "RESERVED_KEYS = [''NODE_ENV'', ''HOST'', ''PORT'', ''YUNPANEL_APPLICATION_ID'', ''YUNPANEL_GIT_CREDENTIAL'',
     ''YUNPANEL_GITHUB_WEBHOOK_SECRET'']"

definition MAX_ENVIRONMENT_VARIABLES :: nat where "MAX_ENVIRONMENT_VARIABLES = 100"

definition MAX_ENVIRONMENT_VALUE_LENGTH :: nat where "MAX_ENVIRONMENT_VALUE_LENGTH = 8192"

definition MAX_ENVIRONMENT_IMPORT_LENGTH :: nat where "MAX_ENVIRONMENT_IMPORT_LENGTH = 12 * 1024"

definition is_key_head :: "char \<Rightarrow> bool" where
  "is_key_head c = (is_upper c \<or> c = CHR ''_'')"

definition is_key_tail :: "char \<Rightarrow> bool" where
  "is_key_tail c = (is_upper c \<or> is_digit c \<or> c = CHR ''_'')"

definition is_environment_key :: "string \<Rightarrow> bool" where
  "is_environment_key s = head_class is_key_head is_key_tail 127 s"

definition normalizeEnvironmentKey :: "string \<Rightarrow> string res" where
  "normalizeEnvironmentKey s =
     (if \<not> is_environment_key s
      then Inl (app_error ''invalid_environment_key'' ''Environment variable name is invalid'')
      else if s \<in> set RESERVED_KEYS
      then Inl (app_error ''reserved_environment_key'' ''Environment variable name is managed by YunPanel'')
      else Inr s)"

definition value_chars_ok :: "string \<Rightarrow> bool" where
  "value_chars_ok s = (length s \<le> MAX_ENVIRONMENT_VALUE_LENGTH \<and> nul \<notin> set s \<and> lf \<notin> set s \<and> cr \<notin> set s)"

definition normalizeEnvironmentValue :: "js \<Rightarrow> string res" where
  "normalizeEnvironmentValue v =
     (if \<not> is_string v \<or> \<not> value_chars_ok (str_of v)
      then Inl (app_error ''invalid_environment_value'' ''Environment variable value is invalid'')
      else Inr (str_of v))"

definition limit_error :: jerr where
  "limit_error = app_error ''environment_limit_exceeded'' ''Application environment supports at most 100 variables''"

type_synonym environment = "(string \<times> string) list"

text \<open>The loop over the entries, which assigns \<open>normalized[key] = value\<close>.\<close>

fun env_set :: "environment \<Rightarrow> string \<Rightarrow> string \<Rightarrow> environment" where
  "env_set [] k v = [(k, v)]"
| "env_set ((k', w) # e) k v = (if k' = k then (k', v) # e else (k', w) # env_set e k v)"

fun normalize_entries :: "environment \<Rightarrow> jobj \<Rightarrow> environment res" where
  "normalize_entries acc [] = Inr acc"
| "normalize_entries acc ((key, raw) # rest) =
     bnd (normalizeEnvironmentKey key) (\<lambda>k.
     bnd (normalizeEnvironmentValue raw) (\<lambda>v. normalize_entries (env_set acc k v) rest))"

definition normalizeApplicationEnvironmentBundle :: "js \<Rightarrow> environment res" where
  "normalizeApplicationEnvironmentBundle value =
     (let v = or_empty value in
      if \<not> is_object v
      then Inl (app_error ''invalid_environment_bundle'' ''Application environment bundle must be an object'')
      else if length (obj_of v) > MAX_ENVIRONMENT_VARIABLES then Inl limit_error
      else normalize_entries [] (obj_of v))"

definition environment_js :: "environment \<Rightarrow> js" where
  "environment_js e = JObj (map (\<lambda>(k, v). (k, JStr v)) e)"

section \<open>The import\<close>

definition is_blank :: "char \<Rightarrow> bool" where
  "is_blank c = (c = CHR '' '' \<or> code c = 9)"

definition squote :: char where "squote = char_of (39 :: nat)"

definition dquote :: char where "dquote = char_of (34 :: nat)"

definition backslash :: char where "backslash = char_of (92 :: nat)"

text \<open>\<open>(?:[ \t]+#.*)?$\<close>: nothing, or blanks and a comment.\<close>

definition comment_or_end :: "string \<Rightarrow> bool" where
  "comment_or_end s = (s = [] \<or> (is_blank (hd s) \<and> starts_with (dropWhile is_blank s) ''#''))"

text \<open>The text up to the closing double quote, with its escapes undone, and what follows the quote.\<close>

fun double_quoted :: "string \<Rightarrow> (string \<times> string) option" where
  "double_quoted [] = None"
| "double_quoted (c # s) =
     (if c = dquote then Some ([], s)
      else if c = backslash then
        (case s of
           d # t \<Rightarrow> if d = dquote \<or> d = backslash then map_option (\<lambda>(w, r). (d # w, r)) (double_quoted t) else None
         | [] \<Rightarrow> None)
      else map_option (\<lambda>(w, r). (c # w, r)) (double_quoted s))"

text \<open>What precedes the first blanks followed by \<open>#\<close>, if there are any.\<close>

fun before_comment :: "string \<Rightarrow> string" where
  "before_comment [] = []"
| "before_comment (c # s) =
     (if is_blank c \<and> starts_with (dropWhile is_blank s) ''#'' then [] else c # before_comment s)"

definition import_error :: "string \<Rightarrow> jerr" where
  "import_error msg = app_error ''invalid_environment_import'' msg"

definition line_error :: "nat \<Rightarrow> string \<Rightarrow> jerr" where
  "line_error n msg = import_error (''Environment import line '' @ nat_text n @ msg)"

definition importLineValue :: "string \<Rightarrow> nat \<Rightarrow> string res" where
  "importLineValue fragment lineNumber =
     (let trimmed = trim fragment in
      if trimmed = [] then Inr []
      else if hd trimmed = squote
      then
        let inner = takeWhile (\<lambda>c. c \<noteq> squote) (tl trimmed); rest = drop (length inner) (tl trimmed) in
        if rest = [] \<or> \<not> comment_or_end (tl rest)
        then Inl (line_error lineNumber '' has an invalid single-quoted value'')
        else normalizeEnvironmentValue (JStr inner)
      else if hd trimmed = dquote
      then
        (case double_quoted (tl trimmed) of
           Some (inner, rest) \<Rightarrow>
             if \<not> comment_or_end rest then Inl (line_error lineNumber '' has an invalid double-quoted value'')
             else normalizeEnvironmentValue (JStr inner)
         | None \<Rightarrow> Inl (line_error lineNumber '' has an invalid double-quoted value''))
      else normalizeEnvironmentValue (JStr (trim_end (before_comment trimmed))))"

text \<open>
  \<open>/^[ \t]*(?:export[ \t]+)?([A-Z_][A-Z0-9_]*)[ \t]*=[ \t]*(.*)$/\<close>: the key and the rest of the line. A key
  cannot begin like \<open>export\<close>, so the optional word is there exactly when the line has it.
\<close>

definition split_line :: "string \<Rightarrow> (string \<times> string) option" where
  "split_line line =
     (let s = dropWhile is_blank line;
          t = (if starts_with s ''export'' \<and> length s > 6 \<and> is_blank (s ! 6)
               then dropWhile is_blank (drop 6 s) else s);
          key = takeWhile is_key_tail t;
          rest = dropWhile is_blank (drop (length key) t) in
      if key = [] \<or> \<not> is_key_head (hd key) \<or> \<not> starts_with rest ''='' then None
      else Some (key, dropWhile is_blank (tl rest)))"

fun import_lines :: "environment \<Rightarrow> nat \<Rightarrow> string list \<Rightarrow> environment res" where
  "import_lines acc n [] = Inr acc"
| "import_lines acc n (line # rest) =
     (if cr \<in> set line then Inl (line_error n '' has an invalid line ending'')
      else if trim line = [] \<or> starts_with (trim_start line) ''#'' then import_lines acc (n + 1) rest
      else case split_line line of
        None \<Rightarrow> Inl (line_error n '' must use KEY=value syntax'')
      | Some (raw, fragment) \<Rightarrow>
          bnd (normalizeEnvironmentKey raw) (\<lambda>key.
          if key \<in> set (map fst acc)
          then Inl (app_error ''duplicate_environment_key'' (''Environment import contains duplicate key '' @ key))
          else
            bnd (importLineValue fragment n) (\<lambda>v.
            let acc' = acc @ [(key, v)] in
            if length acc' > MAX_ENVIRONMENT_VARIABLES then Inl limit_error
            else import_lines acc' (n + 1) rest)))"

text \<open>The byte order mark the code drops is outside the modelled strings.\<close>

definition parseApplicationEnvironmentImport :: "js \<Rightarrow> environment res" where
  "parseApplicationEnvironmentImport v =
     (if \<not> is_string v \<or> length (str_of v) > MAX_ENVIRONMENT_IMPORT_LENGTH \<or> nul \<in> set (str_of v)
      then Inl (import_error ''Environment import must be bounded UTF-8 text'')
      else import_lines [] 1 (split_on lf (crlf_to_lf (str_of v))))"

section \<open>What the two accept\<close>

definition wf_environment :: "environment \<Rightarrow> bool" where
  "wf_environment e = (distinct (map fst e) \<and> length e \<le> MAX_ENVIRONMENT_VARIABLES \<and>
     list_all (\<lambda>(k, v). is_environment_key k \<and> k \<notin> set RESERVED_KEYS \<and> value_chars_ok v) e)"

text \<open>A bundle as an import text: one double-quoted line for each variable.\<close>

fun escape_value :: "string \<Rightarrow> string" where
  "escape_value [] = []"
| "escape_value (c # s) = (if c = dquote \<or> c = backslash then backslash # c # escape_value s else c # escape_value s)"

definition print_variable :: "string \<times> string \<Rightarrow> string" where
  "print_variable p = fst p @ ''='' @ [dquote] @ escape_value (snd p) @ [dquote]"

definition print_environment :: "environment \<Rightarrow> string" where
  "print_environment e = join_with [lf] (map print_variable e)"

lemma normalizeEnvironmentKey_Inr:
  "normalizeEnvironmentKey s = Inr k \<longleftrightarrow> k = s \<and> is_environment_key s \<and> s \<notin> set RESERVED_KEYS"
  by (auto simp: normalizeEnvironmentKey_def)

lemma normalizeEnvironmentValue_Inr:
  "normalizeEnvironmentValue v = Inr s \<longleftrightarrow> v = JStr s \<and> value_chars_ok s"
  by (cases v) (auto simp: normalizeEnvironmentValue_def)

lemma env_set_keys: "set (map fst (env_set e k v)) = insert k (set (map fst e))"
  by (induction e k v rule: env_set.induct) auto

lemma env_set_distinct: "distinct (map fst e) \<Longrightarrow> distinct (map fst (env_set e k v))"
  by (induction e k v rule: env_set.induct) (use env_set_keys in \<open>fastforce+\<close>)

lemma env_set_length: "length (env_set e k v) \<le> Suc (length e)"
  by (induction e k v rule: env_set.induct) auto

lemma env_set_all: "list_all P e \<Longrightarrow> P (k, v) \<Longrightarrow> list_all P (env_set e k v)"
  by (induction e k v rule: env_set.induct) auto

lemma env_set_fresh: "k \<notin> set (map fst e) \<Longrightarrow> env_set e k v = e @ [(k, v)]"
  by (induction e k v rule: env_set.induct) auto

text \<open>Both validators accept into the well-formed environments only.\<close>

lemma normalize_entries_wf:
  "normalize_entries acc m = Inr e \<Longrightarrow> distinct (map fst acc) \<Longrightarrow>
   list_all (\<lambda>(k, v). is_environment_key k \<and> k \<notin> set RESERVED_KEYS \<and> value_chars_ok v) acc \<Longrightarrow>
   distinct (map fst e) \<and> length e \<le> length acc + length m \<and>
   list_all (\<lambda>(k, v). is_environment_key k \<and> k \<notin> set RESERVED_KEYS \<and> value_chars_ok v) e"
proof (induction acc m arbitrary: e rule: normalize_entries.induct)
  case (2 acc key raw rest)
  from 2(2) obtain v where v: "is_environment_key key" "key \<notin> set RESERVED_KEYS" "value_chars_ok v"
    "normalizeEnvironmentKey key = Inr key" "normalizeEnvironmentValue raw = Inr v"
    "normalize_entries (env_set acc key v) rest = Inr e"
    by (auto simp: normalizeEnvironmentKey_Inr normalizeEnvironmentValue_Inr)
  have "distinct (map fst (env_set acc key v))" by (rule env_set_distinct [OF 2(3)])
  moreover have "list_all (\<lambda>(k, v). is_environment_key k \<and> k \<notin> set RESERVED_KEYS \<and> value_chars_ok v) (env_set acc key v)"
    by (rule env_set_all [OF 2(4)]) (use v in simp)
  ultimately show ?case using 2(1) [OF v(4,5,6)] env_set_length [of acc key v] by force
qed simp

lemma import_lines_wf:
  "import_lines acc n ls = Inr e \<Longrightarrow> wf_environment acc \<Longrightarrow> wf_environment e"
proof (induction ls arbitrary: acc n)
  case (Cons l ls)
  show ?case
  proof (cases "trim l = [] \<or> starts_with (trim_start l) ''#''")
    case True
    with Cons show ?thesis by (auto split: if_splits)
  next
    case False
    with Cons.prems(1) obtain k f v where "split_line l = Some (k, f)" "is_environment_key k" "k \<notin> set RESERVED_KEYS"
      "k \<notin> set (map fst acc)" "importLineValue f n = Inr v" "length (acc @ [(k, v)]) \<le> MAX_ENVIRONMENT_VARIABLES"
      "import_lines (acc @ [(k, v)]) (n + 1) ls = Inr e"
      by (auto simp: normalizeEnvironmentKey_Inr Let_def split: if_splits option.splits)
    moreover from this(5) have "value_chars_ok v"
      by (auto simp: importLineValue_def Let_def normalizeEnvironmentValue_Inr MAX_ENVIRONMENT_VALUE_LENGTH_def
          value_chars_ok_def split: if_splits option.splits)
    ultimately show ?thesis using Cons.IH [of "acc @ [(k, v)]" "n + 1"] Cons.prems(2)
      by (auto simp: wf_environment_def)
  qed
qed simp

lemma bundle_wf: "normalizeApplicationEnvironmentBundle v = Inr e \<Longrightarrow> wf_environment e"
  using normalize_entries_wf [of "[]" "obj_of (or_empty v)" e]
  by (auto simp: normalizeApplicationEnvironmentBundle_def Let_def wf_environment_def split: if_splits)

lemma import_wf: "parseApplicationEnvironmentImport v = Inr e \<Longrightarrow> wf_environment e"
  using import_lines_wf [of "[]"]
  by (auto simp: parseApplicationEnvironmentImport_def wf_environment_def split: if_splits)

text \<open>A well-formed environment passes the bundle check unchanged.\<close>

lemma normalize_entries_js:
  "wf_environment (acc @ e) \<Longrightarrow> normalize_entries acc (map (\<lambda>(k, v). (k, JStr v)) e) = Inr (acc @ e)"
proof (induction e arbitrary: acc)
  case (Cons p e)
  obtain k v where p: "p = (k, v)" by (cases p)
  have "k \<notin> set (map fst acc)" "is_environment_key k" "k \<notin> set RESERVED_KEYS" "value_chars_ok v"
    using Cons.prems by (auto simp: wf_environment_def p)
  with Cons show ?case
    by (simp add: p env_set_fresh normalizeEnvironmentKey_def normalizeEnvironmentValue_def)
qed simp

lemma bundle_js: "wf_environment e \<Longrightarrow> normalizeApplicationEnvironmentBundle (environment_js e) = Inr e"
  using normalize_entries_js [of "[]" e]
  by (simp add: normalizeApplicationEnvironmentBundle_def environment_js_def or_empty_def wf_environment_def)

end
