(* ===== verification/SpecGuarantees.thy ===== *)
theory SpecGuarantees
  imports SpecTypes EnvironmentSpecs
begin

text \<open>
  What the shared validators promise: they return exactly the values of their types, accept again what
  they returned, and keep every path inside the release it belongs to.
\<close>

section \<open>Paths stay inside\<close>

text \<open>The directory a path leads to, from a directory given by its segments.\<close>

fun walk :: "string list \<Rightarrow> string list \<Rightarrow> string list" where
  "walk dir [] = dir"
| "walk dir (s # ss) =
     walk (if s = [] \<or> s = ''.'' then dir else if s = ''..'' then butlast dir else dir @ [s]) ss"

text \<open>No prefix of the path leaves the directory it starts in.\<close>

definition stays_inside :: "js \<Rightarrow> bool" where
  "stays_inside v = (is_string v \<and>
     (\<forall>root n. \<exists>rel. walk root (take n (split_on (CHR ''/'') (str_of v))) = root @ rel))"

lemma walk_down:
  "list_all (\<lambda>s. s \<noteq> ''..'') ss \<Longrightarrow> \<exists>rel. walk dir ss = dir @ rel"
proof (induction ss arbitrary: dir)
  case (Cons s ss)
  show ?case
  proof (cases "s = [] \<or> s = ''.''")
    case True
    with Cons show ?thesis by simp
  next
    case False
    with Cons.IH [of "dir @ [s]"] Cons.prems show ?thesis by auto
  qed
qed simp

lemma path_segments: "path_str d s \<Longrightarrow> list_all (\<lambda>seg. seg \<noteq> ''..'') (split_on (CHR ''/'') s)"
  by (auto simp: path_str_def path_ok_def elim: list.pred_mono_strong)

lemma list_all_take: "list_all P xs \<Longrightarrow> list_all P (take n xs)"
  by (auto simp: list_all_iff dest: in_set_takeD)

lemma path_stays_inside: "path_type d v \<Longrightarrow> stays_inside v"
  unfolding stays_inside_def path_type_def
  using walk_down [OF list_all_take [OF path_segments]] by blast

section \<open>Specifications\<close>

definition release_paths :: "js \<Rightarrow> js list" where
  "release_paths w = filter (\<lambda>v. v \<noteq> JUndef \<and> v \<noteq> JNull)
     [jget w ''outputDir'', jget w ''healthFile'', jget w ''documentRoot'', jget (jget w ''start'') ''entryFile'',
      jget w ''requirementsFile'']"

lemma jget_absent: "keys_of w = ks \<Longrightarrow> k \<notin> set ks \<Longrightarrow> jget w k = JUndef"
  by (auto simp: keys_of_def jget_def obj_get_absent)

lemma list_all_filter: "list_all P (filter q xs) \<longleftrightarrow> list_all (\<lambda>x. q x \<longrightarrow> P x) xs"
  by (induction xs) auto

lemma release_paths_inside:
  assumes "\<And>v. v \<in> {jget w ''outputDir'', jget w ''healthFile'', jget w ''documentRoot'',
      jget (jget w ''start'') ''entryFile'', jget w ''requirementsFile''} \<Longrightarrow>
    v = JUndef \<or> v = JNull \<or> (\<exists>d. path_type d v)"
  shows "list_all stays_inside (release_paths w)"
proof -
  have "v \<noteq> JUndef \<and> v \<noteq> JNull \<longrightarrow> stays_inside v"
    if "v \<in> {jget w ''outputDir'', jget w ''healthFile'', jget w ''documentRoot'',
      jget (jget w ''start'') ''entryFile'', jget w ''requirementsFile''}" for v
    using assms [OF that] path_stays_inside by blast
  then show ?thesis by (simp add: release_paths_def list_all_filter)
qed

lemma jget_JUndef [simp]: "jget JUndef k = JUndef"
  by (simp add: jget_def)

lemma static_build_paths:
  assumes "static_build_type w"
  shows "list_all stays_inside (release_paths w)"
proof -
  have k: "keys_of w = [''mode'', ''installMode'', ''buildScript'', ''outputDir'', ''healthFile'']"
    using assms by (simp add: static_build_type_def)
  have "path_type False (jget w ''healthFile'')" "\<exists>d. path_type d (jget w ''outputDir'')"
    using assms by (auto simp: static_build_type_def split: if_splits)
  then show ?thesis
    by (intro release_paths_inside) (auto simp: jget_absent [OF k])
qed

lemma node_runtime_paths:
  assumes "node_runtime_type rp w"
  shows "list_all stays_inside (release_paths w)"
proof -
  have k: "keys_of w = [''nodeMajor'', ''packageManager'', ''installMode'', ''buildScript'', ''mode'',
      ''documentRoot'', ''start'', ''port'', ''healthPath'', ''healthTimeoutSeconds'', ''restartPolicy'']"
    and "path_type True (jget w ''documentRoot'')" "start_type (jget w ''start'')"
    using assms by (simp_all add: node_runtime_type_def)
  moreover from this(3) have "jget (jget w ''start'') ''entryFile'' = JNull \<or>
      path_type False (jget (jget w ''start'') ''entryFile'')"
    by (auto simp: start_type_def split: if_splits)
  ultimately show ?thesis
    by (intro release_paths_inside) (auto simp: jget_absent [OF k])
qed

lemma python_runtime_paths:
  assumes "python_runtime_type rp w"
  shows "list_all stays_inside (release_paths w)"
proof -
  have k: "keys_of w = [''pythonVersion'', ''appServer'', ''entryPoint'', ''workers'', ''requirementsFile'',
      ''documentRoot'', ''healthPath'', ''healthTimeoutSeconds'', ''restartPolicy'', ''mode'', ''port'']"
    and "path_type False (jget w ''requirementsFile'')" "path_type True (jget w ''documentRoot'')"
    using assms by (simp_all add: python_runtime_type_def)
  then show ?thesis
    by (intro release_paths_inside) (auto simp: jget_absent [OF k])
qed

text \<open>C32 Every path of a build or a runtime a validator accepted stays inside the release.\<close>

theorem accepted_paths_stay_inside:
  "normalizeStaticBuildConfig v = Inr w \<or> normalizeNodeRuntimeConfig v rp = Inr w \<or>
   normalizePythonRuntimeConfig nt v rp = Inr w \<Longrightarrow> list_all stays_inside (release_paths w)"
  by (auto intro: static_build_paths node_runtime_paths python_runtime_paths
      dest: build.sound node_runtime.sound python_runtime.sound)

theorem accepted_paths_stay_inside_witness:
  "list_all stays_inside (release_paths (JObj [(''mode'', JStr ''none''), (''installMode'', JNull), (''buildScript'', JNull),
     (''outputDir'', JStr ''site/dist''), (''healthFile'', JStr ''index.html'')]))"
proof -
  have "normalizeStaticBuildConfig (JObj [(''mode'', JStr ''none''), (''outputDir'', JStr ''site/dist'')]) =
    Inr (JObj [(''mode'', JStr ''none''), (''installMode'', JNull), (''buildScript'', JNull),
     (''outputDir'', JStr ''site/dist''), (''healthFile'', JStr ''index.html'')])" by code_simp
  then show ?thesis
    using accepted_paths_stay_inside [of "JObj [(''mode'', JStr ''none''), (''outputDir'', JStr ''site/dist'')]"] by blast
qed

section \<open>Types\<close>

text \<open>C31 The validators of targets, builds, runtimes, Nginx settings and environments return exactly the
  values of their types.\<close>

theorem validators_return_their_types:
  "((\<exists>v. normalizeGitDeploymentTarget v d = Inr w) \<longleftrightarrow> git_target_type w) \<and>
   ((\<exists>v. normalizeStaticBuildConfig v = Inr w) \<longleftrightarrow> static_build_type w) \<and>
   ((\<exists>v. normalizeNodeRuntimeConfig v rp = Inr w) \<longleftrightarrow> node_runtime_type rp w) \<and>
   ((\<exists>v. normalizePythonRuntimeConfig nt v rp = Inr w) \<longleftrightarrow> python_runtime_type rp w) \<and>
   ((\<exists>v. normalizeNginxSettings t v JNull = Inr w) \<longleftrightarrow> nginx_type t w) \<and>
   ((\<exists>v. normalizeApplicationEnvironmentBundle v = Inr e) \<longleftrightarrow> wf_environment e)"
  using git.range build.range node_runtime.range python_runtime.range nginx.range bundle_wf bundle_js by blast

text \<open>Validating a validated value changes nothing, and an imported environment is a valid bundle.\<close>

theorem validating_again_changes_nothing:
  "bnd (normalizeGitDeploymentTarget v d) (\<lambda>w. normalizeGitDeploymentTarget w d) = normalizeGitDeploymentTarget v d \<and>
   bnd (normalizeStaticBuildConfig v) normalizeStaticBuildConfig = normalizeStaticBuildConfig v \<and>
   bnd (normalizeNodeRuntimeConfig v rp) (\<lambda>w. normalizeNodeRuntimeConfig w rp) = normalizeNodeRuntimeConfig v rp \<and>
   bnd (normalizePythonRuntimeConfig nt v rp) (\<lambda>w. normalizePythonRuntimeConfig nt w rp) =
     normalizePythonRuntimeConfig nt v rp \<and>
   bnd (normalizeNginxSettings t v JNull) (\<lambda>w. normalizeNginxSettings t w JNull) = normalizeNginxSettings t v JNull \<and>
   bnd (parseApplicationEnvironmentImport v) (\<lambda>e. normalizeApplicationEnvironmentBundle (environment_js e)) =
     parseApplicationEnvironmentImport v"
proof -
  have "bnd (parseApplicationEnvironmentImport v) (\<lambda>e. normalizeApplicationEnvironmentBundle (environment_js e)) =
      parseApplicationEnvironmentImport v"
    by (cases "parseApplicationEnvironmentImport v") (simp_all add: bundle_js import_wf)
  then show ?thesis
    by (simp add: git.again build.again node_runtime.again python_runtime.again nginx.again)
qed

lemma headers_from_map: "headers_from seen es = Inr hs \<Longrightarrow> hs = map header_js es"
  by (induction seen es arbitrary: hs rule: headers_from.induct) (auto simp: Let_def split: if_splits)

lemma headers_map: "headers v = Inr w \<Longrightarrow> w = JArr (map header_js (arr_of v))"
  unfolding headers_def by (elim unravel) (auto dest: headers_from_map)

lemma merged_settings_fields:
  "merged_settings t m = Inr w \<Longrightarrow> f \<in> set (keys_of w) \<Longrightarrow>
   if f = ''headers'' then headers (obj_get m f) = Inr (jget w f) else jget w f = obj_get m f"
  unfolding merged_settings_def
  by (elim unravel; simp only: optionalInteger_Inr boolean_Inr; hypsubst; simp only: literal_simps list.set) auto

text \<open>Nginx settings laid over accepted ones keep every field they do not give.\<close>

theorem nginx_settings_patch_their_base:
  assumes "normalizeNginxSettings t c JNull = Inr b" "normalizeNginxSettings t (JObj v) b = Inr w"
    "distinct (map fst v)" "f \<in> set (keys_of w)"
  shows "jget w f =
    (if f \<notin> set (map fst v) then jget b f
     else if f = ''headers'' then JArr (map header_js (arr_of (obj_get v f))) else obj_get v f)"
proof -
  have b: "nginx_type t b" using assms(1) by (rule nginx.sound)
  define m where "m = obj_spread (obj_of b) v"
  have "b \<noteq> JNull \<and> b \<noteq> JUndef" using nginx_type_fields [OF b] by auto
  moreover have "settings_over t b (defaults t) = Inr b"
    using nginx_complete [OF b] by (simp add: normalizeNginxSettings_def)
  ultimately have "merged_settings t m = Inr w"
    using assms(2) by (auto simp: normalizeNginxSettings_def settings_over_def m_def Let_def split: option.splits if_splits)
  note f = merged_settings_fields [OF this assms(4)]
  have m: "obj_get m f = (if f \<in> set (map fst v) then obj_get v f else jget b f)"
    by (simp add: m_def obj_get_spread [OF assms(3)] jget_def)
  have "headers_type (jget b ''headers'')" using b by (simp add: nginx_type_def)
  then have "headers (jget b ''headers'') = Inr (jget b ''headers'')" by (rule headers_complete)
  with f m show ?thesis by (auto dest: headers_map split: if_splits)
qed

theorem nginx_settings_patch_their_base_witness:
  "jget (JObj [(''clientMaxBodySizeMb'', JInt 8), (''spaFallback'', JBool False), (''staticAssetCacheSeconds'', JInt 604800),
      (''headers'', JArr [])]) ''spaFallback'' = JBool False"
proof -
  let ?b = "JObj [(''clientMaxBodySizeMb'', JNull), (''spaFallback'', JBool False),
    (''staticAssetCacheSeconds'', JInt 604800), (''headers'', JArr [])]"
  let ?w = "JObj [(''clientMaxBodySizeMb'', JInt 8), (''spaFallback'', JBool False),
    (''staticAssetCacheSeconds'', JInt 604800), (''headers'', JArr [])]"
  have "normalizeNginxSettings ''static'' (JObj [(''spaFallback'', JBool False)]) JNull = Inr ?b"
    "normalizeNginxSettings ''static'' (JObj [(''clientMaxBodySizeMb'', JInt 8)]) ?b = Inr ?w" by code_simp+
  from nginx_settings_patch_their_base [OF this, of "''spaFallback''"] show ?thesis by simp
qed

section \<open>Specifications of deployments\<close>

text \<open>What \<open>new URL\<close> does with the address of a repository, which has nothing to normalise.\<close>

definition repo_name_ok :: "string \<Rightarrow> bool" where
  "repo_name_ok s = (s \<noteq> [] \<and> list_all is_repo_char s \<and> \<not> starts_with s ''.'')"

definition parses_repositories :: "(string \<Rightarrow> url option) \<Rightarrow> bool" where
  "parses_repositories parse_url = (\<forall>owner name. repo_name_ok owner \<and> repo_name_ok name \<longrightarrow>
     parse_url (''https://github.com/'' @ owner @ ''/'' @ name @ ''.git'') =
     Some \<lparr>u_protocol = ''https:'', u_hostname = ''github.com'', u_username = [], u_password = [], u_search = [],
       u_hash = [], u_pathname = ''/'' @ owner @ ''/'' @ name @ ''.git''\<rparr>)"

definition canonical_url :: "string \<Rightarrow> bool" where
  "canonical_url s = (\<exists>owner name. repo_name_ok owner \<and> repo_name_ok name \<and>
     s = ''https://github.com/'' @ owner @ ''/'' @ name @ ''.git'')"

lemma repo_char_no_slash: "list_all is_repo_char s \<Longrightarrow> CHR ''/'' \<notin> set s"
  by (auto simp: list_all_iff is_repo_char_def is_alnum_def is_digit_def is_lower_def is_upper_def one_of_def code_def)

lemma ends_with_append [simp]: "ends_with (s @ p) p"
  by (simp add: ends_with_def)

lemma drop_git_append [simp]: "s \<noteq> [] \<Longrightarrow> drop_git (s @ ''.git'') = s"
  by (simp add: drop_git_def)

lemma drop_git_name: "list_all is_repo_char s \<Longrightarrow> s \<noteq> [] \<Longrightarrow> drop_git s \<noteq> [] \<and> list_all is_repo_char (drop_git s)"
  by (auto simp: drop_git_def list_all_iff dest: in_set_takeD)

lemma repo_path_canonical:
  assumes "repo_name_ok owner" "repo_name_ok name"
  shows "repo_path (''/'' @ owner @ ''/'' @ name @ ''.git'') = Some (owner, name)"
proof -
  have o: "CHR ''/'' \<notin> set owner" and n: "CHR ''/'' \<notin> set (name @ ''.git'')"
    using assms by (simp_all add: repo_name_ok_def repo_char_no_slash)
  have g: "list_all is_repo_char ''.git''" by code_simp
  have "split_on (CHR ''/'') (''/'' @ owner @ ''/'' @ name @ ''.git'') = [[], owner, name @ ''.git'']"
    using split_on_append [of "CHR ''/''" owner "name @ ''.git''"] split_on_one [OF o] split_on_one [OF n] by simp
  then show ?thesis using assms g by (simp add: repo_path_def repo_name_ok_def)
qed

lemma repo_path_names:
  "repo_path p = Some (owner, name) \<Longrightarrow>
   owner \<noteq> [] \<and> list_all is_repo_char owner \<and> name \<noteq> [] \<and> list_all is_repo_char name"
  by (auto simp: repo_path_def drop_git_name split: if_splits list.splits)

lemma repository_url_canonical:
  assumes "normalizeGithubRepositoryUrl parse_url v = Inr u"
  shows "canonical_url u"
proof -
  obtain p owner name where p: "repo_path p = Some (owner, name)" "\<not> starts_with owner ''.''" "\<not> starts_with name ''.''"
    and u: "u = ''https://github.com/'' @ owner @ ''/'' @ name @ ''.git''"
    using assms unfolding normalizeGithubRepositoryUrl_def by (auto split: if_splits option.splits)
  then have "repo_name_ok owner" "repo_name_ok name" using repo_path_names [OF p(1)] by (simp_all add: repo_name_ok_def)
  with u show ?thesis unfolding canonical_url_def by blast
qed

lemma repository_url_again:
  assumes "parses_repositories parse_url" "canonical_url u"
  shows "normalizeGithubRepositoryUrl parse_url (JStr u) = Inr u \<longleftrightarrow> length u \<le> 300"
proof -
  obtain owner name where u: "repo_name_ok owner" "repo_name_ok name"
    "u = ''https://github.com/'' @ owner @ ''/'' @ name @ ''.git''"
    using assms(2) by (auto simp: canonical_url_def)
  then have "parse_url u = Some \<lparr>u_protocol = ''https:'', u_hostname = ''github.com'', u_username = [],
      u_password = [], u_search = [], u_hash = [], u_pathname = ''/'' @ owner @ ''/'' @ name @ ''.git''\<rparr>"
    using assms(1) by (simp add: parses_repositories_def)
  moreover have "\<not> starts_with owner ''.'' \<and> \<not> starts_with name ''.''" using u by (simp add: repo_name_ok_def)
  ultimately show ?thesis
    using repo_path_canonical [OF u(1,2)] u(3) by (simp add: normalizeGithubRepositoryUrl_def not_less)
qed

lemma fixed_by_lower: "list_all (\<lambda>d. lower_char d = d) ''-1234589ab''"
  by code_simp

lemma lower_AB: "lower_char (CHR ''A'') = CHR ''a''" "lower_char (CHR ''B'') = CHR ''b''"
  by code_simp+

lemma uuid_class_lower: "p \<in> set uuid_classes \<Longrightarrow> p c \<Longrightarrow> p (lower_char c)"
proof -
  assume "p \<in> set uuid_classes" "p c"
  moreover from this(1) have "p = is_hex \<or> p = one_of ''-'' \<or> p = one_of ''12345'' \<or> p = one_of ''89abAB''"
    by (auto simp: uuid_classes_def)
  ultimately show ?thesis
    using fixed_by_lower lower_AB by (elim disjE) (auto simp: one_of_def lower_char_hex)
qed

lemma is_uuid_lower: "is_uuid s \<Longrightarrow> is_uuid (to_lower s)"
  by (auto simp: is_uuid_def matches_seq_def to_lower_def list_all2_conv_all_nth uuid_class_lower)

lemma assertUuid_again: "assertUuid v f = Inr s \<Longrightarrow> assertUuid (JStr s) g = Inr s"
  by (auto simp: assertUuid_def is_uuid_lower)

lemma repository_url_long:
  "300 < length u \<Longrightarrow> normalizeGithubRepositoryUrl parse_url (JStr u) \<noteq> Inr s"
  by (simp add: normalizeGithubRepositoryUrl_def)

lemma normalizeGitBranch_type: "normalizeGitBranch v = Inr s \<Longrightarrow> normalizeGitBranch (JStr s) = Inr s"
  by (simp add: normalizeGitBranch_Inr)

lemma retention_again [simp]: "retention_of (retention_of v) = retention_of v"
  by (simp add: retention_of_def)

lemma git_target_again:
  "normalizeGitDeploymentTarget v d = Inr w \<Longrightarrow> normalizeGitDeploymentTarget w e = Inr w"
  by (rule git.complete [OF git.sound])

lemma build_again: "normalizeStaticBuildConfig v = Inr w \<Longrightarrow> normalizeStaticBuildConfig w = Inr w"
  by (rule build.complete [OF build.sound])

lemma node_runtime_again: "normalizeNodeRuntimeConfig v rp = Inr w \<Longrightarrow> normalizeNodeRuntimeConfig w rp = Inr w"
  by (rule node_runtime.complete [OF node_runtime.sound])

lemma python_runtime_again:
  "normalizePythonRuntimeConfig nt v rp = Inr w \<Longrightarrow> normalizePythonRuntimeConfig nt w rp = Inr w"
  by (rule python_runtime.complete [OF python_runtime.sound])

lemmas fields_again = assertUuid_again normalizeGitBranch_type git_target_again build_again node_runtime_again
  python_runtime_again

lemma url_run:
  assumes "parses_repositories parse_url" "normalizeGithubRepositoryUrl parse_url v = Inr u" "f u = Inr w"
  shows "bnd (normalizeGithubRepositoryUrl parse_url (JStr u)) f = Inr w \<longleftrightarrow> length u \<le> 300"
proof (cases "length u \<le> 300")
  case True
  with assms(3) show ?thesis
    using repository_url_again [OF assms(1) repository_url_canonical [OF assms(2)]] by simp
next
  case False
  then show ?thesis by (simp add: bnd_Inr_iff repository_url_long)
qed

lemma static_spec_again:
  assumes "parses_repositories parse_url" "normalizeStaticApplicationSpec parse_url v = Inr w"
  shows "normalizeStaticApplicationSpec parse_url w = Inr w \<longleftrightarrow> length (str_of (jget w ''repositoryUrl'')) \<le> 300"
  using assms(2) unfolding normalizeStaticApplicationSpec_def [of _ v]
proof (elim unravel)
  fix b a d u g c
  assume h: "normalizeGitBranch (nullish (jget v ''branch'') (JStr ''main'')) = Inr b"
    "assertUuid (jget v ''applicationId'') ''applicationId'' = Inr a"
    "assertUuid (jget v ''deploymentId'') ''deploymentId'' = Inr d"
    "normalizeGithubRepositoryUrl parse_url (jget v ''repositoryUrl'') = Inr u"
    "normalizeGitDeploymentTarget (jget v ''gitTarget'') (Some (JStr b)) = Inr g"
    "normalizeStaticBuildConfig (jget v ''build'') = Inr c"
    and w: "JObj [(''applicationId'', JStr a), (''deploymentId'', JStr d), (''repositoryUrl'', JStr u),
      (''branch'', JStr b), (''gitTarget'', g), (''build'', c), (''retention'', retention_of (jget v ''retention''))] = w"
  show ?thesis
    by (simp add: w [symmetric] normalizeStaticApplicationSpec_def normalizeGitBranch_type [OF h(1)]
        assertUuid_again [OF h(2)] assertUuid_again [OF h(3)] git_target_again [OF h(5)] build_again [OF h(6)]
        url_run [OF assms(1) h(4)])
qed

lemma node_spec_again:
  assumes "parses_repositories parse_url" "normalizeNodeApplicationSpec parse_url v = Inr w"
  shows "normalizeNodeApplicationSpec parse_url w = Inr w \<longleftrightarrow> length (str_of (jget w ''repositoryUrl'')) \<le> 300"
  using assms(2) unfolding normalizeNodeApplicationSpec_def [of _ v]
proof (elim unravel)
  fix b a d u g c
  assume h: "normalizeGitBranch (nullish (jget v ''branch'') (JStr ''main'')) = Inr b"
    "assertUuid (jget v ''applicationId'') ''applicationId'' = Inr a"
    "assertUuid (jget v ''deploymentId'') ''deploymentId'' = Inr d"
    "normalizeGithubRepositoryUrl parse_url (jget v ''repositoryUrl'') = Inr u"
    "normalizeGitDeploymentTarget (jget v ''gitTarget'') (Some (JStr b)) = Inr g"
    "normalizeNodeRuntimeConfig (jget v ''runtime'') True = Inr c"
    and w: "JObj [(''applicationId'', JStr a), (''deploymentId'', JStr d), (''repositoryUrl'', JStr u),
      (''branch'', JStr b), (''gitTarget'', g), (''runtime'', c), (''retention'', retention_of (jget v ''retention''))] = w"
  show ?thesis
    by (simp add: w [symmetric] normalizeNodeApplicationSpec_def normalizeGitBranch_type [OF h(1)]
        assertUuid_again [OF h(2)] assertUuid_again [OF h(3)] git_target_again [OF h(5)] node_runtime_again [OF h(6)]
        url_run [OF assms(1) h(4)])
qed

lemma python_spec_again:
  assumes "parses_repositories parse_url" "normalizePythonApplicationSpec parse_url nt v = Inr w"
  shows "normalizePythonApplicationSpec parse_url nt w = Inr w \<longleftrightarrow> length (str_of (jget w ''repositoryUrl'')) \<le> 300"
  using assms(2) unfolding normalizePythonApplicationSpec_def [of _ _ v] Let_def
proof (elim throw_ifE bnd_InrE Inr_InrE)
  fix a ds u b g c
  assume h: "assertUuid (jget (or_empty v) ''applicationId'') ''applicationId'' = Inr a"
    "normalizeGithubRepositoryUrl parse_url (jget (or_empty v) ''repositoryUrl'') = Inr u"
    "normalizeGitBranch (jget (or_empty v) ''branch'') = Inr b"
    "normalizeGitDeploymentTarget (jget (or_empty v) ''gitTarget'') (Some (JStr b)) = Inr g"
    "normalizePythonRuntimeConfig nt (jget (or_empty v) ''runtime'') False = Inr c"
    and d: "(if jget (or_empty v) ''deploymentId'' \<noteq> JUndef
       then bnd (assertUuid (jget (or_empty v) ''deploymentId'') ''deploymentId'') (\<lambda>d. Inr [(''deploymentId'', JStr d)])
       else Inr []) = Inr ds"
    and w: "JObj ([(''applicationId'', JStr a), (''repositoryUrl'', JStr u), (''branch'', JStr b), (''gitTarget'', g),
      (''runtime'', c), (''retention'', retention_of (jget (or_empty v) ''retention''))] @ ds) = w"
  note facts = w [symmetric] normalizePythonApplicationSpec_def normalizeGitBranch_type [OF h(3)]
    assertUuid_again [OF h(1)] git_target_again [OF h(4)] python_runtime_again [OF h(5)] extra_keys_def
    url_run [OF assms(1) h(2)]
  from d show ?thesis
  proof (elim choose_ifE bnd_InrE Inr_InrE)
    fix e
    assume e: "assertUuid (jget (or_empty v) ''deploymentId'') ''deploymentId'' = Inr e" "[(''deploymentId'', JStr e)] = ds"
    show ?thesis by (simp add: facts assertUuid_again [OF e(1)] e(2) [symmetric])
  next
    assume "[] = ds"
    then show ?thesis by (simp add: facts)
  qed
qed

text \<open>A specification a validator returned is accepted again, unchanged, exactly when its repository URL has
  at most 300 characters; the validators also return longer ones.\<close>

theorem accepted_specs_are_accepted_again:
  assumes "parses_repositories parse_url"
  shows "(normalizeStaticApplicationSpec parse_url v = Inr w \<longrightarrow>
      (normalizeStaticApplicationSpec parse_url w = Inr w \<longleftrightarrow> length (str_of (jget w ''repositoryUrl'')) \<le> 300)) \<and>
    (normalizeNodeApplicationSpec parse_url v = Inr w \<longrightarrow>
      (normalizeNodeApplicationSpec parse_url w = Inr w \<longleftrightarrow> length (str_of (jget w ''repositoryUrl'')) \<le> 300)) \<and>
    (normalizePythonApplicationSpec parse_url nt v = Inr w \<longrightarrow>
      (normalizePythonApplicationSpec parse_url nt w = Inr w \<longleftrightarrow> length (str_of (jget w ''repositoryUrl'')) \<le> 300))"
  using static_spec_again [OF assms] node_spec_again [OF assms] python_spec_again [OF assms] by blast

text \<open>A URL parser for the addresses of repositories, and an address of 298 characters.\<close>

definition github_url :: "string \<Rightarrow> url option" where
  "github_url s = (if starts_with s ''https://github.com/''
     then Some \<lparr>u_protocol = ''https:'', u_hostname = ''github.com'', u_username = [], u_password = [], u_search = [],
       u_hash = [], u_pathname = drop 18 s\<rparr> else None)"

lemma github_url_parses: "parses_repositories github_url"
  by (simp add: parses_repositories_def github_url_def starts_with_def)

definition long_spec :: "string \<Rightarrow> js" where
  "long_spec suffix = JObj [(''applicationId'', JStr ''0f8fad5b-d9cb-469f-a165-70867728950e''),
     (''deploymentId'', JStr ''7c9e6679-7425-40de-944b-e07fc1f90ae7''),
     (''repositoryUrl'', JStr (''https://github.com/owner/'' @ replicate 273 (CHR ''a'') @ suffix)),
     (''branch'', JStr ''main''), (''gitTarget'', git_target ''branch'' ''main''),
     (''build'', build_config (JStr ''npm'') (JStr ''ci'') (JStr ''build'') ''dist'' ''index.html''),
     (''retention'', JInt 5)]"

theorem accepted_specs_are_accepted_again_witness:
  "normalizeStaticApplicationSpec github_url (long_spec []) = Inr (long_spec ''.git'') \<and>
   normalizeStaticApplicationSpec github_url (long_spec ''.git'') \<noteq> Inr (long_spec ''.git'')"
proof -
  have "normalizeStaticApplicationSpec github_url (long_spec []) = Inr (long_spec ''.git'')" by code_simp
  moreover have "\<not> length (str_of (jget (long_spec ''.git'') ''repositoryUrl'')) \<le> 300" by code_simp
  ultimately show ?thesis
    using accepted_specs_are_accepted_again [OF github_url_parses, of "long_spec []" "long_spec ''.git''"] by blast
qed

text \<open>A number of a runtime that is absent or in range.\<close>

definition within :: "js \<Rightarrow> string \<Rightarrow> int \<Rightarrow> int \<Rightarrow> bool" where
  "within r field lo hi = (jget r field = JUndef \<or> jget r field = JNull \<or> int_between lo hi (jget r field))"

definition numbers_ok :: "js \<Rightarrow> bool" where
  "numbers_ok r = (within r ''nodeMajor'' 20 40 \<and> within r ''port'' 1024 65535 \<and> within r ''workers'' 1 16 \<and>
     within r ''healthTimeoutSeconds'' 1 120)"

lemma int_between_wider: "int_between lo hi v \<Longrightarrow> lo' \<le> lo \<Longrightarrow> hi \<le> hi' \<Longrightarrow> int_between lo' hi' v"
  by (auto simp: int_between_iff)

lemma node_numbers: "node_runtime_type rp r \<Longrightarrow> numbers_ok r"
proof -
  assume r: "node_runtime_type rp r"
  then have "jget r ''workers'' = JUndef"
    by (intro jget_absent [of r "[''nodeMajor'', ''packageManager'', ''installMode'', ''buildScript'', ''mode'',
      ''documentRoot'', ''start'', ''port'', ''healthPath'', ''healthTimeoutSeconds'', ''restartPolicy'']"])
      (simp_all add: node_runtime_type_def)
  then show ?thesis
    using r int_between_wider [of 5 120 "jget r ''healthTimeoutSeconds''" 1 120]
    by (cases rp) (simp_all add: node_runtime_type_def numbers_ok_def within_def)
qed

lemma python_numbers: "python_runtime_type rp r \<Longrightarrow> numbers_ok r"
proof -
  assume r: "python_runtime_type rp r"
  then have "jget r ''nodeMajor'' = JUndef"
    by (intro jget_absent [of r "[''pythonVersion'', ''appServer'', ''entryPoint'', ''workers'', ''requirementsFile'',
      ''documentRoot'', ''healthPath'', ''healthTimeoutSeconds'', ''restartPolicy'', ''mode'', ''port'']"])
      (simp_all add: python_runtime_type_def)
  then show ?thesis
    using r int_between_wider [of 1 60 "jget r ''healthTimeoutSeconds''" 1 120]
    by (auto simp: python_runtime_type_def numbers_ok_def within_def)
qed

lemma retention_in_range: "int_between 2 20 (retention_of v)"
  by (simp add: retention_of_def)

lemma numbers_absent: "numbers_ok JUndef"
  by (simp add: numbers_ok_def within_def)

text \<open>The numbers of an accepted specification are in range: retention, version, port, workers and
  timeout.\<close>

theorem accepted_numbers_are_in_range:
  assumes "normalizeStaticApplicationSpec parse_url v = Inr w \<or> normalizeNodeApplicationSpec parse_url v = Inr w \<or>
    normalizePythonApplicationSpec parse_url nt v = Inr w"
  shows "int_between 2 20 (jget w ''retention'') \<and> numbers_ok (jget w ''runtime'')"
  using assms
proof (elim disjE)
  assume "normalizeStaticApplicationSpec parse_url v = Inr w"
  then show ?thesis unfolding normalizeStaticApplicationSpec_def
    by (elim unravel; hypsubst; simp add: retention_in_range numbers_absent)
next
  assume "normalizeNodeApplicationSpec parse_url v = Inr w"
  then show ?thesis unfolding normalizeNodeApplicationSpec_def
    by - (elim unravel, drule node_numbers [OF node_runtime_sound], hypsubst, simp add: retention_in_range)
next
  assume "normalizePythonApplicationSpec parse_url nt v = Inr w"
  then show ?thesis unfolding normalizePythonApplicationSpec_def Let_def
    by - (elim throw_ifE bnd_InrE Inr_InrE, drule python_numbers [OF python_runtime_sound], hypsubst,
        simp add: retention_in_range)
qed

theorem accepted_numbers_are_in_range_witness:
  "int_between 2 20 (JInt 5) \<and> numbers_ok JUndef \<and> jget (long_spec ''.git'') ''retention'' = JInt 5"
proof -
  have "normalizeStaticApplicationSpec github_url (long_spec []) = Inr (long_spec ''.git'')" by code_simp
  then show ?thesis
    using accepted_numbers_are_in_range [of github_url "long_spec []" "long_spec ''.git''"] by (simp add: long_spec_def)
qed

section \<open>The import of an environment\<close>




















end
