(* ===== verification/SiteGuarantees.thy ===== *)
theory SiteGuarantees
  imports SpecTypes
begin

text \<open>
  What the domain sets of a site satisfy once they are normalised.
\<close>

section \<open>Valid domain names\<close>

definition label_ok :: "string \<Rightarrow> bool" where
  "label_ok l = (l \<noteq> [] \<and> length l \<le> 63 \<and> edged is_label_edge is_label_inner l)"

definition domain_ok :: "string \<Rightarrow> bool" where
  "domain_ok d = (length d \<le> 253 \<and> 2 \<le> length (split_on (CHR ''.'') d) \<and>
     list_all label_ok (split_on (CHR ''.'') d))"

lemma check_labels_Inr: "check_labels ls = Inr u \<longleftrightarrow> list_all label_ok ls"
  by (induction ls) (auto simp: label_ok_def Suc_le_eq)

lemma domain_sound: "assertDomainName to_ascii v = Inr d \<Longrightarrow> domain_ok d"
  unfolding assertDomainName_def validateDomainName_def Let_def
  by (elim unravel) (auto simp: domain_ok_def check_labels_Inr)

lemma domain_chars:
  assumes "domain_ok d" "c \<in> set d"
  shows "c = CHR ''.'' \<or> is_label_inner c"
proof -
  have "c = CHR ''.'' \<or> (\<exists>l \<in> set (split_on (CHR ''.'') d). c \<in> set l)"
    using split_on_set [of d "CHR ''.''"] assms(2) by blast
  with assms(1) show ?thesis by (auto simp: domain_ok_def label_ok_def edged_def list_all_iff)
qed

lemma inner_char: "is_label_inner c \<Longrightarrow> \<not> is_space c \<and> \<not> is_control c \<and> c \<noteq> CHR ''*'' \<and> lower_char c = c"
  by (auto simp: is_label_inner_def is_lower_alnum_def is_digit_def is_lower_def is_space_def is_control_def
      lower_char_def code_def)

lemma domain_char:
  assumes "domain_ok d" "c \<in> set d"
  shows "\<not> is_space c \<and> \<not> is_control c \<and> c \<noteq> CHR ''*'' \<and> lower_char c = c"
proof -
  have "\<not> is_space (CHR ''.'') \<and> \<not> is_control (CHR ''.'') \<and> lower_char (CHR ''.'') = CHR ''.''" by code_simp
  with domain_chars [OF assms] inner_char show ?thesis by auto
qed

lemma domain_complete:
  assumes "domain_ok d" "to_ascii d = d"
  shows "assertDomainName to_ascii (JStr d) = Inr d"
proof -
  note c = domain_char [OF assms(1)]
  have ne: "d \<noteq> []" using assms(1) by (auto simp: domain_ok_def)
  have "trim d = d" by (rule trim_trimmed_id) (simp add: trimmed_def c ne)
  moreover have "\<not> ends_with d ''.''"
    using split_on_ends [of d "CHR ''.''"] assms(1) last_in_set [OF split_on_nonempty, of "CHR ''.''" d]
    by (auto simp: domain_ok_def label_ok_def list_all_iff)
  moreover have "to_lower d = d" unfolding to_lower_def by (rule map_idI) (simp add: c)
  moreover have "\<not> list_ex is_control d" "CHR ''*'' \<notin> set d" using c by (auto simp: list_ex_iff)
  ultimately have "normalizeDomainName to_ascii (JStr d) = d"
    using ne assms(2) by (simp add: normalizeDomainName_def drop_final_dot_def)
  then show ?thesis
    using assms(1) ne \<open>CHR ''*'' \<notin> set d\<close> check_labels_Inr [of "split_on (CHR ''.'') d" "()"]
    by (simp add: assertDomainName_def validateDomainName_def domain_ok_def)
qed

section \<open>Domain sets\<close>

lemma collect_aliases_Inr:
  "collect_aliases to_ascii seen as = Inr bs \<Longrightarrow>
   distinct bs \<and> set bs \<inter> set seen = {} \<and> list_all domain_ok bs \<and>
   set seen \<union> set bs = set seen \<union> {d. \<exists>a \<in> set as. assertDomainName to_ascii a = Inr d}"
proof (induction to_ascii seen as arbitrary: bs rule: collect_aliases.induct)
  case (2 to_ascii seen a as)
  from 2(3) obtain n where n: "assertDomainName to_ascii a = Inr n" by auto
  then have one: "{d. \<exists>b \<in> set (a # as). assertDomainName to_ascii b = Inr d} =
      insert n {d. \<exists>b \<in> set as. assertDomainName to_ascii b = Inr d}" by auto
  show ?case
  proof (cases "n \<in> set seen")
    case True
    with 2(1) [OF n True] 2(3) n show ?thesis unfolding one by auto
  next
    case False
    with 2(3) n obtain ns where ns: "collect_aliases to_ascii (n # seen) as = Inr ns" "bs = n # ns" by auto
    from 2(2) [OF n False ns(1)] False domain_sound [OF n] show ?thesis unfolding one ns(2) by auto
  qed
qed simp

lemma collect_aliases_again:
  "list_all domain_ok bs \<Longrightarrow> \<forall>d \<in> set bs. to_ascii d = d \<Longrightarrow> distinct bs \<Longrightarrow> set bs \<inter> set seen = {} \<Longrightarrow>
   collect_aliases to_ascii seen (map JStr bs) = Inr bs"
  by (induction bs arbitrary: seen) (auto simp: domain_complete)

text \<open>A normalised domain set has a valid primary name and at most twenty valid aliases, all distinct; they
  are the names given, and the set is accepted again as it is.\<close>

theorem domain_sets_are_clean:
  assumes "normalizeDomainSet to_ascii p as = Inr (q, bs)" "\<forall>d \<in> set (q # bs). to_ascii d = d"
  shows "list_all domain_ok (q # bs) \<and> distinct (q # bs) \<and> length bs \<le> 20 \<and>
    set (q # bs) = {d. \<exists>a \<in> set (p # arr_of as). assertDomainName to_ascii a = Inr d} \<and>
    normalizeDomainSet to_ascii (JStr q) (JArr (map JStr bs)) = Inr (q, bs)"
proof -
  define as' where "as' = (if as = JUndef then JArr [] else as)"
  then have as': "arr_of as' = arr_of as" by simp
  have q: "assertDomainName to_ascii p = Inr q"
    and bs: "collect_aliases to_ascii [q] (arr_of as') = Inr bs" "length bs \<le> 20"
    using assms(1) unfolding normalizeDomainSet_def Let_def as'_def
    by (elim unravel; simp add: not_less)+
  note c = collect_aliases_Inr [OF bs(1)]
  have "collect_aliases to_ascii [q] (map JStr bs) = Inr bs"
  proof (rule collect_aliases_again)
    show "\<forall>d \<in> set bs. to_ascii d = d" using assms(2) by simp
  qed (use c in blast)+
  moreover have "assertDomainName to_ascii (JStr q) = Inr q"
    using domain_complete [OF domain_sound [OF q]] assms(2) by simp
  moreover have "set (q # bs) = {d. \<exists>a \<in> set (p # arr_of as). assertDomainName to_ascii a = Inr d}"
    using c q unfolding as' by auto
  ultimately show ?thesis
    using c bs(2) domain_sound [OF q] by (auto simp: normalizeDomainSet_def)
qed

theorem domain_sets_are_clean_witness:
  "normalizeDomainSet id (JStr ''example.com'') (JArr [JStr ''www.example.com'']) = Inr (''example.com'', [''www.example.com'']) \<and>
   normalizeDomainSet id (JStr '' Example.com. '') (JArr [JStr ''www.example.com'', JStr ''example.COM'']) =
     Inr (''example.com'', [''www.example.com''])"
proof -
  have n: "normalizeDomainSet id (JStr '' Example.com. '') (JArr [JStr ''www.example.com'', JStr ''example.COM'']) =
     Inr (''example.com'', [''www.example.com''])" by code_simp
  show ?thesis using domain_sets_are_clean [OF n] n by simp
qed

end
