(* ===== verification/ResultChecks.thy ===== *)
theory ResultChecks
  imports JobRegistry RuntimeSpecs
begin

text \<open>
  The checks of job results that live in modules of their own (\<open>apps/api/src/*-job-result.js\<close>): database
  inventories and changes, dumps and restores, credentials, Docker Compose, mail data, cron tasks and the
  migration of a Node application to Passenger. Each compares the result with the job it answers and
  returns the part of it that is kept, or throws.

  Parameters: the SHA-256 digest of a string in hex, the text of a number that is not an integer, and
  \<open>Date.parse\<close>, \<open>None\<close> where it is not finite.
\<close>

record result_host =
  rh_digest :: "string \<Rightarrow> string"
  rh_number_text :: "nat \<Rightarrow> string"
  rh_date_parse :: "string \<Rightarrow> int option"

section \<open>Shared checks\<close>

definition invalid_result :: "string \<Rightarrow> string \<Rightarrow> 'a res" where
  "invalid_result c msg = Inl (Err c (Some ''invalid_job_result'') msg)"

text \<open>\<open>job.payload?.k\<close>\<close>

definition pget :: "job \<Rightarrow> string \<Rightarrow> js" where
  "pget job k = jget (job_payload job) k"

text \<open>\<open>result.f === job.payload.p\<close>\<close>

definition echoes :: "js \<Rightarrow> job \<Rightarrow> string \<Rightarrow> string \<Rightarrow> bool" where
  "echoes result job f p = strict_eq (jget result f) (pget job p)"

text \<open>The length of the keys and \<open>Object.hasOwn\<close> for each expected one.\<close>

definition exact_keys :: "js \<Rightarrow> string list \<Rightarrow> bool" where
  "exact_keys v ks = (length (keys_of v) = length ks \<and> list_all (\<lambda>k. obj_has (obj_of v) k) ks)"

text \<open>\<open>/^[A-Za-z0-9_]{1,64}$/\<close> and \<open>/^[A-Za-z0-9._:-]{8,128}$/\<close>\<close>

definition is_database_name :: "string \<Rightarrow> bool" where
  "is_database_name s = class_len (\<lambda>c. is_alnum c \<or> c = CHR ''_'') 1 64 s"

definition is_backup_id :: "string \<Rightarrow> bool" where
  "is_backup_id s = class_len (\<lambda>c. is_alnum c \<or> one_of ''._:-'' c) 8 128 s"

definition str_backup_id :: "js \<Rightarrow> bool" where
  "str_backup_id v = (is_string v \<and> is_backup_id (str_of v))"

definition DATABASE_ENGINES :: "string list" where
  "DATABASE_ENGINES = [''mariadb'', ''mysql'']"

section \<open>Databases\<close>

definition RESERVED_DATABASES :: "string list" where
  "RESERVED_DATABASES = [''information_schema'', ''mysql'', ''performance_schema'', ''sys'']"

definition MAX_DATABASES :: nat where "MAX_DATABASES = 10000"

definition safeText :: "js \<Rightarrow> nat \<Rightarrow> bool" where
  "safeText v maxLength = (is_string v \<and> 0 < length (str_of v) \<and> length (str_of v) \<le> maxLength \<and>
     \<not> list_ex is_control (str_of v))"

definition database_error :: "string \<Rightarrow> 'a res" where
  "database_error msg = invalid_result ''DatabaseJobResultError'' msg"

definition sanitizeDatabaseIdentity :: "js \<Rightarrow> js res" where
  "sanitizeDatabaseIdentity v =
     (if \<not> is_object v then database_error ''Database result entry is invalid''
      else if \<not> safeText (jget v ''name'') 64 \<or> to_lower (str_of (jget v ''name'')) \<in> set RESERVED_DATABASES
      then database_error ''Database result name is invalid''
      else if \<not> safe_at_least 0 (jget v ''sizeBytes'') then database_error ''Database result size is invalid''
      else Inr (JObj [(''name'', jget v ''name''), (''sizeBytes'', jget v ''sizeBytes'')]))"

definition sanitizeServerIdentity :: "js \<Rightarrow> jobj res" where
  "sanitizeServerIdentity v =
     (if \<not> is_object v then database_error ''Database job result must be an object''
      else if \<not> str_in (jget v ''engine'') DATABASE_ENGINES then database_error ''Database engine is invalid''
      else if \<not> safeText (jget v ''version'') 120 then database_error ''Database version is invalid''
      else Inr [(''engine'', jget v ''engine''), (''version'', jget v ''version'')])"

definition database_key :: "js \<Rightarrow> string" where
  "database_key d = to_lower (str_of (jget d ''name''))"

definition sanitizeInventory :: "js \<Rightarrow> js res" where
  "sanitizeInventory v =
     bnd (sanitizeServerIdentity v) (\<lambda>server.
     if \<not> is_array (jget v ''databases'') \<or> length (arr_of (jget v ''databases'')) > MAX_DATABASES
     then database_error ''Database inventory is invalid''
     else
       bnd (map_res sanitizeDatabaseIdentity (arr_of (jget v ''databases''))) (\<lambda>databases.
       if \<not> distinct (map database_key databases)
       then database_error ''Database inventory contains duplicate names''
       else Inr (JObj (server @ [(''databases'', JArr databases)]))))"

definition sanitizeMutation :: "job \<Rightarrow> js \<Rightarrow> string \<Rightarrow> js res" where
  "sanitizeMutation job v flag =
     bnd (sanitizeServerIdentity v) (\<lambda>server.
     bnd (sanitizeDatabaseIdentity (jget v ''database'')) (\<lambda>database.
     if \<not> echoes database job ''name'' ''name''
     then database_error ''Database result identity does not match the queued operation''
     else if jget v flag \<noteq> JBool True
     then database_error (''Database '' @ flag @ '' confirmation is missing'')
     else Inr (JObj (server @ [(''database'', database), (flag, JBool True)]))))"

definition sanitizeDatabaseJobResult :: "job \<Rightarrow> js \<Rightarrow> js res" where
  "sanitizeDatabaseJobResult job v =
     (if job_operation job = ''database.inspect'' then sanitizeInventory v
      else if job_operation job = ''database.create'' then sanitizeMutation job v ''created''
      else if job_operation job = ''database.delete'' then sanitizeMutation job v ''deleted''
      else database_error ''Database operation is not supported by the job sanitizer'')"

definition BACKUP_KEYS :: "string list" where
  "BACKUP_KEYS = [''version'', ''backupId'', ''databaseName'', ''engine'', ''databaseVersion'', ''dumpSha256'',
     ''dumpBytes'', ''createdAt'', ''backedUp'', ''sideEffects'']"

text \<open>A time \<open>Date.parse\<close> reads, and its ISO form.\<close>

definition parsed_time :: "result_host \<Rightarrow> js \<Rightarrow> int option" where
  "parsed_time h v = (if is_string v then rh_date_parse h (str_of v) else None)"

definition sanitizeDatabaseBackupResult :: "result_host \<Rightarrow> job \<Rightarrow> js \<Rightarrow> js res" where
  "sanitizeDatabaseBackupResult h job v =
     (if \<not> truthy (job_payload job) \<or> \<not> is_object v \<or> \<not> exact_keys v BACKUP_KEYS \<or>
         jget v ''version'' \<noteq> JInt 1 \<or> jget v ''backupId'' \<noteq> JStr (job_id job) \<or>
         \<not> echoes v job ''databaseName'' ''databaseName'' \<or>
         jget v ''databaseName'' \<noteq> JStr (job_resourceId job) \<or> \<not> is_database_name (job_resourceId job) \<or>
         \<not> str_in (jget v ''engine'') DATABASE_ENGINES \<or>
         \<not> is_string (jget v ''databaseVersion'') \<or> length (str_of (jget v ''databaseVersion'')) < 1 \<or>
         length (str_of (jget v ''databaseVersion'')) > 120 \<or>
         \<not> str_sha256 (jget v ''dumpSha256'') \<or> \<not> safe_at_least 1 (jget v ''dumpBytes'') \<or>
         parsed_time h (jget v ''createdAt'') = None \<or>
         jget v ''backedUp'' \<noteq> JBool True \<or> jget v ''sideEffects'' \<noteq> JBool True
      then invalid_result ''DatabaseBackupJobResultError'' ''Database backup result does not match the queued backup''
      else
        bnd (toISOString (the (parsed_time h (jget v ''createdAt'')))) (\<lambda>createdAt.
        Inr (JObj [(''version'', JInt 1), (''backupId'', jget v ''backupId''), (''databaseName'', jget v ''databaseName''),
          (''engine'', jget v ''engine''), (''databaseVersion'', jget v ''databaseVersion''),
          (''dumpSha256'', jget v ''dumpSha256''), (''dumpBytes'', jget v ''dumpBytes''),
          (''createdAt'', JStr createdAt), (''backedUp'', JBool True), (''sideEffects'', JBool True)])))"

definition RESTORE_KEYS :: "string list" where
  "RESTORE_KEYS = [''version'', ''transactionId'', ''backupId'', ''preRestoreBackupId'', ''databaseName'', ''engine'',
     ''dumpSha256'', ''preRestoreDumpSha256'', ''restored'', ''verified'', ''sideEffects'']"

definition pre_restore_id :: "job \<Rightarrow> string" where
  "pre_restore_id job = ''pre-restore:'' @ job_id job"

definition sanitizeDatabaseRestoreResult :: "job \<Rightarrow> js \<Rightarrow> js res" where
  "sanitizeDatabaseRestoreResult job v =
     (if \<not> truthy (job_payload job) \<or> \<not> is_object v \<or> \<not> exact_keys v RESTORE_KEYS \<or>
         jget v ''version'' \<noteq> JInt 1 \<or> jget v ''transactionId'' \<noteq> JStr (job_id job) \<or>
         \<not> echoes v job ''backupId'' ''backupId'' \<or> jget v ''preRestoreBackupId'' \<noteq> JStr (pre_restore_id job) \<or>
         \<not> echoes v job ''databaseName'' ''databaseName'' \<or> jget v ''databaseName'' \<noteq> JStr (job_resourceId job) \<or>
         \<not> str_in (jget v ''engine'') DATABASE_ENGINES \<or>
         \<not> echoes v job ''dumpSha256'' ''expectedBackupSha256'' \<or> \<not> str_sha256 (jget v ''dumpSha256'') \<or>
         \<not> str_sha256 (jget v ''preRestoreDumpSha256'') \<or> jget v ''restored'' \<noteq> JBool True \<or>
         jget v ''verified'' \<noteq> JBool True \<or> jget v ''sideEffects'' \<noteq> JBool True
      then invalid_result ''DatabaseRestoreJobResultError'' ''Database restore result does not match the queued restore''
      else Inr (JObj [(''version'', JInt 1), (''transactionId'', JStr (job_id job)), (''backupId'', jget v ''backupId''),
        (''preRestoreBackupId'', JStr (pre_restore_id job)), (''databaseName'', jget v ''databaseName''),
        (''engine'', jget v ''engine''), (''dumpSha256'', jget v ''dumpSha256''),
        (''preRestoreDumpSha256'', jget v ''preRestoreDumpSha256''), (''restored'', JBool True),
        (''verified'', JBool True), (''sideEffects'', JBool True)]))"

definition expectedUsername :: "result_host \<Rightarrow> string \<Rightarrow> string" where
  "expectedUsername h bindingId = ''ydb_'' @ take 24 (rh_digest h bindingId)"

text \<open>\<open>/^ydb_[a-f0-9]{24}$/\<close>\<close>

definition is_database_user :: "string \<Rightarrow> bool" where
  "is_database_user s = (starts_with s ''ydb_'' \<and> class_len is_lower_hex 24 24 (drop 4 s))"

definition CREDENTIAL_KEYS :: "string \<Rightarrow> string list" where
  "CREDENTIAL_KEYS terminalField = [''version'', ''databaseCredentialId'', ''databaseBindingId'', ''credentialRevision'',
     ''bindingRevision'', ''databaseName'', ''username'', ''host'', ''desiredStateSha256'', terminalField, ''sideEffects'']"

definition credential_error :: "'a res" where
  "credential_error = invalid_result ''DatabaseCredentialJobResultError''
     ''Database credential result does not match the queued desired state''"

text \<open>\<open>createHash\<close> takes strings only; a binding id of another type throws once the checks before it hold.\<close>

definition sanitizeDatabaseCredentialResult :: "result_host \<Rightarrow> job \<Rightarrow> js \<Rightarrow> js res" where
  "sanitizeDatabaseCredentialResult h job v =
     (let terminalField = (if job_operation job = ''database.credential.apply'' then Some ''applied''
            else if job_operation job = ''database.credential.delete'' then Some ''deleted'' else None);
          flag = the terminalField in
      if terminalField = None \<or> \<not> truthy (job_payload job) \<or> \<not> is_object v
      then invalid_result ''DatabaseCredentialJobResultError'' ''Database credential result is invalid''
      else if \<not> exact_keys v (CREDENTIAL_KEYS flag) \<or> jget v ''version'' \<noteq> JInt 1 \<or>
         \<not> echoes v job ''databaseCredentialId'' ''databaseCredentialId'' \<or>
         \<not> echoes v job ''databaseBindingId'' ''databaseBindingId'' \<or>
         \<not> echoes v job ''credentialRevision'' ''expectedCredentialRevision'' \<or>
         \<not> echoes v job ''bindingRevision'' ''expectedBindingRevision'' \<or>
         jget v ''databaseName'' \<noteq> JStr (job_resourceId job) \<or> \<not> is_database_name (job_resourceId job)
      then credential_error
      else if \<not> is_string (pget job ''databaseBindingId'')
      then Inl (Err ''TypeError'' (Some ''ERR_INVALID_ARG_TYPE'') [])
      else if jget v ''username'' \<noteq> JStr (expectedUsername h (str_of (pget job ''databaseBindingId''))) \<or>
         \<not> is_database_user (str_of (jget v ''username'')) \<or> jget v ''host'' \<noteq> JStr ''localhost'' \<or>
         \<not> echoes v job ''desiredStateSha256'' ''desiredStateSha256'' \<or> \<not> str_sha256 (jget v ''desiredStateSha256'') \<or>
         jget v flag \<noteq> JBool True \<or> jget v ''sideEffects'' \<noteq> JBool True
      then credential_error
      else Inr (JObj [(''version'', JInt 1), (''databaseCredentialId'', jget v ''databaseCredentialId''),
        (''databaseBindingId'', jget v ''databaseBindingId''), (''credentialRevision'', jget v ''credentialRevision''),
        (''bindingRevision'', jget v ''bindingRevision''), (''databaseName'', jget v ''databaseName''),
        (''username'', jget v ''username''), (''host'', JStr ''localhost''),
        (''desiredStateSha256'', jget v ''desiredStateSha256''), (flag, JBool True), (''sideEffects'', JBool True)]))"

section \<open>Docker Compose\<close>

definition COMPOSE_ACTIONS :: "string \<Rightarrow> (string \<times> js) option" where
  "COMPOSE_ACTIONS operation =
     (if operation = ''docker.compose.build'' then Some (''build'', JNull)
      else if operation = ''docker.compose.pull'' then Some (''pull'', JNull)
      else if operation = ''docker.compose.start'' then Some (''start'', JStr ''running'')
      else if operation = ''docker.compose.stop'' then Some (''stop'', JStr ''stopped'')
      else if operation = ''docker.compose.restart'' then Some (''restart'', JStr ''running'') else None)"

definition COMPOSE_KEYS :: "string list" where
  "COMPOSE_KEYS = [''version'', ''projectId'', ''projectRevision'', ''environmentRevision'', ''composeSha256'',
     ''action'', ''runtimeState'', ''executed'', ''sideEffects'']"

definition compose_error :: "'a res" where
  "compose_error = invalid_result ''DockerComposeJobResultError''
     ''Docker Compose job result does not match the queued desired state''"

definition sanitizeDockerComposeJobResult :: "job \<Rightarrow> js \<Rightarrow> js res" where
  "sanitizeDockerComposeJobResult job v =
     (case COMPOSE_ACTIONS (job_operation job) of
        None \<Rightarrow> compose_error
      | Some (action, state) \<Rightarrow>
          if \<not> truthy (job_payload job) \<or> \<not> is_object v \<or> \<not> exact_keys v COMPOSE_KEYS \<or>
             jget v ''version'' \<noteq> JInt 1 \<or> \<not> echoes v job ''projectId'' ''projectId'' \<or>
             jget v ''projectId'' \<noteq> JStr (job_resourceId job) \<or>
             \<not> echoes v job ''projectRevision'' ''expectedProjectRevision'' \<or>
             \<not> echoes v job ''environmentRevision'' ''expectedEnvironmentRevision'' \<or>
             \<not> echoes v job ''composeSha256'' ''expectedComposeSha256'' \<or> \<not> str_sha256 (jget v ''composeSha256'') \<or>
             jget v ''action'' \<noteq> JStr action \<or> jget v ''runtimeState'' \<noteq> state \<or>
             jget v ''executed'' \<noteq> JBool True \<or> jget v ''sideEffects'' \<noteq> JBool True
          then compose_error
          else Inr (JObj [(''version'', JInt 1), (''projectId'', jget v ''projectId''),
            (''projectRevision'', jget v ''projectRevision''), (''environmentRevision'', jget v ''environmentRevision''),
            (''composeSha256'', jget v ''composeSha256''), (''action'', JStr action), (''runtimeState'', state),
            (''executed'', JBool True), (''sideEffects'', JBool True)]))"

section \<open>Mail data\<close>

definition mail_error :: "string \<Rightarrow> 'a res" where
  "mail_error msg = invalid_result ''MailDataJobResultError'' msg"

definition safeCount :: "js \<Rightarrow> string \<Rightarrow> js res" where
  "safeCount v field =
     (if \<not> safe_at_least 0 v then mail_error (''Mail data '' @ field @ '' is invalid'') else Inr v)"

definition common :: "job \<Rightarrow> js \<Rightarrow> string list \<Rightarrow> jobj res" where
  "common job v expectedKeys =
     (if \<not> truthy (job_payload job) \<or> \<not> is_object v \<or> \<not> exact_keys v expectedKeys \<or>
         jget v ''version'' \<noteq> JInt 1 \<or> \<not> echoes v job ''mailDomainId'' ''mailDomainId'' \<or>
         \<not> echoes v job ''scope'' ''scope'' \<or> \<not> echoes v job ''identity'' ''identity'' \<or>
         \<not> str_sha256 (jget v ''contentSha256'')
      then mail_error ''Mail data result does not match the queued operation''
      else
        bnd (safeCount (jget v ''bytes'') ''byte count'') (\<lambda>bytes.
        bnd (safeCount (jget v ''files'') ''file count'') (\<lambda>files.
        bnd (safeCount (jget v ''directories'') ''directory count'') (\<lambda>directories.
        Inr [(''version'', JInt 1), (''mailDomainId'', jget v ''mailDomainId''), (''scope'', jget v ''scope''),
          (''identity'', jget v ''identity''), (''contentSha256'', jget v ''contentSha256''), (''bytes'', bytes),
          (''files'', files), (''directories'', directories)]))))"

definition MAIL_BACKUP_KEYS :: "string list" where
  "MAIL_BACKUP_KEYS = [''version'', ''backupId'', ''mailDomainId'', ''scope'', ''identity'', ''sourcePresent'',
     ''sourceSnapshotSha256'', ''contentSha256'', ''bytes'', ''files'', ''directories'', ''backedUp'', ''sideEffects'']"

definition sanitizeMailDataBackupResult :: "job \<Rightarrow> js \<Rightarrow> js res" where
  "sanitizeMailDataBackupResult job v =
     bnd (common job v MAIL_BACKUP_KEYS) (\<lambda>base.
     if jget v ''backupId'' \<noteq> JStr (job_id job) \<or> \<not> is_backup_id (job_id job) \<or>
        \<not> is_bool (jget v ''sourcePresent'') \<or> \<not> echoes v job ''sourceSnapshotSha256'' ''expectedSnapshotSha256'' \<or>
        \<not> str_sha256 (jget v ''sourceSnapshotSha256'') \<or> jget v ''backedUp'' \<noteq> JBool True \<or>
        jget v ''sideEffects'' \<noteq> JBool True
     then mail_error ''Mail data backup result does not confirm the queued snapshot''
     else Inr (JObj (base @ [(''backupId'', jget v ''backupId''), (''sourcePresent'', jget v ''sourcePresent''),
       (''sourceSnapshotSha256'', jget v ''sourceSnapshotSha256''), (''backedUp'', JBool True),
       (''sideEffects'', JBool True)])))"

definition MAIL_RESTORE_KEYS :: "string list" where
  "MAIL_RESTORE_KEYS = [''version'', ''transactionId'', ''backupId'', ''preRestoreBackupId'', ''mailDomainId'', ''scope'',
     ''identity'', ''contentSha256'', ''bytes'', ''files'', ''directories'', ''restoredPresent'', ''applied'', ''sideEffects'']"

definition sanitizeMailDataRestoreResult :: "job \<Rightarrow> js \<Rightarrow> js res" where
  "sanitizeMailDataRestoreResult job v =
     bnd (common job v MAIL_RESTORE_KEYS) (\<lambda>base.
     if jget v ''transactionId'' \<noteq> JStr (job_id job) \<or> \<not> is_backup_id (job_id job) \<or>
        \<not> echoes v job ''backupId'' ''backupId'' \<or> \<not> str_backup_id (jget v ''backupId'') \<or>
        jget v ''preRestoreBackupId'' \<noteq> JStr (pre_restore_id job) \<or> \<not> is_backup_id (pre_restore_id job) \<or>
        jget v ''restoredPresent'' \<noteq> JBool True \<or> jget v ''applied'' \<noteq> JBool True \<or>
        jget v ''sideEffects'' \<noteq> JBool True
     then mail_error ''Mail data restore result does not confirm the queued restore''
     else Inr (JObj (base @ [(''transactionId'', jget v ''transactionId''), (''backupId'', jget v ''backupId''),
       (''preRestoreBackupId'', jget v ''preRestoreBackupId''), (''restoredPresent'', JBool True),
       (''applied'', JBool True), (''sideEffects'', JBool True)])))"

definition MAIL_DELETE_KEYS :: "string list" where
  "MAIL_DELETE_KEYS = [''version'', ''transactionId'', ''backupId'', ''mailDomainId'', ''resourceId'', ''scope'',
     ''identity'', ''sourcePresent'', ''contentSha256'', ''bytes'', ''files'', ''directories'', ''deleted'', ''sideEffects'']"

definition sanitizeMailDataDeleteResult :: "job \<Rightarrow> js \<Rightarrow> js res" where
  "sanitizeMailDataDeleteResult job v =
     bnd (common job v MAIL_DELETE_KEYS) (\<lambda>base.
     if jget v ''transactionId'' \<noteq> JStr (job_id job) \<or> \<not> is_backup_id (job_id job) \<or>
        \<not> echoes v job ''backupId'' ''backupId'' \<or> \<not> str_backup_id (jget v ''backupId'') \<or>
        \<not> echoes v job ''resourceId'' ''resourceId'' \<or> \<not> is_string (jget v ''resourceId'') \<or>
        \<not> safe_at_least 1 (pget job ''expectedResourceRevision'') \<or> \<not> is_bool (jget v ''sourcePresent'') \<or>
        jget v ''deleted'' \<noteq> JBool True \<or> jget v ''sideEffects'' \<noteq> JBool True
     then mail_error ''Mail data delete result does not confirm the queued deletion''
     else Inr (JObj (base @ [(''transactionId'', jget v ''transactionId''), (''backupId'', jget v ''backupId''),
       (''resourceId'', jget v ''resourceId''), (''expectedResourceRevision'', pget job ''expectedResourceRevision''),
       (''sourcePresent'', jget v ''sourcePresent''), (''deleted'', JBool True), (''sideEffects'', JBool True)])))"

section \<open>Cron tasks\<close>

text \<open>\<open>/^yunapp-[a-f0-9]{12}$/\<close>\<close>

definition is_app_user :: "string \<Rightarrow> bool" where
  "is_app_user s = (starts_with s ''yunapp-'' \<and> class_len is_lower_hex 12 12 (drop 7 s))"

definition CRON_KEYS :: "string \<Rightarrow> string list" where
  "CRON_KEYS terminalField = [''version'', ''taskId'', ''websiteId'', ''applicationId'', ''unixUser'', ''revision'',
     ''desiredStateSha256'', ''contentSha256'', terminalField, ''sideEffects'']"

definition cron_error :: "'a res" where
  "cron_error = invalid_result ''WebsiteCronJobResultError'' ''Website cron result does not match the queued desired state''"

text \<open>A value of the payload the pattern accepts; what it equals is then a string.\<close>

definition echoes_like :: "(string \<Rightarrow> bool) \<Rightarrow> js \<Rightarrow> job \<Rightarrow> string \<Rightarrow> string \<Rightarrow> bool" where
  "echoes_like p v job f k = (echoes v job f k \<and> is_string (jget v f) \<and> p (str_of (jget v f)))"

text \<open>
  \<open>PATTERN.test(v)\<close> converts its argument to a string: an array whose text is a digest passes, and so
  does no other value but a digest.
\<close>

definition sanitizeWebsiteCronJobResult :: "result_host \<Rightarrow> job \<Rightarrow> js \<Rightarrow> js res" where
  "sanitizeWebsiteCronJobResult h job v =
     (let terminalField = (if job_operation job = ''cron.apply'' then Some ''applied''
            else if job_operation job = ''cron.remove'' then Some ''removed'' else None);
          flag = the terminalField in
      if terminalField = None \<or> \<not> truthy (job_payload job) \<or> \<not> is_object v
      then invalid_result ''WebsiteCronJobResultError'' ''Website cron result is invalid''
      else if \<not> exact_keys v (CRON_KEYS flag) \<or> jget v ''version'' \<noteq> JInt 1 \<or>
         \<not> echoes_like is_uuid v job ''taskId'' ''taskId'' \<or> \<not> echoes_like is_uuid v job ''websiteId'' ''websiteId'' \<or>
         \<not> echoes_like is_uuid v job ''applicationId'' ''applicationId'' \<or>
         \<not> echoes_like is_app_user v job ''unixUser'' ''unixUser'' \<or>
         \<not> echoes v job ''revision'' ''expectedRevision'' \<or> \<not> safe_at_least 1 (jget v ''revision'') \<or>
         \<not> echoes_like is_sha256 v job ''desiredStateSha256'' ''desiredStateSha256''
      then cron_error
      else
        bnd (if jget v ''contentSha256'' = JNull then Inr True
             else bnd (js_text (rh_number_text h) (jget v ''contentSha256'')) (\<lambda>t. Inr (is_sha256 t))) (\<lambda>content_ok.
        if \<not> content_ok \<or> jget v flag \<noteq> JBool True \<or> \<not> is_bool (jget v ''sideEffects'')
        then cron_error
        else Inr (JObj [(''version'', JInt 1), (''taskId'', jget v ''taskId''), (''websiteId'', jget v ''websiteId''),
          (''applicationId'', jget v ''applicationId''), (''unixUser'', jget v ''unixUser''),
          (''revision'', jget v ''revision''), (''desiredStateSha256'', jget v ''desiredStateSha256''),
          (''contentSha256'', jget v ''contentSha256''), (flag, JBool True),
          (''sideEffects'', jget v ''sideEffects'')])))"

section \<open>Migration to Passenger\<close>

definition passenger_error :: "string \<Rightarrow> 'a res" where
  "passenger_error msg = invalid_result ''NodePassengerMigrationJobResultError'' msg"

definition uuid_of :: "js \<Rightarrow> string option" where
  "uuid_of v = (if is_string v \<and> is_uuid (str_of v) then Some (to_lower (str_of v)) else None)"

definition serviceName :: "result_host \<Rightarrow> string \<Rightarrow> string" where
  "serviceName h applicationId = ''yunpanel-node-'' @ take 16 (rh_digest h applicationId) @ ''.service''"

definition applicationUser :: "result_host \<Rightarrow> string \<Rightarrow> string" where
  "applicationUser h applicationId = ''yunapp-'' @ take 12 (rh_digest h applicationId)"

text \<open>\<open>/^[a-z0-9_]{1,100}$/\<close>\<close>

definition safeCode :: "js \<Rightarrow> js" where
  "safeCode v = (if is_string v \<and> class_len (\<lambda>c. is_lower_alnum c \<or> c = CHR ''_'') 1 100 (str_of v) then v else JNull)"

text \<open>The application id is the normalised one, so the service name always exists.\<close>

definition cleanupEvidence :: "result_host \<Rightarrow> string \<Rightarrow> js \<Rightarrow> bool \<Rightarrow> js res" where
  "cleanupEvidence h applicationId v migrated =
     (let expectedService = JStr (serviceName h applicationId);
          service = jget v ''serviceName'';
          base = [(''complete'', jget v ''complete''), (''stopped'', jget v ''stopped''), (''disabled'', jget v ''disabled'')] @
            (if service = JUndef then [] else [(''serviceName'', service)]) in
      if \<not> is_object v \<or> \<not> is_bool (jget v ''complete'') \<or> \<not> is_bool (jget v ''stopped'') \<or> \<not> is_bool (jget v ''disabled'')
      then passenger_error ''Passenger migration cleanup evidence is invalid''
      else if service \<noteq> JUndef \<and> service \<noteq> expectedService
      then passenger_error ''Passenger migration cleanup service identity is invalid''
      else if migrated
      then (if jget v ''complete'' \<noteq> JBool True \<or> jget v ''stopped'' \<noteq> JBool True \<or> jget v ''disabled'' \<noteq> JBool True \<or>
               service \<noteq> expectedService
            then passenger_error ''Passenger migration did not confirm legacy systemd cleanup''
            else Inr (JObj base))
      else if jget v ''complete'' = JBool True
      then passenger_error ''Passenger cleanup-required result cannot report complete cleanup''
      else if safeCode (jget v ''reason'') = JNull \<or> safeCode (jget v ''cause'') = JNull
      then passenger_error ''Passenger cleanup-required result lacks safe failure evidence''
      else Inr (JObj (base @ [(''reason'', jget v ''reason''), (''cause'', jget v ''cause'')])))"

definition TARGET_EVIDENCE_FIELDS :: "string list" where
  "TARGET_EVIDENCE_FIELDS = [''appRoot'', ''documentRoot'', ''startupFile'', ''nodeBinary'', ''user'', ''group'', ''appEnv'',
     ''environmentInclude'']"

text \<open>\<open>path.posix.join\<close> of an absolute path without dots and a relative one.\<close>

fun posix_segments :: "string list \<Rightarrow> string list \<Rightarrow> string list" where
  "posix_segments acc [] = acc"
| "posix_segments acc (s # ss) =
     posix_segments (if s = [] \<or> s = ''.'' then acc else if s = ''..'' then butlast acc else acc @ [s]) ss"

definition posix_join :: "string \<Rightarrow> string \<Rightarrow> string" where
  "posix_join root p =
     (let joined = (if p = [] then root else root @ ''/'' @ p);
          segments = posix_segments [] (split_on (CHR ''/'') joined) in
      ''/'' @ join_with ''/'' segments @
      (if ends_with joined ''/'' \<and> segments \<noteq> [] then ''/'' else []))"

definition passengerTargetEvidence :: "result_host \<Rightarrow> job \<Rightarrow> string \<Rightarrow> js \<Rightarrow> js res" where
  "passengerTargetEvidence h job applicationId v =
     (let runtime = jget (pget job ''node'') ''runtime'';
          currentRoot = ''/var/lib/yunpanel/apps/'' @ applicationId @ ''/current'';
          documentRoot = jget runtime ''documentRoot'' in
      if \<not> is_object v \<or> length (keys_of v) \<noteq> length TARGET_EVIDENCE_FIELDS \<or> extra_keys v TARGET_EVIDENCE_FIELDS \<or>
         \<not> (is_object runtime \<or> is_array runtime)
      then passenger_error ''Passenger migration target evidence is invalid''
      else
        bnd (if documentRoot = JStr ''.'' then Inr currentRoot
             else if is_string documentRoot then Inr (posix_join currentRoot (str_of documentRoot))
             else Inl (Err ''TypeError'' (Some ''ERR_INVALID_ARG_TYPE'') [])) (\<lambda>appRoot.
        bnd (js_text (rh_number_text h) (jget runtime ''nodeMajor'')) (\<lambda>major.
        let user = JStr (applicationUser h applicationId) in
        if jget v ''appRoot'' \<noteq> JStr appRoot \<or> jget v ''documentRoot'' \<noteq> JStr appRoot \<or>
           \<not> strict_eq (jget v ''startupFile'') (jget (jget runtime ''start'') ''entryFile'') \<or>
           \<not> str_in (jget v ''nodeBinary'') [''/opt/yunpanel/node-runtimes/v'' @ major @ ''/bin/node'', ''/usr/bin/node''] \<or>
           jget v ''user'' \<noteq> user \<or> jget v ''group'' \<noteq> user \<or>
           \<not> strict_eq (jget v ''appEnv'') (jget runtime ''mode'') \<or>
           jget v ''environmentInclude'' \<noteq> JStr (''/etc/yunpanel/passenger-env/'' @ applicationId @ ''.conf'')
        then passenger_error ''Passenger migration target evidence does not match queued runtime state''
        else Inr v)))"

definition sanitizeNodePassengerMigrationResult :: "result_host \<Rightarrow> job \<Rightarrow> js \<Rightarrow> js res" where
  "sanitizeNodePassengerMigrationResult h job v =
     (let node = pget job ''node''; state = jget v ''state''; migrated = (state = JStr ''migrated'');
          applicationId = uuid_of (jget node ''applicationId''); releaseId = uuid_of (jget node ''releaseId'');
          source = jget (jget v ''nginx'') ''sourceChecksum''; target = jget (jget v ''nginx'') ''targetChecksum'' in
      if applicationId = None \<or> releaseId = None \<or> uuid_of (jget v ''applicationId'') \<noteq> applicationId \<or>
         uuid_of (jget v ''releaseId'') \<noteq> releaseId \<or>
         (\<not> migrated \<and> state \<noteq> JStr ''passenger_active_cleanup_required'') \<or>
         jget v ''satisfied'' \<noteq> JBool migrated \<or> jget v ''targetHealthy'' \<noteq> JBool True \<or> \<not> is_bool (jget v ''resumed'')
      then passenger_error ''Passenger migration result does not match the queued application release''
      else if \<not> str_sha256 source \<or> \<not> str_sha256 target \<or> source = target
      then passenger_error ''Passenger migration Nginx evidence is invalid''
      else
        bnd (cleanupEvidence h (the applicationId) (jget v ''cleanup'') migrated) (\<lambda>cleanup.
        bnd (passengerTargetEvidence h job (the applicationId) (jget v ''passengerTarget'')) (\<lambda>passengerTarget.
        Inr (JObj [(''satisfied'', JBool migrated), (''state'', state), (''applicationId'', JStr (the applicationId)),
          (''releaseId'', JStr (the releaseId)), (''targetHealthy'', JBool True), (''resumed'', jget v ''resumed''),
          (''cleanup'', cleanup), (''nginx'', JObj [(''sourceChecksum'', source), (''targetChecksum'', target)]),
          (''passengerTarget'', passengerTarget)]))))"

end
