(* ===== verification/JobResults.thy ===== *)
theory JobResults
  imports ResultChecks
begin

text \<open>
  The result sanitisers of the job queue (\<open>apps/api/src/job-registry.js\<close>, \<open>sanitizeResult\<close> and what it
  calls) with the state policy of the managed services (\<open>managed-service-state-policy.js\<close>): when a job
  succeeds, its result is checked against the queued payload and only the checked fields are kept.
\<close>

section \<open>Shared checks\<close>

definition result_error :: "string \<Rightarrow> 'a res" where
  "result_error msg = Inl (job_error_of ''invalid_job_result'' msg)"

definition boundedString :: "js \<Rightarrow> nat \<Rightarrow> js" where
  "boundedString v maxLength =
     (if is_string v \<and> 0 < length (str_of v) \<and> length (str_of v) \<le> maxLength then v else JNull)"

definition normalizeUuid :: "js \<Rightarrow> string option" where
  "normalizeUuid v = (if is_string v \<and> is_uuid (str_of v) then Some (to_lower (str_of v)) else None)"

text \<open>An error of a module that carries the code of an invalid result becomes one of the queue.\<close>

definition as_job_error :: "'a res \<Rightarrow> 'a res" where
  "as_job_error m =
     (case m of Inl e \<Rightarrow> if err_code e = Some ''invalid_job_result'' then result_error (err_msg e) else Inl e
      | Inr v \<Rightarrow> Inr v)"

text \<open>\<open>job.payload?.runtime?.k\<close>\<close>

definition runtime_of :: "job \<Rightarrow> string \<Rightarrow> js" where
  "runtime_of job k = jget (pget job ''runtime'') k"

section \<open>Certificates\<close>

definition sanitizeDomainArray :: "js \<Rightarrow> js res" where
  "sanitizeDomainArray domains =
     (if \<not> is_array domains \<or> length (arr_of domains) < 1 \<or> length (arr_of domains) > 21 \<or>
         list_ex (\<lambda>d. boundedString d 253 = JNull) (arr_of domains)
      then result_error ''Certificate job result domains are invalid''
      else Inr domains)"

definition sanitizeCertificateValidation :: "js \<Rightarrow> js res" where
  "sanitizeCertificateValidation v =
     (let certName = boundedString (jget v ''certName'') 253 in
      if certName = JNull \<or> jget v ''staging'' \<noteq> JBool True \<or> jget v ''status'' \<noteq> JStr ''validated''
      then result_error ''Certificate validation result is invalid''
      else
        bnd (sanitizeDomainArray (jget v ''domains'')) (\<lambda>domains.
        Inr (JObj [(''certName'', certName), (''domains'', domains), (''staging'', JBool True),
          (''status'', JStr ''validated'')])))"

text \<open>A field that is there only when the value has the type.\<close>

definition field_if :: "bool \<Rightarrow> string \<Rightarrow> js \<Rightarrow> jobj" where
  "field_if c k v = (if c then [(k, v)] else [])"

definition sanitizeCertificateMetadata :: "js \<Rightarrow> js res" where
  "sanitizeCertificateMetadata v =
     (let required = [(''certName'', boundedString (jget v ''certName'') 253),
            (''certificatePath'', boundedString (jget v ''certificatePath'') 500),
            (''fullchainPath'', boundedString (jget v ''fullchainPath'') 500),
            (''privateKeyPath'', boundedString (jget v ''privateKeyPath'') 500),
            (''validFrom'', boundedString (jget v ''validFrom'') 80), (''validTo'', boundedString (jget v ''validTo'') 80),
            (''fingerprint256'', boundedString (jget v ''fingerprint256'') 160)];
          described = [(''subject'', boundedString (jget v ''subject'') 500), (''issuer'', boundedString (jget v ''issuer'') 500),
            (''subjectAltName'', boundedString (jget v ''subjectAltName'') 2000)];
          status = jget v ''status'' in
      if list_ex (\<lambda>(k, w). w = JNull) required
      then result_error ''Certificate job result metadata is incomplete''
      else
        bnd (if is_array (jget v ''domains'')
             then bnd (sanitizeDomainArray (jget v ''domains'')) (\<lambda>ds. Inr [(''domains'', ds)]) else Inr []) (\<lambda>domains.
        Inr (JObj (required @ described @ domains @
          field_if (is_bool (jget v ''staging'')) ''staging'' (jget v ''staging'') @
          field_if (is_string status) ''status'' (JStr (take 40 (str_of status))) @
          field_if (is_bool (jget v ''dryRun'')) ''dryRun'' (jget v ''dryRun'')))))"

section \<open>Deployments\<close>

definition MAX_ARTIFACT_FILES :: int where "MAX_ARTIFACT_FILES = 100000"

definition MAX_ARTIFACT_BYTES :: int where "MAX_ARTIFACT_BYTES = 2 * 1024 * 1024 * 1024"

definition option_js :: "string option \<Rightarrow> js" where
  "option_js s = (case s of None \<Rightarrow> JNull | Some t \<Rightarrow> JStr t)"

definition sanitizeReleaseIdentity :: "job \<Rightarrow> js \<Rightarrow> jobj res" where
  "sanitizeReleaseIdentity job v =
     (let deploymentId = normalizeUuid (jget v ''deploymentId''); releaseId = normalizeUuid (jget v ''releaseId'');
          previous = jget v ''previousReleaseId'';
          previousReleaseId = (if is_nullish previous then None else normalizeUuid previous);
          sha = jget v ''commitSha'' in
      if deploymentId = None \<or> releaseId = None \<or> deploymentId \<noteq> normalizeUuid (pget job ''deploymentId'') \<or>
         releaseId \<noteq> deploymentId
      then result_error ''Deployment result identity does not match the queued deployment''
      else if \<not> is_nullish previous \<and> previousReleaseId = None
      then result_error ''Deployment previous release identity is invalid''
      else if \<not> is_string sha \<or> \<not> is_commit (str_of sha)
      then result_error ''Deployment commit SHA is invalid''
      else case normalizeGitDeploymentTarget (pget job ''gitTarget'') (Some (nullish (pget job ''branch'') (JStr ''main''))) of
        Inl _ \<Rightarrow> result_error ''Deployment Git target is invalid''
      | Inr gitTarget \<Rightarrow>
          if jget gitTarget ''kind'' = JStr ''commit'' \<and> JStr (to_lower (str_of sha)) \<noteq> jget gitTarget ''value''
          then result_error ''Deployment commit SHA does not match the requested Git target''
          else Inr [(''deploymentId'', option_js deploymentId), (''releaseId'', option_js releaseId),
            (''previousReleaseId'', option_js previousReleaseId), (''commitSha'', JStr (to_lower (str_of sha))),
            (''gitTarget'', gitTarget)])"

definition sanitizeStaticDeploymentResult :: "job \<Rightarrow> js \<Rightarrow> js res" where
  "sanitizeStaticDeploymentResult job v =
     bnd (sanitizeReleaseIdentity job v) (\<lambda>identity.
     if \<not> int_between 1 MAX_ARTIFACT_FILES (jget v ''artifactFiles'')
     then result_error ''Static deployment artifact file count is invalid''
     else if \<not> int_between 0 MAX_ARTIFACT_BYTES (jget v ''artifactBytes'')
     then result_error ''Static deployment artifact byte size is invalid''
     else Inr (JObj (identity @ [(''artifactFiles'', jget v ''artifactFiles''), (''artifactBytes'', jget v ''artifactBytes'')])))"

definition expected_service :: "result_host \<Rightarrow> string \<Rightarrow> js \<Rightarrow> string option" where
  "expected_service h prefix applicationId =
     map_option (\<lambda>i. prefix @ take 16 (rh_digest h i) @ ''.service'') (normalizeUuid applicationId)"

definition expectedNodeServiceName :: "result_host \<Rightarrow> js \<Rightarrow> string option" where
  "expectedNodeServiceName h applicationId = expected_service h ''yunpanel-node-'' applicationId"

definition expectedPythonServiceName :: "result_host \<Rightarrow> js \<Rightarrow> string option" where
  "expectedPythonServiceName h applicationId = expected_service h ''yunpanel-python-'' applicationId"

text \<open>\<open>/^<prefix>[a-f0-9]{16}\.service$/\<close>\<close>

definition is_service :: "string \<Rightarrow> string \<Rightarrow> bool" where
  "is_service prefix s = (starts_with s prefix \<and> ends_with s ''.service'' \<and> length s = length prefix + 24 \<and>
     list_all is_lower_hex (take 16 (drop (length prefix) s)))"

definition service_ok :: "string option \<Rightarrow> string \<Rightarrow> js \<Rightarrow> bool" where
  "service_ok expected prefix v = (expected \<noteq> None \<and> is_string v \<and> is_service prefix (str_of v) \<and> v = option_js expected)"

definition node_service_ok :: "result_host \<Rightarrow> job \<Rightarrow> js \<Rightarrow> bool" where
  "node_service_ok h job v =
     service_ok (expectedNodeServiceName h (pget job ''applicationId'')) ''yunpanel-node-'' (jget v ''serviceName'')"

definition python_service_ok :: "result_host \<Rightarrow> job \<Rightarrow> js \<Rightarrow> bool" where
  "python_service_ok h job v =
     service_ok (expectedPythonServiceName h (pget job ''applicationId'')) ''yunpanel-python-'' (jget v ''serviceName'')"

definition port_ok :: "job \<Rightarrow> js \<Rightarrow> bool" where
  "port_ok job v = (is_integer (jget v ''port'') \<and> strict_eq (jget v ''port'') (runtime_of job ''port''))"

definition health_path_ok :: "job \<Rightarrow> js \<Rightarrow> bool" where
  "health_path_ok job v = (is_string (jget v ''healthPath'') \<and> strict_eq (jget v ''healthPath'') (runtime_of job ''healthPath''))"

definition validateManagedNodeResult :: "result_host \<Rightarrow> job \<Rightarrow> js \<Rightarrow> string \<Rightarrow> jobj res" where
  "validateManagedNodeResult h job v action =
     (let releaseId = normalizeUuid (jget v ''releaseId'') in
      if releaseId = None \<or> releaseId \<noteq> normalizeUuid (pget job ''releaseId'')
      then result_error (''Node '' @ action @ '' release state does not match the queued operation'')
      else if \<not> node_service_ok h job v then result_error (''Node '' @ action @ '' service identity is invalid'')
      else if \<not> port_ok job v then result_error (''Node '' @ action @ '' port does not match desired state'')
      else if \<not> health_path_ok job v then result_error (''Node '' @ action @ '' health path does not match desired state'')
      else Inr [(''releaseId'', option_js releaseId), (''serviceName'', jget v ''serviceName''), (''port'', jget v ''port''),
        (''healthPath'', jget v ''healthPath'')])"

definition sanitizedEnvironmentRevision :: "job \<Rightarrow> jobj res" where
  "sanitizedEnvironmentRevision job =
     (let revision = pget job ''environmentRevision'' in
      if revision = JUndef then Inr []
      else if \<not> safe_at_least 0 revision then result_error ''Queued environment revision is invalid''
      else Inr [(''environmentRevision'', revision)])"

definition sanitizeNodeDeploymentResult :: "result_host \<Rightarrow> job \<Rightarrow> js \<Rightarrow> js res" where
  "sanitizeNodeDeploymentResult h job v =
     bnd (sanitizeReleaseIdentity job v) (\<lambda>identity.
     if \<not> node_service_ok h job v then result_error ''Node deployment service identity is invalid''
     else if \<not> port_ok job v then result_error ''Node deployment port does not match desired state''
     else if \<not> health_path_ok job v then result_error ''Node deployment health path does not match desired state''
     else if jget v ''healthy'' \<noteq> JBool True then result_error ''Node deployment must confirm healthy state''
     else
       bnd (sanitizedEnvironmentRevision job) (\<lambda>revision.
       Inr (JObj (identity @ revision @ [(''serviceName'', jget v ''serviceName''), (''port'', jget v ''port''),
         (''healthPath'', jget v ''healthPath''), (''healthy'', JBool True)]))))"

definition sanitizeStaticRollbackResult :: "job \<Rightarrow> js \<Rightarrow> js res" where
  "sanitizeStaticRollbackResult job v =
     (let releaseId = normalizeUuid (jget v ''releaseId''); previousReleaseId = normalizeUuid (jget v ''previousReleaseId'') in
      if releaseId = None \<or> releaseId \<noteq> normalizeUuid (pget job ''releaseId'') \<or> previousReleaseId = None \<or>
         jget v ''active'' \<noteq> JBool True
      then result_error ''Static rollback result does not match the queued rollback''
      else if previousReleaseId = releaseId
      then result_error ''Static rollback previous release cannot equal the target release''
      else Inr (JObj [(''releaseId'', option_js releaseId), (''previousReleaseId'', option_js previousReleaseId),
        (''active'', JBool True)]))"

text \<open>The previous release of a rollback: a release other than the target.\<close>

definition previous_release :: "js \<Rightarrow> jobj \<Rightarrow> string \<Rightarrow> string res" where
  "previous_release v managed msg =
     (case normalizeUuid (jget v ''previousReleaseId'') of
        None \<Rightarrow> result_error msg
      | Some p \<Rightarrow> if JStr p = obj_get managed ''releaseId'' then result_error msg else Inr p)"

definition sanitizeNodeRollbackResult :: "result_host \<Rightarrow> job \<Rightarrow> js \<Rightarrow> js res" where
  "sanitizeNodeRollbackResult h job v =
     bnd (validateManagedNodeResult h job v ''rollback'') (\<lambda>managed.
     bnd (previous_release v managed ''Node rollback previous release state is invalid'') (\<lambda>previous.
     if jget v ''healthy'' \<noteq> JBool True \<or> jget v ''active'' \<noteq> JBool True
     then result_error ''Node rollback must confirm healthy active state''
     else
       bnd (sanitizedEnvironmentRevision job) (\<lambda>revision.
       Inr (JObj (managed @ revision @ [(''previousReleaseId'', JStr previous), (''healthy'', JBool True),
         (''active'', JBool True)])))))"

definition sanitizeNodeRestartResult :: "result_host \<Rightarrow> job \<Rightarrow> js \<Rightarrow> js res" where
  "sanitizeNodeRestartResult h job v =
     bnd (validateManagedNodeResult h job v ''restart'') (\<lambda>managed.
     if jget v ''healthy'' \<noteq> JBool True \<or> jget v ''restarted'' \<noteq> JBool True
     then result_error ''Node restart must confirm a healthy restarted service''
     else
       bnd (sanitizedEnvironmentRevision job) (\<lambda>revision.
       Inr (JObj (managed @ revision @ [(''healthy'', JBool True), (''restarted'', JBool True)]))))"

text \<open>\<open>/^[a-z0-9-]{1,40}$/\<close>, and the loop over the states, which reports the first invalid one.\<close>

definition state_ok :: "js \<Rightarrow> bool" where
  "state_ok v = (is_string v \<and> class_len (\<lambda>c. is_lower_alnum c \<or> c = CHR ''-'') 1 40 (str_of v))"

fun check_states :: "string \<Rightarrow> js \<Rightarrow> string list \<Rightarrow> unit res" where
  "check_states prefix v [] = Inr ()"
| "check_states prefix v (f # fs) =
     (if \<not> state_ok (jget v f) then result_error (prefix @ '' '' @ f @ '' is invalid'') else check_states prefix v fs)"

definition STATUS_FIELDS :: "string list" where
  "STATUS_FIELDS = [''loadState'', ''activeState'', ''subState'']"

definition sanitizeNodeStatusResult :: "result_host \<Rightarrow> job \<Rightarrow> js \<Rightarrow> js res" where
  "sanitizeNodeStatusResult h job v =
     bnd (validateManagedNodeResult h job v ''status'') (\<lambda>managed.
     bnd (check_states ''Node status'' v STATUS_FIELDS) (\<lambda>_.
     if \<not> safe_at_least 0 (jget v ''restartCount'') then result_error ''Node status restart count is invalid''
     else if \<not> safe_at_least 0 (jget v ''mainPid'') then result_error ''Node status main PID is invalid''
     else if \<not> is_bool (jget v ''healthy'') \<or> \<not> is_bool (jget v ''inspectionError'')
     then result_error ''Node status health metadata is invalid''
     else Inr (JObj (managed @ [(''loadState'', jget v ''loadState''), (''activeState'', jget v ''activeState''),
       (''subState'', jget v ''subState''), (''restartCount'', jget v ''restartCount''), (''mainPid'', jget v ''mainPid''),
       (''healthy'', jget v ''healthy''), (''inspectionError'', jget v ''inspectionError'')]))))"

definition PROCESS_STATE_FIELDS :: "string list" where
  "PROCESS_STATE_FIELDS = [''loadState'', ''activeState'', ''subState'', ''unitFileState'']"

definition process_consistent :: "js \<Rightarrow> bool" where
  "process_consistent v = (jget v ''loadState'' = JStr ''loaded'' \<and> safe_at_least 0 (jget v ''mainPid'') \<and>
     is_bool (jget v ''enabled'') \<and> is_bool (jget v ''active'') \<and> is_bool (jget v ''healthy'') \<and>
     jget v ''enabled'' = JBool (jget v ''unitFileState'' = JStr ''enabled'') \<and>
     jget v ''active'' = JBool (jget v ''activeState'' = JStr ''active''))"

definition process_confirms :: "js \<Rightarrow> bool" where
  "process_confirms v =
     (let action = jget v ''action''; active = (jget v ''active'' = JBool True); healthy = (jget v ''healthy'' = JBool True);
          pid = int_of (jget v ''mainPid'') in
      \<not> (action = JStr ''enable'' \<and> jget v ''enabled'' \<noteq> JBool True) \<and>
      \<not> (action = JStr ''disable'' \<and> jget v ''unitFileState'' \<noteq> JStr ''disabled'') \<and>
      \<not> (action = JStr ''start'' \<and> (\<not> active \<or> \<not> healthy \<or> pid < 1)) \<and>
      \<not> (action = JStr ''stop'' \<and> (jget v ''activeState'' \<noteq> JStr ''inactive'' \<or> healthy \<or> pid \<noteq> 0)))"

definition sanitizeNodeProcessResult :: "result_host \<Rightarrow> job \<Rightarrow> js \<Rightarrow> js res" where
  "sanitizeNodeProcessResult h job v =
     bnd (validateManagedNodeResult h job v ''process'') (\<lambda>managed.
     if \<not> echoes v job ''action'' ''action'' \<or> \<not> str_in (jget v ''action'') [''enable'', ''disable'', ''start'', ''stop'']
     then result_error ''Node process action does not match the queued operation''
     else
       bnd (check_states ''Node process'' v PROCESS_STATE_FIELDS) (\<lambda>_.
       if \<not> process_consistent v then result_error ''Node process state is inconsistent''
       else if \<not> process_confirms v then result_error ''Node process result does not confirm the requested state''
       else Inr (JObj (managed @ [(''action'', jget v ''action''), (''loadState'', jget v ''loadState''),
         (''activeState'', jget v ''activeState''), (''subState'', jget v ''subState''),
         (''unitFileState'', jget v ''unitFileState''), (''mainPid'', jget v ''mainPid''), (''enabled'', jget v ''enabled''),
         (''active'', jget v ''active''), (''healthy'', jget v ''healthy'')]))))"

section \<open>Python applications\<close>

definition validateManagedPythonResult :: "result_host \<Rightarrow> job \<Rightarrow> js \<Rightarrow> string \<Rightarrow> jobj res" where
  "validateManagedPythonResult h job v action =
     (let releaseId = normalizeUuid (jget v ''releaseId'') in
      if releaseId = None \<or> releaseId \<noteq> normalizeUuid (pget job ''releaseId'')
      then result_error (''Python '' @ action @ '' release state does not match the queued operation'')
      else if \<not> python_service_ok h job v then result_error (''Python '' @ action @ '' service identity is invalid'')
      else Inr [(''releaseId'', option_js releaseId), (''serviceName'', jget v ''serviceName'')])"

text \<open>Unlike for Node, the socket, port and health path are not compared with the queued runtime.\<close>

definition sanitizePythonDeploymentResult :: "result_host \<Rightarrow> job \<Rightarrow> js \<Rightarrow> js res" where
  "sanitizePythonDeploymentResult h job v =
     bnd (sanitizeReleaseIdentity job v) (\<lambda>identity.
     if \<not> python_service_ok h job v then result_error ''Python deployment service identity is invalid''
     else if jget v ''healthy'' \<noteq> JBool True then result_error ''Python deployment must confirm healthy state''
     else
       bnd (sanitizedEnvironmentRevision job) (\<lambda>revision.
       Inr (JObj (identity @ revision @ [(''serviceName'', jget v ''serviceName''),
         (''socketPath'', nullish (jget v ''socketPath'') JNull), (''port'', nullish (jget v ''port'') JNull),
         (''healthPath'', nullish (jget v ''healthPath'') JNull), (''healthy'', JBool True)]))))"

definition sanitizePythonRollbackResult :: "result_host \<Rightarrow> job \<Rightarrow> js \<Rightarrow> js res" where
  "sanitizePythonRollbackResult h job v =
     bnd (validateManagedPythonResult h job v ''rollback'') (\<lambda>managed.
     bnd (previous_release v managed ''Python rollback previous release state is invalid'') (\<lambda>previous.
     if jget v ''healthy'' \<noteq> JBool True \<or> jget v ''active'' \<noteq> JBool True
     then result_error ''Python rollback must confirm healthy active state''
     else
       bnd (sanitizedEnvironmentRevision job) (\<lambda>revision.
       Inr (JObj (managed @ revision @ [(''previousReleaseId'', JStr previous), (''healthy'', JBool True),
         (''active'', JBool True)])))))"

definition sanitizePythonRestartResult :: "result_host \<Rightarrow> job \<Rightarrow> js \<Rightarrow> js res" where
  "sanitizePythonRestartResult h job v =
     bnd (validateManagedPythonResult h job v ''restart'') (\<lambda>managed.
     if jget v ''healthy'' \<noteq> JBool True \<or> jget v ''restarted'' \<noteq> JBool True
     then result_error ''Python restart must confirm a healthy restarted service''
     else
       bnd (sanitizedEnvironmentRevision job) (\<lambda>revision.
       Inr (JObj (managed @ revision @ [(''healthy'', JBool True), (''restarted'', JBool True)]))))"

definition sanitizePythonStatusResult :: "result_host \<Rightarrow> job \<Rightarrow> js \<Rightarrow> js res" where
  "sanitizePythonStatusResult h job v =
     bnd (validateManagedPythonResult h job v ''status'') (\<lambda>managed.
     bnd (check_states ''Python status'' v STATUS_FIELDS) (\<lambda>_.
     if \<not> safe_at_least 0 (jget v ''mainPid'') then result_error ''Python status main PID is invalid''
     else if \<not> is_bool (jget v ''healthy'') \<or> \<not> is_bool (jget v ''inspectionError'')
     then result_error ''Python status health metadata is invalid''
     else Inr (JObj (managed @ [(''loadState'', jget v ''loadState''), (''activeState'', jget v ''activeState''),
       (''subState'', jget v ''subState''), (''mainPid'', jget v ''mainPid''),
       (''healthy'', jget v ''healthy''), (''inspectionError'', jget v ''inspectionError'')]))))"

section \<open>Node runtimes of the host\<close>

text \<open>\<open>/^v(\d{1,2})\.\d{1,3}\.\d{1,3}$/\<close> and the major it captures.\<close>

definition node_version_major :: "js \<Rightarrow> int option" where
  "node_version_major v =
     (if is_string v \<and> starts_with (str_of v) ''v''
      then (case split_on (CHR ''.'') (drop 1 (str_of v)) of
              [a, b, c] \<Rightarrow>
                if class_len is_digit 1 2 a \<and> class_len is_digit 1 3 b \<and> class_len is_digit 1 3 c
                then Some (digits_value 0 a) else None
            | _ \<Rightarrow> None)
      else None)"

definition managed_node_path :: "int \<Rightarrow> string" where
  "managed_node_path major = ''/opt/yunpanel/node-runtimes/v'' @ int_text major @ ''/bin/node''"

definition node_path :: "string \<Rightarrow> int option \<Rightarrow> string" where
  "node_path source expectedMajor =
     (if source = ''panel'' then ''/usr/local/bin/node''
      else if source = ''system'' then ''/usr/bin/node''
      else (case expectedMajor of Some m \<Rightarrow> managed_node_path m | None \<Rightarrow> ''/opt/yunpanel/node-runtimes/vnull/bin/node''))"

definition sanitizeNodeExecutable :: "js \<Rightarrow> string \<Rightarrow> int option \<Rightarrow> bool \<Rightarrow> js res" where
  "sanitizeNodeExecutable v source expectedMajor nullable =
     (if is_nullish v \<and> nullable then Inr JNull
      else
        case node_version_major (jget v ''version'') of
          None \<Rightarrow> result_error (''Node '' @ source @ '' runtime metadata is invalid'')
        | Some major \<Rightarrow>
            if (expectedMajor \<noteq> None \<and> expectedMajor \<noteq> Some major) \<or>
               jget v ''path'' \<noteq> JStr (node_path source expectedMajor) \<or> jget v ''source'' \<noteq> JStr source
            then result_error (''Node '' @ source @ '' runtime metadata is invalid'')
            else Inr (JObj [(''path'', JStr (node_path source expectedMajor)), (''source'', JStr source),
              (''version'', jget v ''version''), (''major'', JInt major)]))"

definition PACKAGE_MANAGERS :: "string list" where
  "PACKAGE_MANAGERS = [''npm'', ''pnpm'', ''yarn'']"

definition sanitizeManagedNodeRuntime :: "js \<Rightarrow> int \<Rightarrow> js res" where
  "sanitizeManagedNodeRuntime v expectedMajor =
     (let installed = jget v ''installed''; managers = jget v ''packageManagers'' in
      if \<not> truthy v \<or> jget v ''major'' \<noteq> JInt expectedMajor \<or> \<not> is_bool installed \<or>
         jget v ''path'' \<noteq> JStr (managed_node_path expectedMajor) \<or>
         (if installed = JBool True then \<not> is_string (jget v ''version'') else jget v ''version'' \<noteq> JNull) \<or>
         \<not> is_array managers
      then result_error ''Managed Node runtime inventory is invalid''
      else if \<not> distinct (arr_of managers) \<or> list_ex (\<lambda>m. \<not> str_in m PACKAGE_MANAGERS) (arr_of managers) \<or>
         (installed \<noteq> JBool True \<and> arr_of managers \<noteq> [])
      then result_error ''Managed Node runtime package-manager inventory is invalid''
      else
        bnd (if installed = JBool True
             then bnd (sanitizeNodeExecutable (JObj (obj_set (obj_of v) ''source'' (JStr ''managed''))) ''managed''
                    (Some expectedMajor) False) (\<lambda>_. Inr ())
             else Inr ()) (\<lambda>_.
        Inr (JObj [(''major'', JInt expectedMajor), (''installed'', installed), (''path'', jget v ''path''),
          (''version'', jget v ''version''), (''packageManagers'', managers)])))"

definition sanitizeNodeRuntimeInventory :: "js \<Rightarrow> js res" where
  "sanitizeNodeRuntimeInventory v =
     (let majors = map JInt MANAGED_NODE_RUNTIME_MAJORS; runtimes = jget v ''managedRuntimes'' in
      if \<not> truthy v \<or> jget v ''platform'' \<noteq> JStr ''linux'' \<or> \<not> str_in (jget v ''architecture'') [''x64'', ''arm64''] \<or>
         jget v ''supportedMajors'' \<noteq> JArr majors \<or>
         \<not> is_array runtimes \<or> length (arr_of runtimes) \<noteq> length MANAGED_NODE_RUNTIME_MAJORS
      then result_error ''Managed Node runtime inventory metadata is invalid''
      else
        bnd (sanitizeNodeExecutable (jget v ''panelRuntime'') ''panel'' None True) (\<lambda>panel.
        bnd (sanitizeNodeExecutable (jget v ''systemRuntime'') ''system'' None True) (\<lambda>system.
        bnd (map_res (\<lambda>(major, runtime). sanitizeManagedNodeRuntime runtime major)
               (zip MANAGED_NODE_RUNTIME_MAJORS (arr_of runtimes))) (\<lambda>managed.
        Inr (JObj [(''platform'', JStr ''linux''), (''architecture'', jget v ''architecture''),
          (''supportedMajors'', JArr majors), (''panelRuntime'', panel), (''systemRuntime'', system),
          (''managedRuntimes'', JArr managed)])))))"

definition runtime_installed :: "js \<Rightarrow> js \<Rightarrow> js \<Rightarrow> bool" where
  "runtime_installed inventory major version =
     (case find (\<lambda>entry. jget entry ''major'' = major) (arr_of (jget inventory ''managedRuntimes'')) of
        None \<Rightarrow> False
      | Some entry \<Rightarrow> jget entry ''installed'' = JBool True \<and> jget entry ''version'' = version)"

definition sanitizeNodeRuntimeInstallResult :: "job \<Rightarrow> js \<Rightarrow> js res" where
  "sanitizeNodeRuntimeInstallResult job v =
     (let expected = pget job ''major''; runtime = jget v ''runtime''; managers = jget runtime ''packageManagers'' in
      if expected \<notin> JInt ` set MANAGED_NODE_RUNTIME_MAJORS \<or> \<not> is_bool (jget v ''changed'') \<or> \<not> truthy runtime \<or>
         jget runtime ''major'' \<noteq> expected \<or> jget runtime ''source'' \<noteq> JStr ''managed'' \<or> \<not> is_array managers
      then result_error ''Managed Node runtime installation result is invalid''
      else
        bnd (sanitizeNodeExecutable runtime ''managed'' (Some (int_of expected)) False) (\<lambda>executable.
        if arr_of managers \<noteq> map JStr PACKAGE_MANAGERS
        then result_error ''Managed Node runtime installation package managers are invalid''
        else
          bnd (sanitizeNodeRuntimeInventory (jget v ''inventory'')) (\<lambda>inventory.
          if \<not> runtime_installed inventory expected (jget executable ''version'')
          then result_error ''Managed Node runtime installation is not confirmed by inventory''
          else Inr (JObj [(''changed'', jget v ''changed''),
            (''runtime'', JObj (obj_of executable @ [(''packageManagers'', managers)])), (''inventory'', inventory)]))))"

section \<open>The system package\<close>

text \<open>\<open>/^[A-Za-z0-9.+:~_-]{1,100}$/\<close>\<close>

definition sanitizePackageVersion :: "js \<Rightarrow> string \<Rightarrow> bool \<Rightarrow> js res" where
  "sanitizePackageVersion v field optional =
     (if optional \<and> is_nullish v then Inr JNull
      else if \<not> is_string v \<or> \<not> class_len (\<lambda>c. is_alnum c \<or> one_of ''.+:~_-'' c) 1 100 (str_of v)
      then result_error (''System package '' @ field @ '' is invalid'')
      else Inr v)"

definition sanitizeSystemPackageResult :: "job \<Rightarrow> js \<Rightarrow> js res" where
  "sanitizeSystemPackageResult job v =
     (if jget v ''packageName'' \<noteq> JStr ''yunpanel'' then result_error ''System package result must describe YunPanel''
      else
        bnd (sanitizePackageVersion (jget v ''installedVersion'') ''installedVersion'' True) (\<lambda>installedVersion.
        bnd (sanitizePackageVersion (jget v ''candidateVersion'') ''candidateVersion'' True) (\<lambda>candidateVersion.
        if jget v ''installed'' \<noteq> JBool (truthy installedVersion)
        then result_error ''System package installed state is invalid''
        else if jget v ''updateAvailable'' \<noteq>
           JBool (truthy installedVersion \<and> truthy candidateVersion \<and> installedVersion \<noteq> candidateVersion)
        then result_error ''System package update state is invalid''
        else
          let sanitized = [(''packageName'', JStr ''yunpanel''), (''installed'', jget v ''installed''),
                (''installedVersion'', installedVersion), (''candidateVersion'', candidateVersion),
                (''updateAvailable'', jget v ''updateAvailable'')] in
          if job_operation job = ''system.packages.inspect'' then Inr (JObj sanitized)
          else
            bnd (sanitizePackageVersion (jget v ''previousVersion'') ''previousVersion'' False) (\<lambda>previousVersion.
            let upgraded = jget v ''upgraded''; restart = jget v ''restartScheduled'' in
            if \<not> is_bool upgraded \<or> \<not> is_bool restart
            then result_error ''System upgrade completion state is invalid''
            else if upgraded = JBool True \<and>
               (\<not> truthy installedVersion \<or> installedVersion = previousVersion \<or> restart \<noteq> JBool True)
            then result_error ''System upgrade did not report a valid version transition''
            else if upgraded \<noteq> JBool True \<and> (installedVersion \<noteq> previousVersion \<or> restart = JBool True)
            then result_error ''No-op system upgrade result is inconsistent''
            else Inr (JObj (sanitized @ [(''previousVersion'', previousVersion), (''upgraded'', upgraded),
              (''restartScheduled'', restart)]))))))"

section \<open>Managed services\<close>

record service_policy =
  policy_packages :: "string list"
  policy_units :: "string list"
  policy_checks :: bool

text \<open>The catalog of the protocol and the policy of each service in it.\<close>

definition POLICY :: "(string \<times> service_policy) list" where
  "POLICY = map (\<lambda>(i, ps, us, c). (i, \<lparr>policy_packages = ps, policy_units = us, policy_checks = c\<rparr>))
    [(''nginx'', [''nginx''], [''nginx.service''], False),
     (''mariadb'', [''mariadb-server''], [''mariadb.service''], False),
     (''mysql'', [''mysql-server''], [''mysql.service''], False),
     (''docker'', [''docker.io'', ''docker-compose-v2''], [''docker.service''], False),
     (''cron'', [''cron''], [''cron.service''], False),
     (''postfix'', [''postfix'', ''postfix-sqlite'', ''sqlite3''], [''postfix.service''], True),
     (''dovecot'', [''dovecot-imapd'', ''dovecot-lmtpd'', ''dovecot-sieve'', ''dovecot-sqlite'', ''sqlite3''],
       [''dovecot.service''], True),
     (''rspamd'', [''rspamd''], [''rspamd.service''], True),
     (''roundcube'', [''roundcube-core'', ''roundcube-sqlite3'', ''php-fpm''], [], True),
     (''phpmyadmin'', [''phpmyadmin'', ''php-fpm'', ''php-mysql''], [], True),
     (''elfinder'', [''php-fpm'', ''php-mbstring'', ''php-zip'', ''libjs-jquery'', ''libjs-jquery-ui''], [], True),
     (''restic'', [''restic''], [], True),
     (''rclone'', [''rclone''], [], True),
     (''postsrsd'', [''postsrsd''], [''postsrsd.service''], False),
     (''redis'', [''redis-server''], [''redis-server.service''], False),
     (''memcached'', [''memcached''], [''memcached.service''], False),
     (''netdata'', [''netdata''], [''netdata.service''], True),
     (''goaccess'', [''goaccess''], [], True)]"

definition BASE_MANAGED_SERVICE_IDS :: "string list" where
  "BASE_MANAGED_SERVICE_IDS = [''nginx'', ''mariadb'', ''mysql'', ''docker'', ''cron'', ''postfix'', ''dovecot'', ''rspamd'',
     ''roundcube'', ''phpmyadmin'', ''elfinder'', ''restic'', ''rclone'']"

definition MANAGED_SERVICE_IDS :: "string list" where
  "MANAGED_SERVICE_IDS =
     BASE_MANAGED_SERVICE_IDS @ [''postsrsd'', ''redis'', ''memcached'', ''netdata'', ''goaccess'']"

definition managedServiceStatePolicy :: "string \<Rightarrow> service_policy option" where
  "managedServiceStatePolicy serviceId = map_of POLICY serviceId"

definition MANAGED_SERVICE_ACTIONS :: "string list" where
  "MANAGED_SERVICE_ACTIONS = [''start'', ''stop'', ''restart'']"

definition HEALTH_STATUSES :: "string list" where
  "HEALTH_STATUSES = [''ready'', ''installed'', ''not_installed'', ''inactive'', ''unknown'', ''configuration_invalid'']"

definition CONFIGURATION_STATUSES :: "string list" where
  "CONFIGURATION_STATUSES = [''not_checked'', ''not_applicable'', ''valid'', ''invalid'']"

text \<open>\<open>/^[a-z0-9][a-z0-9.+-]{0,100}$/\<close> and \<open>/^[a-z0-9@_.-]{1,120}\.service$/\<close>\<close>

definition is_package_name :: "string \<Rightarrow> bool" where
  "is_package_name s = head_class is_lower_alnum (\<lambda>c. is_lower_alnum c \<or> one_of ''.+-'' c) 100 s"

definition is_unit_name :: "string \<Rightarrow> bool" where
  "is_unit_name s = (ends_with s ''.service'' \<and>
     class_len (\<lambda>c. is_lower_alnum c \<or> one_of ''@_.-'' c) 1 120 (take (length s - 8) s))"

definition sanitizeManagedServicePackage :: "js \<Rightarrow> js res" where
  "sanitizeManagedServicePackage v =
     (let name = jget v ''packageName''; installed = jget v ''installed'' in
      if \<not> is_object v then result_error ''Managed service package state is invalid''
      else if \<not> is_string name \<or> \<not> is_package_name (str_of name)
      then result_error ''Managed service package name is invalid''
      else if \<not> is_bool installed then result_error ''Managed service package installed state is invalid''
      else
        bnd (sanitizePackageVersion (jget v ''version'') ''managedServiceVersion'' True) (\<lambda>version.
        if installed \<noteq> JBool (truthy version)
        then result_error ''Managed service package version state is inconsistent''
        else Inr (JObj [(''packageName'', name), (''installed'', installed), (''version'', version)])))"

definition UNIT_STATE_FIELDS :: "string list" where
  "UNIT_STATE_FIELDS = [''loadState'', ''activeState'', ''subState'', ''unitFileState'']"

definition sanitizeManagedServiceUnit :: "js \<Rightarrow> js res" where
  "sanitizeManagedServiceUnit v =
     (let name = jget v ''unit'' in
      if \<not> is_object v then result_error ''Managed service unit state is invalid''
      else if \<not> is_string name \<or> \<not> is_unit_name (str_of name) then result_error ''Managed service unit name is invalid''
      else
        bnd (check_states ''Managed service'' v UNIT_STATE_FIELDS) (\<lambda>_.
        if \<not> is_bool (jget v ''inspectionError'') then result_error ''Managed service inspection state is invalid''
        else Inr (JObj ([(''unit'', name)] @ map (\<lambda>f. (f, jget v f)) UNIT_STATE_FIELDS @
          [(''inspectionError'', jget v ''inspectionError'')]))))"

definition expected_configuration :: "service_policy \<Rightarrow> bool \<Rightarrow> string list" where
  "expected_configuration policy installed =
     (if \<not> installed then [''not_checked''] else if policy_checks policy then [''valid'', ''invalid'']
      else [''not_applicable''])"

definition expected_health :: "bool \<Rightarrow> bool \<Rightarrow> js list \<Rightarrow> js \<Rightarrow> string" where
  "expected_health installed is_active units configuration =
     (if \<not> installed then ''not_installed''
      else if list_ex (\<lambda>u. jget u ''inspectionError'' = JBool True) units then ''unknown''
      else if configuration = JStr ''invalid'' then ''configuration_invalid''
      else if units = [] then ''installed'' else if \<not> is_active then ''inactive'' else ''ready'')"

definition sanitizeManagedServiceHealth ::
  "js \<Rightarrow> service_policy \<Rightarrow> bool \<Rightarrow> bool \<Rightarrow> js list \<Rightarrow> js res" where
  "sanitizeManagedServiceHealth v policy installed is_active units =
     (let configuration = jget v ''configuration'' in
      if \<not> is_object v \<or> \<not> str_in (jget v ''status'') HEALTH_STATUSES \<or> \<not> str_in configuration CONFIGURATION_STATUSES
      then result_error ''Managed service health state is invalid''
      else if \<not> str_in configuration (expected_configuration policy installed)
      then result_error ''Managed service configuration health is inconsistent''
      else if jget v ''status'' \<noteq> JStr (expected_health installed is_active units configuration)
      then result_error ''Managed service aggregate health is inconsistent''
      else Inr (JObj [(''status'', jget v ''status''), (''configuration'', configuration)]))"

text \<open>The policy of every id of the catalog exists (\<open>catalog_has_policies\<close> below).\<close>

definition sanitizeManagedServiceState :: "js \<Rightarrow> js res" where
  "sanitizeManagedServiceState v =
     (let installed = jget v ''installed''; active = jget v ''active''; ps = jget v ''packages''; us = jget v ''units'';
          policy = the (managedServiceStatePolicy (str_of (jget v ''id''))) in
      if \<not> is_object v then result_error ''Managed service state is invalid''
      else if \<not> str_in (jget v ''id'') MANAGED_SERVICE_IDS then result_error ''Managed service id is invalid''
      else if \<not> is_bool installed \<or> \<not> is_bool active then result_error ''Managed service status is invalid''
      else if \<not> is_array ps \<or> length (arr_of ps) < 1 \<or> length (arr_of ps) > 8
      then result_error ''Managed service package list is invalid''
      else if \<not> is_array us \<or> length (arr_of us) \<noteq> length (policy_units policy)
      then result_error ''Managed service unit list is invalid''
      else
        bnd (map_res sanitizeManagedServicePackage (arr_of ps)) (\<lambda>packages.
        bnd (map_res sanitizeManagedServiceUnit (arr_of us)) (\<lambda>units.
        if map (\<lambda>p. jget p ''packageName'') packages \<noteq> map JStr (policy_packages policy) \<or>
           map (\<lambda>u. jget u ''unit'') units \<noteq> map JStr (policy_units policy)
        then result_error ''Managed service package or unit identities are invalid''
        else if installed \<noteq> JBool (list_all (\<lambda>p. jget p ''installed'' = JBool True) packages)
        then result_error ''Managed service installed state is inconsistent''
        else if active \<noteq> JBool (units \<noteq> [] \<and> list_all (\<lambda>u. jget u ''activeState'' = JStr ''active'') units)
        then result_error ''Managed service active state is inconsistent''
        else
          bnd (sanitizeManagedServiceHealth (jget v ''health'') policy (bool_of installed) (bool_of active) units)
            (\<lambda>health.
          Inr (JObj [(''id'', jget v ''id''), (''installed'', installed), (''active'', active),
            (''packages'', JArr packages), (''units'', JArr units), (''health'', health)])))))"

definition sanitizeManagedServiceResult :: "job \<Rightarrow> js \<Rightarrow> js res" where
  "sanitizeManagedServiceResult job v =
     (if job_operation job = ''system.services.inspect''
      then
        (if truthy (pget job ''serviceId'')
         then
           bnd (sanitizeManagedServiceState v) (\<lambda>service.
           if \<not> echoes service job ''id'' ''serviceId''
           then result_error ''Managed service inspection identity does not match the queued operation''
           else Inr service)
         else if \<not> is_array v \<or> length (arr_of v) \<noteq> length MANAGED_SERVICE_IDS
         then result_error ''Managed service catalog result is incomplete''
         else
           bnd (map_res sanitizeManagedServiceState (arr_of v)) (\<lambda>services.
           let ids = map (\<lambda>s. jget s ''id'') services in
           if \<not> distinct ids \<or> list_ex (\<lambda>i. JStr i \<notin> set ids) MANAGED_SERVICE_IDS
           then result_error ''Managed service catalog identities are invalid''
           else Inr (JArr services)))
      else
        bnd (sanitizeManagedServiceState v) (\<lambda>service.
        let installed = (jget service ''installed'' = JBool True); active = (jget service ''active'' = JBool True);
            action = jget v ''action'' in
        if \<not> echoes service job ''id'' ''serviceId''
        then result_error ''Managed service result identity does not match the queued operation''
        else if job_operation job = ''system.service.install''
        then
          (if \<not> is_bool (jget v ''changed'') \<or> \<not> installed \<or> (arr_of (jget service ''units'') \<noteq> [] \<and> \<not> active)
           then result_error ''Managed service installation result is inconsistent''
           else Inr (JObj (obj_of service @ [(''changed'', jget v ''changed'')])))
        else if job_operation job = ''system.service.control''
        then
          (if \<not> str_in action MANAGED_SERVICE_ACTIONS \<or> \<not> echoes v job ''action'' ''action''
           then result_error ''Managed service control action does not match the queued operation''
           else if \<not> installed then result_error ''Managed service control result must remain installed''
           else if (if action = JStr ''stop'' then active else \<not> active)
           then result_error ''Managed service control active state is inconsistent''
           else Inr (JObj (obj_of service @ [(''action'', action)])))
        else Inl (job_error_of ''invalid_operation'' ''Managed service operation is not supported by the async queue'')))"

section \<open>DNS records, mail and webmail\<close>

definition sanitizeDnsRecordResult :: "job \<Rightarrow> js \<Rightarrow> js res" where
  "sanitizeDnsRecordResult job v =
     (let expectedState = JStr (if pget job ''action'' = JStr ''upsert'' then ''present'' else ''absent'') in
      if \<not> is_object v \<or> jget v ''provider'' \<noteq> JStr ''cloudflare'' \<or> \<not> echoes v job ''provider'' ''provider'' \<or>
         \<not> echoes v job ''action'' ''action'' \<or> \<not> echoes v job ''zoneName'' ''zoneName'' \<or>
         jget v ''state'' \<noteq> expectedState \<or> \<not> is_bool (jget v ''changed'') \<or>
         \<not> json_eq (jget v ''record'') (pget job ''record'')
      then result_error ''DNS record result does not match the queued operation''
      else Inr (JObj [(''provider'', JStr ''cloudflare''), (''action'', jget v ''action''), (''zoneName'', jget v ''zoneName''),
        (''record'', pget job ''record''), (''changed'', jget v ''changed''), (''state'', expectedState)]))"

text \<open>The fields of a result that name the same field of the payload.\<close>

definition echoes_all :: "js \<Rightarrow> job \<Rightarrow> string list \<Rightarrow> bool" where
  "echoes_all v job ks = list_all (\<lambda>k. echoes v job k k) ks"

definition MAIL_CONFIG_ECHOES :: "string list" where
  "MAIL_CONFIG_ECHOES = [''mailDomainId'', ''desiredStatus'', ''previewDigest'', ''configurationSha256'']"

definition sanitizeMailConfigResult :: "job \<Rightarrow> js \<Rightarrow> js res" where
  "sanitizeMailConfigResult job v =
     (let version = jget v ''version''; n = int_of version in
      if \<not> is_object v \<or> \<not> int_between 1 3 version \<or> jget v ''applied'' \<noteq> JBool True \<or>
         jget v ''sideEffects'' \<noteq> JBool True \<or> \<not> echoes_all v job MAIL_CONFIG_ECHOES \<or> \<not> str_sha256 (jget v ''planSha256'') \<or>
         (n = 1 \<and> obj_has (obj_of v) ''backupSha256'') \<or>
         (n < 3 \<and> (obj_has (obj_of v) ''previousRevision'' \<or> obj_has (obj_of v) ''previousStatus'')) \<or>
         (n \<ge> 2 \<and> \<not> str_sha256 (jget v ''backupSha256'')) \<or>
         (n = 3 \<and> (\<not> safe_at_least 1 (jget v ''previousRevision'') \<or>
            \<not> echoes v job ''previousRevision'' ''expectedRevision'' \<or>
            \<not> str_in (jget v ''previousStatus'') [''disabled'', ''enabled''])) \<or>
         \<not> str_sha256 (jget v ''readinessSha256'')
      then result_error ''Managed mail result does not match the queued transition''
      else Inr (JObj ([(''version'', version), (''mailDomainId'', jget v ''mailDomainId'')] @
        (if n = 3 then [(''previousRevision'', jget v ''previousRevision''), (''previousStatus'', jget v ''previousStatus'')]
         else []) @
        [(''desiredStatus'', jget v ''desiredStatus''), (''previewDigest'', jget v ''previewDigest''),
         (''configurationSha256'', jget v ''configurationSha256''), (''planSha256'', jget v ''planSha256'')] @
        (if n \<ge> 2 then [(''backupSha256'', jget v ''backupSha256'')] else []) @
        [(''readinessSha256'', jget v ''readinessSha256''), (''applied'', JBool True), (''sideEffects'', JBool True)])))"

definition MAIL_ROLLBACK_ECHOES :: "string list" where
  "MAIL_ROLLBACK_ECHOES = [''mailDomainId'', ''sourceApplyJobId'', ''previousRevision'', ''expectedCurrentRevision'',
     ''currentStatus'', ''targetStatus'', ''previewDigest'', ''currentConfigurationSha256'', ''sourcePlanSha256'',
     ''backupSha256'']"

definition sanitizeMailConfigRollbackResult :: "job \<Rightarrow> js \<Rightarrow> js res" where
  "sanitizeMailConfigRollbackResult job v =
     (if \<not> is_object v \<or> length (keys_of v) \<noteq> 14 \<or> jget v ''version'' \<noteq> JInt 1 \<or> jget v ''restored'' \<noteq> JBool True \<or>
         jget v ''sideEffects'' \<noteq> JBool True \<or> \<not> echoes_all v job MAIL_ROLLBACK_ECHOES \<or>
         \<not> str_sha256 (jget v ''compensationBackupSha256'')
      then result_error ''Managed mail rollback result does not match the queued restore''
      else Inr (JObj ([(''version'', JInt 1)] @ map (\<lambda>k. (k, jget v k)) MAIL_ROLLBACK_ECHOES @
        [(''compensationBackupSha256'', jget v ''compensationBackupSha256''), (''restored'', JBool True),
         (''sideEffects'', JBool True)])))"

definition MAIL_DKIM_ECHOES :: "string list" where
  "MAIL_DKIM_ECHOES = [''mailDomainId'', ''expectedKeyRevision'', ''previewDigest'', ''configurationSha256'']"

definition sanitizeMailDkimResult :: "job \<Rightarrow> js \<Rightarrow> js res" where
  "sanitizeMailDkimResult job v =
     (if \<not> is_object v \<or> length (keys_of v) \<noteq> 7 \<or> jget v ''version'' \<noteq> JInt 1 \<or> jget v ''applied'' \<noteq> JBool True \<or>
         jget v ''sideEffects'' \<noteq> JBool True \<or> \<not> echoes_all v job MAIL_DKIM_ECHOES
      then result_error ''Managed DKIM result does not match the queued configuration''
      else Inr (JObj ([(''version'', JInt 1)] @ map (\<lambda>k. (k, jget v k)) MAIL_DKIM_ECHOES @
        [(''applied'', JBool True), (''sideEffects'', JBool True)])))"

definition sanitizeMailDataResult :: "job \<Rightarrow> js \<Rightarrow> js res" where
  "sanitizeMailDataResult job v =
     as_job_error
       (if job_operation job = ''mail.data.backup'' then sanitizeMailDataBackupResult job v
        else if job_operation job = ''mail.data.delete'' then sanitizeMailDataDeleteResult job v
        else sanitizeMailDataRestoreResult job v)"

definition ROUNDCUBE_ECHOES :: "string list" where
  "ROUNDCUBE_ECHOES = [''previewSha256'', ''configSha256'', ''fpmSha256'']"

definition sanitizeRoundcubeConfigResult :: "job \<Rightarrow> js \<Rightarrow> js res" where
  "sanitizeRoundcubeConfigResult job v =
     (if \<not> is_object v \<or> length (keys_of v) \<noteq> 9 \<or> jget v ''version'' \<noteq> JInt 1 \<or> jget v ''applied'' \<noteq> JBool True \<or>
         jget v ''sideEffects'' \<noteq> JBool True \<or> \<not> echoes_all v job ROUNDCUBE_ECHOES \<or>
         \<not> str_sha256 (jget v ''nginxSha256'') \<or> \<not> is_bool (jget v ''databaseCreated'') \<or>
         jget v ''httpHealthy'' \<noteq> JBool True
      then result_error ''Roundcube result does not match the queued configuration''
      else Inr (JObj ([(''version'', JInt 1)] @ map (\<lambda>k. (k, jget v k)) ROUNDCUBE_ECHOES @
        [(''nginxSha256'', jget v ''nginxSha256''), (''databaseCreated'', jget v ''databaseCreated''),
         (''httpHealthy'', JBool True), (''applied'', JBool True), (''sideEffects'', JBool True)])))"

section \<open>Every operation\<close>

definition MAX_CONFIG_BYTES :: int where "MAX_CONFIG_BYTES = 2 * 1024 * 1024"

definition config_name_ok :: "js \<Rightarrow> bool" where
  "config_name_ok v = (is_string v \<and> 1 \<le> length (str_of v) \<and> length (str_of v) \<le> 300)"

definition sanitize_domain_stage :: "js \<Rightarrow> js res" where
  "sanitize_domain_stage v =
     (if \<not> str_sha256 (jget v ''checksum'') then result_error ''Domain staging result requires a SHA-256 checksum''
      else if \<not> config_name_ok (jget v ''configName'') then result_error ''Domain staging result configName is invalid''
      else if \<not> int_between 1 MAX_CONFIG_BYTES (jget v ''bytes'')
      then result_error ''Domain staging result byte size is invalid''
      else Inr (JObj [(''checksum'', jget v ''checksum''), (''configName'', jget v ''configName''),
        (''bytes'', jget v ''bytes'')]))"

definition sanitize_domain_activate :: "js \<Rightarrow> js res" where
  "sanitize_domain_activate v =
     (if \<not> str_sha256 (jget v ''checksum'') then result_error ''Domain activation result requires a SHA-256 checksum''
      else if \<not> config_name_ok (jget v ''configName'') then result_error ''Domain activation result configName is invalid''
      else if jget v ''active'' \<noteq> JBool True then result_error ''Domain activation result must confirm active state''
      else Inr (JObj [(''checksum'', jget v ''checksum''), (''configName'', jget v ''configName''),
        (''active'', JBool True)]))"

definition sanitize_renewal :: "js \<Rightarrow> js res" where
  "sanitize_renewal v =
     (if jget v ''dryRun'' = JBool True \<and> jget v ''status'' = JStr ''validated''
      then
        (let certName = boundedString (jget v ''certName'') 253 in
         if certName = JNull then result_error ''Certificate dry-run result certName is invalid''
         else Inr (JObj [(''certName'', certName), (''dryRun'', JBool True), (''status'', JStr ''validated'')]))
      else sanitizeCertificateMetadata v)"

text \<open>The operations whose result is checked to be an object before it is looked at.\<close>

definition sanitize_object_result :: "result_host \<Rightarrow> job \<Rightarrow> js \<Rightarrow> js res" where
  "sanitize_object_result h job v =
     (let op = job_operation job in
      if \<not> is_object v then result_error ''Agent job result must be an object''
      else if op = ''domain.stage'' then sanitize_domain_stage v
      else if op = ''domain.activate'' then sanitize_domain_activate v
      else if op = ''ssl.issue''
      then (if jget v ''staging'' = JBool True then sanitizeCertificateValidation v else sanitizeCertificateMetadata v)
      else if op = ''ssl.renew'' then sanitize_renewal v
      else if op = ''app.static.deploy'' then sanitizeStaticDeploymentResult job v
      else if op = ''app.static.rollback'' then sanitizeStaticRollbackResult job v
      else if op = ''app.node.deploy'' then sanitizeNodeDeploymentResult h job v
      else if op = ''app.node.rollback'' then sanitizeNodeRollbackResult h job v
      else if op = ''app.node.restart'' then sanitizeNodeRestartResult h job v
      else if op = ''app.node.status'' then sanitizeNodeStatusResult h job v
      else if op = ''app.node.process'' then sanitizeNodeProcessResult h job v
      else if op = ''app.python.deploy'' then sanitizePythonDeploymentResult h job v
      else if op = ''app.python.rollback'' then sanitizePythonRollbackResult h job v
      else if op = ''app.python.restart'' then sanitizePythonRestartResult h job v
      else if op = ''app.python.status'' then sanitizePythonStatusResult h job v
      else if op = ''system.node-runtimes.inspect'' then sanitizeNodeRuntimeInventory v
      else if op = ''system.node-runtime.install'' then sanitizeNodeRuntimeInstallResult job v
      else if op = ''system.packages.inspect'' \<or> op = ''system.upgrade'' then sanitizeSystemPackageResult job v
      else if op = ''system.service.install'' \<or> op = ''system.service.control'' then sanitizeManagedServiceResult job v
      else Inl (job_error_of ''invalid_operation'' ''Agent operation is not supported by the async queue''))"

definition sanitizeResult :: "result_host \<Rightarrow> job \<Rightarrow> js \<Rightarrow> js res" where
  "sanitizeResult h job v =
     (let op = job_operation job in
      if COMPOSE_ACTIONS op \<noteq> None then as_job_error (sanitizeDockerComposeJobResult job v)
      else if op = ''system.services.inspect'' then sanitizeManagedServiceResult job v
      else if op = ''database.inspect'' \<or> op = ''database.create'' \<or> op = ''database.delete''
      then as_job_error (sanitizeDatabaseJobResult job v)
      else if op = ''database.backup'' then as_job_error (sanitizeDatabaseBackupResult h job v)
      else if op = ''database.restore'' then as_job_error (sanitizeDatabaseRestoreResult job v)
      else if op = ''database.credential.apply'' \<or> op = ''database.credential.delete''
      then as_job_error (sanitizeDatabaseCredentialResult h job v)
      else if op = ''dns.record.apply'' then sanitizeDnsRecordResult job v
      else if op = ''mail.config.apply'' then sanitizeMailConfigResult job v
      else if op = ''mail.config.rollback'' then sanitizeMailConfigRollbackResult job v
      else if op = ''mail.dkim.apply'' then sanitizeMailDkimResult job v
      else if op = ''mail.data.backup'' \<or> op = ''mail.data.restore'' \<or> op = ''mail.data.delete''
      then sanitizeMailDataResult job v
      else if op = ''roundcube.config.apply'' then sanitizeRoundcubeConfigResult job v
      else if op = ''cron.apply'' \<or> op = ''cron.remove'' then sanitizeWebsiteCronJobResult h job v
      else if op = ''app.node.passenger-migrate'' then as_job_error (sanitizeNodePassengerMigrationResult h job v)
      else sanitize_object_result h job v)"

text \<open>The check the policy module makes when it is loaded.\<close>

lemma catalog_has_policies:
  "map fst POLICY = MANAGED_SERVICE_IDS \<and> list_all (\<lambda>i. managedServiceStatePolicy i \<noteq> None) MANAGED_SERVICE_IDS"
  by code_simp

end
