(* ===== verification/ResultGuarantees.thy ===== *)
theory ResultGuarantees
  imports JobResults JobGuarantees
begin

text \<open>
  What a checked result says about its job: the abstract specification \<open>expected_fields\<close> lists, for
  every operation of the queue, the members a kept result must have given the queued job alone, and
  every sanitiser implements it. From it: every result the queue records was checked for its job.
\<close>

section \<open>The specification\<close>

definition jpath :: "js \<Rightarrow> string list \<Rightarrow> js" where
  "jpath v ks = foldl jget v ks"

definition meets :: "js \<Rightarrow> (string list \<times> js) list \<Rightarrow> bool" where
  "meets v es = list_all (\<lambda>(ks, w). jpath v ks = w) es"

definition payload_fields :: "job \<Rightarrow> (string \<times> string) list \<Rightarrow> (string list \<times> js) list" where
  "payload_fields job fs = map (\<lambda>(f, p). ([f], pget job p)) fs"

definition same_fields :: "job \<Rightarrow> string list \<Rightarrow> (string list \<times> js) list" where
  "same_fields job fs = map (\<lambda>f. ([f], pget job f)) fs"

definition confirmed :: "string list \<Rightarrow> (string list \<times> js) list" where
  "confirmed fs = map (\<lambda>f. ([f], JBool True)) fs"

definition compose_expected :: "job \<Rightarrow> (string list \<times> js) list" where
  "compose_expected job =
     payload_fields job [(''projectId'', ''projectId''), (''projectRevision'', ''expectedProjectRevision''),
       (''environmentRevision'', ''expectedEnvironmentRevision''), (''composeSha256'', ''expectedComposeSha256'')] @
     [([''projectId''], JStr (job_resourceId job)),
      ([''action''], JStr (fst (the (COMPOSE_ACTIONS (job_operation job))))),
      ([''runtimeState''], snd (the (COMPOSE_ACTIONS (job_operation job))))] @ confirmed [''executed'', ''sideEffects'']"

definition backup_expected :: "job \<Rightarrow> (string list \<times> js) list" where
  "backup_expected job = same_fields job [''databaseName''] @ confirmed [''backedUp'', ''sideEffects''] @
     [([''databaseName''], JStr (job_resourceId job)), ([''backupId''], JStr (job_id job))]"

definition restore_expected :: "job \<Rightarrow> (string list \<times> js) list" where
  "restore_expected job =
     payload_fields job [(''backupId'', ''backupId''), (''databaseName'', ''databaseName''), (''dumpSha256'', ''expectedBackupSha256'')] @
     [([''databaseName''], JStr (job_resourceId job)), ([''transactionId''], JStr (job_id job)),
      ([''preRestoreBackupId''], JStr (pre_restore_id job))] @ confirmed [''restored'', ''verified'', ''sideEffects'']"

definition credential_expected :: "result_host \<Rightarrow> job \<Rightarrow> (string list \<times> js) list" where
  "credential_expected h job =
     payload_fields job [(''databaseCredentialId'', ''databaseCredentialId''), (''databaseBindingId'', ''databaseBindingId''),
       (''credentialRevision'', ''expectedCredentialRevision''), (''bindingRevision'', ''expectedBindingRevision''),
       (''desiredStateSha256'', ''desiredStateSha256'')] @
     [([''databaseName''], JStr (job_resourceId job)), ([''host''], JStr ''localhost''),
      ([''username''], JStr (expectedUsername h (str_of (pget job ''databaseBindingId''))))] @
     confirmed [if job_operation job = ''database.credential.apply'' then ''applied'' else ''deleted'', ''sideEffects'']"

definition cron_expected :: "job \<Rightarrow> (string list \<times> js) list" where
  "cron_expected job = same_fields job [''taskId'', ''websiteId'', ''applicationId'', ''unixUser'', ''desiredStateSha256''] @
     payload_fields job [(''revision'', ''expectedRevision'')] @
     confirmed [if job_operation job = ''cron.apply'' then ''applied'' else ''removed'']"

definition dns_expected :: "job \<Rightarrow> (string list \<times> js) list" where
  "dns_expected job = same_fields job [''provider'', ''action'', ''zoneName'', ''record''] @
     [([''state''], JStr (if pget job ''action'' = JStr ''upsert'' then ''present'' else ''absent''))]"

definition mail_data_expected :: "job \<Rightarrow> (string list \<times> js) list" where
  "mail_data_expected job = same_fields job [''mailDomainId'', ''scope'', ''identity''] @ confirmed [''sideEffects''] @
     (if job_operation job = ''mail.data.backup''
      then [([''backupId''], JStr (job_id job)), ([''sourceSnapshotSha256''], pget job ''expectedSnapshotSha256'')] @
        confirmed [''backedUp'']
      else if job_operation job = ''mail.data.delete''
      then ([''transactionId''], JStr (job_id job)) #
        same_fields job [''backupId'', ''resourceId'', ''expectedResourceRevision''] @ confirmed [''deleted'']
      else [([''transactionId''], JStr (job_id job)), ([''preRestoreBackupId''], JStr (pre_restore_id job))] @
        same_fields job [''backupId''] @ confirmed [''restoredPresent'', ''applied''])"

text \<open>A release named by its normalised identifier.\<close>

definition release_field :: "job \<Rightarrow> string \<Rightarrow> (string list \<times> js) list" where
  "release_field job p = [([''releaseId''], option_js (normalizeUuid (pget job p)))]"

definition node_expected :: "result_host \<Rightarrow> job \<Rightarrow> (string list \<times> js) list" where
  "node_expected h job =
     [([''serviceName''], option_js (expectedNodeServiceName h (pget job ''applicationId''))),
      ([''port''], runtime_of job ''port''), ([''healthPath''], runtime_of job ''healthPath'')]"

definition python_expected :: "result_host \<Rightarrow> job \<Rightarrow> (string list \<times> js) list" where
  "python_expected h job = [([''serviceName''], option_js (expectedPythonServiceName h (pget job ''applicationId'')))]"

definition deployment_expected :: "job \<Rightarrow> (string list \<times> js) list" where
  "deployment_expected job =
     [([''deploymentId''], option_js (normalizeUuid (pget job ''deploymentId'')))] @ release_field job ''deploymentId''"

definition passenger_expected :: "job \<Rightarrow> (string list \<times> js) list" where
  "passenger_expected job = confirmed [''targetHealthy''] @
     map (\<lambda>k. ([k], option_js (uuid_of (jget (pget job ''node'') k)))) [''applicationId'', ''releaseId'']"

definition application_expected :: "result_host \<Rightarrow> job \<Rightarrow> (string list \<times> js) list" where
  "application_expected h job =
     (let op = job_operation job in
      if op = ''app.static.deploy'' then deployment_expected job
      else if op = ''app.static.rollback'' then release_field job ''releaseId'' @ confirmed [''active'']
      else if op = ''app.node.deploy'' then deployment_expected job @ node_expected h job @ confirmed [''healthy'']
      else if op = ''app.node.rollback''
      then release_field job ''releaseId'' @ node_expected h job @ confirmed [''healthy'', ''active'']
      else if op = ''app.node.restart''
      then release_field job ''releaseId'' @ node_expected h job @ confirmed [''healthy'', ''restarted'']
      else if op = ''app.node.status'' then release_field job ''releaseId'' @ node_expected h job
      else if op = ''app.node.process''
      then release_field job ''releaseId'' @ node_expected h job @ same_fields job [''action'']
      else if op = ''app.python.deploy'' then deployment_expected job @ python_expected h job @ confirmed [''healthy'']
      else if op = ''app.python.rollback''
      then release_field job ''releaseId'' @ python_expected h job @ confirmed [''healthy'', ''active'']
      else if op = ''app.python.restart''
      then release_field job ''releaseId'' @ python_expected h job @ confirmed [''healthy'', ''restarted'']
      else if op = ''app.python.status'' then release_field job ''releaseId'' @ python_expected h job
      else [])"

definition service_expected :: "job \<Rightarrow> (string list \<times> js) list" where
  "service_expected job =
     (let op = job_operation job in
      if op = ''system.services.inspect''
      then (if truthy (pget job ''serviceId'') then [([''id''], pget job ''serviceId'')] else [])
      else if op = ''system.service.install'' then ([''id''], pget job ''serviceId'') # confirmed [''installed'']
      else if op = ''system.service.control''
      then [([''id''], pget job ''serviceId''), ([''action''], pget job ''action''),
        ([''active''], JBool (pget job ''action'' \<noteq> JStr ''stop''))] @ confirmed [''installed'']
      else [])"

definition expected_fields :: "result_host \<Rightarrow> job \<Rightarrow> (string list \<times> js) list" where
  "expected_fields h job =
     (let op = job_operation job in
      if COMPOSE_ACTIONS op \<noteq> None then compose_expected job
      else if op = ''system.services.inspect'' then service_expected job
      else if op = ''database.inspect'' then []
      else if op = ''database.create''
      then [([''database'', ''name''], pget job ''name''), ([''created''], JBool True)]
      else if op = ''database.delete''
      then [([''database'', ''name''], pget job ''name''), ([''deleted''], JBool True)]
      else if op = ''database.backup'' then backup_expected job
      else if op = ''database.restore'' then restore_expected job
      else if op = ''database.credential.apply'' \<or> op = ''database.credential.delete'' then credential_expected h job
      else if op = ''dns.record.apply'' then dns_expected job
      else if op = ''mail.config.apply'' then same_fields job MAIL_CONFIG_ECHOES @ confirmed [''applied'', ''sideEffects'']
      else if op = ''mail.config.rollback'' then same_fields job MAIL_ROLLBACK_ECHOES @ confirmed [''restored'', ''sideEffects'']
      else if op = ''mail.dkim.apply'' then same_fields job MAIL_DKIM_ECHOES @ confirmed [''applied'', ''sideEffects'']
      else if op = ''mail.data.backup'' \<or> op = ''mail.data.restore'' \<or> op = ''mail.data.delete'' then mail_data_expected job
      else if op = ''roundcube.config.apply''
      then same_fields job ROUNDCUBE_ECHOES @ confirmed [''httpHealthy'', ''applied'', ''sideEffects'']
      else if op = ''cron.apply'' \<or> op = ''cron.remove'' then cron_expected job
      else if op = ''app.node.passenger-migrate'' then passenger_expected job
      else if op = ''system.node-runtime.install''
      then [([''runtime'', ''major''], pget job ''major''), ([''runtime'', ''source''], JStr ''managed'')]
      else if op = ''system.packages.inspect'' \<or> op = ''system.upgrade'' then [([''packageName''], JStr ''yunpanel'')]
      else if op = ''system.service.install'' \<or> op = ''system.service.control'' then service_expected job
      else application_expected h job)"

section \<open>The sanitisers implement it\<close>

lemma meets_simps [simp]:
  "meets v []" "meets v ((ks, w) # es) \<longleftrightarrow> jpath v ks = w \<and> meets v es"
  "meets v (es @ fs) \<longleftrightarrow> meets v es \<and> meets v fs"
  by (simp_all add: meets_def)

lemma jpath_simps [simp]: "jpath v [] = v" "jpath v (k # ks) = jpath (jget v k) ks"
  by (simp_all add: jpath_def)

lemma echoes_eq: "echoes v job f p \<Longrightarrow> jget v f = pget job p"
  by (simp add: echoes_def strict_eq_imp_eq)

lemma echoes_like_eq: "echoes_like P v job f p \<Longrightarrow> jget v f = pget job p"
  by (simp add: echoes_like_def echoes_eq)

lemma as_job_error_Inr [simp]: "as_job_error m = Inr r \<longleftrightarrow> m = Inr r"
  by (simp add: as_job_error_def result_error_def split: sum.splits if_splits)

lemma result_error_not_Inr [simp]: "result_error msg \<noteq> Inr r" "invalid_result c msg \<noteq> Inr r"
  "database_error msg \<noteq> Inr r" "mail_error msg \<noteq> Inr r" "passenger_error msg \<noteq> Inr r"
  "credential_error \<noteq> Inr r" "compose_error \<noteq> Inr r" "cron_error \<noteq> Inr r"
  by (simp_all add: result_error_def invalid_result_def database_error_def mail_error_def passenger_error_def
      credential_error_def compose_error_def cron_error_def)


lemma refuse_ifE:
  "(if c then result_error msg else m) = Inr x \<Longrightarrow> (\<not> c \<Longrightarrow> m = Inr x \<Longrightarrow> P) \<Longrightarrow> P"
  "(if c then invalid_result k msg else m) = Inr x \<Longrightarrow> (\<not> c \<Longrightarrow> m = Inr x \<Longrightarrow> P) \<Longrightarrow> P"
  "(if c then database_error msg else m) = Inr x \<Longrightarrow> (\<not> c \<Longrightarrow> m = Inr x \<Longrightarrow> P) \<Longrightarrow> P"
  "(if c then mail_error msg else m) = Inr x \<Longrightarrow> (\<not> c \<Longrightarrow> m = Inr x \<Longrightarrow> P) \<Longrightarrow> P"
  "(if c then passenger_error msg else m) = Inr x \<Longrightarrow> (\<not> c \<Longrightarrow> m = Inr x \<Longrightarrow> P) \<Longrightarrow> P"
  "(if c then credential_error else m) = Inr x \<Longrightarrow> (\<not> c \<Longrightarrow> m = Inr x \<Longrightarrow> P) \<Longrightarrow> P"
  "(if c then compose_error else m) = Inr x \<Longrightarrow> (\<not> c \<Longrightarrow> m = Inr x \<Longrightarrow> P) \<Longrightarrow> P"
  "(if c then cron_error else m) = Inr x \<Longrightarrow> (\<not> c \<Longrightarrow> m = Inr x \<Longrightarrow> P) \<Longrightarrow> P"
  by (auto split: if_splits)

lemmas accept = refuse_ifE unravel

lemmas expectation_defs = payload_fields_def same_fields_def confirmed_def release_field_def

lemma compose_meets:
  assumes "sanitizeDockerComposeJobResult job v = Inr r"
  shows "meets r (compose_expected job)"
proof (cases "COMPOSE_ACTIONS (job_operation job)")
  case None
  with assms show ?thesis by (simp add: sanitizeDockerComposeJobResult_def)
next
  case (Some a)
  with assms show ?thesis
    unfolding sanitizeDockerComposeJobResult_def compose_expected_def expectation_defs option.case
    by (simp only: option.case split_beta) (elim accept; auto dest!: echoes_eq)
qed

lemma mutation_meets:
  "sanitizeMutation job v flag = Inr r \<Longrightarrow> flag \<noteq> ''database'' \<Longrightarrow> flag \<noteq> ''engine'' \<Longrightarrow> flag \<noteq> ''version'' \<Longrightarrow>
   meets r [([''database'', ''name''], pget job ''name''), ([flag], JBool True)]"
  unfolding sanitizeMutation_def sanitizeServerIdentity_def
  by (elim accept) (auto dest!: echoes_eq)

lemma backup_meets: "sanitizeDatabaseBackupResult h job v = Inr r \<Longrightarrow> meets r (backup_expected job)"
  unfolding sanitizeDatabaseBackupResult_def backup_expected_def expectation_defs
  by (elim accept) (auto dest!: echoes_eq)

lemma restore_meets: "sanitizeDatabaseRestoreResult job v = Inr r \<Longrightarrow> meets r (restore_expected job)"
  unfolding sanitizeDatabaseRestoreResult_def restore_expected_def expectation_defs
  by (elim accept) (auto dest!: echoes_eq)

lemma credential_meets: "sanitizeDatabaseCredentialResult h job v = Inr r \<Longrightarrow> meets r (credential_expected h job)"
  unfolding sanitizeDatabaseCredentialResult_def credential_expected_def expectation_defs Let_def
  by (elim accept; (split if_split_asm)?; auto dest!: echoes_eq split: if_splits)

lemma cron_meets: "sanitizeWebsiteCronJobResult h job v = Inr r \<Longrightarrow> meets r (cron_expected job)"
  unfolding sanitizeWebsiteCronJobResult_def cron_expected_def expectation_defs Let_def
  by (elim accept; auto dest!: echoes_eq echoes_like_eq split: if_splits)

lemma dns_meets: "sanitizeDnsRecordResult job v = Inr r \<Longrightarrow> meets r (dns_expected job)"
  unfolding sanitizeDnsRecordResult_def dns_expected_def expectation_defs Let_def
  by (elim accept) (auto dest!: echoes_eq)

lemma echoes_allD: "echoes_all v job ks \<Longrightarrow> k \<in> set ks \<Longrightarrow> jget v k = pget job k"
  by (auto simp: echoes_all_def list_all_iff dest: echoes_eq)

lemma mail_config_echoes:
  "echoes_all v job MAIL_CONFIG_ECHOES \<Longrightarrow>
   pget job ''mailDomainId'' = jget v ''mailDomainId'' \<and> pget job ''desiredStatus'' = jget v ''desiredStatus'' \<and>
   pget job ''previewDigest'' = jget v ''previewDigest'' \<and>
   pget job ''configurationSha256'' = jget v ''configurationSha256''"
  by (simp add: MAIL_CONFIG_ECHOES_def echoes_all_def echoes_eq [symmetric])

lemma mail_config_meets:
  "sanitizeMailConfigResult job v = Inr r \<Longrightarrow>
   meets r (same_fields job MAIL_CONFIG_ECHOES @ confirmed [''applied'', ''sideEffects''])"
  unfolding sanitizeMailConfigResult_def Let_def
  by (elim accept; simp only: de_Morgan_disj not_not; elim conjE; hypsubst; drule mail_config_echoes)
    (simp add: expectation_defs MAIL_CONFIG_ECHOES_def)

lemma mail_rollback_meets:
  "sanitizeMailConfigRollbackResult job v = Inr r \<Longrightarrow>
   meets r (same_fields job MAIL_ROLLBACK_ECHOES @ confirmed [''restored'', ''sideEffects''])"
  unfolding sanitizeMailConfigRollbackResult_def expectation_defs MAIL_ROLLBACK_ECHOES_def echoes_all_def
  by (elim accept) (auto dest!: echoes_eq)

lemma mail_dkim_meets:
  "sanitizeMailDkimResult job v = Inr r \<Longrightarrow>
   meets r (same_fields job MAIL_DKIM_ECHOES @ confirmed [''applied'', ''sideEffects''])"
  unfolding sanitizeMailDkimResult_def expectation_defs MAIL_DKIM_ECHOES_def echoes_all_def
  by (elim accept) (auto dest!: echoes_eq)

lemma roundcube_meets:
  "sanitizeRoundcubeConfigResult job v = Inr r \<Longrightarrow>
   meets r (same_fields job ROUNDCUBE_ECHOES @ confirmed [''httpHealthy'', ''applied'', ''sideEffects''])"
  unfolding sanitizeRoundcubeConfigResult_def expectation_defs ROUNDCUBE_ECHOES_def echoes_all_def
  by (elim accept) (auto dest!: echoes_eq)

definition mail_base :: "jobj \<Rightarrow> job \<Rightarrow> bool" where
  "mail_base base job \<longleftrightarrow> (\<exists>s b f d.
     base = [(''version'', JInt 1), (''mailDomainId'', pget job ''mailDomainId''), (''scope'', pget job ''scope''),
       (''identity'', pget job ''identity''), (''contentSha256'', s), (''bytes'', b), (''files'', f), (''directories'', d)])"

lemma common_base: "common job v ks = Inr base \<Longrightarrow> mail_base base job"
  unfolding common_def safeCount_def mail_base_def by (elim accept) (auto dest!: echoes_eq)

lemma mail_data_meets: "sanitizeMailDataResult job v = Inr r \<Longrightarrow> meets r (mail_data_expected job)"
  unfolding sanitizeMailDataResult_def as_job_error_Inr sanitizeMailDataBackupResult_def
    sanitizeMailDataRestoreResult_def sanitizeMailDataDeleteResult_def mail_data_expected_def expectation_defs
  by (elim accept; drule common_base; unfold mail_base_def; elim exE; auto dest!: echoes_eq)

lemma passenger_meets:
  "sanitizeNodePassengerMigrationResult h job v = Inr r \<Longrightarrow> meets r (passenger_expected job)"
  unfolding sanitizeNodePassengerMigrationResult_def passenger_expected_def expectation_defs Let_def
  by (elim accept) (auto simp: option_js_def)

subsection \<open>Applications\<close>

lemma normal_case_of: "(case x of Inl e \<Rightarrow> result_error msg | Inr y \<Rightarrow> f y) = Inr r \<Longrightarrow> \<exists>y. x = Inr y \<and> f y = Inr r"
  by (cases x) simp_all

lemma release_identity:
  assumes "sanitizeReleaseIdentity job v = Inr i"
  shows "\<exists>p c g. i = [(''deploymentId'', option_js (normalizeUuid (pget job ''deploymentId''))),
      (''releaseId'', option_js (normalizeUuid (pget job ''deploymentId''))), (''previousReleaseId'', p),
      (''commitSha'', c), (''gitTarget'', g)]"
  using assms
  unfolding sanitizeReleaseIdentity_def Let_def
  by - (elim refuse_ifE; drule normal_case_of; elim exE conjE refuse_ifE Inr_InrE; hypsubst; simp)

lemma node_service: "node_service_ok h job v \<Longrightarrow>
    jget v ''serviceName'' = option_js (expectedNodeServiceName h (pget job ''applicationId''))"
  by (simp add: node_service_ok_def service_ok_def)

lemma python_service: "python_service_ok h job v \<Longrightarrow>
    jget v ''serviceName'' = option_js (expectedPythonServiceName h (pget job ''applicationId''))"
  by (simp add: python_service_ok_def service_ok_def)

lemma port_eq: "port_ok job v \<Longrightarrow> jget v ''port'' = runtime_of job ''port''"
  by (simp add: port_ok_def strict_eq_imp_eq)

lemma health_eq: "health_path_ok job v \<Longrightarrow> jget v ''healthPath'' = runtime_of job ''healthPath''"
  by (simp add: health_path_ok_def strict_eq_imp_eq)

lemmas node_facts = node_service python_service port_eq health_eq

lemma managed_node: "validateManagedNodeResult h job v action = Inr m \<Longrightarrow>
    m = [(''releaseId'', option_js (normalizeUuid (pget job ''releaseId''))),
      (''serviceName'', option_js (expectedNodeServiceName h (pget job ''applicationId''))),
      (''port'', runtime_of job ''port''), (''healthPath'', runtime_of job ''healthPath'')]"
  unfolding validateManagedNodeResult_def Let_def by (elim accept) (simp add: node_facts)

lemma managed_python: "validateManagedPythonResult h job v action = Inr m \<Longrightarrow>
    m = [(''releaseId'', option_js (normalizeUuid (pget job ''releaseId''))),
      (''serviceName'', option_js (expectedPythonServiceName h (pget job ''applicationId'')))]"
  unfolding validateManagedPythonResult_def Let_def by (elim accept) (simp add: node_facts)

lemma environment_revision: "sanitizedEnvironmentRevision job = Inr m \<Longrightarrow>
    m = [] \<or> m = [(''environmentRevision'', pget job ''environmentRevision'')]"
  by (auto simp: sanitizedEnvironmentRevision_def Let_def split: if_splits)

lemma static_meets:
  "sanitizeStaticDeploymentResult job v = Inr r \<Longrightarrow> meets r (deployment_expected job)"
  unfolding sanitizeStaticDeploymentResult_def
  by (elim accept) (auto dest!: release_identity simp: deployment_expected_def expectation_defs)

lemma static_rollback_meets:
  "sanitizeStaticRollbackResult job v = Inr r \<Longrightarrow> meets r (release_field job ''releaseId'' @ confirmed [''active''])"
  unfolding sanitizeStaticRollbackResult_def expectation_defs Let_def by (elim accept) auto

lemma node_deploy_meets:
  "sanitizeNodeDeploymentResult h job v = Inr r \<Longrightarrow>
   meets r (deployment_expected job @ node_expected h job @ confirmed [''healthy''])"
  unfolding sanitizeNodeDeploymentResult_def node_expected_def deployment_expected_def expectation_defs
  by (elim accept; drule release_identity; drule environment_revision; elim exE conjE disjE; hypsubst;
      simp add: node_facts)

lemma python_deploy_meets:
  "sanitizePythonDeploymentResult h job v = Inr r \<Longrightarrow>
   meets r (deployment_expected job @ python_expected h job @ confirmed [''healthy''])"
  unfolding sanitizePythonDeploymentResult_def python_expected_def deployment_expected_def expectation_defs
  by (elim accept; drule release_identity; drule environment_revision; elim exE conjE disjE; hypsubst;
      simp add: node_facts)

lemmas managed_defs = sanitizeNodeRollbackResult_def sanitizeNodeRestartResult_def sanitizeNodeStatusResult_def
  sanitizeNodeProcessResult_def sanitizePythonRollbackResult_def sanitizePythonRestartResult_def
  sanitizePythonStatusResult_def node_expected_def python_expected_def

lemma node_managed_meets:
  "sanitizeNodeRollbackResult h job v = Inr r \<Longrightarrow>
     meets r (release_field job ''releaseId'' @ node_expected h job @ confirmed [''healthy'', ''active''])"
  "sanitizeNodeRestartResult h job v = Inr r \<Longrightarrow>
     meets r (release_field job ''releaseId'' @ node_expected h job @ confirmed [''healthy'', ''restarted''])"
  unfolding managed_defs expectation_defs
  by (elim accept; drule managed_node; drule environment_revision; elim disjE; hypsubst; simp)+

lemma node_status_meets:
  "sanitizeNodeStatusResult h job v = Inr r \<Longrightarrow> meets r (release_field job ''releaseId'' @ node_expected h job)"
  "sanitizeNodeProcessResult h job v = Inr r \<Longrightarrow>
     meets r (release_field job ''releaseId'' @ node_expected h job @ same_fields job [''action''])"
  unfolding managed_defs expectation_defs
  by (elim accept; drule managed_node; hypsubst; simp add: echoes_eq)+

lemma python_managed_meets:
  "sanitizePythonRollbackResult h job v = Inr r \<Longrightarrow>
     meets r (release_field job ''releaseId'' @ python_expected h job @ confirmed [''healthy'', ''active''])"
  "sanitizePythonRestartResult h job v = Inr r \<Longrightarrow>
     meets r (release_field job ''releaseId'' @ python_expected h job @ confirmed [''healthy'', ''restarted''])"
  unfolding managed_defs expectation_defs
  by (elim accept; drule managed_python; drule environment_revision; elim disjE; hypsubst; simp)+

lemma python_status_meets:
  "sanitizePythonStatusResult h job v = Inr r \<Longrightarrow> meets r (release_field job ''releaseId'' @ python_expected h job)"
  unfolding managed_defs expectation_defs by (elim accept; drule managed_python; hypsubst; simp)

subsection \<open>The host\<close>

lemma executable_shape:
  "sanitizeNodeExecutable v source (Some m) False = Inr r \<Longrightarrow>
   \<exists>p w. r = JObj [(''path'', p), (''source'', JStr source), (''version'', w), (''major'', JInt m)]"
  by (auto simp: sanitizeNodeExecutable_def split: option.splits if_splits)

lemma install_meets:
  "sanitizeNodeRuntimeInstallResult job v = Inr r \<Longrightarrow>
   meets r [([''runtime'', ''major''], pget job ''major''), ([''runtime'', ''source''], JStr ''managed'')]"
  unfolding sanitizeNodeRuntimeInstallResult_def Let_def
  by (elim accept; drule executable_shape; elim exE; hypsubst; auto)

lemma package_meets:
  "sanitizeSystemPackageResult job v = Inr r \<Longrightarrow> meets r [([''packageName''], JStr ''yunpanel'')]"
  unfolding sanitizeSystemPackageResult_def Let_def by (elim accept) auto

lemma service_shape:
  "sanitizeManagedServiceState v = Inr r \<Longrightarrow>
   \<exists>a b c d e. r = JObj [(''id'', jget v ''id''), (''installed'', JBool a), (''active'', JBool b), (''packages'', c),
     (''units'', d), (''health'', e)]"
  unfolding sanitizeManagedServiceState_def Let_def by (elim accept) (auto simp: is_bool_iff)

lemma services_meet:
  assumes "sanitizeManagedServiceResult job v = Inr r"
  shows "meets r (service_expected job)"
proof (cases "job_operation job = ''system.services.inspect''")
  case True
  with assms show ?thesis
    by (simp add: sanitizeManagedServiceResult_def service_expected_def)
      (elim accept; simp add: echoes_eq)
next
  case False
  from assms show ?thesis
    unfolding sanitizeManagedServiceResult_def service_expected_def expectation_defs Let_def
    by - (simp only: False if_False; elim accept; drule service_shape; elim exE; hypsubst; simp add: False;
      auto dest!: echoes_eq)
qed

section \<open>Every kept result meets its specification\<close>

lemmas application_rules [simplified meets_simps] = static_meets static_rollback_meets node_deploy_meets
  node_managed_meets node_status_meets python_deploy_meets python_managed_meets python_status_meets

lemma application_meets:
  assumes "sanitize_object_result h job v = Inr r"
    "job_operation job \<notin> {''system.node-runtime.install'', ''system.packages.inspect'', ''system.upgrade'',
       ''system.service.install'', ''system.service.control''}"
  shows "meets r (application_expected h job)"
  using assms unfolding sanitize_object_result_def Let_def
  by - (elim refuse_ifE choose_ifE Inl_InrE; simp add: application_expected_def application_rules)

lemma host_dispatch:
  assumes "sanitize_object_result h job v = Inr r"
  shows "job_operation job = ''system.node-runtime.install'' \<Longrightarrow> sanitizeNodeRuntimeInstallResult job v = Inr r"
    "job_operation job = ''system.packages.inspect'' \<Longrightarrow> sanitizeSystemPackageResult job v = Inr r"
    "job_operation job = ''system.upgrade'' \<Longrightarrow> sanitizeSystemPackageResult job v = Inr r"
    "job_operation job = ''system.service.install'' \<Longrightarrow> sanitizeManagedServiceResult job v = Inr r"
    "job_operation job = ''system.service.control'' \<Longrightarrow> sanitizeManagedServiceResult job v = Inr r"
  using assms by (simp_all add: sanitize_object_result_def Let_def split: if_splits)

lemma database_meets:
  assumes "sanitizeDatabaseJobResult job v = Inr r"
  shows "job_operation job = ''database.create'' \<Longrightarrow>
      meets r [([''database'', ''name''], pget job ''name''), ([''created''], JBool True)]"
    "job_operation job = ''database.delete'' \<Longrightarrow>
      meets r [([''database'', ''name''], pget job ''name''), ([''deleted''], JBool True)]"
  using assms mutation_meets [of job v "''created''" r] mutation_meets [of job v "''deleted''" r]
  by (simp_all add: sanitizeDatabaseJobResult_def)

lemmas result_rules [simplified meets_simps] = compose_meets services_meet backup_meets restore_meets
  credential_meets cron_meets dns_meets mail_config_meets mail_rollback_meets mail_dkim_meets roundcube_meets
  mail_data_meets passenger_meets install_meets package_meets database_meets

lemma object_meets:
  assumes "sanitize_object_result h job v = Inr r" "job_operation job = op"
  shows "meets r
    (if op = ''system.node-runtime.install''
     then [([''runtime'', ''major''], pget job ''major''), ([''runtime'', ''source''], JStr ''managed'')]
     else if op = ''system.packages.inspect'' \<or> op = ''system.upgrade'' then [([''packageName''], JStr ''yunpanel'')]
     else if op = ''system.service.install'' \<or> op = ''system.service.control'' then service_expected job
     else application_expected h job)"
  using application_meets [OF assms(1)] host_dispatch [OF assms(1)] assms(2)
  by (auto dest: install_meets package_meets services_meet simp del: meets_simps)

lemma sanitized_meets:
  assumes "sanitizeResult h job v = Inr r"
  shows "meets r (expected_fields h job)"
  using assms object_meets [of h job v r "job_operation job"] database_meets [of job v r]
  unfolding sanitizeResult_def expected_fields_def Let_def
  by - (elim choose_ifE disjE; (simp only: as_job_error_Inr)?; simp add: result_rules)

section \<open>The jobs of the queue\<close>

text \<open>A succeeded job holds, up to JSON, a result the sanitiser returned for it.\<close>

definition checked_job :: "result_host \<Rightarrow> job \<Rightarrow> bool" where
  "checked_job h j \<longleftrightarrow> (job_status j = JobSucceeded \<longrightarrow>
     (\<exists>k v r. sanitizeResult h k v = Inr r \<and> meets r (expected_fields h k) \<and> json_eq r (job_result j) \<and>
        job_id k = job_id j \<and> job_operation k = job_operation j \<and> job_resourceId k = job_resourceId j \<and>
        json_eq (job_payload k) (job_payload j)))"

lemma json_eq_norm [simp]: "json_eq a (json_norm b) \<longleftrightarrow> json_eq a b"
  by (simp add: json_eq_def)

lemma checked_stored: "list_all (checked_job h) m \<Longrightarrow> list_all (checked_job h) (stored_jobs m)"
  by (auto simp: list_all_iff stored_jobs_def checked_job_def stored_job_def)

lemma checked_step:
  assumes "dep_sanitize deps = sanitizeResult h" "jobs_step deps m m'" "list_all (checked_job h) m"
  shows "list_all (checked_job h) m'"
  using assms(2,3)
proof (induction rule: jobs_step.induct)
  case (appended m j)
  then show ?case by (simp add: admits_def checked_job_def)
next
  case (moved i m j)
  have "checked_job h j"
    using moved(2) assms(1) sanitized_meets json_eq_refl
    unfolding checked_job_def job_edge_def same_job_def by fastforce
  then show ?case using moved(3) by (auto simp: list_all_iff dest!: set_update_subset_insert [THEN subsetD])
qed

section \<open>A concrete host\<close>

definition sample_host :: result_host where
  "sample_host = \<lparr>rh_digest = (\<lambda>_. ''0123456789abcdef0123456789abcdef''), rh_number_text = (\<lambda>_. ''0.5''),
     rh_date_parse = (\<lambda>_. None)\<rparr>"

definition sample_release :: string where
  "sample_release = ''12345678-1234-4234-8234-123456789abc''"

definition restart_job :: job where
  "restart_job = (sample_job JobRunning)\<lparr>job_operation := ''app.node.restart'',
     job_payload := JObj [(''applicationId'', JStr sample_release), (''releaseId'', JStr sample_release),
       (''runtime'', JObj [(''port'', JInt 3000), (''healthPath'', JStr ''/health'')])]\<rparr>"

definition restart_result :: js where
  "restart_result = JObj [(''releaseId'', JStr sample_release),
     (''serviceName'', JStr ''yunpanel-node-0123456789abcdef.service''), (''port'', JInt 3000),
     (''healthPath'', JStr ''/health''), (''healthy'', JBool True), (''restarted'', JBool True),
     (''note'', JStr ''dropped'')]"

lemma restart_accepted: "is_ok (sanitizeResult sample_host restart_job restart_result)"
  by code_simp

definition checking_deps :: job_deps where
  "checking_deps = sample_deps\<lparr>dep_sanitize := sanitizeResult sample_host\<rparr>"

section \<open>Properties\<close>

text \<open>C34 Results match their jobs. For every operation of the queue, a result that is accepted has, in the
  members the specification lists, exactly the values the queued job demands: the identities, revisions and
  digests of its payload, its own id where the result names the job, the service name derived from the
  application, and the confirmations the operation needs.\<close>

theorem accepted_results_match_their_jobs:
  assumes "sanitizeResult h job v = Inr r"
  shows "meets r (expected_fields h job)"
  by (rule sanitized_meets) (rule assms)

lemma accepted_results_match_their_jobs_witness:
  "\<exists>r. sanitizeResult sample_host restart_job restart_result = Inr r \<and> meets r (expected_fields sample_host restart_job) \<and>
     expected_fields sample_host restart_job \<noteq> []"
proof -
  obtain r where r: "sanitizeResult sample_host restart_job restart_result = Inr r"
    using restart_accepted by (auto simp: is_ok_iff)
  have "expected_fields sample_host restart_job \<noteq> []" by code_simp
  with r accepted_results_match_their_jobs [OF r] show ?thesis by blast
qed

text \<open>C35 Recorded results. Under any requests, clock readings and write failures, and from an empty file or one
  with the same property, every succeeded job of the queue, in memory and on disk, holds, in the form JSON
  keeps, a result its sanitiser returned for that job and that meets the specification of its operation.\<close>

theorem recorded_results_were_checked:
  assumes "dep_sanitize deps = sanitizeResult h" "\<forall>m. map_option file_jobs f = Some (JsonFile m) \<longrightarrow> list_all (checked_job h) m"
  shows "in_store (list_all (checked_job h)) (run_jobs deps rs (createJobRegistry f ws))"
proof -
  have "in_store (list_all (checked_job h)) (createJobRegistry f ws)"
    using assms(2) by (auto simp: in_store_def createJobRegistry_def split: option.splits)
  moreover have "keeps (in_store (list_all (checked_job h))) (handle_job deps r)" for r
    using checked_step [OF assms(1)] checked_stored by (rule keeps_in_store)
  ultimately show ?thesis using run_jobs_keeps [of "in_store (list_all (checked_job h))" deps] by blast
qed

definition checked_run :: job_store where
  "checked_run = run_jobs checking_deps [CompleteJob 5 ''local'' ''job-0001'' ''succeeded'' restart_result JNull]
     (createJobRegistry (Some (JsonFile (jobs_text [restart_job]))) [])"

lemma recorded_results_were_checked_witness:
  "in_store (list_all (checked_job sample_host)) checked_run \<and> map job_status (memory checked_run) = [JobSucceeded]"
proof
  have "list_all (checked_job sample_host) [restart_job]"
    by (simp add: checked_job_def restart_job_def sample_job_def)
  then have "list_all (checked_job sample_host) (stored_jobs [restart_job])" by (rule checked_stored)
  then show "in_store (list_all (checked_job sample_host)) checked_run"
    unfolding checked_run_def by (intro recorded_results_were_checked) (simp_all add: checking_deps_def)
  show "map job_status (memory checked_run) = [JobSucceeded]" by code_simp
qed

end
