(* ===== verification/DomainHierarchy.thy ===== *)
theory DomainHierarchy
  imports JsValue
begin

text \<open>
  The hierarchy of domains (\<open>apps/api/src/domain-hierarchy.js\<close>): a domain may name a parent, and the
  ancestors are walked up to the root to keep the hierarchy free of cycles and on one server.

  A domain is the object the registry holds; \<open>Map\<close> and \<open>Set\<close> compare its identifiers like \<open>===\<close>.
\<close>

section \<open>The checks\<close>

definition hierarchy_error :: "string \<Rightarrow> string \<Rightarrow> jerr" where
  "hierarchy_error c msg = Err ''DomainHierarchyError'' (Some c) msg"

abbreviation domain_id :: "js \<Rightarrow> js" where "domain_id d \<equiv> jget d ''id''"

abbreviation parent_of :: "js \<Rightarrow> js" where "parent_of d \<equiv> jget d ''parentDomainId''"

text \<open>The default of a parameter.\<close>

definition default_null :: "js \<Rightarrow> js" where
  "default_null v = (if v = JUndef then JNull else v)"

text \<open>\<open>new Map(domains.map((domain) => [domain.id, domain]))\<close>: the last domain with a key stays.\<close>

definition byId :: "js list \<Rightarrow> js \<Rightarrow> js option" where
  "byId domains key = find (\<lambda>d. strict_eq (domain_id d) key) (rev domains)"

definition visited_has :: "js list \<Rightarrow> js \<Rightarrow> bool" where
  "visited_has visited key = list_ex (strict_eq key) visited"

lemma byId_SomeD: "byId ds key = Some a \<Longrightarrow> a \<in> set ds \<and> domain_id a = key \<and> strict_eq key key"
  by (auto simp: byId_def dest!: find_SomeD dest: strict_eq_imp_eq)

lemma visited_has_iff: "strict_eq k k \<Longrightarrow> visited_has vis k \<longleftrightarrow> k \<in> set vis"
  by (auto simp: visited_has_def list_ex_iff dest: strict_eq_imp_eq)

text \<open>The loop over the ancestors, from the identifier of the next one.\<close>

function ancestor_walk :: "js list \<Rightarrow> js \<Rightarrow> js list \<Rightarrow> js \<Rightarrow> unit res" where
  "ancestor_walk domains serverId visited key =
     (case byId domains key of
        None \<Rightarrow> Inl (hierarchy_error ''parent_domain_not_found'' ''An ancestor domain does not exist'')
      | Some ancestor \<Rightarrow>
          if visited_has visited (domain_id ancestor)
          then Inl (hierarchy_error ''domain_parent_cycle'' ''Domain hierarchy cannot contain a cycle'')
          else if \<not> strict_eq (jget ancestor ''serverId'') serverId
          then Inl (hierarchy_error ''parent_server_mismatch'' ''Parent and subdomain must belong to the same server'')
          else if is_nullish (parent_of ancestor) then Inr ()
          else ancestor_walk domains serverId (domain_id ancestor # visited) (parent_of ancestor))"
  by pat_completeness auto

lemma fewer_unvisited:
  assumes "byId ds key = Some a" "\<not> visited_has vis (domain_id a)"
  shows "length (filter (\<lambda>d. \<not> visited_has (domain_id a # vis) (domain_id d)) ds)
    < length (filter (\<lambda>d. \<not> visited_has vis (domain_id d)) ds)"
proof -
  let ?p = "\<lambda>d. \<not> visited_has vis (domain_id d)" and ?q = "\<lambda>d. \<not> visited_has (domain_id a # vis) (domain_id d)"
  have a: "a \<in> set (filter ?p ds)" "\<not> ?q a"
    using byId_SomeD [OF assms(1)] assms(2) by (auto simp: visited_has_def)
  have "filter ?q ds = filter ?q (filter ?p ds)"
    by (auto simp: visited_has_def intro: filter_cong)
  then show ?thesis using length_filter_less [where P = ?q, OF a] by metis
qed

termination ancestor_walk
  by (relation "measure (\<lambda>(ds, _, vis, _). length (filter (\<lambda>d. \<not> visited_has vis (domain_id d)) ds))")
    (auto simp: fewer_unvisited)

declare ancestor_walk.simps [simp del]

text \<open>The name of the domain ends with a dot and the name of its parent.\<close>

definition below :: "js \<Rightarrow> js \<Rightarrow> bool" where
  "below d parent = (is_string (jget d ''primaryDomain'') \<and> is_string (jget parent ''primaryDomain'') \<and>
     ends_with (str_of (jget d ''primaryDomain'')) (CHR ''.'' # str_of (jget parent ''primaryDomain'')))"

definition parent_id_ok :: "js \<Rightarrow> bool" where
  "parent_id_ok v = (is_string v \<and> str_of v \<noteq> [] \<and> length (str_of v) \<le> 128)"

definition validateDomainParent :: "js list \<Rightarrow> js \<Rightarrow> js res" where
  "validateDomainParent domains d =
     (let i = default_null (domain_id d); parentDomainId = default_null (parent_of d) in
      if parentDomainId = JNull then Inr JNull
      else if \<not> parent_id_ok parentDomainId
      then Inl (hierarchy_error ''invalid_parent_domain'' ''Parent domain ID must be a non-empty string or null'')
      else case byId domains parentDomainId of
        None \<Rightarrow> Inl (hierarchy_error ''parent_domain_not_found'' ''Parent domain does not exist'')
      | Some parent \<Rightarrow>
          bnd (ancestor_walk domains (jget d ''serverId'') (if i = JNull then [] else [i]) parentDomainId) (\<lambda>_.
          if \<not> below d parent
          then Inl (hierarchy_error ''invalid_subdomain_parent'' ''Subdomain must be below the selected primary domain'')
          else Inr (domain_id parent)))"

fun check_ids :: "js list \<Rightarrow> js list \<Rightarrow> unit res" where
  "check_ids ids [] = Inr ()"
| "check_ids ids (d # ds) =
     (if \<not> truthy d \<or> \<not> is_string (domain_id d) \<or> str_of (domain_id d) = [] \<or> domain_id d \<in> set ids
      then Inl (hierarchy_error ''invalid_domain_hierarchy'' ''Domain IDs must be present and unique'')
      else check_ids (domain_id d # ids) ds)"

definition validateDomainHierarchy :: "js list \<Rightarrow> unit res" where
  "validateDomainHierarchy domains =
     bnd (check_ids [] domains) (\<lambda>_. bnd (map_res (validateDomainParent domains) domains) (\<lambda>_. Inr ()))"

section \<open>The walk\<close>

text \<open>The ancestors from an identifier up to a root.\<close>

fun lineage :: "js list \<Rightarrow> js \<Rightarrow> js list \<Rightarrow> bool" where
  "lineage ds key [] = False"
| "lineage ds key (a # as) =
     (byId ds key = Some a \<and> (if is_nullish (parent_of a) then as = [] else lineage ds (parent_of a) as))"

definition open_path :: "js \<Rightarrow> js list \<Rightarrow> js list \<Rightarrow> bool" where
  "open_path serverId visited path = (distinct (map domain_id path) \<and> set (map domain_id path) \<inter> set visited = {} \<and>
     list_all (\<lambda>a. strict_eq (jget a ''serverId'') serverId) path)"

lemma lineage_known: "lineage ds key path \<Longrightarrow> set path \<subseteq> set ds"
  by (induction path arbitrary: key) (auto dest: byId_SomeD split: if_splits)

lemma walk_follows: "lineage ds key path \<Longrightarrow> open_path sid vis path \<Longrightarrow> ancestor_walk ds sid vis key = Inr ()"
proof (induction path arbitrary: key vis)
  case (Cons a as)
  have b: "byId ds key = Some a" using Cons.prems(1) by simp
  have "\<not> visited_has vis (domain_id a)" "strict_eq (jget a ''serverId'') sid"
    using Cons.prems(2) visited_has_iff byId_SomeD [OF b] by (auto simp: open_path_def)
  moreover have "ancestor_walk ds sid (domain_id a # vis) (parent_of a) = Inr ()" if "\<not> is_nullish (parent_of a)"
    using Cons that by (intro Cons.IH) (auto simp: open_path_def)
  ultimately show ?case using b by (subst ancestor_walk.simps) simp
qed simp

lemma walk_finds: "ancestor_walk ds sid vis key = Inr () \<Longrightarrow> \<exists>path. lineage ds key path \<and> open_path sid vis path"
proof (induction ds sid vis key rule: ancestor_walk.induct)
  case (1 ds sid vis key)
  obtain a where b: "byId ds key = Some a" and v: "\<not> visited_has vis (domain_id a)"
    and s: "strict_eq (jget a ''serverId'') sid"
    using "1.prems" by (subst (asm) ancestor_walk.simps) (auto split: option.splits if_splits)
  have n: "domain_id a \<notin> set vis" using v visited_has_iff byId_SomeD [OF b] by auto
  show ?case
  proof (cases "is_nullish (parent_of a)")
    case True
    with b n s show ?thesis by (intro exI [of _ "[a]"]) (simp add: open_path_def)
  next
    case False
    have "ancestor_walk ds sid (domain_id a # vis) (parent_of a) = Inr ()"
      using "1.prems" b v s False by (subst (asm) ancestor_walk.simps) simp
    then obtain path where "lineage ds (parent_of a) path" "open_path sid (domain_id a # vis) path"
      using "1.IH" b v s False by blast
    with b n s False show ?thesis by (intro exI [of _ "a # path"]) (auto simp: open_path_def)
  qed
qed

lemma lineage_short: "lineage ds key path \<Longrightarrow> open_path sid vis path \<Longrightarrow> length path \<le> length ds"
  using lineage_known card_mono [of "set ds" "set path"] card_length [of ds]
  by (fastforce simp: open_path_def distinct_map distinct_card)

end
