(* ===== verification/DomainGuarantees.thy ===== *)
theory DomainGuarantees
  imports DomainHierarchy
begin

text \<open>What the checks of the domain hierarchy promise: the walk over the ancestors ends, and a whole
  hierarchy is accepted exactly when each domain is right about its own parent.\<close>

section \<open>The reference definition\<close>

definition has_id :: "js \<Rightarrow> bool" where
  "has_id d = (is_string (domain_id d) \<and> str_of (domain_id d) \<noteq> [])"

definition parent_ok :: "js list \<Rightarrow> js \<Rightarrow> bool" where
  "parent_ok ds d = (is_nullish (parent_of d) \<or>
     (parent_id_ok (parent_of d) \<and>
      list_ex (\<lambda>e. domain_id e = parent_of d \<and> strict_eq (jget e ''serverId'') (jget d ''serverId'') \<and> below d e) ds))"

definition hierarchy_ok :: "js list \<Rightarrow> bool" where
  "hierarchy_ok ds = (list_all has_id ds \<and> distinct (map domain_id ds) \<and> list_all (parent_ok ds) ds)"

section \<open>Lemmas\<close>

lemma check_ids_iff:
  "check_ids ids ds = Inr () \<longleftrightarrow> list_all has_id ds \<and> distinct (map domain_id ds) \<and> set ids \<inter> set (map domain_id ds) = {}"
proof (induction ds arbitrary: ids)
  case (Cons d ds)
  have "has_id d \<Longrightarrow> truthy d" by (cases d) (auto simp: has_id_def jget_def)
  with Cons show ?case by (auto simp: has_id_def)
qed simp

lemma map_res_unit: "bnd (map_res f xs) (\<lambda>_. Inr ()) = Inr () \<longleftrightarrow> (\<forall>x \<in> set xs. is_ok (f x))"
proof (induction xs)
  case (Cons x xs)
  then show ?case by (cases "f x"; cases "map_res f xs") auto
qed simp

lemma has_id_eq: "has_id d \<Longrightarrow> strict_eq (domain_id d) (domain_id d)"
  by (cases "domain_id d") (auto simp: has_id_def)

lemma byId_unique:
  assumes "distinct (map domain_id ds)" "e \<in> set ds" "strict_eq (domain_id e) (domain_id e)"
  shows "byId ds (domain_id e) = Some e"
proof (cases "byId ds (domain_id e)")
  case None
  with assms show ?thesis by (auto simp: byId_def dest: find_NoneD)
next
  case (Some a)
  then have "a \<in> set ds" "domain_id a = domain_id e" using byId_SomeD by auto
  with Some assms show ?thesis by (metis distinct_map inj_on_eq_iff)
qed

definition name_length :: "js \<Rightarrow> nat" where
  "name_length d = length (str_of (jget d ''primaryDomain''))"

lemma below_shorter: "below d e \<Longrightarrow> name_length e < name_length d"
  by (auto simp: below_def ends_with_def name_length_def)

lemma parent_ok_byId:
  assumes "hierarchy_ok ds" "d \<in> set ds" "\<not> is_nullish (parent_of d)"
  obtains e where "byId ds (parent_of d) = Some e" "e \<in> set ds" "domain_id e = parent_of d"
    "strict_eq (jget e ''serverId'') (jget d ''serverId'')" "below d e" "parent_id_ok (parent_of d)"
proof -
  obtain e where e: "e \<in> set ds" "domain_id e = parent_of d" "below d e"
    "strict_eq (jget e ''serverId'') (jget d ''serverId'')" "parent_id_ok (parent_of d)"
    using assms by (auto simp: hierarchy_ok_def parent_ok_def list_all_iff list_ex_iff)
  have "byId ds (domain_id e) = Some e"
    using assms(1) e(1) by (intro byId_unique has_id_eq) (auto simp: hierarchy_ok_def list_all_iff)
  with e show thesis using that by simp
qed

text \<open>In a hierarchy that is right locally the names get shorter, so the walk never meets a visited one.\<close>

lemma walk_up:
  assumes "hierarchy_ok ds"
  shows "c \<in> set ds \<Longrightarrow> \<not> is_nullish (parent_of c) \<Longrightarrow> key = parent_of c \<Longrightarrow> jget c ''serverId'' = sid \<Longrightarrow>
    \<forall>v \<in> set vis. \<exists>x \<in> set ds. domain_id x = v \<and> name_length c \<le> name_length x \<Longrightarrow>
    ancestor_walk ds sid vis key = Inr ()"
  using assms
proof (induction ds sid vis key arbitrary: c rule: ancestor_walk.induct)
  case (1 ds sid vis key)
  obtain e where e: "byId ds key = Some e" "e \<in> set ds" "domain_id e = key"
    "strict_eq (jget e ''serverId'') sid" "below c e"
    using parent_ok_byId [OF "1.prems"(6,1,2)] "1.prems"(3,4) by metis
  have inj: "x = e" if "x \<in> set ds" "domain_id x = domain_id e" for x
    using "1.prems"(6) that e(2) by (metis hierarchy_ok_def distinct_map inj_on_eq_iff)
  have n: "\<not> visited_has vis (domain_id e)"
  proof
    assume "visited_has vis (domain_id e)"
    then obtain x where "x \<in> set ds" "domain_id x = domain_id e" "name_length c \<le> name_length x"
      using "1.prems"(5) byId_SomeD [OF e(1)] visited_has_iff e(3) by metis
    with inj [of x] below_shorter [OF e(5)] show False by simp
  qed
  show ?case
  proof (cases "is_nullish (parent_of e)")
    case True
    with e n show ?thesis by (subst ancestor_walk.simps) simp
  next
    case False
    have "ancestor_walk ds sid (domain_id e # vis) (parent_of e) = Inr ()"
    proof (rule "1.IH" [OF e(1) n _ False e(2) False refl])
      show "\<not> \<not> strict_eq (jget e ''serverId'') sid" using e(4) by simp
      show "jget e ''serverId'' = sid" using e(4) by (rule strict_eq_imp_eq)
      show "\<forall>v \<in> set (domain_id e # vis). \<exists>x \<in> set ds. domain_id x = v \<and> name_length e \<le> name_length x"
        using "1.prems"(5) below_shorter [OF e(5)] e(2) by fastforce
      show "hierarchy_ok ds" by (rule "1.prems"(6))
    qed
    with e n False show ?thesis by (subst ancestor_walk.simps) simp
  qed
qed

lemma validate_parent_complete:
  assumes "hierarchy_ok ds" "d \<in> set ds"
  shows "is_ok (validateDomainParent ds d)"
proof (cases "is_nullish (parent_of d)")
  case True
  then show ?thesis by (cases "parent_of d") (auto simp: validateDomainParent_def default_null_def)
next
  case False
  obtain e where e: "byId ds (parent_of d) = Some e" "below d e" "parent_id_ok (parent_of d)"
    using parent_ok_byId [OF assms False] by metis
  have "has_id d" using assms by (simp add: hierarchy_ok_def list_all_iff)
  then have i: "default_null (domain_id d) = domain_id d" "domain_id d \<noteq> JNull"
    by (auto simp: default_null_def has_id_def)
  have "ancestor_walk ds (jget d ''serverId'') [domain_id d] (parent_of d) = Inr ()"
    by (rule walk_up [OF assms False refl refl]) (use assms(2) in auto)
  moreover have "default_null (parent_of d) = parent_of d" "parent_of d \<noteq> JNull"
    using False by (auto simp: default_null_def)
  ultimately show ?thesis using e i by (simp add: validateDomainParent_def Let_def)
qed

lemma validate_parent_sound:
  assumes "is_ok (validateDomainParent ds d)"
  shows "parent_ok ds d"
proof (cases "is_nullish (parent_of d)")
  case False
  then have p: "default_null (parent_of d) = parent_of d" "parent_of d \<noteq> JNull"
    by (auto simp: default_null_def)
  obtain r where "validateDomainParent ds d = Inr r" using assms by (auto simp: is_ok_iff)
  then obtain e vis where e: "parent_id_ok (parent_of d)" "byId ds (parent_of d) = Some e" "below d e"
    and w: "ancestor_walk ds (jget d ''serverId'') vis (parent_of d) = Inr ()"
    unfolding validateDomainParent_def Let_def p by (auto simp: p split: option.splits if_splits)
  have "strict_eq (jget e ''serverId'') (jget d ''serverId'')"
    using w e(2) by (subst (asm) ancestor_walk.simps) (auto split: if_splits)
  with e show ?thesis using byId_SomeD [OF e(2)] by (auto simp: parent_ok_def list_ex_iff)
qed (simp add: parent_ok_def)

section \<open>Properties\<close>

text \<open>Ancestor walk. Whatever the domains, cycles and missing parents included, the walk over the ancestors of
  a domain ends; it accepts exactly when the ancestors form a path up to a root, at most as long as there are
  domains, that repeats no domain, meets no visited one and stays on the server.\<close>

theorem ancestor_walk_ends_at_a_root:
  "ancestor_walk ds sid vis key = Inr () \<longleftrightarrow>
   (\<exists>path. lineage ds key path \<and> open_path sid vis path \<and> length path \<le> length ds)"
  using walk_follows walk_finds lineage_short by blast

text \<open>C40 Local check. A hierarchy is accepted exactly when the identifiers are present and unique and each domain
  is right about its own parent: it exists, is on the same server and its name is a proper suffix, after a dot.
  The cycle check can then never fail.\<close>

theorem hierarchy_check_is_local:
  "validateDomainHierarchy ds = Inr () \<longleftrightarrow> hierarchy_ok ds"
proof
  assume "validateDomainHierarchy ds = Inr ()"
  then have "check_ids [] ds = Inr ()" "\<forall>d \<in> set ds. is_ok (validateDomainParent ds d)"
    unfolding validateDomainHierarchy_def by (auto simp: map_res_unit [symmetric])
  then show "hierarchy_ok ds"
    using validate_parent_sound by (auto simp: hierarchy_ok_def check_ids_iff list_all_iff)
next
  assume h: "hierarchy_ok ds"
  then have "check_ids [] ds = Inr ()" by (simp add: check_ids_iff hierarchy_ok_def)
  moreover have "\<forall>d \<in> set ds. is_ok (validateDomainParent ds d)" using validate_parent_complete [OF h] by blast
  ultimately show "validateDomainHierarchy ds = Inr ()"
    unfolding validateDomainHierarchy_def by (simp add: map_res_unit)
qed

end
