(* ===== verification/LocalExecutor.thy ===== *)
theory LocalExecutor
  imports JobProofs
begin

text \<open>
  The executor of queued jobs inside the panel process (\<open>apps/api/src/local-job-executor.js\<close>): it claims
  the next job, runs the host operation, saves the outcome and reconciles the resource, and halts for good
  when it cannot tell what has been saved.

  The job registry, the host operation, the optional recorder and the reconciliation are arguments, as in
  the code. A run is one step: calls that overlap with a run share its promise (\<open>active\<close>), and a start
  or a run while a stop waits for it is refused (\<open>stopping\<close>); neither is visible here. Values are plain
  data, so \<open>structuredClone\<close> returns an equal value.
\<close>

section \<open>What the executor is given\<close>

record reconciliation_answer =
  ra_jobId :: string
  ra_serverId :: string
  ra_status :: job_status
  ra_flag :: bool

text \<open>\<open>beginReconciliation\<close> and \<open>acknowledgeReconciliation\<close> are there together or not at all.\<close>

record 'q exec_registry =
  e_listQueued :: "string \<Rightarrow> ('q, public_job list) sm"
  e_claimNext :: "string \<Rightarrow> ('q, (public_job \<times> js) option) sm"
  e_complete :: "string \<Rightarrow> string \<Rightarrow> string \<Rightarrow> js \<Rightarrow> js \<Rightarrow> ('q, public_job) sm"
  e_reconciliation ::
    "((string \<Rightarrow> string \<Rightarrow> ('q, reconciliation_answer) sm) \<times> (string \<Rightarrow> string \<Rightarrow> ('q, reconciliation_answer) sm)) option"

record execution_context =
  cx_jobId :: string
  cx_serverId :: string
  cx_resourceType :: string
  cx_resourceId :: string

record 'h exec_host =
  h_supports :: "(string \<Rightarrow> bool res) option"
  h_execute :: "string \<Rightarrow> js \<Rightarrow> execution_context \<Rightarrow> ('h, js) sm"
  h_record :: "(string \<Rightarrow> execution_context \<Rightarrow> js \<Rightarrow> js \<Rightarrow> ('h, unit) sm) option"
  h_reconcile :: "public_job \<Rightarrow> ('h, js) sm"
  h_error :: "jerr \<Rightarrow> js"

section \<open>Faults\<close>

datatype phase = PhaseClaim | PhaseExecute | PhaseComplete | PhaseReconcile

record executor_fault =
  ft_code :: string
  ft_message :: string
  ft_phase :: phase
  ft_jobId :: "string option"

fun FAULTS :: "phase \<Rightarrow> string \<times> string" where
  "FAULTS PhaseClaim = (''local_claim_unconfirmed'',
     ''Local job claim could not be confirmed. Inspect stored job state before recovery.'')"
| "FAULTS PhaseExecute = (''local_claim_invalid'',
     ''Local job identity is inconsistent. Host execution was not started.'')"
| "FAULTS PhaseComplete = (''local_completion_unconfirmed'',
     ''Host execution ended but its saved result could not be confirmed. Do not repeat the host operation.'')"
| "FAULTS PhaseReconcile = (''local_reconciliation_failed'',
     ''The job result is saved but resource reconciliation is incomplete. Inspect state before recovery.'')"

definition faultError :: "executor_fault \<Rightarrow> jerr" where
  "faultError f = Err ''LocalExecutorError'' (Some (ft_code f)) (ft_message f)"

definition unsupportedOperationError :: jerr where
  "unsupportedOperationError = Err ''LocalExecutorError'' (Some ''local_operation_not_migrated'')
     ''The next queued operation has not been migrated to the local runtime.''"

text \<open>
  \<open>x_timer\<close> is the pending timer: its delay and the generation it belongs to. \<open>x_executed\<close> is no variable
  of the code: it lists the jobs \<open>executeOperation\<close> was called for.
\<close>

record ('q, 'h) executor =
  x_registry :: 'q
  x_host :: 'h
  x_stopped :: bool
  x_timer :: "(nat \<times> nat) option"
  x_epoch :: nat
  x_fault :: "executor_fault option"
  x_executed :: "string list"

definition createLocalJobExecutor :: "'q \<Rightarrow> 'h \<Rightarrow> ('q, 'h) executor" where
  "createLocalJobExecutor q h = \<lparr>x_registry = q, x_host = h, x_stopped = True, x_timer = None, x_epoch = 0,
     x_fault = None, x_executed = []\<rparr>"

definition on_registry :: "('q, 'a) sm \<Rightarrow> (('q, 'h) executor, 'a) sm" where
  "on_registry m x = (case m (x_registry x) of (r, q) \<Rightarrow> (r, x\<lparr>x_registry := q\<rparr>))"

definition on_machine :: "('h, 'a) sm \<Rightarrow> (('q, 'h) executor, 'a) sm" where
  "on_machine m x = (case m (x_host x) of (r, h) \<Rightarrow> (r, x\<lparr>x_host := h\<rparr>))"

definition halt :: "phase \<Rightarrow> string option \<Rightarrow> (('q, 'h) executor, 'a) sm" where
  "halt p jobId =
     (let fault = \<lparr>ft_code = fst (FAULTS p), ft_message = snd (FAULTS p), ft_phase = p, ft_jobId = jobId\<rparr> in
      sbind (smod (\<lambda>x. x\<lparr>x_fault := Some fault, x_stopped := True, x_epoch := x_epoch x + 1, x_timer := None\<rparr>))
        (\<lambda>_. sthrow (faultError fault)))"

text \<open>\<open>try { m } catch { throw halt(p, jobId) }\<close>\<close>

definition or_halt :: "phase \<Rightarrow> string option \<Rightarrow> (('q, 'h) executor, 'a) sm \<Rightarrow> (('q, 'h) executor, 'a) sm" where
  "or_halt p jobId m = scatch m (\<lambda>_. halt p jobId)"

section \<open>One run\<close>

definition id_ok :: "public_job \<Rightarrow> bool" where
  "id_ok j = (8 \<le> length (job_id j) \<and> length (job_id j) \<le> 128)"

definition validQueuedJob :: "public_job \<Rightarrow> string \<Rightarrow> bool" where
  "validQueuedJob j serverId = (id_ok j \<and> job_serverId j = serverId \<and> job_status j = JobQueued)"

definition validClaim :: "public_job \<Rightarrow> js \<Rightarrow> string \<Rightarrow> bool" where
  "validClaim j envelope serverId = (id_ok j \<and> job_serverId j = serverId \<and> job_status j = JobRunning \<and>
     jget envelope ''id'' = JStr (job_id j) \<and> jget envelope ''operation'' = JStr (job_operation j) \<and>
     is_object (jget envelope ''payload''))"

definition executionContext :: "public_job \<Rightarrow> string \<Rightarrow> execution_context" where
  "executionContext j serverId = \<lparr>cx_jobId = job_id j, cx_serverId = serverId, cx_resourceType = job_resourceType j,
     cx_resourceId = job_resourceId j\<rparr>"

text \<open>\<open>supportsOperation(operation) === true\<close>, whose throw halts.\<close>

definition check_supported :: "(string \<Rightarrow> bool res) \<Rightarrow> public_job \<Rightarrow> (('q, 'h) executor, bool) sm" where
  "check_supported supports j =
     (case supports (job_operation j) of
        Inl _ \<Rightarrow> halt PhaseExecute (Some (job_id j))
      | Inr b \<Rightarrow> sret b)"

definition selectNextJob :: "'q exec_registry \<Rightarrow> 'h exec_host \<Rightarrow> string \<Rightarrow> (('q, 'h) executor, string option) sm" where
  "selectNextJob reg host serverId =
     (case h_supports host of
        None \<Rightarrow> sret None
      | Some supports \<Rightarrow>
          sbind (or_halt PhaseClaim None (on_registry (e_listQueued reg serverId))) (\<lambda>queued.
          case queued of
            [] \<Rightarrow> sret None
          | j # _ \<Rightarrow>
              if \<not> validQueuedJob j serverId then halt PhaseClaim None
              else
                sbind (check_supported supports j) (\<lambda>supported.
                if \<not> supported then sthrow unsupportedOperationError else sret (Some (job_id j)))))"

text \<open>The recorder gets copies; it is called when both are truthy, and its failure is swallowed.\<close>

definition record_evidence ::
  "'h exec_host \<Rightarrow> string \<Rightarrow> public_job \<Rightarrow> js \<Rightarrow> js \<Rightarrow> (('q, 'h) executor, unit) sm" where
  "record_evidence host serverId j payload result =
     (case h_record host of
        None \<Rightarrow> sret ()
      | Some recorder \<Rightarrow>
          if truthy payload \<and> truthy result
          then scatch (on_machine (recorder (job_operation j) (executionContext j serverId) payload result)) (\<lambda>_. sret ())
          else sret ())"

text \<open>The completion: its status, result and error.\<close>

definition run_operation ::
  "'h exec_host \<Rightarrow> string \<Rightarrow> public_job \<Rightarrow> js \<Rightarrow> (('q, 'h) executor, string \<times> js \<times> js) sm" where
  "run_operation host serverId j payload =
     sbind (smod (\<lambda>x. x\<lparr>x_executed := x_executed x @ [job_id j]\<rparr>)) (\<lambda>_.
     scatch
       (sbind (on_machine (h_execute host (job_operation j) payload (executionContext j serverId))) (\<lambda>result.
        sbind (record_evidence host serverId j payload result) (\<lambda>_. sret (''succeeded'', result, JUndef))))
       (\<lambda>e. sret (''failed'', JUndef, h_error host e)))"

definition inconsistent :: "string \<Rightarrow> jerr" where
  "inconsistent msg = Err ''Error'' None msg"

definition begin_reconciliation :: "'q exec_registry \<Rightarrow> string \<Rightarrow> string \<Rightarrow> (('q, 'h) executor, unit) sm" where
  "begin_reconciliation reg serverId jobId =
     (case e_reconciliation reg of
        None \<Rightarrow> sret ()
      | Some (begin_call, _) \<Rightarrow>
          or_halt PhaseComplete (Some jobId)
            (sbind (on_registry (begin_call serverId jobId)) (\<lambda>p.
             if ra_jobId p \<noteq> jobId \<or> ra_serverId p \<noteq> serverId \<or> ra_status p \<noteq> JobRunning \<or> \<not> ra_flag p
             then sthrow (inconsistent ''Inconsistent durable reconciliation acknowledgement'')
             else sret ())))"

definition save_completion ::
  "'q exec_registry \<Rightarrow> string \<Rightarrow> string \<Rightarrow> string \<times> js \<times> js \<Rightarrow> (('q, 'h) executor, public_job) sm" where
  "save_completion reg serverId jobId c =
     (case c of (status, result, error) \<Rightarrow>
        or_halt PhaseComplete (Some jobId)
          (sbind (on_registry (e_complete reg serverId jobId status result error)) (\<lambda>t.
           if job_id t \<noteq> jobId \<or> job_serverId t \<noteq> serverId \<or> job_status_text (job_status t) \<noteq> status
           then sthrow (inconsistent ''Inconsistent completion acknowledgement'')
           else sret t)))"

definition acknowledge :: "'q exec_registry \<Rightarrow> string \<Rightarrow> string \<Rightarrow> job_status \<Rightarrow> (('q, 'h) executor, unit) sm" where
  "acknowledge reg serverId jobId status =
     (case e_reconciliation reg of
        None \<Rightarrow> sret ()
      | Some (_, acknowledge_call) \<Rightarrow>
          sbind (on_registry (acknowledge_call serverId jobId)) (\<lambda>a.
          if ra_jobId a \<noteq> jobId \<or> ra_serverId a \<noteq> serverId \<or> ra_status a \<noteq> status \<or> \<not> ra_flag a
          then sthrow (inconsistent ''Inconsistent durable reconciliation completion'')
          else sret ()))"

definition reconcile_job ::
  "'q exec_registry \<Rightarrow> 'h exec_host \<Rightarrow> string \<Rightarrow> public_job \<Rightarrow> js \<Rightarrow> (('q, 'h) executor, js) sm" where
  "reconcile_job reg host serverId terminal payload =
     or_halt PhaseReconcile (Some (job_id terminal))
       (sbind (on_machine (h_reconcile host (terminal\<lparr>job_payload := payload\<rparr>))) (\<lambda>reconciliation.
        sbind (acknowledge reg serverId (job_id terminal) (job_status terminal)) (\<lambda>_. sret reconciliation)))"

text \<open>What follows a valid claim.\<close>

definition perform ::
  "'q exec_registry \<Rightarrow> 'h exec_host \<Rightarrow> string \<Rightarrow> public_job \<Rightarrow> js \<Rightarrow> (('q, 'h) executor, public_job \<times> js) sm" where
  "perform reg host serverId j payload =
     sbind (run_operation host serverId j payload) (\<lambda>completion.
     sbind (begin_reconciliation reg serverId (job_id j)) (\<lambda>_.
     sbind (save_completion reg serverId (job_id j) completion) (\<lambda>terminal.
     sbind (reconcile_job reg host serverId terminal payload) (\<lambda>reconciliation.
     sret (terminal, reconciliation)))))"

text \<open>The claim, checked against the job that was selected and supported.\<close>

definition claim_job ::
  "'q exec_registry \<Rightarrow> 'h exec_host \<Rightarrow> string \<Rightarrow> string option \<Rightarrow> (('q, 'h) executor, (public_job \<times> js) option) sm" where
  "claim_job reg host serverId expected =
     sbind (or_halt PhaseClaim None (on_registry (e_claimNext reg serverId))) (\<lambda>claim.
     case claim of
       None \<Rightarrow> if expected \<noteq> None then halt PhaseClaim expected else sret None
     | Some (j, envelope) \<Rightarrow>
         if \<not> validClaim j envelope serverId then halt PhaseExecute None
         else if expected \<noteq> None \<and> expected \<noteq> Some (job_id j) then halt PhaseExecute (Some (job_id j))
         else case h_supports host of
           None \<Rightarrow> sret (Some (j, jget envelope ''payload''))
         | Some supports \<Rightarrow>
             sbind (check_supported supports j) (\<lambda>supported.
             if \<not> supported then halt PhaseExecute (Some (job_id j))
             else sret (Some (j, jget envelope ''payload''))))"

text \<open>The answer is \<open>None\<close> when nothing was claimed.\<close>

definition work :: "'q exec_registry \<Rightarrow> 'h exec_host \<Rightarrow> string \<Rightarrow> (('q, 'h) executor, (public_job \<times> js) option) sm" where
  "work reg host serverId =
     sbind (selectNextJob reg host serverId) (\<lambda>expected.
     sbind (claim_job reg host serverId expected) (\<lambda>claim.
     case claim of
       None \<Rightarrow> sret None
     | Some (j, payload) \<Rightarrow> sbind (perform reg host serverId j payload) (\<lambda>r. sret (Some r))))"

definition refuse_fault :: "(('q, 'h) executor, unit) sm" where
  "refuse_fault = sbind (sget x_fault) (\<lambda>f. case f of Some fault \<Rightarrow> sthrow (faultError fault) | None \<Rightarrow> sret ())"

definition runOnce :: "'q exec_registry \<Rightarrow> 'h exec_host \<Rightarrow> string \<Rightarrow> (('q, 'h) executor, (public_job \<times> js) option) sm" where
  "runOnce reg host serverId = sbind refuse_fault (\<lambda>_. work reg host serverId)"

section \<open>Polling\<close>

definition schedule :: "nat \<Rightarrow> nat \<Rightarrow> (('q, 'h) executor, unit) sm" where
  "schedule delay generation = smod (\<lambda>x.
     if x_stopped x \<or> x_timer x \<noteq> None \<or> generation \<noteq> x_epoch x then x
     else x\<lparr>x_timer := Some (delay, generation)\<rparr>)"

text \<open>The pending timer fires; \<open>onError\<close> gets the error of the run and can do nothing here.\<close>

definition fire :: "'q exec_registry \<Rightarrow> 'h exec_host \<Rightarrow> string \<Rightarrow> nat \<Rightarrow> (('q, 'h) executor, unit) sm" where
  "fire reg host serverId pollMs =
     sbind (sget x_timer) (\<lambda>timer.
     case timer of
       None \<Rightarrow> sret ()
     | Some (_, generation) \<Rightarrow>
         sbind (smod (\<lambda>x. x\<lparr>x_timer := None\<rparr>)) (\<lambda>_.
         sbind (sget (\<lambda>x. x_stopped x \<or> generation \<noteq> x_epoch x)) (\<lambda>over.
         if over then sret ()
         else
           scatch
             (sbind (runOnce reg host serverId) (\<lambda>r. schedule (if r \<noteq> None then 0 else pollMs) generation))
             (\<lambda>_. schedule pollMs generation))))"

definition start :: "(('q, 'h) executor, unit) sm" where
  "start =
     sbind refuse_fault (\<lambda>_.
     sbind (sget x_stopped) (\<lambda>stopped.
     if \<not> stopped then sret ()
     else
       sbind (smod (\<lambda>x. x\<lparr>x_stopped := False, x_epoch := x_epoch x + 1\<rparr>)) (\<lambda>_.
       sbind (sget x_epoch) (\<lambda>epoch. schedule 0 epoch))))"

definition stop :: "(('q, 'h) executor, unit) sm" where
  "stop = smod (\<lambda>x. x\<lparr>x_stopped := True, x_epoch := x_epoch x + 1, x_timer := None\<rparr>)"

end
