(* ===== verification/LocalRuntime.thy ===== *)
theory LocalRuntime
  imports LocalExecutor DurableJobs
begin

text \<open>
  The local runtime (\<open>apps/api/src/local-runtime.js\<close>): it binds the panel to its server, takes the lock of the
  executor, reconciles what an earlier process left, starts the executor and the refresh of the snapshot, and
  closes everything when one of them fails.

  The server registry, the lock and the snapshot provider act on a state of their own (\<open>'s\<close>), as the job
  registry (\<open>'q\<close>) and the host (\<open>'h\<close>) of the executor do. That the arguments have the methods that are
  called is said by their types here, not by \<open>validateDependencies\<close>.
\<close>

section \<open>Checks\<close>

definition runtime_error :: "string \<Rightarrow> string \<Rightarrow> jerr" where
  "runtime_error c msg = Err ''LocalRuntimeError'' (Some c) msg"

definition is_host_char :: "char \<Rightarrow> bool" where
  "is_host_char c = (is_lower_alnum c \<or> c = CHR ''.'' \<or> c = CHR ''-'')"

text \<open>\<open>/^[a-z0-9](?:[a-z0-9.-]*[a-z0-9])?$/\<close>\<close>

definition is_hostname :: "string \<Rightarrow> bool" where
  "is_hostname s = (s \<noteq> [] \<and> is_lower_alnum (hd s) \<and> is_lower_alnum (last s) \<and> list_all is_host_char s)"

definition normalizeHostname :: "js \<Rightarrow> string res" where
  "normalizeHostname v =
     (let invalid = Inl (runtime_error ''invalid_local_hostname'' ''Local runtime hostname is invalid'') in
      if \<not> is_string v \<or> length (str_of v) < 1 \<or> 253 < length (str_of v) then invalid
      else if \<not> is_hostname (to_lower (trim (str_of v))) then invalid
      else Inr (to_lower (trim (str_of v))))"

definition normalizeRuntimeVersion :: "js \<Rightarrow> string res" where
  "normalizeRuntimeVersion v =
     (if \<not> is_string v \<or> length (str_of v) < 1 \<or> 40 < length (str_of v) \<or> list_ex is_control (str_of v)
      then Inl (runtime_error ''invalid_local_runtime_version'' ''Local runtime version is invalid'')
      else Inr (str_of v))"

definition normalizeSnapshotInterval :: "js \<Rightarrow> int res" where
  "normalizeSnapshotInterval v =
     (if int_between 50 60000 v then Inr (int_of v)
      else Inl (runtime_error ''invalid_local_snapshot_interval''
                  ''Local runtime snapshot interval must be between 50 and 60000 milliseconds''))"

definition SNAPSHOT_FIELDS :: "string list" where
  "SNAPSHOT_FIELDS = [''inventory'', ''services'']"

text \<open>The loop over the fields: those present, in the order of \<open>SNAPSHOT_FIELDS\<close>.\<close>

fun snapshot_fields :: "js \<Rightarrow> string list \<Rightarrow> jobj res" where
  "snapshot_fields v [] = Inr []"
| "snapshot_fields v (field # rest) =
     (if \<not> obj_has (obj_of v) field then snapshot_fields v rest
      else if \<not> is_object (jget v field)
      then Inl (runtime_error ''local_runtime_snapshot_invalid'' (''Local runtime '' @ field @ '' snapshot is invalid''))
      else (case snapshot_fields v rest of Inl e \<Rightarrow> Inl e | Inr o' \<Rightarrow> Inr ((field, jget v field) # o')))"

definition normalizeSnapshotPayload :: "js \<Rightarrow> jobj res" where
  "normalizeSnapshotPayload v =
     (if is_nullish v then Inr []
      else if \<not> is_object v
      then Inl (runtime_error ''local_runtime_snapshot_invalid'' ''Local runtime snapshot provider returned invalid state'')
      else if extra_keys v SNAPSHOT_FIELDS
      then Inl (runtime_error ''local_runtime_snapshot_invalid''
                  ''Local runtime snapshot provider returned unsupported state'')
      else snapshot_fields v SNAPSHOT_FIELDS)"

text \<open>\<open>date_ok\<close> tells whether \<open>Date.parse\<close> gives a number.\<close>

definition assertBoundServer :: "(string \<Rightarrow> bool) \<Rightarrow> js \<Rightarrow> string \<Rightarrow> string \<Rightarrow> js res" where
  "assertBoundServer date_ok server serverId hostname =
     (if \<not> truthy server \<or> jget server ''id'' \<noteq> JStr serverId
      then Inl (runtime_error ''local_server_not_found'' ''Configured local server record was not found'')
      else if jget server ''executionMode'' \<noteq> JStr ''local''
      then Inl (runtime_error ''local_server_not_bound'' ''Configured server is not assigned to the local runtime'')
      else if \<not> is_string (jget server ''localBoundAt'') \<or> \<not> date_ok (str_of (jget server ''localBoundAt''))
      then Inl (runtime_error ''local_server_binding_invalid'' ''Configured local server binding is incomplete'')
      else case normalizeHostname (jget server ''hostname'') of
        Inl e \<Rightarrow> Inl e
      | Inr h \<Rightarrow>
          if h \<noteq> hostname
          then Inl (runtime_error ''local_server_hostname_mismatch''
                      ''Configured local server hostname does not match this runtime'')
          else Inr server)"

definition EXECUTOR_FAULT_CODES :: "string list" where
  "EXECUTOR_FAULT_CODES = [''local_claim_unconfirmed'', ''local_claim_invalid'', ''local_completion_unconfirmed'',
     ''local_reconciliation_failed'']"

definition EXECUTOR_FAULT_PHASES :: "string list" where
  "EXECUTOR_FAULT_PHASES = [''claim'', ''execute'', ''complete'', ''reconcile'']"

record runtime_fault =
  rf_code :: string
  rf_phase :: string
  rf_jobId :: "string option"

text \<open>The properties of the error that are copied, each only when it has an expected value.\<close>

definition normalizeExecutorFault :: "js \<Rightarrow> runtime_fault" where
  "normalizeExecutorFault e =
     \<lparr>rf_code = (if str_in (jget e ''code'') EXECUTOR_FAULT_CODES then str_of (jget e ''code'') else ''local_executor_fault''),
      rf_phase = (if str_in (jget e ''phase'') EXECUTOR_FAULT_PHASES then str_of (jget e ''phase'') else ''executor''),
      rf_jobId = (if is_string (jget e ''jobId'') \<and> is_uuid (str_of (jget e ''jobId''))
                  then Some (to_lower (str_of (jget e ''jobId''))) else None)\<rparr>"

section \<open>The runtime\<close>

record 's surroundings =
  s_getServer :: "string \<Rightarrow> ('s, js) sm"
  s_updateLocalSnapshot :: "jobj \<Rightarrow> ('s, js) sm"
  s_acquireLock :: "('s, unit) sm"
  s_releaseLock :: "('s, unit) sm"
  s_snapshotProvider :: "('s, js) sm option"

text \<open>What the start asks of the job registry when it can recover: \<open>recovery()\<close> is null exactly for the empty list.\<close>

record 'q recovery_calls =
  rc_recovery :: "'q \<Rightarrow> identity list"
  rc_getJob :: "string \<Rightarrow> ('q, public_job option) sm"
  rc_getReconciliationJob :: "string \<Rightarrow> ('q, public_job option) sm"
  rc_acknowledge :: "string \<Rightarrow> string \<Rightarrow> ('q, reconciliation_answer) sm"

text \<open>The executor also carries the states of the job registry and of the host before it is made (\<open>rt_made\<close>).
  \<open>rt_locked\<close> says that the variable \<open>lock\<close> has been assigned; what becomes of the lock file is in the world.\<close>

record ('q, 'h, 's) local_runtime =
  rt_executor :: "('q, 'h) executor"
  rt_world :: 's
  rt_made :: bool
  rt_locked :: bool
  rt_timer :: bool
  rt_stopped :: bool
  rt_closed :: bool
  rt_fault :: "runtime_fault option"

type_synonym ('q, 'h, 's, 'a) rsm = "(('q, 'h, 's) local_runtime, 'a) sm"

definition fresh_runtime :: "'q \<Rightarrow> 'h \<Rightarrow> 's \<Rightarrow> ('q, 'h, 's) local_runtime" where
  "fresh_runtime q h s = \<lparr>rt_executor = createLocalJobExecutor q h, rt_world = s, rt_made = False, rt_locked = False,
     rt_timer = False, rt_stopped = False, rt_closed = False, rt_fault = None\<rparr>"

definition on_executor :: "(('q, 'h) executor, 'a) sm \<Rightarrow> ('q, 'h, 's, 'a) rsm" where
  "on_executor m rt = (case m (rt_executor rt) of (r, x) \<Rightarrow> (r, rt\<lparr>rt_executor := x\<rparr>))"

definition on_world :: "('s, 'a) sm \<Rightarrow> ('q, 'h, 's, 'a) rsm" where
  "on_world m rt = (case m (rt_world rt) of (r, s) \<Rightarrow> (r, rt\<lparr>rt_world := s\<rparr>))"

abbreviation on_jobs :: "('q, 'a) sm \<Rightarrow> ('q, 'h, 's, 'a) rsm" where
  "on_jobs m \<equiv> on_executor (on_registry m)"

abbreviation on_host :: "('h, 'a) sm \<Rightarrow> ('q, 'h, 's, 'a) rsm" where
  "on_host m \<equiv> on_executor (on_machine m)"

text \<open>\<open>reconcileJob\<close>: an answer that is not \<open>reconciled\<close> is an error with its code.\<close>

definition reconcileJob :: "(public_job option \<Rightarrow> ('h, js) sm) \<Rightarrow> public_job option \<Rightarrow> ('h, js) sm" where
  "reconcileJob reconcile job =
     sbind (reconcile job) (\<lambda>result.
     if \<not> truthy result \<or> jget result ''reconciled'' \<noteq> JBool True
     then sthrow (Err ''Error''
            (Some (str_of (nullish (jget (jget result ''error'') ''code'') (JStr ''local_reconciliation_failed''))))
            ''Local job reconciliation did not complete'')
     else sret result)"

section \<open>Recovery at the start\<close>

definition recovery_state_invalid :: "string \<Rightarrow> jerr" where
  "recovery_state_invalid msg = runtime_error ''local_runtime_recovery_state_invalid'' msg"

definition recover_job ::
  "'q recovery_calls \<Rightarrow> (public_job option \<Rightarrow> ('h, js) sm) \<Rightarrow> string \<Rightarrow> string \<Rightarrow> ('q, 'h, 's, unit) rsm" where
  "recover_job rc reconcile serverId jobId =
     scatch
       (sbind (on_jobs (rc_getReconciliationJob rc jobId)) (\<lambda>job.
        sbind (on_host (reconcileJob reconcile job)) (\<lambda>_.
        sbind (on_jobs (rc_acknowledge rc serverId jobId)) (\<lambda>acknowledged.
        if \<not> ra_flag acknowledged then sthrow (inconsistent ''Reconciliation acknowledgement is incomplete'')
        else sret ()))))
       (\<lambda>_. sthrow (runtime_error ''local_runtime_recovery_reconciliation_failed''
              ''A terminal local job could not be reconciled safely during startup''))"

text \<open>The loop over the recorded jobs; the answer counts the reconciled ones.\<close>

fun recover_jobs ::
  "'q recovery_calls \<Rightarrow> (public_job option \<Rightarrow> ('h, js) sm) \<Rightarrow> string \<Rightarrow> identity list \<Rightarrow> ('q, 'h, 's, nat) rsm" where
  "recover_jobs rc reconcile serverId [] = sret 0"
| "recover_jobs rc reconcile serverId (identity # rest) =
     (if id_server identity \<noteq> serverId
      then sthrow (recovery_state_invalid ''Local job recovery identity does not match this server'')
      else
        sbind (on_jobs (rc_getJob rc (id_job identity))) (\<lambda>found.
        case found of
          None \<Rightarrow> sthrow (recovery_state_invalid ''Local job recovery record does not match persisted job state'')
        | Some job \<Rightarrow>
            if job_id job \<noteq> id_job identity \<or> job_serverId job \<noteq> serverId
            then sthrow (recovery_state_invalid ''Local job recovery record does not match persisted job state'')
            else if job_status job = JobRunning then recover_jobs rc reconcile serverId rest
            else if \<not> is_terminal (job_status job)
            then sthrow (recovery_state_invalid ''Local job recovery contains an unsupported job state'')
            else
              sbind (recover_job rc reconcile serverId (job_id job)) (\<lambda>_.
              sbind (recover_jobs rc reconcile serverId rest) (\<lambda>n. sret (Suc n)))))"

definition reconcileStartupRecovery ::
  "'q recovery_calls option \<Rightarrow> (public_job option \<Rightarrow> ('h, js) sm) \<Rightarrow> string \<Rightarrow> ('q, 'h, 's, nat) rsm" where
  "reconcileStartupRecovery calls reconcile serverId =
     (case calls of
        None \<Rightarrow> sret 0
      | Some rc \<Rightarrow>
          sbind (sget (\<lambda>rt. rc_recovery rc (x_registry (rt_executor rt)))) (\<lambda>snapshot.
          if snapshot = [] then sret 0
          else
            sbind (recover_jobs rc reconcile serverId snapshot) (\<lambda>reconciled.
            sbind (sget (\<lambda>rt. rc_recovery rc (x_registry (rt_executor rt)))) (\<lambda>remaining.
            if remaining \<noteq> []
            then sthrow (runtime_error ''local_runtime_recovery_required''
                   ''Persisted running local jobs require inspect-first recovery before host execution can resume'')
            else sret reconciled))))"

section \<open>The start\<close>

text \<open>\<open>closeResources\<close>: the error of the release is thrown once the runtime counts as closed.\<close>

definition closeResources :: "'s surroundings \<Rightarrow> ('q, 'h, 's, unit) rsm" where
  "closeResources env =
     sbind (sget rt_closed) (\<lambda>closed.
     if closed then sret ()
     else
       sbind (smod (\<lambda>rt. rt\<lparr>rt_stopped := True, rt_timer := False\<rparr>)) (\<lambda>_.
       sbind (sget rt_made) (\<lambda>made.
       sbind (if made then on_executor stop else sret ()) (\<lambda>_.
       sbind (sget rt_locked) (\<lambda>locked.
       sbind (if locked then scatch (sbind (on_world (s_releaseLock env)) (\<lambda>_. sret None)) (\<lambda>e. sret (Some e)) else sret None) (\<lambda>failure.
       sbind (smod (\<lambda>rt. rt\<lparr>rt_closed := True\<rparr>)) (\<lambda>_.
       case failure of None \<Rightarrow> sret () | Some e \<Rightarrow> sthrow e)))))))"

text \<open>The first fault closes the runtime; what the close throws is dropped, and \<open>onError\<close> can do nothing here.\<close>

definition reportFault :: "'s surroundings \<Rightarrow> runtime_fault \<Rightarrow> ('q, 'h, 's, unit) rsm" where
  "reportFault env metadata =
     sbind (sget rt_fault) (\<lambda>fault.
     if fault \<noteq> None then sret ()
     else
       sbind (smod (\<lambda>rt. rt\<lparr>rt_fault := Some metadata\<rparr>)) (\<lambda>_.
       scatch (closeResources env) (\<lambda>_. sret ())))"

definition handleExecutorFault :: "'s surroundings \<Rightarrow> js \<Rightarrow> ('q, 'h, 's, unit) rsm" where
  "handleExecutorFault env error =
     sbind (sget (\<lambda>rt. rt_stopped rt \<or> rt_fault rt \<noteq> None)) (\<lambda>over.
     if over then sret () else reportFault env (normalizeExecutorFault error))"

record runtime_config =
  cf_serverId :: string
  cf_hostname :: string
  cf_version :: string

definition refreshSnapshot :: "(string \<Rightarrow> bool) \<Rightarrow> 's surroundings \<Rightarrow> runtime_config \<Rightarrow> ('q, 'h, 's, js) rsm" where
  "refreshSnapshot date_ok env cf =
     sbind (case s_snapshotProvider env of
              None \<Rightarrow> sret []
            | Some provider \<Rightarrow> sbind (on_world provider) (\<lambda>v. slift (normalizeSnapshotPayload v))) (\<lambda>provided.
     sbind (on_world (s_updateLocalSnapshot env
              (obj_spread [(''serverId'', JStr (cf_serverId cf)), (''hostname'', JStr (cf_hostname cf)),
                 (''runtimeVersion'', JStr (cf_version cf))] provided))) (\<lambda>snapshot.
     slift (assertBoundServer date_ok snapshot (cf_serverId cf) (cf_hostname cf))))"

definition scheduleSnapshotRefresh :: "('q, 'h, 's, unit) rsm" where
  "scheduleSnapshotRefresh = smod (\<lambda>rt. if rt_stopped rt \<or> rt_timer rt then rt else rt\<lparr>rt_timer := True\<rparr>)"

text \<open>The timer of the snapshot fires.\<close>

definition snapshot_timer :: "(string \<Rightarrow> bool) \<Rightarrow> 's surroundings \<Rightarrow> runtime_config \<Rightarrow> ('q, 'h, 's, unit) rsm" where
  "snapshot_timer date_ok env cf =
     sbind (sget rt_timer) (\<lambda>pending.
     if \<not> pending then sret ()
     else
       sbind (smod (\<lambda>rt. rt\<lparr>rt_timer := False\<rparr>)) (\<lambda>_.
       sbind (sget rt_stopped) (\<lambda>stopped.
       if stopped then sret ()
       else
         scatch (sbind (refreshSnapshot date_ok env cf) (\<lambda>_. scheduleSnapshotRefresh))
           (\<lambda>_. reportFault env \<lparr>rf_code = ''local_runtime_snapshot_refresh_failed'', rf_phase = ''snapshot'',
                                 rf_jobId = None\<rparr>))))"

definition checked_config :: "js \<Rightarrow> js \<Rightarrow> js \<Rightarrow> js \<Rightarrow> runtime_config res" where
  "checked_config serverId hostname version interval =
     (if \<not> is_string serverId \<or> length (str_of serverId) < 1 \<or> 128 < length (str_of serverId)
      then Inl (runtime_error ''invalid_local_server_id'' ''Local runtime server id is invalid'')
      else case normalizeHostname hostname of
        Inl e \<Rightarrow> Inl e
      | Inr h \<Rightarrow>
          case normalizeRuntimeVersion version of
            Inl e \<Rightarrow> Inl e
          | Inr v \<Rightarrow>
              case normalizeSnapshotInterval interval of
                Inl e \<Rightarrow> Inl e
              | Inr _ \<Rightarrow> Inr \<lparr>cf_serverId = str_of serverId, cf_hostname = h, cf_version = v\<rparr>)"

definition bound_server :: "(string \<Rightarrow> bool) \<Rightarrow> 's surroundings \<Rightarrow> runtime_config \<Rightarrow> ('q, 'h, 's, js) rsm" where
  "bound_server date_ok env cf =
     sbind (on_world (s_getServer env (cf_serverId cf))) (\<lambda>server.
     slift (assertBoundServer date_ok server (cf_serverId cf) (cf_hostname cf)))"

text \<open>The executor of the runtime; its count of executed jobs goes on.\<close>

definition make_executor :: "('q, 'h, 's, unit) rsm" where
  "make_executor = smod (\<lambda>rt. rt\<lparr>rt_made := True, rt_executor :=
     (createLocalJobExecutor (x_registry (rt_executor rt)) (x_host (rt_executor rt)))
       \<lparr>x_executed := x_executed (rt_executor rt)\<rparr>\<rparr>)"

definition bring_up ::
  "(string \<Rightarrow> bool) \<Rightarrow> 's surroundings \<Rightarrow> 'q recovery_calls option \<Rightarrow> (public_job option \<Rightarrow> ('h, js) sm) \<Rightarrow> runtime_config \<Rightarrow>
   ('q, 'h, 's, unit) rsm" where
  "bring_up date_ok env calls reconcile cf =
     sbind (on_world (s_acquireLock env)) (\<lambda>_.
     sbind (smod (\<lambda>rt. rt\<lparr>rt_locked := True\<rparr>)) (\<lambda>_.
     sbind (bound_server date_ok env cf) (\<lambda>_.
     sbind (reconcileStartupRecovery calls reconcile (cf_serverId cf)) (\<lambda>_.
     sbind make_executor (\<lambda>_.
     sbind (refreshSnapshot date_ok env cf) (\<lambda>_.
     sbind (on_executor start) (\<lambda>_. scheduleSnapshotRefresh)))))))"

text \<open>What has been brought up is taken down, whatever that throws, and the error is rethrown or wrapped.\<close>

definition take_down :: "'s surroundings \<Rightarrow> jerr \<Rightarrow> ('q, 'h, 's, unit) rsm" where
  "take_down env e =
     sbind (smod (\<lambda>rt. rt\<lparr>rt_stopped := True, rt_timer := False\<rparr>)) (\<lambda>_.
     sbind (sget rt_made) (\<lambda>made.
     sbind (if made then on_executor stop else sret ()) (\<lambda>_.
     sbind (sget rt_locked) (\<lambda>locked.
     sbind (if locked then scatch (on_world (s_releaseLock env)) (\<lambda>_. sret ()) else sret ()) (\<lambda>_.
     if err_class e = ''LocalRuntimeError'' \<or> err_class e = ''LocalExecutionLockError'' then sthrow e
     else sthrow (runtime_error ''local_runtime_start_failed'' ''Local runtime could not be started safely''))))))"

definition startLocalRuntime ::
  "(string \<Rightarrow> bool) \<Rightarrow> 's surroundings \<Rightarrow> 'q recovery_calls option \<Rightarrow> (public_job option \<Rightarrow> ('h, js) sm) \<Rightarrow>
   js \<Rightarrow> js \<Rightarrow> js \<Rightarrow> js \<Rightarrow> ('q, 'h, 's, runtime_config) rsm" where
  "startLocalRuntime date_ok env calls reconcile serverId hostname version interval =
     sbind (slift (checked_config serverId hostname version interval)) (\<lambda>cf.
     sbind (bound_server date_ok env cf) (\<lambda>_.
     sbind (scatch (bring_up date_ok env calls reconcile cf) (take_down env)) (\<lambda>_. sret cf)))"

end
