(* ===== verification/ExecutorProofs.thy ===== *)
theory ExecutorProofs
  imports LocalExecutor DurableGuarantees
begin

text \<open>
  The executor on the durable queue: invariants of the wrapped registry hold of the durable queue as a
  whole (\<open>queue_invariant\<close>), whatever fails on the way, and with them the executor's runs are followed
  from the claim to the acknowledgement.
\<close>

section \<open>Invariants of the wrapped registry\<close>

text \<open>
  A fact about a registry that loading, a fresh start and the reads keep, thrown errors included, is a fact
  about the registry of the durable queue.
\<close>

locale queue_invariant =
  fixes q :: "'q queue_ops"
    and I :: "'q \<Rightarrow> bool"
  assumes inv_init: "keeps I (q_init q)"
    and inv_fresh: "I s \<Longrightarrow> I (q_fresh q s)"
    and inv_running: "keeps I (q_running q)"
    and inv_getJob: "keeps I (q_getJob q i)"
begin

definition guarded :: "('q, 'r) durable \<Rightarrow> bool" where
  "guarded d = I (d_registry d)"

lemma guarded_queue: "keeps I m \<Longrightarrow> keeps guarded (on_queue m)"
  by (auto simp: keeps_def guarded_def on_queue_def split: prod.splits)

lemma guarded_log: "keeps guarded (on_log m)"
  by (auto simp: keeps_def guarded_def on_log_def split: prod.splits)

lemma guarded_smod: "(\<And>d. d_registry (h d) = d_registry d) \<Longrightarrow> keeps guarded (smod h)"
  by (simp add: keeps_def guarded_def)

lemma guarded_latch: "keeps guarded (latch c m)"
  by (simp add: keeps_def guarded_def)

lemma guarded_setRecovery: "keeps guarded (setRecovery js)"
  by (simp add: keeps_def guarded_def)

lemma guarded_healthy: "keeps guarded assertHealthy"
  by (simp add: keeps_def guarded_def assertHealthy_apply split: option.splits)

lemma guarded_or_latch: "keeps guarded m \<Longrightarrow> keeps guarded (or_latch c msg m)"
  unfolding or_latch_def by (intro keeps_scatch guarded_latch)

lemma guarded_or_latch_unless: "keeps guarded m \<Longrightarrow> keeps guarded (or_latch_unless_fatal p c msg m)"
  unfolding or_latch_unless_fatal_def by (intro keeps_rules guarded_latch)

lemmas guarded_rules = guarded_queue guarded_log guarded_latch guarded_setRecovery guarded_healthy guarded_or_latch
  guarded_or_latch_unless inv_init inv_running inv_getJob keeps_rules

lemma guarded_snapshot: "keeps guarded (recoverySnapshotJobs l)"
  unfolding recoverySnapshotJobs_def Let_def by (intro guarded_rules)

lemma guarded_replaceJobs: "keeps guarded (replaceRecoveryJobs l js)"
  unfolding replaceRecoveryJobs_def by (intro guarded_rules)

lemma guarded_add: "keeps guarded (addRecoveryJob l i)"
  unfolding addRecoveryJob_def by (intro guarded_rules guarded_snapshot)

lemma guarded_remove: "keeps guarded (removeRecoveryJob l i)"
  unfolding removeRecoveryJob_def by (intro guarded_rules guarded_snapshot)

lemma guarded_sync: "keeps guarded (syncRecoveryRecord l js)"
  unfolding syncRecoveryRecord_def by (intro guarded_rules guarded_snapshot guarded_replaceJobs)

lemma guarded_check: "keeps guarded (check_recorded q is)"
proof (induction "is")
  case (Cons i "is")
  then show ?case unfolding check_recorded.simps by (intro guarded_rules guarded_smod) simp_all
qed (simp add: keeps_def)

lemma guarded_detect: "keeps guarded (detectRecovery q l)"
  unfolding detectRecovery_def Let_def
  by (intro guarded_rules guarded_snapshot guarded_sync guarded_check guarded_smod) simp

lemma guarded_init: "keeps guarded (init_durable q l)"
proof -
  have "keeps guarded (sbind assertHealthy (\<lambda>_.
        or_latch_unless_fatal is_durable_error c m
          (sbind (on_queue (q_init q)) (\<lambda>_.
           sbind (initializeRecoveryStore l) (\<lambda>_.
           sbind (detectRecovery q l) (\<lambda>_. smod (\<lambda>d. d\<lparr>d_initialized := True\<rparr>)))))))" for c m
    unfolding initializeRecoveryStore_def by (intro guarded_rules guarded_detect guarded_smod) simp
  then show ?thesis by (auto simp: keeps_def init_durable_def)
qed

lemma guarded_replace: "keeps guarded (replace_registry q)"
  using inv_init inv_fresh
  by (fastforce simp: keeps_def guarded_def replace_registry_def split: prod.splits sum.splits)

lemma guarded_reload: "keeps guarded (reloadDurableState q l b)"
  unfolding reloadDurableState_def by (intro guarded_rules guarded_replace guarded_detect guarded_smod) simp

lemma guarded_prepare: "keeps guarded (prepareAutomaticReconciliation q l automatic r)"
  unfolding prepareAutomaticReconciliation_def Let_def
  by (intro guarded_rules guarded_add guarded_smod) simp_all

lemma keeps_split: "(\<And>x y. keeps J (f x y)) \<Longrightarrow> keeps J (case p of (x, y) \<Rightarrow> f x y)"
  by (cases p) simp

lemma guarded_job: "keeps guarded (reconciliation_job q s j)"
  unfolding reconciliation_job_def by (intro guarded_rules)

lemma guarded_begin: "keeps guarded (beginReconciliation q l s j)"
  unfolding beginReconciliation_def Let_def
  by (intro guarded_rules guarded_init guarded_job guarded_add guarded_smod keeps_split) simp_all

lemma guarded_acknowledge: "keeps guarded (acknowledgeReconciliation q l s j)"
  unfolding acknowledgeReconciliation_def Let_def
  by (intro guarded_rules guarded_init guarded_job guarded_snapshot guarded_remove guarded_smod keeps_split) simp_all

lemma guarded_attached: "keeps guarded (acknowledgeAutomaticJobReconciliation q l i)"
  unfolding acknowledgeAutomaticJobReconciliation_def by (intro guarded_rules guarded_acknowledge)

lemma guarded_get: "keeps guarded (getReconciliationJob q l envelope j)"
  unfolding getReconciliationJob_def by (intro guarded_rules guarded_init keeps_split)

end

section \<open>Changes of the wrapped registry\<close>

text \<open>A call that leads from one invariant to a weaker one, be it that it returns or throws.\<close>

locale queue_change = before: queue_invariant q I + after: queue_invariant q J
  for q :: "'q queue_ops" and I :: "'q \<Rightarrow> bool" and J :: "'q \<Rightarrow> bool" +
  fixes allowed :: "job_request \<Rightarrow> bool"
  assumes weaker: "I s \<Longrightarrow> J s"
    and call: "allowed r \<Longrightarrow> I s \<Longrightarrow> J (snd (q_call q r s))"
begin

lemma guarded_weaker: "before.guarded d \<Longrightarrow> after.guarded d"
  by (simp add: before.guarded_def after.guarded_def weaker)

lemma from_before: "keeps before.guarded m \<Longrightarrow> hoare before.guarded m (\<lambda>_. before.guarded) (\<lambda>_. after.guarded)"
  unfolding keeps_iff_hoare by (erule hoare_weaken) (simp_all add: guarded_weaker)

lemma stay_after: "keeps after.guarded m \<Longrightarrow> hoare after.guarded m (\<lambda>_. after.guarded) (\<lambda>_. after.guarded)"
  by (simp add: keeps_iff_hoare)

lemma change_call:
  "allowed r \<Longrightarrow> hoare before.guarded (on_queue (q_call q r)) (\<lambda>_. after.guarded) (\<lambda>_. after.guarded)"
  using call by (fastforce simp: hoare_def on_queue_def before.guarded_def after.guarded_def split: prod.splits sum.splits)

lemma change_mutation:
  "allowed r \<Longrightarrow> hoare before.guarded (mutation q l automatic r) (\<lambda>_. after.guarded) (\<lambda>_. after.guarded)"
  unfolding mutation_def Let_def
  by (intro hoare_sbind [OF from_before] hoare_sbind [OF change_call] stay_after)
    (intro after.guarded_rules before.guarded_rules before.guarded_prepare after.guarded_remove after.guarded_detect
       after.keeps_split | assumption)+

lemma change_mutate:
  "allowed r \<Longrightarrow> hoare before.guarded (mutate q l automatic r) (\<lambda>_. after.guarded) (\<lambda>_. after.guarded)"
  unfolding mutate_def assertMutationAllowed_def
  by (intro hoare_sbind [OF from_before] hoare_scatch [OF change_mutation] stay_after)
    (intro after.guarded_rules before.guarded_rules before.guarded_init after.guarded_reload | assumption)+

lemma change_read:
  "allowed r \<Longrightarrow> hoare before.guarded (read_durable q l r) (\<lambda>_. after.guarded) (\<lambda>_. after.guarded)"
  unfolding read_durable_def
  by (intro hoare_sbind [OF from_before] change_call)
    (intro before.guarded_rules before.guarded_init | assumption)+

fun permits :: "durable_request \<Rightarrow> bool" where
  "permits (Mutate r) = allowed r"
| "permits (Read r) = allowed r"
| "permits _ = True"

lemma change_quiet:
  "keeps before.guarded m \<Longrightarrow> hoare before.guarded m (\<lambda>_. after.guarded) (\<lambda>_. after.guarded)"
  by (erule hoare_weaken [OF from_before]) (simp_all add: guarded_weaker)

lemmas change_rules = hoare_map_sm [OF change_quiet] hoare_map_sm [OF change_mutate] hoare_map_sm [OF change_read]

lemma change_handle:
  "permits r \<Longrightarrow>
   hoare before.guarded (handle_durable q l automatic envelope r) (\<lambda>_. after.guarded) (\<lambda>_. after.guarded)"
  by (cases r) (simp_all add: change_quiet change_rules before.guarded_init before.guarded_begin
      before.guarded_acknowledge before.guarded_attached before.guarded_get)

end

section \<open>Jobs that were executed\<close>

text \<open>
  The jobs have identifiers of their own, all among the ones handed out, and an executed job is not queued.
\<close>

definition ids_wf :: "string set \<Rightarrow> string set \<Rightarrow> job list \<Rightarrow> bool" where
  "ids_wf used exd m \<longleftrightarrow> set (map job_id m) \<subseteq> used \<and> distinct (map job_id m) \<and>
     (\<forall>j \<in> set m. job_id j \<in> exd \<longrightarrow> job_status j \<noteq> JobQueued)"

definition holds_ids :: "string set \<Rightarrow> string set \<Rightarrow> job_store \<Rightarrow> bool" where
  "holds_ids used exd s \<longleftrightarrow> has_path s \<and> in_store (ids_wf used exd) s"

text \<open>The identifier a request hands out.\<close>

fun new_ids :: "job_request \<Rightarrow> string set" where
  "new_ids (Enqueue _ uuid _) = {uuid}"
| "new_ids _ = {}"

lemma ids_wf_empty [simp]: "ids_wf used exd []"
  by (simp add: ids_wf_def)

lemma ids_wf_weaker: "ids_wf used exd m \<Longrightarrow> used \<subseteq> used' \<Longrightarrow> exd' \<subseteq> exd \<Longrightarrow> ids_wf used' exd' m"
  by (fastforce simp: ids_wf_def)

lemma holds_ids_weaker: "holds_ids used exd s \<Longrightarrow> used \<subseteq> used' \<Longrightarrow> exd' \<subseteq> exd \<Longrightarrow> holds_ids used' exd' s"
  using ids_wf_weaker by (fastforce simp: holds_ids_def in_store_def)

lemma ids_wf_stored: "ids_wf used exd m \<Longrightarrow> ids_wf used exd (stored_jobs m)"
  by (auto simp: ids_wf_def stored_jobs_def comp_def)

text \<open>The list of identifiers grows by the new one or stays.\<close>

lemma set_job_ids: "(\<And>j. job_id (f j) = job_id j) \<Longrightarrow> keeps (\<lambda>s. map job_id (memory s) = ids) (set_job i f)"
  by (auto simp: keeps_def map_update) (metis list_update_beyond list_update_id map_update not_less nth_map)

lemma enqueue_ids:
  assumes "loaded s"
  shows "map job_id (memory (snd (enqueue deps now uuid input s))) \<in> {map job_id (memory s), map job_id (memory s) @ [uuid]}"
  using assms
  by (auto simp: enqueue_def sbind_apply Let_def new_job_def dest: persist_jobs_memory
      split: option.splits sum.splits prod.splits if_splits)

definition same_ids :: "string list \<Rightarrow> job_store \<Rightarrow> bool" where
  "same_ids ids s \<longleftrightarrow> loaded s \<and> map job_id (memory s) = ids"

lemma same_ids_rules:
  "keeps (same_ids ids) init_jobs" "keeps (same_ids ids) persist_jobs" "keeps (same_ids ids) (get_mem g)"
  "keeps (same_ids ids) (job_at i)"
  "(\<And>j. job_id (f j) = job_id j) \<Longrightarrow> keeps (same_ids ids) (set_job i f)"
  using set_job_ids [of f ids i]
  by (auto simp: keeps_def same_ids_def persist_chained_def write_file_def split: if_splits)

lemma handle_ids:
  assumes "loaded s"
  shows "map job_id (memory (snd (handle_job deps r s)))
    \<in> insert (map job_id (memory s)) ((\<lambda>u. map job_id (memory s) @ [u]) ` new_ids r)"
proof (cases "\<exists>now uuid input. r = Enqueue now uuid input")
  case True
  then obtain now uuid input where "r = Enqueue now uuid input" by blast
  with enqueue_ids [OF assms, of deps now uuid input] show ?thesis by simp
next
  case False
  then have "keeps (same_ids (map job_id (memory s))) (handle_job deps r)"
    by (cases r) (simp_all add: jobs_of_def, unfold findIdempotentJob_def claimNext_def complete_def finish_job_def
        cancel_def getJob_def listJobs_def, (intro keeps_rules same_ids_rules; simp)+)
  from keepsD [OF this, of s] assms show ?thesis by (simp add: same_ids_def)
qed

lemma not_queued_again: "a \<noteq> JobQueued \<Longrightarrow> a \<le> b \<Longrightarrow> b \<noteq> JobQueued" for b :: job_status
  by (auto simp: less_eq_job_status_def)

lemma ids_wf_change:
  assumes "loaded s" "ids_wf used exd (memory s)" "new_ids r \<inter> used = {}" "exd \<subseteq> used"
  shows "ids_wf (used \<union> new_ids r) exd (memory (snd (handle_job deps r s)))"
proof -
  let ?m = "memory (snd (handle_job deps r s))"
  have ids: "map job_id ?m = map job_id (memory s) \<or> (\<exists>u \<in> new_ids r. map job_id ?m = map job_id (memory s) @ [u])"
    using handle_ids [OF assms(1), of deps r] by auto
  have wf: "set (map job_id (memory s)) \<subseteq> used" "distinct (map job_id (memory s))"
    using assms(2) by (auto simp: ids_wf_def)
  have "set (map job_id ?m) \<subseteq> used \<union> new_ids r \<and> distinct (map job_id ?m)"
    using ids
  proof
    assume "map job_id ?m = map job_id (memory s)"
    with wf show ?thesis by auto
  next
    assume "\<exists>u \<in> new_ids r. map job_id ?m = map job_id (memory s) @ [u]"
    then obtain u where u: "u \<in> new_ids r" "map job_id ?m = map job_id (memory s) @ [u]" by blast
    then have "u \<notin> set (map job_id (memory s))" using wf(1) assms(3) by blast
    with u wf show ?thesis unfolding u(2) by auto
  qed
  moreover have "job_status (?m ! i) \<noteq> JobQueued" if i: "i < length ?m" "job_id (?m ! i) \<in> exd" for i
  proof (cases "i < length (memory s)")
    case True
    have h: "job_history (memory s ! i) (?m ! i)"
      using jobs_step_history [OF handle_job_step [OF assms(1)] True] by blast
    then have "job_id (memory s ! i) \<in> exd" using i(2) by (simp add: job_history_def same_job_def)
    then have "job_status (memory s ! i) \<noteq> JobQueued" using assms(2) True by (simp add: ids_wf_def)
    moreover have "job_status (memory s ! i) \<le> job_status (?m ! i)" using h by (simp add: job_history_def)
    ultimately show ?thesis by (rule not_queued_again)
  next
    case False
    have "length ?m = length (memory s) \<or> (\<exists>u \<in> new_ids r. map job_id ?m = map job_id (memory s) @ [u])"
      using ids by (metis length_map)
    with False i(1) obtain u where u: "u \<in> new_ids r" "map job_id ?m = map job_id (memory s) @ [u]" by auto
    then have "length ?m = Suc (length (memory s))" by (metis length_map length_append_singleton)
    with False i(1) have "i = length (memory s)" by simp
    with u(2) i(1) have "job_id (?m ! i) = u" by (metis nth_append_length nth_map length_map)
    with u(1) i(2) assms(3,4) show ?thesis by blast
  qed
  ultimately show ?thesis unfolding ids_wf_def all_set_conv_all_nth by blast
qed

section \<open>The interpretation\<close>

lemma holds_ids_init: "keeps (holds_ids used exd) init_jobs"
  by (auto simp: keeps_def holds_ids_def in_store_def init_jobs_def read_file_jobs split: disk_file.splits sum.splits)

lemma holds_ids_reads: "keeps (holds_ids used exd) (listJobs f)" "keeps (holds_ids used exd) (getJob i)"
  unfolding listJobs_def getJob_def by (intro keeps_rules holds_ids_init)+

lemma holds_ids_change:
  assumes "holds_ids used exd s" "new_ids r \<inter> used = {}" "exd \<subseteq> used"
  shows "holds_ids (used \<union> new_ids r) exd (snd (handle_job deps r s))"
proof -
  let ?t = "snd (handle_job deps r s)"
  have path: "has_path ?t" using keepsD [OF handle_job_path] assms(1) by (simp add: holds_ids_def)
  obtain x s1 where i: "init_jobs s = (x, s1)" by fastforce
  have s1: "holds_ids used exd s1" using keeps_result [OF holds_ids_init assms(1) i] .
  have begins: "handle_job deps r s = sbind init_jobs (\<lambda>_. handle_job deps r) s"
    using begins_with_handle_job by (simp add: begins_with_def)
  show ?thesis
  proof (cases x)
    case (Inl e)
    with i begins have "?t = s1" by (simp add: sbind_apply)
    with s1 show ?thesis using holds_ids_weaker by fastforce
  next
    case (Inr u)
    with i have l: "loaded s1" using init_jobs_returns by blast
    have t: "?t = snd (handle_job deps r s1)" using i Inr begins by (simp add: sbind_apply)
    have m: "ids_wf (used \<union> new_ids r) exd (memory ?t)"
      unfolding t using s1 ids_wf_change [OF l _ assms(2,3)] by (simp add: holds_ids_def in_store_def)
    have "disk ?t = disk s1 \<or> disk ?t = JsonFile (jobs_text (memory ?t))"
      unfolding t using wm_handle by (simp add: writes_memory_def)
    then have "\<forall>m. file_jobs (disk ?t) = JsonFile m \<longrightarrow> ids_wf (used \<union> new_ids r) exd m"
      using s1 ids_wf_stored [OF m] ids_wf_weaker by (fastforce simp: holds_ids_def in_store_def)
    with m path show ?thesis by (simp add: holds_ids_def in_store_def)
  qed
qed

text \<open>The requests that hand out no identifier of before.\<close>

definition fresh_request :: "string set \<Rightarrow> job_request \<Rightarrow> job_request \<Rightarrow> bool" where
  "fresh_request used r r' \<longleftrightarrow> r' = r \<and> new_ids r \<inter> used = {}"

interpretation held: queue_invariant "registry_ops deps" "holds_ids used exd"
  for deps :: job_deps and used :: "string set" and exd :: "string set"
proof
  show "keeps (holds_ids used exd) (q_init (registry_ops deps))"
    using holds_ids_init by (simp add: registry_ops_def)
  show "holds_ids used exd s \<Longrightarrow> holds_ids used exd (q_fresh (registry_ops deps) s)" for s
    by (auto simp: registry_ops_def holds_ids_def in_store_def)
  show "keeps (holds_ids used exd) (q_running (registry_ops deps))"
    using holds_ids_reads(1) by (simp add: registry_ops_def)
  show "keeps (holds_ids used exd) (q_getJob (registry_ops deps) i)" for i
    using holds_ids_reads(2) by (simp add: registry_ops_def)
qed

interpretation hands: queue_change "registry_ops deps" "holds_ids used (exd \<inter> used)"
    "holds_ids (used \<union> new_ids r) (exd \<inter> used)" "fresh_request used r"
  for deps :: job_deps and used :: "string set" and exd :: "string set" and r :: job_request
proof unfold_locales
  show "holds_ids used (exd \<inter> used) s \<Longrightarrow> holds_ids (used \<union> new_ids r) (exd \<inter> used) s" for s
    by (erule holds_ids_weaker) auto
  show "fresh_request used r r' \<Longrightarrow> holds_ids used (exd \<inter> used) s \<Longrightarrow>
      holds_ids (used \<union> new_ids r) (exd \<inter> used) (snd (q_call (registry_ops deps) r' s))" for r' s
    using holds_ids_change [of used "exd \<inter> used" s r deps] by (auto simp: fresh_request_def registry_ops_def)
qed

section \<open>A claim\<close>

lemma claimed_ids:
  assumes "loaded s" "claimNext deps now sid s = (Inr (Some (j, env)), s')" "holds_ids used exd s"
  shows "job_id j \<notin> exd \<and> job_id j \<in> used \<and> holds_ids used (insert (job_id j) exd) s'"
proof -
  obtain i t where i: "position (queued_for sid) (memory s) = Some i"
    and m: "memory s' = (memory s)[i := (memory s ! i)\<lparr>job_status := JobRunning, job_startedAt := Some t,
      job_attempts := job_attempts (memory s ! i) + 1\<rparr>]"
    and j: "j = publicJob (memory s' ! i)" "jobs_saved s'"
    using claimNext_loaded [OF assms(1,2)] by blast
  have p: "i < length (memory s)" "job_status (memory s ! i) = JobQueued"
    using position_SomeD [OF i] by (auto simp: queued_for_def)
  have wf: "ids_wf used exd (memory s)" using assms(3) by (simp add: holds_ids_def in_store_def)
  have id: "job_id j = job_id (memory s ! i)" using p by (simp add: j m)
  have fresh: "job_id j \<notin> exd" "job_id j \<in> used" using wf p id by (auto simp: ids_wf_def)
  have ids: "map job_id (memory s') = map job_id (memory s)"
    using p by (auto simp: m map_update intro: list_update_same_conv [THEN iffD2])
  have "job_status k \<noteq> JobQueued" if k: "k \<in> set (memory s')" "job_id k \<in> insert (job_id j) exd" for k
  proof -
    obtain n where n: "n < length (memory s)" "k = memory s' ! n" using k(1) by (auto simp: in_set_conv_nth m)
    show ?thesis
    proof (cases "n = i")
      case False
      then have "k = memory s ! n" using n by (simp add: m)
      moreover have "job_id (memory s ! n) \<noteq> job_id (memory s ! i)"
        using wf False n(1) p(1) by (simp add: ids_wf_def distinct_conv_nth)
      ultimately show ?thesis using k(2) wf n(1) by (simp add: id ids_wf_def)
    qed (use n p in \<open>simp add: m\<close>)
  qed
  then have m': "ids_wf used (insert (job_id j) exd) (memory s')"
    using wf ids by (simp add: ids_wf_def)
  have path: "has_path s'"
    using keeps_result [OF handle_job_path, of s deps "ClaimNext now sid"] assms(2,3)
    by (simp add: holds_ids_def jobs_of_def sbind_apply)
  with j(2) have "disk s' = JsonFile (jobs_text (memory s'))" by (simp add: jobs_saved_def)
  with m' path fresh show ?thesis using ids_wf_stored [OF m'] by (simp add: holds_ids_def in_store_def)
qed

lemma begins_claim: "begins_with init_jobs (claimNext deps now sid)"
  unfolding claimNext_def by (rule begins_with_bind [OF settles_init_jobs])

lemma claim_called:
  assumes "q_call (registry_ops deps) (ClaimNext now sid) s = (Inr (j # js), s')" "holds_ids used exd s"
  shows "job_id j \<notin> exd \<and> job_id j \<in> used \<and> holds_ids used (insert (job_id j) exd) s'"
proof -
  obtain v where v: "claimNext deps now sid s = (Inr v, s')" "(case v of None \<Rightarrow> [] | Some (j, _) \<Rightarrow> [j]) = j # js"
    using assms(1) by (auto simp: registry_ops_def jobs_of_def sbind_apply split: prod.splits sum.splits)
  then obtain env where c: "claimNext deps now sid s = (Inr (Some (j, env)), s')" by (auto split: option.splits)
  obtain x s1 where i: "init_jobs s = (x, s1)" by fastforce
  have begins: "claimNext deps now sid s = (case x of Inl e \<Rightarrow> (Inl e, s1) | Inr u \<Rightarrow> claimNext deps now sid s1)"
    using begins_claim [of deps now sid, unfolded begins_with_def, THEN spec, of s] unfolding sbind_apply i prod.case .
  obtain u where x: "x = Inr u" using begins c by (cases x) auto
  then have "loaded s1" "claimNext deps now sid s1 = (Inr (Some (j, env)), s')"
    using begins c i init_jobs_returns by auto
  moreover have "holds_ids used exd s1" using keeps_result [OF holds_ids_init assms(2) i] .
  ultimately show ?thesis by (rule claimed_ids)
qed

text \<open>Through the durable queue.\<close>

lemma claim_mutated:
  assumes "mutate (registry_ops deps) l automatic (ClaimNext now sid) d = (Inr (j # js, a), d')"
    "holds_ids used exd (d_registry d)"
  shows "job_id j \<notin> exd \<and> job_id j \<in> used \<and> holds_ids used (insert (job_id j) exd) (d_registry d')"
proof -
  let ?q = "registry_ops deps"
  obtain u d1 where i: "init_durable ?q l d = (Inr u, d1)"
    using assms(1) by (auto simp: mutate_def sbind_apply split: prod.splits sum.splits)
  have d1: "holds_ids used exd (d_registry d1)"
    using keeps_result [OF held.guarded_init _ i] assms(2) by (simp add: held.guarded_def)
  have "mutation ?q l automatic (ClaimNext now sid) d1 = (Inr (j # js, a), d')"
    using assms(1) i
    by (auto simp: mutate_def sbind_apply scatch_apply assertMutationAllowed_def assertHealthy_apply
        split: prod.splits sum.splits if_splits option.splits)
  then have "q_call ?q (ClaimNext now sid) (d_registry d1) = (Inr (j # js), d_registry d')"
    by (auto simp: mutation_def sbind_apply on_queue_def split: prod.splits sum.splits)
  with d1 show ?thesis using claim_called by blast
qed

end
