(* ===== verification/ExecutorGuarantees.thy ===== *)
theory ExecutorGuarantees
  imports ExecutorProofs
begin

text \<open>
  The local executor on the durable queue of the panel, and what it promises whatever else calls the queue,
  whatever fails and however often the process starts again.
\<close>

section \<open>The executor on the panel's queue\<close>

text \<open>The readings of the clock in the order of the calls of a run.\<close>

definition panel_registry :: "job_deps \<Rightarrow> (string \<Rightarrow> bool) \<Rightarrow> bool \<Rightarrow> (nat \<Rightarrow> int) \<Rightarrow> durable_panel exec_registry" where
  "panel_registry deps date_ok automatic now =
     \<lparr>e_listQueued = (\<lambda>serverId. read_durable (registry_ops deps) (recovery_ops date_ok (now 0))
        (ListJobs \<lparr>f_serverId = Some serverId, f_resourceType = None, f_resourceId = None, f_status = Some ''queued''\<rparr>)),
      e_claimNext = (\<lambda>serverId.
        sbind (mutate (registry_ops deps) (recovery_ops date_ok (now 1)) automatic (ClaimNext (now 2) serverId)) (\<lambda>(claim, _).
        case claim of
          [] \<Rightarrow> sret None
        | j # _ \<Rightarrow> sbind (slift (dep_envelope deps (job_id j) (job_operation j) (job_payload j)))
                    (\<lambda>envelope. sret (Some (j, envelope))))),
      e_complete = (\<lambda>serverId jobId status result error.
        sbind (mutate (registry_ops deps) (recovery_ops date_ok (now 3)) automatic
                 (CompleteJob (now 4) serverId jobId status result error)) (\<lambda>(terminal, _).
        case terminal of
          [] \<Rightarrow> sthrow (inconsistent ''Inconsistent completion acknowledgement'')
        | j # _ \<Rightarrow> sret j)),
      e_reconciliation = Some
        (\<lambda>serverId jobId. map_sm (\<lambda>(st, pending). \<lparr>ra_jobId = jobId, ra_serverId = serverId, ra_status = st, ra_flag = pending\<rparr>)
           (beginReconciliation (registry_ops deps) (recovery_ops date_ok (now 5)) serverId jobId),
         \<lambda>serverId jobId. map_sm (\<lambda>(st, done). \<lparr>ra_jobId = jobId, ra_serverId = serverId, ra_status = st, ra_flag = done\<rparr>)
           (acknowledgeReconciliation (registry_ops deps) (recovery_ops date_ok (now 6)) serverId jobId))\<rparr>"

type_synonym 'h panel_executor = "(durable_panel, 'h) executor"

text \<open>
  What happens around the executor: its own calls and its timer, requests of other callers of the queue with
  the clock reading of the record, and a start of the process on the files the last one left, with the
  outcomes of the writes to come.
\<close>

datatype executor_event =
    RunOnce "nat \<Rightarrow> int"
  | Fire "nat \<Rightarrow> int"
  | Start
  | Stop
  | Request int durable_request
  | Restart "bool list" "bool list"

definition restart :: "bool list \<Rightarrow> bool list \<Rightarrow> 'h panel_executor \<Rightarrow> 'h panel_executor" where
  "restart ws vs x =
     (createLocalJobExecutor (start_durable (disk (d_registry (x_registry x))) ws (disk (d_record (x_registry x))) vs) (x_host x))
       \<lparr>x_executed := x_executed x\<rparr>"

fun executor_step :: "job_deps \<Rightarrow> (string \<Rightarrow> bool) \<Rightarrow> bool \<Rightarrow> 'h exec_host \<Rightarrow> string \<Rightarrow> nat \<Rightarrow> executor_event \<Rightarrow>
    'h panel_executor \<Rightarrow> 'h panel_executor" where
  "executor_step deps date_ok automatic host sid pollMs (RunOnce now) x =
     snd (runOnce (panel_registry deps date_ok automatic now) host sid x)"
| "executor_step deps date_ok automatic host sid pollMs (Fire now) x =
     snd (fire (panel_registry deps date_ok automatic now) host sid pollMs x)"
| "executor_step deps date_ok automatic host sid pollMs Start x = snd (start x)"
| "executor_step deps date_ok automatic host sid pollMs Stop x = snd (stop x)"
| "executor_step deps date_ok automatic host sid pollMs (Request now r) x =
     snd (on_registry (handle_durable (registry_ops deps) (recovery_ops date_ok now) automatic (dep_envelope deps) r) x)"
| "executor_step deps date_ok automatic host sid pollMs (Restart ws vs) x = restart ws vs x"

definition run_executor :: "job_deps \<Rightarrow> (string \<Rightarrow> bool) \<Rightarrow> bool \<Rightarrow> 'h exec_host \<Rightarrow> string \<Rightarrow> nat \<Rightarrow> executor_event list \<Rightarrow>
    'h panel_executor \<Rightarrow> 'h panel_executor" where
  "run_executor deps date_ok automatic host sid pollMs es x =
     foldl (\<lambda>x e. executor_step deps date_ok automatic host sid pollMs e x) x es"

text \<open>The identifiers the requests of an event hand out, and those of a file.\<close>

fun request_ids :: "durable_request \<Rightarrow> string list" where
  "request_ids (Mutate (Enqueue _ uuid _)) = [uuid]"
| "request_ids (Read (Enqueue _ uuid _)) = [uuid]"
| "request_ids _ = []"

fun event_ids :: "executor_event \<Rightarrow> string list" where
  "event_ids (Request _ r) = request_ids r"
| "event_ids _ = []"

definition file_ids :: "js disk_file \<Rightarrow> string list" where
  "file_ids f = (case file_jobs f of JsonFile m \<Rightarrow> map job_id m | _ \<Rightarrow> [])"

section \<open>Executed jobs\<close>

definition sound_exec :: "string set \<Rightarrow> 'h panel_executor \<Rightarrow> bool" where
  "sound_exec used x \<longleftrightarrow> distinct (x_executed x) \<and> set (x_executed x) \<subseteq> used \<and>
     holds_ids used (set (x_executed x)) (d_registry (x_registry x))"

text \<open>A job was claimed that was never executed, and is not queued.\<close>

definition claimed_exec :: "string set \<Rightarrow> string \<Rightarrow> 'h panel_executor \<Rightarrow> bool" where
  "claimed_exec used jid x \<longleftrightarrow> sound_exec used (x\<lparr>x_executed := x_executed x @ [jid]\<rparr>)"

lemma claimed_sound: "claimed_exec used jid x \<Longrightarrow> sound_exec used x"
  by (auto simp: claimed_exec_def sound_exec_def elim: holds_ids_weaker)

definition keeps_ids :: "string set \<Rightarrow> (durable_panel, 'a) sm \<Rightarrow> bool" where
  "keeps_ids used m \<longleftrightarrow> (\<forall>exd. exd \<subseteq> used \<longrightarrow> keeps (held.guarded used exd) m)"

lemma keeps_ids_bind: "keeps_ids used m \<Longrightarrow> (\<And>x. keeps_ids used (f x)) \<Longrightarrow> keeps_ids used (sbind m f)"
  by (simp add: keeps_ids_def keeps_sbind)

lemma keeps_ids_simple: "keeps_ids used (sret x)" "keeps_ids used (sthrow e)" "keeps_ids used (slift r)"
  by (simp_all add: keeps_ids_def keeps_def)

lemma keeps_ids_map: "keeps_ids used m \<Longrightarrow> keeps_ids used (map_sm f m)"
  unfolding map_sm_def by (intro keeps_ids_bind keeps_ids_simple)

lemma hoare_snd: "hoare P m (\<lambda>_. Q) (\<lambda>_. Q) \<Longrightarrow> P s \<Longrightarrow> Q (snd (m s))"
  by (cases "m s"; cases "fst (m s)") (auto simp: hoare_def)

text \<open>A request leads from the identifiers handed out before to those with its own.\<close>

lemma request_step:
  assumes "held.guarded used exd d" "set (request_ids r) \<inter> used = {}" "exd \<subseteq> used"
  shows "held.guarded (used \<union> set (request_ids r)) exd
     (snd (handle_durable (registry_ops deps) l automatic envelope r d))"
proof -
  obtain r0 where r0: "new_ids r0 = set (request_ids r)" "hands.permits used r0 r"
  proof (cases r)
    case (Mutate r1)
    show ?thesis by (rule that [of r1]) (use Mutate assms(2) in \<open>cases r1; simp add: fresh_request_def\<close>)+
  next
    case (Read r1)
    show ?thesis by (rule that [of r1]) (use Read assms(2) in \<open>cases r1; simp add: fresh_request_def\<close>)+
  qed (rule that [of "GetJob []"]; simp)+
  have e: "exd \<inter> used = exd" using assms(3) by blast
  show ?thesis
    by (rule hoare_snd [OF hands.change_handle [OF r0(2), where exd = exd, unfolded e r0(1)] assms(1)])
qed

lemma mutate_keeps_ids:
  assumes "new_ids r = {}"
  shows "keeps_ids used (mutate (registry_ops deps) l automatic r)"
    "keeps_ids used (read_durable (registry_ops deps) l r)"
proof -
  have f: "fresh_request used r r" by (simp add: fresh_request_def assms)
  have e: "exd \<inter> used = exd" if "exd \<subseteq> used" for exd using that by blast
  show "keeps_ids used (mutate (registry_ops deps) l automatic r)"
    unfolding keeps_ids_def keeps_iff_hoare
    using hands.change_mutate [OF f, unfolded assms Un_empty_right] e by metis
  show "keeps_ids used (read_durable (registry_ops deps) l r)"
    unfolding keeps_ids_def keeps_iff_hoare
    using hands.change_read [OF f, unfolded assms Un_empty_right] e by metis
qed

lemma reconciliation_keeps_ids:
  "keeps_ids used (beginReconciliation (registry_ops deps) l s j)"
  "keeps_ids used (acknowledgeReconciliation (registry_ops deps) l s j)"
  by (simp_all add: keeps_ids_def held.guarded_begin held.guarded_acknowledge)

section \<open>A run\<close>

lemma sound_guarded:
  "sound_exec used x \<longleftrightarrow> distinct (x_executed x) \<and> set (x_executed x) \<subseteq> used \<and>
     held.guarded used (set (x_executed x)) (x_registry x)"
  by (simp add: sound_exec_def held.guarded_def)

lemma sound_same:
  "x_registry y = x_registry x \<Longrightarrow> x_executed y = x_executed x \<Longrightarrow> sound_exec used y = sound_exec used x"
  by (simp add: sound_exec_def)

lemma sound_registry: "keeps_ids used m \<Longrightarrow> keeps (sound_exec used) (on_registry m)"
  by (simp add: keeps_ids_def keeps_def sound_guarded on_registry_def split: prod.splits) (metis snd_conv)

lemma sound_machine: "keeps (sound_exec used) (on_machine m)"
  by (auto simp: keeps_def sound_exec_def on_machine_def split: prod.splits)

lemma sound_smod: "(\<And>x. x_registry (f x) = x_registry x \<and> x_executed (f x) = x_executed x) \<Longrightarrow> keeps (sound_exec used) (smod f)"
  by (simp add: keeps_def sound_exec_def)

lemma sound_halt: "keeps (sound_exec used) (halt p i)"
  by (simp add: keeps_def halt_def Let_def sbind_apply sound_exec_def)

lemma sound_or_halt: "keeps (sound_exec used) m \<Longrightarrow> keeps (sound_exec used) (or_halt p i m)"
  unfolding or_halt_def by (intro keeps_scatch sound_halt)

lemma sound_supported: "keeps (sound_exec used) (check_supported f j)"
  unfolding check_supported_def by (auto split: sum.splits intro!: sound_halt keeps_rules)

lemmas sound_rules = sound_registry sound_machine sound_halt sound_or_halt sound_supported keeps_rules

lemma panel_keeps_ids:
  "keeps_ids used (e_listQueued (panel_registry deps date_ok automatic now) sid)"
  "keeps_ids used (e_complete (panel_registry deps date_ok automatic now) sid jid st res er)"
  "\<exists>b a. e_reconciliation (panel_registry deps date_ok automatic now) = Some (b, a) \<and>
     (\<forall>sid jid. keeps_ids used (b sid jid) \<and> keeps_ids used (a sid jid))"
  unfolding panel_registry_def exec_registry.simps
  by (auto intro!: keeps_ids_bind keeps_ids_map mutate_keeps_ids reconciliation_keeps_ids keeps_ids_simple
      split: list.splits)

lemma sound_select: "keeps (sound_exec used) (selectNextJob (panel_registry deps date_ok automatic now) host sid)"
  unfolding selectNextJob_def
  by (auto split: option.splits list.splits intro!: sound_rules panel_keeps_ids)

lemma sound_record: "keeps (sound_exec used) (record_evidence host sid j p r)"
  unfolding record_evidence_def by (auto split: option.splits intro!: sound_rules)

lemma sound_begin: "keeps (sound_exec used) (begin_reconciliation (panel_registry deps date_ok automatic now) sid jid)"
  using panel_keeps_ids(3) [of deps date_ok automatic now used] unfolding begin_reconciliation_def
  by (auto intro!: sound_rules)

lemma sound_acknowledge: "keeps (sound_exec used) (acknowledge (panel_registry deps date_ok automatic now) sid jid st)"
  using panel_keeps_ids(3) [of deps date_ok automatic now used] unfolding acknowledge_def
  by (auto intro!: sound_rules)

lemma sound_save: "keeps (sound_exec used) (save_completion (panel_registry deps date_ok automatic now) sid jid c)"
  unfolding save_completion_def by (auto split: prod.splits intro!: sound_rules panel_keeps_ids)

lemma sound_reconcile: "keeps (sound_exec used) (reconcile_job (panel_registry deps date_ok automatic now) host sid t p)"
  unfolding reconcile_job_def by (intro sound_rules sound_acknowledge)

text \<open>Up to the call of the host, the claimed job is one that was never executed.\<close>

abbreviation claimed_result :: "string set \<Rightarrow> (public_job \<times> js) option \<Rightarrow> 'h panel_executor \<Rightarrow> bool" where
  "claimed_result used r x \<equiv> (case r of None \<Rightarrow> sound_exec used x | Some (j, _) \<Rightarrow> claimed_exec used (job_id j) x)"

lemma claim_sound:
  "hoare (sound_exec used) (on_registry (e_claimNext (panel_registry deps date_ok automatic now) sid))
     (claimed_result used) (\<lambda>_. sound_exec used)"
proof (rule hoareI)
  let ?m = "mutate (registry_ops deps) (recovery_ops date_ok (now 1)) automatic (ClaimNext (now 2) sid)"
  fix x :: "'h panel_executor" and r y
  assume x: "sound_exec used x"
    and r: "on_registry (e_claimNext (panel_registry deps date_ok automatic now) sid) x = (Inr r, y)"
  show "claimed_result used r y"
  proof (cases r)
    case None
    have "keeps_ids used (e_claimNext (panel_registry deps date_ok automatic now) sid)"
      unfolding panel_registry_def exec_registry.simps
      by (auto intro!: keeps_ids_bind keeps_ids_map mutate_keeps_ids keeps_ids_simple split: list.splits)
    with None x r show ?thesis using keeps_result [OF sound_registry x r] by simp
  next
    case (Some p)
    obtain j env where p: "p = (j, env)" by (cases p)
    obtain d where d: "e_claimNext (panel_registry deps date_ok automatic now) sid (x_registry x) = (Inr (Some (j, env)), d)"
      "y = x\<lparr>x_registry := d\<rparr>"
      using r Some p by (auto simp: on_registry_def split: prod.splits)
    from d(1) obtain js a where m: "?m (x_registry x) = (Inr (j # js, a), d)"
      by (auto simp: panel_registry_def sbind_apply split: prod.splits sum.splits list.splits)
    have "holds_ids used (set (x_executed x)) (d_registry (x_registry x))" using x by (simp add: sound_exec_def)
    from claim_mutated [OF m this]
    have "job_id j \<notin> set (x_executed x) \<and> job_id j \<in> used \<and> holds_ids used (insert (job_id j) (set (x_executed x))) (d_registry d)" .
    with x show ?thesis by (simp add: Some p d(2) claimed_exec_def sound_exec_def)
  qed
next
  fix x :: "'h panel_executor" and e y
  assume x: "sound_exec used x"
    and r: "on_registry (e_claimNext (panel_registry deps date_ok automatic now) sid) x = (Inl e, y)"
  have "keeps_ids used (e_claimNext (panel_registry deps date_ok automatic now) sid)"
    unfolding panel_registry_def exec_registry.simps
    by (auto intro!: keeps_ids_bind keeps_ids_map mutate_keeps_ids keeps_ids_simple split: list.splits)
  from keeps_result [OF sound_registry [OF this] x r] show "sound_exec used y" .
qed

lemma hoare_keeps: "keeps I m \<Longrightarrow> (\<And>s. P s \<Longrightarrow> I s) \<Longrightarrow> hoare P m (\<lambda>_. I) (\<lambda>_. I)"
  unfolding keeps_iff_hoare by (erule hoare_pre)

lemma perform_sound:
  "hoare (claimed_exec used (job_id j)) (perform (panel_registry deps date_ok automatic now) host sid j payload)
     (\<lambda>_. sound_exec used) (\<lambda>_. sound_exec used)"
proof -
  have "hoare (claimed_exec used (job_id j)) (run_operation host sid j payload) (\<lambda>_. sound_exec used) (\<lambda>_. sound_exec used)"
    unfolding run_operation_def
    by (rule hoare_sbind [where R = "\<lambda>_. sound_exec used"], rule hoare_smod, simp add: claimed_exec_def,
        rule hoare_keeps, intro sound_rules sound_record, assumption)
  then show ?thesis
    unfolding perform_def
    by (rule hoare_sbind) (rule hoare_keeps, (intro sound_rules sound_begin sound_save sound_reconcile), assumption)
qed

lemma claim_job_sound:
  "hoare (sound_exec used) (claim_job (panel_registry deps date_ok automatic now) host sid expected)
     (claimed_result used) (\<lambda>_. sound_exec used)"
proof -
  have h: "hoare (claimed_exec used i) (halt p k) Q (\<lambda>_. sound_exec used)" for i p k Q
    by (auto simp: hoare_def halt_def Let_def sbind_apply claimed_exec_def sound_exec_def elim: holds_ids_weaker)
  have hs: "hoare (sound_exec used) (halt p k) Q (\<lambda>_. sound_exec used)" for p k Q
    by (auto simp: hoare_def halt_def Let_def sbind_apply sound_exec_def)
  have s: "hoare (claimed_exec used i) (check_supported f j) (\<lambda>_. claimed_exec used i) (\<lambda>_. sound_exec used)" for i f j
    unfolding check_supported_def by (auto split: sum.splits intro!: h hoare_rules)
  have c: "hoare (sound_exec used) (or_halt PhaseClaim None (on_registry (e_claimNext (panel_registry deps date_ok automatic now) sid)))
      (claimed_result used) (\<lambda>_. sound_exec used)"
    unfolding or_halt_def by (rule hoare_scatch [OF claim_sound hs])
  show ?thesis
    unfolding claim_job_def
  proof (rule hoare_sbind [OF c])
    fix claim :: "(public_job \<times> js) option"
    show "hoare (claimed_result used claim)
        (case claim of None \<Rightarrow> if expected \<noteq> None then halt PhaseClaim expected else sret None
         | Some (j, envelope) \<Rightarrow>
             if \<not> validClaim j envelope sid then halt PhaseExecute None
             else if expected \<noteq> None \<and> expected \<noteq> Some (job_id j) then halt PhaseExecute (Some (job_id j))
             else case h_supports host of
               None \<Rightarrow> sret (Some (j, jget envelope ''payload''))
             | Some supports \<Rightarrow>
                 sbind (check_supported supports j) (\<lambda>supported.
                 if \<not> supported then halt PhaseExecute (Some (job_id j))
                 else sret (Some (j, jget envelope ''payload''))))
        (claimed_result used) (\<lambda>_. sound_exec used)"
    proof (cases claim)
      case None
      then show ?thesis by (auto intro: hoare_rules hs)
    next
      case (Some p)
      then show ?thesis
        by (cases p) (auto intro!: hoare_if hoare_case_option h hoare_sret hoare_sbind [OF s])
    qed
  qed
qed

lemma work_sound: "keeps (sound_exec used) (work (panel_registry deps date_ok automatic now) host sid)"
  unfolding keeps_iff_hoare work_def
  by (rule hoare_sbind [OF hoare_keeps [OF sound_select]], assumption, rule hoare_sbind [OF claim_job_sound])
    (auto split: option.splits prod.splits intro!: hoare_sbind [OF perform_sound] hoare_rules)

lemma sound_run: "keeps (sound_exec used) (runOnce (panel_registry deps date_ok automatic now) host sid)"
  unfolding runOnce_def refuse_fault_def by (auto intro!: work_sound keeps_rules)

lemma sound_fire: "keeps (sound_exec used) (fire (panel_registry deps date_ok automatic now) host sid pollMs)"
  unfolding fire_def schedule_def by (auto intro!: keeps_rules sound_run sound_smod)

lemma sound_step:
  assumes "sound_exec used x" "set (event_ids e) \<inter> used = {}"
  shows "sound_exec (used \<union> set (event_ids e)) (executor_step deps date_ok automatic host sid pollMs e x)"
proof (cases e)
  case (RunOnce now)
  with assms show ?thesis using keepsD [OF sound_run] by simp
next
  case (Fire now)
  with assms show ?thesis using keepsD [OF sound_fire] by simp
next
  case (Request now r)
  let ?m = "handle_durable (registry_ops deps) (recovery_ops date_ok now) automatic (dep_envelope deps) r"
  have "held.guarded (used \<union> set (request_ids r)) (set (x_executed x)) (snd (?m (x_registry x)))"
    by (rule request_step) (use assms Request in \<open>auto simp: sound_guarded\<close>)
  with assms Request show ?thesis by (auto simp: sound_guarded on_registry_def split: prod.splits)
next
  case (Restart ws vs)
  with assms show ?thesis
    by (auto simp: restart_def sound_exec_def createLocalJobExecutor_def start_durable_def createDurableJobRegistry_def
        createJobRegistry_def holds_ids_def in_store_def)
qed (use assms in \<open>auto simp: start_def stop_def schedule_def refuse_fault_def sound_exec_def sbind_apply
      split: option.splits prod.splits sum.splits\<close>)

lemma sound_executor:
  assumes "sound_exec used x" "distinct (concat (map event_ids es))" "set (concat (map event_ids es)) \<inter> used = {}"
  shows "sound_exec (used \<union> set (concat (map event_ids es))) (run_executor deps date_ok automatic host sid pollMs es x)"
  using assms
proof (induction es arbitrary: used x)
  case Nil
  then show ?case by (simp add: run_executor_def)
next
  case (Cons e es)
  have "sound_exec (used \<union> set (event_ids e)) (executor_step deps date_ok automatic host sid pollMs e x)"
    by (rule sound_step) (use Cons.prems in auto)
  from Cons.IH [OF this] Cons.prems show ?case by (auto simp: run_executor_def Un_assoc)
qed

section \<open>What a run accounts for\<close>

definition executed :: "string list \<Rightarrow> ('q, 'h) executor \<Rightarrow> bool" where
  "executed ex x \<longleftrightarrow> x_executed x = ex"

text \<open>The executor has halted, with the error of its fault thrown.\<close>

definition halted_with :: "phase set \<Rightarrow> string option \<Rightarrow> jerr \<Rightarrow> ('q, 'h) executor \<Rightarrow> bool" where
  "halted_with ps i e x \<longleftrightarrow> x_stopped x \<and> x_timer x = None \<and>
     (\<exists>f. x_fault x = Some f \<and> e = faultError f \<and> ft_phase f \<in> ps \<and> ft_jobId f = i)"

lemma executed_registry: "keeps (executed ex) (on_registry m)"
  by (auto simp: keeps_def executed_def on_registry_def split: prod.splits)

lemma executed_machine: "keeps (executed ex) (on_machine m)"
  by (auto simp: keeps_def executed_def on_machine_def split: prod.splits)

lemma executed_halt: "keeps (executed ex) (halt p i)"
  by (simp add: keeps_def halt_def Let_def sbind_apply executed_def)

lemma executed_or_halt: "keeps (executed ex) m \<Longrightarrow> keeps (executed ex) (or_halt p i m)"
  unfolding or_halt_def by (intro keeps_scatch executed_halt)

lemma executed_supported: "keeps (executed ex) (check_supported f j)"
  unfolding check_supported_def by (auto split: sum.splits intro!: executed_halt keeps_rules)

lemmas executed_rules = executed_registry executed_machine executed_halt executed_or_halt executed_supported keeps_rules

lemma executed_select: "keeps (executed ex) (selectNextJob reg host sid)"
  unfolding selectNextJob_def by (auto split: option.splits list.splits intro!: executed_rules)

lemma executed_claim: "keeps (executed ex) (claim_job reg host sid expected)"
  unfolding claim_job_def by (auto split: option.splits intro!: executed_rules)

lemma halt_accounts:
  "hoare (executed ex) (halt p i) Q (\<lambda>e x. executed ex x \<and> halted_with {p} i e x)"
  by (simp add: hoare_def halt_def Let_def sbind_apply executed_def halted_with_def)

lemma or_halt_accounts:
  assumes "hoare (executed ex) m (\<lambda>v x. R v \<and> executed ex x) (\<lambda>_. executed ex)"
  shows "hoare (executed ex) (or_halt p i m) (\<lambda>v x. R v \<and> executed ex x) (\<lambda>e x. executed ex x \<and> halted_with {p} i e x)"
  unfolding or_halt_def by (rule hoare_scatch [OF assms halt_accounts])

lemma or_halt_keeps:
  assumes "keeps (executed ex) m"
  shows "hoare (executed ex) (or_halt p i m) (\<lambda>_. executed ex) (\<lambda>e x. executed ex x \<and> halted_with {p} i e x)"
  using or_halt_accounts [where R = "\<lambda>_. True" and m = m] assms by (simp add: keeps_iff_hoare)

text \<open>What a call to the registry or to the host answered.\<close>

lemma registry_answers:
  "hoare (executed ex) (on_registry m) (\<lambda>v x. (\<exists>q q'. m q = (Inr v, q')) \<and> executed ex x) (\<lambda>_. executed ex)"
  by (auto simp: hoare_def on_registry_def executed_def split: prod.splits sum.splits)

lemma machine_answers:
  "hoare (executed ex) (on_machine m) (\<lambda>v x. (\<exists>h h'. m h = (Inr v, h')) \<and> executed ex x)
     (\<lambda>e x. (\<exists>h h'. m h = (Inl e, h')) \<and> executed ex x)"
  by (auto simp: hoare_def on_machine_def executed_def split: prod.splits sum.splits)

text \<open>The completion that stands for what the host operation of a job did.\<close>

definition host_answer :: "'h exec_host \<Rightarrow> string \<Rightarrow> public_job \<Rightarrow> js \<Rightarrow> string \<times> js \<times> js \<Rightarrow> bool" where
  "host_answer host sid j payload c \<longleftrightarrow>
     (\<exists>h r h'. h_execute host (job_operation j) payload (executionContext j sid) h = (r, h') \<and>
        c = (case r of Inr v \<Rightarrow> (''succeeded'', v, JUndef) | Inl e \<Rightarrow> (''failed'', JUndef, h_error host e)))"

lemma host_answer_cases:
  "h_execute host (job_operation j) payload (executionContext j sid) h = (Inr v, h') \<Longrightarrow>
     host_answer host sid j payload (''succeeded'', v, JUndef)"
  "h_execute host (job_operation j) payload (executionContext j sid) h = (Inl e, h') \<Longrightarrow>
     host_answer host sid j payload (''failed'', JUndef, h_error host e)"
  unfolding host_answer_def by fastforce+

lemma run_operation_accounts:
  "hoare (executed ex) (run_operation host sid j payload)
     (\<lambda>c x. host_answer host sid j payload c \<and> executed (ex @ [job_id j]) x) (\<lambda>_ _. False)"
proof -
  let ?m = "h_execute host (job_operation j) payload (executionContext j sid)"
  let ?ex = "executed (ex @ [job_id j])"
  have evidence: "hoare (\<lambda>x. A \<and> ?ex x) (record_evidence host sid j p r) (\<lambda>_ x. A \<and> ?ex x) (\<lambda>_ _. False)" for p r A
    by (auto simp: record_evidence_def hoare_def scatch_apply on_machine_def executed_def split: option.splits prod.splits sum.splits)
  have ended: "hoare (\<lambda>x. (\<exists>h h'. ?m h = (Inr v, h')) \<and> ?ex x) (sret (''succeeded'', v, JUndef))
      (\<lambda>c x. host_answer host sid j payload c \<and> ?ex x) E" for v E
    by (rule hoare_sret) (auto dest: host_answer_cases(1))
  show ?thesis
    unfolding run_operation_def
    by (rule hoare_sbind [where R = "\<lambda>_. ?ex"], rule hoare_smod, simp add: executed_def,
        rule hoare_scatch [where R = "\<lambda>e x. (\<exists>h h'. ?m h = (Inl e, h')) \<and> ?ex x"],
        rule hoare_sbind [OF machine_answers], rule hoare_sbind [OF hoare_weaken [OF evidence] ended], assumption, assumption, blast,
        rule hoare_sret, auto dest: host_answer_cases(2))
qed

lemma begin_accounts:
  "hoare (executed ex) (begin_reconciliation reg sid i) (\<lambda>_. executed ex)
     (\<lambda>e x. executed ex x \<and> halted_with {PhaseComplete} (Some i) e x)"
  unfolding begin_reconciliation_def
  by (cases "e_reconciliation reg") (auto intro!: hoare_sret or_halt_keeps executed_rules)

text \<open>The registry saved a completion and answered with the finished job.\<close>

definition saved :: "'q exec_registry \<Rightarrow> string \<Rightarrow> string \<Rightarrow> string \<times> js \<times> js \<Rightarrow> public_job \<Rightarrow> bool" where
  "saved reg sid i c t \<longleftrightarrow> job_id t = i \<and> job_serverId t = sid \<and> job_status_text (job_status t) = fst c \<and>
     (\<exists>q q'. e_complete reg sid i (fst c) (fst (snd c)) (snd (snd c)) q = (Inr t, q'))"

lemma save_accounts:
  "hoare (executed ex) (save_completion reg sid i c) (\<lambda>t x. saved reg sid i c t \<and> executed ex x)
     (\<lambda>e x. executed ex x \<and> halted_with {PhaseComplete} (Some i) e x)"
  unfolding save_completion_def
  by (cases c, simp only: prod.case, intro or_halt_accounts)
    (rule hoare_sbind, rule registry_answers, auto simp: saved_def intro!: hoare_sret hoare_sthrow hoare_if)

lemma reconcile_accounts:
  "hoare (executed ex) (reconcile_job reg host sid t p) (\<lambda>_. executed ex)
     (\<lambda>e x. executed ex x \<and> halted_with {PhaseReconcile} (Some (job_id t)) e x)"
proof -
  have "keeps (executed ex) (acknowledge reg sid i st)" for i st
    unfolding acknowledge_def by (auto split: option.splits intro!: executed_rules)
  then show ?thesis unfolding reconcile_job_def by (auto intro!: or_halt_keeps executed_rules)
qed

text \<open>A throw after the claim: the host was called for the job, and the executor has halted.\<close>

definition lost_job :: "string list \<Rightarrow> jerr \<Rightarrow> ('q, 'h) executor \<Rightarrow> bool" where
  "lost_job ex e x \<longleftrightarrow> (\<exists>i. executed (ex @ [i]) x \<and> halted_with {PhaseComplete, PhaseReconcile} (Some i) e x)"

lemma lost_jobI:
  "executed (ex @ [i]) x \<and> halted_with {p} (Some i) e x \<Longrightarrow> p \<in> {PhaseComplete, PhaseReconcile} \<Longrightarrow> lost_job ex e x"
  by (auto simp: lost_job_def halted_with_def)

text \<open>A job was handed out with its payload, and its outcome saved.\<close>

definition handed_out :: "'q exec_registry \<Rightarrow> string \<Rightarrow> public_job \<Rightarrow> js \<Rightarrow> bool" where
  "handed_out reg sid j payload \<longleftrightarrow>
     (\<exists>envelope q q'. e_claimNext reg sid q = (Inr (Some (j, envelope)), q') \<and> payload = jget envelope ''payload'')"

definition settled :: "'q exec_registry \<Rightarrow> 'h exec_host \<Rightarrow> string \<Rightarrow> public_job \<Rightarrow> js \<Rightarrow> public_job \<Rightarrow> bool" where
  "settled reg host sid j payload t \<longleftrightarrow> (\<exists>c. host_answer host sid j payload c \<and> saved reg sid (job_id j) c t)"

lemma settled_id: "settled reg host sid j payload t \<Longrightarrow> job_id t = job_id j"
  by (auto simp: settled_def saved_def)

text \<open>All of it in terms of the calls.\<close>

definition accounted :: "'q exec_registry \<Rightarrow> 'h exec_host \<Rightarrow> string \<Rightarrow> public_job \<Rightarrow> bool" where
  "accounted reg host sid t \<longleftrightarrow> job_serverId t = sid \<and>
    (\<exists>j envelope q1 q2 h r h' q3 q4. e_claimNext reg sid q1 = (Inr (Some (j, envelope)), q2) \<and> job_id j = job_id t \<and>
       h_execute host (job_operation j) (jget envelope ''payload'') (executionContext j sid) h = (r, h') \<and>
       (case r of
          Inr v \<Rightarrow> job_status t = JobSucceeded \<and> e_complete reg sid (job_id j) ''succeeded'' v JUndef q3 = (Inr t, q4)
        | Inl e \<Rightarrow> job_status t = JobFailed \<and> e_complete reg sid (job_id j) ''failed'' JUndef (h_error host e) q3 = (Inr t, q4)))"

lemma settled_accounted:
  assumes "handed_out reg sid j payload" "settled reg host sid j payload t"
  shows "accounted reg host sid t"
proof -
  have status: "job_status_text s = ''succeeded'' \<longleftrightarrow> s = JobSucceeded" "job_status_text s = ''failed'' \<longleftrightarrow> s = JobFailed" for s
    by (cases s; simp)+
  from assms(1) obtain envelope q1 q2 where
    j: "e_claimNext reg sid q1 = (Inr (Some (j, envelope)), q2)" "payload = jget envelope ''payload''"
    unfolding handed_out_def by blast
  from assms(2) obtain c where c: "host_answer host sid j payload c" "saved reg sid (job_id j) c t"
    unfolding settled_def by blast
  from c(1) obtain h r h' where h: "h_execute host (job_operation j) payload (executionContext j sid) h = (r, h')"
    and r: "c = (case r of Inr v \<Rightarrow> (''succeeded'', v, JUndef) | Inl e \<Rightarrow> (''failed'', JUndef, h_error host e))"
    unfolding host_answer_def by blast
  from c(2) obtain q3 q4 where t: "job_id t = job_id j" "job_serverId t = sid" "job_status_text (job_status t) = fst c"
      "e_complete reg sid (job_id j) (fst c) (fst (snd c)) (snd (snd c)) q3 = (Inr t, q4)"
    unfolding saved_def by blast
  have "case r of
          Inr v \<Rightarrow> job_status t = JobSucceeded \<and> e_complete reg sid (job_id j) ''succeeded'' v JUndef q3 = (Inr t, q4)
        | Inl e \<Rightarrow> job_status t = JobFailed \<and> e_complete reg sid (job_id j) ''failed'' JUndef (h_error host e) q3 = (Inr t, q4)"
    using r t(3,4) by (cases r) (simp_all add: status)
  with j h t(1,2) show ?thesis
    unfolding accounted_def
    by (intro conjI exI [of _ j] exI [of _ envelope] exI [of _ q1] exI [of _ q2] exI [of _ h] exI [of _ r] exI [of _ h']
        exI [of _ q3] exI [of _ q4]) simp_all
qed

lemma perform_accounts:
  "hoare (executed ex) (perform reg host sid j payload)
     (\<lambda>(t, _) x. settled reg host sid j payload t \<and> executed (ex @ [job_id t]) x) (lost_job ex)"
  (is "hoare _ _ ?Q _")
proof -
  let ?ex = "executed (ex @ [job_id j])"
  have reconcile: "hoare (\<lambda>x. settled reg host sid j payload t \<and> ?ex x)
      (sbind (reconcile_job reg host sid t payload) (\<lambda>r. sret (t, r))) ?Q (lost_job ex)" for t
  proof (cases "settled reg host sid j payload t")
    case True
    have "hoare ?ex (reconcile_job reg host sid t payload) (\<lambda>_. ?ex) (lost_job ex)"
      by (rule hoare_weaken [OF reconcile_accounts]) (use settled_id [OF True] in \<open>auto intro: lost_jobI\<close>)
    then have "hoare ?ex (sbind (reconcile_job reg host sid t payload) (\<lambda>r. sret (t, r))) ?Q (lost_job ex)"
      by (rule hoare_sbind) (use True settled_id [OF True] in \<open>auto intro: hoare_sret\<close>)
    then show ?thesis by (rule hoare_pre) simp
  next
    case False
    then show ?thesis unfolding hoare_def by blast
  qed
  have save: "hoare (\<lambda>x. host_answer host sid j payload c \<and> ?ex x) (save_completion reg sid (job_id j) c)
      (\<lambda>t x. settled reg host sid j payload t \<and> ?ex x) (lost_job ex)" for c
  proof (cases "host_answer host sid j payload c")
    case True
    then have "hoare ?ex (save_completion reg sid (job_id j) c) (\<lambda>t x. settled reg host sid j payload t \<and> ?ex x) (lost_job ex)"
      by (intro hoare_weaken [OF save_accounts]) (auto simp del: split_paired_Ex simp: settled_def intro: lost_jobI)
    then show ?thesis by (rule hoare_pre) simp
  next
    case False
    then show ?thesis unfolding hoare_def by blast
  qed
  have begun: "hoare (\<lambda>x. host_answer host sid j payload c \<and> ?ex x) (begin_reconciliation reg sid (job_id j))
      (\<lambda>_ x. host_answer host sid j payload c \<and> ?ex x) (lost_job ex)" for c
  proof (cases "host_answer host sid j payload c")
    case True
    then have "hoare ?ex (begin_reconciliation reg sid (job_id j)) (\<lambda>_ x. host_answer host sid j payload c \<and> ?ex x) (lost_job ex)"
      by (intro hoare_weaken [OF begin_accounts]) (auto intro: lost_jobI)
    then show ?thesis by (rule hoare_pre) simp
  next
    case False
    then show ?thesis unfolding hoare_def by blast
  qed
  show ?thesis
    unfolding perform_def
    by (rule hoare_sbind [OF hoare_weaken [OF run_operation_accounts]], assumption, assumption, blast,
        rule hoare_sbind [OF begun], rule hoare_sbind [OF save reconcile])
qed

lemma before_claim:
  "keeps (executed ex) m \<Longrightarrow> hoare (executed ex) m (\<lambda>_. executed ex) (\<lambda>e x. executed ex x \<or> lost_job ex e x)"
  unfolding keeps_iff_hoare by (erule hoare_weaken) auto

lemma halt_executed: "hoare (\<lambda>x. A \<and> executed ex x) (halt p i) Q (\<lambda>_. executed ex)"
  by (simp add: hoare_def halt_def Let_def sbind_apply executed_def)

lemma supported_executed:
  "hoare (\<lambda>x. A \<and> executed ex x) (check_supported f j) (\<lambda>_ x. A \<and> executed ex x) (\<lambda>_. executed ex)"
  by (auto simp: check_supported_def hoare_def halt_def Let_def sbind_apply executed_def split: sum.splits)

lemma claim_hands_out:
  "hoare (executed ex) (claim_job reg host sid expected)
     (\<lambda>r x. (\<forall>j payload. r = Some (j, payload) \<longrightarrow> handed_out reg sid j payload) \<and> executed ex x) (\<lambda>_. executed ex)"
proof -
  have claim: "hoare (executed ex) (or_halt PhaseClaim None (on_registry (e_claimNext reg sid)))
      (\<lambda>v x. (\<exists>q q'. e_claimNext reg sid q = (Inr v, q')) \<and> executed ex x) (\<lambda>_. executed ex)"
    by (rule hoare_weaken [OF or_halt_accounts [OF registry_answers]]) auto
  show ?thesis
    unfolding claim_job_def
  proof (rule hoare_sbind [OF claim])
    fix v
    let ?R = "\<lambda>x. (\<exists>q q'. e_claimNext reg sid q = (Inr v, q')) \<and> executed ex x"
    let ?Q = "\<lambda>r x. (\<forall>j payload. r = Some (j, payload) \<longrightarrow> handed_out reg sid j payload) \<and> executed ex x"
    have give: "hoare ?R (sret (Some (j, jget e ''payload''))) ?Q (\<lambda>_. executed ex)" if "v = Some (j, e)" for j e
      by (rule hoare_sret) (use that in \<open>auto simp: handed_out_def\<close>)
    show "hoare ?R (case v of None \<Rightarrow> if expected \<noteq> None then halt PhaseClaim expected else sret None
       | Some (j, envelope) \<Rightarrow>
           if \<not> validClaim j envelope sid then halt PhaseExecute None
           else if expected \<noteq> None \<and> expected \<noteq> Some (job_id j) then halt PhaseExecute (Some (job_id j))
           else case h_supports host of
             None \<Rightarrow> sret (Some (j, jget envelope ''payload''))
           | Some supports \<Rightarrow>
               sbind (check_supported supports j) (\<lambda>supported.
               if \<not> supported then halt PhaseExecute (Some (job_id j))
               else sret (Some (j, jget envelope ''payload'')))) ?Q (\<lambda>_. executed ex)"
    proof (cases v)
      case None
      then show ?thesis by (auto intro!: halt_executed hoare_sret)
    next
      case (Some c)
      obtain j e where v: "v = Some (j, e)" using Some by (cases c) simp
      show ?thesis
        unfolding v option.case prod.case
        by (intro hoare_if halt_executed hoare_case_option hoare_sbind [OF supported_executed] give [unfolded v]) simp_all
    qed
  qed
qed

lemma work_accounts:
  "hoare (executed ex) (work reg host sid)
     (\<lambda>r x. case r of None \<Rightarrow> executed ex x | Some (t, _) \<Rightarrow> accounted reg host sid t \<and> executed (ex @ [job_id t]) x)
     (\<lambda>e x. executed ex x \<or> lost_job ex e x)"
  (is "hoare _ _ ?Q ?E")
proof -
  have p: "hoare (executed ex) (sbind (perform reg host sid j payload) (\<lambda>r. sret (Some r))) ?Q ?E"
    if "handed_out reg sid j payload" for j payload
    by (rule hoare_sbind [OF hoare_weaken [OF perform_accounts]], assumption, assumption, blast, rule hoare_sret)
      (auto dest: settled_accounted [OF that])
  have rest: "hoare (\<lambda>x. (\<forall>j payload. r = Some (j, payload) \<longrightarrow> handed_out reg sid j payload) \<and> executed ex x)
      (case r of None \<Rightarrow> sret None
       | Some (j, payload) \<Rightarrow> sbind (perform reg host sid j payload) (\<lambda>r. sret (Some r))) ?Q ?E" for r
  proof (cases r)
    case None
    then show ?thesis by (auto intro: hoare_sret)
  next
    case (Some c)
    obtain j payload where r: "r = Some (j, payload)" using Some by (cases c) simp
    show ?thesis
    proof (cases "handed_out reg sid j payload")
      case True
      show ?thesis unfolding r option.case prod.case by (rule hoare_pre [OF p [OF True]]) simp
    qed (simp add: r hoare_def)
  qed
  show ?thesis
    unfolding work_def
    by (rule hoare_sbind, rule before_claim [OF executed_select], rule hoare_sbind [OF _ rest],
        rule hoare_weaken [OF claim_hands_out]) auto
qed

section \<open>Properties\<close>

text \<open>C24 At most once. Whatever file the panel starts on, however its own runs, the requests of other callers
  and starts of the process follow each other, whatever the host operations answer and whichever writes fail:
  as long as identifiers are not handed out twice, the executor calls the host at most once for a job.\<close>

theorem no_job_is_executed_twice:
  assumes "distinct (file_ids jobs @ concat (map event_ids es))"
    and "x = run_executor deps date_ok automatic host sid pollMs es
       (createLocalJobExecutor (start_durable jobs ws record vs) h)"
  shows "distinct (x_executed x) \<and> set (x_executed x) \<subseteq> set (file_ids jobs @ concat (map event_ids es))"
proof -
  have "sound_exec (set (file_ids jobs)) (createLocalJobExecutor (start_durable jobs ws record vs) h)"
    using assms(1) by (auto simp: file_ids_def sound_exec_def createLocalJobExecutor_def start_durable_def createDurableJobRegistry_def
        createJobRegistry_def holds_ids_def in_store_def ids_wf_def)
  from sound_executor [OF this, of es deps date_ok automatic host sid pollMs] assms
  show ?thesis by (auto simp: sound_exec_def)
qed

text \<open>C25 Halting. What a run reports tells what it did to the host. A run that claims nothing calls no host
  operation. A run that returns a job called the host once, for a job the registry handed out, with its payload,
  and the registry saved how that call ended: as succeeded with the value it returned, or as failed with the
  error it threw. A run that throws either called no host operation or has halted the executor for good, with the
  job and the step in its fault.\<close>

theorem runs_account_for_execution:
  "case runOnce reg host sid x of
     (Inr None, y) \<Rightarrow> x_executed y = x_executed x
   | (Inr (Some (t, _)), y) \<Rightarrow> x_executed y = x_executed x @ [job_id t] \<and> job_serverId t = sid \<and>
       (\<exists>j envelope q1 q2 h r h' q3 q4. e_claimNext reg sid q1 = (Inr (Some (j, envelope)), q2) \<and> job_id j = job_id t \<and>
          h_execute host (job_operation j) (jget envelope ''payload'') (executionContext j sid) h = (r, h') \<and>
          (case r of
             Inr v \<Rightarrow> job_status t = JobSucceeded \<and> e_complete reg sid (job_id j) ''succeeded'' v JUndef q3 = (Inr t, q4)
           | Inl e \<Rightarrow> job_status t = JobFailed \<and> e_complete reg sid (job_id j) ''failed'' JUndef (h_error host e) q3 = (Inr t, q4)))
   | (Inl e, y) \<Rightarrow> x_executed y = x_executed x \<or>
       (\<exists>i f. x_executed y = x_executed x @ [i] \<and> x_stopped y \<and> x_timer y = None \<and> x_fault y = Some f \<and>
          e = faultError f \<and> ft_jobId f = Some i \<and> ft_phase f \<in> {PhaseComplete, PhaseReconcile})"
proof (cases "x_fault x")
  case None
  then have r: "runOnce reg host sid x = work reg host sid x"
    by (simp add: runOnce_def refuse_fault_def sbind_apply)
  have start: "executed (x_executed x) x" by (simp add: executed_def)
  obtain u y where u: "work reg host sid x = (u, y)" by fastforce
  show ?thesis
  proof (cases u)
    case (Inl e)
    have "executed (x_executed x) y \<or> lost_job (x_executed x) e y"
      using hoareD_throw [OF work_accounts start u [unfolded Inl]] .
    then show ?thesis by (auto simp: r u Inl executed_def lost_job_def halted_with_def)
  next
    case (Inr v)
    note returned = hoareD_ret [OF work_accounts start u [unfolded Inr]]
    show ?thesis
    proof (cases v)
      case (Some c)
      obtain t rec where c: "c = (t, rec)" by (cases c)
      from returned have t: "accounted reg host sid t" "executed (x_executed x @ [job_id t]) y" by (simp_all add: Some c)
      show ?thesis
        unfolding r u Inr Some c prod.case sum.case option.case
        using t(2) t(1) [unfolded accounted_def] unfolding executed_def by (intro conjI) (elim conjE, assumption)+
    qed (use returned in \<open>simp add: r u Inr executed_def\<close>)
  qed
next
  case (Some f)
  then show ?thesis by (simp add: runOnce_def refuse_fault_def sbind_apply)
qed

fun in_process :: "executor_event \<Rightarrow> bool" where
  "in_process (Restart _ _) = False"
| "in_process _ = True"

lemma halted_step:
  assumes "x_fault x = Some f" "in_process e"
  shows "x_fault (executor_step deps date_ok automatic host sid pollMs e x) = Some f \<and>
    x_executed (executor_step deps date_ok automatic host sid pollMs e x) = x_executed x"
  using assms
  by (cases e) (auto simp: runOnce_def refuse_fault_def sbind_apply scatch_apply fire_def start_def stop_def schedule_def
      on_registry_def split: option.splits prod.splits)

text \<open>Halted executors. Once it has halted, the executor calls no host operation any more and its fault
  stays, whatever calls follow, until the process starts again: every run and every start is refused with
  the fault.\<close>

theorem halted_executors_stay_halted:
  assumes "x_fault x = Some f" "list_all in_process es"
    and "y = run_executor deps date_ok automatic host sid pollMs es x"
  shows "x_executed y = x_executed x \<and> runOnce reg host sid y = (Inl (faultError f), y) \<and> start y = (Inl (faultError f), y)"
proof -
  have "x_fault y = Some f \<and> x_executed y = x_executed x"
    using assms
  proof (induction es arbitrary: x)
    case Nil
    then show ?case by (simp add: run_executor_def)
  next
    case (Cons e es)
    from halted_step [of x f e deps date_ok automatic host sid pollMs] Cons.prems
    have s: "x_fault (executor_step deps date_ok automatic host sid pollMs e x) = Some f"
      "x_executed (executor_step deps date_ok automatic host sid pollMs e x) = x_executed x" by simp_all
    from Cons.IH [OF s(1)] Cons.prems(2,3) s(2) show ?case by (simp add: run_executor_def)
  qed
  then show ?thesis by (simp add: runOnce_def start_def refuse_fault_def sbind_apply)
qed

section \<open>Witnesses\<close>

text \<open>A host that supports every operation; its state counts the reconciliations, and the second one fails.\<close>

definition sample_host :: "nat exec_host" where
  "sample_host = \<lparr>h_supports = Some (\<lambda>_. Inr True), h_execute = (\<lambda>_ _ _ n. (Inr JNull, n)), h_record = None,
     h_reconcile = (\<lambda>_ n. (if n = 1 then Inl (inconsistent ''down'') else Inr JNull, n + 1)), h_error = (\<lambda>_. JNull)\<rparr>"

definition exec_deps :: job_deps where
  "exec_deps = sample_deps\<lparr>dep_envelope := (\<lambda>i operation p.
     Inr (JObj [(''id'', JStr i), (''operation'', JStr operation), (''payload'', p)]))\<rparr>"

definition keyed_request :: "string \<Rightarrow> js" where
  "keyed_request k = JObj [(''serverId'', JStr ''local''), (''type'', JStr ''t''),
     (''operation'', JStr ''system.upgrade''), (''payload'', JObj []), (''resourceType'', JStr ''system''),
     (''resourceId'', JStr k), (''idempotencyKey'', JStr k)]"

definition exec_events :: "executor_event list" where
  "exec_events =
     [Request 7 (Mutate (Enqueue 5 ''job-0001'' (keyed_request ''0123456789abcdef''))), Start, Fire (\<lambda>_. 9),
      Restart [] [], RunOnce (\<lambda>_. 9), Request 7 (Mutate (Enqueue 5 ''job-0002'' (keyed_request ''0123456789abcdee''))),
      RunOnce (\<lambda>_. 9)]"

definition exec_sample :: "nat panel_executor" where
  "exec_sample = run_executor exec_deps (\<lambda>_. True) True sample_host ''local'' 1000 exec_events
     (createLocalJobExecutor (start_durable NoFile [] NoFile []) 0)"

lemma exec_sample_runs: "x_executed exec_sample = [''job-0001'', ''job-0002'']"
  by code_simp

definition sample_fault :: executor_fault where
  "sample_fault = \<lparr>ft_code = fst (FAULTS PhaseReconcile), ft_message = snd (FAULTS PhaseReconcile),
     ft_phase = PhaseReconcile, ft_jobId = Some ''job-0002''\<rparr>"

lemma exec_sample_fault: "x_fault exec_sample = Some sample_fault"
  by code_simp

lemma no_job_is_executed_twice_witness:
  "x_executed exec_sample = [''job-0001'', ''job-0002''] \<and> distinct (x_executed exec_sample)"
proof -
  have "distinct (file_ids NoFile @ concat (map event_ids exec_events))" by code_simp
  from no_job_is_executed_twice [OF this exec_sample_def] exec_sample_runs show ?thesis by blast
qed

definition later_events :: "executor_event list" where
  "later_events = [Request 7 (Mutate (Enqueue 5 ''job-0003'' (keyed_request ''0123456789abcdea''))), Start,
     Fire (\<lambda>_. 9), RunOnce (\<lambda>_. 9)]"

lemma halted_executors_stay_halted_witness:
  "let y = run_executor exec_deps (\<lambda>_. True) True sample_host ''local'' 1000 later_events exec_sample in
     x_executed y = [''job-0001'', ''job-0002''] \<and> start y = (Inl (faultError sample_fault), y)"
proof -
  have "list_all in_process later_events" by code_simp
  from halted_executors_stay_halted [OF exec_sample_fault this refl, of exec_deps "\<lambda>_. True" True sample_host "''local''" 1000]
  show ?thesis by (simp add: Let_def exec_sample_runs)
qed

end
