(* ===== verification/RuntimeGuarantees.thy ===== *)
theory RuntimeGuarantees
  imports LocalRuntime ExecutorGuarantees
begin

text \<open>
  The local runtime on the durable queue of the panel: a start that returns has nothing left to recover, one
  that throws leaves nothing running, and a job that was interrupted keeps the runtime from starting.
\<close>

section \<open>The durable queue at the start\<close>

definition panel_recovery :: "job_deps \<Rightarrow> (string \<Rightarrow> bool) \<Rightarrow> int \<Rightarrow> durable_panel recovery_calls" where
  "panel_recovery deps date_ok now =
     \<lparr>rc_recovery = d_recovery,
      rc_getJob = (\<lambda>jobId. map_sm (\<lambda>js. case js of [] \<Rightarrow> None | j # _ \<Rightarrow> Some j)
        (read_durable (registry_ops deps) (recovery_ops date_ok now) (GetJob jobId))),
      rc_getReconciliationJob =
        getReconciliationJob (registry_ops deps) (recovery_ops date_ok now) (dep_envelope deps),
      rc_acknowledge = (\<lambda>serverId jobId.
        map_sm (\<lambda>(st, done). \<lparr>ra_jobId = jobId, ra_serverId = serverId, ra_status = st, ra_flag = done\<rparr>)
          (acknowledgeReconciliation (registry_ops deps) (recovery_ops date_ok now) serverId jobId))\<rparr>"

text \<open>Operations that leave the registry, the initialisation and the jobs held back alone.\<close>

definition same_held :: "(durable_panel, 'a) sm \<Rightarrow> bool" where
  "same_held m \<longleftrightarrow> (\<forall>s b R. keeps (\<lambda>d. d_registry d = s \<and> d_initialized d = b \<and> d_recovery d = R) m)"

lemma same_held_rules:
  "same_held (sret x)" "same_held (sthrow e)" "same_held (slift r)" "same_held (sget g)" "same_held (latch c m)"
  "same_held (on_log k)" "same_held assertHealthy"
  by (auto simp: same_held_def keeps_def on_log_def assertHealthy_apply split: prod.splits option.splits)

lemma same_held_bind: "same_held m \<Longrightarrow> (\<And>x. same_held (f x)) \<Longrightarrow> same_held (sbind m f)"
  by (simp add: same_held_def keeps_sbind)

lemma same_held_catch: "same_held m \<Longrightarrow> (\<And>e. same_held (h e)) \<Longrightarrow> same_held (scatch m h)"
  by (simp add: same_held_def keeps_scatch)

lemma same_held_latch:
  "same_held m \<Longrightarrow> same_held (or_latch c msg m)" "same_held m \<Longrightarrow> same_held (or_latch_unless_fatal p c msg m)"
  by (auto simp: or_latch_def or_latch_unless_fatal_def intro!: same_held_catch same_held_bind same_held_rules)

lemma same_held_log: "same_held (recoverySnapshotJobs l)" "same_held (removeRecoveryJob l i)"
proof -
  show 1: "same_held (recoverySnapshotJobs l)"
    by (auto simp: recoverySnapshotJobs_def Let_def intro!: same_held_latch same_held_bind same_held_rules)
  show "same_held (removeRecoveryJob l i)"
    by (auto simp: removeRecoveryJob_def split: option.splits
        intro!: same_held_latch same_held_bind same_held_rules 1)
qed

text \<open>The queue is up, and holds back a job of the server that its registry has running.\<close>

definition holds_back :: "string \<Rightarrow> string \<Rightarrow> durable_panel \<Rightarrow> bool" where
  "holds_back sid jid d \<longleftrightarrow> d_initialized d \<and> settled_jobs (d_registry d) \<and>
     (\<exists>p. find (\<lambda>j. job_id j = jid) (shown_jobs (d_registry d)) = Some p \<and> job_status p = JobRunning) \<and>
     (sid @ '':'' @ jid) \<in> recoveryKey ` set (d_recovery d)"

lemma holds_back_same: "same_held m \<Longrightarrow> keeps (holds_back sid jid) m"
proof (rule keepsI)
  fix d
  assume m: "same_held m" and d: "holds_back sid jid d"
  have "keeps (\<lambda>t. d_registry t = d_registry d \<and> d_initialized t = d_initialized d \<and> d_recovery t = d_recovery d) m"
    using m by (simp add: same_held_def)
  from keepsD [OF this, of d] d show "holds_back sid jid (snd (m d))" by (simp add: holds_back_def)
qed

lemma holds_back_peek:
  assumes "\<And>s. settled_jobs s \<Longrightarrow> snd (m s) = s"
  shows "keeps (holds_back sid jid) (on_queue m)"
proof (rule keepsI)
  fix d
  assume d: "holds_back sid jid d"
  then have "snd (m (d_registry d)) = d_registry d" using assms by (simp add: holds_back_def)
  with d show "holds_back sid jid (snd (on_queue m d))"
    by (simp add: on_queue_def holds_back_def split: prod.splits) (metis snd_conv)
qed

lemma holds_back_getJob: "keeps (holds_back sid jid) (on_queue (q_getJob (registry_ops deps) i))"
  by (rule holds_back_peek) (simp add: jq.queue_getJob)

lemma holds_back_init: "keeps (holds_back sid jid) (init_durable q l)"
  by (simp add: keeps_def holds_back_def init_durable_def)

lemmas holds_back_rules = holds_back_same [OF same_held_rules(4)] holds_back_same [OF same_held_rules(5)]
  holds_back_same [OF same_held_rules(6)] holds_back_same [OF same_held_rules(7)] holds_back_getJob holds_back_init keeps_rules

lemma holds_back_or_latch: "keeps (holds_back sid jid) m \<Longrightarrow> keeps (holds_back sid jid) (or_latch c msg m)"
  unfolding or_latch_def by (erule keeps_scatch) (rule holds_back_same [OF same_held_rules(5)])

lemma holds_back_read: "keeps (holds_back sid jid) (read_durable (registry_ops deps) l (GetJob i))"
proof -
  have "snd (q_call (registry_ops deps) (GetJob i) s) = s" if "settled_jobs s" for s
    using jq.queue_read [OF that, of "GetJob i" deps] by (cases "q_call (registry_ops deps) (GetJob i) s") auto
  then show ?thesis unfolding read_durable_def by (intro holds_back_rules holds_back_peek)
qed

lemma holds_back_get: "keeps (holds_back sid jid) (getReconciliationJob (registry_ops deps) l envelope i)"
  unfolding getReconciliationJob_def
  by (intro holds_back_rules) (auto intro!: holds_back_rules split: prod.split)

text \<open>A running job is never acknowledged, and the keys of one server tell its jobs apart.\<close>

lemma holds_back_identified:
  "hoare (holds_back sid jid) (reconciliation_job (registry_ops deps) sid i)
     (\<lambda>(k, j) d. holds_back sid jid d \<and> (is_terminal (job_status j) \<longrightarrow> recoveryKey k \<noteq> sid @ '':'' @ jid))
     (\<lambda>_. holds_back sid jid)"
proof (rule hoareI)
  fix d e d'
  assume d: "holds_back sid jid d" and r: "reconciliation_job (registry_ops deps) sid i d = (Inl e, d')"
  have "keeps (holds_back sid jid) (reconciliation_job (registry_ops deps) sid i)"
    unfolding reconciliation_job_def by (intro holds_back_rules holds_back_or_latch)
  from keeps_result [OF this d r] show "holds_back sid jid d'" .
next
  fix d x d'
  assume d: "holds_back sid jid d" and r: "reconciliation_job (registry_ops deps) sid i d = (Inr x, d')"
  obtain k j where x: "x = (k, j)" by (cases x)
  have s: "settled_jobs (d_registry d)" using d by (simp add: holds_back_def)
  have f: "find (\<lambda>j. job_id j = i) (shown_jobs (d_registry d)) = Some j" "safeRecoveryJob i sid = Some k" "d' = d"
    using r [unfolded x] jq.queue_getJob [OF s, of deps i]
    by (auto simp: reconciliation_job_def sbind_apply assertHealthy_apply or_latch_def scatch_apply on_queue_def
        split: option.splits if_splits)
  have "i \<noteq> jid" if "is_terminal (job_status j)"
    using d f(1) that by (auto simp: holds_back_def is_terminal_def)
  moreover have "recoveryKey k = sid @ '':'' @ i" using f(2) by (auto simp: safeRecoveryJob_def recoveryKey_def split: if_splits)
  ultimately show "(case x of (k, j) \<Rightarrow> \<lambda>d. holds_back sid jid d \<and>
      (is_terminal (job_status j) \<longrightarrow> recoveryKey k \<noteq> sid @ '':'' @ jid)) d'"
    using d f(3) by (simp add: x)
qed

lemma holds_back_drop:
  assumes "recoveryKey k \<noteq> sid @ '':'' @ jid"
  shows "keeps (holds_back sid jid) (sbind (sget d_recovery) (\<lambda>R. setRecovery (filter (\<lambda>c. recoveryKey c \<noteq> recoveryKey k) R)))"
proof -
  have "recoveryKey ` set (uniqueRecoveryJobs js) = recoveryKey ` set js" for js
    using uniqueRecoveryJobs_keys [of js] by (simp add: rkeys_def)
  then show ?thesis using assms by (auto simp: keeps_def holds_back_def sbind_apply)
qed

lemma hoare_pair:
  "(\<And>x y. hoare (P x y) (f x y) Q E) \<Longrightarrow> hoare (case p of (x, y) \<Rightarrow> P x y) (case p of (x, y) \<Rightarrow> f x y) Q E"
  by (cases p) simp

lemma holds_back_acknowledge: "keeps (holds_back sid jid) (acknowledgeReconciliation (registry_ops deps) l sid i)"
proof -
  have rest: "keeps (holds_back sid jid) (sbind (recoverySnapshotJobs l) (\<lambda>stored.
       if \<not> list_ex (\<lambda>c. recoveryKey c = recoveryKey k) stored
       then
         sbind (sget (\<lambda>d. recoveryKey k \<in> d_pending d \<or> list_ex (\<lambda>c. recoveryKey c = recoveryKey k) (d_recovery d))) (\<lambda>known.
         if known
         then latch c m
         else
           sbind (smod (\<lambda>d. d\<lparr>d_explicit := d_explicit d - {recoveryKey k}\<rparr>)) (\<lambda>_. sret (st, False)))
       else
         sbind (removeRecoveryJob l k) (\<lambda>_.
         sbind (smod (\<lambda>d. d\<lparr>d_pending := d_pending d - {recoveryKey k}, d_explicit := d_explicit d - {recoveryKey k}\<rparr>)) (\<lambda>_.
         sbind (sbind (sget d_recovery) (\<lambda>recovery. setRecovery (filter (\<lambda>c. recoveryKey c \<noteq> recoveryKey k) recovery))) (\<lambda>_.
         sret (st, True))))))"
    if "recoveryKey k \<noteq> sid @ '':'' @ jid" for k c m and st :: job_status
    by (intro keeps_sbind keeps_if holds_back_drop [OF that] holds_back_same [OF same_held_log(1)]
        holds_back_same [OF same_held_log(2)] holds_back_same [OF same_held_rules(1)] holds_back_same [OF same_held_rules(4)]
        holds_back_same [OF same_held_rules(5)] keeps_smod)
      (simp_all add: holds_back_def)
  have tail: "hoare (\<lambda>d. holds_back sid jid d \<and> (is_terminal st \<longrightarrow> recoveryKey k \<noteq> sid @ '':'' @ jid)) m
      (\<lambda>_. holds_back sid jid) (\<lambda>_. holds_back sid jid)"
    if "is_terminal st" "recoveryKey k \<noteq> sid @ '':'' @ jid \<Longrightarrow> keeps (holds_back sid jid) m"
    for k st and m :: "(durable_panel, job_status \<times> bool) sm"
  proof (cases "recoveryKey k = sid @ '':'' @ jid")
    case False
    show ?thesis by (rule hoare_pre [OF that(2) [OF False, unfolded keeps_iff_hoare]]) simp
  qed (use that(1) in \<open>simp add: hoare_def\<close>)
  note rest' = rest [unfolded sbind_assoc]
  show ?thesis
    unfolding acknowledgeReconciliation_def Let_def keeps_iff_hoare
    by (rule hoare_sbind [OF holds_back_init [unfolded keeps_iff_hoare]], rule hoare_sbind [OF holds_back_identified],
        rule hoare_pair, rule hoare_if, rule hoare_sthrow, simp, rule tail, simp, erule rest')
qed

section \<open>The start with an interrupted job\<close>

lemma keeps_jobs:
  "keeps I m \<Longrightarrow> keeps (\<lambda>rt. I (x_registry (rt_executor rt))) (on_jobs m)"
  by (auto simp: keeps_def on_executor_def on_registry_def split: prod.splits)

lemma keeps_host: "keeps (\<lambda>rt. I (x_registry (rt_executor rt))) (on_host m)"
  by (auto simp: keeps_def on_executor_def on_machine_def split: prod.splits)

definition runtime_holds :: "string \<Rightarrow> string \<Rightarrow> (durable_panel, 'h, 's) local_runtime \<Rightarrow> bool" where
  "runtime_holds sid jid rt = holds_back sid jid (x_registry (rt_executor rt))"

lemma holds_jobs: "keeps (holds_back sid jid) m \<Longrightarrow> keeps (runtime_holds sid jid) (on_jobs m)"
  unfolding runtime_holds_def [abs_def] by (rule keeps_jobs)

lemma holds_host: "keeps (runtime_holds sid jid) (on_host m)"
  unfolding runtime_holds_def [abs_def] by (rule keeps_host)

lemma holds_recover: "keeps (runtime_holds sid jid) (recover_jobs (panel_recovery deps date_ok now) reconcile sid is)"
proof (induction "is")
  case (Cons i "is")
  have calls: "keeps (holds_back sid jid) (rc_getJob (panel_recovery deps date_ok now) i)"
    "keeps (holds_back sid jid) (rc_getReconciliationJob (panel_recovery deps date_ok now) i)"
    "keeps (holds_back sid jid) (rc_acknowledge (panel_recovery deps date_ok now) sid i)" for i
    by (simp_all add: panel_recovery_def map_sm_def holds_back_read holds_back_get holds_back_acknowledge keeps_sbind keeps_sret)
  have "keeps (runtime_holds sid jid) (recover_job (panel_recovery deps date_ok now) reconcile sid i)" for i
    unfolding recover_job_def by (intro keeps_rules holds_jobs holds_host calls)
  with Cons.IH show ?case unfolding recover_jobs.simps by (intro keeps_rules holds_jobs calls)
qed (simp add: keeps_def)

lemma holds_world: "keeps (runtime_holds sid jid) (on_world m)"
  by (auto simp: keeps_def on_world_def runtime_holds_def split: prod.splits)

lemma recovery_refuses:
  "hoare (runtime_holds sid jid) (reconcileStartupRecovery (Some (panel_recovery deps date_ok now)) reconcile sid)
     (\<lambda>_ _. False) (\<lambda>_ _. True)"
proof -
  let ?recovery = "\<lambda>rt. rc_recovery (panel_recovery deps date_ok now) (x_registry (rt_executor rt))"
  have pending: "?recovery rt \<noteq> []" if "runtime_holds sid jid rt" for rt :: "(durable_panel, 'h, 's) local_runtime"
    using that by (auto simp: runtime_holds_def holds_back_def panel_recovery_def)
  have last: "hoare (runtime_holds sid jid) (sbind (sget ?recovery) (\<lambda>remaining. if remaining \<noteq> [] then sthrow e else sret n))
      (\<lambda>_ _. False) (\<lambda>_ _. True)" for e and n :: nat
    using pending by (auto simp: hoare_def sbind_apply)
  have jobs: "hoare (runtime_holds sid jid) (recover_jobs (panel_recovery deps date_ok now) reconcile sid is)
      (\<lambda>_. runtime_holds sid jid) (\<lambda>_ _. True)" for "is"
    by (rule hoare_any_throw, rule holds_recover [unfolded keeps_iff_hoare])
  have first: "hoare (runtime_holds sid jid) (sget ?recovery) (\<lambda>R rt. runtime_holds sid jid rt \<and> R \<noteq> []) (\<lambda>_ _. True)"
    using pending by (auto intro: hoare_sget)
  show ?thesis
    unfolding reconcileStartupRecovery_def option.case
    by (rule hoare_sbind [OF first], rule hoare_if, simp add: hoare_def,
        rule hoare_pre [OF hoare_sbind [OF jobs last]], simp)
qed

lemma bring_up_refuses:
  "hoare (runtime_holds (cf_serverId cf) jid)
     (bring_up date_ok' env (Some (panel_recovery deps date_ok now)) reconcile cf) (\<lambda>_ _. False) (\<lambda>_ _. True)"
proof -
  have k: "hoare (runtime_holds sid jid) m (\<lambda>_. runtime_holds sid jid) (\<lambda>_ _. True)"
    if "keeps (runtime_holds sid jid) m" for sid and m :: "((durable_panel, 'h, 's) local_runtime, unit) sm"
    using that unfolding keeps_iff_hoare by (rule hoare_any_throw)
  have b: "keeps (runtime_holds sid jid) (bound_server date_ok' env cf)" for sid
    unfolding bound_server_def by (intro keeps_rules holds_world)
  show ?thesis
    unfolding bring_up_def
    by (rule hoare_sbind [OF k [OF holds_world]], rule hoare_sbind [where R = "\<lambda>_. runtime_holds (cf_serverId cf) jid"],
        rule hoare_smod, simp add: runtime_holds_def,
        rule hoare_sbind [OF hoare_any_throw [OF b [unfolded keeps_iff_hoare]]],
        rule hoare_sbind [OF recovery_refuses], simp add: hoare_def)
qed

text \<open>The initialisation on a file with a running job ends in such a queue.\<close>

definition registry_is :: "job_store \<Rightarrow> durable_panel \<Rightarrow> bool" where
  "registry_is s d \<longleftrightarrow> d_registry d = s"

lemma registry_rules:
  "keeps (registry_is s) (on_log m)" "keeps (registry_is s) (latch c msg)" "keeps (registry_is s) (setRecovery js)"
  "(\<And>d. d_registry (f d) = d_registry d) \<Longrightarrow> keeps (registry_is s) (smod f)"
  by (auto simp: keeps_def registry_is_def on_log_def split: prod.splits)

lemma registry_or_latch: "keeps (registry_is s) m \<Longrightarrow> keeps (registry_is s) (or_latch c msg m)"
  unfolding or_latch_def by (erule keeps_scatch) (rule registry_rules(2))

lemma registry_unless: "keeps (registry_is s) m \<Longrightarrow> keeps (registry_is s) (or_latch_unless_fatal p c msg m)"
  unfolding or_latch_unless_fatal_def by (erule keeps_scatch) (intro keeps_rules registry_rules)

lemma registry_peek:
  assumes "settled_jobs s"
  shows "keeps (registry_is s) (on_queue (q_running (registry_ops deps)))"
    "keeps (registry_is s) (on_queue (q_getJob (registry_ops deps) i))"
  using jq.queue_running [OF assms, of deps] jq.queue_getJob [OF assms, of deps i]
  by (auto simp: keeps_def registry_is_def on_queue_def)

lemma registry_detect:
  assumes "settled_jobs s"
  shows "keeps (registry_is s) (detectRecovery (registry_ops deps) l)"
proof -
  note rules = registry_or_latch registry_rules registry_peek [OF assms] keeps_rules
  have snap: "keeps (registry_is s) (recoverySnapshotJobs l)"
    unfolding recoverySnapshotJobs_def Let_def by (intro rules)
  have sync: "keeps (registry_is s) (syncRecoveryRecord l js)" for js
    unfolding syncRecoveryRecord_def replaceRecoveryJobs_def by (intro rules snap)
  have check: "keeps (registry_is s) (check_recorded (registry_ops deps) is)" for "is"
  proof (induction "is")
    case (Cons i "is")
    then show ?case unfolding check_recorded.simps by (intro rules) simp_all
  qed (simp add: keeps_def)
  show ?thesis
    unfolding detectRecovery_def Let_def by (intro rules snap sync check) simp
qed

lemma find_own: "distinct (map job_id m) \<Longrightarrow> j \<in> set m \<Longrightarrow> find (\<lambda>k. job_id k = job_id j) m = Some j"
  by (induction m) auto

lemma init_holds_back:
  assumes "init_durable (registry_ops deps) (recovery_ops date_ok now) (start_durable (JsonFile t) ws record vs) = (Inr u, d)"
    "read_jobs t = Inr m" "distinct (map job_id m)" "j \<in> set m" "job_status j = JobRunning"
  shows "holds_back (job_serverId j) (job_id j) d"
proof -
  let ?q = "registry_ops deps" and ?l = "recovery_ops date_ok now"
  define d0 where "d0 = start_durable (JsonFile t) ws record vs"
  define s where "s = snd (init_jobs (d_registry d0))"
  have s: "settled_jobs s" "shown_jobs s = map publicJob m"
    by (auto simp: s_def d0_def start_durable_def createDurableJobRegistry_def createJobRegistry_def
        init_jobs_def settled_jobs_def shown_jobs_def assms(2) read_file_jobs [OF assms(2)])
  have first: "hoare (\<lambda>d. d = d0) (on_queue (q_init ?q)) (\<lambda>_. registry_is s) (\<lambda>_ _. True)"
    by (auto simp: hoare_def on_queue_def registry_ops_def registry_is_def s_def split: prod.splits sum.splits)
  have k: "hoare (registry_is s) m (\<lambda>_. registry_is s) (\<lambda>_ _. True)" if "keeps (registry_is s) m" for m :: "(durable_panel, unit) sm"
    using that unfolding keeps_iff_hoare by (rule hoare_any_throw)
  have log: "keeps (registry_is s) (initializeRecoveryStore ?l)"
    unfolding initializeRecoveryStore_def by (intro registry_or_latch registry_rules)
  have "hoare (\<lambda>d. d = d0) (sbind (on_queue (q_init ?q)) (\<lambda>_. sbind (initializeRecoveryStore ?l) (\<lambda>_.
       sbind (detectRecovery ?q ?l) (\<lambda>_. smod (\<lambda>d. d\<lparr>d_initialized := True\<rparr>))))) (\<lambda>_. registry_is s) (\<lambda>_ _. True)"
    by (rule hoare_sbind [OF first], rule hoare_sbind [OF k [OF log]], rule hoare_sbind [OF k [OF registry_detect [OF s(1)]]],
        rule hoare_smod) (simp add: registry_is_def)
  from hoare_returns_or_latch(2) [OF this, of is_durable_error "''durable_job_init_failed''"
      "''Durable job registry could not be initialized''"]
  have "registry_is s d"
    by (rule hoareD_ret [where s = d0])
      (use assms(1) in \<open>simp_all add: init_durable_def d0_def start_durable_def createDurableJobRegistry_def
         sbind_apply assertHealthy_apply\<close>)
  then have r: "d_registry d = s" by (simp add: registry_is_def)
  have "find (\<lambda>k. job_id k = job_id j) (shown_jobs s) = Some (publicJob j)"
    by (simp add: s(2) find_publicJob find_own [OF assms(3,4)])
  moreover have "running_key (publicJob j) \<in> rkeys (d_recovery d) \<and> d_initialized d"
    using init_holds_running [OF assms(1,2)] assms(4,5) by auto
  ultimately show ?thesis
    using s(1) assms(5) by (simp add: holds_back_def r rkeys_def running_key_def publicJob_def public_job.truncate_def)
qed

section \<open>What a start brings up and takes down\<close>


text \<open>On the way up: an executor that has not been made is at rest.\<close>

definition coming_up :: "string list \<Rightarrow> ('q, 'h, 's) local_runtime \<Rightarrow> bool" where
  "coming_up ex rt \<longleftrightarrow> x_executed (rt_executor rt) = ex \<and>
     (\<not> rt_made rt \<longrightarrow> x_stopped (rt_executor rt) \<and> x_timer (rt_executor rt) = None)"




lemma coming_smod: "(\<And>rt. rt_executor (f rt) = rt_executor rt \<and> rt_made (f rt) = rt_made rt) \<Longrightarrow> keeps (coming_up ex) (smod f)"
  by (simp add: keeps_def coming_up_def)



lemma keeps_refresh:
  fixes env :: "'s surroundings" and I :: "('q, 'h, 's) local_runtime \<Rightarrow> bool"
  assumes "\<And>m :: ('s, js) sm. keeps I (on_world m)"
  shows "keeps I (refreshSnapshot date_ok env cf)"
  unfolding refreshSnapshot_def by (intro keeps_rules assms)





text \<open>A runtime that nothing has stopped.\<close>

definition quiet :: "bool \<Rightarrow> ('q, 'h, 's) local_runtime \<Rightarrow> bool" where
  "quiet b rt \<longleftrightarrow> \<not> rt_stopped rt \<and> rt_fault rt = None \<and> \<not> rt_timer rt \<and> x_executed (rt_executor rt) = [] \<and> rt_locked rt = b"

definition recovered :: "'q recovery_calls \<Rightarrow> ('q, 'h, 's) local_runtime \<Rightarrow> bool" where
  "recovered rc rt \<longleftrightarrow> quiet True rt \<and> rc_recovery rc (x_registry (rt_executor rt)) = []"

lemma quiet_rules: "keeps (quiet b) (on_world m)" "keeps (quiet b) (on_jobs n)" "keeps (quiet b) (on_host k)"
  by (auto simp: keeps_def on_world_def on_executor_def on_registry_def on_machine_def quiet_def split: prod.splits)

lemma quiet_recover: "keeps (quiet b) (recover_jobs rc reconcile sid is)"
proof (induction "is")
  case (Cons i "is")
  have "keeps (quiet b) (recover_job rc reconcile sid i)" for i
    unfolding recover_job_def by (intro keeps_rules quiet_rules)
  with Cons show ?case unfolding recover_jobs.simps by (intro keeps_rules quiet_rules)
qed (simp add: keeps_def)

lemma recovery_empties:
  "hoare (quiet True) (reconcileStartupRecovery (Some rc) reconcile sid) (\<lambda>_. recovered rc) (\<lambda>_ _. True)"
proof -
  let ?recovery = "\<lambda>rt. rc_recovery rc (x_registry (rt_executor rt))"
  have last: "hoare (quiet True) (sbind (sget ?recovery) (\<lambda>remaining. if remaining \<noteq> [] then sthrow e else sret n))
      (\<lambda>_. recovered rc) (\<lambda>_ _. True)" for e and n :: nat
    by (auto simp: hoare_def sbind_apply recovered_def)
  have jobs: "hoare (quiet True) (recover_jobs rc reconcile sid is) (\<lambda>_. quiet True) (\<lambda>_ _. True)" for "is"
    by (rule hoare_any_throw, rule quiet_recover [unfolded keeps_iff_hoare])
  show ?thesis
    unfolding reconcileStartupRecovery_def option.case
    by (rule hoare_sbind [where R = "\<lambda>R rt. quiet True rt \<and> R = ?recovery rt"], rule hoare_sget, simp, rule hoare_if,
        rule hoare_sret, simp add: recovered_def, rule hoare_pre [OF hoare_sbind [OF jobs last]], simp)
qed

text \<open>The executor has been made and is about to start.\<close>

definition made_ready :: "'q recovery_calls \<Rightarrow> ('q, 'h, 's) local_runtime \<Rightarrow> bool" where
  "made_ready rc rt \<longleftrightarrow> recovered rc rt \<and> x_stopped (rt_executor rt) \<and> x_timer (rt_executor rt) = None \<and>
     x_epoch (rt_executor rt) = 0 \<and> x_fault (rt_executor rt) = None"

definition running :: "'q recovery_calls \<Rightarrow> ('q, 'h, 's) local_runtime \<Rightarrow> bool" where
  "running rc rt \<longleftrightarrow> rc_recovery rc (x_registry (rt_executor rt)) = [] \<and> \<not> rt_stopped rt \<and> rt_fault rt = None \<and>
     rt_locked rt \<and> rt_timer rt \<and> \<not> x_stopped (rt_executor rt) \<and> x_timer (rt_executor rt) = Some (0, 1) \<and>
     x_fault (rt_executor rt) = None \<and> x_executed (rt_executor rt) = []"

lemma bring_up_runs:
  "hoare (quiet False) (bring_up date_ok env (Some rc) reconcile cf) (\<lambda>_. running rc) (\<lambda>_ _. True)"
proof -
  have q: "hoare (quiet b) m (\<lambda>_. quiet b) (\<lambda>_ _. True)" if "keeps (quiet b) m" for b and m :: "('q, 'h, 's, unit) rsm"
    using that unfolding keeps_iff_hoare by (rule hoare_any_throw)
  have "keeps (quiet True) (bound_server date_ok env cf)"
    unfolding bound_server_def by (intro keeps_rules quiet_rules)
  then have bound: "hoare (quiet True) (bound_server date_ok env cf) (\<lambda>_. quiet True) (\<lambda>_ _. True)"
    unfolding keeps_iff_hoare by (rule hoare_any_throw)
  have make: "hoare (recovered rc) make_executor (\<lambda>_. made_ready rc) (\<lambda>_ _. True)"
    unfolding make_executor_def
    by (rule hoare_smod) (simp add: made_ready_def recovered_def quiet_def createLocalJobExecutor_def)
  have world: "keeps (made_ready rc) (on_world m)" for m :: "('s, js) sm"
    by (auto simp: keeps_def on_world_def made_ready_def recovered_def quiet_def split: prod.splits)
  have refresh: "hoare (made_ready rc) (refreshSnapshot date_ok env cf) (\<lambda>_. made_ready rc) (\<lambda>_ _. True)"
    by (rule hoare_any_throw, rule keeps_refresh [OF world, unfolded keeps_iff_hoare])
  have start: "hoare (made_ready rc) (sbind (on_executor start) (\<lambda>_. scheduleSnapshotRefresh)) (\<lambda>_. running rc) (\<lambda>_ _. True)"
    by (auto simp: hoare_def sbind_apply on_executor_def start_def schedule_def refuse_fault_def scheduleSnapshotRefresh_def
        made_ready_def recovered_def quiet_def running_def)
  show ?thesis
    unfolding bring_up_def
    by (rule hoare_sbind [OF q [OF quiet_rules(1)]], rule hoare_sbind [where R = "\<lambda>_. quiet True"], rule hoare_smod,
        simp add: quiet_def, rule hoare_sbind [OF bound], rule hoare_sbind [OF recovery_empties], rule hoare_sbind [OF make],
        rule hoare_sbind [OF refresh start])
qed

lemma start_hoare:
  fixes env :: "'s surroundings" and P :: "('q, 'h, 's) local_runtime \<Rightarrow> bool"
  assumes "\<And>m :: ('s, js) sm. keeps P (on_world m)"
    and "\<And>cf. checked_config serverId hostname version interval = Inr cf \<Longrightarrow>
       hoare P (bring_up date_ok env calls reconcile cf) (\<lambda>_. Q) (\<lambda>_ _. True)"
  shows "hoare P (startLocalRuntime date_ok env calls reconcile serverId hostname version interval) (\<lambda>_. Q) (\<lambda>_ _. True)"
proof (cases "checked_config serverId hostname version interval")
  case (Inr cf)
  have "keeps P (bound_server date_ok env cf)" unfolding bound_server_def by (intro keeps_rules assms(1))
  then have bound: "hoare P (bound_server date_ok env cf) (\<lambda>_. P) (\<lambda>_ _. True)"
    unfolding keeps_iff_hoare by (rule hoare_any_throw)
  have down: "hoare (\<lambda>_. True) (take_down env e) (\<lambda>_. Q) (\<lambda>_ _. True)" for e
    by (auto simp: hoare_def take_down_def sbind_apply split: prod.splits sum.splits)
  have eq: "startLocalRuntime date_ok env calls reconcile serverId hostname version interval =
      sbind (bound_server date_ok env cf) (\<lambda>_. sbind (scatch (bring_up date_ok env calls reconcile cf) (take_down env)) (\<lambda>_. sret cf))"
    by (simp add: startLocalRuntime_def Inr fun_eq_iff sbind_apply)
  have up: "hoare P (scatch (bring_up date_ok env calls reconcile cf) (take_down env)) (\<lambda>_. Q) (\<lambda>_ _. True)"
    by (rule hoare_scatch [OF assms(2) [OF Inr] down])
  show ?thesis
    unfolding eq by (rule hoare_sbind [OF bound], rule hoare_sbind [OF up], rule hoare_sret)
qed (simp add: startLocalRuntime_def hoare_def sbind_apply)

section \<open>Properties\<close>










text \<open>C26 Starting. A start that returns holds the lock, has nothing left to recover, and the executor is about to make
  its first run: it has not halted, and no operation was executed before.\<close>

theorem started_runtimes_are_recovered:
  assumes "startLocalRuntime date_ok env (Some rc) reconcile serverId hostname version interval (fresh_runtime q h s) = (Inr cf, rt)"
  shows "rc_recovery rc (x_registry (rt_executor rt)) = [] \<and> rt_locked rt \<and> rt_timer rt \<and> rt_fault rt = None \<and>
    \<not> x_stopped (rt_executor rt) \<and> x_timer (rt_executor rt) = Some (0, 1) \<and> x_fault (rt_executor rt) = None \<and>
    x_executed (rt_executor rt) = []"
proof -
  have "hoare (quiet False) (startLocalRuntime date_ok env (Some rc) reconcile serverId hostname version interval)
      (\<lambda>_. running rc) (\<lambda>_ _. True)"
    by (rule start_hoare [OF quiet_rules(1) bring_up_runs])
  from hoareD_ret [OF this _ assms] show ?thesis
    by (simp add: running_def quiet_def fresh_runtime_def createLocalJobExecutor_def)
qed

text \<open>Interrupted jobs. A process that starts on a job file in which a job of its server is running does not come
  up, whatever the surroundings answer: the start throws, so that no job is executed before somebody has
  looked at the interrupted one.\<close>

theorem interrupted_jobs_block_the_start:
  assumes "init_durable (registry_ops deps) (recovery_ops date_ok now) (start_durable (JsonFile t) ws record vs) = (Inr u, d)"
    and "read_jobs t = Inr m" "distinct (map job_id m)" "j \<in> set m" "job_status j = JobRunning" "serverId = JStr (job_serverId j)"
    and "startLocalRuntime date_ok' env (Some (panel_recovery deps date_ok now')) reconcile serverId hostname version interval
       (fresh_runtime d h s) = (r, rt)"
  shows "\<exists>e. r = Inl e"
proof -
  have held: "runtime_holds (job_serverId j) (job_id j) (fresh_runtime d h s)"
    using init_holds_back [OF assms(1-5)] by (simp add: runtime_holds_def fresh_runtime_def createLocalJobExecutor_def)
  have "hoare (runtime_holds (job_serverId j) (job_id j))
      (startLocalRuntime date_ok' env (Some (panel_recovery deps date_ok now')) reconcile serverId hostname version interval)
      (\<lambda>_ _. False) (\<lambda>_ _. True)"
  proof (rule start_hoare [where Q = "\<lambda>_. False"])
    fix cf
    assume "checked_config serverId hostname version interval = Inr cf"
    then have id: "job_serverId j = cf_serverId cf"
      using assms(6) by (auto simp: checked_config_def split: if_splits sum.splits)
    show "hoare (runtime_holds (job_serverId j) (job_id j))
        (bring_up date_ok' env (Some (panel_recovery deps date_ok now')) reconcile cf) (\<lambda>_ _. False) (\<lambda>_ _. True)"
      unfolding id by (rule bring_up_refuses)
  qed (rule holds_world)
  from hoareD_ret [OF this held] assms(7) show ?thesis by (cases r) auto
qed

section \<open>Witnesses\<close>

definition sample_server :: js where
  "sample_server = JObj [(''id'', JStr ''local''), (''executionMode'', JStr ''local''),
     (''localBoundAt'', JStr ''2026-09-10T00:00:00.000Z''), (''hostname'', JStr ''panel.example.com'')]"

text \<open>Surroundings in which all goes well but, when so chosen, the update of the snapshot.\<close>

definition sample_surroundings :: "bool \<Rightarrow> nat surroundings" where
  "sample_surroundings ok = \<lparr>s_getServer = (\<lambda>_ n. (Inr sample_server, n)),
     s_updateLocalSnapshot = (\<lambda>_ n. (if ok then Inr sample_server else Inl (inconsistent ''down''), n)),
     s_acquireLock = (\<lambda>n. (Inr (), n + 1)), s_releaseLock = (\<lambda>n. (Inr (), 0)), s_snapshotProvider = None\<rparr>"

definition start_sample :: "bool \<Rightarrow> (durable_panel, nat, nat, runtime_config) rsm" where
  "start_sample ok = startLocalRuntime (\<lambda>_. True) (sample_surroundings ok)
     (Some (panel_recovery sample_deps (\<lambda>_. True) 7)) (\<lambda>_ n. (Inr (JObj [(''reconciled'', JBool True)]), n + 1))
     (JStr ''local'') (JStr ''panel.example.com'') (JStr ''1.0.0'') (JInt 1000)"

text \<open>The queue of \<open>durable_sample\<close> awaits the reconciliation of a finished job.\<close>

lemma started_runtimes_are_recovered_witness:
  "\<exists>cf rt. start_sample True (fresh_runtime durable_sample 0 0) = (Inr cf, rt) \<and> d_recovery durable_sample \<noteq> [] \<and>
     d_recovery (x_registry (rt_executor rt)) = [] \<and> rt_world rt = 1"
proof -
  have "case start_sample True (fresh_runtime durable_sample 0 0) of
      (Inr cf, rt) \<Rightarrow> rt_world rt = 1 | _ \<Rightarrow> False" by code_simp
  then obtain cf rt where r: "start_sample True (fresh_runtime durable_sample 0 0) = (Inr cf, rt)" "rt_world rt = 1"
    by (auto split: prod.splits sum.splits)
  moreover have "d_recovery durable_sample \<noteq> []" by code_simp
  moreover have "d_recovery (x_registry (rt_executor rt)) = []"
    using started_runtimes_are_recovered [OF r(1) [unfolded start_sample_def]] by (simp add: panel_recovery_def)
  ultimately show ?thesis by blast
qed


lemma interrupted_jobs_block_the_start_witness:
  "\<exists>d. init_durable (registry_ops sample_deps) (recovery_ops (\<lambda>_. True) 0)
       (start_durable (JsonFile (jobs_text [sample_job JobRunning])) [] NoFile []) = (Inr (), d) \<and>
     (\<exists>e. fst (start_sample True (fresh_runtime d 0 0)) = Inl e)"
proof -
  let ?i = "init_durable (registry_ops sample_deps) (recovery_ops (\<lambda>_. True) 0)
    (start_durable (JsonFile (jobs_text [sample_job JobRunning])) [] NoFile [])"
  have "fst ?i = Inr ()" by code_simp
  then have i: "?i = (Inr (), snd ?i)" by (simp add: prod_eq_iff)
  obtain r rt where r: "start_sample True (fresh_runtime (snd ?i) 0 0) = (r, rt)" by fastforce
  have j: "read_jobs (jobs_text [sample_job JobRunning]) = Inr [sample_job JobRunning]"
    "distinct (map job_id [sample_job JobRunning])" "sample_job JobRunning \<in> set [sample_job JobRunning]"
    "job_status (sample_job JobRunning) = JobRunning" "JStr ''local'' = JStr (job_serverId (sample_job JobRunning))"
    by (simp_all add: stored_jobs_def stored_job_def sample_job_def)
  from interrupted_jobs_block_the_start [OF i j r [unfolded start_sample_def]] have "\<exists>e. r = Inl e" .
  with i r show ?thesis by (intro exI [of _ "snd ?i"]) simp
qed

end
