(* ===== verification/LocalLock.thy ===== *)
theory LocalLock
  imports JsClock FileStore
begin

text \<open>
  The lock file of the local executor (\<open>apps/api/src/local-execution-lock.js\<close>): a process creates it
  exclusively, a lock whose process is gone is removed and the creation tried once more, and a release
  removes the file when it still holds the token of its owner.

  Several processes work on one path, so an acquisition is a sequence of steps that others interleave with:
  one per call of the file system, with the success of the call chosen by the environment. The path is a
  name for a file, and a file has its content and the access the process got when it created it; a write
  goes to the file that was opened, whatever the path names by then. A read is one step.
\<close>

section \<open>Records\<close>

record lock_record =
  lr_pid :: int
  lr_server :: string
  lr_token :: string

definition lock_error :: "string \<Rightarrow> string \<Rightarrow> jerr" where
  "lock_error c msg = Err ''LocalExecutionLockError'' (Some c) msg"

definition normalizeServerId :: "js \<Rightarrow> string res" where
  "normalizeServerId v =
     (if \<not> is_string v \<or> length (str_of v) < 1 \<or> 128 < length (str_of v) \<or> list_ex is_control (str_of v)
      then Inl (lock_error ''invalid_local_server_id'' ''Local executor server id is invalid'')
      else Inr (str_of v))"

text \<open>\<open>/^[0-9a-f-]{36}$/i\<close>\<close>

definition is_lock_token :: "string \<Rightarrow> bool" where
  "is_lock_token t = (length t = 36 \<and> list_all (\<lambda>c. is_hex c \<or> c = CHR ''-'') t)"

text \<open>The record in the file; null is \<open>None\<close>. \<open>date_ok\<close> tells whether \<open>Date.parse\<close> gives a number.\<close>

definition parseLockRecord :: "(string \<Rightarrow> bool) \<Rightarrow> js disk_file \<Rightarrow> lock_record option" where
  "parseLockRecord date_ok content =
     (case content of
        JsonFile v \<Rightarrow>
          if \<not> is_object v then None
          else if \<not> safe_at_least 1 (jget v ''pid'') then None
          else if \<not> is_string (jget v ''serverId'') \<or> length (str_of (jget v ''serverId'')) < 1 \<or>
                  128 < length (str_of (jget v ''serverId'')) then None
          else if \<not> is_string (jget v ''token'') \<or> \<not> is_lock_token (str_of (jget v ''token'')) then None
          else if \<not> is_string (jget v ''createdAt'') \<or> \<not> date_ok (str_of (jget v ''createdAt'')) then None
          else Some \<lparr>lr_pid = int_of (jget v ''pid''), lr_server = str_of (jget v ''serverId''),
                     lr_token = str_of (jget v ''token'')\<rparr>
      | _ \<Rightarrow> None)"

section \<open>The world\<close>

text \<open>Where an acquisition, or the release that follows it, is: the call it makes next.\<close>

datatype lock_outcome = Refused string | Thrown | Released bool

datatype lock_pc =
    Making
  | Creating nat
  | Writing nat
  | Checking
  | Dropping
  | Inspecting nat
  | Probing nat lock_record
  | Removing nat
  | Holding
  | Rereading
  | Unlinking
  | Ended lock_outcome
  | Gone

record lock_client =
  c_pid :: int
  c_server :: string
  c_token :: string
  c_now :: int
  c_private :: bool
  c_pc :: lock_pc

record lock_world =
  w_entry :: "nat option"
  w_inodes :: "(js disk_file \<times> bool) list"
  w_alive :: "int set"
  w_clients :: "lock_client list"

definition created_at :: "lock_client \<Rightarrow> string" where
  "created_at c = (case toISOString (c_now c) of Inr t \<Rightarrow> t | Inl _ \<Rightarrow> [])"

definition own_record :: "lock_client \<Rightarrow> js" where
  "own_record c = JObj [(''version'', JInt 1), (''serverId'', JStr (c_server c)), (''pid'', JInt (c_pid c)),
     (''token'', JStr (c_token c)), (''createdAt'', JStr (created_at c))]"

text \<open>What the path names: \<open>NoFile\<close> is the error ENOENT.\<close>

definition at_path :: "lock_world \<Rightarrow> js disk_file" where
  "at_path w = (case w_entry w of None \<Rightarrow> NoFile | Some k \<Rightarrow> fst (w_inodes w ! k))"

definition processAlive :: "lock_world \<Rightarrow> int \<Rightarrow> bool" where
  "processAlive w pid = (pid \<in> w_alive w)"

text \<open>The directory is made and the record built, whose date may be out of range.\<close>

definition make_step :: "bool \<Rightarrow> lock_client \<Rightarrow> lock_pc" where
  "make_step ok c =
     (if \<not> ok then Ended Thrown
      else case toISOString (c_now c) of Inl _ \<Rightarrow> Ended Thrown | Inr _ \<Rightarrow> Creating 0)"

text \<open>\<open>writeFile(path, serialized, { flag: 'wx', mode: 0o600 })\<close> opens the file, then writes to it.\<close>

definition create_step :: "bool \<Rightarrow> nat \<Rightarrow> lock_client \<Rightarrow> lock_world \<Rightarrow> lock_pc \<times> lock_world" where
  "create_step ok attempt c w =
     (if \<not> ok then (Ended (Refused ''local_executor_lock_create_failed''), w)
      else if w_entry w \<noteq> None then (Inspecting attempt, w)
      else (Writing (length (w_inodes w)),
            w\<lparr>w_entry := Some (length (w_inodes w)), w_inodes := w_inodes w @ [(CorruptFile, c_private c)]\<rparr>))"

definition write_step :: "bool \<Rightarrow> nat \<Rightarrow> lock_client \<Rightarrow> lock_world \<Rightarrow> lock_pc \<times> lock_world" where
  "write_step ok k c w =
     (if ok then (Checking, w\<lparr>w_inodes := (w_inodes w)[k := (JsonFile (own_record c), snd (w_inodes w ! k))]\<rparr>)
      else (Ended (Refused ''local_executor_lock_create_failed''), w))"

text \<open>\<open>stat\<close>, and the unlink whose errors are ignored.\<close>

definition check_step :: "bool \<Rightarrow> lock_world \<Rightarrow> lock_pc" where
  "check_step ok w =
     (case w_entry w of
        None \<Rightarrow> Ended (Refused ''local_executor_lock_create_failed'')
      | Some k \<Rightarrow>
          if \<not> ok then Ended (Refused ''local_executor_lock_create_failed'')
          else if \<not> snd (w_inodes w ! k) then Dropping
          else Holding)"

definition unlinked :: "bool \<Rightarrow> lock_world \<Rightarrow> lock_world" where
  "unlinked ok w = (if ok then w\<lparr>w_entry := None\<rparr> else w)"

definition readExisting :: "(string \<Rightarrow> bool) \<Rightarrow> bool \<Rightarrow> nat \<Rightarrow> lock_world \<Rightarrow> lock_pc" where
  "readExisting date_ok ok attempt w =
     (if w_entry w \<noteq> None \<and> \<not> ok then Ended (Refused ''local_executor_lock_read_failed'')
      else case parseLockRecord date_ok (at_path w) of
        None \<Rightarrow> Ended (Refused ''local_executor_lock_invalid'')
      | Some existing \<Rightarrow> Probing attempt existing)"

definition probe_step :: "nat \<Rightarrow> lock_record \<Rightarrow> lock_world \<Rightarrow> lock_pc" where
  "probe_step attempt existing w =
     (if processAlive w (lr_pid existing) then Ended (Refused ''local_executor_locked'') else Removing attempt)"

text \<open>The loop makes two attempts.\<close>

definition remove_step :: "bool \<Rightarrow> nat \<Rightarrow> lock_world \<Rightarrow> lock_pc \<times> lock_world" where
  "remove_step ok attempt w =
     (if w_entry w \<noteq> None \<and> \<not> ok then (Ended (Refused ''local_executor_stale_lock_failed''), w)
      else (if attempt + 1 < 2 then Creating (attempt + 1) else Ended (Refused ''local_executor_lock_race''),
            unlinked True w))"

text \<open>\<open>release\<close>: any failure to read the own record answers false.\<close>

definition reread_step :: "(string \<Rightarrow> bool) \<Rightarrow> bool \<Rightarrow> lock_client \<Rightarrow> lock_world \<Rightarrow> lock_pc" where
  "reread_step date_ok ok c w =
     (case parseLockRecord date_ok (at_path w) of
        None \<Rightarrow> Ended (Released False)
      | Some current \<Rightarrow>
          if \<not> ok \<or> lr_token current \<noteq> c_token c \<or> lr_pid current \<noteq> c_pid c \<or> lr_server current \<noteq> c_server c
          then Ended (Released False) else Unlinking)"

definition unlink_step :: "bool \<Rightarrow> lock_world \<Rightarrow> lock_pc \<times> lock_world" where
  "unlink_step ok w =
     (if w_entry w = None then (Ended (Released False), w)
      else if ok then (Ended (Released True), unlinked True w)
      else (Ended (Refused ''local_executor_lock_release_failed''), w))"

text \<open>The next call of a client, with the success the environment gives it.\<close>

fun pc_step :: "(string \<Rightarrow> bool) \<Rightarrow> bool \<Rightarrow> lock_client \<Rightarrow> lock_pc \<Rightarrow> lock_world \<Rightarrow> lock_pc \<times> lock_world" where
  "pc_step date_ok ok c Making w = (make_step ok c, w)"
| "pc_step date_ok ok c (Creating a) w = create_step ok a c w"
| "pc_step date_ok ok c (Writing k) w = write_step ok k c w"
| "pc_step date_ok ok c Checking w = (check_step ok w, w)"
| "pc_step date_ok ok c Dropping w = (Ended (Refused ''local_executor_lock_permissions''), unlinked ok w)"
| "pc_step date_ok ok c (Inspecting a) w = (readExisting date_ok ok a w, w)"
| "pc_step date_ok ok c (Probing a r) w = (probe_step a r w, w)"
| "pc_step date_ok ok c (Removing a) w = remove_step ok a w"
| "pc_step date_ok ok c Rereading w = (reread_step date_ok ok c w, w)"
| "pc_step date_ok ok c Unlinking w = unlink_step ok w"
| "pc_step date_ok ok c pc w = (pc, w)"

definition set_pc :: "nat \<Rightarrow> lock_pc \<Rightarrow> lock_world \<Rightarrow> lock_world" where
  "set_pc i pc w = w\<lparr>w_clients := (w_clients w)[i := (w_clients w ! i)\<lparr>c_pc := pc\<rparr>]\<rparr>"

definition client_step :: "(string \<Rightarrow> bool) \<Rightarrow> bool \<Rightarrow> nat \<Rightarrow> lock_world \<Rightarrow> lock_world" where
  "client_step date_ok ok i w =
     (let c = w_clients w ! i in case pc_step date_ok ok c (c_pc c) w of (pc, w') \<Rightarrow> set_pc i pc w')"

text \<open>A call of \<open>acquireLocalExecutionLock\<close>: a client with a token of its own, once its arguments are valid.\<close>

definition acquire :: "js \<Rightarrow> js \<Rightarrow> string \<Rightarrow> int \<Rightarrow> bool \<Rightarrow> lock_client res" where
  "acquire serverId pid token now private =
     (case normalizeServerId serverId of
        Inl e \<Rightarrow> Inl e
      | Inr sid \<Rightarrow>
          if \<not> safe_at_least 1 pid then Inl (lock_error ''invalid_local_executor_pid'' ''Local executor pid is invalid'')
          else Inr \<lparr>c_pid = int_of pid, c_server = sid, c_token = token, c_now = now, c_private = private, c_pc = Making\<rparr>)"

text \<open>The first call of \<open>release\<close> on the handle of a lock; later ones answer false at once.\<close>

definition release :: "nat \<Rightarrow> lock_world \<Rightarrow> lock_world" where
  "release i w = (if c_pc (w_clients w ! i) = Holding then set_pc i Rereading w else w)"

text \<open>A process ends: its calls are never heard of again, its files stay.\<close>

definition process_dies :: "int \<Rightarrow> lock_world \<Rightarrow> lock_world" where
  "process_dies pid w = w\<lparr>w_alive := w_alive w - {pid},
     w_clients := map (\<lambda>c. if c_pid c = pid then c\<lparr>c_pc := Gone\<rparr> else c) (w_clients w)\<rparr>"

text \<open>A running process, new or not, calls for the lock.\<close>

definition process_calls :: "lock_client \<Rightarrow> lock_world \<Rightarrow> lock_world" where
  "process_calls c w = w\<lparr>w_alive := insert (c_pid c) (w_alive w), w_clients := w_clients w @ [c]\<rparr>"

section \<open>Runs\<close>

datatype lock_event = Step nat bool | Release nat | Dies int | Calls js js string int bool

fun happens :: "(string \<Rightarrow> bool) \<Rightarrow> lock_event \<Rightarrow> lock_world \<Rightarrow> lock_world" where
  "happens date_ok (Step i ok) w = client_step date_ok ok i w"
| "happens date_ok (Release i) w = release i w"
| "happens date_ok (Dies pid) w = process_dies pid w"
| "happens date_ok (Calls sid pid token now private) w =
     (case acquire sid pid token now private of Inl _ \<Rightarrow> w | Inr c \<Rightarrow> process_calls c w)"

text \<open>A client between the reading of a foreign lock and its removal.\<close>

fun inspecting :: "lock_pc \<Rightarrow> bool" where
  "inspecting (Probing _ _) = True"
| "inspecting (Removing _) = True"
| "inspecting _ = False"

definition others_inspect :: "nat \<Rightarrow> lock_world \<Rightarrow> bool" where
  "others_inspect i w = (\<exists>j < length (w_clients w). j \<noteq> i \<and> inspecting (c_pc (w_clients w ! j)))"

text \<open>
  Events that can happen: clients that exist move. In a calm run no client moves while another one is between
  the reading of a foreign lock and its removal.
\<close>

fun possible :: "bool \<Rightarrow> lock_event \<Rightarrow> lock_world \<Rightarrow> bool" where
  "possible calm (Step i ok) w = (i < length (w_clients w) \<and> (calm \<longrightarrow> \<not> others_inspect i w))"
| "possible calm (Release i) w = (i < length (w_clients w))"
| "possible calm (Dies pid) w = True"
| "possible calm (Calls sid pid token now private) w = True"

text \<open>The path before any of the clients: no file, or a file somebody left.\<close>

definition lock_start :: "js disk_file \<Rightarrow> int set \<Rightarrow> lock_world" where
  "lock_start file alive = \<lparr>w_entry = (if file = NoFile then None else Some 0), w_inodes = [(file, True)],
     w_alive = alive, w_clients = []\<rparr>"

inductive lock_reaches :: "(string \<Rightarrow> bool) \<Rightarrow> bool \<Rightarrow> lock_world \<Rightarrow> lock_world \<Rightarrow> bool" for date_ok calm w0 where
  lock_begin: "lock_reaches date_ok calm w0 w0"
| lock_next: "lock_reaches date_ok calm w0 w \<Longrightarrow> possible calm e w \<Longrightarrow> lock_reaches date_ok calm w0 (happens date_ok e w)"

end
