(* ===== verification/LockGuarantees.thy ===== *)
theory LockGuarantees
  imports LocalLock
begin

text \<open>
  The lock of the local executor: when at most one process holds it, the interleaving in which two do, and
  what an acquisition that nobody disturbs answers.
\<close>

section \<open>The invariant\<close>

abbreviation pc_of :: "lock_world \<Rightarrow> nat \<Rightarrow> lock_pc" where
  "pc_of w i \<equiv> c_pc (w_clients w ! i)"

abbreviation clients :: "lock_world \<Rightarrow> nat set" where
  "clients w \<equiv> {i. i < length (w_clients w)}"

text \<open>From the creation of the file to the end of its release the client owns what the path names.\<close>

fun owning :: "lock_pc \<Rightarrow> bool" where
  "owning (Writing _) = True"
| "owning Checking = True"
| "owning Dropping = True"
| "owning Holding = True"
| "owning Rereading = True"
| "owning Unlinking = True"
| "owning _ = False"

fun is_writing :: "lock_pc \<Rightarrow> bool" where
  "is_writing (Writing _) = True"
| "is_writing _ = False"

definition owner_file :: "lock_world \<Rightarrow> nat \<Rightarrow> bool" where
  "owner_file w i \<longleftrightarrow> (case pc_of w i of
     Writing k \<Rightarrow> w_entry w = Some k \<and> k < length (w_inodes w) \<and> at_path w = CorruptFile
   | _ \<Rightarrow> w_entry w \<noteq> None \<and> at_path w = JsonFile (own_record (w_clients w ! i)))"

text \<open>What a client that looks at a foreign lock knows.\<close>

fun informed :: "(string \<Rightarrow> bool) \<Rightarrow> lock_world \<Rightarrow> lock_pc \<Rightarrow> bool" where
  "informed date_ok w (Probing a r) \<longleftrightarrow> parseLockRecord date_ok (at_path w) = Some r"
| "informed date_ok w (Removing a) \<longleftrightarrow> (\<forall>j \<in> clients w. \<not> owning (pc_of w j))"
| "informed date_ok w _ \<longleftrightarrow> True"

definition lock_inv :: "(string \<Rightarrow> bool) \<Rightarrow> lock_world \<Rightarrow> bool" where
  "lock_inv date_ok w \<longleftrightarrow>
     (\<forall>k. w_entry w = Some k \<longrightarrow> k < length (w_inodes w)) \<and>
     (\<forall>i \<in> clients w. pc_of w i \<noteq> Gone \<longrightarrow> c_pid (w_clients w ! i) \<in> w_alive w) \<and>
     (\<forall>i \<in> clients w. owning (pc_of w i) \<longrightarrow> owner_file w i) \<and>
     (\<forall>i \<in> clients w. \<forall>j \<in> clients w. owning (pc_of w i) \<longrightarrow> owning (pc_of w j) \<longrightarrow> i = j) \<and>
     (\<forall>i \<in> clients w. informed date_ok w (pc_of w i))"

lemma lock_invD:
  assumes "lock_inv date_ok w"
  shows "w_entry w = Some k \<Longrightarrow> k < length (w_inodes w)"
    "i < length (w_clients w) \<Longrightarrow> pc_of w i \<noteq> Gone \<Longrightarrow> c_pid (w_clients w ! i) \<in> w_alive w"
    "i < length (w_clients w) \<Longrightarrow> owning (pc_of w i) \<Longrightarrow> owner_file w i"
    "i < length (w_clients w) \<Longrightarrow> j < length (w_clients w) \<Longrightarrow> owning (pc_of w i) \<Longrightarrow> owning (pc_of w j) \<Longrightarrow> i = j"
    "i < length (w_clients w) \<Longrightarrow> informed date_ok w (pc_of w i)"
  using assms by (simp_all add: lock_inv_def)

lemma lock_invI:
  assumes "\<And>k. w_entry w = Some k \<Longrightarrow> k < length (w_inodes w)"
    "\<And>i. i < length (w_clients w) \<Longrightarrow> pc_of w i \<noteq> Gone \<Longrightarrow> c_pid (w_clients w ! i) \<in> w_alive w"
    "\<And>i. i < length (w_clients w) \<Longrightarrow> owning (pc_of w i) \<Longrightarrow> owner_file w i"
    "\<And>i j. i < length (w_clients w) \<Longrightarrow> j < length (w_clients w) \<Longrightarrow> owning (pc_of w i) \<Longrightarrow> owning (pc_of w j) \<Longrightarrow> i = j"
    "\<And>i. i < length (w_clients w) \<Longrightarrow> informed date_ok w (pc_of w i)"
  shows "lock_inv date_ok w"
  unfolding lock_inv_def using assms by blast

lemma owner_entry: "owner_file w i \<Longrightarrow> w_entry w \<noteq> None"
  by (cases "pc_of w i") (simp_all add: owner_file_def)

lemma not_inspecting_informed: "\<not> inspecting p \<Longrightarrow> informed date_ok w p"
  by (cases p) simp_all

lemma clients_set_pc [simp]: "length (w_clients (set_pc i p w)) = length (w_clients w)"
  "w_entry (set_pc i p w) = w_entry w" "w_inodes (set_pc i p w) = w_inodes w" "w_alive (set_pc i p w) = w_alive w"
  by (simp_all add: set_pc_def)

lemma at_path_set_pc [simp]: "at_path (set_pc i p w) = at_path w"
  by (simp add: at_path_def split: option.split)

lemma own_record_pc [simp]: "own_record (c\<lparr>c_pc := p\<rparr>) = own_record c"
  by (simp add: own_record_def created_at_def split: sum.split)

lemma client_set_pc [simp]:
  assumes "j < length (w_clients w)"
  shows "pc_of (set_pc i p w) j = (if j = i then p else pc_of w j)"
    "own_record (w_clients (set_pc i p w) ! j) = own_record (w_clients w ! j)"
    "c_pid (w_clients (set_pc i p w) ! j) = c_pid (w_clients w ! j)"
  using assms by (cases "j = i"; simp add: set_pc_def)+

lemma owner_file_plain:
  "\<not> is_writing (pc_of w i) \<Longrightarrow> owner_file w i \<longleftrightarrow> w_entry w \<noteq> None \<and> at_path w = JsonFile (own_record (w_clients w ! i))"
  by (cases "pc_of w i") (simp_all add: owner_file_def)

text \<open>A move that leaves the files alone.\<close>

lemma inv_move:
  assumes inv: "lock_inv date_ok w" and i: "i < length (w_clients w)" and alive: "pc_of w i \<noteq> Gone"
    and own: "owning p \<longrightarrow> owning (pc_of w i) \<and> \<not> is_writing (pc_of w i) \<and> \<not> is_writing p"
    and informed: "\<And>a r. p = Probing a r \<Longrightarrow> parseLockRecord date_ok (at_path w) = Some r"
      "\<And>a. p = Removing a \<Longrightarrow> \<forall>j \<in> clients w. \<not> owning (pc_of w j)"
  shows "lock_inv date_ok (set_pc i p w)"
proof -
  have "owner_file (set_pc i p w) j" if "j \<in> clients w" "owning (pc_of (set_pc i p w) j)" for j
  proof (cases "j = i")
    case True
    with that i own have o: "owning p" "owning (pc_of w i)" "\<not> is_writing (pc_of w i)" "\<not> is_writing p" by auto
    with inv i have "owner_file w i" by (simp add: lock_inv_def)
    with o i True show ?thesis by (simp add: owner_file_plain)
  next
    case False
    with that inv have "owner_file w j" by (auto simp: lock_inv_def)
    with False that show ?thesis by (simp add: owner_file_def split: lock_pc.splits)
  qed
  moreover have "informed date_ok (set_pc i p w) (pc_of (set_pc i p w) j)" if j: "j \<in> clients w" for j
  proof -
    have rm: "\<forall>l \<in> clients w. \<not> owning (pc_of w l) \<Longrightarrow> \<forall>l \<in> clients w. \<not> owning (pc_of (set_pc i p w) l)"
      using own i by auto
    show ?thesis
    proof (cases "j = i")
      case True
      with i informed rm show ?thesis by (cases p) auto
    next
      case False
      then have "informed date_ok w (pc_of w j)" using inv j by (auto simp: lock_inv_def)
      with False j rm show ?thesis by (cases "pc_of w j") auto
    qed
  qed
  ultimately show ?thesis
    using inv i alive own unfolding lock_inv_def by (auto split: if_splits)
qed

text \<open>The removal of the file, by its owner or by a client that knows there is none.\<close>

lemma inv_unlink:
  assumes inv: "lock_inv date_ok w" and i: "i < length (w_clients w)" and alive: "pc_of w i \<noteq> Gone"
    and calm: "\<not> others_inspect i w" and p: "\<not> owning p" "\<not> inspecting p"
    and own: "owning (pc_of w i) \<or> (\<forall>j \<in> clients w. \<not> owning (pc_of w j))"
  shows "lock_inv date_ok (set_pc i p (w\<lparr>w_entry := None\<rparr>))"
proof -
  let ?w = "set_pc i p (w\<lparr>w_entry := None\<rparr>)"
  have pc: "pc_of ?w j = (if j = i then p else pc_of w j)" if "j \<in> clients w" for j
    using that by simp
  have "\<not> owning (pc_of ?w j)" if "j \<in> clients w" for j
    using that inv i own p(1) by (auto simp: pc lock_inv_def)
  moreover have "informed date_ok ?w (pc_of ?w j)" if "j \<in> clients w" for j
    by (rule not_inspecting_informed) (use that calm p(2) in \<open>auto simp: pc others_inspect_def\<close>)
  ultimately show ?thesis using inv alive by (auto simp: lock_inv_def pc)
qed

lemma inv_create:
  assumes inv: "lock_inv date_ok w" and i: "i < length (w_clients w)" and alive: "pc_of w i \<noteq> Gone"
    and calm: "\<not> others_inspect i w" and none: "w_entry w = None"
  shows "lock_inv date_ok (set_pc i (Writing (length (w_inodes w)))
     (w\<lparr>w_entry := Some (length (w_inodes w)), w_inodes := w_inodes w @ [(CorruptFile, b)]\<rparr>))" (is "lock_inv date_ok ?w")
proof -
  have pc: "pc_of ?w j = (if j = i then Writing (length (w_inodes w)) else pc_of w j)" if "j < length (w_clients w)" for j
    using that by simp
  have old: "\<not> owning (pc_of w j)" if "j < length (w_clients w)" for j
    using lock_invD(3) [OF inv that] none owner_entry [of w j] by blast
  have own: "owning (pc_of ?w j) \<Longrightarrow> j = i" if "j < length (w_clients w)" for j
    using old [OF that] by (simp add: pc [OF that] split: if_splits)
  show ?thesis
  proof (rule lock_invI)
    show "informed date_ok ?w (pc_of ?w j)" if "j < length (w_clients ?w)" for j
      by (rule not_inspecting_informed) (use that calm in \<open>auto simp: others_inspect_def\<close>)
    show "owner_file ?w j" if "j < length (w_clients ?w)" "owning (pc_of ?w j)" for j
    proof -
      have "j = i" using that by (intro own) simp_all
      moreover have "owner_file ?w i" using i by (simp add: owner_file_def at_path_def)
      ultimately show ?thesis by simp
    qed
    show "j = l" if "j < length (w_clients ?w)" "l < length (w_clients ?w)" "owning (pc_of ?w j)" "owning (pc_of ?w l)" for j l
    proof -
      have "j = i" "l = i" using that by (intro own; simp)+
      then show ?thesis by simp
    qed
  qed (use lock_invD(2) [OF inv] alive i in \<open>auto split: if_splits\<close>)
qed

lemma inv_write:
  assumes inv: "lock_inv date_ok w" and i: "i < length (w_clients w)" and pc_i: "pc_of w i = Writing k"
    and calm: "\<not> others_inspect i w"
  shows "lock_inv date_ok (set_pc i Checking (w\<lparr>w_inodes := (w_inodes w)[k := (JsonFile (own_record (w_clients w ! i)), b)]\<rparr>))"
    (is "lock_inv date_ok ?w")
proof -
  have "owner_file w i" using lock_invD(3) [OF inv i] pc_i by simp
  then have f: "w_entry w = Some k" "k < length (w_inodes w)" using pc_i by (simp_all add: owner_file_def)
  have own: "owning (pc_of ?w j) \<Longrightarrow> j = i" if "j < length (w_clients w)" for j
    using lock_invD(4) [OF inv that i] that pc_i by (simp split: if_splits)
  show ?thesis
  proof (rule lock_invI)
    show "informed date_ok ?w (pc_of ?w j)" if "j < length (w_clients ?w)" for j
      by (rule not_inspecting_informed) (use that calm in \<open>auto simp: others_inspect_def\<close>)
    show "owner_file ?w j" if "j < length (w_clients ?w)" "owning (pc_of ?w j)" for j
    proof -
      have "j = i" using that by (intro own) simp_all
      moreover have "owner_file ?w i" using i f by (subst owner_file_plain) (simp_all add: at_path_def)
      ultimately show ?thesis by simp
    qed
    show "j = l" if "j < length (w_clients ?w)" "l < length (w_clients ?w)" "owning (pc_of ?w j)" "owning (pc_of ?w l)" for j l
    proof -
      have "j = i" "l = i" using that by (intro own; simp)+
      then show ?thesis by simp
    qed
  qed (use f lock_invD(2) [OF inv] pc_i in \<open>auto split: if_splits\<close>)
qed

text \<open>Every event of a calm run keeps the invariant.\<close>

lemma foreign_dead:
  assumes inv: "lock_inv date_ok w" and r: "parseLockRecord date_ok (at_path w) = Some r" and dead: "lr_pid r \<notin> w_alive w"
  shows "\<forall>j \<in> clients w. \<not> owning (pc_of w j)"
proof (rule ballI, rule notI)
  fix j
  assume j: "j \<in> clients w" and o: "owning (pc_of w j)"
  have f: "owner_file w j" using lock_invD(3) [OF inv] j o by simp
  show False
  proof (cases "is_writing (pc_of w j)")
    case True
    then show False using f r by (cases "pc_of w j") (simp_all add: owner_file_def parseLockRecord_def)
  next
    case False
    then have "at_path w = JsonFile (own_record (w_clients w ! j))" using f by (simp add: owner_file_plain)
    with r have "lr_pid r = c_pid (w_clients w ! j)"
      by (auto simp: parseLockRecord_def own_record_def jget_def split: if_splits)
    moreover have "pc_of w j \<noteq> Gone" using o by auto
    ultimately show False using lock_invD(2) [OF inv] j dead by simp
  qed
qed

lemma set_pc_same: "set_pc i (pc_of w i) w = w"
proof -
  have "(w_clients w ! i)\<lparr>c_pc := pc_of w i\<rparr> = w_clients w ! i" by simp
  then show ?thesis by (simp add: set_pc_def)
qed

lemma step_keeps:
  assumes inv: "lock_inv date_ok w" and i: "i < length (w_clients w)" and calm: "\<not> others_inspect i w"
  shows "lock_inv date_ok (client_step date_ok ok i w)"
proof (cases "pc_of w i")
  case Making
  with inv i show ?thesis
    by (auto simp: client_step_def make_step_def split: sum.split intro!: inv_move)
next
  case (Creating a)
  with inv i calm show ?thesis
    by (auto simp: client_step_def create_step_def intro!: inv_move inv_create)
next
  case (Writing k)
  with inv i calm show ?thesis
    by (auto simp: client_step_def write_step_def intro!: inv_move inv_write)
next
  case Checking
  with inv i show ?thesis
    by (auto simp: client_step_def check_step_def split: option.split intro!: inv_move)
next
  case Dropping
  with inv i calm show ?thesis
    by (cases ok) (auto simp: client_step_def unlinked_def intro!: inv_unlink, auto simp: client_step_def unlinked_def intro!: inv_move)
next
  case (Inspecting a)
  with inv i show ?thesis
    by (auto simp: client_step_def readExisting_def split: option.split intro!: inv_move)
next
  case (Probing a r)
  have "parseLockRecord date_ok (at_path w) = Some r" using lock_invD(5) [OF inv i] Probing by simp
  then have "lr_pid r \<notin> w_alive w \<Longrightarrow> \<forall>j \<in> clients w. \<not> owning (pc_of w j)" using foreign_dead [OF inv] by blast
  with inv i Probing show ?thesis
    by (auto simp: client_step_def probe_step_def processAlive_def intro!: inv_move)
next
  case (Removing a)
  have "\<forall>j \<in> clients w. \<not> owning (pc_of w j)" using lock_invD(5) [OF inv i] Removing by simp
  with inv i calm Removing show ?thesis
    by (cases "w_entry w \<noteq> None \<and> \<not> ok")
      (auto simp: client_step_def remove_step_def unlinked_def intro!: inv_move [OF inv i], auto simp: client_step_def remove_step_def unlinked_def intro!: inv_unlink)
next
  case Rereading
  with inv i show ?thesis
    by (auto simp: client_step_def reread_step_def Let_def split: option.split intro!: inv_move)
next
  case Unlinking
  with inv i calm show ?thesis
    by (cases "w_entry w \<noteq> None \<and> ok")
      (simp add: client_step_def unlink_step_def unlinked_def inv_unlink, auto simp: client_step_def unlink_step_def intro!: inv_move)
qed (use set_pc_same [of i w] inv in \<open>simp_all add: client_step_def\<close>)

lemma release_keeps:
  assumes "lock_inv date_ok w" "i < length (w_clients w)"
  shows "lock_inv date_ok (release i w)"
  using assms by (auto simp: release_def intro!: inv_move)

lemma dies_keeps:
  assumes inv: "lock_inv date_ok w"
  shows "lock_inv date_ok (process_dies pid w)" (is "lock_inv date_ok ?w")
proof -
  have at: "at_path ?w = at_path w" by (simp add: at_path_def process_dies_def split: option.split)
  have pc: "pc_of ?w i = (if c_pid (w_clients w ! i) = pid then Gone else pc_of w i)"
    and own: "own_record (w_clients ?w ! i) = own_record (w_clients w ! i)"
    and pid: "c_pid (w_clients ?w ! i) = c_pid (w_clients w ! i)" if "i < length (w_clients w)" for i
    using that by (simp_all add: process_dies_def)
  have n: "length (w_clients ?w) = length (w_clients w)" by (simp add: process_dies_def)
  show ?thesis
  proof (rule lock_invI; (unfold n)?)
    show "w_entry ?w = Some k \<Longrightarrow> k < length (w_inodes ?w)" for k
      using lock_invD(1) [OF inv] by (simp add: process_dies_def)
    show "c_pid (w_clients ?w ! i) \<in> w_alive ?w" if "i < length (w_clients w)" "pc_of ?w i \<noteq> Gone" for i
      using lock_invD(2) [OF inv that(1)] that by (auto simp: pc pid split: if_splits) (simp add: process_dies_def)
    show "owner_file ?w i" if "i < length (w_clients w)" "owning (pc_of ?w i)" for i
    proof -
      have o: "owning (pc_of w i)" "pc_of ?w i = pc_of w i" using that by (auto simp: pc split: if_splits)
      with lock_invD(3) [OF inv that(1)] have "owner_file w i" by simp
      with o(2) own [OF that(1)] at show ?thesis
        by (simp add: owner_file_def process_dies_def split: lock_pc.splits)
    qed
    show "i = j" if "i < length (w_clients w)" "j < length (w_clients w)" "owning (pc_of ?w i)" "owning (pc_of ?w j)" for i j
      using lock_invD(4) [OF inv that(1,2)] that by (simp add: pc split: if_splits)
    show "informed date_ok ?w (pc_of ?w i)" if i: "i < length (w_clients w)" for i
    proof (cases "pc_of ?w i")
      case (Removing a)
      with i have "pc_of w i = Removing a" by (simp add: pc split: if_splits)
      with lock_invD(5) [OF inv i] have "\<forall>j \<in> clients w. \<not> owning (pc_of w j)" by simp
      with Removing show ?thesis by (simp add: n pc)
    next
      case (Probing a r)
      with i have "pc_of w i = Probing a r" by (simp add: pc split: if_splits)
      with lock_invD(5) [OF inv i] Probing show ?thesis by (simp add: at)
    qed simp_all
  qed
qed

lemma calls_keeps:
  assumes inv: "lock_inv date_ok w" and c: "c_pc c = Making"
  shows "lock_inv date_ok (process_calls c w)" (is "lock_inv date_ok ?w")
proof -
  have at: "at_path ?w = at_path w" by (simp add: at_path_def process_calls_def split: option.split)
  have new: "w_clients ?w ! i = (if i < length (w_clients w) then w_clients w ! i else c)"
    if "i < length (w_clients ?w)" for i
    using that by (auto simp: process_calls_def nth_append less_Suc_eq)
  have own: "i < length (w_clients w)" if "i < length (w_clients ?w)" "owning (pc_of ?w i)" for i
    using that c by (auto simp: new split: if_splits)
  show ?thesis
  proof (rule lock_invI)
    show "w_entry ?w = Some k \<Longrightarrow> k < length (w_inodes ?w)" for k
      using lock_invD(1) [OF inv] by (simp add: process_calls_def)
    show "c_pid (w_clients ?w ! i) \<in> w_alive ?w" if "i < length (w_clients ?w)" "pc_of ?w i \<noteq> Gone" for i
      using lock_invD(2) [OF inv, of i] that by (auto simp: new split: if_splits) (simp_all add: process_calls_def)
    show "owner_file ?w i" if "i < length (w_clients ?w)" "owning (pc_of ?w i)" for i
    proof -
      have "i < length (w_clients w)" using own that by blast
      with lock_invD(3) [OF inv this] that at show ?thesis
        by (simp add: owner_file_def new process_calls_def nth_append split: lock_pc.splits)
    qed
    show "i = j" if "i < length (w_clients ?w)" "j < length (w_clients ?w)" "owning (pc_of ?w i)" "owning (pc_of ?w j)" for i j
      using lock_invD(4) [OF inv own [OF that(1,3)] own [OF that(2,4)]] that own [OF that(1,3)] own [OF that(2,4)]
      by (simp add: new)
    show "informed date_ok ?w (pc_of ?w i)" if i: "i < length (w_clients ?w)" for i
    proof (cases "pc_of ?w i")
      case (Removing a)
      with i c have "i < length (w_clients w)" "pc_of w i = Removing a" by (auto simp: new split: if_splits)
      with lock_invD(5) [OF inv this(1)] have "\<not> owning (pc_of w j)" if "j < length (w_clients w)" for j using that by simp
      with Removing own c show ?thesis by (auto simp: new split: if_splits)
    next
      case (Probing a r)
      with i c have "i < length (w_clients w)" "pc_of w i = Probing a r" by (auto simp: new split: if_splits)
      with lock_invD(5) [OF inv this(1)] Probing show ?thesis by (simp add: at)
    qed simp_all
  qed
qed

lemma reaches_inv:
  "lock_reaches date_ok True (lock_start file alive) w \<Longrightarrow> lock_inv date_ok w"
proof (induction rule: lock_reaches.induct)
  case lock_begin
  show ?case by (simp add: lock_inv_def lock_start_def)
next
  case (lock_next w e)
  then show ?case
    by (cases e) (auto simp: acquire_def intro: step_keeps release_keeps dies_keeps calls_keeps split: sum.splits)
qed

section \<open>Properties\<close>

definition holders :: "lock_world \<Rightarrow> lock_client list" where
  "holders w = filter (\<lambda>c. c_pc c = Holding) (w_clients w)"

text \<open>C22 Mutual exclusion. Whatever file is at the path first, however the steps of the acquisitions and releases
  of any number of processes are interleaved, whichever calls of the file system fail and whichever processes
  end or start, on a process number of before or not: as long as no client moves while another one is between
  the reading of a foreign lock and its removal, at most one client holds the lock; its process runs, and the
  file at the path is its own.\<close>

theorem calm_runs_have_one_holder:
  assumes "lock_reaches date_ok True (lock_start file alive) w"
  shows "length (holders w) \<le> 1 \<and> list_all (\<lambda>c. c_pid c \<in> w_alive w \<and> at_path w = JsonFile (own_record c)) (holders w)"
proof -
  note inv = reaches_inv [OF assms]
  have "i = j" if "i < length (w_clients w)" "pc_of w i = Holding" "j < length (w_clients w)" "pc_of w j = Holding" for i j
    using lock_invD(4) [OF inv that(1,3)] that by simp
  then have "card {i. i < length (w_clients w) \<and> pc_of w i = Holding} \<le> Suc 0"
    by (subst card_le_Suc0_iff_eq) auto
  then have "length (holders w) \<le> 1" by (simp add: holders_def length_filter_conv_card)
  moreover have "c_pid (w_clients w ! i) \<in> w_alive w \<and> at_path w = JsonFile (own_record (w_clients w ! i))"
    if "i < length (w_clients w)" "pc_of w i = Holding" for i
    using lock_invD(2,3) [OF inv that(1)] that(2) by (simp add: owner_file_def)
  then have "list_all (\<lambda>c. c_pid c \<in> w_alive w \<and> at_path w = JsonFile (own_record c)) (holders w)"
    by (auto simp: holders_def list_all_iff in_set_conv_nth)
  ultimately show ?thesis by blast
qed

text \<open>Runs given by their events.\<close>

definition run_lock :: "(string \<Rightarrow> bool) \<Rightarrow> lock_event list \<Rightarrow> lock_world \<Rightarrow> lock_world" where
  "run_lock date_ok es w = foldl (\<lambda>w e. happens date_ok e w) w es"

fun all_possible :: "(string \<Rightarrow> bool) \<Rightarrow> bool \<Rightarrow> lock_event list \<Rightarrow> lock_world \<Rightarrow> bool" where
  "all_possible date_ok calm [] w = True"
| "all_possible date_ok calm (e # es) w = (possible calm e w \<and> all_possible date_ok calm es (happens date_ok e w))"

lemma run_reaches:
  "lock_reaches date_ok calm w0 w \<Longrightarrow> all_possible date_ok calm es w \<Longrightarrow> lock_reaches date_ok calm w0 (run_lock date_ok es w)"
  by (induction es arbitrary: w) (auto simp: run_lock_def intro: lock_next)

definition old_lock :: "js disk_file" where
  "old_lock = JsonFile (JObj [(''version'', JInt 1), (''serverId'', JStr ''server-1''), (''pid'', JInt 999),
     (''token'', JStr ''aaaaaaaa-aaaa-4aaa-8aaa-aaaaaaaaaaaa''), (''createdAt'', JStr ''2026-09-10T00:00:00.000Z'')])"

definition first_call :: lock_event where
  "first_call = Calls (JStr ''server-1'') (JInt 111) ''11111111-1111-4111-8111-111111111111'' 0 True"

definition second_call :: lock_event where
  "second_call = Calls (JStr ''server-1'') (JInt 222) ''22222222-2222-4222-8222-222222222222'' 0 True"

definition steps_of :: "nat \<Rightarrow> nat \<Rightarrow> lock_event list" where
  "steps_of n i = replicate n (Step i True)"

lemmas run_simps = run_lock_def client_step_def set_pc_def make_step_def create_step_def write_step_def check_step_def
  readExisting_def probe_step_def processAlive_def remove_step_def unlinked_def at_path_def process_calls_def
  lock_start_def

text \<open>The acquisition from which both of the following runs start.\<close>

lemma acquire_client:
  "acquire sid pid token now private = Inr c \<Longrightarrow> c_pc c = Making \<and> c_private c = private \<and> c_now c = now"
  by (auto simp: acquire_def split: sum.splits if_splits)

fun moves_below :: "nat \<Rightarrow> lock_event \<Rightarrow> bool" where
  "moves_below n (Step i _) = (i < n)"
| "moves_below n _ = False"

lemma length_happens: "length (w_clients w) \<le> length (w_clients (happens date_ok e w))"
proof (cases e)
  case (Step i ok)
  have "w_clients (snd (pc_step date_ok ok c pc w)) = w_clients w" for c pc
    by (cases pc) (simp_all add: create_step_def write_step_def remove_step_def unlink_step_def unlinked_def)
  then show ?thesis by (simp add: Step client_step_def Let_def split: prod.split) (metis order_refl snd_conv)
qed (auto simp: release_def process_dies_def process_calls_def split: sum.split)

lemma all_possible_steps:
  "list_all (moves_below (length (w_clients w))) es \<Longrightarrow> all_possible date_ok False es w"
proof (induction es arbitrary: w)
  case (Cons e es)
  then obtain i ok where e: "e = Step i ok" "i < length (w_clients w)" by (cases e) auto
  have "list_all (moves_below (length (w_clients (happens date_ok e w)))) es"
    using Cons.prems length_happens [of w date_ok e] by (fastforce simp: list_all_iff elim!: moves_below.elims(2))
  with Cons.IH e show ?case by simp
qed simp

definition race_steps :: "lock_event list" where
  "race_steps =
     [Step 0 True, Step 0 True, Step 0 True, Step 1 True, Step 1 True, Step 1 True, Step 0 True, Step 1 True,
      Step 0 True, Step 0 True, Step 0 True, Step 0 True, Step 1 True, Step 1 True, Step 1 True, Step 1 True]"

text \<open>C23 Taking over. On every lock file of a process that is gone there is a run, with all calls of the file
  system succeeding and no process ending, after which two processes hold the lock: both read the old
  file, and the second one removes the file the first one has created meanwhile.\<close>

theorem stale_lock_can_be_taken_twice:
  assumes "parseLockRecord date_ok file = Some r" "lr_pid r \<notin> alive \<union> {c_pid c, c_pid d}"
    and "acquire sid pid token now True = Inr c" "acquire sid' pid' token' now' True = Inr d"
    and "toISOString now = Inr t" "toISOString now' = Inr t'"
  shows "\<exists>w. lock_reaches date_ok False (lock_start file alive) w \<and> map c_pid (holders w) = [c_pid c, c_pid d]"
proof -
  let ?es = "Calls sid pid token now True # Calls sid' pid' token' now' True # race_steps"
  let ?w = "run_lock date_ok ?es (lock_start file alive)"
  have there: "file \<noteq> NoFile" using assms(1) by (auto simp: parseLockRecord_def)
  obtain p s k where c: "c = \<lparr>c_pid = p, c_server = s, c_token = k, c_now = now, c_private = True, c_pc = Making\<rparr>"
    using acquire_client [OF assms(3)] by (cases c) auto
  obtain p' s' k' where d: "d = \<lparr>c_pid = p', c_server = s', c_token = k', c_now = now', c_private = True, c_pc = Making\<rparr>"
    using acquire_client [OF assms(4)] by (cases d) auto
  have "lr_pid r \<noteq> p" "lr_pid r \<noteq> p'" "lr_pid r \<notin> alive" using assms(2) by (simp_all add: c d)
  note eqs = this assms(1,5,6) assms(3,4) [unfolded c d] there
  have possible: "all_possible date_ok False ?es (lock_start file alive)"
  proof -
    have "list_all (moves_below 2) race_steps" by (simp add: race_steps_def)
    then have "list_all (moves_below (length (w_clients w))) race_steps" if "length (w_clients w) = 2" for w
      using that by simp
    from all_possible_steps [OF this] show ?thesis
      using assms(3,4) by (simp add: process_calls_def lock_start_def)
  qed
  have r1: "run_lock date_ok ?es (lock_start file alive) =
      run_lock date_ok (Calls sid pid token now True # Calls sid' pid' token' now' True # take 16 race_steps) (lock_start file alive)"
    by (simp add: race_steps_def)
  have r2: "run_lock date_ok (Calls sid pid token now True # Calls sid' pid' token' now' True # take 16 race_steps)
      (lock_start file alive) = X \<longleftrightarrow> \<lparr>w_entry = Some (Suc (Suc 0)),
      w_inodes = [(file, True), (JsonFile (own_record (c\<lparr>c_pc := Writing (Suc 0)\<rparr>)), True),
        (JsonFile (own_record (d\<lparr>c_pc := Writing (Suc (Suc 0))\<rparr>)), True)],
      w_alive = insert p' (insert p alive), w_clients = [c\<lparr>c_pc := Holding\<rparr>, d\<lparr>c_pc := Holding\<rparr>]\<rparr> = X" for X
    unfolding race_steps_def c d by (simp add: eqs run_simps del: own_record_pc)
  have "map c_pid (holders ?w) = [c_pid c, c_pid d]"
    unfolding r1 iffD2 [OF r2 refl] by (simp add: holders_def)
  with run_reaches [OF lock_begin possible] show ?thesis by (intro exI conjI)
qed

text \<open>The first client takes the stale lock over, the second one is refused until the release.\<close>

definition calm_events :: "lock_event list" where
  "calm_events = [first_call, second_call] @ steps_of 2 1 @ steps_of 8 0 @ steps_of 2 1"

lemma calm_runs_have_one_holder_witness:
  "let w = run_lock (\<lambda>_. True) calm_events (lock_start old_lock {}) in
   map c_pid (holders w) = [111] \<and> map c_pc (w_clients w) = [Holding, Ended (Refused ''local_executor_locked'')] \<and>
   length (holders w) \<le> 1"
proof -
  let ?w = "run_lock (\<lambda>_. True) calm_events (lock_start old_lock {})"
  have "all_possible (\<lambda>_. True) True calm_events (lock_start old_lock {})" by code_simp
  then have "lock_reaches (\<lambda>_. True) True (lock_start old_lock {}) ?w" using run_reaches lock_begin by blast
  from calm_runs_have_one_holder [OF this] have "length (holders ?w) \<le> 1" by blast
  moreover have "map c_pid (holders ?w) = [111]" by code_simp
  moreover have "map c_pc (w_clients ?w) = [Holding, Ended (Refused ''local_executor_locked'')]" by code_simp
  ultimately show ?thesis unfolding Let_def by blast
qed

lemma stale_lock_can_be_taken_twice_witness:
  "\<exists>w. lock_reaches (\<lambda>_. True) False (lock_start old_lock {}) w \<and> map c_pid (holders w) = [111, 222]"
proof -
  let ?c = "\<lambda>p t. \<lparr>c_pid = p, c_server = ''server-1'', c_token = t, c_now = 0, c_private = True, c_pc = Making\<rparr>"
  have r: "parseLockRecord (\<lambda>_. True) old_lock
      = Some \<lparr>lr_pid = 999, lr_server = ''server-1'', lr_token = ''aaaaaaaa-aaaa-4aaa-8aaa-aaaaaaaaaaaa''\<rparr>" by code_simp
  have c: "acquire (JStr ''server-1'') (JInt 111) ''11111111-1111-4111-8111-111111111111'' 0 True
      = Inr (?c 111 ''11111111-1111-4111-8111-111111111111'')"
    "acquire (JStr ''server-1'') (JInt 222) ''22222222-2222-4222-8222-222222222222'' 0 True
      = Inr (?c 222 ''22222222-2222-4222-8222-222222222222'')" by code_simp+
  have t: "toISOString 0 = Inr ''1970-01-01T00:00:00.000Z''" by code_simp
  from stale_lock_can_be_taken_twice [OF r _ c t t, of "{}"] show ?thesis by simp
qed

text \<open>A lone acquisition. When nothing disturbs it and the file system works, an acquisition takes the lock when
  there is none or its process is gone, and refuses, leaving the file as it is, when its process runs or the
  file holds no lock record.\<close>

theorem lone_acquisitions_answer_the_file:
  assumes "acquire sid pid token now True = Inr c" "toISOString now = Inr t"
    and "w = run_lock date_ok (Calls sid pid token now True # steps_of 8 0) (lock_start file alive)"
  shows "w_clients w = [c\<lparr>c_pc := (case parseLockRecord date_ok file of
       None \<Rightarrow> if file = NoFile then Holding else Ended (Refused ''local_executor_lock_invalid'')
     | Some r \<Rightarrow> if lr_pid r \<in> insert (c_pid c) alive then Ended (Refused ''local_executor_locked'') else Holding)\<rparr>] \<and>
     at_path w = (if c_pc (w_clients w ! 0) = Holding then JsonFile (own_record c) else file)"
proof -
  obtain p s k where c: "c = \<lparr>c_pid = p, c_server = s, c_token = k, c_now = now, c_private = True, c_pc = Making\<rparr>"
    using acquire_client [OF assms(1)] by (cases c) auto
  have o: "own_record \<lparr>c_pid = p, c_server = s, c_token = k, c_now = now, c_private = True, c_pc = x\<rparr> = own_record c" for x
    using own_record_pc [of x c] by (simp add: c)
  note eqs = assms(2) assms(1) [unfolded c]
  consider "file = NoFile" | "file \<noteq> NoFile" "parseLockRecord date_ok file = None"
    | r where "file \<noteq> NoFile" "parseLockRecord date_ok file = Some r" by (cases "parseLockRecord date_ok file") auto
  then show ?thesis
  proof cases
    case 1
    have "parseLockRecord date_ok file = None" by (simp add: 1 parseLockRecord_def)
    with 1 show ?thesis unfolding assms(3) c by (simp add: eqs run_simps steps_of_def numeral_eq_Suc o)
  next
    case 2
    then show ?thesis unfolding assms(3) c by (simp add: eqs run_simps steps_of_def numeral_eq_Suc)
  next
    case 3
    show ?thesis
    proof (cases "lr_pid r \<in> insert p alive")
      case True
      with 3 show ?thesis unfolding assms(3) c by (auto simp add: eqs run_simps steps_of_def numeral_eq_Suc)
    next
      case False
      with 3 show ?thesis unfolding assms(3) c by (simp add: eqs run_simps steps_of_def numeral_eq_Suc o)
    qed
  qed
qed

lemma lone_acquisitions_answer_the_file_witness:
  "map c_pc (w_clients (run_lock (\<lambda>_. True) (second_call # steps_of 8 0) (lock_start old_lock {}))) = [Holding] \<and>
   map c_pc (w_clients (run_lock (\<lambda>_. True) (second_call # steps_of 8 0) (lock_start old_lock {999})))
     = [Ended (Refused ''local_executor_locked'')]"
proof -
  let ?t = "''22222222-2222-4222-8222-222222222222''"
  have c: "acquire (JStr ''server-1'') (JInt 222) ?t 0 True
      = Inr \<lparr>c_pid = 222, c_server = ''server-1'', c_token = ?t, c_now = 0, c_private = True, c_pc = Making\<rparr>" by code_simp
  have t: "toISOString 0 = Inr ''1970-01-01T00:00:00.000Z''" by code_simp
  have r: "parseLockRecord (\<lambda>_. True) old_lock
      = Some \<lparr>lr_pid = 999, lr_server = ''server-1'', lr_token = ''aaaaaaaa-aaaa-4aaa-8aaa-aaaaaaaaaaaa''\<rparr>" by code_simp
  show ?thesis
    using lone_acquisitions_answer_the_file [OF c t refl, of "\<lambda>_. True" old_lock "{}"]
      lone_acquisitions_answer_the_file [OF c t refl, of "\<lambda>_. True" old_lock "{999}"]
    by (simp add: second_call_def r)
qed

section \<open>Every call ends\<close>

text \<open>How many calls of the file system a client makes at most before it holds the lock, or has ended.\<close>

fun calls_left :: "lock_pc \<Rightarrow> nat" where
  "calls_left Making = 9"
| "calls_left (Creating a) = (if a = 0 then 8 else 4)"
| "calls_left (Inspecting a) = (if a = 0 then 7 else 3)"
| "calls_left (Probing a r) = (if a = 0 then 6 else 2)"
| "calls_left (Removing a) = (if a = 0 then 5 else 1)"
| "calls_left (Writing k) = 3"
| "calls_left Checking = 2"
| "calls_left Dropping = 1"
| "calls_left Rereading = 2"
| "calls_left Unlinking = 1"
| "calls_left _ = 0"

fun is_step_of :: "nat \<Rightarrow> lock_event \<Rightarrow> bool" where
  "is_step_of i (Step j _) = (i = j)"
| "is_step_of i _ = False"

fun is_release_of :: "nat \<Rightarrow> lock_event \<Rightarrow> bool" where
  "is_release_of i (Release j) = (i = j)"
| "is_release_of i _ = False"

lemma calls_left_pc: "calls_left (fst (pc_step date_ok ok c pc w)) \<le> calls_left pc - 1"
  by (cases pc) (auto simp: make_step_def create_step_def write_step_def check_step_def readExisting_def probe_step_def
      remove_step_def reread_step_def unlink_step_def split: sum.split option.split)

lemma clients_pc: "w_clients (snd (pc_step date_ok ok c pc w)) = w_clients w"
  by (cases pc) (simp_all add: create_step_def write_step_def remove_step_def unlink_step_def unlinked_def)

lemma pc_client_step:
  "i < length (w_clients w) \<Longrightarrow> pc_of (client_step date_ok ok j w) i =
     (if i = j then fst (pc_step date_ok ok (w_clients w ! i) (pc_of w i) w) else pc_of w i)"
  using clients_pc [of date_ok ok "w_clients w ! j" "pc_of w j" w]
  by (auto simp: client_step_def Let_def split: prod.split)

lemma calls_left_happens:
  assumes i: "i < length (w_clients w)" and r: "\<not> is_release_of i e"
  shows "calls_left (pc_of (happens date_ok e w) i) \<le> calls_left (pc_of w i) - (if is_step_of i e then 1 else 0)"
proof (cases e)
  case (Step j ok)
  with i show ?thesis using calls_left_pc by (simp add: pc_client_step)
next
  case (Release j)
  with i r show ?thesis by (simp add: release_def)
next
  case (Dies p)
  with i show ?thesis by (simp add: process_dies_def)
next
  case (Calls a b c d f)
  with i show ?thesis by (simp add: process_calls_def nth_append split: sum.split)
qed

text \<open>C28 Termination. Whatever the other processes do and whichever calls fail, an acquisition, and a release once it
  has begun, ends after at most nine calls of its own: the client then holds the lock, has got its answer,
  or is gone with its process.\<close>

theorem acquisitions_end:
  assumes "i < length (w_clients w)" "list_all (\<lambda>e. \<not> is_release_of i e) es" "9 \<le> length (filter (is_step_of i) es)"
  shows "c_pc (w_clients (run_lock date_ok es w) ! i) \<in> {Holding, Gone} \<union> range Ended"
proof -
  have "calls_left (pc_of (run_lock date_ok es w) i) \<le> calls_left (pc_of w i) - length (filter (is_step_of i) es)"
    using assms(1,2)
  proof (induction es arbitrary: w)
    case (Cons e es)
    have i: "i < length (w_clients (happens date_ok e w))"
      using Cons.prems(1) length_happens [of w date_ok e] by simp
    have "calls_left (pc_of (run_lock date_ok es (happens date_ok e w)) i)
        \<le> calls_left (pc_of (happens date_ok e w) i) - length (filter (is_step_of i) es)"
      using Cons.IH [OF i] Cons.prems(2) by simp
    with calls_left_happens [OF Cons.prems(1), of e date_ok] Cons.prems(2) show ?case
      by (auto simp: run_lock_def split: if_splits)
  qed (simp add: run_lock_def)
  moreover have "calls_left (pc_of w i) \<le> 9" by (cases "pc_of w i") simp_all
  ultimately have "calls_left (pc_of (run_lock date_ok es w) i) = 0" using assms(3) by simp
  then show ?thesis by (cases "pc_of (run_lock date_ok es w) i") (auto split: if_splits)
qed

lemma acquisitions_end_witness:
  "c_pc (w_clients (run_lock (\<lambda>_. True) (Dies 7 # steps_of 9 0) (happens (\<lambda>_. True) first_call (lock_start old_lock {}))) ! 0)
     \<in> {Holding, Gone} \<union> range Ended"
proof (rule acquisitions_end)
  show "0 < length (w_clients (happens (\<lambda>_. True) first_call (lock_start old_lock {})))" by code_simp
  show "list_all (\<lambda>e. \<not> is_release_of 0 e) (Dies 7 # steps_of 9 0)" by code_simp
  show "9 \<le> length (filter (is_step_of 0) (Dies 7 # steps_of 9 0))" by code_simp
qed

end
