(* ===== verification/JobLog.thy ===== *)
theory JobLog
  imports RuntimeSpecs JsClock "HOL-Library.AList"
begin

text \<open>
  The logs of jobs (\<open>apps/api/src/job-log-store.js\<close>) with the cut of \<open>packages/shared/src/log-safety.js\<close>: lines
  are numbered and kept up to a bound, the oldest go first, every log is a file of its own, and a
  query walks a log backwards in pages.

  The redaction, a chain of replacements by regular expressions, is an argument (\<open>redact\<close>), as is
  \<open>toLocaleLowerCase\<close> (\<open>lc\<close>). Calls for a job run one after the other (\<open>serialize\<close>), so each call is a step.
  The directory holds files in the order \<open>readdir\<close> lists them; a write goes to a temporary file that is
  renamed, and the outcomes of the writes to come are chosen by the environment. Removals succeed. Of the
  object a log file holds the five fields of \<open>emptyState\<close> are kept; the store writes no others.
\<close>

section \<open>Entries\<close>

definition MAX_ENTRIES :: nat where "MAX_ENTRIES = 1000"
definition MAX_MESSAGE_BYTES :: nat where "MAX_MESSAGE_BYTES = 512 * 1024"
definition MAX_FILES :: nat where "MAX_FILES = 500"
definition RETENTION_MS :: int where "RETENTION_MS = 30 * 24 * 60 * 60 * 1000"
definition MAX_FILE_BYTES :: nat where "MAX_FILE_BYTES = 1024 * 1024"

definition LEVELS :: "string list" where
  "LEVELS = [''error'', ''warning'', ''notice'', ''info'', ''debug'']"

definition log_error :: "string \<Rightarrow> string \<Rightarrow> jerr" where
  "log_error c msg = Err ''JobLogStoreError'' (Some c) msg"

definition requireJobId :: "js \<Rightarrow> string res" where
  "requireJobId v =
     (if \<not> is_string v \<or> \<not> is_uuid (str_of v)
      then Inl (log_error ''invalid_job_log_identity'' ''Job log identity is invalid'')
      else Inr (to_lower (str_of v)))"

text \<open>\<open>/^[a-z][a-z0-9._-]{0,39}$/\<close>\<close>

definition is_stage :: "string \<Rightarrow> bool" where
  "is_stage s = head_class is_lower (\<lambda>c. is_lower_alnum c \<or> one_of ''._-'' c) 39 s"

definition validTimestamp :: "js \<Rightarrow> bool" where
  "validTimestamp v = (is_string v \<and> length (str_of v) = 24 \<and> is_iso (str_of v))"

text \<open>\<open>Buffer.byteLength\<close>: UTF-8.\<close>

definition utf8_bytes :: "string \<Rightarrow> nat" where
  "utf8_bytes s = sum_list (map (\<lambda>c. if code c < 128 then 1 else 2) s)"

definition entry_bytes :: "js \<Rightarrow> nat" where
  "entry_bytes e = utf8_bytes (str_of (jget e ''message''))"

definition entries_bytes :: "js list \<Rightarrow> nat" where
  "entries_bytes es = sum_list (map entry_bytes es)"

definition entry_sequence :: "js \<Rightarrow> int" where
  "entry_sequence e = int_of (jget e ''sequence'')"

text \<open>\<open>test\<close> converts the stage to a string; an object that refuses throws.\<close>

definition stage_text :: "(nat \<Rightarrow> string) \<Rightarrow> js \<Rightarrow> string res" where
  "stage_text number_text e = js_text number_text (jget e ''stage'')"

record log_state =
  ls_next :: int
  ls_dropped :: int
  ls_entries :: "js list"

definition empty_log :: log_state where
  "empty_log = \<lparr>ls_next = 1, ls_dropped = 0, ls_entries = []\<rparr>"

definition state_js :: "string \<Rightarrow> log_state \<Rightarrow> js" where
  "state_js jobId st = JObj [(''version'', JInt 1), (''jobId'', JStr jobId), (''nextSequence'', JInt (ls_next st)),
     (''droppedEntries'', JInt (ls_dropped st)), (''entries'', JArr (ls_entries st))]"

definition state_invalid :: "string \<Rightarrow> 'a res" where
  "state_invalid msg = Inl (log_error ''job_log_state_invalid'' msg)"

text \<open>The condition of the loop, with the rest of the checks after the stage has been converted.\<close>

definition entry_ok :: "int \<Rightarrow> int \<Rightarrow> js \<Rightarrow> bool" where
  "entry_ok nextSequence previous e =
     (truthy e \<and> is_safe_integer (jget e ''sequence'') \<and> previous < entry_sequence e \<and> entry_sequence e < nextSequence \<and>
      validTimestamp (jget e ''timestamp'') \<and> str_in (jget e ''level'') LEVELS)"

definition entry_rest_ok :: "js \<Rightarrow> bool" where
  "entry_rest_ok e =
     (is_string (jget e ''message'') \<and> 1 \<le> length (str_of (jget e ''message'')) \<and>
      length (str_of (jget e ''message'')) \<le> 4 * 1024 \<and> is_bool (jget e ''truncated''))"

fun validate_entries :: "(nat \<Rightarrow> string) \<Rightarrow> int \<Rightarrow> int \<Rightarrow> nat \<Rightarrow> js list \<Rightarrow> nat res" where
  "validate_entries number_text nextSequence previous bytes [] = Inr bytes"
| "validate_entries number_text nextSequence previous bytes (e # es) =
     (if \<not> entry_ok nextSequence previous e then state_invalid ''Stored job log entry is invalid''
      else bnd (stage_text number_text e) (\<lambda>stage.
        if \<not> is_stage stage \<or> \<not> entry_rest_ok e then state_invalid ''Stored job log entry is invalid''
        else validate_entries number_text nextSequence (entry_sequence e) (bytes + entry_bytes e) es))"

definition validateState :: "(nat \<Rightarrow> string) \<Rightarrow> js \<Rightarrow> string \<Rightarrow> log_state res" where
  "validateState number_text v jobId =
     (if \<not> truthy v \<or> jget v ''version'' \<noteq> JInt 1 \<or> jget v ''jobId'' \<noteq> JStr jobId \<or>
         \<not> safe_at_least 1 (jget v ''nextSequence'') \<or> \<not> safe_at_least 0 (jget v ''droppedEntries'') \<or>
         \<not> is_array (jget v ''entries'') \<or> MAX_ENTRIES < length (arr_of (jget v ''entries''))
      then state_invalid ''Stored job log is invalid''
      else bnd (validate_entries number_text (int_of (jget v ''nextSequence'')) 0 0 (arr_of (jget v ''entries''))) (\<lambda>bytes.
        if MAX_MESSAGE_BYTES < bytes then state_invalid ''Stored job log exceeds its bound''
        else Inr \<lparr>ls_next = int_of (jget v ''nextSequence''), ls_dropped = int_of (jget v ''droppedEntries''),
                  ls_entries = arr_of (jget v ''entries'')\<rparr>))"

definition cursor_of :: "js \<Rightarrow> string" where
  "cursor_of e = ''deploy:'' @ int_text (entry_sequence e)"

definition publicEntry :: "string \<Rightarrow> js \<Rightarrow> js" where
  "publicEntry jobId e = JObj [(''cursor'', JStr (cursor_of e)), (''timestamp'', jget e ''timestamp''),
     (''level'', jget e ''level''), (''source'', JStr ''deploy''), (''stage'', jget e ''stage''),
     (''message'', jget e ''message''), (''truncated'', jget e ''truncated''), (''jobId'', JStr jobId)]"

section \<open>Messages\<close>

text \<open>\<open>String(value ?? '')\<close> when the value is no string.\<close>

definition sanitizeLogMessage :: "(nat \<Rightarrow> string) \<Rightarrow> (string \<Rightarrow> string) \<Rightarrow> js \<Rightarrow> (string \<times> bool) res" where
  "sanitizeLogMessage number_text redact v =
     bnd (js_text number_text (nullish v (JStr []))) (\<lambda>raw.
     let redacted = redact (take (64 * 1024) raw) in
     Inr (take (4 * 1024) redacted, 64 * 1024 < length raw \<or> 4 * 1024 < length redacted))"

definition carriage_return :: char where "carriage_return = char_of (13 :: nat)"
definition line_feed :: char where "line_feed = char_of (10 :: nat)"

text \<open>\<open>replace(/\r\n?/g, '\n')\<close>\<close>

fun unix_lines :: "string \<Rightarrow> string" where
  "unix_lines [] = []"
| "unix_lines (c # cs) =
     (if c = carriage_return
      then line_feed # (case cs of [] \<Rightarrow> [] | d # ds \<Rightarrow> if d = line_feed then unix_lines ds else unix_lines cs)
      else c # unix_lines cs)"

definition log_lines :: "string \<Rightarrow> string list" where
  "log_lines message = filter (\<lambda>l. 0 < length l) (split_on line_feed (unix_lines message))"

definition new_entry :: "int \<Rightarrow> string \<Rightarrow> string \<Rightarrow> string \<Rightarrow> bool \<Rightarrow> string \<Rightarrow> js" where
  "new_entry seq timestamp level stage truncated line = JObj [(''sequence'', JInt seq), (''timestamp'', JStr timestamp),
     (''level'', JStr level), (''stage'', JStr stage), (''message'', JStr line), (''truncated'', JBool truncated)]"

text \<open>The loop that pushes the lines.\<close>

fun push_lines :: "(int \<Rightarrow> string \<Rightarrow> js) \<Rightarrow> string list \<Rightarrow> log_state \<Rightarrow> log_state" where
  "push_lines entry [] st = st"
| "push_lines entry (l # ls) st =
     push_lines entry ls (st\<lparr>ls_entries := ls_entries st @ [entry (ls_next st) l], ls_next := ls_next st + 1\<rparr>)"

text \<open>The loop that drops the oldest entries; it ends at the latest when none is left.\<close>

fun drop_oldest :: "nat \<Rightarrow> int \<Rightarrow> js list \<Rightarrow> (int \<times> js list) res" where
  "drop_oldest bytes dropped [] = (if MAX_MESSAGE_BYTES < bytes then Inl type_error else Inr (dropped, []))"
| "drop_oldest bytes dropped (e # es) =
     (if MAX_ENTRIES < length (e # es) \<or> MAX_MESSAGE_BYTES < bytes
      then drop_oldest (bytes - entry_bytes e) (dropped + 1) es
      else Inr (dropped, e # es))"

definition append_lines :: "(int \<Rightarrow> string \<Rightarrow> js) \<Rightarrow> string list \<Rightarrow> log_state \<Rightarrow> log_state res" where
  "append_lines entry lines st =
     (let st' = push_lines entry lines st in
      bnd (drop_oldest (entries_bytes (ls_entries st')) (ls_dropped st') (ls_entries st')) (\<lambda>(dropped, es).
      Inr (st'\<lparr>ls_dropped := dropped, ls_entries := es\<rparr>)))"

section \<open>The store\<close>

text \<open>The bytes of a JSON text.\<close>

definition char_bytes :: "char \<Rightarrow> nat" where
  "char_bytes c =
     (if one_of [char_of (34 :: nat), char_of (92 :: nat), char_of (8 :: nat), char_of (9 :: nat), char_of (10 :: nat),
                 char_of (12 :: nat), char_of (13 :: nat)] c then 2
      else if code c < 32 then 6 else if code c < 128 then 1 else 2)"

definition json_string_bytes :: "string \<Rightarrow> nat" where
  "json_string_bytes s = 2 + sum_list (map char_bytes s)"

fun json_bytes :: "(nat \<Rightarrow> string) \<Rightarrow> js \<Rightarrow> nat" where
  "json_bytes number_text JUndef = 4"
| "json_bytes number_text JNull = 4"
| "json_bytes number_text (JBool b) = (if b then 4 else 5)"
| "json_bytes number_text (JInt i) = length (int_text i)"
| "json_bytes number_text (JNonInt t) = (if t \<le> 2 then 4 else length (number_text t))"
| "json_bytes number_text (JStr s) = json_string_bytes s"
| "json_bytes number_text (JArr xs) = 2 + (length xs - 1) + sum_list (map (json_bytes number_text) xs)"
| "json_bytes number_text (JObj m) =
     2 + (length m - 1) + sum_list (map (\<lambda>(k, v). json_string_bytes k + 1 + json_bytes number_text v) m)"

text \<open>
  A file of the directory: whether it is a plain file, its time and size, and its content when it is
  JSON. The directory: its files in the order \<open>readdir\<close> lists them, whether \<open>mkdir\<close> returns, and whether
  it is a real directory. \<open>lg_writes\<close> holds the outcomes of the writes to come; past its end they succeed.
\<close>

record log_file =
  lf_regular :: bool
  lf_mtime :: int
  lf_size :: nat
  lf_content :: "js option"

record log_store =
  lg_initialized :: bool
  lg_made :: bool
  lg_safe :: bool
  lg_files :: "(string \<times> log_file) list"
  lg_cache :: "string \<rightharpoonup> log_state"
  lg_writes :: "bool list"

text \<open>The surroundings of a call: the readings of \<open>now\<close> for an entry and for a cleanup, and the file system's.\<close>

record log_clock =
  lc_now :: int
  lc_cleanup :: int
  lc_write :: int

definition createJobLogStore :: "bool \<Rightarrow> bool \<Rightarrow> (string \<times> log_file) list \<Rightarrow> bool list \<Rightarrow> log_store" where
  "createJobLogStore made safe files outcomes = \<lparr>lg_initialized = False, lg_made = made, lg_safe = safe,
     lg_files = files, lg_cache = (\<lambda>_. None), lg_writes = outcomes\<rparr>"

definition log_file_name :: "string \<Rightarrow> string" where
  "log_file_name jobId = jobId @ ''.json''"

subsection \<open>Cleanup\<close>

definition drop_json :: "string \<Rightarrow> string" where
  "drop_json name = (if ends_with name ''.json'' then take (length name - 5) name else name)"

definition is_log_name :: "string \<Rightarrow> bool" where
  "is_log_name name = (is_uuid (drop_json name) \<and> ends_with name ''.json'')"

definition prune_candidates :: "(string \<times> log_file) list \<Rightarrow> (string \<times> int) list" where
  "prune_candidates files =
     map (\<lambda>(n, f). (n, lf_mtime f)) (filter (\<lambda>(n, f). is_log_name n \<and> lf_regular f) files)"

definition latest_first :: "string \<times> int \<Rightarrow> string \<times> int \<Rightarrow> int" where
  "latest_first left right = snd right - snd left"

definition expired_logs :: "int \<Rightarrow> (string \<times> int) list \<Rightarrow> string list" where
  "expired_logs cutoff candidates =
     map (\<lambda>(i, c). fst c) (filter (\<lambda>(i, c). MAX_FILES \<le> i \<or> snd c < cutoff)
       (enumerate 0 (js_sort latest_first candidates)))"

definition prune :: "int \<Rightarrow> (log_store, unit) sm" where
  "prune now =
     sbind (sget (\<lambda>s. expired_logs (now - RETENTION_MS) (prune_candidates (lg_files s)))) (\<lambda>expired.
     smod (\<lambda>s. s\<lparr>lg_files := filter (\<lambda>(n, f). n \<notin> set expired) (lg_files s),
       lg_cache := (\<lambda>j. if j \<in> set (map drop_json expired) then None else lg_cache s j)\<rparr>))"

definition init_logs :: "log_clock \<Rightarrow> (log_store, unit) sm" where
  "init_logs c =
     sbind (sget id) (\<lambda>s.
     if lg_initialized s then sret ()
     else if \<not> lg_made s then sthrow io_error
     else if \<not> lg_safe s then sthrow (log_error ''job_log_store_path_invalid'' ''Job log store directory is unsafe'')
     else sbind (prune (lc_cleanup c)) (\<lambda>_. smod (\<lambda>s. s\<lparr>lg_initialized := True\<rparr>)))"

subsection \<open>Reading and writing a log\<close>

definition unreadable :: "'a res" where
  "unreadable = state_invalid ''Stored job log could not be read''"

text \<open>The \<open>try\<close> of \<open>load\<close> on a file that exists, with its \<open>catch\<close>: errors of other classes are replaced.\<close>

definition read_log :: "(nat \<Rightarrow> string) \<Rightarrow> log_file \<Rightarrow> string \<Rightarrow> log_state res" where
  "read_log number_text f jobId =
     (if \<not> lf_regular f \<or> MAX_FILE_BYTES < lf_size f then unreadable
      else case lf_content f of
        None \<Rightarrow> unreadable
      | Some v \<Rightarrow> (case validateState number_text v jobId of
          Inl e \<Rightarrow> if err_class e = ''JobLogStoreError'' then Inl e else unreadable
        | Inr st \<Rightarrow> Inr st))"

definition stored_log :: "(nat \<Rightarrow> string) \<Rightarrow> (string \<times> log_file) list \<Rightarrow> string \<Rightarrow> log_state res" where
  "stored_log number_text files jobId =
     (case map_of files (log_file_name jobId) of None \<Rightarrow> Inr empty_log | Some f \<Rightarrow> read_log number_text f jobId)"

definition load :: "(nat \<Rightarrow> string) \<Rightarrow> string \<Rightarrow> (log_store, log_state) sm" where
  "load number_text jobId =
     sbind (sget id) (\<lambda>s.
     case lg_cache s jobId of
       Some st \<Rightarrow> sret st
     | None \<Rightarrow>
         sbind (slift (stored_log number_text (lg_files s) jobId)) (\<lambda>st.
         sbind (smod (\<lambda>s. s\<lparr>lg_cache := (lg_cache s)(jobId \<mapsto> st)\<rparr>)) (\<lambda>_. sret st)))"

text \<open>The file a log is written to.\<close>

definition written_log :: "(nat \<Rightarrow> string) \<Rightarrow> int \<Rightarrow> string \<Rightarrow> log_state \<Rightarrow> log_file" where
  "written_log number_text time jobId st =
     (let v = json_norm (state_js jobId st) in
      \<lparr>lf_regular = True, lf_mtime = time, lf_size = json_bytes number_text v, lf_content = Some v\<rparr>)"

definition persist_log :: "(nat \<Rightarrow> string) \<Rightarrow> int \<Rightarrow> string \<Rightarrow> log_state \<Rightarrow> (log_store, unit) sm" where
  "persist_log number_text time jobId st =
     sbind (sget (\<lambda>s. case lg_writes s of [] \<Rightarrow> True | b # _ \<Rightarrow> b)) (\<lambda>ok.
     sbind (smod (\<lambda>s. s\<lparr>lg_writes := tl (lg_writes s)\<rparr>)) (\<lambda>_.
     if ok
     then smod (\<lambda>s. s\<lparr>lg_files := AList.update (log_file_name jobId) (written_log number_text time jobId st) (lg_files s)\<rparr>)
     else sthrow io_error))"

subsection \<open>Recording\<close>

text \<open>
  The entries are pushed on the state the cache holds, so a write that fails leaves them in memory.
\<close>

definition append_log ::
  "(nat \<Rightarrow> string) \<Rightarrow> log_clock \<Rightarrow> string \<Rightarrow> string \<Rightarrow> string \<Rightarrow> string list \<Rightarrow> bool \<Rightarrow> (log_store, js) sm" where
  "append_log number_text c jobId level stage lines truncated =
     sbind (load number_text jobId) (\<lambda>st.
     let newLog = (ls_next st = 1 \<and> ls_entries st = []) in
     sbind (slift (toISOString (lc_now c))) (\<lambda>timestamp.
     sbind (slift (append_lines (\<lambda>seq line. new_entry seq timestamp level stage truncated line) lines st)) (\<lambda>st'.
     sbind (smod (\<lambda>s. s\<lparr>lg_cache := (lg_cache s)(jobId \<mapsto> st')\<rparr>)) (\<lambda>_.
     sbind (persist_log number_text (lc_write c) jobId st') (\<lambda>_.
     sbind (if newLog then prune (lc_cleanup c) else sret ()) (\<lambda>_.
     if ls_entries st' = [] then sthrow type_error else sret (publicEntry jobId (last (ls_entries st')))))))))"

definition record_line :: "(nat \<Rightarrow> string) \<Rightarrow> (string \<Rightarrow> string) \<Rightarrow> log_clock \<Rightarrow> js \<Rightarrow> (log_store, js) sm" where
  "record_line number_text redact c v =
     (let stage = jget v ''stage''; level = (if jget v ''level'' = JUndef then JStr ''info'' else jget v ''level'') in
      if v = JNull then sthrow type_error
      else
        sbind (init_logs c) (\<lambda>_.
        sbind (slift (requireJobId (jget v ''jobId''))) (\<lambda>jobId.
        if \<not> is_string stage \<or> \<not> is_stage (str_of stage) \<or> \<not> str_in level LEVELS
        then sthrow (log_error ''invalid_job_log_entry'' ''Job log metadata is invalid'')
        else
          sbind (slift (sanitizeLogMessage number_text redact (jget v ''message''))) (\<lambda>(message, truncated).
          if log_lines message = [] then sret JNull
          else append_log number_text c jobId (str_of level) (str_of stage) (log_lines message) truncated))))"

subsection \<open>Queries\<close>

text \<open>\<open>/^deploy:[1-9][0-9]{0,14}$/\<close>\<close>

definition is_cursor :: "string \<Rightarrow> bool" where
  "is_cursor s = (starts_with s ''deploy:'' \<and> head_class (\<lambda>c. is_digit c \<and> c \<noteq> CHR ''0'') is_digit 14 (drop 7 s))"

text \<open>\<open>a <= b\<close> on strings\<close>

fun text_le :: "string \<Rightarrow> string \<Rightarrow> bool" where
  "text_le [] t = True"
| "text_le (c # cs) [] = False"
| "text_le (c # cs) (d # ds) = (code c < code d \<or> code c = code d \<and> text_le cs ds)"

text \<open>A field of the options with its default.\<close>

definition option_or :: "js \<Rightarrow> string \<Rightarrow> js \<Rightarrow> js" where
  "option_or v k d = (if jget v k = JUndef then d else jget v k)"

definition query_ok :: "js \<Rightarrow> js \<Rightarrow> js \<Rightarrow> js \<Rightarrow> js \<Rightarrow> js \<Rightarrow> bool" where
  "query_ok cursor limit levels search since until =
     (int_between 1 1000 limit \<and> is_array levels \<and> 1 \<le> length (arr_of levels) \<and>
      list_all (\<lambda>l. str_in l LEVELS) (arr_of levels) \<and>
      (cursor = JNull \<or> is_string cursor \<and> is_cursor (str_of cursor)) \<and>
      (search = JNull \<or> is_string search \<and> 1 \<le> length (str_of search) \<and> length (str_of search) \<le> 100) \<and>
      (since = JNull \<or> validTimestamp since) \<and> (until = JNull \<or> validTimestamp until))"

definition before_sequence :: "js \<Rightarrow> int" where
  "before_sequence cursor = (if truthy cursor then digits_value 0 (drop 7 (str_of cursor)) else max_safe)"

text \<open>The text a search looks in; the stage of a log that was loaded has a text.\<close>

definition search_text :: "(nat \<Rightarrow> string) \<Rightarrow> js \<Rightarrow> string" where
  "search_text number_text e =
     str_of (jget e ''level'') @ '' '' @ (case stage_text number_text e of Inl _ \<Rightarrow> [] | Inr t \<Rightarrow> t) @ '' '' @
     str_of (jget e ''message'')"

text \<open>The condition of the filter without the bound on the sequence.\<close>

definition entry_matches ::
  "(nat \<Rightarrow> string) \<Rightarrow> (string \<Rightarrow> string) \<Rightarrow> js \<Rightarrow> js \<Rightarrow> js \<Rightarrow> js \<Rightarrow> js \<Rightarrow> bool" where
  "entry_matches number_text lc levels search since until e =
     (let needle = (if search = JNull then [] else lc (str_of search)) in
      jget e ''level'' \<in> set (arr_of levels) \<and>
      (since = JNull \<or> text_le (str_of since) (str_of (jget e ''timestamp''))) \<and>
      (until = JNull \<or> text_le (str_of (jget e ''timestamp'')) (str_of until)) \<and>
      (needle = [] \<or> str_includes (lc (search_text number_text e)) needle))"

definition log_page :: "string \<Rightarrow> int \<Rightarrow> js \<Rightarrow> js \<Rightarrow> int \<Rightarrow> js list \<Rightarrow> js" where
  "log_page jobId limit since until dropped matching =
     (let entries = map (publicEntry jobId) (take (nat limit) matching); hasMore = (length entries < length matching) in
      JObj [(''entries'', JArr entries),
        (''page'', JObj [(''limit'', JInt limit), (''count'', JInt (int (length entries))), (''hasMore'', JBool hasMore),
           (''nextCursor'', if hasMore \<and> entries \<noteq> [] then nullish (jget (last entries) ''cursor'') JNull else JNull),
           (''droppedEntries'', JInt dropped)]),
        (''range'', JObj [(''since'', since), (''until'', until)])])"

definition query :: "(nat \<Rightarrow> string) \<Rightarrow> (string \<Rightarrow> string) \<Rightarrow> log_clock \<Rightarrow> js \<Rightarrow> js \<Rightarrow> (log_store, js) sm" where
  "query number_text lc c jobIdValue v =
     (let cursor = option_or v ''cursor'' JNull; limit = option_or v ''limit'' (JInt 100);
          levels = option_or v ''levels'' (JArr (map JStr LEVELS)); search = option_or v ''search'' JNull;
          since = option_or v ''since'' JNull; until = option_or v ''until'' JNull in
      if v = JNull then sthrow type_error
      else
        sbind (init_logs c) (\<lambda>_.
        sbind (slift (requireJobId jobIdValue)) (\<lambda>jobId.
        if \<not> query_ok cursor limit levels search since until
        then sthrow (log_error ''invalid_job_log_query'' ''Job log query is invalid'')
        else
          sbind (load number_text jobId) (\<lambda>st.
          sret (log_page jobId (int_of limit) since until (ls_dropped st)
            (rev (filter (\<lambda>e. entry_sequence e < before_sequence cursor \<and>
                entry_matches number_text lc levels search since until e) (ls_entries st))))))))"

end
