(* ===== verification/JobLogProofs.thy ===== *)
theory JobLogProofs
  imports JobLog
begin

text \<open>
  What holds of every log (\<open>JobLog\<close>): the validator as a predicate on the entries, the two loops of
  \<open>record\<close> as list functions, cursors as numbers, and the invariant of the logs in memory that every
  call keeps.
\<close>

section \<open>The validator\<close>

definition entry_valid :: "(nat \<Rightarrow> string) \<Rightarrow> js \<Rightarrow> bool" where
  "entry_valid nt e =
     ((case stage_text nt e of Inl _ \<Rightarrow> False | Inr t \<Rightarrow> is_stage t) \<and> entry_rest_ok e)"

fun entries_ok :: "(nat \<Rightarrow> string) \<Rightarrow> int \<Rightarrow> int \<Rightarrow> js list \<Rightarrow> bool" where
  "entries_ok nt n prev [] = True"
| "entries_ok nt n prev (e # es) = (entry_ok n prev e \<and> entry_valid nt e \<and> entries_ok nt n (entry_sequence e) es)"

lemma validate_entries_iff:
  "validate_entries nt n prev b es = Inr b' \<longleftrightarrow> entries_ok nt n prev es \<and> b' = b + entries_bytes es"
proof (induction es arbitrary: prev b)
  case Nil
  then show ?case by (auto simp: entries_bytes_def)
next
  case (Cons e es)
  then show ?case
    by (cases "stage_text nt e") (auto simp: entry_valid_def entries_bytes_def state_invalid_def)
qed

lemma entries_ok_mono: "entries_ok nt n prev es \<Longrightarrow> n \<le> n' \<Longrightarrow> entries_ok nt n' prev es"
  by (induction es arbitrary: prev) (auto simp: entry_ok_def)

lemma entries_ok_above: "entries_ok nt n prev es \<Longrightarrow> prev' \<le> prev \<Longrightarrow> entries_ok nt n prev' es"
  by (cases es) (auto simp: entry_ok_def)

lemma entries_ok_append:
  "entries_ok nt n prev xs \<Longrightarrow> (\<And>p. prev \<le> p \<Longrightarrow> (\<And>e. e \<in> set xs \<Longrightarrow> entry_sequence e \<le> p) \<Longrightarrow> p < m \<Longrightarrow> entries_ok nt n p ys) \<Longrightarrow>
   prev < m \<Longrightarrow> (\<And>e. e \<in> set xs \<Longrightarrow> entry_sequence e < m) \<Longrightarrow> entries_ok nt n prev (xs @ ys)"
proof (induction xs arbitrary: prev)
  case Nil
  then show ?case by simp
next
  case (Cons e xs)
  have ok: "entry_ok n prev e" "entry_valid nt e" "entries_ok nt n (entry_sequence e) xs" using Cons.prems(1) by auto
  have lt: "prev < entry_sequence e" using ok(1) by (auto simp: entry_ok_def)
  have "entries_ok nt n (entry_sequence e) (xs @ ys)"
  proof (rule Cons.IH [OF ok(3)])
    fix p assume p: "entry_sequence e \<le> p" "\<And>e. e \<in> set xs \<Longrightarrow> entry_sequence e \<le> p" "p < m"
    show "entries_ok nt n p ys" by (rule Cons.prems(2)) (use p lt in auto)
  qed (use Cons.prems in auto)
  with ok show ?case by simp
qed

lemma entries_ok_drop: "entries_ok nt n prev es \<Longrightarrow> entries_ok nt n prev (drop k es)"
proof (induction es arbitrary: prev k)
  case Nil
  then show ?case by simp
next
  case (Cons e es)
  show ?case
  proof (cases k)
    case 0
    with Cons.prems show ?thesis by simp
  next
    case (Suc j)
    have "entries_ok nt n (entry_sequence e) (drop j es)" using Cons by simp
    then have "entries_ok nt n prev (drop j es)"
      by (rule entries_ok_above) (use Cons.prems in \<open>auto simp: entry_ok_def\<close>)
    with Suc show ?thesis by simp
  qed
qed

lemma entries_ok_mem: "entries_ok nt n prev es \<Longrightarrow> e \<in> set es \<Longrightarrow> prev < entry_sequence e \<and> entry_sequence e < n"
  by (induction es arbitrary: prev) (force simp: entry_ok_def)+

lemma entries_ok_sorted: "entries_ok nt n prev es \<Longrightarrow> sorted_wrt (\<lambda>a b. entry_sequence a < entry_sequence b) es"
  by (induction es arbitrary: prev) (auto dest: entries_ok_mem)

section \<open>The loops of \<open>record\<close>\<close>

definition fits :: "js list \<Rightarrow> bool" where
  "fits es = (length es \<le> MAX_ENTRIES \<and> entries_bytes es \<le> MAX_MESSAGE_BYTES)"

fun numbered :: "(int \<Rightarrow> string \<Rightarrow> js) \<Rightarrow> int \<Rightarrow> string list \<Rightarrow> js list" where
  "numbered entry n [] = []"
| "numbered entry n (l # ls) = entry n l # numbered entry (n + 1) ls"

lemma length_numbered [simp]: "length (numbered entry n ls) = length ls"
  by (induction ls arbitrary: n) auto

lemma numbered_all:
  "(\<And>i l. q \<le> i \<Longrightarrow> i < q + int (length ls) \<Longrightarrow> P (entry i l)) \<Longrightarrow> e \<in> set (numbered entry q ls) \<Longrightarrow> P e"
proof (induction ls arbitrary: q)
  case Nil
  then show ?case by simp
next
  case (Cons l ls)
  have "P e" if "e \<in> set (numbered entry (q + 1) ls)"
    by (rule Cons.IH [OF _ that]) (use Cons.prems(1) in auto)
  with Cons.prems show ?case by auto
qed

lemma push_lines_numbered:
  "push_lines entry ls st =
     st\<lparr>ls_entries := ls_entries st @ numbered entry (ls_next st) ls, ls_next := ls_next st + int (length ls)\<rparr>"
  by (induction ls arbitrary: st) (auto simp: algebra_simps)

lemma drop_oldest_spec:
  "\<exists>k \<le> length es. drop_oldest (entries_bytes es) d es = Inr (d + int k, drop k es) \<and> fits (drop k es) \<and>
     (\<forall>j < k. \<not> fits (drop j es))"
proof (induction es arbitrary: d)
  case Nil
  then show ?case by (auto simp: entries_bytes_def fits_def)
next
  case (Cons e es)
  show ?case
  proof (cases "fits (e # es)")
    case True
    then show ?thesis by (intro exI [of _ 0]) (auto simp: fits_def)
  next
    case False
    obtain k where k: "k \<le> length es" "drop_oldest (entries_bytes es) (d + 1) es = Inr (d + 1 + int k, drop k es)"
      "fits (drop k es)" "\<forall>j < k. \<not> fits (drop j es)" using Cons.IH [of "d + 1"] by auto
    have "drop_oldest (entries_bytes (e # es)) d (e # es) = drop_oldest (entries_bytes es) (d + 1) es"
      using False by (auto simp: fits_def entries_bytes_def)
    moreover have "\<forall>j < Suc k. \<not> fits (drop j (e # es))"
      using k(4) False by (auto simp: less_Suc_eq_0_disj)
    ultimately show ?thesis using k by (intro exI [of _ "Suc k"]) auto
  qed
qed

text \<open>The longest suffix that fits.\<close>

definition longest_tail :: "nat \<Rightarrow> js list \<Rightarrow> bool" where
  "longest_tail k es = (k \<le> length es \<and> fits (drop k es) \<and> list_all (\<lambda>j. \<not> fits (drop j es)) [0..<k])"

lemma append_lines_spec:
  "\<exists>k. longest_tail k (ls_entries st @ numbered entry (ls_next st) ls) \<and>
     append_lines entry ls st = Inr \<lparr>ls_next = ls_next st + int (length ls), ls_dropped = ls_dropped st + int k,
       ls_entries = drop k (ls_entries st @ numbered entry (ls_next st) ls)\<rparr>"
proof -
  let ?all = "ls_entries st @ numbered entry (ls_next st) ls"
  obtain k where "k \<le> length ?all" "drop_oldest (entries_bytes ?all) (ls_dropped st) ?all = Inr (ls_dropped st + int k, drop k ?all)"
    "fits (drop k ?all)" "\<forall>j < k. \<not> fits (drop j ?all)" using drop_oldest_spec [of ?all "ls_dropped st"] by blast
  then show ?thesis
    by (intro exI [of _ k]) (auto simp: longest_tail_def append_lines_def push_lines_numbered Let_def list_all_iff)
qed

section \<open>Lines\<close>

lemma length_unix_lines: "length (unix_lines s) \<le> length s"
  by (induction s rule: unix_lines.induct) (auto split: list.splits)

lemma length_split_on: "w \<in> set (split_on d s) \<Longrightarrow> length w \<le> length s"
proof (induction s arbitrary: w)
  case Nil
  then show ?case by simp
next
  case (Cons c s)
  then show ?case by (fastforce split: if_splits list.splits)
qed

lemma log_lines_length: "l \<in> set (log_lines m) \<Longrightarrow> 1 \<le> length l \<and> length l \<le> length m"
  using length_split_on [of l line_feed "unix_lines m"] length_unix_lines [of m]
  by (auto simp: log_lines_def Suc_le_eq)

lemma sanitized_length: "sanitizeLogMessage nt redact v = Inr (m, t) \<Longrightarrow> length m \<le> 4 * 1024"
  by (auto simp: sanitizeLogMessage_def Let_def)

section \<open>Entries of the store\<close>

lemma new_entry_fields [simp]:
  "jget (new_entry q ts lv sg tr l) ''sequence'' = JInt q" "jget (new_entry q ts lv sg tr l) ''timestamp'' = JStr ts"
  "jget (new_entry q ts lv sg tr l) ''level'' = JStr lv" "jget (new_entry q ts lv sg tr l) ''stage'' = JStr sg"
  "jget (new_entry q ts lv sg tr l) ''message'' = JStr l" "jget (new_entry q ts lv sg tr l) ''truncated'' = JBool tr"
  by (simp_all add: new_entry_def)

lemma entry_sequence_new [simp]: "entry_sequence (new_entry q ts lv sg tr l) = q"
  by (simp add: entry_sequence_def)

lemma truthy_new_entry [simp]: "truthy (new_entry q ts lv sg tr l)"
  by (simp add: new_entry_def)

lemma json_norm_new_entry [simp]: "json_norm (new_entry q ts lv sg tr l) = new_entry q ts lv sg tr l"
  by (simp add: new_entry_def)

lemma new_entry_not_undef [simp]: "new_entry q ts lv sg tr l \<noteq> JUndef"
  by (simp add: new_entry_def)

lemma new_entry_valid:
  "is_stage sg \<Longrightarrow> 1 \<le> length l \<Longrightarrow> length l \<le> 4 * 1024 \<Longrightarrow> entry_valid nt (new_entry q ts lv sg tr l)"
  by (simp add: entry_valid_def stage_text_def entry_rest_ok_def)

lemma numbered_ok:
  assumes "is_stage sg" "lv \<in> set LEVELS" "is_iso ts" "length ts = 24"
    and "\<And>l. l \<in> set ls \<Longrightarrow> 1 \<le> length l \<and> length l \<le> 4 * 1024"
  shows "p < q \<Longrightarrow> 1 \<le> q \<Longrightarrow> q + int (length ls) \<le> n \<Longrightarrow> n \<le> max_safe \<Longrightarrow>
    entries_ok nt n p (numbered (\<lambda>i l. new_entry i ts lv sg tr l) q ls)"
  using assms(5)
proof (induction ls arbitrary: p q)
  case Nil
  then show ?case by simp
next
  case (Cons l ls)
  have "entries_ok nt n q (numbered (\<lambda>i l. new_entry i ts lv sg tr l) (q + 1) ls)"
    by (rule Cons.IH) (use Cons.prems in auto)
  with Cons.prems assms new_entry_valid [OF assms(1)] show ?case
    by (auto simp: entry_ok_def validTimestamp_def str_in_def max_safe_def)
qed

section \<open>The invariant of a log\<close>

definition log_ok :: "(nat \<Rightarrow> string) \<Rightarrow> log_state \<Rightarrow> bool" where
  "log_ok nt st =
     (1 \<le> ls_next st \<and> 0 \<le> ls_dropped st \<and> fits (ls_entries st) \<and>
      (\<forall>e \<in> set (ls_entries st). json_norm e = e \<and> e \<noteq> JUndef \<and> entry_sequence e < ls_next st) \<and>
      (ls_next st \<le> max_safe \<longrightarrow> entries_ok nt (ls_next st) 0 (ls_entries st)))"

lemma log_ok_empty [simp]: "log_ok nt empty_log"
  by (simp add: log_ok_def empty_log_def fits_def entries_bytes_def)

lemma json_norm_arr_iff: "json_norm (JArr xs) = JArr xs \<longleftrightarrow> (\<forall>x \<in> set xs. json_norm x = x \<and> x \<noteq> JUndef)"
proof
  assume "json_norm (JArr xs) = JArr xs"
  then have eq: "map (\<lambda>x. if x = JUndef then JNull else json_norm x) xs = map (\<lambda>x. x) xs"
    by (simp only: json_norm.simps js.inject list.map_ident)
  then have "\<forall>x \<in> set xs. (if x = JUndef then JNull else json_norm x) = x" by (simp only: map_eq_conv)
  then show "\<forall>x \<in> set xs. json_norm x = x \<and> x \<noteq> JUndef" by (auto split: if_splits)
next
  assume "\<forall>x \<in> set xs. json_norm x = x \<and> x \<noteq> JUndef"
  then show "json_norm (JArr xs) = JArr xs" by (auto intro!: map_idI)
qed

lemma json_norm_obj_get:
  assumes "json_norm (JObj m) = JObj m"
  shows "json_norm (obj_get m k) = obj_get m k"
proof (cases "obj_get m k = JUndef")
  case True
  then show ?thesis by simp
next
  case False
  have eq: "map (\<lambda>(k, v). (k, json_norm v)) (filter (\<lambda>(k, v). v \<noteq> JUndef) m) = m" using assms by simp
  have "obj_get (map (\<lambda>(k, v). (k, json_norm v)) (filter (\<lambda>(k, v). v \<noteq> JUndef) m)) k = obj_get m k" by (simp only: eq)
  moreover have "\<exists>v. obj_get (map (\<lambda>(k, v). (k, json_norm v)) (filter (\<lambda>(k, v). v \<noteq> JUndef) m)) k = json_norm v"
    by (induction m) (auto intro: exI [of _ JUndef])
  ultimately show ?thesis using json_norm_idem by metis
qed

lemma json_norm_jget: "json_norm v = v \<Longrightarrow> json_norm (jget v k) = jget v k"
proof (cases v)
  case (JObj m)
  then show "json_norm v = v \<Longrightarrow> json_norm (jget v k) = jget v k" using json_norm_obj_get [of m k] by (simp only: jget_JObj)
qed (simp_all add: jget_def)

text \<open>A text that was accepted is a log, and a log is accepted again.\<close>

lemma validateState_ok:
  assumes "validateState nt v jid = Inr st" "json_norm v = v"
  shows "log_ok nt st \<and> ls_next st \<le> max_safe \<and> ls_dropped st \<le> max_safe"
proof -
  have arr: "is_array (jget v ''entries'')" and len: "length (arr_of (jget v ''entries'')) \<le> MAX_ENTRIES"
    and nseq: "safe_at_least 1 (jget v ''nextSequence'')" and dropped: "safe_at_least 0 (jget v ''droppedEntries'')"
    using assms(1) by (auto simp: validateState_def state_invalid_def split: if_splits)
  have ok: "entries_ok nt (ls_next st) 0 (ls_entries st)" "entries_bytes (ls_entries st) \<le> MAX_MESSAGE_BYTES"
    and st: "ls_next st = int_of (jget v ''nextSequence'')" "ls_dropped st = int_of (jget v ''droppedEntries'')"
      "ls_entries st = arr_of (jget v ''entries'')"
    using assms(1) by (auto simp: validateState_def state_invalid_def validate_entries_iff split: if_splits)
  have "jget v ''entries'' = JArr (ls_entries st)" using arr st(3) by (auto simp: is_array_iff)
  then have "json_norm (JArr (ls_entries st)) = JArr (ls_entries st)" using json_norm_jget [OF assms(2)] by metis
  then have "\<forall>e \<in> set (ls_entries st). json_norm e = e \<and> e \<noteq> JUndef" by (simp only: json_norm_arr_iff)
  then show ?thesis
    using ok len nseq dropped st entries_ok_mem [OF ok(1)]
    by (auto simp: log_ok_def fits_def safe_at_least_iff)
qed

lemma state_js_norm:
  assumes "log_ok nt st"
  shows "json_norm (state_js jid st) = state_js jid st"
proof -
  have "json_norm (JArr (ls_entries st)) = JArr (ls_entries st)"
    using assms by (simp only: json_norm_arr_iff) (simp add: log_ok_def)
  then show ?thesis by (simp add: state_js_def)
qed

lemma validateState_state_js:
  assumes "log_ok nt st" "ls_next st \<le> max_safe" "ls_dropped st \<le> max_safe"
  shows "validateState nt (state_js jid st) jid = Inr st"
proof -
  have "validate_entries nt (ls_next st) 0 0 (ls_entries st) = Inr (entries_bytes (ls_entries st))"
    using assms by (simp add: validate_entries_iff log_ok_def)
  with assms show ?thesis
    by (simp add: validateState_def state_js_def log_ok_def fits_def max_safe_def)
qed

text \<open>Lines that are appended keep a log a log.\<close>

lemma append_lines_ok:
  assumes "log_ok nt st" "is_stage sg" "lv \<in> set LEVELS" "is_iso ts" "length ts = 24"
    and "\<And>l. l \<in> set ls \<Longrightarrow> 1 \<le> length l \<and> length l \<le> 4 * 1024"
    and "append_lines (\<lambda>i l. new_entry i ts lv sg tr l) ls st = Inr st'"
  shows "log_ok nt st'"
proof -
  let ?new = "numbered (\<lambda>i l. new_entry i ts lv sg tr l) (ls_next st) ls"
  obtain k where tail: "longest_tail k (ls_entries st @ ?new)"
    and st': "st' = \<lparr>ls_next = ls_next st + int (length ls), ls_dropped = ls_dropped st + int k, ls_entries = drop k (ls_entries st @ ?new)\<rparr>"
    using append_lines_spec [of st _ ls] assms(7) by fastforce
  have new: "\<And>e. e \<in> set ?new \<Longrightarrow> json_norm e = e \<and> e \<noteq> JUndef \<and> entry_sequence e < ls_next st + int (length ls)"
    by (rule numbered_all) (simp_all add: new_entry_def entry_sequence_def)
  have "entries_ok nt (ls_next st') 0 (ls_entries st @ ?new)" if "ls_next st' \<le> max_safe"
  proof (rule entries_ok_append [of _ _ _ _ "ls_next st"])
    have le: "ls_next st \<le> ls_next st'" using st' by simp
    show "entries_ok nt (ls_next st') 0 (ls_entries st)"
      using assms(1) that le by (auto simp: log_ok_def intro: entries_ok_mono)
    show "entries_ok nt (ls_next st') p ?new" if "p < ls_next st" for p
      by (rule numbered_ok [OF assms(2-6)])
        (use that \<open>ls_next st' \<le> max_safe\<close> assms(1) st' in \<open>auto simp: log_ok_def\<close>)
  qed (use assms(1) in \<open>auto simp: log_ok_def\<close>)
  then have "ls_next st' \<le> max_safe \<longrightarrow> entries_ok nt (ls_next st') 0 (ls_entries st')" using st' by (simp add: entries_ok_drop del: drop_append)
  moreover have "\<forall>e \<in> set (ls_entries st'). json_norm e = e \<and> e \<noteq> JUndef \<and> entry_sequence e < ls_next st'"
    using st' new assms(1) by (fastforce simp: log_ok_def dest: in_set_dropD)
  ultimately show ?thesis using assms(1) tail st' by (simp add: log_ok_def longest_tail_def)
qed

section \<open>The invariant of the store\<close>

text \<open>Files hold what a JSON text denotes, and each log in memory is one.\<close>

definition parsed :: "log_file \<Rightarrow> bool" where
  "parsed f = (case lf_content f of None \<Rightarrow> True | Some v \<Rightarrow> json_norm v = v)"

definition store_ok :: "(nat \<Rightarrow> string) \<Rightarrow> log_store \<Rightarrow> bool" where
  "store_ok nt s =
     ((\<forall>n f. (n, f) \<in> set (lg_files s) \<longrightarrow> parsed f) \<and> (\<forall>jid st. lg_cache s jid = Some st \<longrightarrow> log_ok nt st))"

text \<open>Dates of four-digit years: those whose text the validator accepts.\<close>

definition clock_ok :: "log_clock \<Rightarrow> bool" where
  "clock_ok c = (case toISOString (lc_now c) of Inl _ \<Rightarrow> True | Inr ts \<Rightarrow> length ts = 24)"

lemma stored_log_ok:
  assumes "\<forall>n f. (n, f) \<in> set files \<longrightarrow> parsed f" "stored_log nt files jid = Inr st"
  shows "log_ok nt st"
proof (cases "map_of files (log_file_name jid)")
  case None
  with assms show ?thesis by (simp add: stored_log_def)
next
  case (Some f)
  with assms(1) have "parsed f" by (meson map_of_SomeD)
  with Some assms(2) show ?thesis
    by (auto simp: stored_log_def read_log_def unreadable_def state_invalid_def parsed_def
        dest: validateState_ok split: if_splits option.splits sum.splits)
qed

lemma keeps_prune: "keeps (store_ok nt) (prune now)"
  unfolding prune_def by (intro keeps_rules keeps_smod) (auto simp: store_ok_def)

lemma keeps_init_logs: "keeps (store_ok nt) (init_logs c)"
  unfolding init_logs_def by (intro keeps_rules keeps_smod keeps_prune) (auto simp: store_ok_def)

lemma hoare_load: "hoare (store_ok nt) (load nt jid) (\<lambda>st s. store_ok nt s \<and> log_ok nt st) (\<lambda>_. store_ok nt)"
  unfolding hoare_def load_def
  by (auto simp: sm_simps store_ok_def dest: stored_log_ok split: option.splits sum.splits)

lemma written_log_parsed: "parsed (written_log nt t jid st)"
  by (simp add: parsed_def written_log_def Let_def)

lemma keeps_persist_log: "keeps (store_ok nt) (persist_log nt t jid st)"
  unfolding persist_log_def
proof (intro keeps_rules keeps_smod)
  fix s assume "store_ok nt s"
  moreover have "set (AList.update n f fs) \<subseteq> insert (n, f) (set fs)" for n f and fs :: "(string \<times> log_file) list"
    by (induction fs) auto
  ultimately show "store_ok nt (s\<lparr>lg_files := AList.update (log_file_name jid) (written_log nt t jid st) (lg_files s)\<rparr>)"
    using written_log_parsed by (fastforce simp: store_ok_def)
qed (simp add: store_ok_def)

lemma append_log_keeps:
  assumes "is_stage sg" "lv \<in> set LEVELS" "clock_ok c" "\<And>l. l \<in> set ls \<Longrightarrow> 1 \<le> length l \<and> length l \<le> 4 * 1024"
  shows "keeps (store_ok nt) (append_log nt c jid lv sg ls tr)"
proof -
  have smod: "keeps (store_ok nt) (smod (\<lambda>s. s\<lparr>lg_cache := (lg_cache s)(jid \<mapsto> st)\<rparr>))" if "log_ok nt st" for st
    using that by (intro keeps_smod) (auto simp: store_ok_def)
  have step: "keeps (store_ok nt) (sbind (slift (toISOString (lc_now c))) (\<lambda>ts.
      sbind (slift (append_lines (\<lambda>i l. new_entry i ts lv sg tr l) ls st)) (\<lambda>st'.
      sbind (smod (\<lambda>s. s\<lparr>lg_cache := (lg_cache s)(jid \<mapsto> st')\<rparr>)) (\<lambda>_.
      sbind (persist_log nt (lc_write c) jid st') (\<lambda>_.
      sbind (if ls_next st = 1 \<and> ls_entries st = [] then prune (lc_cleanup c) else sret ()) (\<lambda>_.
      if ls_entries st' = [] then sthrow type_error else sret (publicEntry jid (last (ls_entries st')))))))))"
    (is "keeps _ (sbind _ ?rest)") if st: "log_ok nt st" for st
  proof (cases "toISOString (lc_now c)")
    case (Inl e)
    then show ?thesis by (simp add: keeps_def sbind_apply)
  next
    case (Inr ts)
    then have ts: "is_iso ts" "length ts = 24" using assms(3) toISOString_is_iso by (auto simp: clock_ok_def)
    obtain st' where st': "append_lines (\<lambda>i l. new_entry i ts lv sg tr l) ls st = Inr st'"
      using append_lines_spec [of st _ ls] by blast
    have "log_ok nt st'" by (rule append_lines_ok [OF st assms(1,2) ts assms(4) st'])
    moreover have "sbind (slift (Inr ts)) ?rest = ?rest ts" by (rule ext) (simp add: sbind_apply)
    moreover have "sbind (slift (Inr st')) g = g st'" for g :: "log_state \<Rightarrow> (log_store, js) sm"
      by (rule ext) (simp add: sbind_apply)
    ultimately show ?thesis unfolding Inr st'
      by (auto intro!: keeps_rules smod keeps_persist_log keeps_prune simp: st')
  qed
  show ?thesis
    unfolding keeps_iff_hoare append_log_def Let_def
  proof (rule hoare_sbind [OF hoare_load])
    fix st
    show "hoare (\<lambda>s. store_ok nt s \<and> log_ok nt st) (sbind (slift (toISOString (lc_now c))) (\<lambda>ts.
      sbind (slift (append_lines (\<lambda>i l. new_entry i ts lv sg tr l) ls st)) (\<lambda>st'.
      sbind (smod (\<lambda>s. s\<lparr>lg_cache := (lg_cache s)(jid \<mapsto> st')\<rparr>)) (\<lambda>_.
      sbind (persist_log nt (lc_write c) jid st') (\<lambda>_.
      sbind (if ls_next st = 1 \<and> ls_entries st = [] then prune (lc_cleanup c) else sret ()) (\<lambda>_.
      if ls_entries st' = [] then sthrow type_error else sret (publicEntry jid (last (ls_entries st')))))))))
      (\<lambda>_. store_ok nt) (\<lambda>_. store_ok nt)"
      using step [of st] by (auto simp: keeps_iff_hoare hoare_def)
  qed
qed

lemma keeps_record_line:
  assumes "clock_ok c"
  shows "keeps (store_ok nt) (record_line nt redact c v)"
proof -
  have append: "keeps (store_ok nt) (case p of (m, t) \<Rightarrow>
      if log_lines m = [] then sret JNull else append_log nt c jid lv sg (log_lines m) t)"
    if "is_stage sg" "lv \<in> set LEVELS" "sanitizeLogMessage nt redact w = Inr p" for jid lv sg w p
  proof -
    obtain m t where p: "p = (m, t)" by force
    have "\<And>l. l \<in> set (log_lines m) \<Longrightarrow> 1 \<le> length l \<and> length l \<le> 4 * 1024"
      using log_lines_length sanitized_length that(3) p by (meson order_trans)
    then show ?thesis using that assms p by (auto intro!: keeps_rules append_log_keeps)
  qed
  have lift: "keeps (store_ok nt) (sbind (slift r) f)" if "\<And>x. r = Inr x \<Longrightarrow> keeps (store_ok nt) (f x)"
    for r and f :: "'b \<Rightarrow> (log_store, js) sm"
    using that by (cases r) (auto simp: keeps_def sbind_apply)
  show ?thesis
    unfolding record_line_def Let_def
    by (intro keeps_rules keeps_init_logs lift append) (auto simp: str_in_iff)
qed

lemma keeps_query: "keeps (store_ok nt) (query nt lc c jid v)"
proof -
  have "keeps (store_ok nt) (load nt j)" for j
    using hoare_load [of nt j] by (auto simp: keeps_iff_hoare intro: hoare_weaken)
  then show ?thesis unfolding query_def Let_def by (intro keeps_rules keeps_init_logs) auto
qed

text \<open>The calls of a store, each with its surroundings.\<close>

datatype log_call = RecordLine log_clock js | QueryLog log_clock js js

fun call_clock_ok :: "log_call \<Rightarrow> bool" where
  "call_clock_ok (RecordLine c v) = clock_ok c"
| "call_clock_ok (QueryLog c j v) = True"

fun do_log_call :: "(nat \<Rightarrow> string) \<Rightarrow> (string \<Rightarrow> string) \<Rightarrow> (string \<Rightarrow> string) \<Rightarrow> log_call \<Rightarrow> (log_store, js) sm" where
  "do_log_call nt redact lc (RecordLine c v) = record_line nt redact c v"
| "do_log_call nt redact lc (QueryLog c j v) = query nt lc c j v"

definition run_log_calls ::
  "(nat \<Rightarrow> string) \<Rightarrow> (string \<Rightarrow> string) \<Rightarrow> (string \<Rightarrow> string) \<Rightarrow> log_call list \<Rightarrow> log_store \<Rightarrow> log_store" where
  "run_log_calls nt redact lc calls s = fold (\<lambda>call s. snd (do_log_call nt redact lc call s)) calls s"

lemma run_log_calls_ok:
  "store_ok nt s \<Longrightarrow> list_all call_clock_ok calls \<Longrightarrow> store_ok nt (run_log_calls nt redact lc calls s)"
proof (induction calls arbitrary: s)
  case Nil
  then show ?case by (simp add: run_log_calls_def)
next
  case (Cons call calls)
  have "store_ok nt (snd (do_log_call nt redact lc call s))"
    using Cons.prems by (cases call) (auto intro: keepsD [OF keeps_record_line] keepsD [OF keeps_query])
  with Cons show ?case by (simp add: run_log_calls_def)
qed

lemma created_store_ok:
  "(\<And>n f. (n, f) \<in> set files \<Longrightarrow> parsed f) \<Longrightarrow> store_ok nt (createJobLogStore made safe files outcomes)"
  by (auto simp: store_ok_def createJobLogStore_def)

end
