(* ===== verification/JobLogGuarantees.thy ===== *)
theory JobLogGuarantees
  imports JobLogProofs
begin

text \<open>
  What the logs of jobs guarantee: a log is the longest tail of its lines that fits, it is read back
  after a restart up to a megabyte of JSON, following the cursors lists every matching entry once,
  and a cleanup keeps the latest logs.
\<close>

section \<open>Recording\<close>

text \<open>The log a call works on: the one in memory, or else the one on disk.\<close>

definition log_held :: "(nat \<Rightarrow> string) \<Rightarrow> log_store \<Rightarrow> string \<Rightarrow> log_state res" where
  "log_held nt s jid = (case lg_cache s jid of Some st \<Rightarrow> Inr st | None \<Rightarrow> stored_log nt (lg_files s) jid)"

definition log_kept :: "log_store \<Rightarrow> string \<Rightarrow> log_file \<Rightarrow> bool" where
  "log_kept s jid f = (map_of (lg_files s) (log_file_name jid) = Some f)"

lemma load_held:
  "load nt jid s = (case log_held nt s jid of Inl e \<Rightarrow> (Inl e, s)
     | Inr st \<Rightarrow> (Inr st, s\<lparr>lg_cache := (lg_cache s)(jid \<mapsto> st)\<rparr>))"
proof (cases "lg_cache s jid")
  case None
  then show ?thesis by (cases "stored_log nt (lg_files s) jid") (simp_all add: load_def log_held_def sm_simps)
next
  case (Some st)
  then have "(lg_cache s)(jid \<mapsto> st) = lg_cache s" by auto
  with Some show ?thesis by (simp add: load_def log_held_def sm_simps)
qed

lemma drop_json_name [simp]: "drop_json (log_file_name jid) = jid"
  by (simp add: drop_json_def log_file_name_def ends_with_def)

lemma sbind_slift_Inr: "sbind (slift (Inr x)) f = f x"
  by (rule ext) (simp add: sbind_apply)

lemma sbind_smod: "sbind (smod f) g s = g () (f s)"
  by (simp add: sbind_apply)

text \<open>A cleanup forgets a log exactly when it removes its file.\<close>

lemma prune_kept:
  assumes "prune now s = (Inr u, s')" "log_kept s jid f" "lg_cache s' jid = Some st"
  shows "log_kept s' jid f \<and> lg_cache s jid = Some st"
proof -
  let ?x = "expired_logs (now - RETENTION_MS) (prune_candidates (lg_files s))"
  have s': "s' = s\<lparr>lg_files := filter (\<lambda>(n, f). n \<notin> set ?x) (lg_files s),
      lg_cache := (\<lambda>j. if j \<in> set (map drop_json ?x) then None else lg_cache s j)\<rparr>"
    using assms(1) by (simp add: prune_def sm_simps)
  have keep: "jid \<notin> set (map drop_json ?x)" using assms(3) s' by (auto split: if_splits)
  then have "log_file_name jid \<notin> set ?x" by (metis drop_json_name image_eqI list.set_map)
  then have "map_of (filter (\<lambda>(n, f). n \<notin> set ?x) fs) (log_file_name jid) = map_of fs (log_file_name jid)"
    for fs :: "(string \<times> log_file) list" by (induction fs) auto
  with assms(2,3) s' keep show ?thesis by (auto simp: log_kept_def)
qed

lemma persist_log_returns:
  assumes "persist_log nt t jid st s = (Inr u, s')"
  shows "log_kept s' jid (written_log nt t jid st) \<and> lg_cache s' = lg_cache s \<and> lg_initialized s' = lg_initialized s"
  using assms by (auto simp: persist_log_def sm_simps log_kept_def update_Some_unfold split: if_splits)

lemma append_log_returns:
  assumes "append_log nt c jid lv sg ls tr s = (Inr r, s')" "lg_cache s' jid = Some st'"
  shows "\<exists>st ts k. log_held nt s jid = Inr st \<and> toISOString (lc_now c) = Inr ts \<and>
    (let all = ls_entries st @ numbered (\<lambda>i l. new_entry i ts lv sg tr l) (ls_next st) ls in
     longest_tail k all \<and>
     st' = \<lparr>ls_next = ls_next st + int (length ls), ls_dropped = ls_dropped st + int k, ls_entries = drop k all\<rparr> \<and>
     r = publicEntry jid (last all) \<and> log_kept s' jid (written_log nt (lc_write c) jid st'))"
proof -
  obtain st s1 where load: "load nt jid s = (Inr st, s1)"
    and rest1: "sbind (slift (toISOString (lc_now c))) (\<lambda>ts.
      sbind (slift (append_lines (\<lambda>i l. new_entry i ts lv sg tr l) ls st)) (\<lambda>st'.
      sbind (smod (\<lambda>s. s\<lparr>lg_cache := (lg_cache s)(jid \<mapsto> st')\<rparr>)) (\<lambda>_.
      sbind (persist_log nt (lc_write c) jid st') (\<lambda>_.
      sbind (if ls_next st = 1 \<and> ls_entries st = [] then prune (lc_cleanup c) else sret ()) (\<lambda>_.
      if ls_entries st' = [] then sthrow type_error else sret (publicEntry jid (last (ls_entries st')))))))) s1 = (Inr r, s')"
    using assms(1) unfolding append_log_def Let_def by (rule sbind_returnsE)
  have held: "log_held nt s jid = Inr st" using load by (simp add: load_held split: sum.splits)
  obtain ts where ts: "toISOString (lc_now c) = Inr ts" using rest1 by (auto simp: sbind_apply split: sum.splits)
  let ?all = "ls_entries st @ numbered (\<lambda>i l. new_entry i ts lv sg tr l) (ls_next st) ls"
  obtain k where tail: "longest_tail k ?all" and app: "append_lines (\<lambda>i l. new_entry i ts lv sg tr l) ls st =
      Inr \<lparr>ls_next = ls_next st + int (length ls), ls_dropped = ls_dropped st + int k, ls_entries = drop k ?all\<rparr>"
    using append_lines_spec [of st _ ls] by blast
  obtain st2 where st2: "st2 = \<lparr>ls_next = ls_next st + int (length ls), ls_dropped = ls_dropped st + int k, ls_entries = drop k ?all\<rparr>"
    by simp
  let ?s2 = "s1\<lparr>lg_cache := (lg_cache s1)(jid \<mapsto> st2)\<rparr>"
  have "sbind (persist_log nt (lc_write c) jid st2) (\<lambda>_.
      sbind (if ls_next st = 1 \<and> ls_entries st = [] then prune (lc_cleanup c) else sret ()) (\<lambda>_.
      if ls_entries st2 = [] then sthrow type_error else sret (publicEntry jid (last (ls_entries st2))))) ?s2 = (Inr r, s')"
    using rest1 by (simp only: sbind_slift_Inr sbind_smod ts app st2 [symmetric])
  then obtain u s3 where persist: "persist_log nt (lc_write c) jid st2 ?s2 = (Inr u, s3)"
    and rest2: "sbind (if ls_next st = 1 \<and> ls_entries st = [] then prune (lc_cleanup c) else sret ()) (\<lambda>_.
      if ls_entries st2 = [] then sthrow type_error else sret (publicEntry jid (last (ls_entries st2)))) s3 = (Inr r, s')"
    by (rule sbind_returnsE)
  obtain w s4 where clean: "(if ls_next st = 1 \<and> ls_entries st = [] then prune (lc_cleanup c) else sret ()) s3 = (Inr w, s4)"
    and rest3: "(if ls_entries st2 = [] then sthrow type_error else sret (publicEntry jid (last (ls_entries st2)))) s4 = (Inr r, s')"
    using rest2 by (rule sbind_returnsE)
  have some: "ls_entries st2 \<noteq> []" "s4 = s'" "r = publicEntry jid (last (ls_entries st2))" using rest3 by (auto split: if_splits)
  have "log_kept s3 jid (written_log nt (lc_write c) jid st2)" "lg_cache s3 jid = Some st2"
    using persist_log_returns [OF persist] by auto
  then have "log_kept s' jid (written_log nt (lc_write c) jid st2) \<and> st' = st2"
    using clean some(2) assms(2) prune_kept by (fastforce split: if_splits)
  moreover have "last (ls_entries st2) = last ?all" using some(1) st2 by (simp del: drop_append add: last_drop)
  ultimately show ?thesis using held ts tail some(3) st2 by (auto simp: Let_def simp del: drop_append)
qed

text \<open>A record that answers an entry has passed the checks and appended the lines of the message.\<close>

definition level_of :: "js \<Rightarrow> string" where
  "level_of v = str_of (if jget v ''level'' = JUndef then JStr ''info'' else jget v ''level'')"

lemma record_line_returns:
  assumes "record_line nt redact c v s = (Inr r, s')" "r \<noteq> JNull"
  obtains jid sg m tr where "requireJobId (jget v ''jobId'') = Inr jid" "jget v ''stage'' = JStr sg" "is_stage sg"
    "level_of v \<in> set LEVELS" "sanitizeLogMessage nt redact (jget v ''message'') = Inr (m, tr)"
    "append_log nt c jid (level_of v) sg (log_lines m) tr (snd (init_logs c s)) = (Inr r, s')"
proof -
  obtain s1 where init: "init_logs c s = (Inr (), s1)"
    using assms(1) unfolding record_line_def Let_def by (auto simp: sbind_apply split: if_splits prod.splits sum.splits)
  show thesis
    using assms init that
    unfolding record_line_def Let_def level_of_def
    by (auto simp: sbind_apply str_in_iff is_string_iff split: if_splits prod.splits sum.splits)
qed

text \<open>C37 After a record that answers an entry the log holds, in memory and on disk, the longest tail of its
  entries and the new ones that has at most 1000 entries and 512 KiB of messages: the new entries are
  the lines of the redacted message, numbered on, and each entry that went is counted.\<close>

theorem log_is_its_longest_tail:
  assumes "record_line nt redact c v s = (Inr r, s')" "r \<noteq> JNull"
    and "requireJobId (jget v ''jobId'') = Inr jid" "lg_cache s' jid = Some st'"
  shows "\<exists>st ts m tr k. log_held nt (snd (init_logs c s)) jid = Inr st \<and> toISOString (lc_now c) = Inr ts \<and>
    sanitizeLogMessage nt redact (jget v ''message'') = Inr (m, tr) \<and>
    (let all = ls_entries st @ numbered (\<lambda>i l. new_entry i ts (level_of v) (str_of (jget v ''stage'')) tr l) (ls_next st) (log_lines m) in
     longest_tail k all \<and>
     st' = \<lparr>ls_next = ls_next st + int (length (log_lines m)), ls_dropped = ls_dropped st + int k, ls_entries = drop k all\<rparr> \<and>
     r = publicEntry jid (last all) \<and> log_kept s' jid (written_log nt (lc_write c) jid st'))"
proof (rule record_line_returns [OF assms(1,2)])
  fix jid' sg m tr
  assume "requireJobId (jget v ''jobId'') = Inr jid'" "jget v ''stage'' = JStr sg"
    "sanitizeLogMessage nt redact (jget v ''message'') = Inr (m, tr)"
    "append_log nt c jid' (level_of v) sg (log_lines m) tr (snd (init_logs c s)) = (Inr r, s')"
  with append_log_returns [of nt c jid _ _ _ _ "snd (init_logs c s)" r s' st'] assms(3,4) show ?thesis by auto
qed

section \<open>Restarts\<close>

lemma read_written_log:
  assumes "log_ok nt st" "ls_next st \<le> max_safe" "ls_dropped st \<le> max_safe"
  shows "read_log nt (written_log nt t jid st) jid =
    (if json_bytes nt (state_js jid st) \<le> MAX_FILE_BYTES then Inr st else unreadable)"
  using assms by (simp add: read_log_def written_log_def Let_def state_js_norm validateState_state_js not_less)

text \<open>C38 When a record has answered an entry, a store that starts on the files it left reads the same
  log back exactly when its JSON text has at most 1 MiB; otherwise it takes the log for damaged. This
  holds after any calls, from any directory, as long as the numbers of the log are safe integers.\<close>

theorem returned_logs_are_read_back:
  assumes "list_all (\<lambda>(n, f). parsed f) files" "list_all call_clock_ok calls" "clock_ok c"
    and "s = run_log_calls nt redact lc calls (createJobLogStore made safe files outcomes)"
    and "record_line nt redact c v s = (Inr r, s')" "r \<noteq> JNull"
    and "requireJobId (jget v ''jobId'') = Inr jid" "lg_cache s' jid = Some st"
    and "ls_next st \<le> max_safe" "ls_dropped st \<le> max_safe"
  shows "fst (load nt jid (createJobLogStore made' safe' (lg_files s') outcomes')) =
    (if json_bytes nt (state_js jid st) \<le> MAX_FILE_BYTES then Inr st
     else state_invalid ''Stored job log could not be read'')"
proof -
  have "store_ok nt (createJobLogStore made safe files outcomes)"
    using assms(1) by (intro created_store_ok) (auto simp: list_all_iff)
  then have "store_ok nt s" using assms(2,4) run_log_calls_ok by blast
  then have "store_ok nt s'" using keeps_result [OF keeps_record_line [OF assms(3)] _ assms(5)] by blast
  then have st: "log_ok nt st" using assms(8) by (simp add: store_ok_def)
  have "log_kept s' jid (written_log nt (lc_write c) jid st)"
  proof (rule record_line_returns [OF assms(5,6)])
    fix jid' sg m tr
    assume "requireJobId (jget v ''jobId'') = Inr jid'"
      "append_log nt c jid' (level_of v) sg (log_lines m) tr (snd (init_logs c s)) = (Inr r, s')"
    with append_log_returns [of nt c jid _ _ _ _ "snd (init_logs c s)" r s' st] assms(7,8) show ?thesis by (auto simp: Let_def)
  qed
  then show ?thesis
    using read_written_log [OF st assms(9,10)]
    by (auto simp: load_held log_held_def createJobLogStore_def stored_log_def log_kept_def unreadable_def state_invalid_def)
qed

section \<open>Cleanup\<close>

lemma expired_iff:
  "n \<in> set (expired_logs cutoff cs) \<longleftrightarrow>
     (\<exists>i < length cs. fst (js_sort latest_first cs ! i) = n \<and> (MAX_FILES \<le> i \<or> snd (js_sort latest_first cs ! i) < cutoff))"
  by (force simp: expired_logs_def in_set_enumerate_eq)

lemma latest_sorted:
  assumes "i \<le> j" "j < length cs"
  shows "snd (js_sort latest_first cs ! j) \<le> snd (js_sort latest_first cs ! i)"
proof (cases "i = j")
  case False
  have "sorted_wrt (\<lambda>x y. latest_first x y \<le> 0) (js_sort latest_first cs)"
    by (rule js_sort_sorted) (auto simp: latest_first_def)
  with False assms have "latest_first (js_sort latest_first cs ! i) (js_sort latest_first cs ! j) \<le> 0"
    by (simp add: sorted_wrt_iff_nth_less)
  then show ?thesis by (simp add: latest_first_def)
qed simp

lemma distinct_sorted_names:
  assumes "distinct (map fst cs)"
  shows "distinct (map fst (js_sort latest_first cs))"
proof -
  have "card (set (map fst (js_sort latest_first cs))) = length (map fst (js_sort latest_first cs))"
    using distinct_card [OF assms] by simp
  then show ?thesis by (rule card_distinct)
qed

lemma prune_candidates_iff:
  "(n, t) \<in> set (prune_candidates fs) \<longleftrightarrow> (\<exists>f. (n, f) \<in> set fs \<and> is_log_name n \<and> lf_regular f \<and> t = lf_mtime f)"
  by (force simp: prune_candidates_def)

lemma prune_candidates_filter:
  "prune_candidates (filter (\<lambda>(n, f). P n) fs) = filter (\<lambda>(n, t). P n) (prune_candidates fs)"
  by (induction fs) (auto simp: prune_candidates_def)

lemma distinct_candidates: "distinct (map fst fs) \<Longrightarrow> distinct (map fst (prune_candidates fs))"
proof (induction fs)
  case (Cons p fs)
  have "fst ` set (prune_candidates fs) \<subseteq> fst ` set fs" by (force simp: prune_candidates_def)
  moreover have "prune_candidates (p # fs) =
      (if is_log_name (fst p) \<and> lf_regular (snd p) then (fst p, lf_mtime (snd p)) # prune_candidates fs else prune_candidates fs)"
    by (simp add: prune_candidates_def split_beta)
  ultimately show ?case using Cons by (auto simp: image_iff)
qed (simp add: prune_candidates_def)

lemma kept_candidates_bound:
  assumes "distinct (map fst cs)"
  shows "length (filter (\<lambda>(n, t). n \<notin> set (expired_logs cutoff cs)) cs) \<le> MAX_FILES"
proof -
  let ?kept = "filter (\<lambda>(n, t). n \<notin> set (expired_logs cutoff cs)) cs"
  let ?js = "js_sort latest_first cs"
  have "set ?kept \<subseteq> (\<lambda>i. ?js ! i) ` {..<MAX_FILES}"
  proof
    fix p assume p: "p \<in> set ?kept"
    then have "p \<in> set ?js" by auto
    then obtain i where i: "i < length cs" "?js ! i = p" by (metis in_set_conv_nth js_sort_length)
    with p have "i < MAX_FILES" by (force simp: expired_iff)
    with i show "p \<in> (\<lambda>i. ?js ! i) ` {..<MAX_FILES}" by auto
  qed
  then have "card (set ?kept) \<le> card ((\<lambda>i. ?js ! i) ` {..<MAX_FILES})" by (intro card_mono) auto
  also have "\<dots> \<le> MAX_FILES" using card_image_le [of "{..<MAX_FILES}"] by auto
  finally have "card (set ?kept) \<le> MAX_FILES" .
  moreover have "distinct ?kept" using assms by (simp add: distinct_map)
  ultimately show ?thesis using distinct_card [of ?kept] by (simp only:)
qed

text \<open>A log that is removed for its place in the order has enough logs before it.\<close>

lemma late_logs_have_newer_ones:
  assumes "distinct (map fst cs)" "MAX_FILES \<le> i" "i < length cs" "js_sort latest_first cs ! i = (n, t)"
  shows "MAX_FILES \<le> length (filter (\<lambda>(n', t'). n' \<noteq> n \<and> t \<le> t') cs)"
proof -
  let ?js = "js_sort latest_first cs"
  let ?P = "\<lambda>(n', t'). n' \<noteq> n \<and> t \<le> t'"
  note names = distinct_sorted_names [OF assms(1)]
  have newer: "?P (?js ! j)" if j: "j < MAX_FILES" for j
  proof -
    have "fst (?js ! j) \<noteq> n"
      using names assms(2-4) j nth_eq_iff_index_eq [OF names, of j i] by auto
    moreover have "t \<le> snd (?js ! j)" using latest_sorted [of j i cs] assms(2-4) j by simp
    ultimately show ?thesis by (simp add: case_prod_beta)
  qed
  have "set (take MAX_FILES ?js) \<subseteq> set (filter ?P cs)"
  proof (intro subsetI)
    fix p assume "p \<in> set (take MAX_FILES ?js)"
    then obtain j where j: "j < MAX_FILES" "j < length ?js" "p = ?js ! j" by (auto simp: in_set_conv_nth)
    have "p \<in> set ?js" using j(2,3) nth_mem by blast
    with newer [OF j(1)] j(3) show "p \<in> set (filter ?P cs)" by simp
  qed
  then have "card (set (take MAX_FILES ?js)) \<le> card (set (filter ?P cs))" by (intro card_mono) auto
  moreover have "distinct (take MAX_FILES ?js)" using names by (simp add: distinct_map)
  moreover have "distinct (filter ?P cs)" using assms(1) by (simp add: distinct_map)
  ultimately have "length (take MAX_FILES ?js) \<le> length (filter ?P cs)"
    using distinct_card [of "take MAX_FILES ?js"] distinct_card [of "filter ?P cs"] by (simp only:)
  then show ?thesis using assms(2,3) by simp
qed

lemma expired_reason:
  assumes "distinct (map fst fs)" "(n, f) \<in> set fs" "n \<in> set (expired_logs cutoff (prune_candidates fs))"
  shows "is_log_name n \<and> lf_regular f \<and> (lf_mtime f < cutoff \<or>
    MAX_FILES \<le> length (filter (\<lambda>(n', t). n' \<noteq> n \<and> lf_mtime f \<le> t) (prune_candidates fs)))"
proof -
  let ?js = "js_sort latest_first (prune_candidates fs)"
  obtain i t where i: "i < length (prune_candidates fs)" "?js ! i = (n, t)" "MAX_FILES \<le> i \<or> t < cutoff"
    using assms(3) by (metis expired_iff prod.collapse)
  have "(n, t) \<in> set ?js" using i(1,2) by (metis js_sort_length nth_mem)
  then have "(n, t) \<in> set (prune_candidates fs)" by simp
  then obtain f' where f': "(n, f') \<in> set fs" "is_log_name n" "lf_regular f'" "t = lf_mtime f'"
    by (auto simp: prune_candidates_iff)
  have "f' = f" using assms(1,2) f'(1) by (metis map_of_is_SomeI option.inject)
  with f' i late_logs_have_newer_ones [OF distinct_candidates [OF assms(1)] _ i(1,2)] show ?thesis by auto
qed

text \<open>A cleanup removes only log files and leaves at most 500 of them, none older than 30 days; every log
  it removes is older than that or has 500 logs that are at least as new.\<close>

theorem cleanup_keeps_the_latest_logs:
  assumes "distinct (map fst (lg_files s))" "prune now s = (Inr u, s')"
  shows "length (prune_candidates (lg_files s')) \<le> MAX_FILES \<and>
    list_all (\<lambda>(n, t). now - RETENTION_MS \<le> t) (prune_candidates (lg_files s')) \<and>
    (\<forall>(n, f) \<in> set (lg_files s). (n, f) \<in> set (lg_files s') \<or>
       is_log_name n \<and> lf_regular f \<and>
       (lf_mtime f < now - RETENTION_MS \<or>
        MAX_FILES \<le> length (filter (\<lambda>(n', t). n' \<noteq> n \<and> lf_mtime f \<le> t) (prune_candidates (lg_files s)))))"
proof -
  let ?cs = "prune_candidates (lg_files s)"
  let ?x = "expired_logs (now - RETENTION_MS) ?cs"
  have files: "lg_files s' = filter (\<lambda>(n, f). n \<notin> set ?x) (lg_files s)"
    using assms(2) by (auto simp: prune_def sm_simps)
  then have cs': "prune_candidates (lg_files s') = filter (\<lambda>(n, t). n \<notin> set ?x) ?cs"
    by (simp only: prune_candidates_filter)
  have "now - RETENTION_MS \<le> t" if "(n, t) \<in> set ?cs" "n \<notin> set ?x" for n t
  proof -
    from that(1) obtain i where "i < length ?cs" "js_sort latest_first ?cs ! i = (n, t)"
      by (metis in_set_conv_nth js_sort_length js_sort_set)
    with that(2) show ?thesis by (force simp: expired_iff)
  qed
  then have "list_all (\<lambda>(n, t). now - RETENTION_MS \<le> t) (prune_candidates (lg_files s'))"
    by (auto simp: cs' list_all_iff)
  moreover have "length (prune_candidates (lg_files s')) \<le> MAX_FILES"
    unfolding cs' by (rule kept_candidates_bound [OF distinct_candidates [OF assms(1)]])
  moreover have "\<forall>(n, f) \<in> set (lg_files s). (n, f) \<in> set (lg_files s') \<or>
       is_log_name n \<and> lf_regular f \<and> (lf_mtime f < now - RETENTION_MS \<or>
        MAX_FILES \<le> length (filter (\<lambda>(n', t). n' \<noteq> n \<and> lf_mtime f \<le> t) ?cs))"
  proof (rule ballI)
    fix p assume p: "p \<in> set (lg_files s)"
    obtain n f where nf: "p = (n, f)" by force
    show "case p of (n, f) \<Rightarrow> (n, f) \<in> set (lg_files s') \<or>
       is_log_name n \<and> lf_regular f \<and> (lf_mtime f < now - RETENTION_MS \<or>
        MAX_FILES \<le> length (filter (\<lambda>(n', t). n' \<noteq> n \<and> lf_mtime f \<le> t) ?cs))"
    proof (cases "n \<in> set ?x")
      case True
      show ?thesis unfolding nf prod.case by (rule disjI2 [OF expired_reason [OF assms(1) p [unfolded nf] True]])
    next
      case False
      then show ?thesis using p nf by (simp add: files)
    qed
  qed
  ultimately show ?thesis by blast
qed

section \<open>Logs that are too long to be read\<close>

text \<open>A job that writes one message of one line again and again, from a new store on.\<close>

definition message_call :: "string \<Rightarrow> string \<Rightarrow> js" where
  "message_call jid msg = JObj [(''jobId'', JStr jid), (''stage'', JStr ''build''), (''message'', JStr msg)]"

definition message_entry :: "string \<Rightarrow> string \<Rightarrow> int \<Rightarrow> js" where
  "message_entry msg ts q = new_entry q ts ''info'' ''build'' False msg"

definition message_log :: "string \<Rightarrow> string \<Rightarrow> nat \<Rightarrow> log_state" where
  "message_log msg ts n = \<lparr>ls_next = 1 + int n, ls_dropped = 0, ls_entries = map (\<lambda>i. message_entry msg ts (1 + int i)) [0..<n]\<rparr>"

definition message_kept :: "(nat \<Rightarrow> string) \<Rightarrow> (string \<Rightarrow> string) \<Rightarrow> string \<Rightarrow> bool" where
  "message_kept nt redact msg = (sanitizeLogMessage nt redact (JStr msg) = Inr (msg, False) \<and> log_lines msg = [msg])"

lemma message_log_snoc:
  "ls_entries (message_log msg ts (Suc n)) = ls_entries (message_log msg ts n) @ [message_entry msg ts (1 + int n)]"
  by (simp add: message_log_def)

lemma append_message:
  assumes "fits (ls_entries (message_log msg ts (Suc n)))"
  shows "append_lines (\<lambda>i l. new_entry i ts ''info'' ''build'' False l) [msg] (message_log msg ts n) = Inr (message_log msg ts (Suc n))"
proof -
  let ?all = "ls_entries (message_log msg ts n) @ numbered (\<lambda>i l. new_entry i ts ''info'' ''build'' False l) (ls_next (message_log msg ts n)) [msg]"
  have all: "?all = ls_entries (message_log msg ts (Suc n))"
    unfolding message_log_snoc by (simp add: message_log_def message_entry_def)
  obtain k where "longest_tail k ?all"
    and app: "append_lines (\<lambda>i l. new_entry i ts ''info'' ''build'' False l) [msg] (message_log msg ts n) =
      Inr \<lparr>ls_next = ls_next (message_log msg ts n) + int (length [msg]), ls_dropped = ls_dropped (message_log msg ts n) + int k,
        ls_entries = drop k ?all\<rparr>" using append_lines_spec by blast
  then have "k = 0"
    using assms unfolding all longest_tail_def list_all_iff
    by (metis atLeastLessThan_iff drop0 gr0I le0 set_upt)
  with app show ?thesis unfolding all by (simp add: message_log_def)
qed

text \<open>One call adds one message; the file it leaves is new enough to stay.\<close>

lemma prune_one:
  assumes "now - RETENTION_MS \<le> lf_mtime f" "lg_files s = [(n, f)]"
  shows "prune now s = (Inr (), s)"
proof -
  have "prune_candidates [(n, f)] \<in> {[], [(n, lf_mtime f)]}" by (simp add: prune_candidates_def)
  then have none: "expired_logs (now - RETENTION_MS) (prune_candidates [(n, f)]) = []"
    using assms(1) by (auto simp: expired_logs_def js_sort_def MAX_FILES_def)
  have "s\<lparr>lg_files := lg_files s, lg_cache := lg_cache s\<rparr> = s" by simp
  then show ?thesis using none assms(2) by (simp add: prune_def sm_simps)
qed

definition message_file :: "(nat \<Rightarrow> string) \<Rightarrow> log_clock \<Rightarrow> string \<Rightarrow> string \<Rightarrow> string \<Rightarrow> nat \<Rightarrow> string \<times> log_file" where
  "message_file nt c jid msg ts n = (log_file_name jid, written_log nt (lc_write c) jid (message_log msg ts n))"

text \<open>The store after \<open>n\<close> calls.\<close>

definition message_store :: "(nat \<Rightarrow> string) \<Rightarrow> log_clock \<Rightarrow> string \<Rightarrow> string \<Rightarrow> string \<Rightarrow> nat \<Rightarrow> log_store \<Rightarrow> bool" where
  "message_store nt c jid msg ts n s =
     (if n = 0 then s = createJobLogStore True True [] []
      else lg_initialized s \<and> lg_writes s = [] \<and> lg_cache s jid = Some (message_log msg ts n) \<and>
        lg_files s = [message_file nt c jid msg ts n])"

lemma written_log_mtime [simp]: "lf_mtime (written_log nt t jid st) = t"
  by (simp add: written_log_def Let_def)

lemma append_message_log:
  assumes "lc_cleanup c - RETENTION_MS \<le> lc_write c" "toISOString (lc_now c) = Inr ts"
    and "fits (ls_entries (message_log msg ts (Suc n)))" "log_held nt s jid = Inr (message_log msg ts n)"
    and "lg_initialized s" "lg_writes s = []" "lg_files s = [] \<or> (\<exists>f. lg_files s = [(log_file_name jid, f)])"
  shows "\<exists>s'. append_log nt c jid ''info'' ''build'' [msg] False s =
      (Inr (publicEntry jid (message_entry msg ts (1 + int n))), s') \<and> message_store nt c jid msg ts (Suc n) s'"
proof -
  let ?s1 = "s\<lparr>lg_cache := (lg_cache s)(jid \<mapsto> message_log msg ts (Suc n))\<rparr>"
  let ?f = "message_file nt c jid msg ts (Suc n)"
  let ?s2 = "s\<lparr>lg_cache := (lg_cache s)(jid \<mapsto> message_log msg ts (Suc n)), lg_writes := [], lg_files := [?f]\<rparr>"
  have persist: "persist_log nt (lc_write c) jid (message_log msg ts (Suc n)) ?s1 = (Inr (), ?s2)"
    using assms(6,7) by (auto simp: persist_log_def sm_simps message_file_def)
  have prune: "prune (lc_cleanup c) ?s2 = (Inr (), ?s2)"
    by (rule prune_one [of _ "snd ?f" _ "fst ?f"]) (use assms(1) in \<open>simp_all add: message_file_def\<close>)
  have "ls_entries (message_log msg ts (Suc n)) \<noteq> []"
    "last (ls_entries (message_log msg ts (Suc n))) = message_entry msg ts (1 + int n)"
    by (simp_all add: message_log_snoc)
  then have "append_log nt c jid ''info'' ''build'' [msg] False s =
      (Inr (publicEntry jid (message_entry msg ts (1 + int n))), ?s2)"
    using prune
    by (simp add: append_log_def Let_def sbind_apply load_held assms(2,4) append_message [OF assms(3)] persist)
  moreover have "message_store nt c jid msg ts (Suc n) ?s2" using assms(5) by (simp add: message_store_def)
  ultimately show ?thesis by blast
qed

lemma record_message:
  assumes "message_kept nt redact msg" "requireJobId (JStr jid) = Inr jid"
  shows "record_line nt redact c (message_call jid msg) s =
    sbind (init_logs c) (\<lambda>_. append_log nt c jid ''info'' ''build'' [msg] False) s"
proof -
  have "is_stage ''build''" by code_simp
  then show ?thesis
    using assms
    by (simp add: record_line_def message_call_def message_kept_def Let_def str_in_def LEVELS_def sbind_apply split: prod.splits sum.splits)
qed

lemma init_empty: "init_logs c (createJobLogStore True True [] []) = (Inr (), (createJobLogStore True True [] [])\<lparr>lg_initialized := True\<rparr>)"
  by (simp add: init_logs_def createJobLogStore_def sm_simps prune_def prune_candidates_def expired_logs_def js_sort_def)

lemma message_step:
  assumes "message_kept nt redact msg" "requireJobId (JStr jid) = Inr jid"
    and "lc_cleanup c - RETENTION_MS \<le> lc_write c" "toISOString (lc_now c) = Inr ts"
    and "fits (ls_entries (message_log msg ts (Suc n)))" "message_store nt c jid msg ts n s"
  shows "\<exists>s'. record_line nt redact c (message_call jid msg) s =
      (Inr (publicEntry jid (message_entry msg ts (1 + int n))), s') \<and> message_store nt c jid msg ts (Suc n) s'"
proof (cases n)
  case 0
  let ?s = "(createJobLogStore True True [] [])\<lparr>lg_initialized := True\<rparr>"
  have "message_log msg ts 0 = empty_log" by (simp add: message_log_def empty_log_def)
  then have "log_held nt ?s jid = Inr (message_log msg ts n)" using 0 by (simp add: log_held_def createJobLogStore_def stored_log_def)
  then have "\<exists>s'. append_log nt c jid ''info'' ''build'' [msg] False ?s =
      (Inr (publicEntry jid (message_entry msg ts (1 + int n))), s') \<and> message_store nt c jid msg ts (Suc n) s'"
    by (rule append_message_log [OF assms(3-5)]) (simp_all add: createJobLogStore_def)
  moreover have "s = createJobLogStore True True [] []" using assms(6) 0 by (simp add: message_store_def)
  ultimately show ?thesis by (simp add: record_message [OF assms(1,2)] sbind_apply init_empty)
next
  case (Suc m)
  have "init_logs c s = (Inr (), s)" using assms(6) Suc by (simp add: init_logs_def sm_simps message_store_def)
  moreover have "\<exists>s'. append_log nt c jid ''info'' ''build'' [msg] False s =
      (Inr (publicEntry jid (message_entry msg ts (1 + int n))), s') \<and> message_store nt c jid msg ts (Suc n) s'"
    by (rule append_message_log [OF assms(3-5)]) (use assms(6) Suc in \<open>simp_all add: message_store_def log_held_def message_file_def\<close>)
  ultimately show ?thesis by (simp add: record_message [OF assms(1,2)] sbind_apply)
qed

lemma messages_recorded:
  assumes "message_kept nt redact msg" "requireJobId (JStr jid) = Inr jid"
    and "lc_cleanup c - RETENTION_MS \<le> lc_write c" "toISOString (lc_now c) = Inr ts"
    and "\<And>k. k \<le> n \<Longrightarrow> fits (ls_entries (message_log msg ts k))"
  shows "message_store nt c jid msg ts n
    (run_log_calls nt redact lc (replicate n (RecordLine c (message_call jid msg))) (createJobLogStore True True [] []))"
  using assms(5)
proof (induction n)
  case 0
  then show ?case by (simp add: run_log_calls_def message_store_def)
next
  case (Suc n)
  let ?s = "run_log_calls nt redact lc (replicate n (RecordLine c (message_call jid msg))) (createJobLogStore True True [] [])"
  have s: "message_store nt c jid msg ts n ?s" using Suc by simp
  have run: "run_log_calls nt redact lc (replicate (Suc n) (RecordLine c (message_call jid msg))) (createJobLogStore True True [] []) =
      snd (record_line nt redact c (message_call jid msg) ?s)"
    unfolding replicate_Suc replicate_append_same [symmetric] run_log_calls_def by simp
  from message_step [OF assms(1-4) _ s] Suc.prems [of "Suc n"] show ?case unfolding run by auto
qed

text \<open>A message of 4096 quotation marks: its JSON text is twice as long.\<close>

definition quotes :: string where
  "quotes = replicate (4 * 1024) (char_of (34 :: nat))"

lemma quotes_facts: "quotes \<noteq> []" "length quotes = 4096" "utf8_bytes quotes = 4096" "json_string_bytes quotes = 8194"
proof -
  have "code (char_of (34 :: nat)) = 34" by (simp add: code_def)
  then show "utf8_bytes quotes = 4096" by (simp add: utf8_bytes_def quotes_def sum_list_replicate)
  show "json_string_bytes quotes = 8194"
    by (simp add: json_string_bytes_def quotes_def char_bytes_def one_of_def sum_list_replicate)
qed (simp_all add: quotes_def)

lemma quotes_kept:
  assumes "redact quotes = quotes"
  shows "message_kept nt redact quotes"
proof -
  have other: "char_of (34 :: nat) \<noteq> carriage_return" "char_of (34 :: nat) \<noteq> line_feed"
    by (simp_all add: carriage_return_def line_feed_def)
  have "unix_lines (replicate n (char_of (34 :: nat))) = replicate n (char_of (34 :: nat))" for n
    by (induction n) (simp_all add: other del: char_of_nat)
  then have "unix_lines quotes = quotes" by (simp add: quotes_def)
  moreover have "split_on line_feed quotes = [quotes]"
    by (rule split_on_one) (use other(2) in \<open>auto simp: quotes_def\<close>)
  ultimately have "log_lines quotes = [quotes]" using quotes_facts(1) by (simp add: log_lines_def)
  then show ?thesis using assms quotes_facts(2) by (simp add: message_kept_def sanitizeLogMessage_def nullish_def)
qed

lemma quotes_log_fits: "n \<le> 128 \<Longrightarrow> fits (ls_entries (message_log quotes ts n))"
proof -
  assume "n \<le> 128"
  moreover have "entries_bytes (ls_entries (message_log quotes ts n)) = 4096 * n"
    by (induction n) (simp_all add: message_log_def entries_bytes_def entry_bytes_def message_entry_def quotes_facts)
  ultimately show ?thesis by (simp add: fits_def MAX_ENTRIES_def MAX_MESSAGE_BYTES_def message_log_def)
qed

lemma json_bytes_field: "(k, v) \<in> set m \<Longrightarrow> json_bytes nt v \<le> json_bytes nt (JObj m)"
proof -
  assume "(k, v) \<in> set m"
  then have "json_string_bytes k + 1 + json_bytes nt v \<le> sum_list (map (\<lambda>(k, v). json_string_bytes k + 1 + json_bytes nt v) m)"
    by (intro member_le_sum_list) (force, simp)
  then show ?thesis by simp
qed

lemma quotes_log_json: "8194 * n \<le> json_bytes nt (state_js jid (message_log quotes ts n))"
proof -
  have entry: "8194 \<le> json_bytes nt (message_entry quotes ts q)" for q
    using json_bytes_field [of "''message''" "JStr quotes" "obj_of (message_entry quotes ts q)" nt]
    by (simp add: new_entry_def message_entry_def quotes_facts)
  have "8194 * n \<le> sum_list (map (json_bytes nt) (ls_entries (message_log quotes ts n)))"
  proof (induction n)
    case (Suc n)
    with entry [of "1 + int n"] show ?case unfolding message_log_snoc by simp
  qed simp
  also have "\<dots> \<le> json_bytes nt (JArr (ls_entries (message_log quotes ts n)))" by simp
  also have "\<dots> \<le> json_bytes nt (state_js jid (message_log quotes ts n))"
    unfolding state_js_def by (rule json_bytes_field [of "''entries''"]) simp
  finally show ?thesis .
qed

lemma message_log_norm: "json_norm (state_js jid (message_log msg ts n)) = state_js jid (message_log msg ts n)"
proof -
  have "json_norm (JArr (ls_entries (message_log msg ts n))) = JArr (ls_entries (message_log msg ts n))"
    unfolding json_norm_arr_iff by (auto simp: message_log_def message_entry_def)
  then show ?thesis by (simp add: state_js_def)
qed

lemma restart_unreadable:
  assumes "message_store nt c jid quotes ts 128 s'" "lc_cleanup c' - RETENTION_MS \<le> lc_write c"
  defines "s \<equiv> createJobLogStore True True (lg_files s') []"
  shows "init_logs c' s = (Inr (), s\<lparr>lg_initialized := True\<rparr>)"
    and "load nt jid (s\<lparr>lg_initialized := True\<rparr>) = (unreadable, s\<lparr>lg_initialized := True\<rparr>)"
proof -
  let ?f = "written_log nt (lc_write c) jid (message_log quotes ts 128)"
  have files: "lg_files s = [(log_file_name jid, ?f)]"
    using assms(1) by (simp add: s_def createJobLogStore_def message_store_def message_file_def)
  have s: "\<not> lg_initialized s" "lg_made s" "lg_safe s" "lg_cache s jid = None" by (simp_all add: s_def createJobLogStore_def)
  have "prune (lc_cleanup c') s = (Inr (), s)" by (rule prune_one [OF _ files]) (use assms(2) in simp)
  with s show "init_logs c' s = (Inr (), s\<lparr>lg_initialized := True\<rparr>)" by (simp add: init_logs_def sm_simps)
  have "MAX_FILE_BYTES < lf_size ?f"
    using quotes_log_json [of 128 nt jid ts] by (simp add: written_log_def Let_def message_log_norm MAX_FILE_BYTES_def)
  then have "read_log nt ?f jid = unreadable" by (simp add: read_log_def)
  then have "log_held nt (s\<lparr>lg_initialized := True\<rparr>) jid = unreadable"
    using files s(4) by (simp add: log_held_def stored_log_def)
  then show "load nt jid (s\<lparr>lg_initialized := True\<rparr>) = (unreadable, s\<lparr>lg_initialized := True\<rparr>)"
    by (simp add: load_held unreadable_def state_invalid_def)
qed

text \<open>C39 A job that writes 128 messages of 4096 quotation marks gets each of them recorded and answered, but the
  file is then longer than a store is willing to read: after a restart every query of the log and every
  further record of the job throws \<open>job_log_state_invalid\<close>.\<close>

theorem quoted_logs_are_lost_by_a_restart:
  assumes "redact quotes = quotes" "requireJobId (JStr jid) = Inr jid" "toISOString (lc_now c) = Inr ts"
    and "lc_cleanup c - RETENTION_MS \<le> lc_write c" "lc_cleanup c' - RETENTION_MS \<le> lc_write c"
    and "s = run_log_calls nt redact lc (replicate 127 (RecordLine c (message_call jid quotes))) (createJobLogStore True True [] [])"
    and "restarted = createJobLogStore True True (lg_files (snd (record_line nt redact c (message_call jid quotes) s))) []"
  shows "fst (record_line nt redact c (message_call jid quotes) s) = Inr (publicEntry jid (message_entry quotes ts 128)) \<and>
    fst (query nt lc c' (JStr jid) (JObj []) restarted) = state_invalid ''Stored job log could not be read'' \<and>
    fst (record_line nt redact c' (message_call jid quotes) restarted) = state_invalid ''Stored job log could not be read''"
proof -
  note kept = quotes_kept [of redact nt, OF assms(1)]
  have "message_store nt c jid quotes ts 127 s"
    unfolding assms(6) by (rule messages_recorded [OF kept assms(2,4,3)]) (simp add: quotes_log_fits)
  from message_step [OF kept assms(2,4,3) quotes_log_fits this]
  obtain s' where s': "record_line nt redact c (message_call jid quotes) s =
      (Inr (publicEntry jid (message_entry quotes ts 128)), s')" "message_store nt c jid quotes ts 128 s'" by auto
  have restarted: "restarted = createJobLogStore True True (lg_files s') []" using assms(7) s'(1) by simp
  note gone = restart_unreadable [OF s'(2) assms(5), folded restarted]
  have "fst (query nt lc c' (JStr jid) (JObj []) restarted) = unreadable"
    using assms(2) gone(2)
    by (simp add: query_def Let_def sbind_apply gone(1) option_or_def query_ok_def LEVELS_def str_in_def unreadable_def state_invalid_def)
  moreover have "fst (record_line nt redact c' (message_call jid quotes) restarted) = unreadable"
    using gone(2)
    by (simp add: record_message [OF kept assms(2)] sbind_apply gone(1) append_log_def unreadable_def state_invalid_def)
  ultimately show ?thesis using s'(1) by (simp add: unreadable_def)
qed

section \<open>Examples\<close>

text \<open>A job that writes \<open>ready\<close> on January 1, 1970.\<close>

definition ex_job :: string where "ex_job = ''00000000-0000-4000-8000-000000000000''"
definition ex_time :: string where "ex_time = ''1970-01-01T00:00:00.000Z''"
definition ex_clock :: log_clock where "ex_clock = \<lparr>lc_now = 0, lc_cleanup = 0, lc_write = 0\<rparr>"
definition ex_numbers :: "nat \<Rightarrow> string" where "ex_numbers t = []"
definition ex_call :: js where "ex_call = message_call ex_job ''ready''"
definition ex_log :: "nat \<Rightarrow> log_state" where "ex_log n = message_log ''ready'' ex_time n"
definition ex_entry :: "int \<Rightarrow> js" where "ex_entry q = message_entry ''ready'' ex_time q"
definition ex_store :: "nat \<Rightarrow> log_store" where
  "ex_store n = run_log_calls ex_numbers id id (replicate n (RecordLine ex_clock ex_call)) (createJobLogStore True True [] [])"

lemma ex_job_id: "requireJobId (JStr ex_job) = Inr ex_job"
  by code_simp

lemma ex_clock_time: "toISOString (lc_now ex_clock) = Inr ex_time" "lc_cleanup ex_clock - RETENTION_MS \<le> lc_write ex_clock"
  by code_simp+

lemma ex_clock_ok: "clock_ok ex_clock"
  by (simp add: clock_ok_def ex_clock_time ex_time_def)

lemma ex_kept: "message_kept nt id ''ready''"
proof -
  have "log_lines ''ready'' = [''ready'']" by code_simp
  then show ?thesis by (simp add: message_kept_def sanitizeLogMessage_def nullish_def)
qed

lemma ex_log_fits: "n \<le> 5 \<Longrightarrow> fits (ls_entries (message_log ''ready'' ts n))"
proof -
  assume "n \<le> 5"
  moreover have "utf8_bytes ''ready'' = 5" by code_simp
  then have "entries_bytes (ls_entries (message_log ''ready'' ts n)) = 5 * n"
    by (induction n) (simp_all add: message_log_def entries_bytes_def entry_bytes_def message_entry_def)
  ultimately show ?thesis by (simp add: fits_def MAX_ENTRIES_def MAX_MESSAGE_BYTES_def message_log_def)
qed

lemma ex_stored: "n \<le> 5 \<Longrightarrow> message_store ex_numbers ex_clock ex_job ''ready'' ex_time n (ex_store n)"
  unfolding ex_store_def ex_call_def
  by (rule messages_recorded [OF ex_kept ex_job_id ex_clock_time(2,1)]) (simp add: ex_log_fits)

lemma ex_recorded:
  assumes "n < 5"
  shows "record_line ex_numbers id ex_clock ex_call (ex_store n) =
    (Inr (publicEntry ex_job (ex_entry (1 + int n))), ex_store (Suc n))"
proof -
  have "ex_store (Suc n) = snd (record_line ex_numbers id ex_clock ex_call (ex_store n))"
    unfolding ex_store_def replicate_Suc replicate_append_same [symmetric] run_log_calls_def by simp
  moreover have "fst (record_line ex_numbers id ex_clock ex_call (ex_store n)) = Inr (publicEntry ex_job (ex_entry (1 + int n)))"
    using message_step [OF ex_kept ex_job_id ex_clock_time(2,1) ex_log_fits [of "Suc n"] ex_stored [of n]] assms
    by (auto simp: ex_call_def ex_entry_def)
  ultimately show ?thesis by (simp add: prod_eq_iff)
qed

lemma ex_cached: "n < 5 \<Longrightarrow> lg_cache (ex_store (Suc n)) ex_job = Some (ex_log (Suc n))"
  using ex_stored [of "Suc n"] by (simp add: message_store_def ex_log_def)

lemma ex_call_id: "requireJobId (jget ex_call ''jobId'') = Inr ex_job"
  using ex_job_id by (simp add: ex_call_def message_call_def)

lemma ex_answer: "publicEntry ex_job e \<noteq> JNull"
  by (simp add: publicEntry_def)

text \<open>The second record appends to the first.\<close>

theorem log_is_its_longest_tail_witness:
  "\<exists>k. longest_tail k [ex_entry 1, ex_entry 2] \<and> ls_entries (ex_log 2) = drop k [ex_entry 1, ex_entry 2] \<and> ls_dropped (ex_log 2) = int k"
proof -
  have cached: "lg_cache (ex_store 2) ex_job = Some (ex_log 2)" using ex_cached [of 1] by (simp add: numeral_2_eq_2)
  have second: "record_line ex_numbers id ex_clock ex_call (ex_store 1) = (Inr (publicEntry ex_job (ex_entry 2)), ex_store 2)"
    using ex_recorded [of 1] by (simp add: numeral_2_eq_2)
  have init: "init_logs ex_clock (ex_store 1) = (Inr (), ex_store 1)" "log_held ex_numbers (ex_store 1) ex_job = Inr (ex_log 1)"
    using ex_stored [of 1] by (simp_all add: init_logs_def sm_simps message_store_def log_held_def ex_log_def)
  have msg: "sanitizeLogMessage ex_numbers id (jget ex_call ''message'') = Inr (''ready'', False)" "log_lines ''ready'' = [''ready'']"
    using ex_kept by (simp_all add: message_kept_def ex_call_def message_call_def)
  have stage: "jget ex_call ''stage'' = JStr ''build''" "level_of ex_call = ''info''"
    by (simp_all add: ex_call_def message_call_def level_of_def)
  have one: "ls_entries (ex_log 1) = [ex_entry 1]" "ls_next (ex_log 1) = 2" "ls_dropped (ex_log 1) = 0"
    by (simp_all add: ex_log_def ex_entry_def message_log_def)
  note tail = log_is_its_longest_tail [OF second ex_answer ex_call_id cached]
  obtain k where k: "longest_tail k [ex_entry 1, new_entry 2 ex_time ''info'' ''build'' False ''ready'']"
    "ex_log 2 = \<lparr>ls_next = 3, ls_dropped = int k, ls_entries = drop k [ex_entry 1, new_entry 2 ex_time ''info'' ''build'' False ''ready'']\<rparr>"
    using tail unfolding init stage ex_clock_time
    by (auto simp: msg init(2) [unfolded One_nat_def] one [unfolded One_nat_def] Let_def simp del: drop_append)
  have "new_entry 2 ex_time ''info'' ''build'' False ''ready'' = ex_entry 2" by (simp add: ex_entry_def message_entry_def)
  then show ?thesis using k(1) arg_cong [OF k(2), of ls_entries] arg_cong [OF k(2), of ls_dropped] by auto
qed

theorem returned_logs_are_read_back_witness:
  "fst (load ex_numbers ex_job (createJobLogStore True True (lg_files (ex_store 2)) [])) = Inr (ex_log 2)"
proof -
  have cached: "lg_cache (ex_store 2) ex_job = Some (ex_log 2)" using ex_cached [of 1] by (simp add: numeral_2_eq_2)
  have second: "record_line ex_numbers id ex_clock ex_call (ex_store 1) = (Inr (publicEntry ex_job (ex_entry 2)), ex_store 2)"
    using ex_recorded [of 1] by (simp add: numeral_2_eq_2)
  have strings: "json_string_bytes t \<le> 2 + 6 * length t" for t
    by (induction t) (auto simp: json_string_bytes_def char_bytes_def)
  have numbers: "int_text 1 = ''1''" "int_text 2 = ''2''" "int_text 3 = ''3''" "int_text 0 = ''0''" by code_simp+
  have "json_bytes ex_numbers (ex_entry q) \<le> 700 + length (int_text q)" for q
    using strings [of "''sequence''"] strings [of "''timestamp''"] strings [of "''level''"] strings [of "''stage''"]
      strings [of "''message''"] strings [of "''truncated''"] strings [of ex_time] strings [of "''info''"]
      strings [of "''build''"] strings [of "''ready''"]
    by (simp add: ex_entry_def message_entry_def new_entry_def ex_time_def)
  from this [of 1] this [of 2] have "json_bytes ex_numbers (state_js ex_job (ex_log 2)) \<le> 3000"
    using strings [of "''version''"] strings [of "''jobId''"] strings [of ex_job] strings [of "''nextSequence''"]
      strings [of "''droppedEntries''"] strings [of "''entries''"]
    by (simp add: state_js_def ex_log_def message_log_def numbers ex_job_def numeral_2_eq_2 flip: ex_entry_def)
  moreover have "fst (load ex_numbers ex_job (createJobLogStore True True (lg_files (ex_store 2)) [])) =
    (if json_bytes ex_numbers (state_js ex_job (ex_log 2)) \<le> MAX_FILE_BYTES then Inr (ex_log 2)
     else state_invalid ''Stored job log could not be read'')"
    by (rule returned_logs_are_read_back [of "[]" "[RecordLine ex_clock ex_call]", OF _ _ ex_clock_ok _ second ex_answer ex_call_id cached])
      (simp_all add: ex_clock_ok ex_store_def ex_log_def message_log_def max_safe_def)
  ultimately show ?thesis by (simp add: MAX_FILE_BYTES_def)
qed

definition ex_old :: log_file where
  "ex_old = \<lparr>lf_regular = True, lf_mtime = 0, lf_size = 2, lf_content = None\<rparr>"

definition ex_old_store :: log_store where
  "ex_old_store = createJobLogStore True True [(log_file_name ex_job, ex_old)] []"

theorem cleanup_keeps_the_latest_logs_witness:
  "length (prune_candidates (lg_files (snd (prune (2 * RETENTION_MS) ex_old_store)))) \<le> MAX_FILES"
  using cleanup_keeps_the_latest_logs [of ex_old_store "2 * RETENTION_MS" "()" "snd (prune (2 * RETENTION_MS) ex_old_store)"]
  by (simp add: prune_def sm_simps ex_old_store_def createJobLogStore_def)

theorem quoted_logs_are_lost_by_a_restart_witness:
  "fst (query ex_numbers id ex_clock (JStr ex_job) (JObj []) (createJobLogStore True True
     (lg_files (snd (record_line ex_numbers id ex_clock (message_call ex_job quotes)
       (run_log_calls ex_numbers id id (replicate 127 (RecordLine ex_clock (message_call ex_job quotes)))
         (createJobLogStore True True [] []))))) [])) =
   state_invalid ''Stored job log could not be read''"
  using quoted_logs_are_lost_by_a_restart [of id ex_job ex_clock ex_time ex_clock _ ex_numbers id] ex_job_id ex_clock_time by simp

end
