(* ===== verification/JobLogPages.thy ===== *)
theory JobLogPages
  imports JobLogGuarantees
begin

text \<open>
  Pages of a log: a cursor names the entry it was taken from, and a client that follows
  \<open>nextCursor\<close> sees every matching entry once, newest first.
\<close>

section \<open>Cursors\<close>

lemma code_digit_char: "d < 10 \<Longrightarrow> code (digit_char d) = 48 + d"
  by (simp add: code_def digit_char_def)

lemma nat_text_value: "digits_value acc (nat_text n) = acc * 10 ^ length (nat_text n) + int n"
proof (induction n arbitrary: acc rule: nat_text.induct)
  case (1 n)
  show ?case
  proof (cases "n < 10")
    case True
    then show ?thesis by (simp add: nat_text.simps [of n] code_digit_char)
  next
    case False
    then have "digits_value acc (nat_text n) = 10 * (acc * 10 ^ length (nat_text (n div 10)) + int (n div 10)) + int (n mod 10)"
      using 1 [of acc] by (simp add: nat_text.simps [of n] digits_value_append code_digit_char)
    also have "\<dots> = acc * 10 ^ Suc (length (nat_text (n div 10))) + int (10 * (n div 10) + n mod 10)" by (simp only: of_nat_add of_nat_mult) simp
    also have "\<dots> = acc * 10 ^ length (nat_text n) + int n" using False by (simp add: nat_text.simps [of n])
    finally show ?thesis .
  qed
qed

lemma nat_text_digits: "list_all is_digit (nat_text n)"
proof (induction n rule: nat_text.induct)
  case (1 n)
  then show ?case by (cases "n < 10") (simp_all add: nat_text.simps [of n] is_digit_def code_digit_char)
qed

lemma nat_text_head: "1 \<le> n \<Longrightarrow> \<exists>c cs. nat_text n = c # cs \<and> is_digit c \<and> c \<noteq> CHR ''0''"
proof (induction n rule: nat_text.induct)
  case (1 n)
  show ?case
  proof (cases "n < 10")
    case True
    have "code (digit_char n) = 48 + n" using True by (rule code_digit_char)
    moreover have "code (CHR ''0'') = 48" by (simp add: code_def)
    ultimately have "digit_char n \<noteq> CHR ''0''" "is_digit (digit_char n)" using True 1 by (auto simp: is_digit_def)
    with True show ?thesis by (simp add: nat_text.simps [of n])
  next
    case False
    then have "1 \<le> n div 10" by linarith
    with 1(1) [OF False] obtain c cs where "nat_text (n div 10) = c # cs" "is_digit c" "c \<noteq> CHR ''0''" by blast
    with False show ?thesis by (simp add: nat_text.simps [of n])
  qed
qed

lemma nat_text_length: "n < 10 ^ Suc k \<Longrightarrow> length (nat_text n) \<le> Suc k"
proof (induction k arbitrary: n)
  case 0
  then show ?case by (simp add: nat_text.simps [of n])
next
  case (Suc k)
  then have "n div 10 < 10 ^ Suc k" by (simp add: less_mult_imp_div_less mult.commute)
  from Suc.IH [OF this] show ?case by (simp add: nat_text.simps [of n])
qed

lemma cursor_names_its_entry:
  assumes "1 \<le> entry_sequence e" "entry_sequence e < 10 ^ 15"
  shows "is_cursor (cursor_of e)" "before_sequence (JStr (cursor_of e)) = entry_sequence e"
proof -
  let ?n = "nat (entry_sequence e)"
  obtain d ds where digs: "nat_text ?n = d # ds" "is_digit d" "d \<noteq> CHR ''0''" using nat_text_head [of ?n] assms(1) by (metis nat_mono nat_one_as_int)
  have "length (nat_text ?n) \<le> 15" using nat_text_length [of ?n 14] assms by (simp add: nat_less_iff)
  moreover have "list_all is_digit (d # ds)" using nat_text_digits [of ?n] digs(1) by simp
  ultimately show "is_cursor (cursor_of e)"
    using assms(1) digs by (simp add: is_cursor_def cursor_of_def int_text_def starts_with_def head_class_def)
  show "before_sequence (JStr (cursor_of e)) = entry_sequence e"
    using assms(1) nat_text_value [of 0 ?n] by (simp add: before_sequence_def cursor_of_def int_text_def)
qed

section \<open>Following the cursors\<close>

text \<open>The client: it asks for the first page and then follows the cursors, for at most \<open>n\<close> pages.\<close>

fun all_pages ::
  "nat \<Rightarrow> (nat \<Rightarrow> string) \<Rightarrow> (string \<Rightarrow> string) \<Rightarrow> log_clock \<Rightarrow> js \<Rightarrow> jobj \<Rightarrow> js \<Rightarrow> (log_store, js list) sm" where
  "all_pages 0 nt lc c jid opts cursor = sthrow type_error"
| "all_pages (Suc n) nt lc c jid opts cursor =
     sbind (query nt lc c jid (JObj ((''cursor'', cursor) # opts))) (\<lambda>answer.
     let entries = arr_of (jget answer ''entries''); continue = jget (jget answer ''page'') ''nextCursor'' in
     if continue = JNull then sret entries
     else sbind (all_pages n nt lc c jid opts continue) (\<lambda>rest. sret (entries @ rest)))"

definition opt :: "jobj \<Rightarrow> string \<Rightarrow> js \<Rightarrow> js" where
  "opt opts k d = option_or (JObj opts) k d"

definition options_ok :: "jobj \<Rightarrow> js \<Rightarrow> bool" where
  "options_ok opts cursor = query_ok cursor (opt opts ''limit'' (JInt 100)) (opt opts ''levels'' (JArr (map JStr LEVELS)))
     (opt opts ''search'' JNull) (opt opts ''since'' JNull) (opt opts ''until'' JNull)"

definition wanted :: "(nat \<Rightarrow> string) \<Rightarrow> (string \<Rightarrow> string) \<Rightarrow> jobj \<Rightarrow> js \<Rightarrow> bool" where
  "wanted nt lc opts e = entry_matches nt lc (opt opts ''levels'' (JArr (map JStr LEVELS)))
     (opt opts ''search'' JNull) (opt opts ''since'' JNull) (opt opts ''until'' JNull) e"

lemma query_answers:
  assumes "lg_initialized s" "requireJobId jidv = Inr jid" "log_held nt s jid = Inr st" "options_ok opts cursor" "cursor \<noteq> JUndef"
  shows "query nt lc c jidv (JObj ((''cursor'', cursor) # opts)) s =
    (Inr (log_page jid (int_of (opt opts ''limit'' (JInt 100))) (opt opts ''since'' JNull) (opt opts ''until'' JNull) (ls_dropped st)
       (rev (filter (\<lambda>e. entry_sequence e < before_sequence cursor \<and> wanted nt lc opts e) (ls_entries st)))),
     s\<lparr>lg_cache := (lg_cache s)(jid \<mapsto> st)\<rparr>)"
proof -
  have field: "option_or (JObj ((''cursor'', cursor) # opts)) k d = opt opts k d" if "k \<noteq> ''cursor''" for k d
    using that by (auto simp: option_or_def opt_def)
  have cursor: "option_or (JObj ((''cursor'', cursor) # opts)) ''cursor'' JNull = cursor"
    using assms(5) by (simp add: option_or_def)
  have init: "init_logs c s = (Inr (), s)" using assms(1) by (simp add: init_logs_def sm_simps)
  show ?thesis
    using assms(4)
    by (simp add: query_def Let_def field cursor sbind_apply init assms(2) load_held assms(3) options_ok_def wanted_def)
qed

lemma log_page_fields [simp]:
  "arr_of (jget (log_page jid n since until d M) ''entries'') = map (publicEntry jid) (take (nat n) M)"
  by (simp add: log_page_def Let_def)

lemma log_page_next:
  assumes "1 \<le> n"
  shows "jget (jget (log_page jid n since until d M) ''page'') ''nextCursor'' =
    (if nat n < length M then JStr (cursor_of (M ! (nat n - 1))) else JNull)"
proof (cases "nat n < length M")
  case True
  then have "M \<noteq> []" "take (nat n) M \<noteq> []" using assms by auto
  moreover from this(2) have "last (take (nat n) M) = M ! (nat n - 1)" using True assms last_conv_nth [of "take (nat n) M"] by (simp add: nth_take)
  ultimately show ?thesis using True assms by (simp add: log_page_def Let_def last_map publicEntry_def nullish_def)
next
  case False
  then show ?thesis by (simp add: log_page_def Let_def min_def)
qed

lemma filter_below_drop:
  assumes "sorted_wrt (\<lambda>a b. f b < (f a :: int)) M" "1 \<le> n" "n \<le> length M"
  shows "filter (\<lambda>e. f e < f (M ! (n - 1))) M = drop n M"
proof -
  let ?P = "\<lambda>e. f e < f (M ! (n - 1))"
  have "filter ?P (take n M @ drop n M) = filter ?P (take n M) @ filter ?P (drop n M)" by (rule filter_append)
  moreover have "filter ?P (take n M) = []"
  proof -
    have "\<not> ?P e" if "e \<in> set (take n M)" for e
    proof -
      obtain i where i: "i < n" "e = M ! i" using \<open>e \<in> set (take n M)\<close> assms(3) by (auto simp: in_set_conv_nth)
      show ?thesis
      proof (cases "i = n - 1")
        case False
        then have "f (M ! (n - 1)) < f (M ! i)" using assms i by (auto simp: sorted_wrt_iff_nth_less)
        then show ?thesis using i by simp
      qed (use i in simp)
    qed
    then show ?thesis by (simp add: filter_empty_conv)
  qed
  moreover have "filter ?P (drop n M) = drop n M"
  proof (rule filter_True, rule ballI)
    fix e assume "e \<in> set (drop n M)"
    then obtain i where "i < length M - n" "e = M ! (n + i)" by (auto simp: in_set_conv_nth)
    then show "?P e" using assms by (auto simp: sorted_wrt_iff_nth_less)
  qed
  ultimately show ?thesis by simp
qed

text \<open>The matching entries below a bound, newest first.\<close>

definition matching_below :: "(nat \<Rightarrow> string) \<Rightarrow> (string \<Rightarrow> string) \<Rightarrow> jobj \<Rightarrow> log_state \<Rightarrow> int \<Rightarrow> js list" where
  "matching_below nt lc opts st b = rev (filter (\<lambda>e. entry_sequence e < b \<and> wanted nt lc opts e) (ls_entries st))"

lemma matching_below_next:
  assumes "entries_ok nt n 0 (ls_entries st)" "1 \<le> k" "k \<le> length (matching_below nt lc opts st b)"
  shows "matching_below nt lc opts st (entry_sequence (matching_below nt lc opts st b ! (k - 1))) =
    drop k (matching_below nt lc opts st b)"
proof -
  let ?M = "matching_below nt lc opts st b"
  let ?q = "entry_sequence (?M ! (k - 1))"
  have "?M ! (k - 1) \<in> set ?M" using assms(2,3) by (intro nth_mem) simp
  then have "?q < b" by (simp add: matching_below_def)
  then have "filter (\<lambda>e. entry_sequence e < ?q \<and> wanted nt lc opts e) (ls_entries st) =
      filter (\<lambda>e. entry_sequence e < ?q) (filter (\<lambda>e. entry_sequence e < b \<and> wanted nt lc opts e) (ls_entries st))"
    by (auto intro: filter_cong)
  then have "matching_below nt lc opts st ?q = filter (\<lambda>e. entry_sequence e < ?q) ?M"
    unfolding matching_below_def by (simp only: rev_filter)
  also have "\<dots> = drop k ?M"
  proof (rule filter_below_drop [OF _ assms(2,3)])
    show "sorted_wrt (\<lambda>a c. entry_sequence c < entry_sequence a) ?M"
      using entries_ok_sorted [OF assms(1)] by (simp add: matching_below_def sorted_wrt_rev sorted_wrt_filter)
  qed
  finally show ?thesis .
qed

lemma pages_below:
  assumes "entries_ok nt (ls_next st) 0 (ls_entries st)" "ls_next st \<le> 10 ^ 15" "requireJobId jidv = Inr jid"
    and "log_held nt s jid = Inr st" "lg_initialized s" "options_ok opts cursor" "cursor \<noteq> JUndef"
    and "length (matching_below nt lc opts st (before_sequence cursor)) < fuel"
  shows "fst (all_pages fuel nt lc c jidv opts cursor s) =
    Inr (map (publicEntry jid) (matching_below nt lc opts st (before_sequence cursor)))"
  using assms(4-)
proof (induction fuel arbitrary: s cursor)
  case 0
  then show ?case by simp
next
  case (Suc fuel)
  let ?M = "matching_below nt lc opts st (before_sequence cursor)"
  let ?n = "int_of (opt opts ''limit'' (JInt 100))"
  let ?s = "s\<lparr>lg_cache := (lg_cache s)(jid \<mapsto> st)\<rparr>"
  have n: "1 \<le> ?n" using Suc.prems(3) by (auto simp: options_ok_def query_ok_def int_between_iff)
  note answer = query_answers [OF Suc.prems(2) assms(3) Suc.prems(1,3,4), folded matching_below_def]
  show ?case
  proof (cases "nat ?n < length ?M")
    case False
    then show ?thesis by (simp add: answer sbind_apply Let_def log_page_next [OF n])
  next
    case True
    let ?e = "?M ! (nat ?n - 1)"
    have "?e \<in> set ?M" using True by (intro nth_mem) simp
    then have "?e \<in> set (ls_entries st)" by (simp add: matching_below_def)
    with entries_ok_mem [OF assms(1)] assms(2) have e: "1 \<le> entry_sequence ?e" "entry_sequence ?e < 10 ^ 15" by force+
    note cursor = cursor_names_its_entry [OF e]
    have rest: "matching_below nt lc opts st (before_sequence (JStr (cursor_of ?e))) = drop (nat ?n) ?M"
      unfolding cursor(2) by (rule matching_below_next [OF assms(1)]) (use True n in auto)
    have "fst (all_pages fuel nt lc c jidv opts (JStr (cursor_of ?e)) ?s) =
        Inr (map (publicEntry jid) (matching_below nt lc opts st (before_sequence (JStr (cursor_of ?e)))))"
    proof (rule Suc.IH)
      show "log_held nt ?s jid = Inr st" by (simp add: log_held_def)
      show "options_ok opts (JStr (cursor_of ?e))" using Suc.prems(3) cursor(1) by (simp add: options_ok_def query_ok_def)
      show "length (matching_below nt lc opts st (before_sequence (JStr (cursor_of ?e)))) < fuel"
        unfolding rest using Suc.prems(5) n True by simp
    qed (use Suc.prems(2) in auto)
    then have "fst (all_pages fuel nt lc c jidv opts (JStr (cursor_of ?e)) ?s) = Inr (map (publicEntry jid) (drop (nat ?n) ?M))"
      unfolding rest .
    then obtain s2 where "all_pages fuel nt lc c jidv opts (JStr (cursor_of ?e)) ?s = (Inr (map (publicEntry jid) (drop (nat ?n) ?M)), s2)"
      by (metis prod.collapse)
    moreover have "map (publicEntry jid) (take (nat ?n) ?M) @ map (publicEntry jid) (drop (nat ?n) ?M) = map (publicEntry jid) ?M"
      by (simp only: map_append [symmetric] append_take_drop_id)
    ultimately show ?thesis
      using True by (simp add: answer sbind_apply Let_def log_page_next [OF n])
  qed
qed

text \<open>C36 A client that follows \<open>nextCursor\<close> from the first page gets every entry of the log that matches the
  query exactly once, newest first, after at most one page more than the log has entries, whatever the
  page size and whatever calls came before. The numbers of the entries must fit the fifteen digits a
  cursor may have.\<close>

theorem following_cursors_lists_every_match_once:
  assumes "list_all (\<lambda>(n, f). parsed f) files" "list_all call_clock_ok calls"
    and "s = run_log_calls nt redact lc calls (createJobLogStore made safe files outcomes)" "lg_initialized s"
    and "requireJobId jidv = Inr jid" "log_held nt s jid = Inr st" "ls_next st \<le> 10 ^ 15" "options_ok opts JNull"
  shows "fst (all_pages (Suc (length (ls_entries st))) nt lc c jidv opts JNull s) =
    Inr (map (publicEntry jid) (rev (filter (wanted nt lc opts) (ls_entries st))))"
proof -
  have "store_ok nt (createJobLogStore made safe files outcomes)"
    using assms(1) by (intro created_store_ok) (auto simp: list_all_iff)
  then have "store_ok nt s" using assms(2,3) run_log_calls_ok by blast
  then have "log_ok nt st"
    using assms(6) stored_log_ok by (auto simp: log_held_def store_ok_def split: option.splits)
  then have ok: "entries_ok nt (ls_next st) 0 (ls_entries st)" using assms(7) by (simp add: log_ok_def max_safe_def)
  have "filter (\<lambda>e. entry_sequence e < max_safe \<and> wanted nt lc opts e) (ls_entries st) = filter (wanted nt lc opts) (ls_entries st)"
    using entries_ok_mem [OF ok] assms(7) by (intro filter_cong) (force simp: max_safe_def)+
  then have all: "matching_below nt lc opts st (before_sequence JNull) = rev (filter (wanted nt lc opts) (ls_entries st))"
    by (simp add: matching_below_def before_sequence_def)
  show ?thesis
    using pages_below [OF ok assms(7,5,6,4,8), of lc "Suc (length (ls_entries st))" c]
    by (simp add: all less_Suc_eq_le)
qed

section \<open>Example\<close>

text \<open>Two lines, read in pages of one entry.\<close>

theorem following_cursors_lists_every_match_once_witness:
  "fst (all_pages 3 ex_numbers id ex_clock (JStr ex_job) [(''limit'', JInt 1)] JNull (ex_store 2)) =
     Inr [publicEntry ex_job (ex_entry 2), publicEntry ex_job (ex_entry 1)]"
proof -
  have held: "log_held ex_numbers (ex_store 2) ex_job = Inr (ex_log 2)" "lg_initialized (ex_store 2)"
    using ex_stored [of 2] by (simp_all add: message_store_def log_held_def ex_log_def)
  have calls: "list_all call_clock_ok [RecordLine ex_clock ex_call, RecordLine ex_clock ex_call]" by (simp add: ex_clock_ok)
  have store: "ex_store 2 = run_log_calls ex_numbers id id [RecordLine ex_clock ex_call, RecordLine ex_clock ex_call] (createJobLogStore True True [] [])"
    by (simp add: ex_store_def numeral_2_eq_2)
  have opts: "options_ok [(''limit'', JInt 1)] JNull" by code_simp
  have entries: "ls_entries (ex_log 2) = [ex_entry 1, ex_entry 2]" "ls_next (ex_log 2) \<le> 10 ^ 15"
    by (simp_all add: ex_log_def message_log_def ex_entry_def numeral_2_eq_2)
  have wanted: "wanted ex_numbers id [(''limit'', JInt 1)] (ex_entry q)" for q
    by (simp add: wanted_def entry_matches_def opt_def option_or_def LEVELS_def ex_entry_def message_entry_def)
  have "fst (all_pages (Suc (length (ls_entries (ex_log 2)))) ex_numbers id ex_clock (JStr ex_job) [(''limit'', JInt 1)] JNull (ex_store 2)) =
      Inr (map (publicEntry ex_job) (rev (filter (wanted ex_numbers id [(''limit'', JInt 1)]) (ls_entries (ex_log 2)))))"
    by (rule following_cursors_lists_every_match_once [of "[]", OF _ calls store held(2) ex_job_id held(1) entries(2) opts]) simp
  then show ?thesis by (simp add: entries(1) wanted numeral_3_eq_3)
qed

end
