(* ===== verification/ApplicationRegistry.thy ===== *)
theory ApplicationRegistry
  imports RuntimeSpecs JsClock FileStore
begin

text \<open>
  The registry of applications (\<open>apps/api/src/application-registry.js\<close>): what is deployed of each
  application, which releases are kept, and the operations that deploy, activate, roll back and
  reconfigure. The names of services and sockets are those of \<open>packages/config-templates/src/python-systemd.js\<close>.

  An application is a record of the members the code names, absent ones being undefined; members of
  other names a file may hold are not kept, and its array of applications holds objects. A retention is
  an integer, as every creation writes it.

  Arguments: \<open>new URL\<close>, the text of a non-integral number, SHA-256 of a text and of the JSON text of a
  value, the existence of a server, and for each call the clock and the identifier \<open>randomUUID\<close> returns.
\<close>

section \<open>Applications\<close>

record application =
  ap_id :: js
  ap_serverId :: js
  ap_name :: js
  ap_type :: js
  ap_repositoryUrl :: js
  ap_branch :: js
  ap_retention :: js
  ap_runtimeAdapter :: js
  ap_state :: js
  ap_desiredRevision :: js
  ap_appliedRevision :: js
  ap_currentReleaseId :: js
  ap_previousReleaseId :: js
  ap_currentCommitSha :: js
  ap_currentGitTarget :: js
  ap_releases :: js
  ap_activeDeploymentId :: js
  ap_pendingRollbackReleaseId :: js
  ap_lastDeploymentId :: js
  ap_lastDeployedAt :: js
  ap_lastRolledBackAt :: js
  ap_lastError :: js
  ap_serviceName :: js
  ap_servicePort :: js
  ap_healthPath :: js
  ap_proxyTarget :: js
  ap_activeRuntime :: js
  ap_createdAt :: js
  ap_updatedAt :: js
  ap_build :: js
  ap_runtime :: js
  ap_webRoot :: js
  ap_socketPath :: js

record app_deps =
  ad_url :: "string \<Rightarrow> url option"
  ad_number :: "nat \<Rightarrow> string"
  ad_sha :: "string \<Rightarrow> string"
  ad_digest :: "js \<Rightarrow> string"
  ad_server :: "string \<Rightarrow> bool"

type_synonym app_store = "(application list, js) file_store"

definition application_error :: "string \<Rightarrow> string \<Rightarrow> jerr" where
  "application_error c msg = Err ''ApplicationRegistryError'' (Some c) msg"

definition application_state_error :: "string \<Rightarrow> jerr" where
  "application_state_error msg = application_error ''application_state_invalid'' msg"

definition NODE_RUNTIME_ADAPTERS :: "string list" where
  "NODE_RUNTIME_ADAPTERS = [''direct-systemd'', ''passenger'']"

text \<open>The members in the order \<open>baseApplication\<close> lists them, then those the creations add.\<close>

definition application_js :: "application \<Rightarrow> jobj" where
  "application_js a = [(''id'', ap_id a), (''serverId'', ap_serverId a), (''name'', ap_name a), (''type'', ap_type a),
     (''repositoryUrl'', ap_repositoryUrl a), (''branch'', ap_branch a), (''retention'', ap_retention a),
     (''runtimeAdapter'', ap_runtimeAdapter a), (''state'', ap_state a), (''desiredRevision'', ap_desiredRevision a),
     (''appliedRevision'', ap_appliedRevision a), (''currentReleaseId'', ap_currentReleaseId a),
     (''previousReleaseId'', ap_previousReleaseId a), (''currentCommitSha'', ap_currentCommitSha a),
     (''currentGitTarget'', ap_currentGitTarget a), (''releases'', ap_releases a),
     (''activeDeploymentId'', ap_activeDeploymentId a), (''pendingRollbackReleaseId'', ap_pendingRollbackReleaseId a),
     (''lastDeploymentId'', ap_lastDeploymentId a), (''lastDeployedAt'', ap_lastDeployedAt a),
     (''lastRolledBackAt'', ap_lastRolledBackAt a), (''lastError'', ap_lastError a), (''serviceName'', ap_serviceName a),
     (''servicePort'', ap_servicePort a), (''healthPath'', ap_healthPath a), (''proxyTarget'', ap_proxyTarget a),
     (''activeRuntime'', ap_activeRuntime a), (''createdAt'', ap_createdAt a), (''updatedAt'', ap_updatedAt a),
     (''build'', ap_build a), (''runtime'', ap_runtime a), (''webRoot'', ap_webRoot a), (''socketPath'', ap_socketPath a)]"

definition application_of :: "js \<Rightarrow> application" where
  "application_of v = \<lparr>ap_id = jget v ''id'', ap_serverId = jget v ''serverId'', ap_name = jget v ''name'', ap_type = jget v ''type'',
     ap_repositoryUrl = jget v ''repositoryUrl'', ap_branch = jget v ''branch'', ap_retention = jget v ''retention'',
     ap_runtimeAdapter = jget v ''runtimeAdapter'', ap_state = jget v ''state'', ap_desiredRevision = jget v ''desiredRevision'',
     ap_appliedRevision = jget v ''appliedRevision'', ap_currentReleaseId = jget v ''currentReleaseId'',
     ap_previousReleaseId = jget v ''previousReleaseId'', ap_currentCommitSha = jget v ''currentCommitSha'',
     ap_currentGitTarget = jget v ''currentGitTarget'', ap_releases = jget v ''releases'',
     ap_activeDeploymentId = jget v ''activeDeploymentId'', ap_pendingRollbackReleaseId = jget v ''pendingRollbackReleaseId'',
     ap_lastDeploymentId = jget v ''lastDeploymentId'', ap_lastDeployedAt = jget v ''lastDeployedAt'',
     ap_lastRolledBackAt = jget v ''lastRolledBackAt'', ap_lastError = jget v ''lastError'', ap_serviceName = jget v ''serviceName'',
     ap_servicePort = jget v ''servicePort'', ap_healthPath = jget v ''healthPath'', ap_proxyTarget = jget v ''proxyTarget'',
     ap_activeRuntime = jget v ''activeRuntime'', ap_createdAt = jget v ''createdAt'', ap_updatedAt = jget v ''updatedAt'',
     ap_build = jget v ''build'', ap_runtime = jget v ''runtime'', ap_webRoot = jget v ''webRoot'',
     ap_socketPath = jget v ''socketPath''\<rparr>"

definition sameValue :: "js \<Rightarrow> js \<Rightarrow> bool" where
  "sameValue left right = json_eq left right"

definition has_runtime :: "application \<Rightarrow> bool" where
  "has_runtime a = (ap_type a = JStr ''node'' \<or> ap_type a = JStr ''python'')"

definition or_null :: "js \<Rightarrow> js" where
  "or_null v = (if truthy v then v else JNull)"

definition public_release :: "js \<Rightarrow> js" where
  "public_release r = JObj (obj_spread (obj_of r)
     [(''gitTarget'', or_null (jget r ''gitTarget'')), (''runtime'', or_null (jget r ''runtime''))])"

definition publicApplication :: "application \<Rightarrow> js" where
  "publicApplication a =
     (let runtime = or_null (ap_runtime a); activeRuntime = or_null (ap_activeRuntime a) in
      JObj (obj_spread (application_js a)
        [(''build'', or_null (ap_build a)), (''runtime'', runtime), (''activeRuntime'', activeRuntime),
         (''currentGitTarget'', or_null (ap_currentGitTarget a)),
         (''configurationPending'', JBool (has_runtime a \<and> ap_currentReleaseId a \<noteq> JNull \<and> \<not> sameValue runtime activeRuntime)),
         (''releases'', JArr (map public_release (arr_of (ap_releases a))))]))"

section \<open>Checks\<close>

definition validateName :: "js \<Rightarrow> js res" where
  "validateName v =
     (if \<not> is_string v \<or> length (trim (str_of v)) < 1 \<or> 80 < length (trim (str_of v)) \<or> list_ex is_control (str_of v)
      then Inl (application_error ''invalid_application_name'' ''Application name must be a printable string up to 80 characters'')
      else Inr (JStr (trim (str_of v))))"

definition normalizeRetention :: "js \<Rightarrow> js" where
  "normalizeRetention v = (if int_between 2 20 v then v else JInt 5)"

definition normalizeRuntimeAdapter :: "js \<Rightarrow> js res" where
  "normalizeRuntimeAdapter value =
     (let v = (if value = JUndef then JStr ''passenger'' else value) in
      if \<not> str_in v NODE_RUNTIME_ADAPTERS
      then Inl (application_error ''invalid_node_runtime_adapter'' ''Node runtime adapter must be direct-systemd or passenger'')
      else Inr v)"

text \<open>\<open>catch (error) { if (error instanceof ApplicationValidationError) throw new ApplicationRegistryError(...) }\<close>\<close>

definition as_application_error :: "'a res \<Rightarrow> 'a res" where
  "as_application_error r =
     (case r of Inr x \<Rightarrow> Inr x
      | Inl e \<Rightarrow> Inl (if err_class e = ''ApplicationValidationError''
                     then Err ''ApplicationRegistryError'' (err_code e) (err_msg e) else e))"

record app_config =
  cf_repositoryUrl :: js
  cf_branch :: js
  cf_build :: js
  cf_runtime :: js
  cf_retention :: js
  cf_runtimeAdapter :: js

definition source_config :: "app_deps \<Rightarrow> js \<Rightarrow> js \<Rightarrow> (string \<times> string) res" where
  "source_config d repositoryUrl branch =
     bnd (normalizeGithubRepositoryUrl (ad_url d) repositoryUrl) (\<lambda>url.
     bnd (normalizeGitBranch (nullish branch (JStr ''main''))) (\<lambda>b. Inr (url, b)))"

definition normalizeStaticConfig :: "app_deps \<Rightarrow> js \<Rightarrow> js \<Rightarrow> js \<Rightarrow> js \<Rightarrow> app_config res" where
  "normalizeStaticConfig d repositoryUrl branch build retention =
     as_application_error (
       bnd (source_config d repositoryUrl branch) (\<lambda>(url, b).
       bnd (normalizeStaticBuildConfig build) (\<lambda>config.
       Inr \<lparr>cf_repositoryUrl = JStr url, cf_branch = JStr b, cf_build = config, cf_runtime = JNull,
            cf_retention = normalizeRetention retention, cf_runtimeAdapter = JNull\<rparr>)))"

definition inferred_adapter :: "js \<Rightarrow> js \<Rightarrow> js" where
  "inferred_adapter runtimeAdapter runtime =
     nullish runtimeAdapter (if \<not> is_nullish (jget runtime ''port'') then JStr ''direct-systemd'' else JStr ''passenger'')"

definition normalizeNodeConfig :: "app_deps \<Rightarrow> js \<Rightarrow> js \<Rightarrow> js \<Rightarrow> js \<Rightarrow> js \<Rightarrow> app_config res" where
  "normalizeNodeConfig d repositoryUrl branch runtime retention runtimeAdapter =
     bnd (normalizeRuntimeAdapter (inferred_adapter runtimeAdapter runtime)) (\<lambda>adapter.
     as_application_error (
       bnd (source_config d repositoryUrl branch) (\<lambda>(url, b).
       bnd (normalizeNodeRuntimeConfig runtime (adapter = JStr ''direct-systemd'')) (\<lambda>config.
       Inr \<lparr>cf_repositoryUrl = JStr url, cf_branch = JStr b, cf_build = JNull, cf_runtime = config,
            cf_retention = normalizeRetention retention, cf_runtimeAdapter = adapter\<rparr>))))"

definition normalizePythonConfig :: "app_deps \<Rightarrow> js \<Rightarrow> js \<Rightarrow> js \<Rightarrow> js \<Rightarrow> app_config res" where
  "normalizePythonConfig d repositoryUrl branch runtime retention =
     as_application_error (
       bnd (source_config d repositoryUrl branch) (\<lambda>(url, b).
       bnd (normalizePythonRuntimeConfig (ad_number d) runtime False) (\<lambda>config.
       Inr \<lparr>cf_repositoryUrl = JStr url, cf_branch = JStr b, cf_build = JNull, cf_runtime = config,
            cf_retention = normalizeRetention retention, cf_runtimeAdapter = JNull\<rparr>)))"

definition node_config_of :: "app_deps \<Rightarrow> application \<Rightarrow> js \<Rightarrow> js res" where
  "node_config_of d a runtime =
     bnd (normalizeNodeConfig d (ap_repositoryUrl a) (ap_branch a) runtime (ap_retention a) (ap_runtimeAdapter a)) (\<lambda>c. Inr (cf_runtime c))"

definition python_config_of :: "app_deps \<Rightarrow> application \<Rightarrow> js \<Rightarrow> js res" where
  "python_config_of d a runtime =
     bnd (normalizePythonConfig d (ap_repositoryUrl a) (ap_branch a) runtime (ap_retention a)) (\<lambda>c. Inr (cf_runtime c))"

definition expectedNodeServiceName :: "app_deps \<Rightarrow> js \<Rightarrow> string res" where
  "expectedNodeServiceName d v =
     (if \<not> is_string v then Inl type_error
      else Inr (''yunpanel-node-'' @ take 16 (ad_sha d (str_of v)) @ ''.service''))"

definition pythonServiceName :: "app_deps \<Rightarrow> js \<Rightarrow> string res" where
  "pythonServiceName d v =
     bnd (assertUuid v ''applicationId'') (\<lambda>s. Inr (''yunpanel-python-'' @ take 16 (ad_sha d s) @ ''.service''))"

definition pythonSocketPath :: "js \<Rightarrow> string res" where
  "pythonSocketPath v = bnd (assertUuid v ''applicationId'') (\<lambda>s. Inr (''/run/yunpanel/python-'' @ s @ ''.sock''))"

definition normalizeReleaseUuid :: "js \<Rightarrow> string \<Rightarrow> js res" where
  "normalizeReleaseUuid v fieldName =
     (case assertUuid v fieldName of
        Inl _ \<Rightarrow> Inl (application_error ''invalid_release_id'' (fieldName @ '' is invalid''))
      | Inr s \<Rightarrow> Inr (JStr s))"

definition normalizeNullableUuid :: "js \<Rightarrow> string \<Rightarrow> js res" where
  "normalizeNullableUuid v fieldName = (if is_nullish v then Inr JNull else normalizeReleaseUuid v fieldName)"

definition normalizeApplicationId :: "js \<Rightarrow> js res" where
  "normalizeApplicationId v =
     (case assertUuid v ''applicationId'' of
        Inl _ \<Rightarrow> Inl (application_error ''invalid_application_id'' ''applicationId is invalid'')
      | Inr s \<Rightarrow> Inr (JStr s))"

definition branch_default :: "js \<Rightarrow> js option" where
  "branch_default b = (if is_nullish b then None else Some b)"

definition proxy_target :: "js \<Rightarrow> js" where
  "proxy_target port = JObj [(''host'', JStr ''127.0.0.1''), (''port'', port)]"

text \<open>\<open>/^yunpanel-node-[a-f0-9]{16}\.service$/\<close>\<close>

definition is_node_service :: "string \<Rightarrow> bool" where
  "is_node_service s =
     (let prefix = ''yunpanel-node-''; rest = drop (length prefix) s in
      starts_with s prefix \<and> list_all is_lower_hex (take 16 rest) \<and> length (take 16 rest) = 16 \<and> drop 16 rest = ''.service'')"

section \<open>Reading an application back\<close>

text \<open>
  \<open>hydrateApplication\<close> completes and checks an application in place: the assignments before a throw stay.
\<close>

definition absent_null :: "js \<Rightarrow> js" where
  "absent_null v = (if v = JUndef then JNull else v)"

definition hydrate_adapter :: "(application, unit) sm" where
  "hydrate_adapter =
     sbind (sget id) (\<lambda>a.
     if ap_type a = JStr ''node''
     then
       sbind (slift (normalizeRuntimeAdapter (nullish (ap_runtimeAdapter a)
         (if truthy (jget (ap_runtime a) ''port'') then JStr ''direct-systemd'' else JStr ''passenger'')))) (\<lambda>adapter.
       smod (\<lambda>a. a\<lparr>ap_runtimeAdapter := adapter\<rparr>))
     else smod (\<lambda>a. a\<lparr>ap_runtimeAdapter := JNull\<rparr>))"

definition hydrate_defaults :: "application \<Rightarrow> application" where
  "hydrate_defaults a0 =
     (let a = a0\<lparr>ap_releases := (if is_array (ap_releases a0) then ap_releases a0 else JArr []),
            ap_pendingRollbackReleaseId := absent_null (ap_pendingRollbackReleaseId a0),
            ap_lastRolledBackAt := absent_null (ap_lastRolledBackAt a0), ap_serviceName := absent_null (ap_serviceName a0)\<rparr>;
          direct = (ap_runtimeAdapter a = JStr ''direct-systemd''); port = jget (ap_runtime a) ''port'' in
      a\<lparr>ap_servicePort := (if ap_servicePort a = JUndef then (if direct then nullish port JNull else JNull) else ap_servicePort a),
        ap_healthPath := (if ap_healthPath a = JUndef then nullish (jget (ap_runtime a) ''healthPath'') JNull else ap_healthPath a),
        ap_proxyTarget := (if ap_proxyTarget a = JUndef
          then (if ap_type a = JStr ''node'' \<and> direct \<and> truthy port then proxy_target port else JNull)
          else ap_proxyTarget a)\<rparr>)"

definition passenger_served :: "application \<Rightarrow> bool" where
  "passenger_served a = (ap_serviceName a \<noteq> JNull \<or> ap_servicePort a \<noteq> JNull \<or> ap_proxyTarget a \<noteq> JNull)"

definition php_runtime_fields :: "application \<Rightarrow> js list" where
  "php_runtime_fields a = [ap_repositoryUrl a, ap_branch a, ap_build a, ap_runtime a, ap_runtimeAdapter a, ap_serviceName a,
     ap_servicePort a, ap_healthPath a, ap_proxyTarget a]"

definition php_web_root :: "string \<Rightarrow> string" where
  "php_web_root i = ''/var/lib/yunpanel/apps/'' @ i @ ''/current/public''"

text \<open>The id is written into a template: the text of an id that is no string is not needed, as no web root is its value.\<close>

definition hydrate_checks :: "(application, unit) sm" where
  "hydrate_checks =
     sbind (sget id) (\<lambda>a.
     if ap_type a = JStr ''node'' \<and> ap_runtimeAdapter a = JStr ''passenger'' \<and> passenger_served a
     then sthrow (application_state_error ''Passenger Node application must not persist systemd or localhost proxy state'')
     else if ap_type a = JStr ''php'' \<and> \<not> list_all (\<lambda>v. v = JNull) (php_runtime_fields a)
     then sthrow (application_state_error ''PHP application state contains unsupported runtime or deployment fields'')
     else if ap_type a = JStr ''php'' \<and> (\<not> is_string (ap_id a) \<or> ap_webRoot a \<noteq> JStr (php_web_root (str_of (ap_id a))))
     then sthrow (application_state_error ''PHP application web root is outside the canonical current release'')
     else smod (\<lambda>a. if safe_at_least 1 (ap_desiredRevision a) then a else a\<lparr>ap_desiredRevision := JInt 1\<rparr>))"

definition applied_default :: "application \<Rightarrow> application" where
  "applied_default a =
     (if ap_appliedRevision a = JUndef
      then a\<lparr>ap_appliedRevision := (if truthy (ap_currentReleaseId a) then ap_desiredRevision a else JInt 0)\<rparr> else a)"

definition configuration_invalid :: "application \<Rightarrow> bool" where
  "configuration_invalid a =
     (\<not> safe_at_least 0 (ap_appliedRevision a) \<or> ap_currentReleaseId a = JNull \<and> ap_appliedRevision a \<noteq> JInt 0 \<or>
      ap_currentReleaseId a \<noteq> JNull \<and> (ap_activeRuntime a = JNull \<or> \<not> safe_at_least 1 (ap_appliedRevision a)))"

definition release_with :: "js \<Rightarrow> jobj \<Rightarrow> js" where
  "release_with r kvs = JObj (obj_spread (obj_of r) kvs)"

text \<open>\<open>const { port, ...withoutPort } = runtime\<close>\<close>

definition without_port :: "js \<Rightarrow> js" where
  "without_port v = JObj (filter (\<lambda>(k, w). k \<noteq> ''port'') (obj_of v))"

text \<open>\<open>appliedRevision || 1\<close> stands for an invalid revision of a release.\<close>

definition release_revision :: "application \<Rightarrow> js \<Rightarrow> js" where
  "release_revision a r =
     (if safe_at_least 1 (jget r ''configurationRevision'') then jget r ''configurationRevision''
      else if truthy (ap_appliedRevision a) then ap_appliedRevision a else JInt 1)"

definition hydrate_runtime_releases :: "application \<Rightarrow> (js \<Rightarrow> js res) \<Rightarrow> js list res" where
  "hydrate_runtime_releases a norm =
     map_res (\<lambda>r.
       if is_nullish r then Inl type_error
       else
         bnd (norm (nullish (nullish (jget r ''runtime'') (ap_activeRuntime a)) (ap_runtime a))) (\<lambda>runtime.
         Inr (release_with r [(''runtime'', runtime), (''configurationRevision'', release_revision a r)])))
       (arr_of (ap_releases a))"

definition hydrate_active :: "(js \<Rightarrow> js res) \<Rightarrow> (application, unit) sm" where
  "hydrate_active norm =
     sbind (sget id) (\<lambda>a.
     if ap_activeRuntime a = JUndef
     then smod (\<lambda>a. a\<lparr>ap_activeRuntime := (if truthy (ap_currentReleaseId a) then ap_runtime a else JNull)\<rparr>)
     else if ap_activeRuntime a \<noteq> JNull
     then sbind (slift (norm (ap_activeRuntime a))) (\<lambda>r. smod (\<lambda>a. a\<lparr>ap_activeRuntime := r\<rparr>))
     else sret ())"

definition hydrate_revisions :: "string \<Rightarrow> (application, unit) sm" where
  "hydrate_revisions message =
     sbind (smod applied_default) (\<lambda>_.
     sbind (sget configuration_invalid) (\<lambda>bad.
     if bad then sthrow (application_state_error message) else sret ()))"

definition hydrate_node_history :: "bool \<Rightarrow> (application, unit) sm" where
  "hydrate_node_history direct =
     sbind (hydrate_active (\<lambda>v. normalizeNodeRuntimeConfig v direct)) (\<lambda>_.
     sbind (hydrate_revisions ''Node application configuration state is invalid'') (\<lambda>_.
     sbind (sget (\<lambda>a. hydrate_runtime_releases a (\<lambda>v. normalizeNodeRuntimeConfig
         (if ap_runtimeAdapter a = JStr ''passenger'' \<and> \<not> is_nullish (jget v ''port'') then without_port v else v) direct))) (\<lambda>rs.
     sbind (slift rs) (\<lambda>releases.
     smod (\<lambda>a. a\<lparr>ap_releases := JArr releases\<rparr>)))))"

definition hydrate_node :: "app_deps \<Rightarrow> (application, unit) sm" where
  "hydrate_node d =
     sbind (sget id) (\<lambda>a.
     sbind (slift (node_config_of d a (ap_runtime a))) (\<lambda>runtime.
     sbind (smod (\<lambda>a. a\<lparr>ap_runtime := runtime\<rparr>)) (\<lambda>_.
     hydrate_node_history (ap_runtimeAdapter a = JStr ''direct-systemd''))))"

definition python_proxy :: "js \<Rightarrow> js" where
  "python_proxy runtime = (if truthy (jget runtime ''port'') then proxy_target (jget runtime ''port'') else JNull)"

text \<open>The names under which a Python application with this runtime is served.\<close>

definition serve_python :: "app_deps \<Rightarrow> js \<Rightarrow> (application, unit) sm" where
  "serve_python d runtime =
     sbind (sget ap_id) (\<lambda>i.
     sbind (slift (pythonServiceName d i)) (\<lambda>service.
     sbind (smod (\<lambda>a. a\<lparr>ap_serviceName := JStr service\<rparr>)) (\<lambda>_.
     sbind (slift (pythonSocketPath i)) (\<lambda>socket.
     smod (\<lambda>a. a\<lparr>ap_socketPath := JStr socket, ap_servicePort := nullish (jget runtime ''port'') JNull,
       ap_healthPath := nullish (jget runtime ''healthPath'') (JStr ''/''), ap_proxyTarget := python_proxy runtime\<rparr>)))))"

definition hydrate_python_history :: "app_deps \<Rightarrow> js \<Rightarrow> (application, unit) sm" where
  "hydrate_python_history d runtime =
     sbind (serve_python d runtime) (\<lambda>_.
     sbind (hydrate_active (\<lambda>v. normalizePythonRuntimeConfig (ad_number d) v False)) (\<lambda>_.
     sbind (hydrate_revisions ''Python application configuration state is invalid'') (\<lambda>_.
     sbind (sget (\<lambda>a. hydrate_runtime_releases a (\<lambda>v. normalizePythonRuntimeConfig (ad_number d) v False))) (\<lambda>rs.
     sbind (slift rs) (\<lambda>releases.
     smod (\<lambda>a. a\<lparr>ap_releases := JArr releases\<rparr>))))))"

definition hydrate_python :: "app_deps \<Rightarrow> (application, unit) sm" where
  "hydrate_python d =
     sbind (sget id) (\<lambda>a.
     sbind (slift (python_config_of d a (ap_runtime a))) (\<lambda>runtime.
     sbind (smod (\<lambda>a. a\<lparr>ap_runtime := runtime\<rparr>)) (\<lambda>_.
     hydrate_python_history d runtime)))"

definition hydrate_plain :: "application \<Rightarrow> application" where
  "hydrate_plain a0 =
     (let a = applied_default (a0\<lparr>ap_activeRuntime := JNull\<rparr>) in
      a\<lparr>ap_releases := JArr (map (\<lambda>r. release_with r [(''runtime'', JNull), (''configurationRevision'', JNull)]) (arr_of (ap_releases a)))\<rparr>)"

definition release_target :: "application \<Rightarrow> js \<Rightarrow> js res" where
  "release_target a v = normalizeGitDeploymentTarget v (branch_default (ap_branch a))"

definition find_release :: "application \<Rightarrow> js \<Rightarrow> js option" where
  "find_release a i = find (\<lambda>r. jget r ''releaseId'' = i) (arr_of (ap_releases a))"

definition hydrate_current_target :: "application \<Rightarrow> application res" where
  "hydrate_current_target a =
     (if ap_currentGitTarget a = JUndef
      then
        (if truthy (ap_currentReleaseId a)
         then
           let found = (case find_release a (ap_currentReleaseId a) of None \<Rightarrow> JUndef | Some r \<Rightarrow> jget r ''gitTarget'') in
           if is_nullish found then bnd (release_target a JNull) (\<lambda>t. Inr (a\<lparr>ap_currentGitTarget := t\<rparr>))
           else Inr (a\<lparr>ap_currentGitTarget := found\<rparr>)
         else Inr (a\<lparr>ap_currentGitTarget := JNull\<rparr>))
      else if ap_currentGitTarget a \<noteq> JNull
      then bnd (normalizeGitDeploymentTarget (ap_currentGitTarget a) None) (\<lambda>t. Inr (a\<lparr>ap_currentGitTarget := t\<rparr>))
      else Inr a)"

definition target_state_error :: jerr where
  "target_state_error = application_state_error ''Application Git deployment target state is invalid''"

definition hydrate_targets :: "(application, unit) sm" where
  "hydrate_targets =
     scatch
       (sbind (sget (\<lambda>a. map_res (\<lambda>r. bnd (release_target a (jget r ''gitTarget'')) (\<lambda>t. Inr (release_with r [(''gitTarget'', t)])))
          (arr_of (ap_releases a)))) (\<lambda>rs.
        sbind (slift rs) (\<lambda>releases.
        sbind (smod (\<lambda>a. a\<lparr>ap_releases := JArr releases\<rparr>)) (\<lambda>_.
        sbind (sget hydrate_current_target) (\<lambda>r.
        sbind (slift r) (\<lambda>a. smod (\<lambda>_. a)))))))
       (\<lambda>_. sthrow target_state_error)"

definition php_deployment_fields :: "application \<Rightarrow> js list" where
  "php_deployment_fields a = [ap_currentReleaseId a, ap_previousReleaseId a, ap_currentCommitSha a, ap_currentGitTarget a,
     ap_activeDeploymentId a, ap_pendingRollbackReleaseId a, ap_lastDeploymentId a, ap_lastDeployedAt a, ap_lastRolledBackAt a]"

definition hydrate_php :: "(application, unit) sm" where
  "hydrate_php =
     sbind (sget (\<lambda>a. arr_of (ap_releases a) \<noteq> [] \<or> \<not> list_all (\<lambda>v. v = JNull) (php_deployment_fields a))) (\<lambda>bad.
     if bad then sthrow (application_state_error ''PHP bootstrap Application must not persist legacy Git deployment state'')
     else smod (\<lambda>a. a\<lparr>ap_currentGitTarget := JNull, ap_appliedRevision := JInt 0\<rparr>))"

definition new_release :: "js \<Rightarrow> js \<Rightarrow> string \<Rightarrow> js \<Rightarrow> js \<Rightarrow> js \<Rightarrow> js \<Rightarrow> js \<Rightarrow> js \<Rightarrow> js" where
  "new_release releaseId deploymentId commitSha gitTarget files bytes deployedAt runtime revision =
     JObj [(''releaseId'', releaseId), (''deploymentId'', deploymentId), (''commitSha'', JStr commitSha), (''gitTarget'', gitTarget),
       (''artifactFiles'', files), (''artifactBytes'', bytes), (''deployedAt'', deployedAt), (''runtime'', runtime),
       (''configurationRevision'', revision)]"

definition runtime_or_null :: "application \<Rightarrow> js" where
  "runtime_or_null a = (if has_runtime a then ap_activeRuntime a else JNull)"

definition revision_or_null :: "application \<Rightarrow> js" where
  "revision_or_null a = (if has_runtime a then ap_appliedRevision a else JNull)"

text \<open>
  The current release of an application without a history becomes its one entry. The test converts the
  commit to a string, \<open>toLowerCase\<close> then needs one.
\<close>

definition hydrate_history :: "app_deps \<Rightarrow> (application, unit) sm" where
  "hydrate_history d =
     sbind (sget id) (\<lambda>a.
     if ap_type a = JStr ''php'' \<or> \<not> truthy (ap_currentReleaseId a) \<or> \<not> truthy (ap_currentCommitSha a) then sret ()
     else
       sbind (slift (js_text (ad_number d) (ap_currentCommitSha a))) (\<lambda>sha.
       if \<not> is_commit sha \<or> find_release a (ap_currentReleaseId a) \<noteq> None then sret ()
       else if \<not> is_string (ap_currentCommitSha a) then sthrow type_error
       else smod (\<lambda>a. a\<lparr>ap_releases := JArr (arr_of (ap_releases a) @
           [new_release (ap_currentReleaseId a) (ap_currentReleaseId a) (to_lower sha) (ap_currentGitTarget a) JNull JNull
              (nullish (nullish (ap_lastDeployedAt a) (ap_updatedAt a)) (ap_createdAt a)) (runtime_or_null a) (revision_or_null a)])\<rparr>)))"

definition hydrateApplication :: "app_deps \<Rightarrow> (application, unit) sm" where
  "hydrateApplication d =
     sbind (smod (\<lambda>a. if truthy (ap_type a) then a else a\<lparr>ap_type := JStr ''static''\<rparr>)) (\<lambda>_.
     sbind (sget ap_type) (\<lambda>t.
     if \<not> str_in t [''static'', ''node'', ''php'', ''python'']
     then sthrow (application_state_error ''Application type is not supported by the current registry'')
     else
       sbind hydrate_adapter (\<lambda>_.
       sbind (smod hydrate_defaults) (\<lambda>_.
       sbind hydrate_checks (\<lambda>_.
       sbind (if t = JStr ''node'' then hydrate_node d else if t = JStr ''python'' then hydrate_python d else smod hydrate_plain) (\<lambda>_.
       sbind (if t \<noteq> JStr ''php'' then hydrate_targets else hydrate_php) (\<lambda>_.
       hydrate_history d)))))))"

definition requireApplication :: "application list \<Rightarrow> js \<Rightarrow> nat res" where
  "requireApplication apps i =
     (case find (\<lambda>(n, a). strict_eq (ap_id a) i) (enumerate 0 apps) of
        None \<Rightarrow> Inl (application_error ''application_not_found'' ''Application not found'')
      | Some (n, a) \<Rightarrow> Inr n)"

text \<open>The first entry of each protected release, then the first of the others until the retention is reached.\<close>

fun keep_releases :: "(js \<Rightarrow> bool) \<Rightarrow> js list \<Rightarrow> js list \<Rightarrow> js list" where
  "keep_releases wanted retained [] = retained"
| "keep_releases wanted retained (r # rs) =
     keep_releases wanted
       (if wanted (jget r ''releaseId'') \<and> \<not> list_ex (\<lambda>e. jget e ''releaseId'' = jget r ''releaseId'') retained
        then retained @ [r] else retained) rs"

fun fill_releases :: "nat \<Rightarrow> js list \<Rightarrow> js list \<Rightarrow> js list" where
  "fill_releases retention retained [] = retained"
| "fill_releases retention retained (r # rs) =
     (if retention \<le> length retained then retained
      else fill_releases retention
        (if list_ex (\<lambda>e. jget e ''releaseId'' = jget r ''releaseId'') retained then retained else retained @ [r]) rs)"

definition trimReleaseHistory :: "application \<Rightarrow> application" where
  "trimReleaseHistory a =
     (let protected = filter truthy [ap_currentReleaseId a, ap_previousReleaseId a]; retention = nat (int_of (ap_retention a));
          releases = arr_of (ap_releases a); retained = keep_releases (\<lambda>i. i \<in> set protected) [] releases in
      a\<lparr>ap_releases := JArr (take retention (fill_releases retention retained releases))\<rparr>)"

section \<open>The store\<close>

definition stored_applications :: "application list \<Rightarrow> js" where
  "stored_applications apps = json_norm (JObj [(''version'', JInt 1), (''applications'', JArr (map (JObj \<circ> application_js) apps))])"

definition persist_apps :: "(app_store, unit) sm" where
  "persist_apps = persist_chained stored_applications"

text \<open>
  \<open>init\<close>: when it throws, what it had read is read again by the next call, as no call gets further.
\<close>

definition read_application :: "app_deps \<Rightarrow> js \<Rightarrow> application res" where
  "read_application d v =
     (if \<not> is_object v then Inl type_error
      else case hydrateApplication d (application_of v) of (Inl e, _) \<Rightarrow> Inl e | (Inr _, a) \<Rightarrow> Inr a)"

definition init_apps :: "app_deps \<Rightarrow> (app_store, unit) sm" where
  "init_apps d s =
     (if loaded s then (Inr (), s)
      else if \<not> has_path s then (Inr (), s\<lparr>loaded := True\<rparr>)
      else case disk s of
        NoFile \<Rightarrow> (Inr (), s\<lparr>loaded := True\<rparr>)
      | CorruptFile \<Rightarrow> (Inl (Err ''SyntaxError'' None ''''), s)
      | JsonFile v \<Rightarrow>
          if jget v ''version'' \<noteq> JInt 1 \<or> \<not> is_array (jget v ''applications'')
          then (Inl (Err ''Error'' None ''unsupported or invalid application registry state''), s)
          else case map_res (read_application d) (arr_of (jget v ''applications'')) of
            Inl e \<Rightarrow> (Inl e, s)
          | Inr apps \<Rightarrow> (Inr (), s\<lparr>memory := apps, loaded := True\<rparr>))"

definition ensureServer :: "app_deps \<Rightarrow> js \<Rightarrow> unit res" where
  "ensureServer d serverId =
     (if \<not> is_string serverId \<or> str_of serverId = [] then Inl (application_error ''invalid_server'' ''serverId is required'')
      else if \<not> ad_server d (str_of serverId) then Inl (application_error ''server_not_found'' ''Target server does not exist'')
      else Inr ())"

text \<open>
  An operation on one application: \<open>m\<close> works on it in place and says whether it is written and answered, or
  answered at once.
\<close>

definition on_application :: "js \<Rightarrow> (application, 'a) sm \<Rightarrow> (app_store, 'a \<times> application) sm" where
  "on_application i m s =
     (case requireApplication (memory s) i of
        Inl e \<Rightarrow> (Inl e, s)
      | Inr n \<Rightarrow> (case m (memory s ! n) of
          (Inl e, a) \<Rightarrow> (Inl e, s\<lparr>memory := (memory s)[n := a]\<rparr>)
        | (Inr x, a) \<Rightarrow> (Inr (x, a), s\<lparr>memory := (memory s)[n := a]\<rparr>)))"

definition change_application :: "app_deps \<Rightarrow> js \<Rightarrow> (application, bool) sm \<Rightarrow> (app_store, js) sm" where
  "change_application d i m =
     sbind (on_application i (sbind (hydrateApplication d) (\<lambda>_. m))) (\<lambda>(go, a).
     sbind (if go then persist_apps else sret ()) (\<lambda>_. sret (publicApplication a)))"

section \<open>Creation\<close>

definition baseApplication :: "js \<Rightarrow> js \<Rightarrow> js \<Rightarrow> string \<Rightarrow> app_config \<Rightarrow> js \<Rightarrow> application" where
  "baseApplication i serverId name type c timestamp =
     \<lparr>ap_id = i, ap_serverId = serverId, ap_name = name, ap_type = JStr type, ap_repositoryUrl = cf_repositoryUrl c,
      ap_branch = cf_branch c, ap_retention = cf_retention c, ap_runtimeAdapter = cf_runtimeAdapter c, ap_state = JStr ''draft'',
      ap_desiredRevision = JInt 1, ap_appliedRevision = JInt 0, ap_currentReleaseId = JNull, ap_previousReleaseId = JNull,
      ap_currentCommitSha = JNull, ap_currentGitTarget = JNull, ap_releases = JArr [], ap_activeDeploymentId = JNull,
      ap_pendingRollbackReleaseId = JNull, ap_lastDeploymentId = JNull, ap_lastDeployedAt = JNull, ap_lastRolledBackAt = JNull,
      ap_lastError = JNull, ap_serviceName = JNull, ap_servicePort = JNull, ap_healthPath = JNull, ap_proxyTarget = JNull,
      ap_activeRuntime = JNull, ap_createdAt = timestamp, ap_updatedAt = timestamp, ap_build = cf_build c,
      ap_runtime = cf_runtime c, ap_webRoot = JNull, ap_socketPath = JUndef\<rparr>"

definition identity_fields :: "application \<Rightarrow> js list" where
  "identity_fields a = map (\<lambda>v. nullish v JNull) [ap_serverId a, ap_name a, ap_type a, ap_repositoryUrl a, ap_branch a,
     ap_retention a, ap_build a, ap_runtime a, ap_runtimeAdapter a, ap_webRoot a]"

definition identity_conflict :: "string \<Rightarrow> jerr" where
  "identity_conflict msg = application_error ''application_identity_conflict'' msg"

definition existingApplication :: "app_deps \<Rightarrow> application \<Rightarrow> bool \<Rightarrow> (app_store, js option) sm" where
  "existingApplication d a idempotent =
     sbind (sget (\<lambda>s. find (\<lambda>c. strict_eq (ap_id c) (ap_id a)) (memory s))) (\<lambda>found.
     case found of
       None \<Rightarrow> sret None
     | Some existing \<Rightarrow>
         if \<not> idempotent then sthrow (identity_conflict ''Application identity already exists'')
         else if \<not> list_all2 sameValue (identity_fields existing) (identity_fields a)
         then sthrow (identity_conflict ''Application identity conflicts with existing state'')
         else sbind (on_application (ap_id a) (hydrateApplication d)) (\<lambda>(_, e). sret (Some (publicApplication e))))"

definition arg :: "js \<Rightarrow> string \<Rightarrow> js \<Rightarrow> js" where
  "arg v k dflt = (if jget v k = JUndef then dflt else jget v k)"

definition application_id :: "js \<Rightarrow> string \<Rightarrow> js res" where
  "application_id v fresh =
     (let i = arg v ''applicationId'' JNull in if is_nullish i then Inr (JStr fresh) else normalizeApplicationId i)"

text \<open>The end of every creation; \<open>conflict\<close> is the check of the port.\<close>

definition add_application :: "app_deps \<Rightarrow> js \<Rightarrow> (application list \<Rightarrow> unit res) \<Rightarrow> application \<Rightarrow> (app_store, js) sm" where
  "add_application d v conflict a =
     sbind (existingApplication d a (arg v ''applicationId'' JNull \<noteq> JNull)) (\<lambda>existing.
     case existing of
       Some e \<Rightarrow> sret e
     | None \<Rightarrow>
         sbind (sget (\<lambda>s. conflict (memory s))) (\<lambda>r.
         sbind (slift r) (\<lambda>_.
         sbind (mod_mem (\<lambda>apps. apps @ [a])) (\<lambda>_.
         sbind persist_apps (\<lambda>_. sret (publicApplication a))))))"

text \<open>The steps the creations share: a configuration, an identifier, a timestamp and a name.\<close>

definition create_application ::
  "app_deps \<Rightarrow> int \<Rightarrow> string \<Rightarrow> js \<Rightarrow> string \<Rightarrow> app_config res \<Rightarrow> (application list \<Rightarrow> app_config \<Rightarrow> unit res) \<Rightarrow>
   (application \<Rightarrow> string \<Rightarrow> application res) \<Rightarrow> (app_store, js) sm" where
  "create_application d now fresh v type config conflict finish =
     (if is_nullish v then sthrow type_error
      else
        sbind (init_apps d) (\<lambda>_.
        sbind (slift (ensureServer d (jget v ''serverId''))) (\<lambda>_.
        sbind (slift config) (\<lambda>c.
        sbind (slift (application_id v fresh)) (\<lambda>i.
        sbind (slift (toISOString now)) (\<lambda>timestamp.
        sbind (slift (bnd (validateName (jget v ''name'')) (\<lambda>name.
            finish (baseApplication i (jget v ''serverId'') name type c (JStr timestamp)) (str_of i)))) (\<lambda>a.
        add_application d v (\<lambda>apps. conflict apps c) a)))))))"

text \<open>
  Python computes the names of its service and socket before it checks the name; both succeed on the
  identifiers the registry accepts, so the order does not show.
\<close>

definition createApplication :: "app_deps \<Rightarrow> int \<Rightarrow> string \<Rightarrow> js \<Rightarrow> (app_store, js) sm" where
  "createApplication d now fresh v =
     create_application d now fresh v ''static''
       (normalizeStaticConfig d (jget v ''repositoryUrl'') (arg v ''branch'' (JStr ''main'')) (arg v ''build'' (JObj [])) (arg v ''retention'' (JInt 5)))
       (\<lambda>_ _. Inr ())
       (\<lambda>a i. Inr (a\<lparr>ap_webRoot := JStr (''/var/www/yunpanel/apps/'' @ i @ ''/current'')\<rparr>))"

definition port_conflict :: "string \<Rightarrow> string \<Rightarrow> string \<Rightarrow> js \<Rightarrow> js \<Rightarrow> application list \<Rightarrow> unit res" where
  "port_conflict type c msg serverId port apps =
     (if list_ex (\<lambda>a. strict_eq (ap_serverId a) serverId \<and> ap_type a = JStr type \<and> strict_eq (jget (ap_runtime a) ''port'') port) apps
      then Inl (application_error c msg) else Inr ())"

definition node_port_conflict :: "js \<Rightarrow> application list \<Rightarrow> app_config \<Rightarrow> unit res" where
  "node_port_conflict serverId apps c =
     (if cf_runtimeAdapter c = JStr ''direct-systemd''
      then port_conflict ''node'' ''node_port_conflict'' ''Node application port is already allocated on this server''
             serverId (jget (cf_runtime c) ''port'') apps
      else Inr ())"

definition createNodeApplication :: "app_deps \<Rightarrow> int \<Rightarrow> string \<Rightarrow> js \<Rightarrow> (app_store, js) sm" where
  "createNodeApplication d now fresh v =
     create_application d now fresh v ''node''
       (normalizeNodeConfig d (jget v ''repositoryUrl'') (arg v ''branch'' (JStr ''main'')) (jget v ''runtime'') (arg v ''retention'' (JInt 5))
          (jget v ''runtimeAdapter''))
       (node_port_conflict (jget v ''serverId''))
       (\<lambda>a i. let direct = (ap_runtimeAdapter a = JStr ''direct-systemd''); port = jget (ap_runtime a) ''port'' in
          Inr (a\<lparr>ap_servicePort := (if direct then port else JNull), ap_healthPath := jget (ap_runtime a) ''healthPath'',
            ap_proxyTarget := (if direct then proxy_target port else JNull)\<rparr>))"

definition php_config :: app_config where
  "php_config = \<lparr>cf_repositoryUrl = JNull, cf_branch = JNull, cf_build = JNull, cf_runtime = JNull, cf_retention = JInt 2,
     cf_runtimeAdapter = JNull\<rparr>"

definition createPhpApplication :: "app_deps \<Rightarrow> int \<Rightarrow> string \<Rightarrow> js \<Rightarrow> (app_store, js) sm" where
  "createPhpApplication d now fresh v =
     create_application d now fresh v ''php'' (Inr php_config) (\<lambda>_ _. Inr ()) (\<lambda>a i. Inr (a\<lparr>ap_webRoot := JStr (php_web_root i)\<rparr>))"

definition python_port_conflict :: "js \<Rightarrow> application list \<Rightarrow> app_config \<Rightarrow> unit res" where
  "python_port_conflict serverId apps c =
     (if truthy (jget (cf_runtime c) ''port'')
      then port_conflict ''python'' ''python_port_conflict'' ''Python application port is already allocated on this server''
             serverId (jget (cf_runtime c) ''port'') apps
      else Inr ())"

definition createPythonApplication :: "app_deps \<Rightarrow> int \<Rightarrow> string \<Rightarrow> js \<Rightarrow> (app_store, js) sm" where
  "createPythonApplication d now fresh v =
     create_application d now fresh v ''python''
       (normalizePythonConfig d (jget v ''repositoryUrl'') (arg v ''branch'' (JStr ''main'')) (arg v ''runtime'' (JObj [])) (arg v ''retention'' (JInt 5)))
       (python_port_conflict (jget v ''serverId''))
       (\<lambda>a i.
          bnd (pythonServiceName d (ap_id a)) (\<lambda>service.
          bnd (pythonSocketPath (ap_id a)) (\<lambda>socket.
          Inr (a\<lparr>ap_serviceName := JStr service, ap_socketPath := JStr socket, ap_servicePort := nullish (jget (ap_runtime a) ''port'') JNull,
            ap_healthPath := jget (ap_runtime a) ''healthPath'', ap_proxyTarget := python_proxy (ap_runtime a)\<rparr>))))"

text \<open>The first port of the range nobody has.\<close>

definition used_ports :: "js \<Rightarrow> application list \<Rightarrow> js list" where
  "used_ports serverId apps =
     map (\<lambda>a. jget (ap_runtime a) ''port'')
       (filter (\<lambda>a. strict_eq (ap_serverId a) serverId \<and> ap_type a = JStr ''node'' \<and> is_integer (jget (ap_runtime a) ''port'')) apps)"

definition allocateNodePort :: "app_deps \<Rightarrow> js \<Rightarrow> (app_store, js) sm" where
  "allocateNodePort d v =
     (let reserved = arg v ''reservedPorts'' (JArr []); start = arg v ''start'' (JInt 3100); last = arg v ''end'' (JInt 49151) in
      if v = JNull then sthrow type_error
      else
        sbind (init_apps d) (\<lambda>_.
        sbind (slift (ensureServer d (jget v ''serverId''))) (\<lambda>_.
        if \<not> is_array reserved \<or> \<not> list_all (int_between 1024 65535) (arr_of reserved) \<or> \<not> is_integer start \<or> \<not> is_integer last \<or>
           int_of start < 1024 \<or> 65535 < int_of last \<or> int_of last < int_of start
        then sthrow (application_error ''invalid_node_port_allocation'' ''Node port allocation bounds are invalid'')
        else
          sbind (sget (\<lambda>s. find (\<lambda>p. JInt p \<notin> set (arr_of reserved @ used_ports (jget v ''serverId'') (memory s)))
            [int_of start..int_of last])) (\<lambda>found.
          case found of
            None \<Rightarrow> sthrow (application_error ''node_port_exhausted'' ''No managed Node application port is available'')
          | Some p \<Rightarrow> sret (JInt p)))))"

end
