(* ===== verification/ApplicationOperations.thy ===== *)
theory ApplicationOperations
  imports ApplicationRegistry DurableJobs
begin

text \<open>
  The operations on an application of the registry (\<open>apps/api/src/application-registry.js\<close>): deployments and
  roll backs in two phases, the activation and reset of releases by website provisioning, the migration
  to Passenger, and the configuration of Node applications. Each works on the application in place:
  what it assigned before a throw stays.
\<close>

section \<open>Shared checks\<close>

definition sguard :: "bool \<Rightarrow> string \<Rightarrow> string \<Rightarrow> ('s, unit) sm" where
  "sguard bad c msg = (if bad then sthrow (application_error c msg) else sret ())"

definition updated :: "int \<Rightarrow> (application, unit) sm" where
  "updated now = sbind (slift (toISOString now)) (\<lambda>t. smod (\<lambda>a. a\<lparr>ap_updatedAt := JStr t\<rparr>))"

text \<open>Deployments and roll backs by jobs are for static, direct Node and Python applications.\<close>

definition legacy_guard :: "string \<Rightarrow> string \<Rightarrow> string \<Rightarrow> string \<Rightarrow> (application, unit) sm" where
  "legacy_guard c msg adapter_code adapter_msg =
     sbind (sget id) (\<lambda>a.
     sbind (sguard (\<not> str_in (ap_type a) [''static'', ''node'', ''python'']) c msg) (\<lambda>_.
     sguard (ap_type a = JStr ''node'' \<and> ap_runtimeAdapter a \<noteq> JStr ''direct-systemd'') adapter_code adapter_msg))"

definition deploy_guard :: "(application, unit) sm" where
  "deploy_guard = legacy_guard ''deployment_not_supported'' ''Legacy deployment flow is not supported for this application type''
     ''node_deploy_adapter_mismatch'' ''Passenger Node releases must use Website provisioning instead of the legacy systemd deploy flow''"

definition rollback_guard :: "(application, unit) sm" where
  "rollback_guard = legacy_guard ''rollback_not_supported'' ''Rollback is not implemented for this application type yet''
     ''node_rollback_adapter_mismatch'' ''Passenger Node rollback must use Website provisioning instead of the legacy systemd rollback flow''"

definition idle_guard :: "(application, unit) sm" where
  "idle_guard = sbind (sget (\<lambda>a. truthy (ap_activeDeploymentId a))) (\<lambda>busy.
     sguard busy ''deployment_in_progress'' ''Application already has an active operation'')"

definition checked_commit :: "js \<Rightarrow> string \<Rightarrow> string res" where
  "checked_commit v msg =
     (if \<not> is_string v \<or> \<not> is_commit (str_of v) then Inl (application_error ''invalid_commit_sha'' msg) else Inr (to_lower (str_of v)))"

definition checked_target :: "application \<Rightarrow> js \<Rightarrow> string \<Rightarrow> string \<Rightarrow> string \<Rightarrow> js res" where
  "checked_target a requested commit invalid_msg mismatch_msg =
     (case release_target a requested of
        Inl _ \<Rightarrow> Inl (application_error ''invalid_git_target'' invalid_msg)
      | Inr t \<Rightarrow>
          if jget t ''kind'' = JStr ''commit'' \<and> JStr commit \<noteq> jget t ''value''
          then Inl (application_error ''git_target_mismatch'' mismatch_msg) else Inr t)"

text \<open>\<open>releases.filter(other).unshift(release)\<close>, then the trim.\<close>

definition push_release :: "js \<Rightarrow> js \<Rightarrow> (application, unit) sm" where
  "push_release releaseId release =
     smod (\<lambda>a. trimReleaseHistory (a\<lparr>ap_releases := JArr (release # filter (\<lambda>r. jget r ''releaseId'' \<noteq> releaseId) (arr_of (ap_releases a)))\<rparr>))"

section \<open>Deployments\<close>

definition begin_deployment :: "int \<Rightarrow> js \<Rightarrow> (application, bool) sm" where
  "begin_deployment now deploymentId =
     sbind deploy_guard (\<lambda>_.
     sbind idle_guard (\<lambda>_.
     sbind (slift (normalizeReleaseUuid deploymentId ''deploymentId'')) (\<lambda>i.
     sbind (smod (\<lambda>a. a\<lparr>ap_state := JStr ''deploying'', ap_activeDeploymentId := i, ap_pendingRollbackReleaseId := JNull,
       ap_lastDeploymentId := i, ap_lastError := JNull\<rparr>)) (\<lambda>_.
     sbind (updated now) (\<lambda>_. sret True)))))"

definition markDeploying :: "app_deps \<Rightarrow> int \<Rightarrow> js \<Rightarrow> js \<Rightarrow> (app_store, js) sm" where
  "markDeploying d now applicationId deploymentId =
     sbind (init_apps d) (\<lambda>_. change_application d applicationId (begin_deployment now deploymentId))"

definition artifact_check :: "js \<Rightarrow> js \<Rightarrow> unit res" where
  "artifact_check files bytes =
     (if \<not> is_nullish files \<and> \<not> int_between 1 100000 files
      then Inl (application_error ''invalid_artifact_metadata'' ''Artifact file count is invalid'')
      else if \<not> is_nullish bytes \<and> \<not> int_between 0 (2 * 1024 * 1024 * 1024) bytes
      then Inl (application_error ''invalid_artifact_metadata'' ''Artifact byte size is invalid'')
      else Inr ())"

text \<open>The service, port and health a Node host reports must be those of the runtime.\<close>

definition node_report_check :: "app_deps \<Rightarrow> application \<Rightarrow> js \<Rightarrow> js \<Rightarrow> string \<Rightarrow> unit res" where
  "node_report_check d a runtime v phase =
     bnd (expectedNodeServiceName d (ap_id a)) (\<lambda>expected.
     let service = arg v ''serviceName'' JNull; port = arg v ''port'' JNull; health = arg v ''healthPath'' JNull in
     if \<not> is_string service \<or> \<not> is_node_service (str_of service) \<or> str_of service \<noteq> expected
     then Inl (application_error ''invalid_node_service'' (''Node '' @ phase @ '' service identity is invalid''))
     else if \<not> is_integer port \<or> port \<noteq> jget runtime ''port''
     then Inl (application_error ''invalid_node_port'' (''Node '' @ phase @ '' port does not match application state''))
     else if \<not> is_string health \<or> health \<noteq> jget runtime ''healthPath'' \<or> arg v ''healthy'' JNull \<noteq> JBool True
     then Inl (application_error ''invalid_node_health'' (''Node '' @ phase @ '' health result does not match application state''))
     else Inr ())"

definition deployed_runtime_check :: "app_deps \<Rightarrow> application \<Rightarrow> js \<Rightarrow> unit res" where
  "deployed_runtime_check d a v =
     (let requested = nullish (arg v ''runtime'' JNull) (ap_runtime a) in
      if ap_type a = JStr ''node''
      then
        bnd (node_config_of d a requested) (\<lambda>runtime.
        if \<not> sameValue runtime (ap_runtime a)
        then Inl (application_error ''node_runtime_state_drift'' ''Node deployment runtime does not match current desired configuration'')
        else node_report_check d a runtime v ''deployment'')
      else if ap_type a = JStr ''python''
      then
        bnd (python_config_of d a requested) (\<lambda>runtime.
        if \<not> sameValue runtime (ap_runtime a)
        then Inl (application_error ''python_runtime_state_drift'' ''Python deployment runtime does not match current desired configuration'')
        else Inr ())
      else Inr ())"

definition previous_value :: "application \<Rightarrow> js \<Rightarrow> js" where
  "previous_value a v = (if jget v ''previousReleaseId'' = JUndef then ap_currentReleaseId a else jget v ''previousReleaseId'')"

text \<open>How a Node application is served after a deployment or a roll back.\<close>

definition serve_node :: "js \<Rightarrow> application \<Rightarrow> application" where
  "serve_node v a = a\<lparr>ap_serviceName := arg v ''serviceName'' JNull, ap_servicePort := arg v ''port'' JNull,
     ap_healthPath := arg v ''healthPath'' JNull, ap_proxyTarget := proxy_target (arg v ''port'' JNull)\<rparr>"

definition take_over :: "js \<Rightarrow> js \<Rightarrow> js \<Rightarrow> application \<Rightarrow> application" where
  "take_over releaseId commit gitTarget a = a\<lparr>ap_previousReleaseId := ap_currentReleaseId a, ap_currentReleaseId := releaseId,
     ap_currentCommitSha := commit, ap_currentGitTarget := gitTarget, ap_activeDeploymentId := JNull,
     ap_pendingRollbackReleaseId := JNull, ap_state := JStr ''active'', ap_lastError := JNull\<rparr>"

definition apply_configuration :: "application \<Rightarrow> application" where
  "apply_configuration a = a\<lparr>ap_activeRuntime := ap_runtime a, ap_appliedRevision := ap_desiredRevision a\<rparr>"

text \<open>The checks of a report, before anything is assigned: the release, its commit and its target.\<close>

definition rguard :: "bool \<Rightarrow> string \<Rightarrow> string \<Rightarrow> unit res" where
  "rguard bad c msg = (if bad then Inl (application_error c msg) else Inr ())"

definition deployment_report :: "app_deps \<Rightarrow> js \<Rightarrow> application \<Rightarrow> (js \<times> string \<times> js) res" where
  "deployment_report d v a =
     bnd (normalizeReleaseUuid (jget v ''deploymentId'') ''deploymentId'') (\<lambda>deploymentId.
     bnd (normalizeReleaseUuid (jget v ''releaseId'') ''releaseId'') (\<lambda>releaseId.
     bnd (normalizeNullableUuid (previous_value a v) ''previousReleaseId'') (\<lambda>previous.
     bnd (rguard (ap_activeDeploymentId a \<noteq> deploymentId) ''deployment_mismatch''
       ''Deployment result does not match active application deployment'') (\<lambda>_.
     bnd (rguard (releaseId \<noteq> deploymentId) ''release_mismatch'' ''Application release must match deployment identity'') (\<lambda>_.
     bnd (rguard (previous \<noteq> ap_currentReleaseId a) ''release_state_drift''
       ''Managed server previous release does not match control-plane state'') (\<lambda>_.
     bnd (checked_commit (jget v ''commitSha'') ''Deployment commit SHA is invalid'') (\<lambda>commit.
     bnd (checked_target a (arg v ''gitTarget'' JNull) commit ''Deployment Git target is invalid''
       ''Deployment commit does not match the requested Git target'') (\<lambda>target.
     bnd (artifact_check (arg v ''artifactFiles'' JNull) (arg v ''artifactBytes'' JNull)) (\<lambda>_.
     bnd (deployed_runtime_check d a v) (\<lambda>_.
     Inr (releaseId, commit, target)))))))))))"

definition end_deployment :: "app_deps \<Rightarrow> int \<Rightarrow> js \<Rightarrow> (application, bool) sm" where
  "end_deployment d now v =
     sbind deploy_guard (\<lambda>_.
     sbind (sget (deployment_report d v)) (\<lambda>report.
     sbind (slift report) (\<lambda>(release, commit, target).
     sbind (slift (toISOString now)) (\<lambda>timestamp.
     sbind (sget id) (\<lambda>a.
     sbind (smod (\<lambda>a. (take_over release (JStr commit) target a)\<lparr>ap_lastDeployedAt := JStr timestamp, ap_updatedAt := JStr timestamp\<rparr>)) (\<lambda>_.
     sbind (if ap_type a = JStr ''node'' then smod (serve_node v \<circ> apply_configuration)
            else if ap_type a = JStr ''python''
            then sbind (smod apply_configuration) (\<lambda>_. serve_python d (ap_runtime a)) else sret ()) (\<lambda>_.
     sbind (sget id) (\<lambda>b.
     sbind (push_release release (new_release release release commit target (arg v ''artifactFiles'' JNull) (arg v ''artifactBytes'' JNull)
       (JStr timestamp) (runtime_or_null b) (revision_or_null b))) (\<lambda>_.
     sret True)))))))))"

definition markDeployed :: "app_deps \<Rightarrow> int \<Rightarrow> js \<Rightarrow> js \<Rightarrow> (app_store, js) sm" where
  "markDeployed d now applicationId v =
     (if is_nullish v then sthrow type_error
      else sbind (init_apps d) (\<lambda>_. change_application d applicationId (end_deployment d now v)))"

section \<open>Roll backs\<close>

definition begin_rollback :: "int \<Rightarrow> js \<Rightarrow> js \<Rightarrow> (application, bool) sm" where
  "begin_rollback now operationId releaseId =
     sbind rollback_guard (\<lambda>_.
     sbind idle_guard (\<lambda>_.
     sbind (sget id) (\<lambda>a.
     sbind (sguard (\<not> truthy (ap_currentReleaseId a)) ''application_not_deployed'' ''Application has no active release to roll back'') (\<lambda>_.
     sbind (slift (normalizeReleaseUuid operationId ''operationId'')) (\<lambda>operation.
     sbind (slift (normalizeReleaseUuid releaseId ''releaseId'')) (\<lambda>release.
     sbind (sguard (release = ap_currentReleaseId a) ''rollback_target_current'' ''Requested rollback release is already active'') (\<lambda>_.
     sbind (sguard (find_release a release = None) ''rollback_release_unknown'' ''Rollback release is not in retained application history'') (\<lambda>_.
     sbind (smod (\<lambda>a. a\<lparr>ap_state := JStr ''rolling_back'', ap_activeDeploymentId := operation,
       ap_pendingRollbackReleaseId := release, ap_lastError := JNull\<rparr>)) (\<lambda>_.
     sbind (updated now) (\<lambda>_. sret True))))))))))"

definition markRollingBack :: "app_deps \<Rightarrow> int \<Rightarrow> js \<Rightarrow> js \<Rightarrow> js \<Rightarrow> (app_store, js) sm" where
  "markRollingBack d now applicationId operationId releaseId =
     sbind (init_apps d) (\<lambda>_. change_application d applicationId (begin_rollback now operationId releaseId))"

definition rollback_target :: "application \<Rightarrow> js \<Rightarrow> js res" where
  "rollback_target a release =
     (case find_release a release of
        None \<Rightarrow> Inl (application_error ''rollback_release_unknown'' ''Rollback release is not in retained application history'')
      | Some r \<Rightarrow> Inr r)"

definition restore_configuration :: "js \<Rightarrow> application \<Rightarrow> application" where
  "restore_configuration target a = a\<lparr>ap_activeRuntime := jget target ''runtime'', ap_appliedRevision := jget target ''configurationRevision''\<rparr>"

definition rollback_report :: "app_deps \<Rightarrow> js \<Rightarrow> application \<Rightarrow> (js \<times> js) res" where
  "rollback_report d v a =
     bnd (normalizeReleaseUuid (jget v ''operationId'') ''operationId'') (\<lambda>operation.
     bnd (normalizeReleaseUuid (jget v ''releaseId'') ''releaseId'') (\<lambda>release.
     bnd (normalizeNullableUuid (previous_value a v) ''previousReleaseId'') (\<lambda>previous.
     bnd (rguard (ap_activeDeploymentId a \<noteq> operation \<or> ap_pendingRollbackReleaseId a \<noteq> release) ''rollback_mismatch''
       ''Rollback result does not match active application rollback'') (\<lambda>_.
     bnd (rguard (previous \<noteq> ap_currentReleaseId a) ''release_state_drift''
       ''Managed server current release does not match control-plane rollback state'') (\<lambda>_.
     bnd (rollback_target a release) (\<lambda>target.
     bnd (if ap_type a = JStr ''node''
       then bnd (normalizeNodeRuntimeConfig (jget target ''runtime'') True) (\<lambda>runtime. node_report_check d a runtime v ''rollback'')
       else Inr ()) (\<lambda>_.
     Inr (release, target))))))))"

definition end_rollback :: "app_deps \<Rightarrow> int \<Rightarrow> js \<Rightarrow> (application, bool) sm" where
  "end_rollback d now v =
     sbind rollback_guard (\<lambda>_.
     sbind (sget (rollback_report d v)) (\<lambda>report.
     sbind (slift report) (\<lambda>(release, target).
     sbind (slift (toISOString now)) (\<lambda>timestamp.
     sbind (sget id) (\<lambda>a.
     sbind (smod (\<lambda>a. (take_over release (jget target ''commitSha'') (jget target ''gitTarget'') a)
       \<lparr>ap_lastRolledBackAt := JStr timestamp, ap_updatedAt := JStr timestamp\<rparr>)) (\<lambda>_.
     sbind (if ap_type a = JStr ''node'' then smod (serve_node v \<circ> restore_configuration target)
            else if ap_type a = JStr ''python''
            then
              sbind (slift (normalizePythonRuntimeConfig (ad_number d) (jget target ''runtime'') False)) (\<lambda>runtime.
              sbind (smod (restore_configuration target)) (\<lambda>_. serve_python d runtime))
            else sret ()) (\<lambda>_.
     sbind (smod trimReleaseHistory) (\<lambda>_. sret True))))))))"

definition markRolledBack :: "app_deps \<Rightarrow> int \<Rightarrow> js \<Rightarrow> js \<Rightarrow> (app_store, js) sm" where
  "markRolledBack d now applicationId v =
     (if is_nullish v then sthrow type_error
      else sbind (init_apps d) (\<lambda>_. change_application d applicationId (end_rollback d now v)))"

definition fail_operation :: "int \<Rightarrow> js \<Rightarrow> js \<Rightarrow> (application, bool) sm" where
  "fail_operation now operationId errorCode =
     sbind (sget id) (\<lambda>a.
     if truthy (ap_activeDeploymentId a) \<and> ap_activeDeploymentId a \<noteq> operationId then sret False
     else
       sbind (smod (\<lambda>a. a\<lparr>ap_activeDeploymentId := JNull, ap_pendingRollbackReleaseId := JNull,
         ap_state := JStr (if truthy (ap_currentReleaseId a) then ''active'' else ''error''),
         ap_lastError := JStr (if is_string errorCode then take 120 (str_of errorCode) else ''deployment_failed'')\<rparr>)) (\<lambda>_.
       sbind (updated now) (\<lambda>_. sret True)))"

definition markFailed :: "app_deps \<Rightarrow> int \<Rightarrow> js \<Rightarrow> js \<Rightarrow> js \<Rightarrow> (app_store, js) sm" where
  "markFailed d now applicationId operationId errorCode =
     sbind (init_apps d) (\<lambda>_. change_application d applicationId (fail_operation now operationId errorCode))"

section \<open>Releases of website provisioning\<close>

text \<open>
  Passenger and Python releases are activated and reset by the same steps; what differs is a record: the type
  guard, the label of the messages, the codes, and whether the application must be served by nobody.
\<close>

record activation =
  av_mismatch :: "application \<Rightarrow> bool"
  av_code :: string
  av_label :: string
  av_type_label :: string
  av_drift :: string
  av_config :: "application \<Rightarrow> js \<Rightarrow> js res"
  av_clear :: bool

definition passenger_activation :: "app_deps \<Rightarrow> activation" where
  "passenger_activation d = \<lparr>av_mismatch = (\<lambda>a. ap_type a \<noteq> JStr ''node'' \<or> ap_runtimeAdapter a \<noteq> JStr ''passenger''),
     av_code = ''passenger_release'', av_label = ''Passenger'', av_type_label = ''a Passenger Node Application'',
     av_drift = ''node_runtime_state_drift'', av_config = node_config_of d, av_clear = True\<rparr>"

definition python_activation :: "app_deps \<Rightarrow> activation" where
  "python_activation d = \<lparr>av_mismatch = (\<lambda>a. ap_type a \<noteq> JStr ''python''), av_code = ''python_release'', av_label = ''Python'',
     av_type_label = ''a Python Application'', av_drift = ''python_runtime_state_drift'', av_config = python_config_of d, av_clear = False\<rparr>"

definition type_guard :: "activation \<Rightarrow> string \<Rightarrow> (application, unit) sm" where
  "type_guard k what =
     sbind (sget (av_mismatch k)) (\<lambda>bad.
     sguard bad (av_code k @ ''_adapter_mismatch'') (av_label k @ '' release '' @ what @ '' requires '' @ av_type_label k))"

definition release_guard :: "activation \<Rightarrow> js \<Rightarrow> js \<Rightarrow> (application, unit) sm" where
  "release_guard k operation release =
     sguard (operation \<noteq> release) ''release_mismatch'' (av_label k @ '' release must match provisioning operation identity'')"

text \<open>The evidence of a repeated activation agrees with what is kept.\<close>

definition activation_agrees :: "activation \<Rightarrow> application \<Rightarrow> js \<Rightarrow> js \<Rightarrow> string \<Rightarrow> js \<Rightarrow> js \<Rightarrow> bool" where
  "activation_agrees k a release previous commit target runtime =
     (find_release a release \<noteq> None \<and> ap_previousReleaseId a = previous \<and> ap_currentCommitSha a = JStr commit \<and>
      sameValue (ap_currentGitTarget a) target \<and> sameValue (ap_activeRuntime a) runtime \<and>
      ap_appliedRevision a = ap_desiredRevision a \<and> \<not> (av_clear k \<and> passenger_served a))"

definition serve_release :: "app_deps \<Rightarrow> activation \<Rightarrow> js \<Rightarrow> (application, unit) sm" where
  "serve_release d k runtime =
     (if av_clear k
      then smod (\<lambda>a. a\<lparr>ap_serviceName := JNull, ap_servicePort := JNull, ap_healthPath := jget runtime ''healthPath'', ap_proxyTarget := JNull\<rparr>)
      else serve_python d runtime)"

definition activate_release :: "app_deps \<Rightarrow> activation \<Rightarrow> int \<Rightarrow> js \<Rightarrow> (application, bool) sm" where
  "activate_release d k now v =
     sbind (type_guard k ''activation'') (\<lambda>_.
     sbind idle_guard (\<lambda>_.
     sbind (slift (normalizeReleaseUuid (jget v ''operationId'') ''operationId'')) (\<lambda>operation.
     sbind (slift (normalizeReleaseUuid (jget v ''releaseId'') ''releaseId'')) (\<lambda>release.
     sbind (slift (normalizeNullableUuid (jget v ''previousReleaseId'') ''previousReleaseId'')) (\<lambda>previous.
     sbind (release_guard k operation release) (\<lambda>_.
     sbind (slift (checked_commit (jget v ''commitSha'') (av_label k @ '' release commit SHA is invalid''))) (\<lambda>commit.
     sbind (sget id) (\<lambda>a.
     sbind (slift (checked_target a (arg v ''gitTarget'' JNull) commit (av_label k @ '' release Git target is invalid'')
       (av_label k @ '' release commit does not match the requested Git target''))) (\<lambda>target.
     sbind (slift (av_config k a (nullish (arg v ''runtime'' JNull) (ap_runtime a)))) (\<lambda>runtime.
     sbind (sguard (\<not> sameValue runtime (ap_runtime a)) (av_drift k)
       (av_label k @ '' release runtime does not match current desired configuration'')) (\<lambda>_.
     if ap_currentReleaseId a = release
     then
       sbind (sguard (\<not> activation_agrees k a release previous commit target runtime) (av_code k @ ''_state_drift'')
         (''Persisted '' @ av_label k @ '' release state conflicts with provisioning evidence'')) (\<lambda>_. sret False)
     else
       sbind (sguard (ap_currentReleaseId a \<noteq> previous) ''release_state_drift''
         (av_label k @ '' previous release does not match control-plane state'')) (\<lambda>_.
       sbind (slift (toISOString now)) (\<lambda>timestamp.
       sbind (smod (\<lambda>a. (take_over release (JStr commit) target a)\<lparr>ap_activeRuntime := runtime, ap_appliedRevision := ap_desiredRevision a,
         ap_lastDeploymentId := operation, ap_lastDeployedAt := JStr timestamp\<rparr>)) (\<lambda>_.
       sbind (serve_release d k runtime) (\<lambda>_.
       sbind (smod (\<lambda>a. a\<lparr>ap_updatedAt := JStr timestamp\<rparr>)) (\<lambda>_.
       sbind (push_release release (new_release release operation commit target JNull JNull (JStr timestamp) runtime (ap_desiredRevision a))) (\<lambda>_.
       sret True)))))))))))))))))"

definition change_by_id :: "app_deps \<Rightarrow> js \<Rightarrow> (application, bool) sm \<Rightarrow> (app_store, js) sm" where
  "change_by_id d applicationId m =
     sbind (init_apps d) (\<lambda>_.
     sbind (slift (normalizeApplicationId applicationId)) (\<lambda>i. change_application d i m))"

definition activatePassengerRelease :: "app_deps \<Rightarrow> int \<Rightarrow> js \<Rightarrow> js \<Rightarrow> (app_store, js) sm" where
  "activatePassengerRelease d now applicationId v =
     (if v = JNull then sthrow type_error else change_by_id d applicationId (activate_release d (passenger_activation d) now v))"

definition activatePythonRelease :: "app_deps \<Rightarrow> int \<Rightarrow> js \<Rightarrow> js \<Rightarrow> (app_store, js) sm" where
  "activatePythonRelease d now applicationId v =
     (if v = JNull then sthrow type_error else change_by_id d applicationId (activate_release d (python_activation d) now v))"

definition forget_release :: "js \<Rightarrow> application \<Rightarrow> application" where
  "forget_release release a = a\<lparr>ap_releases := JArr (filter (\<lambda>r. jget r ''releaseId'' \<noteq> release) (arr_of (ap_releases a))),
     ap_currentReleaseId := JNull, ap_previousReleaseId := JNull, ap_currentCommitSha := JNull, ap_currentGitTarget := JNull,
     ap_activeRuntime := JNull, ap_appliedRevision := JInt 0, ap_activeDeploymentId := JNull, ap_pendingRollbackReleaseId := JNull,
     ap_state := JStr ''draft'', ap_lastDeploymentId := JNull, ap_lastDeployedAt := JNull, ap_lastError := JNull\<rparr>"

definition reset_release :: "app_deps \<Rightarrow> activation \<Rightarrow> int \<Rightarrow> js \<Rightarrow> (application, bool) sm" where
  "reset_release d k now v =
     sbind (type_guard k ''reset'') (\<lambda>_.
     sbind (slift (normalizeReleaseUuid (jget v ''operationId'') ''operationId'')) (\<lambda>operation.
     sbind (slift (normalizeReleaseUuid (jget v ''releaseId'') ''releaseId'')) (\<lambda>release.
     sbind (release_guard k operation release) (\<lambda>_.
     sbind (sget id) (\<lambda>a.
     if ap_currentReleaseId a = JNull \<and> find_release a release = None then sret False
     else
       sbind (sguard (ap_currentReleaseId a \<noteq> release \<or> ap_previousReleaseId a \<noteq> JNull \<or> ap_lastDeploymentId a \<noteq> operation)
         (av_code k @ ''_reset_drift'') (av_label k @ '' release cannot be reset after control-plane state changed'')) (\<lambda>_.
       sbind (smod (forget_release release)) (\<lambda>_.
       sbind (if av_clear k then serve_release d k (ap_runtime a) else sret ()) (\<lambda>_.
       sbind (updated now) (\<lambda>_. sret True)))))))))"

definition resetPassengerInitialRelease :: "app_deps \<Rightarrow> int \<Rightarrow> js \<Rightarrow> js \<Rightarrow> (app_store, js) sm" where
  "resetPassengerInitialRelease d now applicationId v =
     (if v = JNull then sthrow type_error else change_by_id d applicationId (reset_release d (passenger_activation d) now v))"

definition resetPythonInitialRelease :: "app_deps \<Rightarrow> int \<Rightarrow> js \<Rightarrow> js \<Rightarrow> (app_store, js) sm" where
  "resetPythonInitialRelease d now applicationId v =
     (if v = JNull then sthrow type_error else change_by_id d applicationId (reset_release d (python_activation d) now v))"

text \<open>\<open>v && typeof v === 'object'\<close>: then the port is dropped.\<close>

definition drop_port :: "js \<Rightarrow> js" where
  "drop_port v = (if is_object v \<or> is_array v then without_port v else v)"

definition migrate_to_passenger :: "int \<Rightarrow> (application, bool) sm" where
  "migrate_to_passenger now =
     sbind (sget id) (\<lambda>a.
     sbind (sguard (ap_type a \<noteq> JStr ''node'') ''invalid_application_type'' ''Application is not a Node application'') (\<lambda>_.
     if ap_runtimeAdapter a = JStr ''passenger'' then sret False
     else
       sbind (slift (toISOString now)) (\<lambda>timestamp.
       sbind (smod (\<lambda>a. a\<lparr>ap_runtimeAdapter := JStr ''passenger'', ap_runtime := drop_port (ap_runtime a),
         ap_activeRuntime := drop_port (ap_activeRuntime a),
         ap_releases := JArr (map (\<lambda>r. if is_object (jget r ''runtime'') \<or> is_array (jget r ''runtime'')
             then release_with r [(''runtime'', drop_port (jget r ''runtime''))] else r) (arr_of (ap_releases a))),
         ap_serviceName := JNull, ap_servicePort := JNull, ap_proxyTarget := JNull, ap_updatedAt := JStr timestamp\<rparr>)) (\<lambda>_.
       sret True))))"

definition markPassengerMigrated :: "app_deps \<Rightarrow> int \<Rightarrow> js \<Rightarrow> js \<Rightarrow> (app_store, js) sm" where
  "markPassengerMigrated d now applicationId v =
     (if v = JNull then sthrow type_error else change_by_id d applicationId (migrate_to_passenger now))"

section \<open>Configuration of Node applications\<close>

definition node_preview :: "app_deps \<Rightarrow> js \<Rightarrow> application \<Rightarrow> jobj res" where
  "node_preview d requested a =
     (if ap_type a \<noteq> JStr ''node''
      then Inl (application_error ''node_configuration_not_supported'' ''Runtime configuration is available only for Node applications'')
      else if truthy (ap_activeDeploymentId a)
      then Inl (application_error ''deployment_in_progress'' ''Application already has an active operation'')
      else
        bnd (node_config_of d a requested) (\<lambda>nxt.
        if ap_runtimeAdapter a = JStr ''direct-systemd'' \<and> \<not> strict_eq (jget nxt ''port'') (jget (ap_runtime a) ''port'')
        then Inl (application_error ''node_port_immutable'' ''Managed Node port cannot be changed through runtime configuration'')
        else if sameValue nxt (ap_runtime a)
        then Inl (application_error ''node_configuration_no_changes'' ''Node runtime configuration does not change current desired state'')
        else
          let changed = js_sort str_compare (filter (\<lambda>k. \<not> sameValue (jget nxt k) (jget (ap_runtime a) k)) (keys_of nxt));
              core = [(''version'', JInt 1), (''applicationId'', ap_id a), (''currentRevision'', ap_desiredRevision a),
                (''currentReleaseId'', ap_currentReleaseId a), (''nextRuntime'', nxt),
                (''impact'', JObj [(''changedFields'', JArr (map JStr changed)),
                   (''deploymentRequired'', JBool (ap_currentReleaseId a \<noteq> JNull)), (''activeProcessChanged'', JBool False)])];
              digest = ad_digest d (json_norm (JObj core)) in
          Inr (core @ [(''previewDigest'', JStr digest),
            (''confirmation'', JStr (''update-node:'' @ str_of (ap_id a) @ '':'' @ int_text (int_of (ap_desiredRevision a)) @ '':'' @ digest)),
            (''autoApply'', JBool False)])))"

definition previewNodeConfiguration :: "app_deps \<Rightarrow> js \<Rightarrow> js \<Rightarrow> (app_store, js) sm" where
  "previewNodeConfiguration d applicationId requested =
     sbind (init_apps d) (\<lambda>_.
     sbind (slift (normalizeApplicationId applicationId)) (\<lambda>i.
     sbind (on_application i (sbind (hydrateApplication d) (\<lambda>_. sbind (sget (node_preview d requested)) slift))) (\<lambda>(preview, _).
     sret (JObj preview))))"

definition revision_conflict :: jerr where
  "revision_conflict = application_error ''application_revision_conflict'' ''Application changed after preview; request a new preview''"

definition apply_node_configuration :: "int \<Rightarrow> js \<Rightarrow> js \<Rightarrow> (application, bool) sm" where
  "apply_node_configuration now expectedRevision nxt =
     sbind (sget id) (\<lambda>a.
     if ap_desiredRevision a \<noteq> expectedRevision \<or> truthy (ap_activeDeploymentId a) then sthrow revision_conflict
     else
       sbind (smod (\<lambda>a. a\<lparr>ap_runtime := nxt, ap_desiredRevision := JInt (int_of (ap_desiredRevision a) + 1)\<rparr>)) (\<lambda>_.
       sbind (updated now) (\<lambda>_. sret True)))"

definition updateNodeConfiguration :: "app_deps \<Rightarrow> int \<Rightarrow> js \<Rightarrow> (app_store, js) sm" where
  "updateNodeConfiguration d now v =
     (let expected = jget v ''expectedRevision''; digest = jget v ''previewDigest'' in
      if v = JNull then sthrow type_error
      else if \<not> safe_at_least 1 expected
      then sthrow (application_error ''invalid_application_revision'' ''A positive Application revision is required'')
      else if \<not> str_sha256 digest
      then sthrow (application_error ''invalid_node_configuration_digest'' ''A current Node configuration preview digest is required'')
      else
        sbind (init_apps d) (\<lambda>_.
        sbind (slift (normalizeApplicationId (jget v ''applicationId''))) (\<lambda>i.
        sbind (on_application i (hydrateApplication d)) (\<lambda>(_, found).
        if ap_desiredRevision found \<noteq> expected then sthrow revision_conflict
        else
          sbind (previewNodeConfiguration d (jget v ''applicationId'') (jget v ''runtime'')) (\<lambda>preview.
          if jget preview ''currentRevision'' \<noteq> expected then sthrow revision_conflict
          else if jget preview ''previewDigest'' \<noteq> digest
          then sthrow (application_error ''node_configuration_preview_stale'' ''Node configuration preview is stale'')
          else if jget v ''confirmation'' \<noteq> jget preview ''confirmation''
          then sthrow (application_error ''node_configuration_confirmation_required'' ''Exact Node configuration confirmation is required'')
          else change_application d (jget preview ''applicationId'')
                 (apply_node_configuration now expected (jget preview ''nextRuntime'')))))))"

section \<open>Reads\<close>

definition getApplication :: "app_deps \<Rightarrow> js \<Rightarrow> (app_store, js) sm" where
  "getApplication d applicationId =
     sbind (init_apps d) (\<lambda>_.
     sbind (sget (\<lambda>s. requireApplication (memory s) applicationId)) (\<lambda>found.
     case found of
       Inl _ \<Rightarrow> sret JNull
     | Inr _ \<Rightarrow> sbind (on_application applicationId (hydrateApplication d)) (\<lambda>(_, a). sret (publicApplication a))))"

text \<open>\<open>state.applications.map(...)\<close>: one after the other until one throws.\<close>

fun hydrate_all :: "app_deps \<Rightarrow> application list \<Rightarrow> application list res \<times> application list" where
  "hydrate_all d [] = (Inr [], [])"
| "hydrate_all d (a # as) =
     (case hydrateApplication d a of
        (Inl e, a') \<Rightarrow> (Inl e, a' # as)
      | (Inr _, a') \<Rightarrow> (case hydrate_all d as of
          (Inl e, as') \<Rightarrow> (Inl e, a' # as')
        | (Inr bs, as') \<Rightarrow> (Inr (a' # bs), a' # as')))"

definition listApplications :: "app_deps \<Rightarrow> (app_store, js list) sm" where
  "listApplications d =
     sbind (init_apps d) (\<lambda>_.
     (\<lambda>s. case hydrate_all d (memory s) of
        (Inl e, as) \<Rightarrow> (Inl e, s\<lparr>memory := as\<rparr>)
      | (Inr bs, as) \<Rightarrow> (Inr (map publicApplication bs), s\<lparr>memory := as\<rparr>)))"

end
