(* ===== verification/ApplicationProofs.thy ===== *)
theory ApplicationProofs
  imports ApplicationOperations SpecTypes
begin

text \<open>
  The requests of the registry of applications, and the assignments its operations make: what leaves the
  identity, the adapter and the desired runtime of an application alone (\<open>same_config\<close>), and what keeps
  the facts that decide who is served on which port (\<open>core_le\<close>), with the reading back of a stored
  application last.
\<close>

section \<open>Rules\<close>

lemma keeps_lift: "(\<And>x. r = Inr x \<Longrightarrow> keeps I (f x)) \<Longrightarrow> keeps I (sbind (slift r) f)"
  by (cases r) (auto simp: keeps_def sbind_apply)

lemma keeps_sguard [keeps_rules]: "keeps I (sguard bad c msg)"
  by (simp add: sguard_def keeps_if keeps_sret keeps_sthrow)

lemma keeps_case_prod: "(\<And>a b. keeps I (f a b)) \<Longrightarrow> keeps I (case x of (a, b) \<Rightarrow> f a b)"
  by (cases x) simp

text \<open>For a fact that every assignment keeps on its own, what was read does not matter.\<close>

lemmas frame_rules = keeps_sbind keeps_if keeps_sret keeps_sthrow keeps_slift keeps_sget keeps_sguard keeps_smod keeps_scatch
  keeps_case_prod

section \<open>Requests\<close>

datatype app_request =
    CreateStatic int string js
  | CreateNode int string js
  | CreatePhp int string js
  | CreatePython int string js
  | AllocatePort js
  | Deploying int js js
  | Deployed int js js
  | ActivatePassenger int js js
  | ResetPassenger int js js
  | PassengerMigrated int js js
  | ActivatePython int js js
  | ResetPython int js js
  | RollingBack int js js js
  | RolledBack int js js
  | OperationFailed int js js js
  | Preview js js
  | UpdateConfiguration int js
  | GetApplication js
  | ListApplications

fun do_app :: "app_deps \<Rightarrow> app_request \<Rightarrow> app_store \<Rightarrow> app_store" where
  "do_app d (CreateStatic now fresh v) s = snd (createApplication d now fresh v s)"
| "do_app d (CreateNode now fresh v) s = snd (createNodeApplication d now fresh v s)"
| "do_app d (CreatePhp now fresh v) s = snd (createPhpApplication d now fresh v s)"
| "do_app d (CreatePython now fresh v) s = snd (createPythonApplication d now fresh v s)"
| "do_app d (AllocatePort v) s = snd (allocateNodePort d v s)"
| "do_app d (Deploying now i x) s = snd (markDeploying d now i x s)"
| "do_app d (Deployed now i v) s = snd (markDeployed d now i v s)"
| "do_app d (ActivatePassenger now i v) s = snd (activatePassengerRelease d now i v s)"
| "do_app d (ResetPassenger now i v) s = snd (resetPassengerInitialRelease d now i v s)"
| "do_app d (PassengerMigrated now i v) s = snd (markPassengerMigrated d now i v s)"
| "do_app d (ActivatePython now i v) s = snd (activatePythonRelease d now i v s)"
| "do_app d (ResetPython now i v) s = snd (resetPythonInitialRelease d now i v s)"
| "do_app d (RollingBack now i x r) s = snd (markRollingBack d now i x r s)"
| "do_app d (RolledBack now i v) s = snd (markRolledBack d now i v s)"
| "do_app d (OperationFailed now i x e) s = snd (markFailed d now i x e s)"
| "do_app d (Preview i r) s = snd (previewNodeConfiguration d i r s)"
| "do_app d (UpdateConfiguration now v) s = snd (updateNodeConfiguration d now v s)"
| "do_app d (GetApplication i) s = snd (getApplication d i s)"
| "do_app d ListApplications s = snd (listApplications d s)"

definition run_apps :: "app_deps \<Rightarrow> app_request list \<Rightarrow> app_store \<Rightarrow> app_store" where
  "run_apps d rs s = foldl (\<lambda>t r. do_app d r t) s rs"

text \<open>A new registry: without a file, or with a path at which there is none.\<close>

definition new_registry :: "bool \<Rightarrow> bool list \<Rightarrow> app_store" where
  "new_registry path outcomes = \<lparr>memory = [], disk = NoFile, has_path = path, loaded = False, chain_ok = True, writes = outcomes\<rparr>"

section \<open>Relations between applications\<close>

definition same_config :: "application \<Rightarrow> application \<Rightarrow> bool" where
  "same_config a b = (ap_id b = ap_id a \<and> ap_serverId b = ap_serverId a \<and> ap_type b = ap_type a \<and>
     ap_runtimeAdapter b = ap_runtimeAdapter a \<and> ap_runtime b = ap_runtime a)"

lemma same_config_refl [simp]: "same_config a a"
  by (simp add: same_config_def)

lemma trim_fields [simp]:
  "ap_id (trimReleaseHistory a) = ap_id a" "ap_serverId (trimReleaseHistory a) = ap_serverId a"
  "ap_type (trimReleaseHistory a) = ap_type a" "ap_runtimeAdapter (trimReleaseHistory a) = ap_runtimeAdapter a"
  "ap_runtime (trimReleaseHistory a) = ap_runtime a"
  by (simp_all add: trimReleaseHistory_def Let_def)

lemmas body_defs = deploy_guard_def rollback_guard_def legacy_guard_def idle_guard_def updated_def push_release_def
  serve_python_def serve_release_def type_guard_def release_guard_def

lemmas config_defs = same_config_def take_over_def apply_configuration_def serve_node_def restore_configuration_def forget_release_def

lemma begin_deployment_config: "keeps (same_config a) (begin_deployment now i)"
  unfolding begin_deployment_def body_defs by (rule frame_rules | simp add: config_defs)+

lemma end_deployment_config: "keeps (same_config a) (end_deployment d now v)"
  unfolding end_deployment_def body_defs by (rule frame_rules | simp add: config_defs)+

lemma begin_rollback_config: "keeps (same_config a) (begin_rollback now i r)"
  unfolding begin_rollback_def body_defs by (rule frame_rules | simp add: config_defs)+

lemma end_rollback_config: "keeps (same_config a) (end_rollback d now v)"
  unfolding end_rollback_def body_defs by (rule frame_rules | simp add: config_defs)+

lemma fail_operation_config: "keeps (same_config a) (fail_operation now i e)"
  unfolding fail_operation_def body_defs by (rule frame_rules | simp add: config_defs)+

lemma activate_release_config: "keeps (same_config a) (activate_release d k now v)"
  unfolding activate_release_def body_defs by (rule frame_rules | simp add: config_defs)+

lemma reset_release_config: "keeps (same_config a) (reset_release d k now v)"
  unfolding reset_release_def body_defs by (rule frame_rules | simp add: config_defs)+

section \<open>Who is served on which port\<close>

definition APPLICATION_TYPES :: "string list" where
  "APPLICATION_TYPES = [''static'', ''node'', ''php'', ''python'']"

definition direct_node :: "application \<Rightarrow> bool" where
  "direct_node a = (ap_type a = JStr ''node'' \<and> ap_runtimeAdapter a = JStr ''direct-systemd'')"

text \<open>What the creations establish of an application and every operation keeps.\<close>

definition app_core :: "application \<Rightarrow> bool" where
  "app_core a = (is_string (ap_id a) \<and> is_string (ap_serverId a) \<and> str_in (ap_type a) APPLICATION_TYPES \<and>
     (if ap_type a = JStr ''node'' then str_in (ap_runtimeAdapter a) NODE_RUNTIME_ADAPTERS else ap_runtimeAdapter a = JNull) \<and>
     (direct_node a \<longrightarrow> node_runtime_type True (ap_runtime a)) \<and>
     (ap_type a = JStr ''python'' \<longrightarrow> python_runtime_type False (ap_runtime a)))"

text \<open>The port an application is served on: Passenger and Python without a port use sockets.\<close>

definition owned_port :: "application \<Rightarrow> js" where
  "owned_port a = (if direct_node a \<or> ap_type a = JStr ''python'' then jget (ap_runtime a) ''port'' else JNull)"

text \<open>An operation keeps the identity, and it may give up the port but takes no other.\<close>

definition core_le :: "application \<Rightarrow> application \<Rightarrow> bool" where
  "core_le a b = (app_core b \<and> ap_id b = ap_id a \<and> ap_serverId b = ap_serverId a \<and> ap_type b = ap_type a \<and>
     (owned_port b = JNull \<or> owned_port b = owned_port a))"

lemma core_le_refl: "app_core a \<Longrightarrow> core_le a a"
  by (simp add: core_le_def)

lemma core_le_core: "core_le a b \<Longrightarrow> app_core b"
  by (simp add: core_le_def)

lemma core_le_trans: "core_le a b \<Longrightarrow> core_le b c \<Longrightarrow> core_le a c"
  by (auto simp: core_le_def)

lemma same_config_core:
  assumes "same_config b c"
  shows "app_core c = app_core b" "owned_port c = owned_port b"
proof -
  note same = assms [unfolded same_config_def]
  have direct: "direct_node c = direct_node b" by (simp add: direct_node_def same)
  show "app_core c = app_core b" by (simp add: app_core_def same direct)
  show "owned_port c = owned_port b" by (simp add: owned_port_def same direct)
qed

lemma core_le_config: "core_le a b \<Longrightarrow> same_config b c \<Longrightarrow> core_le a c"
  using same_config_core [of b c] by (simp add: core_le_def same_config_def)

text \<open>A runtime may be replaced where it is not what the application is served by.\<close>

lemma core_le_runtime:
  assumes "core_le a s" "\<not> direct_node s" "ap_type s \<noteq> JStr ''python''"
  shows "core_le a (s\<lparr>ap_runtime := r\<rparr>)"
proof -
  have no: "\<not> direct_node (s\<lparr>ap_runtime := r\<rparr>)" using assms(2) by (simp add: direct_node_def)
  then have "app_core (s\<lparr>ap_runtime := r\<rparr>) = app_core s" using assms by (simp add: app_core_def)
  with no assms show ?thesis by (simp add: core_le_def owned_port_def)
qed

lemma keeps_core_config:
  assumes "\<And>b. keeps (same_config b) m"
  shows "keeps (core_le a) m"
proof (rule keepsI)
  fix s assume "core_le a s"
  then show "core_le a (snd (m s))"
    using core_le_config keepsD [OF assms same_config_refl] by simp
qed

lemma hydrate_active_config: "keeps (same_config a) (hydrate_active norm)"
  unfolding hydrate_active_def by (rule frame_rules | simp add: same_config_def)+

lemma hydrate_revisions_config: "keeps (same_config a) (hydrate_revisions msg)"
  unfolding hydrate_revisions_def by (rule frame_rules | simp add: same_config_def applied_default_def)+

lemma hydrate_node_history_config: "keeps (same_config a) (hydrate_node_history direct)"
  unfolding hydrate_node_history_def
  by (rule hydrate_active_config hydrate_revisions_config frame_rules | simp add: same_config_def)+

lemma serve_python_config: "keeps (same_config a) (serve_python d r)"
  unfolding serve_python_def by (rule frame_rules | simp add: same_config_def)+

lemma hydrate_python_history_config: "keeps (same_config a) (hydrate_python_history d r)"
  unfolding hydrate_python_history_def
  by (rule serve_python_config hydrate_active_config hydrate_revisions_config frame_rules | simp add: same_config_def)+

lemma hydrate_checks_config: "keeps (same_config a) hydrate_checks"
  unfolding hydrate_checks_def by (rule frame_rules | simp add: same_config_def)+

lemma hydrate_targets_config: "keeps (same_config a) hydrate_targets"
proof -
  have "same_config x y" if "hydrate_current_target x = Inr y" for x y
    using that by (auto simp: hydrate_current_target_def same_config_def Let_def split: if_splits)
  then have target: "keeps (same_config a) (sbind (sget hydrate_current_target) (\<lambda>r. sbind (slift r) (\<lambda>b. smod (\<lambda>_. b))))"
    by (fastforce simp: keeps_def sbind_apply same_config_def split: sum.splits)
  show ?thesis
    unfolding hydrate_targets_def
    by (rule keeps_scatch, rule keeps_sbind [OF keeps_sget], rule keeps_sbind [OF keeps_slift], rule keeps_sbind [OF keeps_smod],
        simp add: same_config_def, rule target, rule keeps_sthrow)
qed

lemma hydrate_php_config: "keeps (same_config a) hydrate_php"
  unfolding hydrate_php_def by (rule frame_rules | simp add: same_config_def)+

lemma hydrate_history_config: "keeps (same_config a) (hydrate_history d)"
  unfolding hydrate_history_def by (rule frame_rules | simp add: same_config_def)+

lemma hydrate_adapter_core: "keeps (core_le a) hydrate_adapter"
proof (rule keepsI)
  fix s assume s: "core_le a s"
  then have core: "app_core s" by (simp add: core_le_def)
  have "snd (hydrate_adapter s) = s"
  proof (cases "ap_type s = JStr ''node''")
    case True
    then have "str_in (ap_runtimeAdapter s) NODE_RUNTIME_ADAPTERS" using core by (simp add: app_core_def)
    then have "\<not> is_nullish (ap_runtimeAdapter s)" "normalizeRuntimeAdapter (ap_runtimeAdapter s) = Inr (ap_runtimeAdapter s)"
      by (auto simp: normalizeRuntimeAdapter_def str_in_iff)
    then show ?thesis using True by (simp add: hydrate_adapter_def sbind_apply nullish_def)
  next
    case False
    then have "ap_runtimeAdapter s = JNull" using core by (simp add: app_core_def)
    then show ?thesis using False by (simp add: hydrate_adapter_def sbind_apply)
  qed
  with s show "core_le a (snd (hydrate_adapter s))" by simp
qed

lemma as_application_error_Inr [simp]: "as_application_error r = Inr x \<longleftrightarrow> r = Inr x"
  by (cases r) (auto simp: as_application_error_def)

lemma node_config_type:
  assumes "node_config_of d s v = Inr r" "str_in (ap_runtimeAdapter s) NODE_RUNTIME_ADAPTERS"
  shows "normalizeNodeRuntimeConfig v (ap_runtimeAdapter s = JStr ''direct-systemd'') = Inr r"
  using assms
  by (auto simp: node_config_of_def normalizeNodeConfig_def inferred_adapter_def normalizeRuntimeAdapter_def Let_def
      str_in_iff nullish_def split: if_splits)

lemma hydrate_node_core: "keeps (\<lambda>s. core_le a s \<and> ap_type s = JStr ''node'') (hydrate_node d)"
proof (rule keepsI)
  fix s assume s: "core_le a s \<and> ap_type s = JStr ''node''"
  then have le: "core_le a s" and node: "ap_type s = JStr ''node''" by blast+
  then have core: "app_core s" by (simp add: core_le_def)
  with node have adapter: "str_in (ap_runtimeAdapter s) NODE_RUNTIME_ADAPTERS" by (simp add: app_core_def)
  show "core_le a (snd (hydrate_node d s)) \<and> ap_type (snd (hydrate_node d s)) = JStr ''node''"
  proof (cases "node_config_of d s (ap_runtime s)")
    case (Inl e)
    with s show ?thesis by (simp add: hydrate_node_def sbind_apply)
  next
    case (Inr r)
    note norm = node_config_type [OF Inr adapter]
    have "core_le a (s\<lparr>ap_runtime := r\<rparr>)"
    proof (cases "direct_node s")
      case True
      then have "node_runtime_type True (ap_runtime s)" using core by (simp add: app_core_def)
      then have "r = ap_runtime s" using norm True node_runtime_complete by (simp add: direct_node_def)
      then show ?thesis using s by simp
    next
      case False
      with le node show ?thesis by (simp add: core_le_runtime)
    qed
    moreover have "same_config (s\<lparr>ap_runtime := r\<rparr>) (snd (hydrate_node d s))"
      using keepsD [OF hydrate_node_history_config same_config_refl] Inr by (simp add: hydrate_node_def sbind_apply)
    ultimately have "core_le a (snd (hydrate_node d s))" by (rule core_le_config)
    moreover have "ap_type (snd (hydrate_node d s)) = ap_type s"
      using calculation le by (simp add: core_le_def)
    ultimately show ?thesis using node by simp
  qed
qed

lemma hydrate_python_core: "keeps (\<lambda>s. core_le a s \<and> ap_type s = JStr ''python'') (hydrate_python d)"
proof (rule keepsI)
  fix s assume s: "core_le a s \<and> ap_type s = JStr ''python''"
  then have le: "core_le a s" and python: "ap_type s = JStr ''python''" by blast+
  have "python_runtime_type False (ap_runtime s)"
    using core_le_core [OF le] python by (simp add: app_core_def)
  then have again: "python_config_of d s (ap_runtime s) = Inr r \<Longrightarrow> s\<lparr>ap_runtime := r\<rparr> = s" for r
    by (auto simp: python_config_of_def normalizePythonConfig_def python_runtime_complete)
  have "same_config s (snd (hydrate_python d s))"
  proof (cases "python_config_of d s (ap_runtime s)")
    case (Inl e)
    then show ?thesis by (simp add: hydrate_python_def sbind_apply)
  next
    case (Inr r)
    then have "hydrate_python d s = hydrate_python_history d r s"
      by (simp add: hydrate_python_def sbind_apply again)
    then show ?thesis using keepsD [OF hydrate_python_history_config same_config_refl] by simp
  qed
  then have "core_le a (snd (hydrate_python d s))" "ap_type (snd (hydrate_python d s)) = ap_type s"
    using core_le_config [OF le] by (simp_all add: same_config_def)
  with python show "core_le a (snd (hydrate_python d s)) \<and> ap_type (snd (hydrate_python d s)) = JStr ''python''"
    by simp
qed

lemma hydrate_plain_core:
  assumes "core_le a s" "ap_type s \<noteq> JStr ''node''"
  shows "same_config s (hydrate_plain s)"
  by (simp add: hydrate_plain_def applied_default_def same_config_def Let_def)

lemma core_le_type: "core_le a s \<Longrightarrow> ap_type s = ap_type a \<and> truthy (ap_type a)"
  by (auto simp: core_le_def app_core_def str_in_iff APPLICATION_TYPES_def)

lemma keeps_core_smod: "(\<And>s. same_config s (f s)) \<Longrightarrow> keeps (core_le a) (smod f)"
  using core_le_config by (auto intro: keeps_smod)

lemma hydrate_kind_core:
  assumes "t = ap_type a"
  shows "keeps (core_le a) (if t = JStr ''node'' then hydrate_node d else if t = JStr ''python'' then hydrate_python d else smod hydrate_plain)"
proof (rule keepsI)
  fix s assume s: "core_le a s"
  then have t: "t = ap_type s" using assms core_le_type by simp
  show "core_le a (snd ((if t = JStr ''node'' then hydrate_node d else if t = JStr ''python'' then hydrate_python d
      else smod hydrate_plain) s))"
    using s t keepsD [OF hydrate_node_core [of a d], of s] keepsD [OF hydrate_python_core [of a d], of s]
      core_le_config [OF s hydrate_plain_core]
    by simp
qed

lemma smod_then: "sbind (smod f) g s = g () (f s)"
  by (simp add: sbind_apply)

lemma sget_then: "sbind (sget f) g s = g (f s) s"
  by (simp add: sbind_apply)

lemma hydrate_core: "keeps (core_le a) (hydrateApplication d)"
proof (rule keepsI)
  fix s assume s: "core_le a s"
  let ?rest = "sbind hydrate_adapter (\<lambda>_. sbind (smod hydrate_defaults) (\<lambda>_. sbind hydrate_checks (\<lambda>_.
       sbind (if ap_type a = JStr ''node'' then hydrate_node d else if ap_type a = JStr ''python'' then hydrate_python d
         else smod hydrate_plain) (\<lambda>_.
       sbind (if ap_type a \<noteq> JStr ''php'' then hydrate_targets else hydrate_php) (\<lambda>_. hydrate_history d)))))"
  have "keeps (core_le a) ?rest"
    by (intro keeps_sbind hydrate_adapter_core keeps_core_config [OF hydrate_checks_config] hydrate_kind_core [OF refl] keeps_if
        keeps_core_config [OF hydrate_targets_config] keeps_core_config [OF hydrate_php_config]
        keeps_core_config [OF hydrate_history_config] keeps_core_smod)
      (simp add: same_config_def hydrate_defaults_def Let_def)
  then have "core_le a (snd (?rest s))" using s by (rule keepsD)
  moreover have "hydrateApplication d s = (if \<not> str_in (ap_type a) [''static'', ''node'', ''php'', ''python'']
    then sthrow (application_state_error ''Application type is not supported by the current registry'') else ?rest) s"
    unfolding hydrateApplication_def smod_then sget_then using core_le_type [OF s] by (simp only: if_True)
  ultimately show "core_le a (snd (hydrateApplication d s))"
    using s by simp
qed

end
