(* ===== verification/ApplicationInvariant.thy ===== *)
theory ApplicationInvariant
  imports ApplicationProofs
begin

text \<open>
  Ports and identities in the registry of applications. The locale \<open>application_relation\<close> states what a
  relation between an application before and after must allow for the whole registry to follow it; it is
  interpreted on \<open>core_le\<close>. Creations add an application apart from the others.
\<close>

section \<open>Relations a registry follows\<close>

definition tracks :: "(application \<Rightarrow> application \<Rightarrow> bool) \<Rightarrow> application list \<Rightarrow> app_store \<Rightarrow> bool" where
  "tracks le as s = (loaded s \<and> list_all2 le as (memory s))"

lemma init_loaded: "loaded s \<Longrightarrow> init_apps d s = (Inr (), s)"
  by (simp add: init_apps_def)

lemma keeps_tracks_init: "keeps (tracks le as) (init_apps d)"
  by (simp add: keeps_def tracks_def init_loaded)

lemma keeps_tracks_persist: "keeps (tracks le as) persist_apps"
  by (simp add: keeps_def tracks_def persist_apps_def persist_chained_def write_file_def)

lemma found_member: "find P xs = Some x \<Longrightarrow> P x \<and> x \<in> set xs"
  by (induction xs) (auto split: if_splits)

lemma requireApplication_Inr:
  assumes "requireApplication apps i = Inr n"
  shows "n < length apps" "strict_eq (ap_id (apps ! n)) i"
proof -
  obtain a where "find (\<lambda>(n, a). strict_eq (ap_id a) i) (enumerate 0 apps) = Some (n, a)"
    using assms by (auto simp: requireApplication_def split: option.splits)
  then have "(n, a) \<in> set (enumerate 0 apps)" "strict_eq (ap_id a) i"
    by (auto dest!: found_member)
  then show "n < length apps" "strict_eq (ap_id (apps ! n)) i"
    by (auto simp: in_set_enumerate_eq)
qed

fun on_existing :: "app_request \<Rightarrow> bool" where
  "on_existing (CreateStatic _ _ _) = False"
| "on_existing (CreateNode _ _ _) = False"
| "on_existing (CreatePhp _ _ _) = False"
| "on_existing (CreatePython _ _ _) = False"
| "on_existing (AllocatePort _) = False"
| "on_existing (UpdateConfiguration _ _) = False"
| "on_existing _ = True"

locale application_relation =
  fixes ok :: "application \<Rightarrow> bool" and le :: "application \<Rightarrow> application \<Rightarrow> bool"
  assumes le_refl: "ok a \<Longrightarrow> le a a"
    and le_config: "le a b \<Longrightarrow> same_config b c \<Longrightarrow> le a c"
    and le_hydrate: "keeps (le a) (hydrateApplication d)"
    and le_migrate: "keeps (le a) (migrate_to_passenger now)"
begin

lemma tracks_refl: "loaded s \<Longrightarrow> list_all ok (memory s) \<Longrightarrow> tracks le (memory s) s"
  by (simp add: tracks_def list_all2_conv_all_nth list_all_length le_refl)

lemma config:
  assumes "\<And>b. keeps (same_config b) m"
  shows "keeps (le a) m"
  by (rule keepsI, erule le_config, rule keepsD [OF assms same_config_refl])

lemma on_one_at:
  assumes s: "tracks le as s" and m: "\<And>n. requireApplication (memory s) i = Inr n \<Longrightarrow> le (as ! n) (snd (m (memory s ! n)))"
  shows "tracks le as (snd (on_application i m s))"
proof -
  have step: "tracks le as (s\<lparr>memory := (memory s)[n := snd (m (memory s ! n))]\<rparr>)" if "requireApplication (memory s) i = Inr n" for n
    using s list_all2_update_cong [of le as "memory s" "as ! n" _ n, OF _ m [OF that]] by (simp add: tracks_def)
  show ?thesis
  proof (cases "requireApplication (memory s) i")
    case (Inr n)
    then show ?thesis using step [OF Inr] by (cases "m (memory s ! n)") (auto simp: on_application_def split: sum.splits)
  qed (simp add: on_application_def s)
qed

lemma on_one:
  assumes "\<And>a. keeps (le a) m"
  shows "keeps (tracks le as) (on_application i m)"
proof (rule keepsI)
  fix s assume s: "tracks le as s"
  have "le (as ! n) (snd (m (memory s ! n)))" if "requireApplication (memory s) i = Inr n" for n
  proof (rule keepsD [OF assms])
    show "le (as ! n) (memory s ! n)" using s requireApplication_Inr(1) [OF that] by (simp add: tracks_def list_all2_nthD2)
  qed
  with s show "tracks le as (snd (on_application i m s))" by (rule on_one_at)
qed

lemma change:
  assumes "\<And>a. keeps (le a) m"
  shows "keeps (tracks le as) (change_application d i m)"
proof -
  have go: "keeps (tracks le as) (case x of (go, a) \<Rightarrow>
      sbind (if go then persist_apps else sret ()) (\<lambda>_. sret (publicApplication a)))" for x
    by (cases x, simp only: prod.case, intro keeps_sbind keeps_if keeps_tracks_persist keeps_sret)
  show ?thesis
    unfolding change_application_def by (intro keeps_sbind [OF on_one go] keeps_sbind le_hydrate assms)
qed

lemma hydrate_list:
  "list_all2 le as bs \<Longrightarrow> list_all2 le as (snd (hydrate_all d bs))"
proof (induction as bs rule: list_all2_induct)
  case (Cons a as b bs)
  have "le a (snd (hydrateApplication d b))" using keepsD [OF le_hydrate Cons(1)] .
  with Cons show ?case by (auto split: sum.splits prod.splits)
qed simp

lemma keeps_tracks_hydrate: "keeps (tracks le as) (listApplications d)"
proof -
  have "keeps (tracks le as) (\<lambda>s. case hydrate_all d (memory s) of
      (Inl e, as) \<Rightarrow> (Inl e, s\<lparr>memory := as\<rparr>)
    | (Inr bs, as) \<Rightarrow> (Inr (map publicApplication bs), s\<lparr>memory := as\<rparr>))"
  proof (rule keepsI)
    fix s assume "tracks le as s"
    then have "loaded s" "list_all2 le as (snd (hydrate_all d (memory s)))"
      using hydrate_list by (auto simp: tracks_def)
    then show "tracks le as (snd (case hydrate_all d (memory s) of
      (Inl e, as) \<Rightarrow> (Inl e, s\<lparr>memory := as\<rparr>)
    | (Inr bs, as) \<Rightarrow> (Inr (map publicApplication bs), s\<lparr>memory := as\<rparr>)))"
      by (auto simp: tracks_def split: prod.splits sum.splits)
  qed
  then show ?thesis unfolding listApplications_def by (rule keeps_sbind [OF keeps_tracks_init])
qed

lemma preview: "keeps (tracks le as) (previewNodeConfiguration d x r)"
proof -
  have read: "keeps (le a) (sbind (hydrateApplication d) (\<lambda>_. sbind (sget (node_preview d r)) slift))" for a
    by (intro keeps_sbind le_hydrate keeps_sget keeps_slift)
  show ?thesis unfolding previewNodeConfiguration_def
    by (intro keeps_sbind keeps_tracks_init keeps_slift on_one [OF read]) (auto simp: keeps_def)
qed

lemma read: "keeps (tracks le as) (getApplication d x)"
  unfolding getApplication_def
  by (intro keeps_sbind keeps_tracks_init keeps_sget)
    (auto intro!: keeps_sbind on_one le_hydrate keeps_sret split: sum.splits)

lemmas one_rules = keeps_sbind [OF keeps_tracks_init] keeps_if keeps_sthrow keeps_sbind [OF keeps_slift] change

lemmas body_rules = config le_migrate begin_deployment_config end_deployment_config begin_rollback_config end_rollback_config
  fail_operation_config activate_release_config reset_release_config

lemma operations:
  "keeps (tracks le as) (markDeploying d now i x)"
  "keeps (tracks le as) (markDeployed d now i v)"
  "keeps (tracks le as) (activatePassengerRelease d now i v)"
  "keeps (tracks le as) (resetPassengerInitialRelease d now i v)"
  "keeps (tracks le as) (markPassengerMigrated d now i v)"
  "keeps (tracks le as) (activatePythonRelease d now i v)"
  "keeps (tracks le as) (resetPythonInitialRelease d now i v)"
  "keeps (tracks le as) (markRollingBack d now i x r)"
  "keeps (tracks le as) (markRolledBack d now i v)"
  "keeps (tracks le as) (markFailed d now i x e)"
  unfolding markDeploying_def markDeployed_def markRollingBack_def markRolledBack_def markFailed_def
    activatePassengerRelease_def activatePythonRelease_def resetPassengerInitialRelease_def resetPythonInitialRelease_def
    markPassengerMigrated_def change_by_id_def
  by (rule one_rules body_rules)+

text \<open>Every request on an existing application, but the change of a Node configuration.\<close>

lemma existing_request: "tracks le as s \<Longrightarrow> on_existing r \<Longrightarrow> tracks le as (do_app d r s)"
  by (cases r) (simp_all add: keepsD [OF preview] keepsD [OF read] keepsD [OF keeps_tracks_hydrate] keepsD [OF operations(1)]
      keepsD [OF operations(2)] keepsD [OF operations(3)] keepsD [OF operations(4)] keepsD [OF operations(5)] keepsD [OF operations(6)]
      keepsD [OF operations(7)] keepsD [OF operations(8)] keepsD [OF operations(9)] keepsD [OF operations(10)])

end

lemma migrate_core: "keeps (core_le a) (migrate_to_passenger now)"
proof (rule keepsI)
  fix s assume s: "core_le a s"
  have gone: "core_le a b" if "ap_id b = ap_id s" "ap_serverId b = ap_serverId s" "ap_type b = ap_type s" "ap_type s = JStr ''node''"
    "ap_runtimeAdapter b = JStr ''passenger''" for b
  proof -
    have "\<not> direct_node b" using that by (simp add: direct_node_def)
    moreover from this have "app_core b"
      using core_le_core [OF s] that by (simp add: app_core_def NODE_RUNTIME_ADAPTERS_def str_in_iff)
    moreover have "owned_port b = JNull" using that by (simp add: owned_port_def direct_node_def)
    ultimately show ?thesis using s that by (simp add: core_le_def)
  qed
  show "core_le a (snd (migrate_to_passenger now s))"
    using s by (auto simp: migrate_to_passenger_def sbind_apply sguard_def intro: gone split: sum.splits)
qed

interpretation managed: application_relation app_core core_le
  by unfold_locales (fact core_le_refl, fact core_le_config, fact hydrate_core, fact migrate_core)

section \<open>Applications apart\<close>

definition ports_apart :: "application \<Rightarrow> application \<Rightarrow> bool" where
  "ports_apart a b = (ap_serverId a = ap_serverId b \<and> ap_type a = ap_type b \<and> owned_port a = owned_port b \<longrightarrow> owned_port a = JNull)"

definition apps_ok :: "application list \<Rightarrow> bool" where
  "apps_ok as = (distinct (map ap_id as) \<and> list_all app_core as \<and> sorted_wrt ports_apart as)"

lemma core_le_ids: "list_all2 core_le as bs \<Longrightarrow> map ap_id bs = map ap_id as \<and> list_all app_core bs"
  by (induction rule: list_all2_induct) (auto simp: core_le_def)

lemma ports_apart_le: "ports_apart a b \<Longrightarrow> core_le a a' \<Longrightarrow> core_le b b' \<Longrightarrow> ports_apart a' b'"
  by (auto simp: ports_apart_def core_le_def)

lemma apps_ok_le:
  assumes "apps_ok as" "list_all2 core_le as bs"
  shows "apps_ok bs"
proof -
  have "sorted_wrt ports_apart bs"
    unfolding sorted_wrt_iff_nth_less
  proof (intro allI impI)
    fix i j assume ij: "i < j" "j < length bs"
    then have "ports_apart (as ! i) (as ! j)"
      using assms by (simp add: apps_ok_def sorted_wrt_iff_nth_less list_all2_lengthD)
    then show "ports_apart (bs ! i) (bs ! j)"
      using ij list_all2_nthD2 [OF assms(2)] ports_apart_le by (meson less_trans)
  qed
  with assms core_le_ids [OF assms(2)] show ?thesis by (simp add: apps_ok_def)
qed

lemma apps_ok_append:
  "apps_ok as \<Longrightarrow> app_core a \<Longrightarrow> ap_id a \<notin> set (map ap_id as) \<Longrightarrow> (\<forall>b \<in> set as. app_core b \<longrightarrow> ports_apart b a) \<Longrightarrow> apps_ok (as @ [a])"
  by (auto simp: apps_ok_def sorted_wrt_append list_all_iff)

text \<open>A registry in use, and one before its first request.\<close>

definition in_use :: "app_store \<Rightarrow> bool" where
  "in_use s = (loaded s \<and> apps_ok (memory s))"

definition registry_sound :: "app_store \<Rightarrow> bool" where
  "registry_sound s = (in_use s \<or> \<not> loaded s \<and> memory s = [] \<and> disk s = NoFile)"

lemma new_registry_sound: "registry_sound (new_registry path outcomes)"
  by (simp add: registry_sound_def new_registry_def)

lemma in_use_tracks: "in_use s \<Longrightarrow> tracks core_le (memory s) s"
  by (simp add: in_use_def apps_ok_def managed.tracks_refl)

lemma tracks_in_use: "in_use s \<Longrightarrow> tracks core_le (memory s) t \<Longrightarrow> in_use t"
  using apps_ok_le by (auto simp: in_use_def tracks_def)

lemma keeps_in_use:
  assumes "\<And>as. keeps (tracks core_le as) m"
  shows "keeps in_use m"
  by (rule keepsI) (metis assms in_use_tracks keepsD tracks_in_use)

lemma init_sound:
  assumes "registry_sound s"
  shows "\<exists>t. init_apps d s = (Inr (), t) \<and> in_use t"
proof (cases "loaded s")
  case True
  then show ?thesis using assms by (simp add: init_loaded registry_sound_def)
next
  case False
  then show ?thesis using assms by (auto simp: init_apps_def registry_sound_def in_use_def apps_ok_def)
qed

lemma keeps_after_init:
  assumes "\<And>x. keeps in_use (m x)"
  shows "keeps registry_sound (sbind (init_apps d) m)"
proof (rule keepsI)
  fix s assume "registry_sound s"
  then obtain t where "init_apps d s = (Inr (), t)" "in_use t" using init_sound by blast
  then show "registry_sound (snd (sbind (init_apps d) m s))"
    using keepsD [OF assms] by (simp add: sbind_Inr registry_sound_def)
qed

section \<open>Creations\<close>

lemma keeps_in_use_persist: "keeps in_use persist_apps"
  by (simp add: keeps_def in_use_def persist_apps_def persist_chained_def write_file_def)

lemma existing_in_use: "keeps in_use (existingApplication d a b)"
  unfolding existingApplication_def
  by (intro keeps_sbind keeps_sget)
    (auto intro!: keeps_sbind keeps_if keeps_sret keeps_sthrow keeps_in_use managed.on_one hydrate_core split: option.splits)

lemma existing_None:
  assumes "existingApplication d a b s = (Inr None, s')"
  shows "s' = s \<and> find (\<lambda>c. strict_eq (ap_id c) (ap_id a)) (memory s) = None"
  using assms
  by (auto simp: existingApplication_def sbind_apply split: option.splits if_splits sum.splits prod.splits)

lemma add_in_use:
  assumes core: "app_core a"
    and apart: "\<And>apps. conflict apps = Inr () \<Longrightarrow> \<forall>b \<in> set apps. app_core b \<longrightarrow> ports_apart b a"
  shows "keeps in_use (add_application d v conflict a)"
proof (rule keepsI)
  fix s assume s: "in_use s"
  let ?e = "existingApplication d a (arg v ''applicationId'' JNull \<noteq> JNull)"
  obtain r s' where e: "?e s = (r, s')" by fastforce
  then have s': "in_use s'" using keeps_result [OF existing_in_use s] by simp
  show "in_use (snd (add_application d v conflict a s))"
  proof (cases "r = Inr None \<and> conflict (memory s) = Inr ()")
    case True
    then have none: "s' = s" "find (\<lambda>c. strict_eq (ap_id c) (ap_id a)) (memory s) = None"
      using existing_None e by auto
    have "ap_id a \<notin> set (map ap_id (memory s))"
      using none(2) core by (cases "ap_id a") (auto simp: find_None_iff app_core_def)
    then have "in_use (s\<lparr>memory := memory s @ [a]\<rparr>)"
      using s apps_ok_append [OF _ core _ apart] True by (simp add: in_use_def)
    then have "in_use (snd (persist_apps (s\<lparr>memory := memory s @ [a]\<rparr>)))" by (rule keepsD [OF keeps_in_use_persist])
    then show ?thesis
      using True e none(1) by (auto simp: add_application_def sbind_apply split: sum.splits prod.splits)
  next
    case False
    then show ?thesis
      using e s' existing_None [of d a _ s s'] by (auto simp: add_application_def sbind_apply split: sum.splits option.splits)
  qed
qed

lemma create_in_use:
  assumes "\<And>c i name t a. config = Inr c \<Longrightarrow> is_string (jget v ''serverId'') \<Longrightarrow>
      finish (baseApplication (JStr i) (jget v ''serverId'') name type c (JStr t)) i = Inr a \<Longrightarrow>
      app_core a \<and> (\<forall>apps. conflict apps c = Inr () \<longrightarrow> (\<forall>b \<in> set apps. app_core b \<longrightarrow> ports_apart b a))"
  shows "keeps registry_sound (create_application d now fresh v type config conflict finish)"
proof -
  have added: "keeps in_use (add_application d v (\<lambda>apps. conflict apps c) a)"
    if given: "config = Inr c" "ensureServer d (jget v ''serverId'') = Inr u" "application_id v fresh = Inr i" "toISOString now = Inr t"
      "bnd (validateName (jget v ''name'')) (\<lambda>name.
         finish (baseApplication i (jget v ''serverId'') name type c (JStr t)) (str_of i)) = Inr a" for c u i t a
  proof -
    have "is_string (jget v ''serverId'')" using given(2) by (simp add: ensureServer_def split: if_splits)
    moreover have "i = JStr (str_of i)"
      using given(3) by (auto simp: application_id_def Let_def normalizeApplicationId_def split: if_splits sum.splits)
    moreover obtain name where
      "finish (baseApplication i (jget v ''serverId'') name type c (JStr t)) (str_of i) = Inr a"
      using given(5) by (auto elim: bnd_InrE)
    ultimately have "app_core a \<and> (\<forall>apps. conflict apps c = Inr () \<longrightarrow> (\<forall>b \<in> set apps. app_core b \<longrightarrow> ports_apart b a))"
      using assms [OF given(1), of "str_of i" name t a] by simp
    then show ?thesis by (intro add_in_use) blast+
  qed
  show ?thesis
    unfolding create_application_def
    by (intro keeps_if keeps_sthrow keeps_after_init keeps_lift added) assumption+
qed

lemma no_port_apart: "owned_port a = JNull \<Longrightarrow> ports_apart b a"
  by (auto simp: ports_apart_def)

text \<open>Static and PHP applications have no port.\<close>

lemma created_plain:
  assumes "is_string (ap_id a)" "is_string (ap_serverId a)" "ap_runtimeAdapter a = JNull"
    "ap_type a = JStr ''static'' \<or> ap_type a = JStr ''php''"
  shows "app_core a \<and> (\<forall>apps. P apps \<longrightarrow> (\<forall>b \<in> set apps. app_core b \<longrightarrow> ports_apart b a))"
proof -
  have "owned_port a = JNull" "\<not> direct_node a" using assms(4) by (auto simp: owned_port_def direct_node_def)
  with assms show ?thesis by (auto simp: app_core_def APPLICATION_TYPES_def str_in_iff no_port_apart)
qed

lemma base_fields [simp]:
  "ap_id (baseApplication i server name type c t) = i" "ap_serverId (baseApplication i server name type c t) = server"
  "ap_type (baseApplication i server name type c t) = JStr type"
  "ap_runtimeAdapter (baseApplication i server name type c t) = cf_runtimeAdapter c"
  "ap_runtime (baseApplication i server name type c t) = cf_runtime c"
  by (simp_all add: baseApplication_def)

lemma static_config_adapter: "normalizeStaticConfig d u b w r = Inr c \<Longrightarrow> cf_runtimeAdapter c = JNull"
  by (auto simp: normalizeStaticConfig_def split: prod.splits)

lemma createApplication_sound: "keeps registry_sound (createApplication d now fresh v)"
  unfolding createApplication_def
  by (rule create_in_use, rule created_plain) (auto dest!: static_config_adapter)

lemma createPhpApplication_sound: "keeps registry_sound (createPhpApplication d now fresh v)"
  unfolding createPhpApplication_def
  by (rule create_in_use, rule created_plain) (auto simp: php_config_def)

lemma node_config_core:
  "normalizeNodeConfig d u b w r k = Inr c \<Longrightarrow>
   str_in (cf_runtimeAdapter c) NODE_RUNTIME_ADAPTERS \<and>
   node_runtime_type (cf_runtimeAdapter c = JStr ''direct-systemd'') (cf_runtime c)"
  by (auto simp: normalizeNodeConfig_def normalizeRuntimeAdapter_def Let_def dest!: node_runtime_sound split: if_splits prod.splits)

lemma python_config_core:
  "normalizePythonConfig d u b w r = Inr c \<Longrightarrow> python_runtime_type False (cf_runtime c) \<and> cf_runtimeAdapter c = JNull"
  by (auto simp: normalizePythonConfig_def dest!: python_runtime_sound split: prod.splits)

lemma runtime_ports:
  "node_runtime_type True r \<Longrightarrow> int_between 1024 65535 (jget r ''port'')"
  "python_runtime_type False r \<Longrightarrow> int_between 1024 65535 (jget r ''port'') \<or> jget r ''port'' = JNull"
  by (auto simp: node_runtime_type_def python_runtime_type_def)

lemma strict_eq_int: "int_between l h v \<Longrightarrow> strict_eq w v \<longleftrightarrow> w = v"
  by (cases v; cases w) auto

lemma strict_eq_string: "is_string v \<Longrightarrow> strict_eq w v \<longleftrightarrow> w = v"
  by (cases v) auto

text \<open>Where the conflict check passes, no application of the type and server has the port.\<close>

lemma port_conflict_apart:
  assumes "port_conflict type c msg (ap_serverId a) (owned_port a) apps = Inr ()" "is_string (ap_serverId a)"
    "int_between 1024 65535 (owned_port a)" "ap_type a = JStr type" "b \<in> set apps"
  shows "ports_apart b a"
  using assms
  by (auto simp: port_conflict_def ports_apart_def list_ex_iff strict_eq_int strict_eq_string owned_port_def split: if_splits)

lemma createNodeApplication_sound: "keeps registry_sound (createNodeApplication d now fresh v)"
  unfolding createNodeApplication_def
proof (rule create_in_use)
  fix c i name t a
  assume c: "normalizeNodeConfig d (jget v ''repositoryUrl'') (arg v ''branch'' (JStr ''main'')) (jget v ''runtime'')
      (arg v ''retention'' (JInt 5)) (jget v ''runtimeAdapter'') = Inr c"
    and server: "is_string (jget v ''serverId'')"
    and a: "(\<lambda>a i. let direct = (ap_runtimeAdapter a = JStr ''direct-systemd''); port = jget (ap_runtime a) ''port'' in
          Inr (a\<lparr>ap_servicePort := (if direct then port else JNull), ap_healthPath := jget (ap_runtime a) ''healthPath'',
            ap_proxyTarget := (if direct then proxy_target port else JNull)\<rparr>))
        (baseApplication (JStr i) (jget v ''serverId'') name ''node'' c (JStr t)) i = Inr a"
  note config = node_config_core [OF c]
  have fields: "ap_id a = JStr i" "ap_serverId a = jget v ''serverId''" "ap_type a = JStr ''node''"
    "ap_runtimeAdapter a = cf_runtimeAdapter c" "ap_runtime a = cf_runtime c"
    using a by (auto simp: Let_def)
  then have core: "app_core a"
    using server config by (cases "cf_runtimeAdapter c = JStr ''direct-systemd''")
      (simp_all add: app_core_def direct_node_def APPLICATION_TYPES_def str_in_iff)
  have "ports_apart b a" if "node_port_conflict (jget v ''serverId'') apps c = Inr ()" "b \<in> set apps" for apps b
  proof (cases "direct_node a")
    case True
    then have "owned_port a = jget (cf_runtime c) ''port''" "cf_runtimeAdapter c = JStr ''direct-systemd''"
      using fields by (simp_all add: owned_port_def direct_node_def)
    then show ?thesis
      using that config fields server runtime_ports(1) port_conflict_apart [of "''node''" _ _ a] by (simp add: node_port_conflict_def)
  next
    case False
    then show ?thesis using fields by (intro no_port_apart) (simp add: owned_port_def)
  qed
  with core show "app_core a \<and> (\<forall>apps. node_port_conflict (jget v ''serverId'') apps c = Inr () \<longrightarrow>
    (\<forall>b \<in> set apps. app_core b \<longrightarrow> ports_apart b a))" by blast
qed

lemma createPythonApplication_sound: "keeps registry_sound (createPythonApplication d now fresh v)"
  unfolding createPythonApplication_def
proof (rule create_in_use)
  fix c i name t a
  assume c: "normalizePythonConfig d (jget v ''repositoryUrl'') (arg v ''branch'' (JStr ''main'')) (arg v ''runtime'' (JObj []))
      (arg v ''retention'' (JInt 5)) = Inr c"
    and server: "is_string (jget v ''serverId'')"
    and a: "bnd (pythonServiceName d (ap_id (baseApplication (JStr i) (jget v ''serverId'') name ''python'' c (JStr t)))) (\<lambda>service.
          bnd (pythonSocketPath (ap_id (baseApplication (JStr i) (jget v ''serverId'') name ''python'' c (JStr t)))) (\<lambda>socket.
          Inr ((baseApplication (JStr i) (jget v ''serverId'') name ''python'' c (JStr t))
            \<lparr>ap_serviceName := JStr service, ap_socketPath := JStr socket,
              ap_servicePort := nullish (jget (ap_runtime (baseApplication (JStr i) (jget v ''serverId'') name ''python'' c (JStr t))) ''port'') JNull,
              ap_healthPath := jget (ap_runtime (baseApplication (JStr i) (jget v ''serverId'') name ''python'' c (JStr t))) ''healthPath'',
              ap_proxyTarget := python_proxy (ap_runtime (baseApplication (JStr i) (jget v ''serverId'') name ''python'' c (JStr t)))\<rparr>))) = Inr a"
  note config = python_config_core [OF c]
  have fields: "ap_id a = JStr i" "ap_serverId a = jget v ''serverId''" "ap_type a = JStr ''python''"
    "ap_runtimeAdapter a = cf_runtimeAdapter c" "ap_runtime a = cf_runtime c"
    using a by auto
  then have core: "app_core a"
    using server config by (simp add: app_core_def direct_node_def APPLICATION_TYPES_def str_in_iff)
  have port: "owned_port a = jget (cf_runtime c) ''port''" using fields by (simp add: owned_port_def)
  have "ports_apart b a" if "python_port_conflict (jget v ''serverId'') apps c = Inr ()" "b \<in> set apps" for apps b
  proof (cases "owned_port a = JNull")
    case False
    then have "int_between 1024 65535 (owned_port a)" using runtime_ports(2) config port by metis
    moreover from this have "truthy (owned_port a)" by (cases "owned_port a") auto
    ultimately show ?thesis
      using that fields server port port_conflict_apart [of "''python''" _ _ a] by (simp add: python_port_conflict_def)
  qed (rule no_port_apart)
  with core show "app_core a \<and> (\<forall>apps. python_port_conflict (jget v ''serverId'') apps c = Inr () \<longrightarrow>
    (\<forall>b \<in> set apps. app_core b \<longrightarrow> ports_apart b a))" by blast
qed

end
