(* ===== verification/ApplicationGuarantees.thy ===== *)
theory ApplicationGuarantees
  imports ApplicationInvariant
begin

text \<open>
  The guarantees of the registry of applications: identities and ports after any requests, the retained
  releases, and what a returned deployment or roll back has changed.
\<close>

section \<open>A changed Node configuration\<close>

lemma requireApplication_ids:
  assumes "map ap_id as = map ap_id bs"
  shows "requireApplication as i = requireApplication bs i"
proof -
  have "map_option fst (find (\<lambda>(n, a). strict_eq (ap_id a) i) (enumerate k as)) =
      map_option fst (find (\<lambda>(n, a). strict_eq (ap_id a) i) (enumerate k bs))" for k
    using assms
  proof (induction as arbitrary: bs k)
    case (Cons a as)
    then obtain b bs' where "bs = b # bs'" "ap_id a = ap_id b" "map ap_id as = map ap_id bs'" by (cases bs) auto
    then show ?case using Cons.IH [of bs' "Suc k"] by simp
  qed simp
  moreover have "requireApplication xs i = (case map_option fst (find (\<lambda>(n, a). strict_eq (ap_id a) i) (enumerate 0 xs)) of
      None \<Rightarrow> Inl (application_error ''application_not_found'' ''Application not found'') | Some n \<Rightarrow> Inr n)" for xs
    by (auto simp: requireApplication_def split: option.split)
  ultimately show ?thesis by (simp only:)
qed

lemma on_application_returnsE:
  assumes "on_application i m s = (Inr y, s')"
  obtains n x a where "requireApplication (memory s) i = Inr n" "m (memory s ! n) = (Inr x, a)" "y = (x, a)"
    "s' = s\<lparr>memory := (memory s)[n := a]\<rparr>"
  using assms by (auto simp: on_application_def split: sum.splits prod.splits)

text \<open>A runtime an application may be given: for a direct Node application of its type and with its port.\<close>

definition takes_runtime :: "application \<Rightarrow> js \<Rightarrow> bool" where
  "takes_runtime a r = (ap_type a = JStr ''node'' \<and>
     (direct_node a \<longrightarrow> node_runtime_type True r \<and> jget r ''port'' = jget (ap_runtime a) ''port''))"

lemma takes_runtime_le:
  assumes "core_le a b" "takes_runtime a r" "same_config (b\<lparr>ap_runtime := r\<rparr>) c"
  shows "core_le a c"
proof -
  have le: "core_le a b" by fact
  have node: "ap_type b = JStr ''node''" using assms by (simp add: core_le_def takes_runtime_def)
  have "core_le a (b\<lparr>ap_runtime := r\<rparr>)"
  proof (cases "direct_node b")
    case True
    then have core: "node_runtime_type True (ap_runtime b)" using core_le_core [OF le] by (simp add: app_core_def)
    have port: "owned_port b = jget (ap_runtime b) ''port''" using True by (simp add: owned_port_def)
    then have "owned_port b \<noteq> JNull" using runtime_ports(1) [OF core] by auto
    then have same: "owned_port b = owned_port a" using le by (simp add: core_le_def)
    then have "direct_node a"
      using \<open>owned_port b \<noteq> JNull\<close> assms(2) by (auto simp: owned_port_def takes_runtime_def split: if_splits)
    then have r: "node_runtime_type True r" "jget r ''port'' = owned_port a"
      using assms(2) by (simp_all add: takes_runtime_def owned_port_def)
    have "app_core (b\<lparr>ap_runtime := r\<rparr>)"
      using core_le_core [OF le] node r by (simp add: app_core_def direct_node_def)
    moreover have "owned_port (b\<lparr>ap_runtime := r\<rparr>) = owned_port a"
      using True r by (simp add: owned_port_def direct_node_def)
    ultimately show ?thesis using le by (simp add: core_le_def)
  next
    case False
    then show ?thesis using le node by (intro core_le_runtime) simp_all
  qed
  then show ?thesis using assms(3) by (rule core_le_config)
qed

lemma node_preview_takes:
  assumes "node_preview d q a = Inr p" "app_core a"
  shows "jget (JObj p) ''applicationId'' = ap_id a \<and> takes_runtime a (jget (JObj p) ''nextRuntime'')"
proof -
  have node: "ap_type a = JStr ''node''" using assms(1) by (auto simp: node_preview_def split: if_splits)
  then have adapter: "str_in (ap_runtimeAdapter a) NODE_RUNTIME_ADAPTERS" using assms(2) by (simp add: app_core_def)
  obtain nxt where nxt: "node_config_of d a q = Inr nxt"
      "ap_runtimeAdapter a = JStr ''direct-systemd'' \<longrightarrow> strict_eq (jget nxt ''port'') (jget (ap_runtime a) ''port'')"
    and p: "jget (JObj p) ''applicationId'' = ap_id a" "jget (JObj p) ''nextRuntime'' = nxt"
    using assms(1) by (auto simp: node_preview_def Let_def split: if_splits)
  have "takes_runtime a nxt"
  proof (cases "direct_node a")
    case True
    then have "int_between 1024 65535 (jget (ap_runtime a) ''port'')"
      using assms(2) runtime_ports(1) by (simp add: app_core_def)
    with True nxt node node_runtime_sound [OF node_config_type [OF nxt(1) adapter]] show ?thesis
      by (simp add: takes_runtime_def direct_node_def strict_eq_int)
  next
    case False
    then show ?thesis using node by (simp add: takes_runtime_def)
  qed
  with p show ?thesis by simp
qed

lemma preview_takes:
  assumes s: "in_use s" and p: "previewNodeConfiguration d x q s = (Inr p, s')"
  shows "\<exists>n. requireApplication (memory s') (jget p ''applicationId'') = Inr n \<and> takes_runtime (memory s' ! n) (jget p ''nextRuntime'')"
proof -
  have "init_apps d s = (Inr (), s)" using s by (simp add: init_loaded in_use_def)
  then obtain i where i: "normalizeApplicationId x = Inr i" and
    run: "sbind (on_application i (sbind (hydrateApplication d) (\<lambda>_. sbind (sget (node_preview d q)) slift))) (\<lambda>(preview, _).
     sret (JObj preview)) s = (Inr p, s')"
    using p by (auto simp: previewNodeConfiguration_def sbind_Inr elim!: sbind_returnsE)
  then obtain y where y: "on_application i (sbind (hydrateApplication d) (\<lambda>_. sbind (sget (node_preview d q)) slift)) s = (Inr y, s')"
    "p = JObj (fst y)"
    by (auto elim!: sbind_returnsE)
  from y(1) obtain n p' a where n: "requireApplication (memory s) i = Inr n" and s': "s' = s\<lparr>memory := (memory s)[n := a]\<rparr>"
    and m: "sbind (hydrateApplication d) (\<lambda>_. sbind (sget (node_preview d q)) slift) (memory s ! n) = (Inr p', a)" and "y = (p', a)"
    by (rule on_application_returnsE)
  with y have p': "p = JObj p'" by simp
  let ?b = "memory s ! n"
  obtain u where h: "hydrateApplication d ?b = (Inr u, a)" and preview: "node_preview d q a = Inr p'"
    using m by (auto elim!: sbind_returnsE)
  have b: "n < length (memory s)" "strict_eq (ap_id ?b) i" using requireApplication_Inr [OF n] by simp_all
  have "app_core ?b" using s b by (simp add: in_use_def apps_ok_def list_all_length)
  then have le: "core_le ?b a" using keepsD [OF hydrate_core core_le_refl, of ?b d] h by simp
  obtain j where "i = JStr j" using i by (auto simp: normalizeApplicationId_def split: sum.splits)
  then have id: "ap_id a = i" using b le by (simp add: core_le_def)
  have "map ap_id (memory s') = map ap_id (memory s)"
    using le s' list_update_id [of "map ap_id (memory s)" n] b by (simp add: map_update core_le_def)
  then have "requireApplication (memory s') i = Inr n" using n requireApplication_ids [of "memory s'" "memory s" i] by simp
  moreover have "memory s' ! n = a" using s' b by simp
  ultimately show ?thesis
    using node_preview_takes [OF preview core_le_core [OF le]] p' id by (intro exI [of _ n]) simp
qed

lemma apply_in_use:
  assumes s: "in_use s" and n: "requireApplication (memory s) i = Inr n" and "takes_runtime (memory s ! n) r"
  shows "in_use (snd (change_application d i (apply_node_configuration now e r) s))"
proof -
  have step: "core_le a (snd (apply_node_configuration now e r b))" if "core_le a b" "takes_runtime a r" for a b
  proof -
    have keep: "core_le a c" if "same_config (b\<lparr>ap_runtime := r\<rparr>) c" for c by (rule takes_runtime_le) fact+
    show ?thesis using \<open>core_le a b\<close>
      by (auto simp: apply_node_configuration_def sbind_apply updated_def intro!: keep split: sum.splits)
        (simp_all add: same_config_def)
  qed
  let ?m = "sbind (hydrateApplication d) (\<lambda>_. apply_node_configuration now e r)"
  have "app_core (memory s ! n)"
    using s requireApplication_Inr(1) [OF n] by (simp add: in_use_def apps_ok_def list_all_length)
  then have le: "core_le (memory s ! n) (snd (hydrateApplication d (memory s ! n)))"
    by (intro keepsD [OF hydrate_core] core_le_refl)
  have "core_le (memory s ! n) (snd (?m (memory s ! n)))"
    using le step [OF le assms(3)] by (auto simp: sbind_apply split: prod.splits sum.splits)
  then have "tracks core_le (memory s) (snd (on_application i ?m s))"
    using n in_use_tracks [OF s] by (intro managed.on_one_at) simp_all
  then have t: "in_use (snd (on_application i ?m s))" using s tracks_in_use by blast
  then show ?thesis
    using keepsD [OF keeps_in_use_persist]
    by (auto simp: change_application_def sbind_apply split: prod.splits sum.splits) (metis snd_conv)+
qed

lemma updateNodeConfiguration_sound: "keeps registry_sound (updateNodeConfiguration d now v)"
proof -
  have last: "in_use (snd (g p s'))"
    if "in_use s" "previewNodeConfiguration d x q s = (Inr p, s')"
      and g: "g = (\<lambda>p. if c1 p then sthrow e1 else if c2 p then sthrow e2 else if c3 p then sthrow e3
        else change_application d (jget p ''applicationId'') (apply_node_configuration now r (jget p ''nextRuntime'')))"
    for s s' x q p r c1 c2 c3 e1 e2 e3 and g :: "js \<Rightarrow> (app_store, js) sm"
  proof -
    have s': "in_use s'"
      using keeps_result [OF keeps_in_use [OF managed.preview] that(1) that(2)] .
    then show ?thesis
      using preview_takes [OF that(1) that(2)] apply_in_use [OF s'] unfolding g by auto
  qed
  have preview: "keeps in_use (sbind (previewNodeConfiguration d x q) (\<lambda>p. if c1 p then sthrow e1 else if c2 p then sthrow e2
      else if c3 p then sthrow e3
      else change_application d (jget p ''applicationId'') (apply_node_configuration now r (jget p ''nextRuntime''))))"
    for x q r c1 c2 c3 e1 e2 e3
  proof (rule keepsI)
    fix s assume s: "in_use s"
    obtain y s' where run: "previewNodeConfiguration d x q s = (y, s')" by fastforce
    have s': "in_use s'" using keeps_result [OF keeps_in_use [OF managed.preview] s run] .
    show "in_use (snd (sbind (previewNodeConfiguration d x q) (\<lambda>p. if c1 p then sthrow e1 else if c2 p then sthrow e2
      else if c3 p then sthrow e3
      else change_application d (jget p ''applicationId'') (apply_node_configuration now r (jget p ''nextRuntime''))) s))"
    proof (cases y)
      case (Inl e)
      with run s' show ?thesis by (simp add: sbind_Inl)
    next
      case (Inr p)
      with run have "previewNodeConfiguration d x q s = (Inr p, s')" by simp
      from last [OF s this refl] this show ?thesis by (simp only: sbind_Inr)
    qed
  qed
  have rest: "keeps in_use (case y of (_, before) \<Rightarrow> if c before then sthrow e else
      sbind (previewNodeConfiguration d x q) (\<lambda>p. if c1 p then sthrow e1 else if c2 p then sthrow e2 else if c3 p then sthrow e3
      else change_application d (jget p ''applicationId'') (apply_node_configuration now r (jget p ''nextRuntime''))))"
    for y :: "unit \<times> application" and c e x q r c1 c2 c3 e1 e2 e3
    by (cases y, simp only: prod.case, intro keeps_if keeps_sthrow preview)
  show ?thesis
    unfolding updateNodeConfiguration_def Let_def
    by (intro keeps_if keeps_sthrow keeps_after_init keeps_sbind [OF keeps_slift]
        keeps_sbind [OF keeps_in_use [OF managed.on_one [OF hydrate_core]]] rest)
qed

lemma allocateNodePort_sound: "keeps registry_sound (allocateNodePort d v)"
  unfolding allocateNodePort_def Let_def
  by (intro keeps_if keeps_sthrow keeps_after_init keeps_sbind [OF keeps_slift] keeps_sbind [OF keeps_sget] keeps_case_option keeps_sret)

section \<open>Any requests\<close>

lemma keeps_registry_init: "keeps registry_sound (init_apps d)"
proof (rule keepsI)
  fix s assume "registry_sound s"
  then obtain t where "init_apps d s = (Inr (), t)" "in_use t" using init_sound by blast
  then show "registry_sound (snd (init_apps d s))" by (simp add: registry_sound_def)
qed

lemma settles_init: "settles (init_apps d)"
  by (auto simp: settles_def init_apps_def split: if_splits disk_file.splits sum.splits)

text \<open>An operation throws at once or starts by loading.\<close>

lemma sound_operation:
  assumes "\<And>as. keeps (tracks core_le as) m" "m = sthrow type_error \<or> (\<exists>k. m = sbind (init_apps d) (\<lambda>_. k))"
  shows "keeps registry_sound m"
  using assms(2)
proof (elim disjE exE)
  fix k assume "m = sbind (init_apps d) (\<lambda>_. k)"
  then have begins: "begins_with (init_apps d) m" using begins_with_bind [OF settles_init] by simp
  show ?thesis
  proof (rule keeps_begins_with [OF begins keeps_registry_init])
    fix s u t assume "init_apps d s = (Inr u, t)" "registry_sound t"
    then have "in_use t" by (auto simp: registry_sound_def init_apps_def split: if_splits disk_file.splits sum.splits)
    then show "registry_sound (snd (m t))" using keepsD [OF keeps_in_use [OF assms(1)]] by (simp add: registry_sound_def)
  qed
qed (simp add: keeps_sthrow)

lemmas sound_operations = managed.operations [THEN sound_operation] managed.preview [THEN sound_operation]
  managed.read [THEN sound_operation] managed.keeps_tracks_hydrate [THEN sound_operation]

lemma operations_sound:
  "keeps registry_sound (markDeploying d now i x)"
  "keeps registry_sound (markDeployed d now i v)"
  "keeps registry_sound (activatePassengerRelease d now i v)"
  "keeps registry_sound (resetPassengerInitialRelease d now i v)"
  "keeps registry_sound (markPassengerMigrated d now i v)"
  "keeps registry_sound (activatePythonRelease d now i v)"
  "keeps registry_sound (resetPythonInitialRelease d now i v)"
  "keeps registry_sound (markRollingBack d now i x r)"
  "keeps registry_sound (markRolledBack d now i v)"
  "keeps registry_sound (markFailed d now i x e)"
  "keeps registry_sound (previewNodeConfiguration d i r)"
  "keeps registry_sound (getApplication d i)"
  "keeps registry_sound (listApplications d)"
  by (rule sound_operations, (auto simp: markDeploying_def markDeployed_def markRollingBack_def markRolledBack_def markFailed_def
    activatePassengerRelease_def activatePythonRelease_def resetPassengerInitialRelease_def resetPythonInitialRelease_def
    markPassengerMigrated_def change_by_id_def previewNodeConfiguration_def getApplication_def listApplications_def) [1])+

lemmas requests_sound = operations_sound createApplication_sound createNodeApplication_sound createPhpApplication_sound
  createPythonApplication_sound allocateNodePort_sound updateNodeConfiguration_sound

lemma request_sound: "registry_sound s \<Longrightarrow> registry_sound (do_app d r s)"
  by (cases r) (simp_all, (erule keepsD [OF requests_sound(1)] keepsD [OF requests_sound(2)] keepsD [OF requests_sound(3)]
    keepsD [OF requests_sound(4)] keepsD [OF requests_sound(5)] keepsD [OF requests_sound(6)] keepsD [OF requests_sound(7)]
    keepsD [OF requests_sound(8)] keepsD [OF requests_sound(9)] keepsD [OF requests_sound(10)] keepsD [OF requests_sound(11)]
    keepsD [OF requests_sound(12)] keepsD [OF requests_sound(13)] keepsD [OF requests_sound(14)] keepsD [OF requests_sound(15)]
    keepsD [OF requests_sound(16)] keepsD [OF requests_sound(17)] keepsD [OF requests_sound(18)] keepsD [OF requests_sound(19)])+)

lemma requests_keep_sound: "registry_sound s \<Longrightarrow> registry_sound (run_apps d rs s)"
  by (induction rs arbitrary: s) (simp_all add: run_apps_def request_sound)

text \<open>C12 Whatever requests a new registry serves, whatever writes fail and whatever services answer: no two of its
  applications have the same identifier, and no two of the same server and type are served on the same port
  (direct Node applications on the port of their runtime, Python applications where they have one).\<close>

theorem ports_are_not_shared:
  assumes "i < j" "j < length as" "as = memory (run_apps d rs (new_registry path outcomes))"
  shows "ap_id (as ! i) \<noteq> ap_id (as ! j) \<and>
    (ap_serverId (as ! i) = ap_serverId (as ! j) \<and> ap_type (as ! i) = ap_type (as ! j) \<and> owned_port (as ! i) \<noteq> JNull \<longrightarrow>
     owned_port (as ! i) \<noteq> owned_port (as ! j))"
proof -
  have "registry_sound (run_apps d rs (new_registry path outcomes))"
    by (rule requests_keep_sound) (rule new_registry_sound)
  then have "apps_ok as" using assms(3) by (auto simp: registry_sound_def in_use_def apps_ok_def)
  then have "distinct (map ap_id as)" "ports_apart (as ! i) (as ! j)"
    using assms by (simp_all add: apps_ok_def sorted_wrt_iff_nth_less)
  then show ?thesis
    using assms(1,2) nth_eq_iff_index_eq [of "map ap_id as" i j] by (auto simp: ports_apart_def)
qed

text \<open>A parser for the addresses of repositories, and two direct Node applications.\<close>

definition shop_deps :: app_deps where
  "shop_deps = \<lparr>ad_url = (\<lambda>s. if starts_with s ''https://github.com/''
       then Some \<lparr>u_protocol = ''https:'', u_hostname = ''github.com'', u_username = [], u_password = [], u_search = [],
         u_hash = [], u_pathname = drop 18 s\<rparr> else None),
     ad_number = (\<lambda>_. []), ad_sha = (\<lambda>_. replicate 64 (CHR ''0'')), ad_digest = (\<lambda>_. []), ad_server = (\<lambda>_. True)\<rparr>"

definition node_request :: "string \<Rightarrow> int \<Rightarrow> js" where
  "node_request url port = JObj [(''serverId'', JStr ''s1''), (''name'', JStr ''shop''), (''repositoryUrl'', JStr url),
     (''runtime'', JObj [(''mode'', JStr ''production''), (''port'', JInt port),
        (''start'', JObj [(''mode'', JStr ''node''), (''entryFile'', JStr ''server.js'')])]),
     (''runtimeAdapter'', JStr ''direct-systemd'')]"

definition node_id :: string where
  "node_id = ''0f8fad5b-d9cb-469f-a165-70867728950e''"

definition two_shops :: "app_request list" where
  "two_shops = [CreateNode 0 node_id (node_request ''https://github.com/owner/shop'' 3100),
     CreateNode 0 ''7c9e6679-7425-40de-944b-e07fc1f90ae7'' (node_request ''https://github.com/owner/shop'' 3101)]"

theorem ports_are_not_shared_witness:
  "let as = memory (run_apps shop_deps two_shops (new_registry True [])) in
   length as = 2 \<and> owned_port (as ! 0) = JInt 3100 \<and> owned_port (as ! 0) \<noteq> owned_port (as ! 1)"
proof -
  let ?as = "memory (run_apps shop_deps two_shops (new_registry True []))"
  have "map (\<lambda>a. (ap_serverId a, ap_type a, owned_port a)) ?as =
      [(JStr ''s1'', JStr ''node'', JInt 3100), (JStr ''s1'', JStr ''node'', JInt 3101)]" by code_simp
  then have "length ?as = 2" "ap_serverId (?as ! 0) = ap_serverId (?as ! 1)" "ap_type (?as ! 0) = ap_type (?as ! 1)"
    "owned_port (?as ! 0) = JInt 3100"
    by (auto simp: map_eq_Cons_conv)
  then show ?thesis
    using ports_are_not_shared [of 0 1 ?as shop_deps two_shops True "[]"] by (simp add: Let_def)
qed

end
