(* ===== verification/ApplicationErrors.thy ===== *)
theory ApplicationErrors
  imports ApplicationGuarantees
begin

text \<open>
  Two ways in which the registry of applications fails its users: a repository URL it accepts and completes
  beyond the length it reads back, and a Python application on the port of a Node application.
\<close>

section \<open>Repository URLs\<close>

definition same_source :: "application \<Rightarrow> application \<Rightarrow> bool" where
  "same_source a b = (ap_type b = ap_type a \<and> ap_repositoryUrl b = ap_repositoryUrl a \<and> ap_id b = ap_id a)"

lemma adapter_source: "keeps (same_source a) hydrate_adapter"
  unfolding hydrate_adapter_def by (rule frame_rules | simp add: same_source_def)+

lemma checks_source: "keeps (same_source a) hydrate_checks"
  unfolding hydrate_checks_def by (rule frame_rules | simp add: same_source_def)+

lemma defaults_source: "keeps (same_source a) (smod hydrate_defaults)"
  by (rule keeps_smod) (simp add: same_source_def hydrate_defaults_def Let_def)

text \<open>A Node or Python application whose stored URL is too long cannot be read back.\<close>

definition long_url :: "application \<Rightarrow> bool" where
  "long_url a = ((ap_type a = JStr ''node'' \<or> ap_type a = JStr ''python'') \<and> is_string (ap_repositoryUrl a) \<and>
     300 < length (str_of (ap_repositoryUrl a)))"

lemma long_url_source: "same_source a b \<Longrightarrow> long_url b = long_url a"
  by (simp add: same_source_def long_url_def)

lemma source_config_long: "is_string u \<Longrightarrow> 300 < length (str_of u) \<Longrightarrow> \<exists>e. source_config d u b = Inl e"
  by (simp add: source_config_def normalizeGithubRepositoryUrl_def)

lemma node_long: "is_string (ap_repositoryUrl a) \<Longrightarrow> 300 < length (str_of (ap_repositoryUrl a)) \<Longrightarrow> \<exists>e. node_config_of d a r = Inl e"
  using source_config_long [of "ap_repositoryUrl a" d "ap_branch a"]
  by (auto simp: node_config_of_def normalizeNodeConfig_def as_application_error_def normalizeRuntimeAdapter_def Let_def)

lemma python_long: "is_string (ap_repositoryUrl a) \<Longrightarrow> 300 < length (str_of (ap_repositoryUrl a)) \<Longrightarrow> \<exists>e. python_config_of d a r = Inl e"
  using source_config_long [of "ap_repositoryUrl a" d "ap_branch a"]
  by (auto simp: python_config_of_def normalizePythonConfig_def as_application_error_def)

lemma throws_later: "keeps I m \<Longrightarrow> I s \<Longrightarrow> (\<And>x s'. I s' \<Longrightarrow> \<exists>e. fst (f x s') = Inl e) \<Longrightarrow> \<exists>e. fst (sbind m f s) = Inl e"
  by (auto simp: sbind_apply keeps_def split: prod.splits sum.splits)

lemma hydrate_long:
  assumes "long_url a"
  shows "\<exists>e. fst (hydrateApplication d a) = Inl e"
proof -
  have type: "truthy (ap_type a)" "str_in (ap_type a) [''static'', ''node'', ''php'', ''python'']"
    using assms by (auto simp: long_url_def str_in_iff)
  have kind: "\<exists>e. fst (sbind (if ap_type a = JStr ''node'' then hydrate_node d else if ap_type a = JStr ''python'' then hydrate_python d
      else smod hydrate_plain) f s) = Inl e" if "same_source a s" for s and f :: "unit \<Rightarrow> (application, unit) sm"
  proof -
    have s: "ap_type s = ap_type a" "is_string (ap_repositoryUrl s)" "300 < length (str_of (ap_repositoryUrl s))"
      using that assms by (simp_all add: same_source_def long_url_def)
    show ?thesis
    proof (cases "ap_type a = JStr ''node''")
      case True
      then show ?thesis using node_long [OF s(2,3), of d "ap_runtime s"] by (auto simp: hydrate_node_def sbind_apply)
    next
      case False
      then have "ap_type a = JStr ''python''" using assms by (simp add: long_url_def)
      then show ?thesis using python_long [OF s(2,3), of d "ap_runtime s"] by (auto simp: hydrate_python_def sbind_apply)
    qed
  qed
  have "\<exists>e. fst (sbind hydrate_adapter (\<lambda>_. sbind (smod hydrate_defaults) (\<lambda>_. sbind hydrate_checks (\<lambda>_.
       sbind (if ap_type a = JStr ''node'' then hydrate_node d else if ap_type a = JStr ''python'' then hydrate_python d
         else smod hydrate_plain) (\<lambda>_.
       sbind (if ap_type a \<noteq> JStr ''php'' then hydrate_targets else hydrate_php) (\<lambda>_. hydrate_history d))))) a) = Inl e"
    by (rule throws_later [OF adapter_source [of a]], simp add: same_source_def,
        rule throws_later [OF defaults_source [of a]], assumption, rule throws_later [OF checks_source [of a]], assumption, erule kind)
  then show ?thesis
    unfolding hydrateApplication_def smod_then sget_then using type by (simp only: if_True not_True_eq_False if_False)
qed

lemma hydrate_all_long: "\<exists>a \<in> set as. long_url a \<Longrightarrow> \<exists>e. fst (hydrate_all d as) = Inl e"
proof (induction as)
  case (Cons a as)
  obtain r b where h: "hydrateApplication d a = (r, b)" by fastforce
  show ?case
  proof (cases r)
    case (Inr u)
    then have "\<not> long_url a" using h hydrate_long [of a d] by auto
    then show ?thesis using Cons h Inr by (auto split: sum.splits prod.splits)
  qed (simp add: h)
qed simp

lemma listApplications_long:
  assumes "loaded s" "\<exists>a \<in> set (memory s). long_url a"
  shows "\<exists>e. fst (listApplications d s) = Inl e"
  using hydrate_all_long [OF assms(2), of d] assms(1)
  by (auto simp: listApplications_def sbind_apply init_loaded split: prod.splits sum.splits)

lemma getApplication_long:
  assumes "loaded s" "requireApplication (memory s) i = Inr n" "long_url (memory s ! n)"
  shows "\<exists>e. fst (getApplication d i s) = Inl e"
  using hydrate_long [OF assms(3), of d] assms(1,2)
  by (auto simp: getApplication_def sbind_apply init_loaded on_application_def split: prod.splits sum.splits)

section \<open>What a creation leaves\<close>

lemma application_keys: "distinct (map fst (application_js a))"
  by (simp add: application_js_def)

lemma application_fields:
  "jget (JObj (application_js a)) ''type'' = ap_type a" "jget (JObj (application_js a)) ''repositoryUrl'' = ap_repositoryUrl a"
  by (simp_all add: application_js_def)

lemma public_id: "jget (publicApplication a) ''id'' = ap_id a"
  by (simp add: publicApplication_def application_js_def obj_spread_def Let_def)

lemma requireApplication_last:
  "\<forall>c \<in> set as. \<not> strict_eq (ap_id c) i \<Longrightarrow> strict_eq (ap_id a) i \<Longrightarrow> requireApplication (as @ [a]) i = Inr (length as)"
proof -
  assume none: "\<forall>c \<in> set as. \<not> strict_eq (ap_id c) i" and a: "strict_eq (ap_id a) i"
  have "find (\<lambda>(n, a). strict_eq (ap_id a) i) (enumerate k (as @ [a])) = Some (k + length as, a)" for k
    using none a by (induction as arbitrary: k) auto
  then show ?thesis by (simp add: requireApplication_def)
qed

lemma add_application_returns:
  assumes "add_application d v conflict a s = (Inr w, s')" "arg v ''applicationId'' JNull = JNull"
  shows "w = publicApplication a \<and> memory s' = memory s @ [a] \<and> conflict (memory s) = Inr () \<and> loaded s' = loaded s \<and>
    (\<forall>c \<in> set (memory s). \<not> strict_eq (ap_id c) (ap_id a)) \<and>
    (has_path s' \<longrightarrow> disk s' = JsonFile (stored_applications (memory s')))"
  using assms
  by (auto simp: add_application_def existingApplication_def find_None_iff persist_apps_def dest!: persist_chained_ok
      elim!: sbind_returnsE split: option.splits if_splits)

lemma creation_returns:
  assumes "create_application d now fresh v type config conflict finish s = (Inr w, s')" "arg v ''applicationId'' JNull = JNull"
  obtains c i name t a where "config = Inr c" "finish (baseApplication (JStr i) (jget v ''serverId'') name type c (JStr t)) i = Inr a"
    "w = publicApplication a" "loaded s'" "a = last (memory s')" "memory s' \<noteq> []" "conflict (butlast (memory s')) c = Inr ()"
    "\<forall>c \<in> set (butlast (memory s')). \<not> strict_eq (ap_id c) (ap_id a)"
    "has_path s' \<longrightarrow> disk s' = JsonFile (stored_applications (memory s'))"
proof -
  obtain c t a name u s0 where parts: "init_apps d s = (Inr u, s0)" "config = Inr c"
    "finish (baseApplication (JStr fresh) (jget v ''serverId'') name type c (JStr t)) fresh = Inr a"
    "add_application d v (\<lambda>apps. conflict apps c) a s0 = (Inr w, s')"
    using assms
    by (auto simp: create_application_def application_id_def Let_def elim!: sbind_returnsE split: if_splits)
  have "loaded s0" using parts(1) by (auto simp: init_apps_def split: if_splits disk_file.splits sum.splits)
  with add_application_returns [OF parts(4) assms(2)] parts(2,3) show thesis
    by (intro that [of c fresh name t a]) (simp_all add: butlast_append)
qed

lemma init_long:
  assumes "disk s = JsonFile (stored_applications as)" "has_path s" "\<not> loaded s" "\<exists>a \<in> set as. long_url a"
  shows "\<exists>e. fst (init_apps d s) = Inl e"
proof -
  have long: "long_url (application_of (json_norm (JObj (application_js a))))" if "long_url a" for a
    using that json_norm_get [OF application_keys, of a] application_fields [of a]
    by (cases "ap_repositoryUrl a") (auto simp: long_url_def application_of_def)
  have "\<exists>e. map_res (read_application d) (map (\<lambda>a. json_norm (JObj (application_js a))) as) = Inl e" using assms(4)
  proof (induction as)
    case (Cons a as)
    show ?case
    proof (cases "long_url a")
      case True
      then obtain e b where "hydrateApplication d (application_of (json_norm (JObj (application_js a)))) = (Inl e, b)"
        using hydrate_long [OF long [OF True], of d] by (metis prod.collapse)
      then show ?thesis by (simp add: read_application_def del: json_norm.simps) 
    next
      case False
      then show ?thesis using Cons by (cases "read_application d (json_norm (JObj (application_js a)))") (auto simp del: json_norm.simps)
    qed
  qed simp
  then show ?thesis
    using assms by (auto simp: init_apps_def stored_applications_def comp_def)
qed

text \<open>The registry of a process that starts on the file of another.\<close>

definition restarted_registry :: "app_store \<Rightarrow> app_store" where
  "restarted_registry s = s\<lparr>memory := [], loaded := False, chain_ok := True, writes := []\<rparr>"

text \<open>C16 A Node application whose URL is accepted and becomes longer than 300 characters when it is completed is
  created and answered; after that it cannot be read, no application can be listed, and with a file no restarted
  registry can be initialised.\<close>

theorem accepted_urls_block_the_registry:
  assumes "createNodeApplication d now fresh v s = (Inr w, s')" "arg v ''applicationId'' JNull = JNull"
    and "normalizeGithubRepositoryUrl (ad_url d) (jget v ''repositoryUrl'') = Inr u" "300 < length u"
  shows "(\<exists>e. fst (getApplication d (jget w ''id'') s') = Inl e) \<and> (\<exists>e. fst (listApplications d s') = Inl e) \<and>
    (has_path s' \<longrightarrow> (\<exists>e. fst (init_apps d (restarted_registry s')) = Inl e))"
proof -
  from assms(1,2) obtain c i name t a where c: "normalizeNodeConfig d (jget v ''repositoryUrl'') (arg v ''branch'' (JStr ''main''))
      (jget v ''runtime'') (arg v ''retention'' (JInt 5)) (jget v ''runtimeAdapter'') = Inr c"
    and a: "(let b = baseApplication (JStr i) (jget v ''serverId'') name ''node'' c (JStr t);
          direct = (ap_runtimeAdapter b = JStr ''direct-systemd''); port = jget (ap_runtime b) ''port'' in
          Inr (b\<lparr>ap_servicePort := (if direct then port else JNull), ap_healthPath := jget (ap_runtime b) ''healthPath'',
            ap_proxyTarget := (if direct then proxy_target port else JNull)\<rparr>)) = (Inr a :: application res)"
    and s': "w = publicApplication a" "loaded s'" "a = last (memory s')" "memory s' \<noteq> []"
      "\<forall>c \<in> set (butlast (memory s')). \<not> strict_eq (ap_id c) (ap_id a)"
      "has_path s' \<longrightarrow> disk s' = JsonFile (stored_applications (memory s'))"
    unfolding createNodeApplication_def Let_def by (rule creation_returns)
  have url: "cf_repositoryUrl c = JStr u"
    using c assms(3) by (auto simp: normalizeNodeConfig_def source_config_def split: prod.splits)
  have "long_url a" "is_string (ap_id a)"
    using a url assms(4) by (auto simp: Let_def long_url_def baseApplication_def)
  moreover have mem: "memory s' = butlast (memory s') @ [a]" using s' by simp
  moreover have "strict_eq (ap_id a) (ap_id a)" using calculation(2) by (cases "ap_id a") auto
  ultimately have n: "requireApplication (memory s') (ap_id a) = Inr (length (butlast (memory s')))"
    using requireApplication_last [OF s'(5)] by metis
  have last: "long_url (memory s' ! length (butlast (memory s')))"
    using \<open>long_url a\<close> mem by (metis nth_append_length)
  have "\<exists>a \<in> set (memory s'). long_url a" using \<open>long_url a\<close> s' by auto
  then show ?thesis
    using getApplication_long [OF s'(2) n last] listApplications_long [OF s'(2)] s' init_long [of "restarted_registry s'"]
    by (simp add: public_id restarted_registry_def)
qed

section \<open>Ports of Node and Python applications\<close>

lemma ensureServer_ok:
  "is_string v \<Longrightarrow> str_of v \<noteq> [] \<Longrightarrow> ad_server d (str_of v) \<Longrightarrow> ensureServer d v = Inr ()"
  by (simp add: ensureServer_def)

text \<open>C15 Where a direct Node application has a port, a Python application of the same server with that port is still
  created: only the ports of Python applications are looked at, and both are then served on the port.\<close>

theorem python_takes_a_node_port:
  assumes "loaded s" "writes s = []" "chain_ok s" "a \<in> set (memory s)" "direct_node a"
    and "ap_serverId a = jget v ''serverId''" "ensureServer d (jget v ''serverId'') = Inr ()"
    and c: "normalizePythonConfig d (jget v ''repositoryUrl'') (arg v ''branch'' (JStr ''main'')) (arg v ''runtime'' (JObj []))
      (arg v ''retention'' (JInt 5)) = Inr c" "jget (cf_runtime c) ''port'' = owned_port a"
    and "arg v ''applicationId'' JNull = JNull" "assertUuid (JStr fresh) ''applicationId'' = Inr i" "JStr fresh \<notin> ap_id ` set (memory s)"
    and "toISOString now = Inr t" "validateName (jget v ''name'') = Inr name"
    and free: "\<forall>b \<in> set (memory s). ap_serverId b = ap_serverId a \<and> ap_type b = JStr ''python'' \<longrightarrow>
      \<not> strict_eq (jget (ap_runtime b) ''port'') (owned_port a)" "is_string (ap_serverId a)"
  shows "\<exists>w s' b. createPythonApplication d now fresh v s = (Inr w, s') \<and> memory s' = memory s @ [b] \<and>
    ap_type b = JStr ''python'' \<and> ap_serverId b = ap_serverId a \<and> owned_port b = owned_port a"
proof -
  let ?b = "(baseApplication (JStr fresh) (jget v ''serverId'') name ''python'' c (JStr t))"
  have names: "\<exists>x. pythonServiceName d (JStr fresh) = Inr x" "\<exists>x. pythonSocketPath (JStr fresh) = Inr x"
    using assms(11) by (simp_all add: pythonServiceName_def pythonSocketPath_def)
  then obtain service socket where so: "pythonServiceName d (JStr fresh) = Inr service" "pythonSocketPath (JStr fresh) = Inr socket"
    by blast
  define b where "b = ?b\<lparr>ap_serviceName := JStr service, ap_socketPath := JStr socket,
    ap_servicePort := nullish (jget (ap_runtime ?b) ''port'') JNull,
    ap_healthPath := jget (ap_runtime ?b) ''healthPath'', ap_proxyTarget := python_proxy (ap_runtime ?b)\<rparr>"
  have b: "ap_id b = JStr fresh" "ap_serverId b = ap_serverId a" "ap_type b = JStr ''python''" "owned_port b = owned_port a"
    using c(2) assms(6) by (simp_all add: b_def owned_port_def)
  have free': "python_port_conflict (jget v ''serverId'') (memory s) c = Inr ()"
    using free c(2) assms(6) strict_eq_string by (auto simp: python_port_conflict_def port_conflict_def list_ex_iff)
  have none: "find (\<lambda>c. strict_eq (ap_id c) (ap_id b)) (memory s) = None"
    using assms(12) b by (force simp: find_None_iff image_iff)
  have persist: "\<exists>s'. persist_apps (s\<lparr>memory := memory s @ [b]\<rparr>) = (Inr (), s') \<and> memory s' = memory s @ [b]"
    using assms(2,3) by (auto simp: persist_apps_def persist_chained_def write_file_def write_ok_def)
  have "\<not> is_nullish v" using free(2) assms(6) by (cases v) (auto simp: jget_def)
  have "\<exists>w s'. add_application d v (\<lambda>apps. python_port_conflict (jget v ''serverId'') apps c) b s = (Inr w, s') \<and> memory s' = memory s @ [b]"
    using none persist free' assms(10) by (auto simp: add_application_def existingApplication_def sbind_apply)
  moreover have "createPythonApplication d now fresh v s =
      add_application d v (\<lambda>apps. python_port_conflict (jget v ''serverId'') apps c) b s"
    using assms(1,7,10,13,14) c(1) so \<open>\<not> is_nullish v\<close>
    by (auto simp: createPythonApplication_def create_application_def sbind_apply init_loaded application_id_def Let_def b_def
        arg_def)
  ultimately show ?thesis using b by auto
qed

text \<open>A direct Node application on port 3100, then a Python application that asks for the port.\<close>

definition python_request :: js where
  "python_request = JObj [(''serverId'', JStr ''s1''), (''name'', JStr ''api''),
     (''repositoryUrl'', JStr ''https://github.com/owner/api''), (''runtime'', JObj [(''entryPoint'', JStr ''app:app''), (''port'', JInt 3100)])]"

definition shop_registry :: app_store where
  "shop_registry = snd (createNodeApplication shop_deps 0 node_id (node_request ''https://github.com/owner/shop'' 3100) (new_registry True []))"

lemma shop_registry_facts: "loaded shop_registry \<and> writes shop_registry = [] \<and> chain_ok shop_registry \<and>
    map (\<lambda>a. (ap_id a, ap_serverId a, ap_type a, direct_node a, owned_port a)) (memory shop_registry) =
    [(JStr node_id, JStr ''s1'', JStr ''node'', True, JInt 3100)]"
  by code_simp

definition api_config :: app_config where
  "api_config = (case normalizePythonConfig shop_deps (jget python_request ''repositoryUrl'') (arg python_request ''branch'' (JStr ''main''))
     (arg python_request ''runtime'' (JObj [])) (arg python_request ''retention'' (JInt 5)) of Inr c \<Rightarrow> c | Inl _ \<Rightarrow> php_config)"

theorem python_takes_a_node_port_witness:
  "\<exists>w s' a b. createPythonApplication shop_deps 0 ''7c9e6679-7425-40de-944b-e07fc1f90ae7'' python_request shop_registry = (Inr w, s') \<and>
     memory s' = [a, b] \<and> direct_node a \<and> ap_type b = JStr ''python'' \<and> ap_serverId b = ap_serverId a \<and>
     owned_port a = JInt 3100 \<and> owned_port b = JInt 3100"
proof -
  obtain a where a: "memory shop_registry = [a]" "ap_id a = JStr node_id" "ap_serverId a = JStr ''s1''" "ap_type a = JStr ''node''"
    "direct_node a" "owned_port a = JInt 3100"
    using shop_registry_facts by (cases "memory shop_registry") auto
  have config: "normalizePythonConfig shop_deps (jget python_request ''repositoryUrl'') (arg python_request ''branch'' (JStr ''main''))
     (arg python_request ''runtime'' (JObj [])) (arg python_request ''retention'' (JInt 5)) = Inr api_config"
    and port: "jget (cf_runtime api_config) ''port'' = JInt 3100" by code_simp+
  have checks: "toISOString 0 = Inr ''1970-01-01T00:00:00.000Z''" "validateName (jget python_request ''name'') = Inr (JStr ''api'')"
    "assertUuid (JStr ''7c9e6679-7425-40de-944b-e07fc1f90ae7'') ''applicationId'' = Inr ''7c9e6679-7425-40de-944b-e07fc1f90ae7''"
    "ensureServer shop_deps (jget python_request ''serverId'') = Inr ()" "jget python_request ''serverId'' = JStr ''s1''"
    "arg python_request ''applicationId'' JNull = JNull" "''7c9e6679-7425-40de-944b-e07fc1f90ae7'' \<noteq> node_id" by code_simp+
  have "\<exists>w s' b. createPythonApplication shop_deps 0 ''7c9e6679-7425-40de-944b-e07fc1f90ae7'' python_request shop_registry = (Inr w, s') \<and>
     memory s' = memory shop_registry @ [b] \<and> ap_type b = JStr ''python'' \<and> ap_serverId b = ap_serverId a \<and> owned_port b = owned_port a"
    by (rule python_takes_a_node_port [OF _ _ _ _ _ _ _ config]) (use shop_registry_facts port checks a in simp_all)
  with a show ?thesis by auto
qed

text \<open>An address of 298 characters, which is accepted and completed to 302.\<close>

definition long_address :: "string \<Rightarrow> string" where
  "long_address suffix = ''https://github.com/owner/'' @ replicate 273 (CHR ''a'') @ suffix"

theorem accepted_urls_block_the_registry_witness:
  "\<exists>w s'. createNodeApplication shop_deps 0 node_id (node_request (long_address []) 3100) (new_registry True []) = (Inr w, s') \<and>
     has_path s' \<and> (\<exists>e. fst (listApplications shop_deps s') = Inl e) \<and> (\<exists>e. fst (init_apps shop_deps (restarted_registry s')) = Inl e)"
proof -
  have created: "is_ok (fst (createNodeApplication shop_deps 0 node_id (node_request (long_address []) 3100) (new_registry True []))) \<and>
    has_path (snd (createNodeApplication shop_deps 0 node_id (node_request (long_address []) 3100) (new_registry True [])))" by code_simp
  have url: "normalizeGithubRepositoryUrl (ad_url shop_deps) (jget (node_request (long_address []) 3100) ''repositoryUrl'') = Inr (long_address ''.git'') \<and>
    300 < length (long_address ''.git'') \<and> arg (node_request (long_address []) 3100) ''applicationId'' JNull = JNull" by code_simp
  obtain w s' where run: "createNodeApplication shop_deps 0 node_id (node_request (long_address []) 3100) (new_registry True []) = (Inr w, s')"
    using created by (cases "createNodeApplication shop_deps 0 node_id (node_request (long_address []) 3100) (new_registry True [])")
      (auto elim: is_ok.elims)
  with created have "has_path s'" by simp
  with run url show ?thesis using accepted_urls_block_the_registry [OF run] by blast
qed

end
