(* ===== verification/ReleaseHistory.thy ===== *)
theory ReleaseHistory
  imports ApplicationRegistry
begin

text \<open>
  The retained releases of an application (\<open>trimReleaseHistory\<close> of
  \<open>apps/api/src/application-registry.js\<close>): what the two passes keep, and the bound they respect.
\<close>

definition rid :: "js \<Rightarrow> js" where
  "rid r = jget r ''releaseId''"

lemma in_ids: "list_ex (\<lambda>e. rid e = x) rs \<longleftrightarrow> x \<in> rid ` set rs"
  by (auto simp: list_ex_iff)

lemma keep_releases_ids:
  "set (map rid (keep_releases P kept rs)) = set (map rid kept) \<union> {x \<in> set (map rid rs). P x}"
  by (induction rs arbitrary: kept) (auto simp: in_ids rid_def [symmetric])

lemma keep_releases_sound:
  "distinct (map rid kept) \<Longrightarrow>
   distinct (map rid (keep_releases P kept rs)) \<and> set (keep_releases P kept rs) \<subseteq> set kept \<union> set rs"
proof (induction rs arbitrary: kept)
  case (Cons r rs)
  let ?kept = "if P (rid r) \<and> rid r \<notin> set (map rid kept) then kept @ [r] else kept"
  have "distinct (map rid ?kept)" using Cons.prems by auto
  from Cons.IH [OF this] show ?case by (auto simp: in_ids rid_def [symmetric] split: if_splits)
qed simp

lemma fill_releases_sound:
  "distinct (map rid kept) \<Longrightarrow> length kept \<le> n \<Longrightarrow>
   distinct (map rid (fill_releases n kept rs)) \<and> set (fill_releases n kept rs) \<subseteq> set kept \<union> set rs \<and>
   length (fill_releases n kept rs) \<le> n \<and> set (map rid kept) \<subseteq> set (map rid (fill_releases n kept rs)) \<and>
   (length (fill_releases n kept rs) < n \<longrightarrow> set (map rid (fill_releases n kept rs)) = set (map rid kept) \<union> set (map rid rs))"
proof (induction rs arbitrary: kept)
  case (Cons r rs)
  show ?case
  proof (cases "n \<le> length kept")
    case True
    then show ?thesis using Cons.prems by auto
  next
    case False
    let ?kept = "if rid r \<in> set (map rid kept) then kept else kept @ [r]"
    have "distinct (map rid ?kept)" "length ?kept \<le> n" using Cons.prems False by auto
    note IH = Cons.IH [OF this]
    have "fill_releases n kept (r # rs) = fill_releases n ?kept rs" using False by (simp add: in_ids rid_def [symmetric])
    then show ?thesis using IH by (simp only:) (auto split: if_splits)
  qed
qed auto

definition release_ids :: "application \<Rightarrow> js list" where
  "release_ids a = map rid (arr_of (ap_releases a))"

lemma trim_filled:
  assumes "ap_retention a = JInt r" "2 \<le> r"
  defines "b \<equiv> trimReleaseHistory a"
  shows "distinct (release_ids b)" "set (arr_of (ap_releases b)) \<subseteq> set (arr_of (ap_releases a))" "length (release_ids b) \<le> nat r"
    "length (release_ids b) < nat r \<Longrightarrow> set (release_ids b) = set (release_ids a)"
    "x \<in> {ap_currentReleaseId a, ap_previousReleaseId a} \<Longrightarrow> truthy x \<Longrightarrow> x \<in> set (release_ids a) \<Longrightarrow> x \<in> set (release_ids b)"
proof -
  let ?wanted = "\<lambda>i. i \<in> set (filter truthy [ap_currentReleaseId a, ap_previousReleaseId a])"
  let ?rs = "arr_of (ap_releases a)"
  define kept where "kept = keep_releases ?wanted [] ?rs"
  define filled where "filled = fill_releases (nat r) kept ?rs"
  have kept: "distinct (map rid kept)" "set kept \<subseteq> set ?rs" "set (map rid kept) = {x \<in> set (map rid ?rs). ?wanted x}"
    using keep_releases_sound [of "[]" ?wanted ?rs] keep_releases_ids [of ?wanted "[]" ?rs] by (simp_all add: kept_def)
  have "set (map rid kept) \<subseteq> set [ap_currentReleaseId a, ap_previousReleaseId a]" using kept(3) by auto
  then have "card (set (map rid kept)) \<le> card (set [ap_currentReleaseId a, ap_previousReleaseId a])"
    by (intro card_mono) simp_all
  also have "\<dots> \<le> 2" using card_length [of "[ap_currentReleaseId a, ap_previousReleaseId a]"] by simp
  finally have "length kept \<le> nat r" using assms(2) distinct_card [OF kept(1)] by simp
  note filled = fill_releases_sound [OF kept(1) this, of ?rs, folded filled_def]
  have b: "arr_of (ap_releases b) = filled"
    using filled assms(1) by (simp add: b_def trimReleaseHistory_def Let_def kept_def filled_def)
  show "distinct (release_ids b)" "length (release_ids b) \<le> nat r" using filled by (simp_all add: release_ids_def b)
  show "set (arr_of (ap_releases b)) \<subseteq> set ?rs" using filled kept(2) by (auto simp: b)
  show "set (release_ids b) = set (release_ids a)" if "length (release_ids b) < nat r"
    using that filled kept(3) by (auto simp: release_ids_def b)
  show "x \<in> set (release_ids b)" if "x \<in> {ap_currentReleaseId a, ap_previousReleaseId a}" "truthy x" "x \<in> set (release_ids a)"
  proof -
    have "x \<in> {x \<in> set (map rid ?rs). ?wanted x}" using that by (auto simp: release_ids_def)
    then have "x \<in> set (map rid kept)" by (simp only: kept(3))
    then show ?thesis using filled by (auto simp: release_ids_def b)
  qed
qed

text \<open>C17 The trimmed history has no release twice and none that was not there, is as long as the retention and the
  number of different releases allow, and keeps the current and the previous release where they were in it.\<close>

theorem trimmed_history_keeps_what_serves:
  assumes "ap_retention a = JInt r" "2 \<le> r"
  shows "distinct (release_ids (trimReleaseHistory a)) \<and>
    set (arr_of (ap_releases (trimReleaseHistory a))) \<subseteq> set (arr_of (ap_releases a)) \<and>
    length (release_ids (trimReleaseHistory a)) = min (nat r) (card (set (release_ids a))) \<and>
    (\<forall>x \<in> {ap_currentReleaseId a, ap_previousReleaseId a}. truthy x \<and> x \<in> set (release_ids a) \<longrightarrow>
       x \<in> set (release_ids (trimReleaseHistory a)))"
proof -
  let ?b = "trimReleaseHistory a"
  note trim = trim_filled [OF assms]
  have sub: "set (release_ids ?b) \<subseteq> set (release_ids a)" using trim(2) by (auto simp: release_ids_def)
  have "length (release_ids ?b) = card (set (release_ids ?b))" using distinct_card [OF trim(1)] by (rule sym)
  moreover have "card (set (release_ids ?b)) \<le> card (set (release_ids a))" by (rule card_mono [OF _ sub]) (rule finite_set)
  moreover have "length (release_ids ?b) < nat r \<Longrightarrow> card (set (release_ids ?b)) = card (set (release_ids a))"
    by (drule trim(4)) (rule arg_cong)
  ultimately have count: "length (release_ids ?b) = min (nat r) (card (set (release_ids a)))"
    using trim(3) by linarith
  have "\<forall>x \<in> {ap_currentReleaseId a, ap_previousReleaseId a}. truthy x \<and> x \<in> set (release_ids a) \<longrightarrow> x \<in> set (release_ids ?b)"
    by (intro ballI impI, elim conjE) (rule trim(5))
  then show ?thesis by (intro conjI trim(1) trim(2) count)
qed

text \<open>Three releases, of which the oldest is the current one, with a retention of two.\<close>

definition rolled_back :: application where
  "rolled_back = (application_of (JObj [(''retention'', JInt 2), (''currentReleaseId'', JStr ''a''), (''previousReleaseId'', JNull)]))
     \<lparr>ap_releases := JArr [JObj [(''releaseId'', JStr ''c'')], JObj [(''releaseId'', JStr ''b'')], JObj [(''releaseId'', JStr ''a'')]]\<rparr>"

theorem trimmed_history_keeps_what_serves_witness:
  "release_ids (trimReleaseHistory rolled_back) = [JStr ''a'', JStr ''c''] \<and> distinct (release_ids (trimReleaseHistory rolled_back))"
proof
  show "release_ids (trimReleaseHistory rolled_back) = [JStr ''a'', JStr ''c'']" by code_simp
  have "ap_retention rolled_back = JInt 2" by (simp add: rolled_back_def application_of_def)
  then show "distinct (release_ids (trimReleaseHistory rolled_back))"
    using trimmed_history_keeps_what_serves [of rolled_back 2] by simp
qed

end
