(* ===== verification/ApplicationDeployments.thy ===== *)
theory ApplicationDeployments
  imports ApplicationGuarantees ReleaseHistory
begin

text \<open>
  What a deployment or a roll back has changed when the registry of applications answers it, and that a
  report it refuses changes nothing.
\<close>

section \<open>Operations that return\<close>

lemma change_application_returns:
  assumes "change_application d i m s = (Inr w, s')"
  obtains n a b go where "requireApplication (memory s) i = Inr n" "hydrateApplication d (memory s ! n) = (Inr (), a)"
    "m a = (Inr go, b)" "memory s' = (memory s)[n := b]" "w = publicApplication b"
    "go \<and> has_path s' \<longrightarrow> disk s' = JsonFile (stored_applications (memory s'))"
proof -
  from assms obtain y t where y: "on_application i (sbind (hydrateApplication d) (\<lambda>_. m)) s = (Inr y, t)"
    and rest: "(case y of (go, a) \<Rightarrow> sbind (if go then persist_apps else sret ()) (\<lambda>_. sret (publicApplication a))) t = (Inr w, s')"
    unfolding change_application_def by (rule sbind_returnsE)
  from y obtain n go b where on: "requireApplication (memory s) i = Inr n"
    "sbind (hydrateApplication d) (\<lambda>_. m) (memory s ! n) = (Inr go, b)" "y = (go, b)" "t = s\<lparr>memory := (memory s)[n := b]\<rparr>"
    by (rule on_application_returnsE)
  from on(2) obtain u a where "hydrateApplication d (memory s ! n) = (Inr u, a)" "m a = (Inr go, b)" by (rule sbind_returnsE)
  moreover have "memory s' = (memory s)[n := b] \<and> w = publicApplication b \<and>
      (go \<and> has_path s' \<longrightarrow> disk s' = JsonFile (stored_applications (memory s')))"
    using rest on(3,4) by (auto simp: persist_apps_def dest!: persist_chained_ok elim!: sbind_returnsE split: if_splits)
  ultimately show thesis using that on(1) by simp
qed

lemma sguard_returns [simp]: "sguard bad c msg s = (Inr u, s') \<longleftrightarrow> \<not> bad \<and> s' = s"
  by (auto simp: sguard_def)

lemma legacy_guard_returns: "legacy_guard c msg c' msg' a = (Inr u, b) \<Longrightarrow> b = a \<and>
   str_in (ap_type a) [''static'', ''node'', ''python''] \<and> (ap_type a = JStr ''node'' \<longrightarrow> ap_runtimeAdapter a = JStr ''direct-systemd'')"
  by (auto simp: legacy_guard_def elim!: sbind_returnsE)

lemma serve_python_returns:
  "serve_python d r a = (Inr u, b) \<Longrightarrow> \<exists>service socket. b = a\<lparr>ap_serviceName := JStr service, ap_socketPath := JStr socket,
     ap_servicePort := nullish (jget r ''port'') JNull, ap_healthPath := nullish (jget r ''healthPath'') (JStr ''/''),
     ap_proxyTarget := python_proxy r\<rparr>"
  by (auto simp: serve_python_def elim!: sbind_returnsE) (intro exI, rule refl)

text \<open>The application after a deployment or a roll back has succeeded, up to what its kind adds.\<close>

definition taken_over :: "js \<Rightarrow> js \<Rightarrow> js \<Rightarrow> application \<Rightarrow> application \<Rightarrow> bool" where
  "taken_over release commit target a b =
     (ap_currentReleaseId b = release \<and> ap_previousReleaseId b = ap_currentReleaseId a \<and> ap_currentCommitSha b = commit \<and>
      ap_currentGitTarget b = target \<and> ap_activeDeploymentId b = JNull \<and> ap_pendingRollbackReleaseId b = JNull \<and>
      ap_state b = JStr ''active'' \<and> ap_lastError b = JNull \<and> same_config a b)"

lemma taken_over_simps: "taken_over release commit target a (take_over release commit target a)"
  by (simp add: taken_over_def take_over_def same_config_def)

lemma deployment_report_Inr:
  "deployment_report d v a = Inr (release, commit, target) \<Longrightarrow> release = ap_activeDeploymentId a \<and>
   checked_commit (jget v ''commitSha'') ''Deployment commit SHA is invalid'' = Inr commit"
  by (auto simp: deployment_report_def rguard_def split: if_splits)

text \<open>The application a deployment has assigned, before its release enters the history.\<close>

definition deployed :: "js \<Rightarrow> js \<Rightarrow> js \<Rightarrow> application \<Rightarrow> application \<Rightarrow> bool" where
  "deployed release commit target a b = (taken_over release commit target a b \<and>
     ap_retention b = ap_retention a \<and> ap_releases b = ap_releases a \<and>
     (has_runtime a \<longrightarrow> ap_activeRuntime b = ap_runtime a \<and> ap_appliedRevision b = ap_desiredRevision a))"

lemma end_deployment_returns:
  assumes "end_deployment d now v a = (Inr go, b)"
  obtains commit target c entry where "go" "deployed (ap_activeDeploymentId a) (JStr commit) target a c"
    "checked_commit (jget v ''commitSha'') ''Deployment commit SHA is invalid'' = Inr commit"
    "rid entry = ap_activeDeploymentId a"
    "b = trimReleaseHistory (c\<lparr>ap_releases := JArr (entry # filter (\<lambda>r. jget r ''releaseId'' \<noteq> ap_activeDeploymentId a) (arr_of (ap_releases a)))\<rparr>)"
proof -
  from assms obtain release commit target t c where go: "go" and report: "deployment_report d v a = Inr (release, commit, target)"
    and c: "(if ap_type a = JStr ''node'' then smod (serve_node v \<circ> apply_configuration)
            else if ap_type a = JStr ''python''
            then sbind (smod apply_configuration) (\<lambda>_. serve_python d (ap_runtime a)) else sret ())
         ((take_over release (JStr commit) target a)\<lparr>ap_lastDeployedAt := JStr t, ap_updatedAt := JStr t\<rparr>) = (Inr (), c)"
    and b: "push_release release (new_release release release commit target
       (arg v ''artifactFiles'' JNull) (arg v ''artifactBytes'' JNull) (JStr t) (runtime_or_null c) (revision_or_null c)) c = (Inr (), b)"
    unfolding end_deployment_def deploy_guard_def
    by (auto elim!: sbind_returnsE dest!: legacy_guard_returns split: prod.splits)
  note checked = deployment_report_Inr [OF report]
  then have release: "release = ap_activeDeploymentId a" by blast
  have "deployed (ap_activeDeploymentId a) (JStr commit) target a c"
    using c unfolding release
    by (auto simp: deployed_def taken_over_def take_over_def same_config_def serve_node_def apply_configuration_def has_runtime_def
        smod_then dest!: serve_python_returns split: if_splits)
  moreover from this have releases: "ap_releases c = ap_releases a" by (simp add: deployed_def)
  let ?entry = "new_release release release commit target (arg v ''artifactFiles'' JNull) (arg v ''artifactBytes'' JNull) (JStr t)
    (runtime_or_null c) (revision_or_null c)"
  have "rid ?entry = ap_activeDeploymentId a" by (simp add: rid_def new_release_def release)
  moreover have "b = trimReleaseHistory (c\<lparr>ap_releases := JArr (?entry # filter (\<lambda>r. jget r ''releaseId'' \<noteq> ap_activeDeploymentId a) (arr_of (ap_releases a)))\<rparr>)"
    using b releases by (simp add: push_release_def release)
  ultimately show thesis using checked go by (intro that) blast+
qed

lemma trim_other_fields [simp]:
  "ap_currentReleaseId (trimReleaseHistory a) = ap_currentReleaseId a" "ap_previousReleaseId (trimReleaseHistory a) = ap_previousReleaseId a"
  "ap_currentCommitSha (trimReleaseHistory a) = ap_currentCommitSha a" "ap_currentGitTarget (trimReleaseHistory a) = ap_currentGitTarget a"
  "ap_activeDeploymentId (trimReleaseHistory a) = ap_activeDeploymentId a" "ap_state (trimReleaseHistory a) = ap_state a"
  "ap_pendingRollbackReleaseId (trimReleaseHistory a) = ap_pendingRollbackReleaseId a" "ap_lastError (trimReleaseHistory a) = ap_lastError a"
  "ap_activeRuntime (trimReleaseHistory a) = ap_activeRuntime a" "ap_appliedRevision (trimReleaseHistory a) = ap_appliedRevision a"
  by (simp_all add: trimReleaseHistory_def Let_def)

lemma taken_over_trim: "taken_over release commit target a c \<Longrightarrow> taken_over release commit target a (trimReleaseHistory (c\<lparr>ap_releases := rs\<rparr>))"
  by (simp add: taken_over_def same_config_def)

text \<open>C13 When the registry answers a reported deployment, it found the operation the application was waiting for: that release is
  now current with the commit of the report, what was current is the one before it, no operation is left, the desired runtime is the
  active one, and the release and the one before it are in the history; no other application has changed, and the file holds it all.\<close>

theorem answered_deployments_take_over:
  assumes "loaded s" "markDeployed d now i v s = (Inr w, s')"
  shows "\<exists>n a b commit target. requireApplication (memory s) i = Inr n \<and> hydrateApplication d (memory s ! n) = (Inr (), a) \<and>
    memory s' = (memory s)[n := b] \<and> w = publicApplication b \<and>
    (has_path s' \<longrightarrow> disk s' = JsonFile (stored_applications (memory s'))) \<and>
    taken_over (ap_activeDeploymentId a) (JStr commit) target a b \<and>
    checked_commit (jget v ''commitSha'') ''Deployment commit SHA is invalid'' = Inr commit \<and>
    (has_runtime a \<longrightarrow> ap_activeRuntime b = ap_runtime a \<and> ap_appliedRevision b = ap_desiredRevision a) \<and>
    (\<forall>r. ap_retention a = JInt r \<and> 2 \<le> r \<and> truthy (ap_activeDeploymentId a) \<longrightarrow> ap_currentReleaseId b \<in> set (release_ids b) \<and>
       (truthy (ap_previousReleaseId b) \<and> ap_previousReleaseId b \<in> set (release_ids a) \<longrightarrow> ap_previousReleaseId b \<in> set (release_ids b)))"
proof -
  have "change_application d i (end_deployment d now v) s = (Inr w, s')"
    using assms by (simp add: markDeployed_def sbind_apply init_loaded split: if_splits)
  then obtain n a b go where n: "requireApplication (memory s) i = Inr n" "hydrateApplication d (memory s ! n) = (Inr (), a)"
    "memory s' = (memory s)[n := b]" "w = publicApplication b" and m: "end_deployment d now v a = (Inr go, b)"
    and written: "go \<and> has_path s' \<longrightarrow> disk s' = JsonFile (stored_applications (memory s'))"
    by (rule change_application_returns)
  let ?i = "ap_activeDeploymentId a"
  from m obtain commit target c entry where go: "go" and c: "deployed ?i (JStr commit) target a c" "rid entry = ?i"
    and commit: "checked_commit (jget v ''commitSha'') ''Deployment commit SHA is invalid'' = Inr commit"
    and b: "b = trimReleaseHistory (c\<lparr>ap_releases := JArr (entry # filter (\<lambda>r. jget r ''releaseId'' \<noteq> ?i) (arr_of (ap_releases a)))\<rparr>)"
    by (rule end_deployment_returns)
  let ?c = "c\<lparr>ap_releases := JArr (entry # filter (\<lambda>r. jget r ''releaseId'' \<noteq> ?i) (arr_of (ap_releases a)))\<rparr>"
  have ids: "set (release_ids ?c) = insert ?i (set (release_ids a))"
    using c(2) by (auto simp: release_ids_def rid_def)
  have cur: "ap_currentReleaseId c = ?i" using c(1) by (simp add: deployed_def taken_over_def)
  have "\<forall>r. ap_retention a = JInt r \<and> 2 \<le> r \<and> truthy ?i \<longrightarrow> ap_currentReleaseId b \<in> set (release_ids b) \<and>
       (truthy (ap_previousReleaseId b) \<and> ap_previousReleaseId b \<in> set (release_ids a) \<longrightarrow> ap_previousReleaseId b \<in> set (release_ids b))"
    using trim_filled(5) [of ?c] ids c(1) cur by (auto simp: b deployed_def)
  moreover have "taken_over ?i (JStr commit) target a b" using c(1) by (simp add: b deployed_def taken_over_trim)
  moreover have "has_runtime a \<longrightarrow> ap_activeRuntime b = ap_runtime a \<and> ap_appliedRevision b = ap_desiredRevision a"
    using c(1) by (simp add: b deployed_def)
  ultimately show ?thesis
    using n written go commit by (intro exI [of _ n] exI [of _ a] exI [of _ b] exI [of _ commit] exI [of _ target]) simp
qed

section \<open>Roll backs\<close>

lemma rollback_report_Inr:
  "rollback_report d v a = Inr (release, r) \<Longrightarrow> release = ap_pendingRollbackReleaseId a \<and> find_release a release = Some r"
  by (auto simp: rollback_report_def rguard_def rollback_target_def split: if_splits option.splits)

lemma end_rollback_returns:
  assumes "end_rollback d now v a = (Inr go, b)"
  obtains r c where "go" "find_release a (ap_pendingRollbackReleaseId a) = Some r"
    "taken_over (ap_pendingRollbackReleaseId a) (jget r ''commitSha'') (jget r ''gitTarget'') a c"
    "ap_releases c = ap_releases a" "ap_retention c = ap_retention a"
    "has_runtime a \<longrightarrow> ap_activeRuntime c = jget r ''runtime'' \<and> ap_appliedRevision c = jget r ''configurationRevision''"
    "b = trimReleaseHistory c"
proof -
  from assms obtain release r t c where go: "go" and report: "rollback_report d v a = Inr (release, r)"
    and c: "(if ap_type a = JStr ''node'' then smod (serve_node v \<circ> restore_configuration r)
            else if ap_type a = JStr ''python''
            then
              sbind (slift (normalizePythonRuntimeConfig (ad_number d) (jget r ''runtime'') False)) (\<lambda>runtime.
              sbind (smod (restore_configuration r)) (\<lambda>_. serve_python d runtime))
            else sret ())
         ((take_over release (jget r ''commitSha'') (jget r ''gitTarget'') a)\<lparr>ap_lastRolledBackAt := JStr t, ap_updatedAt := JStr t\<rparr>) = (Inr (), c)"
    and b: "b = trimReleaseHistory c"
    unfolding end_rollback_def rollback_guard_def
    by (auto elim!: sbind_returnsE dest!: legacy_guard_returns split: prod.splits)
  note checked = rollback_report_Inr [OF report]
  have "taken_over release (jget r ''commitSha'') (jget r ''gitTarget'') a c \<and> ap_releases c = ap_releases a \<and>
      ap_retention c = ap_retention a \<and>
      (has_runtime a \<longrightarrow> ap_activeRuntime c = jget r ''runtime'' \<and> ap_appliedRevision c = jget r ''configurationRevision'')"
    using c
    by (auto simp: taken_over_def take_over_def same_config_def serve_node_def restore_configuration_def has_runtime_def
        smod_then dest!: serve_python_returns elim!: sbind_returnsE split: if_splits)
  then show thesis using go checked b by (intro that) blast+
qed

text \<open>C14 When the registry answers a reported roll back, the release it had announced is in the history and current again with
  its own commit, target, runtime and revision, what was current is the one before it, and both are still in the history.\<close>

theorem answered_rollbacks_restore_the_release:
  assumes "loaded s" "markRolledBack d now i v s = (Inr w, s')"
  shows "\<exists>n a b r. requireApplication (memory s) i = Inr n \<and> hydrateApplication d (memory s ! n) = (Inr (), a) \<and>
    memory s' = (memory s)[n := b] \<and> w = publicApplication b \<and>
    (has_path s' \<longrightarrow> disk s' = JsonFile (stored_applications (memory s'))) \<and>
    find_release a (ap_pendingRollbackReleaseId a) = Some r \<and>
    taken_over (ap_pendingRollbackReleaseId a) (jget r ''commitSha'') (jget r ''gitTarget'') a b \<and>
    (has_runtime a \<longrightarrow> ap_activeRuntime b = jget r ''runtime'' \<and> ap_appliedRevision b = jget r ''configurationRevision'') \<and>
    (\<forall>k x. ap_retention a = JInt k \<and> 2 \<le> k \<and> x \<in> {ap_currentReleaseId b, ap_previousReleaseId b} \<and> truthy x \<and> x \<in> set (release_ids a) \<longrightarrow>
       x \<in> set (release_ids b))"
proof -
  have "change_application d i (end_rollback d now v) s = (Inr w, s')"
    using assms by (simp add: markRolledBack_def sbind_apply init_loaded split: if_splits)
  then obtain n a b go where n: "requireApplication (memory s) i = Inr n" "hydrateApplication d (memory s ! n) = (Inr (), a)"
    "memory s' = (memory s)[n := b]" "w = publicApplication b" and m: "end_rollback d now v a = (Inr go, b)"
    and written: "go \<and> has_path s' \<longrightarrow> disk s' = JsonFile (stored_applications (memory s'))"
    by (rule change_application_returns)
  from m obtain r c where go: "go" and r: "find_release a (ap_pendingRollbackReleaseId a) = Some r"
    and c: "taken_over (ap_pendingRollbackReleaseId a) (jget r ''commitSha'') (jget r ''gitTarget'') a c"
      "ap_releases c = ap_releases a" "ap_retention c = ap_retention a"
      "has_runtime a \<longrightarrow> ap_activeRuntime c = jget r ''runtime'' \<and> ap_appliedRevision c = jget r ''configurationRevision''"
    and b: "b = trimReleaseHistory c"
    by (rule end_rollback_returns)
  have ids: "release_ids c = release_ids a" using c(2) by (simp add: release_ids_def)
  have "\<forall>k x. ap_retention a = JInt k \<and> 2 \<le> k \<and> x \<in> {ap_currentReleaseId b, ap_previousReleaseId b} \<and> truthy x \<and> x \<in> set (release_ids a) \<longrightarrow>
       x \<in> set (release_ids b)"
    using trim_filled(5) [of c] ids c(3) by (auto simp: b)
  moreover have "taken_over (ap_pendingRollbackReleaseId a) (jget r ''commitSha'') (jget r ''gitTarget'') a b"
    using c(1) by (simp add: b taken_over_def same_config_def)
  moreover have "has_runtime a \<longrightarrow> ap_activeRuntime b = jget r ''runtime'' \<and> ap_appliedRevision b = jget r ''configurationRevision''"
    using c(4) by (simp add: b)
  ultimately show ?thesis
    using n r written go by (intro exI [of _ n] exI [of _ a] exI [of _ b] exI [of _ r]) simp
qed

section \<open>Refused reports\<close>

lemma sbind_throwsE:
  assumes "sbind m f s = (Inl e, s')"
  obtains "m s = (Inl e, s')" | x t where "m s = (Inr x, t)" "f x t = (Inl e, s')"
  using assms by (auto simp: sbind_apply split: prod.splits sum.splits)

lemma legacy_guard_throws: "legacy_guard c msg c' msg' a = (Inl e, b) \<Longrightarrow> b = a"
  by (auto simp: legacy_guard_def sguard_def elim!: sbind_throwsE split: if_splits)

lemma serve_python_never_throws: "is_ok (assertUuid (ap_id a) ''applicationId'') \<Longrightarrow> serve_python d r a \<noteq> (Inl e, b)"
  by (cases "assertUuid (ap_id a) ''applicationId''")
    (auto simp: serve_python_def pythonServiceName_def pythonSocketPath_def elim!: sbind_throwsE)

text \<open>What reading a Python application has checked that a report relies on: its identifier is a UUID, and the
  runtime of every release of its history is one the validator accepts.\<close>

definition python_typed :: "js \<Rightarrow> bool" where
  "python_typed v = python_runtime_type False v"

definition servable :: "application \<Rightarrow> bool" where
  "servable a = (is_ok (assertUuid (ap_id a) ''applicationId'') \<and>
     (\<forall>r \<in> set (arr_of (ap_releases a)). python_typed (jget r ''runtime'')))"

lemma jget_release_with: "distinct (map fst kvs) \<Longrightarrow> jget (release_with r kvs) k = (if k \<in> set (map fst kvs) then obj_get kvs k else jget r k)"
  by (simp add: release_with_def jget_def obj_get_spread)

lemma serve_python_uuid: "serve_python d r a = (Inr u, b) \<Longrightarrow> is_ok (assertUuid (ap_id a) ''applicationId'')"
  by (cases "assertUuid (ap_id a) ''applicationId''")
    (auto simp: serve_python_def pythonServiceName_def elim!: sbind_returnsE)

lemma hydrate_active_returns:
  assumes "hydrate_active (\<lambda>v. normalizePythonRuntimeConfig nt v False) a = (Inr u, b)" "python_typed (ap_runtime a)"
  shows "\<exists>v. b = a\<lparr>ap_activeRuntime := v\<rparr> \<and> (v \<noteq> JNull \<longrightarrow> python_typed v)"
proof -
  consider "ap_activeRuntime a = JUndef" | "ap_activeRuntime a = JNull" | "ap_activeRuntime a \<noteq> JUndef" "ap_activeRuntime a \<noteq> JNull"
    by blast
  then show ?thesis
  proof cases
    case 1
    with assms show ?thesis by (auto simp: hydrate_active_def sbind_apply)
  next
    case 2
    with assms(1) have "b = a" by (simp add: hydrate_active_def sbind_apply)
    with 2 show ?thesis by (intro exI [of _ JNull]) simp
  next
    case 3
    with assms(1) obtain v where v: "normalizePythonRuntimeConfig nt (ap_activeRuntime a) False = Inr v"
      and "b = a\<lparr>ap_activeRuntime := v\<rparr>"
      by (auto simp: hydrate_active_def elim!: sbind_returnsE)
    with python_runtime_sound [OF v] show ?thesis by (intro exI [of _ v]) (simp add: python_typed_def)
  qed
qed

lemma hydrate_revisions_returns:
  assumes "hydrate_revisions msg a = (Inr u, b)"
  shows "(\<exists>v. b = a\<lparr>ap_appliedRevision := v\<rparr>) \<and> \<not> configuration_invalid b"
proof -
  from assms have "b = applied_default a" "\<not> configuration_invalid b"
    by (auto simp: hydrate_revisions_def sbind_apply split: if_splits)
  moreover have "\<exists>v. applied_default a = a\<lparr>ap_appliedRevision := v\<rparr>"
  proof (cases "ap_appliedRevision a = JUndef")
    case False
    then have "applied_default a = a\<lparr>ap_appliedRevision := ap_appliedRevision a\<rparr>" by (simp add: applied_default_def)
    then show ?thesis by blast
  qed (auto simp: applied_default_def)
  ultimately show ?thesis by blast
qed

text \<open>A Python application as its history has been read.\<close>

definition python_read :: "application \<Rightarrow> bool" where
  "python_read a = (servable a \<and> (ap_currentReleaseId a \<noteq> JNull \<longrightarrow> python_typed (ap_activeRuntime a)))"

lemma hydrate_python_returns:
  assumes "hydrate_python d a = (Inr u, b)"
  shows "python_read b \<and> ap_type b = ap_type a"
proof -
  let ?nt = "ad_number d"
  from assms obtain runtime w x y releases where runtime: "python_config_of d a (ap_runtime a) = Inr runtime"
    and w: "serve_python d runtime (a\<lparr>ap_runtime := runtime\<rparr>) = (Inr (), w)"
    and x: "hydrate_active (\<lambda>v. normalizePythonRuntimeConfig ?nt v False) w = (Inr (), x)"
    and y: "hydrate_revisions ''Python application configuration state is invalid'' x = (Inr (), y)"
    and releases: "hydrate_runtime_releases y (\<lambda>v. normalizePythonRuntimeConfig ?nt v False) = Inr releases"
    and b: "b = y\<lparr>ap_releases := JArr releases\<rparr>"
    unfolding hydrate_python_def hydrate_python_history_def by (auto elim!: sbind_returnsE)
  have "python_typed runtime" using runtime
    by (auto simp: python_config_of_def normalizePythonConfig_def python_typed_def dest!: python_runtime_sound split: if_splits)
  moreover obtain service socket where w': "w = (a\<lparr>ap_runtime := runtime\<rparr>)\<lparr>ap_serviceName := JStr service, ap_socketPath := JStr socket,
     ap_servicePort := nullish (jget runtime ''port'') JNull, ap_healthPath := nullish (jget runtime ''healthPath'') (JStr ''/''),
     ap_proxyTarget := python_proxy runtime\<rparr>" using serve_python_returns [OF w] by blast
  ultimately obtain v where v: "x = w\<lparr>ap_activeRuntime := v\<rparr>" "v \<noteq> JNull \<longrightarrow> python_typed v"
    using hydrate_active_returns [OF x] by auto
  from hydrate_revisions_returns [OF y] obtain n where n: "y = x\<lparr>ap_appliedRevision := n\<rparr>" "\<not> configuration_invalid y" by blast
  have typed: "python_typed (jget r ''runtime'')" if "r \<in> set releases" for r
    using map_res_Inr_set [OF releases [unfolded hydrate_runtime_releases_def] that]
    by (auto simp: jget_release_with python_typed_def dest!: python_runtime_sound split: if_splits)
  have "ap_currentReleaseId y \<noteq> JNull \<longrightarrow> ap_activeRuntime y \<noteq> JNull" using n(2) by (auto simp: configuration_invalid_def)
  then have "ap_currentReleaseId b \<noteq> JNull \<longrightarrow> python_typed (ap_activeRuntime b)" using v n(1) by (auto simp: b)
  moreover have "is_ok (assertUuid (ap_id b) ''applicationId'')" using serve_python_uuid [OF w] by (simp add: b n(1) v(1) w')
  ultimately show ?thesis using typed by (simp add: python_read_def servable_def b n(1) v(1) w')
qed

lemma hydrate_current_target_returns: "hydrate_current_target a = Inr b \<Longrightarrow> \<exists>t. b = a\<lparr>ap_currentGitTarget := t\<rparr>"
  by (auto simp: hydrate_current_target_def Let_def split: if_splits intro: exI [of _ "ap_currentGitTarget a"])

lemma hydrate_targets_read:
  assumes "hydrate_targets a = (Inr u, b)" "python_read a"
  shows "python_read b"
proof -
  from assms(1) obtain releases t where releases: "map_res (\<lambda>r. bnd (release_target a (jget r ''gitTarget'')) (\<lambda>t.
      Inr (release_with r [(''gitTarget'', t)]))) (arr_of (ap_releases a)) = Inr releases"
    and b: "b = a\<lparr>ap_releases := JArr releases, ap_currentGitTarget := t\<rparr>"
    by (auto simp: hydrate_targets_def scatch_apply split: sum.splits prod.splits elim!: sbind_returnsE
        dest!: hydrate_current_target_returns)
  have "python_typed (jget r ''runtime'')" if "r \<in> set releases" for r
    using map_res_Inr_set [OF releases that] assms(2)
    by (auto simp: jget_release_with python_read_def servable_def)
  then show ?thesis using assms(2) by (simp add: b python_read_def servable_def)
qed

lemma hydrate_history_read:
  assumes "hydrate_history d a = (Inr u, b)" "python_read a" "ap_type a = JStr ''python''"
  shows "servable b"
  using assms
  by (auto simp: hydrate_history_def python_read_def servable_def new_release_def runtime_or_null_def has_runtime_def
      split: if_splits elim!: sbind_returnsE)

lemma keeps_type: "keeps (same_config a) m \<Longrightarrow> m a = (Inr u, b) \<Longrightarrow> ap_type b = ap_type a"
  by (drule keepsD [where s = a]) (simp_all add: same_config_def)

lemma hydrate_adapter_type: "hydrate_adapter a = (Inr u, b) \<Longrightarrow> ap_type b = ap_type a"
  by (auto simp: hydrate_adapter_def elim!: sbind_returnsE split: if_splits)

lemma hydrate_defaults_type: "ap_type (hydrate_defaults a) = ap_type a"
  by (simp add: hydrate_defaults_def Let_def)

lemma hydrate_node_type: "hydrate_node d a = (Inr u, b) \<Longrightarrow> ap_type b = ap_type a"
  by (auto simp: hydrate_node_def elim!: sbind_returnsE dest!: keeps_type [OF hydrate_node_history_config])

text \<open>A Python application that has been read is servable.\<close>

lemma hydrated_python_servable:
  assumes "hydrateApplication d a = (Inr u, b)" "ap_type b = JStr ''python''"
  shows "servable b"
proof -
  let ?a = "if truthy (ap_type a) then a else a\<lparr>ap_type := JStr ''static''\<rparr>"
  define t where "t = ap_type ?a"
  from assms(1) have "sbind hydrate_adapter (\<lambda>_. sbind (smod hydrate_defaults) (\<lambda>_. sbind hydrate_checks (\<lambda>_.
      sbind (if t = JStr ''node'' then hydrate_node d else if t = JStr ''python'' then hydrate_python d else smod hydrate_plain) (\<lambda>_.
      sbind (if t \<noteq> JStr ''php'' then hydrate_targets else hydrate_php) (\<lambda>_. hydrate_history d))))) ?a = (Inr u, b)"
    unfolding hydrateApplication_def smod_then sget_then t_def [symmetric] by (simp split: if_splits)
  then obtain a1 w x y k1 k2 k3 k4 where a1: "hydrate_adapter ?a = (Inr k1, a1)"
    and w: "hydrate_checks (hydrate_defaults a1) = (Inr k2, w)"
    and x: "(if t = JStr ''node'' then hydrate_node d else if t = JStr ''python'' then hydrate_python d else smod hydrate_plain) w = (Inr k3, x)"
    and y: "(if t \<noteq> JStr ''php'' then hydrate_targets else hydrate_php) x = (Inr k4, y)"
    and b: "hydrate_history d y = (Inr u, b)"
    by (elim sbind_returnsE) (simp only: smod_apply prod.inject)
  have wt: "ap_type w = t"
    using keeps_type [OF hydrate_checks_config w] hydrate_adapter_type [OF a1] by (simp only: hydrate_defaults_type t_def)
  have "ap_type y = ap_type x" using y
    by (cases "t = JStr ''php''") (simp_all add: keeps_type [OF hydrate_php_config] keeps_type [OF hydrate_targets_config])
  moreover have "ap_type b = ap_type y" by (rule keeps_type [OF hydrate_history_config b])
  moreover have "ap_type x = t"
    using x wt hydrate_node_type hydrate_python_returns
    by (auto simp: hydrate_plain_def applied_default_def Let_def split: if_splits)
  ultimately have t: "t = JStr ''python''" "ap_type y = JStr ''python''" using assms(2) by simp_all
  from x t(1) have "python_read x" using hydrate_python_returns by simp
  with y t(1) have "python_read y" using hydrate_targets_read by simp
  then show ?thesis using hydrate_history_read [OF b _ t(2)] by simp
qed

text \<open>C18 A deployment or roll back report of any application, read as the registry reads it, that its checks refuse leaves the
  application as it was read. In particular the runtime of the release a Python roll back returns to, which
  \<open>markRolledBack\<close> validates after its first assignments, is never one it refuses.\<close>

theorem refused_reports_change_nothing:
  assumes "hydrateApplication d a0 = (Inr (), a)"
    and "end_deployment d now v a = (Inl e, b) \<or> end_rollback d now v a = (Inl e, b)"
  shows "b = a"
proof (cases "ap_type a = JStr ''python''")
  case True
  with assms(1) have s: "servable a" by (rule hydrated_python_servable)
  then have i: "is_ok (assertUuid (ap_id a) ''applicationId'')" by (simp add: servable_def)
  have r: "normalizePythonRuntimeConfig nt (jget r ''runtime'') False = Inr (jget r ''runtime'')"
    if "find_release a i = Some r" for i r nt
    using s find_SomeD [OF that [unfolded find_release_def]]
    by (auto simp: servable_def python_typed_def intro: python_runtime_complete)
  from assms(2) i show ?thesis
    by (auto simp: True r end_deployment_def end_rollback_def deploy_guard_def rollback_guard_def push_release_def
      apply_configuration_def restore_configuration_def take_over_def serve_python_never_throws
      elim!: sbind_throwsE dest!: legacy_guard_throws legacy_guard_returns rollback_report_Inr split: prod.splits if_splits)
next
  case False
  with assms(2) show ?thesis
    by (auto simp: end_deployment_def end_rollback_def deploy_guard_def rollback_guard_def push_release_def
      apply_configuration_def take_over_def
      elim!: sbind_throwsE dest!: legacy_guard_throws legacy_guard_returns split: prod.splits if_splits)
qed

text \<open>A static application, its first deployment, a second one and the roll back to the first.\<close>

definition first_release :: js where
  "first_release = JStr ''7c9e6679-7425-40de-944b-e07fc1f90ae7''"

definition second_release :: js where
  "second_release = JStr ''16fd2706-8baf-433b-82eb-8c7fada847da''"

definition roll_back :: js where
  "roll_back = JStr ''6fa459ea-ee8a-4ca4-894e-db77e160355e''"

definition report :: "js \<Rightarrow> js" where
  "report release = JObj [(''deploymentId'', release), (''releaseId'', release), (''commitSha'', JStr (replicate 40 (CHR ''A'')))]"

definition waiting_site :: app_store where
  "waiting_site = run_apps shop_deps [CreateStatic 0 node_id (JObj [(''serverId'', JStr ''s1''), (''name'', JStr ''site''),
       (''repositoryUrl'', JStr ''https://github.com/o/site'')]), Deploying 0 (JStr node_id) first_release] (new_registry False [])"

theorem answered_deployments_take_over_witness:
  "\<exists>w s' n a b commit target. markDeployed shop_deps 0 (JStr node_id) (report first_release) waiting_site = (Inr w, s') \<and>
     memory s' = (memory waiting_site)[n := b] \<and> w = publicApplication b \<and>
     taken_over (ap_activeDeploymentId a) (JStr commit) target a b"
proof -
  let ?m = "markDeployed shop_deps 0 (JStr node_id) (report first_release) waiting_site"
  have "loaded waiting_site" "is_ok (fst ?m)" by code_simp+
  moreover from this obtain w s' where run: "?m = (Inr w, s')" by (cases ?m) (auto elim: is_ok.elims)
  ultimately show ?thesis using answered_deployments_take_over [OF _ run] by blast
qed

definition kept_release :: "js \<Rightarrow> char \<Rightarrow> js" where
  "kept_release i c = new_release i i (replicate 40 c) (JObj [(''kind'', JStr ''branch''), (''value'', JStr ''main'')]) JNull JNull
     (JStr ''1970-01-01T00:00:00.000Z'') JNull JNull"

definition rolling_site :: app_store where
  "rolling_site = (new_registry False [])\<lparr>loaded := True, memory :=
     [(baseApplication (JStr node_id) (JStr ''s1'') (JStr ''site'') ''static''
         \<lparr>cf_repositoryUrl = JStr ''https://github.com/o/site.git'', cf_branch = JStr ''main'', cf_build = JNull, cf_runtime = JNull,
          cf_retention = JInt 5, cf_runtimeAdapter = JNull\<rparr> (JStr ''1970-01-01T00:00:00.000Z''))
       \<lparr>ap_state := JStr ''rolling_back'', ap_currentReleaseId := second_release, ap_previousReleaseId := first_release,
        ap_currentCommitSha := JStr (replicate 40 (CHR ''b'')), ap_activeDeploymentId := roll_back, ap_pendingRollbackReleaseId := first_release,
        ap_releases := JArr [kept_release second_release (CHR ''b''), kept_release first_release (CHR ''a'')]\<rparr>]\<rparr>"

definition roll_back_report :: js where
  "roll_back_report = JObj [(''operationId'', roll_back), (''releaseId'', first_release)]"

theorem answered_rollbacks_restore_the_release_witness:
  "\<exists>w s' n a b r. markRolledBack shop_deps 0 (JStr node_id) roll_back_report rolling_site = (Inr w, s') \<and>
     memory s' = (memory rolling_site)[n := b] \<and> find_release a (ap_pendingRollbackReleaseId a) = Some r \<and>
     taken_over (ap_pendingRollbackReleaseId a) (jget r ''commitSha'') (jget r ''gitTarget'') a b"
proof -
  let ?m = "markRolledBack shop_deps 0 (JStr node_id) roll_back_report rolling_site"
  have "loaded rolling_site" "is_ok (fst ?m)" by code_simp+
  moreover from this obtain w s' where run: "?m = (Inr w, s')" by (cases ?m) (auto elim: is_ok.elims)
  ultimately show ?thesis using answered_rollbacks_restore_the_release [OF _ run] by blast
qed

text \<open>The same registry refuses the report of another deployment.\<close>

definition hydrated_site :: application where
  "hydrated_site = snd (hydrateApplication shop_deps (hd (memory rolling_site)))"

theorem refused_reports_change_nothing_witness:
  "\<exists>e b. end_deployment shop_deps 0 (report second_release) hydrated_site = (Inl e, b) \<and> b = hydrated_site"
proof -
  let ?a = hydrated_site
  let ?h = "hydrateApplication shop_deps (hd (memory rolling_site))"
  let ?m = "end_deployment shop_deps 0 (report second_release) ?a"
  have "\<not> is_ok (fst ?m)" "fst ?h = Inr ()" by code_simp+
  moreover from this obtain e b where run: "?m = (Inl e, b)" by (cases ?m) (auto elim: is_ok.elims)
  moreover have "?h = (Inr (), ?a)" using calculation(2) by (simp add: hydrated_site_def prod_eq_iff)
  ultimately show ?thesis using refused_reports_change_nothing by blast
qed

end
