(* ===== verification/Spec2Isabelle.thy ===== *)
theory Spec2Isabelle
  imports OrchestratorGuarantees DurableGuarantees SpecGuarantees SiteGuarantees
    ResultGuarantees DomainGuarantees RuntimeGuarantees LockGuarantees
    JobLogPages ApplicationErrors ApplicationDeployments
begin

text \<open>
  A verification development of the durable control plane of yunpanel: the part of the panel process that
  decides which host operation runs, when, and what is written down about it. Paths are relative to \<open>src/\<close>,
  \<open>api\<close> stands for \<open>apps/api/src\<close> and \<open>shared\<close> for \<open>packages/shared/src\<close>.

  \<^bold>\<open>The program.\<close> The panel accepts requests, checks them, and records host operations as jobs in a file. A
  job queue hands the jobs out one at a time; a durable queue around it keeps a second file with the jobs that
  were interrupted and holds everything back while some are unexplained. One process per server, the holder
  of a lock file, runs an executor: it claims a job, calls the host, saves the result after a check against
  the request, reconciles the resource and acknowledges. The creation of a website is a longer operation:
  a registry journals its steps in a file, and an orchestrator applies, inspects, retries and compensates them.
  What is deployed of each application, its releases, ports and configuration, is kept by the registry of
  applications, which the results of jobs and of website operations move forward.

  \<^bold>\<open>Foundations.\<close>
  \<^item> \<open>Prelude\<close>: errors as values (\<open>jerr\<close>, \<open>'a res\<close>), the state monad \<open>sm\<close> of the handlers, its triples
    (\<open>hoare\<close>) and invariants (\<open>keeps\<close>) with their rule collections, operations that begin with an
    initialisation (\<open>begins_with\<close>), lists.
  \<^item> \<open>JsValue\<close>: JavaScript values, the operators and string functions the source uses. \<open>JsClock\<close>: \<open>toISOString\<close>
    and its inverse. \<open>FileStore\<close>: the file a registry rewrites, with a list of write outcomes and the
    chain of writes that stays rejected once one has failed.

  \<^bold>\<open>Website provisioning.\<close>
  \<^item> \<open>ProvisioningPlan\<close> (\<open>api/website-provisioning-plan.js\<close>, \<open>-compensation-order.js\<close>) and \<open>ProvisioningRegistry\<close>
    (\<open>-registry.js\<close>): plans, steps with their two state machines, and every request of the registry on
    a state of memory, file and write chain. \<open>ProvisioningProofs\<close> relates a request to an edge of the
    life cycle (\<open>phase_edge\<close>), \<open>ProvisioningRun\<close> follows sequences of requests, \<open>ProvisioningGuarantees\<close>
    holds the properties: well-formedness, persistence, order of compensation, idempotence, and what a
    failed write and a rejected compensation leave.
  \<^item> \<open>Orchestrator\<close> (\<open>-orchestrator.js\<close>): \<open>runNext\<close>, \<open>retryStep\<close>, \<open>compensateStep\<close> over a registry and handlers
    that are arguments. \<open>OrchestratorProofs\<close>, \<open>OrchestratorJournal\<close>, \<open>OrchestratorGuarantees\<close>: host changes
    are journaled first, in plan order, and an operation becomes ready when all goes well.

  \<^bold>\<open>Jobs.\<close>
  \<^item> \<open>JobRegistry\<close> (\<open>api/job-registry.js\<close>): enqueue, claim, complete, cancel and the reads. \<open>JobProofs\<close> has the step
    relation of the list of jobs (\<open>jobs_step\<close>), \<open>JobGuarantees\<close> the properties: one active job per resource,
    forward status, first-in first-out claims against an abstract queue, idempotent requests, restarts.
  \<^item> \<open>ResultChecks\<close>, \<open>JobResults\<close> (\<open>sanitizeResult\<close> and the modules \<open>api/*-job-result.js\<close>): what is kept of a result.
    \<open>ResultGuarantees\<close>: an accepted result implements its job, and every recorded one was accepted.
  \<^item> \<open>JobRecovery\<close> (\<open>api/job-recovery-store.js\<close>), \<open>DurableJobs\<close> (\<open>api/durable-job-registry.js\<close>): the record of
    interrupted jobs and the queue around the registry. The two things the durable queue wraps are
    interfaces, the locales \<open>recovery_log\<close> (in \<open>DurableProofs\<close>) and \<open>job_queue\<close> (in \<open>DurableQueue\<close>), whose
    lemmas carry the properties; \<open>DurableGuarantees\<close> interprets them on \<open>JobRecovery\<close> and \<open>JobRegistry\<close>.
  \<^item> \<open>LocalExecutor\<close> (\<open>api/local-job-executor.js\<close>): claim, execution, completion, reconciliation, the latch of faults
    and the polling. \<open>ExecutorProofs\<close> has the locales \<open>queue_invariant\<close> and \<open>queue_change\<close>, which carry a fact
    about the wrapped registry through every request of the durable queue, interpreted on the fact that
    executed jobs are not queued again; \<open>ExecutorGuarantees\<close> has the composition with the durable queue:
    at most one execution of a job over all runs, requests, failures and restarts.
  \<^item> \<open>LocalLock\<close> (\<open>api/local-execution-lock.js\<close>): acquisition and release as single calls of the file system that
    any number of processes interleave (\<open>lock_reaches\<close>). \<open>LockGuarantees\<close>: mutual exclusion by rule induction for
    runs in which no takeover of a stale lock is disturbed, the run with two holders without that condition,
    and a bound on the calls of an acquisition.
  \<^item> \<open>LocalRuntime\<close> (\<open>api/local-runtime.js\<close>): recovery, start, roll back and closing. \<open>RuntimeGuarantees\<close>: a start that
    returns has nothing to recover, one that throws leaves nothing running, interrupted jobs block it.

  \<^item> \<open>JobLog\<close> (\<open>api/job-log-store.js\<close>, the cuts of \<open>shared/log-safety.js\<close>): the log of a job, its file, the cleanup of
    the directory, and queries in pages. \<open>JobLogProofs\<close>: the validator as a predicate, the loops as list
    functions, the invariant every call keeps. \<open>JobLogGuarantees\<close>: a log is the longest tail of its lines that
    fits, what is read back after a restart, which logs a cleanup removes. \<open>JobLogPages\<close>: following the cursors.

  \<^bold>\<open>Applications.\<close>
  \<^item> \<open>ApplicationRegistry\<close> (\<open>api/application-registry.js\<close>): the record of an application, its completion and check when it
    is read back (\<open>hydrateApplication\<close>, in the parts of its text), the trim of the release history, the file,
    the four creations and the allocation of ports. \<open>ApplicationOperations\<close>: deployments and roll backs in two
    phases, activation and reset of releases, the migration to Passenger, Node configurations, the reads. The
    work on one application is a function of its own (\<open>end_deployment\<close> for \<open>markDeployed\<close>, and so on), run in place
    by \<open>change_application\<close>; Passenger and Python activations are one function of a record \<open>activation\<close>.
  \<^item> \<open>ApplicationProofs\<close>: requests, and what each assignment keeps. \<open>ApplicationInvariant\<close>: the locale
    \<open>application_relation\<close>, a relation between an application before and after that the whole registry follows, with
    its interpretation \<open>managed\<close>; creations add an application apart from the others. \<open>ApplicationGuarantees\<close>:
    identifiers and ports are not shared after any requests. \<open>ReleaseHistory\<close>: what the trim keeps.
    \<open>ApplicationDeployments\<close>: what an answered or refused report has changed. \<open>ApplicationErrors\<close>: URLs that block
    the registry, and the port a Node and a Python application can share.

  \<^bold>\<open>Checks of requests.\<close>
  \<^item> \<open>ApplicationSpecs\<close>, \<open>RuntimeSpecs\<close> (\<open>shared/application.js\<close>, \<open>node-application.js\<close>, \<open>python-application.js\<close>),
    \<open>EnvironmentSpecs\<close> (\<open>application-environment.js\<close>), \<open>SiteSettings\<close> (\<open>nginx-settings.js\<close>, \<open>domain.js\<close>,
    \<open>proxy-target.js\<close>). \<open>SpecTypes\<close> says which values a validator vouches for; \<open>SpecGuarantees\<close> and
    \<open>SiteGuarantees\<close> prove that validators return these values, accept them again, and keep paths inside.
  \<^item> \<open>DomainHierarchy\<close> (\<open>api/domain-hierarchy.js\<close>): the walk over the ancestors, with its termination;
    \<open>DomainGuarantees\<close> compares the check of a hierarchy with a local reference definition.

  \<^bold>\<open>How the code is read.\<close> A handler is one step: the queues of mutations the code has (\<open>mutationTail\<close>, the chains)
  make it one, and reads between two \<open>await\<close>s of a mutation are not shown. In \<open>LocalLock\<close>, where processes
  share a file, a step is one call. A thrown error is a value with its class, code and message; HTTP status
  numbers are left out. Files hold what the code wrote: \<open>JobRegistry\<close> does not look at the jobs of a parsed
  file, so files of another origin are covered only where the code checks them. Strings are of code units
  below 256, and names inherited from \<open>Object.prototype\<close> are not members. Loops of the source are structural
  recursion or recursion with a termination proof. Only the client of \<open>JobLogPages\<close> has fuel, one page more than
  the log has entries, which is proved to be enough.

  \<^bold>\<open>What is an argument.\<close> Outside the code, or decided by the environment: clock readings, the outcome of writes and
  of other calls, identifiers of \<open>randomUUID\<close>, SHA-256 (\<open>dep_digest\<close>), whether \<open>Date.parse\<close> gives a number
  (\<open>date_ok\<close>, with the hypothesis \<open>reads_iso\<close> that it does on what \<open>toISOString\<close> writes), \<open>new URL\<close>,
  \<open>domainToASCII\<close>, \<open>isIP\<close>, the text of a non-integral number, the operation envelope of the protocol
  package, the redaction of log messages and \<open>toLocaleLowerCase\<close>, and the host operations.

  \<^bold>\<open>Not modelled.\<close> The HTTP routes and their composition (\<open>app.js\<close>, \<open>index.js\<close>, \<open>core-app.js\<close>), sessions and accounts;
  the other registries and operations (domains, websites, DNS, mail, certificates, databases,
  backups, isolation, suspension, removal), each a state machine of the same shape as those modelled; the host
  runtime, which is calls of system programs and files; the configuration templates; the web interface;
  packaging and scripts; the public view of jobs.
\<close>

end
